(* ===== verification/Prelude.thy ===== *)
theory Prelude
  imports Complex_Main
    "HOL-Library.Char_ord" "HOL-Library.List_Lexorder" "HOL-Library.Product_Lexorder"
begin

text \<open>
  Shared vocabulary of the development: the errors the backend throws, the state monad in which
  its handlers are written, a small Hoare calculus for that monad, and list lemmas.

  A handler of the backend is an asynchronous method that reads and writes state and may throw.
  Here it is a function from the state to a result (\<open>Inl\<close> of an error or \<open>Inr\<close> of a value)
  and the next state. \<open>bindM\<close> is the sequencing of \<open>await\<close> statements: an error
  skips the rest, and the state keeps what was written before it, exactly as a thrown exception
  leaves the effects that precede it.
\<close>

section \<open>Collections of facts\<close>

named_theorems monad_simps \<open>unfolding rules of the monad's operations\<close>
named_theorems run_simps \<open>what a successful run of an operation says\<close>
named_theorems hoare \<open>rules of the Hoare calculus\<close>
named_theorems enum_defs \<open>membership tables of the enumerations\<close>
named_theorems table_defs \<open>the database's table descriptors\<close>

section \<open>Errors\<close>

text \<open>
  One constructor per exception class of \<open>src/backend/src/database/database.errors.ts\<close>,
  \<open>modules/domain/domain.errors.ts\<close>, \<open>modules/auth/auth.errors.ts\<close> and
  \<open>common/errors/api-error.ts\<close>; \<open>Error\<close> is JavaScript's own class. The last three are the
  database client's documented failures: P2002 (unique constraint), P2034 (write conflict or
  deadlock) and P2025 (record required but not found). A failed check constraint is P2010.
\<close>

datatype auth_code =
    AUTHENTICATION_FAILED | AUTH_RATE_LIMITED | TOKEN_INVALID
  | REFRESH_REUSE_DETECTED | FORBIDDEN

datatype err =
    DatabaseConfigurationError string
  | DatabaseUnavailableError
  | TenantResourceNotFoundError string
  | PersistenceConflictError string
  | IdempotencyConflictError
  | InvalidEncryptedPayloadError
  | InvalidPaginationCursorError
  | IllegalDomainTransitionError string string string
  | DomainProviderError string string string
  | DomainInputError string
  | RiskPolicyValidationError
  | AuthError auth_code
  | ApiError string nat "string list"
  | Error string
  | EnvironmentValidationError "string list"
  | P2002_UniqueConstraint
  | P2034_WriteConflict
  | P2025_RecordNotFound
  | CheckConstraintViolation

section \<open>The monad\<close>

type_synonym ('s, 'a) m = "'s \<Rightarrow> (err + 'a) \<times> 's"

definition returnM :: "'a \<Rightarrow> ('s, 'a) m" where
  "returnM a = (\<lambda>s. (Inr a, s))"

definition throwM :: "err \<Rightarrow> ('s, 'a) m" where
  "throwM e = (\<lambda>s. (Inl e, s))"

definition bindM :: "('s, 'a) m \<Rightarrow> ('a \<Rightarrow> ('s, 'b) m) \<Rightarrow> ('s, 'b) m" where
  "bindM m f = (\<lambda>s. case m s of (Inl e, s') \<Rightarrow> (Inl e, s') | (Inr a, s') \<Rightarrow> f a s')"

definition thenM :: "('s, 'a) m \<Rightarrow> ('s, 'b) m \<Rightarrow> ('s, 'b) m" where
  "thenM m k = bindM m (\<lambda>_. k)"

definition catchM :: "('s, 'a) m \<Rightarrow> (err \<Rightarrow> ('s, 'a) m) \<Rightarrow> ('s, 'a) m" where
  "catchM m h = (\<lambda>s. case m s of (Inl e, s') \<Rightarrow> h e s' | (Inr a, s') \<Rightarrow> (Inr a, s'))"

definition guardM :: "bool \<Rightarrow> err \<Rightarrow> ('s, unit) m" where
  "guardM b e = (if b then returnM () else throwM e)"

definition getM :: "('s \<Rightarrow> 'a) \<Rightarrow> ('s, 'a) m" where
  "getM f = (\<lambda>s. (Inr (f s), s))"

definition modifyM :: "('s \<Rightarrow> 's) \<Rightarrow> ('s, unit) m" where
  "modifyM f = (\<lambda>s. (Inr (), f s))"

definition liftE :: "err + 'a \<Rightarrow> ('s, 'a) m" where
  "liftE r = (\<lambda>s. (r, s))"

fun mapM :: "('a \<Rightarrow> ('s, 'b) m) \<Rightarrow> 'a list \<Rightarrow> ('s, 'b list) m" where
  "mapM f [] = returnM []"
| "mapM f (x # xs) = bindM (f x) (\<lambda>y. bindM (mapM f xs) (\<lambda>ys. returnM (y # ys)))"

fun iterM :: "'a list \<Rightarrow> ('a \<Rightarrow> ('s, unit) m) \<Rightarrow> ('s, unit) m" where
  "iterM [] f = returnM ()"
| "iterM (x # xs) f = thenM (f x) (iterM xs f)"

lemma returnM_apply [monad_simps]: "returnM a s = (Inr a, s)"
  by (simp add: returnM_def)

lemma throwM_apply [monad_simps]: "throwM e s = (Inl e, s)"
  by (simp add: throwM_def)

lemma getM_apply [monad_simps]: "getM f s = (Inr (f s), s)"
  by (simp add: getM_def)

lemma modifyM_apply [monad_simps]: "modifyM f s = (Inr (), f s)"
  by (simp add: modifyM_def)

lemma liftE_apply [monad_simps]: "liftE r s = (r, s)"
  by (simp add: liftE_def)

lemma guardM_apply [monad_simps]: "guardM b e s = (if b then (Inr (), s) else (Inl e, s))"
  by (simp add: guardM_def monad_simps)

lemma bindM_Inl [simp]: "m s = (Inl e, s') \<Longrightarrow> bindM m f s = (Inl e, s')"
  by (simp add: bindM_def)

lemma bindM_Inr [simp]: "m s = (Inr a, s') \<Longrightarrow> bindM m f s = f a s'"
  by (simp add: bindM_def)

lemma thenM_apply [monad_simps]: "thenM m k s = bindM m (\<lambda>_. k) s"
  by (simp add: thenM_def)

lemma catchM_Inl [simp]: "m s = (Inl e, s') \<Longrightarrow> catchM m h s = h e s'"
  by (simp add: catchM_def)

lemma catchM_Inr [simp]: "m s = (Inr a, s') \<Longrightarrow> catchM m h s = (Inr a, s')"
  by (simp add: catchM_def)

lemma bindM_returnM [simp]: "bindM (returnM a) f = f a"
  by (simp add: bindM_def returnM_def)

lemma bindM_throwM [simp]: "bindM (throwM e) f = throwM e"
  by (simp add: bindM_def throwM_def)

lemma bindM_assoc: "bindM (bindM m f) g = bindM m (\<lambda>x. bindM (f x) g)"
  by (auto simp: bindM_def fun_eq_iff split: prod.splits sum.splits)

lemma bindM_eq_InrE:
  assumes "bindM m f s = (Inr b, s2)"
  obtains a s1 where "m s = (Inr a, s1)" and "f a s1 = (Inr b, s2)"
  using assms by (auto simp: bindM_def split: prod.splits sum.splits)

lemma thenM_eq_InrE:
  assumes "thenM m k s = (Inr b, s2)"
  obtains a s1 where "m s = (Inr a, s1)" and "k s1 = (Inr b, s2)"
  using assms by (auto simp: thenM_def elim: bindM_eq_InrE)

lemma bindM_eq_Inr_iff [run_simps]:
  "bindM m f s = (Inr b, s2) \<longleftrightarrow> (\<exists>a s1. m s = (Inr a, s1) \<and> f a s1 = (Inr b, s2))"
  by (auto simp: bindM_def split: prod.splits sum.splits)

lemma thenM_eq_Inr_iff [run_simps]:
  "thenM m k s = (Inr b, s2) \<longleftrightarrow> (\<exists>a s1. m s = (Inr a, s1) \<and> k s1 = (Inr b, s2))"
  by (auto simp: thenM_def run_simps)

lemma liftE_eq_Inr [simp]: "liftE r s = (Inr a, s') \<longleftrightarrow> r = Inr a \<and> s' = s"
  by (auto simp: monad_simps)

lemma modifyM_eq_Inr [simp]: "modifyM f s = (Inr u, s') \<longleftrightarrow> s' = f s"
  by (auto simp: monad_simps)

lemma guardM_eq_Inr [simp]: "guardM b e s = (Inr u, s') \<longleftrightarrow> b \<and> s' = s"
  by (auto simp: monad_simps)

lemma returnM_eq_Inr [simp]: "returnM a s = (Inr b, s') \<longleftrightarrow> b = a \<and> s' = s"
  by (auto simp: monad_simps)

lemma throwM_eq_Inr [simp]: "throwM e s = (Inr b, s') \<longleftrightarrow> False"
  by (auto simp: monad_simps)

lemma getM_eq_Inr [simp]: "getM f s = (Inr b, s') \<longleftrightarrow> b = f s \<and> s' = s"
  by (auto simp: monad_simps)

lemma catchM_eq_Inr_iff:
  "catchM m h s = (Inr a, s') \<longleftrightarrow>
     m s = (Inr a, s') \<or> (\<exists>e s1. m s = (Inl e, s1) \<and> h e s1 = (Inr a, s'))"
  by (auto simp: catchM_def split: prod.splits sum.splits)

text \<open>A \<open>try\<close> whose handler only tells that something was thrown.\<close>

definition tryM :: "('s, 'a) m \<Rightarrow> ('s, 'a option) m" where
  "tryM m = catchM (bindM m (\<lambda>a. returnM (Some a))) (\<lambda>_. returnM None)"

text \<open>Functions that throw but touch no state are values of the sum type alone.\<close>

definition bindE :: "err + 'a \<Rightarrow> ('a \<Rightarrow> err + 'b) \<Rightarrow> err + 'b" where
  "bindE r f = (case r of Inl e \<Rightarrow> Inl e | Inr a \<Rightarrow> f a)"

definition guardE :: "bool \<Rightarrow> err \<Rightarrow> err + unit" where
  "guardE b e = (if b then Inr () else Inl e)"

lemma bindE_simps [simp]: "bindE (Inl e) f = Inl e" "bindE (Inr a) f = f a"
  by (simp_all add: bindE_def)

lemma bindE_eq_Inr [simp]: "bindE r f = Inr b \<longleftrightarrow> (\<exists>a. r = Inr a \<and> f a = Inr b)"
  by (cases r) auto

lemma bindE_InrE:
  assumes "bindE r f = Inr b" obtains a where "r = Inr a" and "f a = Inr b"
  using assms by auto

lemma bindE_cont: "bindE r f = Inr b \<Longrightarrow> \<exists>a. f a = Inr b"
  by auto

lemma bindE_eq_Inl: "bindE r f = Inl e \<longleftrightarrow> r = Inl e \<or> (\<exists>a. r = Inr a \<and> f a = Inl e)"
  by (cases r) auto

lemma guardE_eq_Inr [simp]: "guardE b e = Inr u \<longleftrightarrow> b"
  by (simp add: guardE_def)

lemma guardE_eq_Inl [simp]: "guardE b e = Inl e' \<longleftrightarrow> \<not> b \<and> e' = e"
  by (auto simp: guardE_def)

section \<open>A Hoare calculus\<close>

text \<open>
  \<open>valid P m Q E\<close>: from a state with \<open>P\<close>, \<open>m\<close> either returns \<open>a\<close> in a state with \<open>Q a\<close> or
  throws \<open>e\<close> in a state with \<open>E e\<close>. Every \<open>m\<close> is a total function, so this is total
  correctness. \<open>keeps I m\<close> is the invariance of \<open>I\<close>, on the error exit as well.
\<close>

definition valid ::
  "('s \<Rightarrow> bool) \<Rightarrow> ('s, 'a) m \<Rightarrow> ('a \<Rightarrow> 's \<Rightarrow> bool) \<Rightarrow> (err \<Rightarrow> 's \<Rightarrow> bool) \<Rightarrow> bool"
where
  "valid P m Q E \<longleftrightarrow>
     (\<forall>s. P s \<longrightarrow> (case m s of (Inr a, s') \<Rightarrow> Q a s' | (Inl e, s') \<Rightarrow> E e s'))"

definition keeps :: "('s \<Rightarrow> bool) \<Rightarrow> ('s, 'a) m \<Rightarrow> bool" where
  "keeps I m \<longleftrightarrow> (\<forall>s. I s \<longrightarrow> I (snd (m s)))"

lemma keepsI: "(\<And>s. I s \<Longrightarrow> I (snd (m s))) \<Longrightarrow> keeps I m"
  by (simp add: keeps_def)

lemma keepsD: "keeps I m \<Longrightarrow> I s \<Longrightarrow> m s = (r, s') \<Longrightarrow> I s'"
  by (force simp: keeps_def)

lemma keeps_sndD: "keeps I m \<Longrightarrow> I s \<Longrightarrow> I (snd (m s))"
  by (simp add: keeps_def)

lemma keeps_returnM [hoare, intro]: "keeps I (returnM a)"
  by (simp add: keeps_def monad_simps)

lemma keeps_throwM [hoare, intro]: "keeps I (throwM e)"
  by (simp add: keeps_def monad_simps)

lemma keeps_getM [hoare, intro]: "keeps I (getM f)"
  by (simp add: keeps_def monad_simps)

lemma keeps_liftE [hoare, intro]: "keeps I (liftE r)"
  by (simp add: keeps_def monad_simps)

lemma keeps_guardM [hoare, intro]: "keeps I (guardM b e)"
  by (simp add: keeps_def monad_simps)

lemma keeps_modifyM: "(\<And>s. I s \<Longrightarrow> I (f s)) \<Longrightarrow> keeps I (modifyM f)"
  by (simp add: keeps_def monad_simps)

lemma keeps_bindM [hoare]: "keeps I m \<Longrightarrow> (\<And>a. keeps I (f a)) \<Longrightarrow> keeps I (bindM m f)"
  by (fastforce simp: keeps_def bindM_def split: prod.splits sum.splits)

lemma keeps_bindM_seq:
  assumes "keeps I m" "\<And>s a s'. I s \<Longrightarrow> m s = (Inr a, s') \<Longrightarrow> I (snd (f a s'))"
  shows "keeps I (bindM m f)"
proof (rule keepsI)
  fix s assume s: "I s"
  obtain r s' where r: "m s = (r, s')" by fastforce
  with assms s show "I (snd (bindM m f s))" by (cases r) (auto dest: keepsD)
qed

lemma keeps_thenM [hoare]: "keeps I m \<Longrightarrow> keeps I k \<Longrightarrow> keeps I (thenM m k)"
  by (simp add: thenM_def keeps_bindM)

lemma keeps_catchM [hoare]: "keeps I m \<Longrightarrow> (\<And>e. keeps I (h e)) \<Longrightarrow> keeps I (catchM m h)"
  by (fastforce simp: keeps_def catchM_def split: prod.splits sum.splits)

lemma keeps_if [hoare]:
  "(b \<Longrightarrow> keeps I m) \<Longrightarrow> (\<not> b \<Longrightarrow> keeps I k) \<Longrightarrow> keeps I (if b then m else k)"
  by simp

lemma keeps_case_option [hoare]:
  "(x = None \<Longrightarrow> keeps I m) \<Longrightarrow> (\<And>a. x = Some a \<Longrightarrow> keeps I (f a)) \<Longrightarrow>
     keeps I (case x of None \<Rightarrow> m | Some a \<Rightarrow> f a)"
  by (cases x) auto

lemma keeps_case_sum [hoare]:
  "(\<And>e. x = Inl e \<Longrightarrow> keeps I (g e)) \<Longrightarrow> (\<And>a. x = Inr a \<Longrightarrow> keeps I (f a)) \<Longrightarrow>
     keeps I (case x of Inl e \<Rightarrow> g e | Inr a \<Rightarrow> f a)"
  by (cases x) auto

lemma keeps_case_prod [hoare]:
  "(\<And>a b. x = (a, b) \<Longrightarrow> keeps I (f a b)) \<Longrightarrow> keeps I (case x of (a, b) \<Rightarrow> f a b)"
  by (cases x) auto

lemma keeps_Let [hoare]: "keeps I (f x) \<Longrightarrow> keeps I (Let x f)"
  by simp

lemma keeps_iterM [hoare]: "(\<And>x. x \<in> set xs \<Longrightarrow> keeps I (f x)) \<Longrightarrow> keeps I (iterM xs f)"
  by (induction xs) (auto intro: hoare)

lemma keeps_mapM [hoare]: "(\<And>x. x \<in> set xs \<Longrightarrow> keeps I (f x)) \<Longrightarrow> keeps I (mapM f xs)"
  by (induction xs) (auto intro!: keeps_bindM)

lemma keeps_case_prod_fun [hoare]: "(\<And>a b. x = (a, b) \<Longrightarrow> keeps I (f a b)) \<Longrightarrow> keeps I (case_prod f x)"
  by (cases x) auto

text \<open>The rest of a sequence may keep more than the first operation needs.\<close>

lemma keeps_bindM_into:
  assumes "\<And>s e s'. I s \<Longrightarrow> m s = (Inl e, s') \<Longrightarrow> I s'"
    and "\<And>s a s'. I s \<Longrightarrow> m s = (Inr a, s') \<Longrightarrow> J a s'"
    and "\<And>a. keeps (J a) (f a)" and "\<And>a s. J a s \<Longrightarrow> I s"
  shows "keeps I (bindM m f)"
proof (rule keepsI)
  fix s assume s: "I s"
  obtain r s' where r: "m s = (r, s')" by fastforce
  show "I (snd (bindM m f s))"
  proof (cases r)
    case (Inl e)
    with assms(1) [OF s] r show ?thesis by simp
  next
    case (Inr a)
    with assms(2) [OF s] r have "J a s'" by simp
    then have "J a (snd (f a s'))" by (rule keeps_sndD [OF assms(3)])
    with assms(4) r Inr show ?thesis by simp
  qed
qed

lemma keeps_conj: "keeps I m \<Longrightarrow> keeps J m \<Longrightarrow> keeps (\<lambda>s. I s \<and> J s) m"
  by (simp add: keeps_def)

lemma keeps_tryM: "keeps I m \<Longrightarrow> keeps I (tryM m)"
  unfolding tryM_def by (intro keeps_catchM keeps_bindM keeps_returnM)

text \<open>\<open>yields I m P\<close>: from a state with \<open>I\<close>, \<open>m\<close> keeps \<open>I\<close>, and what it returns satisfies \<open>P\<close>.\<close>

definition yields :: "('s \<Rightarrow> bool) \<Rightarrow> ('s, 'a) m \<Rightarrow> ('a \<Rightarrow> bool) \<Rightarrow> bool" where
  "yields I m P \<longleftrightarrow> keeps I m \<and> (\<forall>s a s'. I s \<longrightarrow> m s = (Inr a, s') \<longrightarrow> P a)"

lemma yieldsI:
  "keeps I m \<Longrightarrow> (\<And>s a s'. I s \<Longrightarrow> m s = (Inr a, s') \<Longrightarrow> P a) \<Longrightarrow> yields I m P"
  by (auto simp: yields_def)

lemma yields_keeps: "keeps I m \<Longrightarrow> yields I m (\<lambda>_. True)"
  by (simp add: yields_def)

lemma keeps_yields: "yields I m P \<Longrightarrow> (\<And>a. P a \<Longrightarrow> keeps I (f a)) \<Longrightarrow> keeps I (bindM m f)"
  by (rule keeps_bindM_seq) (auto simp: yields_def intro: keeps_sndD dest: keepsD)

lemma yields_bind:
  assumes m: "yields I m Q" and f: "\<And>a. Q a \<Longrightarrow> yields I (f a) P"
  shows "yields I (bindM m f) P"
proof (rule yieldsI)
  show "keeps I (bindM m f)" by (rule keeps_yields [OF m]) (use f in \<open>simp add: yields_def\<close>)
next
  fix s b s2 assume s: "I s" and "bindM m f s = (Inr b, s2)"
  then obtain a s1 where a: "m s = (Inr a, s1)" "f a s1 = (Inr b, s2)" by (auto simp: bindM_eq_Inr_iff)
  then have "I s1" "Q a" using m s by (auto simp: yields_def dest: keepsD)
  with f a(2) show "P b" by (auto simp: yields_def)
qed

lemma yields_then: "yields I m (\<lambda>_. Q) \<Longrightarrow> (Q \<Longrightarrow> yields I k P) \<Longrightarrow> yields I (thenM m k) P"
  unfolding thenM_def by (rule yields_bind)

lemma yields_returnM: "P a \<Longrightarrow> yields I (returnM a) P"
  by (auto simp: yields_def intro: keeps_returnM)

lemma yields_throwM: "yields I (throwM e) P"
  by (auto simp: yields_def intro: keeps_throwM)

lemma yields_liftE: "(\<And>a. r = Inr a \<Longrightarrow> P a) \<Longrightarrow> yields I (liftE r) P"
  by (auto simp: yields_def intro: keeps_liftE)

lemma yields_guardM: "yields I (guardM b e) (\<lambda>_. b)"
  by (auto simp: yields_def intro: keeps_guardM)

lemma yields_getM: "(\<And>s. I s \<Longrightarrow> P (f s)) \<Longrightarrow> yields I (getM f) P"
  by (auto simp: yields_def intro: keeps_getM)

lemma yields_mapM:
  "(\<And>x. x \<in> set xs \<Longrightarrow> yields I (f x) P) \<Longrightarrow> yields I (mapM f xs) (\<lambda>ys. \<forall>y \<in> set ys. P y)"
proof (induction xs)
  case (Cons x xs)
  then have "yields I (f x) P" "yields I (mapM f xs) (\<lambda>ys. \<forall>y \<in> set ys. P y)" by auto
  then show ?case by (auto intro!: yields_bind yields_returnM)
qed (auto intro: yields_returnM)

lemma yields_iterM:
  "(\<And>x. x \<in> set xs \<Longrightarrow> yields I (f x) (\<lambda>_. P x)) \<Longrightarrow> yields I (iterM xs f) (\<lambda>_. \<forall>x \<in> set xs. P x)"
proof (induction xs)
  case (Cons x xs)
  then have x: "yields I (f x) (\<lambda>_. P x)" and xs: "yields I (iterM xs f) (\<lambda>_. \<forall>x \<in> set xs. P x)" by auto
  have "P x \<Longrightarrow> yields I (iterM xs f) (\<lambda>_. \<forall>x \<in> set (x # xs). P x)"
    using xs by (auto simp: yields_def)
  with x show ?case by (auto intro: yields_then)
qed (auto intro: yields_returnM)

lemma yields_tryM:
  "yields I m P \<Longrightarrow> yields I (tryM m) (\<lambda>r. case r of None \<Rightarrow> True | Some a \<Rightarrow> P a)"
  by (auto simp: yields_def tryM_def catchM_eq_Inr_iff bindM_eq_Inr_iff intro!: keeps_catchM keeps_bindM
      keeps_returnM split: option.split)

lemma validD:
  "valid P m Q E \<Longrightarrow> P s \<Longrightarrow> m s = (Inr a, s') \<Longrightarrow> Q a s'"
  by (fastforce simp: valid_def)

lemma validD_err:
  "valid P m Q E \<Longrightarrow> P s \<Longrightarrow> m s = (Inl e, s') \<Longrightarrow> E e s'"
  by (fastforce simp: valid_def)

lemma valid_bindM:
  assumes "valid P m R E" and "\<And>a. valid (R a) (f a) Q E"
  shows "valid P (bindM m f) Q E"
  using assms by (fastforce simp: valid_def bindM_def split: prod.splits sum.splits)

text \<open>\<open>gives P m Q\<close>: when \<open>m\<close> returns from a state with \<open>P\<close>, the state and the value satisfy \<open>Q\<close>.\<close>

abbreviation gives :: "('s \<Rightarrow> bool) \<Rightarrow> ('s, 'a) m \<Rightarrow> ('a \<Rightarrow> 's \<Rightarrow> bool) \<Rightarrow> bool" where
  "gives P m Q \<equiv> valid P m Q (\<lambda>_ _. True)"

lemma gives_keeps: "keeps I m \<Longrightarrow> gives I m (\<lambda>_. I)"
  by (force simp: keeps_def valid_def split: prod.split sum.split)

lemma gives_bind: "gives P m R \<Longrightarrow> (\<And>a. gives (R a) (f a) Q) \<Longrightarrow> gives P (bindM m f) Q"
  by (rule valid_bindM)

lemma gives_then: "gives P m (\<lambda>_. R) \<Longrightarrow> gives R k Q \<Longrightarrow> gives P (thenM m k) Q"
  unfolding thenM_def by (rule valid_bindM)

lemma givesI: "(\<And>w a w'. P w \<Longrightarrow> m w = (Inr a, w') \<Longrightarrow> Q a w') \<Longrightarrow> gives P m Q"
  by (auto simp: valid_def split: prod.split sum.split)

lemma gives_return: "(\<And>w. P w \<Longrightarrow> Q a w) \<Longrightarrow> gives P (returnM a) Q"
  by (auto intro: givesI)

text \<open>What is kept at every step is kept on return.\<close>

lemma gives_keep_bind:
  "keeps I m \<Longrightarrow> (\<And>a. gives I (f a) (\<lambda>_. I)) \<Longrightarrow> gives I (bindM m f) (\<lambda>_. I)"
  by (rule gives_bind [OF gives_keeps])

lemma gives_keep_then:
  "keeps I m \<Longrightarrow> gives I k (\<lambda>_. I) \<Longrightarrow> gives I (thenM m k) (\<lambda>_. I)"
  by (rule gives_then [OF gives_keeps])

lemma gives_case_option:
  "(x = None \<Longrightarrow> gives P m Q) \<Longrightarrow> (\<And>a. x = Some a \<Longrightarrow> gives P (f a) Q) \<Longrightarrow>
     gives P (case x of None \<Rightarrow> m | Some a \<Rightarrow> f a) Q"
  by (cases x) auto

lemma gives_throw: "gives P (throwM e) Q"
  by (simp add: valid_def monad_simps)

lemma gives_weaken: "gives P' m Q \<Longrightarrow> (\<And>w. P w \<Longrightarrow> P' w) \<Longrightarrow> gives P m Q"
  by (simp add: valid_def)

section \<open>Lists\<close>

text \<open>\<open>Array.join\<close>.\<close>

fun join_with :: "string \<Rightarrow> string list \<Rightarrow> string" where
  "join_with sep [] = []"
| "join_with sep [x] = x"
| "join_with sep (x # xs) = x @ sep @ join_with sep xs"

text \<open>\<open>[...new Set(xs)]\<close> keeps the first occurrence of every element, in order.\<close>

lemma find_SomeD: "find P xs = Some x \<Longrightarrow> x \<in> set xs \<and> P x"
  by (auto simp: find_Some_iff)

fun dedup :: "'a list \<Rightarrow> 'a list" where
  "dedup [] = []"
| "dedup (x # xs) = x # dedup (filter (\<lambda>y. y \<noteq> x) xs)"

lemma set_dedup [simp]: "set (dedup xs) = set xs"
  by (induction xs rule: dedup.induct) auto

lemma distinct_dedup [simp]: "distinct (dedup xs)"
  by (induction xs rule: dedup.induct) auto

lemma dedup_distinct [simp]: "distinct xs \<Longrightarrow> dedup xs = xs"
proof (induction xs rule: dedup.induct)
  case (2 x xs)
  then have "filter (\<lambda>y. y \<noteq> x) xs = xs" by (auto simp: filter_id_conv)
  with 2 show ?case by simp
qed simp

lemma length_dedup_le: "length (dedup xs) \<le> length xs"
  by (metis distinct_card distinct_dedup set_dedup card_length)

text \<open>The last element of the list sorted by \<open>key\<close>: \<open>findFirst\<close> with \<open>orderBy\<close> descending.\<close>

definition latest_by :: "('a \<Rightarrow> 'k::linorder) \<Rightarrow> 'a list \<Rightarrow> 'a option" where
  "latest_by key xs = (if xs = [] then None else Some (last (sort_key key xs)))"

definition earliest_by :: "('a \<Rightarrow> 'k::linorder) \<Rightarrow> 'a list \<Rightarrow> 'a option" where
  "earliest_by key xs = (case sort_key key xs of [] \<Rightarrow> None | x # _ \<Rightarrow> Some x)"

lemma latest_by_Nil [simp]: "latest_by key [] = None"
  by (simp add: latest_by_def)

lemma latest_by_None_iff [simp]: "latest_by key xs = None \<longleftrightarrow> xs = []"
  by (simp add: latest_by_def)

lemma latest_by_mem: "latest_by key xs = Some x \<Longrightarrow> x \<in> set xs"
  by (auto simp: latest_by_def split: if_splits) (metis last_in_set set_sort set_empty)

lemma latest_by_max:
  assumes "latest_by key xs = Some x" and "y \<in> set xs"
  shows "key y \<le> key x"
proof -
  let ?ys = "sort_key key xs"
  have ne: "?ys \<noteq> []" using assms(2) by (metis empty_iff set_empty set_sort)
  have x: "x = last ?ys" using assms(1) by (auto simp: latest_by_def split: if_splits)
  have "sorted (map key (butlast ?ys @ [last ?ys]))"
    using ne sorted_sort_key [of key xs] by simp
  then have "\<forall>z \<in> set (butlast ?ys). key z \<le> key x"
    by (simp add: sorted_append x)
  moreover have "y \<in> set (butlast ?ys @ [last ?ys])"
    using ne assms(2) by simp
  ultimately show ?thesis by (auto simp: x)
qed

lemma find_Some_iff2:
  "find P xs = Some x \<Longrightarrow> x \<in> set xs \<and> P x"
  by (auto simp: find_Some_iff)

lemma find_unique:
  assumes "x \<in> set xs" "P x" "\<And>y. y \<in> set xs \<Longrightarrow> P y \<Longrightarrow> y = x"
  shows "find P xs = Some x"
proof (cases "find P xs")
  case None
  with assms(1,2) show ?thesis by (auto simp: find_None_iff)
next
  case (Some y)
  with assms(3) show ?thesis by (auto dest: find_Some_iff2)
qed

lemma count_filter_if_map:
  "length (filter P xs) = count_list (map P xs) True"
  by (induction xs) auto

end
