(* ===== verification/Schema.thy ===== *)
theory Schema
  imports Prelude
begin

text \<open>
  The persistent data model of \<open>src/backend/prisma/schema.prisma\<close>: its enumerations as datatypes
  (a value name that several enumerations share carries the enumeration's prefix), its models as
  records, and the database as one record of tables. A table is the list of its rows in insertion
  order. UUIDs are strings, \<open>DateTime\<close> columns are milliseconds, \<open>BigInt\<close> and \<open>Int\<close> columns are
  integers, \<open>Decimal\<close> columns are rationals, and a nullable column is an \<open>option\<close>. Columns that
  the backend never reads or writes itself (\<open>updatedAt\<close>, row labels) are left out.
\<close>

type_synonym uuid = string
type_synonym instant = int

datatype json =
    JNull | JBool bool | JNum rat | JStr string | JArr "json list" | JObj "(string \<times> json) list"

section \<open>Enumerations\<close>

datatype CallStatus =
  CALL_REQUESTED | CALL_AUTHORIZED | CALL_ACTIVE | CALL_ENDING | CALL_ENDED | CALL_CANCELLED
| CALL_FAILED

datatype ParticipantRole = CALLER | CUSTOMER | OBSERVER | ML_SUBSCRIBER

datatype ParticipantStatus =
  PART_AUTHORIZED | PART_JOINED | PART_DISCONNECTED | PART_LEFT | PART_REVOKED

datatype TrackStatus = TRACK_PUBLISHED | TRACK_MUTED | TRACK_UNPUBLISHED | TRACK_ENDED

datatype TrackBindingStatus =
  BIND_AUTHORIZED | BIND_ACTIVE | BIND_SUPERSEDED | BIND_REVOKED | BIND_REJECTED

datatype AnalysisSessionStatus =
  SESS_AUTHORIZED | SESS_STARTING | SESS_ACTIVE | SESS_DEGRADED | SESS_STOPPING | SESS_STOPPED
| SESS_FAILED | SESS_EXPIRED | SESS_REVOKED

datatype ConsentStatus = CONSENT_GRANTED | CONSENT_REVOKED | CONSENT_EXPIRED

datatype VoiceprintStatus = VP_ENROLLING | VP_ACTIVE | VP_REVOKED | VP_DELETED | VP_FAILED

datatype ModelCapability =
  CAP_EXPECTED_SPEAKER_SIMILARITY | CAP_FAST_SPOOF | CAP_DEEP_SPOOF | CAP_AUDIO_QUALITY

datatype ModelLifecycleStatus =
  MODEL_REGISTERED | MODEL_VALIDATED | MODEL_ACTIVE | MODEL_RETIRED | MODEL_REJECTED

datatype RiskPolicyStatus = POLICY_DRAFT | POLICY_ACTIVE | POLICY_RETIRED

datatype EvidenceType =
  IDENTITY | SPOOF_FAST | SPOOF_DEEP | AUDIO_QUALITY | INSUFFICIENT_EVIDENCE | PIPELINE_ERROR

datatype EvidenceReadiness = READY | INSUFFICIENT | ERROR

datatype ScoreDirection = HIGHER_MEANS_MORE | LOWER_MEANS_MORE | NOT_APPLICABLE

datatype ScoreTarget =
  TARGET_EXPECTED_SPEAKER | TARGET_SPOOF | TARGET_BONAFIDE | TARGET_AUDIO_QUALITY

datatype EvidenceAcceptanceStatus = ACCEPTED | SUPERSEDED | DUPLICATE | STALE | REJECTED

datatype EvidenceMode = MODE_SIMULATED | MODE_SHADOW | MODE_CALIBRATED

datatype RiskState = VERIFIED | UNVERIFIED | HIGH_RISK | CRITICAL

text \<open>\<open>RiskAssessmentOutcome\<close> has the four risk states and one more value.\<close>

datatype RiskAssessmentOutcome = STATE RiskState | OUTCOME_INSUFFICIENT_EVIDENCE

datatype RiskDecisionMode =
  DECISION_ENGINEERING_TEST | DECISION_SHADOW | DECISION_CALIBRATED_BLOCKED
| DECISION_PRODUCTION_ELIGIBLE

datatype SecurityControlMode = DEMO | SHADOW | PRODUCTION

datatype InterventionType =
  WARN | HOLD_PROTECTED_ACTION | REQUIRE_STEP_UP | REQUIRE_CALLBACK | SUPERVISOR_ESCALATION
| END_CALL

datatype InterventionStatus =
  IV_REQUIRED | IV_ACKNOWLEDGED | IV_IN_PROGRESS | IV_SATISFIED | IV_DECLINED | IV_EXPIRED
| IV_CANCELLED | IV_FAILED

datatype VerificationStatus = VC_PENDING | VC_PASSED | VC_FAILED | VC_EXPIRED | VC_CANCELLED

datatype AlertChannel = SECURITY_WEBSOCKET | AUDIT_QUEUE | FUTURE_ENTERPRISE

datatype AlertStatus = ALERT_PENDING | ALERT_DELIVERED | ALERT_FAILED | ALERT_CANCELLED

datatype AuditOutcome = AUDIT_SUCCEEDED | AUDIT_DENIED | AUDIT_FAILED

datatype UserStatus = USER_ACTIVE | USER_DISABLED | USER_DELETED

datatype MembershipStatus = MEM_INVITED | MEM_ACTIVE | MEM_SUSPENDED | MEM_REVOKED

datatype OrganizationRole =
  OWNER | ADMIN | SECURITY_ANALYST | CALL_OPERATOR | ENROLLMENT_OPERATOR | MEMBER

datatype DeviceStatus = DEVICE_ACTIVE | DEVICE_REVOKED

datatype RefreshSessionStatus = REFRESH_ACTIVE | REFRESH_ROTATED | REFRESH_REVOKED | REFRESH_EXPIRED

datatype TrustedSpeakerStatus =
  SPEAKER_PENDING_ENROLLMENT | SPEAKER_ACTIVE | SPEAKER_SUSPENDED | SPEAKER_REVOKED
| SPEAKER_DELETED

section \<open>Rows\<close>

record call_row =
  ca_id :: uuid
  ca_org :: uuid
  ca_roomName :: string
  ca_expectedSpeaker :: "uuid option"
  ca_policyId :: uuid
  ca_policyVersion :: string
  ca_createdBy :: uuid
  ca_idemKey :: string
  ca_protectedAction :: "string option"
  ca_status :: CallStatus
  ca_authorizedAt :: "instant option"
  ca_startedAt :: "instant option"
  ca_endedAt :: "instant option"
  ca_createdAt :: instant

record participant_row =
  cp_id :: uuid
  cp_org :: uuid
  cp_call :: uuid
  cp_membership :: "uuid option"
  cp_speaker :: "uuid option"
  cp_livekitIdentity :: string
  cp_authorizedIdentity :: string
  cp_displayName :: "string option"
  cp_role :: ParticipantRole
  cp_status :: ParticipantStatus
  cp_authorizedAt :: instant
  cp_joinedAt :: "instant option"
  cp_disconnectedAt :: "instant option"
  cp_leftAt :: "instant option"

record track_row =
  mt_id :: uuid
  mt_org :: uuid
  mt_call :: uuid
  mt_participant :: uuid
  mt_trackSid :: string
  mt_trackSource :: string
  mt_mimeType :: "string option"
  mt_status :: TrackStatus
  mt_publishedAt :: instant
  mt_endedAt :: "instant option"

record binding_row =
  tb_id :: uuid
  tb_org :: uuid
  tb_call :: uuid
  tb_participant :: uuid
  tb_track :: uuid
  tb_revision :: int
  tb_status :: TrackBindingStatus
  tb_authorizedAt :: instant
  tb_activatedAt :: "instant option"
  tb_endedAt :: "instant option"
  tb_rejectionCode :: "string option"
  tb_createdAt :: instant

record session_row =
  as_id :: uuid
  as_org :: uuid
  as_call :: uuid
  as_binding :: uuid
  as_voiceprint :: "uuid option"
  as_idemKey :: string
  as_bindingRevision :: int
  as_evidenceMode :: EvidenceMode
  as_status :: AnalysisSessionStatus
  as_authorizedAt :: instant
  as_startedAt :: "instant option"
  as_stoppedAt :: "instant option"
  as_expiresAt :: instant
  as_failureCode :: "string option"
  as_createdAt :: instant

record model_row =
  mv_id :: uuid
  mv_name :: string
  mv_version :: string
  mv_capability :: ModelCapability
  mv_checkpointHash :: string
  mv_checkpointSource :: string
  mv_checkpointLicense :: string
  mv_inputSampleRateHz :: int
  mv_inputChannelCount :: int
  mv_scoreName :: string
  mv_scoreDirection :: ScoreDirection
  mv_scoreTarget :: "ScoreTarget option"
  mv_calibrationVersion :: "string option"
  mv_status :: ModelLifecycleStatus

record policy_row =
  rp_id :: uuid
  rp_org :: uuid
  rp_key :: string
  rp_version :: string
  rp_schemaVersion :: string
  rp_document :: json
  rp_status :: RiskPolicyStatus
  rp_createdBy :: uuid
  rp_effectiveAt :: "instant option"
  rp_retiredAt :: "instant option"
  rp_createdAt :: instant

record evidence_row =
  ev_id :: uuid
  ev_org :: uuid
  ev_call :: uuid
  ev_session :: uuid
  ev_binding :: uuid
  ev_participantIdentity :: "string option"
  ev_trackSid :: "string option"
  ev_windowId :: "string option"
  ev_correlationId :: "string option"
  ev_modelVersionId :: "uuid option"
  ev_supersedes :: "uuid option"
  ev_idemKey :: string
  ev_schemaVersion :: string
  ev_mode :: EvidenceMode
  ev_eventSequence :: int
  ev_windowSequence :: int
  ev_revision :: int
  ev_type :: EvidenceType
  ev_readiness :: EvidenceReadiness
  ev_status :: EvidenceAcceptanceStatus
  ev_windowStartMs :: int
  ev_windowEndMs :: int
  ev_observedAt :: instant
  ev_capturedAt :: "instant option"
  ev_inferenceStartedAt :: "instant option"
  ev_inferenceCompletedAt :: "instant option"
  ev_processingLatencyMs :: "int option"
  ev_speechDurationMs :: "int option"
  ev_qualityScore :: "rat option"
  ev_reasonCodes :: "string list"
  ev_modelName :: "string option"
  ev_modelVersion :: "string option"
  ev_checkpointHash :: "string option"
  ev_scoreName :: "string option"
  ev_scoreDirection :: ScoreDirection
  ev_rawScore :: "rat option"
  ev_calibratedScore :: "rat option"
  ev_calibrationVersion :: "string option"
  ev_errorCode :: "string option"

record assessment_row =
  ra_id :: uuid
  ra_org :: uuid
  ra_call :: uuid
  ra_session :: uuid
  ra_policyId :: uuid
  ra_idemKey :: string
  ra_schemaVersion :: string
  ra_evidenceHash :: string
  ra_evidenceMode :: EvidenceMode
  ra_decisionMode :: RiskDecisionMode
  ra_outcome :: RiskAssessmentOutcome
  ra_priorState :: RiskState
  ra_effectiveState :: RiskState
  ra_transitioned :: bool
  ra_productionEligible :: bool
  ra_activationSuppressed :: bool
  ra_blockerCodes :: "string list"
  ra_reasonCode :: string
  ra_policyKey :: string
  ra_policyVersion :: string
  ra_thresholdVersion :: string
  ra_calibrationVersion :: "string option"
  ra_proposedInterventions :: "InterventionType list"
  ra_maxWindowSequence :: int
  ra_occurredAt :: instant
  ra_createdAt :: instant

text \<open>\<open>RiskAssessmentEvidence\<close> and \<open>RiskEventEvidence\<close>: the evidence a decision rests on.\<close>

record evidence_link_row =
  el_org :: uuid
  el_owner :: uuid
  el_evidence :: uuid

record risk_event_row =
  re_id :: uuid
  re_org :: uuid
  re_call :: uuid
  re_session :: "uuid option"
  re_policyId :: uuid
  re_assessment :: "uuid option"
  re_idemKey :: string
  re_schemaVersion :: string
  re_eventSequence :: int
  re_mode :: SecurityControlMode
  re_priorState :: RiskState
  re_state :: RiskState
  re_reasonCode :: string
  re_policyKey :: string
  re_policyVersion :: string
  re_thresholdVersion :: string
  re_occurredAt :: instant

record intervention_row =
  iv_id :: uuid
  iv_org :: uuid
  iv_call :: uuid
  iv_riskEvent :: uuid
  iv_resolvedBy :: "uuid option"
  iv_idemKey :: string
  iv_type :: InterventionType
  iv_status :: InterventionStatus
  iv_mode :: SecurityControlMode
  iv_policyVersion :: string
  iv_reasonCode :: string
  iv_protectedAction :: "string option"
  iv_requiredAt :: instant
  iv_acknowledgedAt :: "instant option"
  iv_resolvedAt :: "instant option"
  iv_expiresAt :: "instant option"
  iv_attemptCount :: int
  iv_nextAttemptAt :: "instant option"
  iv_leaseId :: "uuid option"
  iv_leaseExpiresAt :: "instant option"
  iv_deadLetteredAt :: "instant option"
  iv_failureCode :: "string option"

record challenge_row =
  vc_id :: uuid
  vc_org :: uuid
  vc_call :: uuid
  vc_intervention :: uuid
  vc_performedBy :: "uuid option"
  vc_idemKey :: string
  vc_method :: string
  vc_status :: VerificationStatus
  vc_attemptNumber :: int
  vc_resultCode :: "string option"
  vc_requestedAt :: instant
  vc_expiresAt :: instant
  vc_completedAt :: "instant option"

record alert_row =
  al_id :: uuid
  al_org :: uuid
  al_call :: uuid
  al_riskEvent :: uuid
  al_intervention :: "uuid option"
  al_acknowledgedBy :: "uuid option"
  al_idemKey :: string
  al_externalEventId :: "string option"
  al_channel :: AlertChannel
  al_status :: AlertStatus
  al_mode :: SecurityControlMode
  al_eventType :: string
  al_schemaVersion :: string
  al_recipient :: "string option"
  al_attemptCount :: int
  al_nextAttemptAt :: "instant option"
  al_leaseId :: "uuid option"
  al_leaseExpiresAt :: "instant option"
  al_deliveredAt :: "instant option"
  al_acknowledgedAt :: "instant option"
  al_failureCode :: "string option"
  al_createdAt :: instant

record audit_row =
  au_id :: uuid
  au_org :: uuid
  au_actor :: "uuid option"
  au_correlationId :: string
  au_idemKey :: "string option"
  au_action :: string
  au_targetType :: string
  au_targetId :: uuid
  au_outcome :: AuditOutcome
  au_reasonCode :: "string option"
  au_sourceIpHash :: "string option"
  au_metadata :: "(string \<times> json) list option"
  au_occurredAt :: instant

text \<open>Identity and enrollment.\<close>

record organization_row =
  og_id :: uuid
  og_slug :: string
  og_displayName :: string
  og_status :: string

record user_row =
  us_id :: uuid
  us_email :: string
  us_passwordHash :: string
  us_status :: UserStatus
  us_deletedAt :: "instant option"

record membership_row =
  ms_id :: uuid
  ms_org :: uuid
  ms_user :: uuid
  ms_status :: MembershipStatus
  ms_joinedAt :: "instant option"
  ms_revokedAt :: "instant option"

record role_row =
  mr_org :: uuid
  mr_membership :: uuid
  mr_role :: OrganizationRole

record device_row =
  dv_id :: uuid
  dv_org :: uuid
  dv_membership :: uuid
  dv_publicId :: string
  dv_label :: "string option"
  dv_status :: DeviceStatus

record refresh_row =
  rs_id :: uuid
  rs_org :: uuid
  rs_membership :: uuid
  rs_device :: uuid
  rs_tokenHash :: string
  rs_family :: uuid
  rs_status :: RefreshSessionStatus
  rs_issuedAt :: instant
  rs_expiresAt :: instant
  rs_rotatedAt :: "instant option"
  rs_revokedAt :: "instant option"

record speaker_row =
  ts_id :: uuid
  ts_org :: uuid
  ts_user :: "uuid option"
  ts_externalReference :: "string option"
  ts_label :: string
  ts_status :: TrustedSpeakerStatus
  ts_revokedAt :: "instant option"
  ts_deletedAt :: "instant option"

record consent_row =
  co_id :: uuid
  co_org :: uuid
  co_speaker :: uuid
  co_grantedBy :: uuid
  co_purposeCode :: string
  co_noticeVersion :: string
  co_status :: ConsentStatus
  co_grantedAt :: instant
  co_expiresAt :: "instant option"
  co_revokedAt :: "instant option"
  co_revocationReasonCode :: "string option"

record voiceprint_row =
  vp_id :: uuid
  vp_org :: uuid
  vp_speaker :: uuid
  vp_consent :: uuid
  vp_model :: uuid
  vp_createdBy :: uuid
  vp_ciphertext :: "string option"
  vp_encryptionAlgorithm :: string
  vp_encryptionKeyVersion :: string
  vp_embeddingFormat :: string
  vp_sampleCount :: int
  vp_status :: VoiceprintStatus
  vp_activatedAt :: "instant option"
  vp_revokedAt :: "instant option"
  vp_deletedAt :: "instant option"

section \<open>The database\<close>

record db =
  d_calls :: "call_row list"
  d_participants :: "participant_row list"
  d_tracks :: "track_row list"
  d_bindings :: "binding_row list"
  d_sessions :: "session_row list"
  d_models :: "model_row list"
  d_policies :: "policy_row list"
  d_evidence :: "evidence_row list"
  d_assessments :: "assessment_row list"
  d_assessmentEvidence :: "evidence_link_row list"
  d_riskEvents :: "risk_event_row list"
  d_riskEventEvidence :: "evidence_link_row list"
  d_interventions :: "intervention_row list"
  d_challenges :: "challenge_row list"
  d_alerts :: "alert_row list"
  d_audit :: "audit_row list"
  d_organizations :: "organization_row list"
  d_users :: "user_row list"
  d_memberships :: "membership_row list"
  d_roles :: "role_row list"
  d_devices :: "device_row list"
  d_refreshSessions :: "refresh_row list"
  d_speakers :: "speaker_row list"
  d_consents :: "consent_row list"
  d_voiceprints :: "voiceprint_row list"

definition empty_db :: db where
  "empty_db = \<lparr>d_calls = [], d_participants = [], d_tracks = [], d_bindings = [],
     d_sessions = [], d_models = [], d_policies = [], d_evidence = [], d_assessments = [],
     d_assessmentEvidence = [], d_riskEvents = [], d_riskEventEvidence = [],
     d_interventions = [], d_challenges = [], d_alerts = [], d_audit = [],
     d_organizations = [], d_users = [], d_memberships = [], d_roles = [], d_devices = [],
     d_refreshSessions = [], d_speakers = [], d_consents = [], d_voiceprints = []\<rparr>"

end
