(* ===== verification/Database_Types.thy ===== *)
theory Database_Types
  imports Schema
begin

text \<open>
  \<open>database/database.types.ts\<close> and the page limit of \<open>database/pagination.ts\<close>: the checks that
  every repository method makes on its arguments, and the renderings of numbers that the errors
  and keys use. Strings are lists of 8-bit characters; \<open>trim\<close> removes the white space among them.
\<close>

section \<open>Text\<close>

definition js_space :: "char \<Rightarrow> bool" where
  "js_space c \<longleftrightarrow> (let n = of_char c :: nat in (9 \<le> n \<and> n \<le> 13) \<or> n = 32 \<or> n = 160)"

definition js_trim :: "string \<Rightarrow> string" where
  "js_trim s = rev (dropWhile js_space (rev (dropWhile js_space s)))"

definition digit_char :: "nat \<Rightarrow> char" where
  "digit_char d = ''0123456789'' ! d"

fun nat_string :: "nat \<Rightarrow> string" where
  "nat_string n =
     (if n < 10 then [digit_char n] else nat_string (n div 10) @ [digit_char (n mod 10)])"

declare nat_string.simps [simp del]

definition int_string :: "int \<Rightarrow> string" where
  "int_string i = (if i < 0 then ''-'' @ nat_string (nat (- i)) else nat_string (nat i))"

definition char_in :: "string \<Rightarrow> char \<Rightarrow> bool" where
  "char_in cs c = List.member cs c"

definition hex_char :: "char \<Rightarrow> bool" where
  "hex_char = char_in ''0123456789abcdefABCDEF''"

text \<open>The pattern of a UUID, position by position.\<close>

definition uuid_pattern :: "(char \<Rightarrow> bool) list" where
  "uuid_pattern =
     replicate 8 hex_char @ [char_in ''-''] @ replicate 4 hex_char @ [char_in ''-''] @
     [char_in ''12345678''] @ replicate 3 hex_char @ [char_in ''-''] @
     [char_in ''89abAB''] @ replicate 3 hex_char @ [char_in ''-''] @ replicate 12 hex_char"

fun matches :: "(char \<Rightarrow> bool) list \<Rightarrow> string \<Rightarrow> bool" where
  "matches [] [] \<longleftrightarrow> True"
| "matches (p # ps) (c # cs) \<longleftrightarrow> p c \<and> matches ps cs"
| "matches _ _ \<longleftrightarrow> False"

definition is_uuid :: "string \<Rightarrow> bool" where
  "is_uuid s = matches uuid_pattern s"

definition requireUuid :: "string \<Rightarrow> string \<Rightarrow> err + string" where
  "requireUuid value field =
     (if \<not> is_uuid value
      then Inl (DatabaseConfigurationError (field @ '' must be a valid UUID.''))
      else Inr value)"

definition requireText :: "string \<Rightarrow> string \<Rightarrow> nat \<Rightarrow> err + string" where
  "requireText value field maximum =
     (let normalized = js_trim value in
      if length normalized = 0 \<or> maximum < length normalized
      then Inl (DatabaseConfigurationError
             (field @ '' must contain between 1 and '' @ nat_string maximum @ '' characters.''))
      else Inr normalized)"

definition requireTenant :: "uuid \<Rightarrow> err + uuid" where
  "requireTenant organizationId = requireUuid organizationId ''organizationId''"

text \<open>An optional field: \<open>undefined\<close> is stored as \<open>null\<close>, a value is checked.\<close>

definition optional :: "('a \<Rightarrow> err + 'b) \<Rightarrow> 'a option \<Rightarrow> err + 'b option" where
  "optional f x = (case x of None \<Rightarrow> Inr None | Some a \<Rightarrow> bindE (f a) (\<lambda>b. Inr (Some b)))"

definition DEFAULT_PAGE_SIZE :: int where "DEFAULT_PAGE_SIZE = 25"

definition MAXIMUM_PAGE_SIZE :: int where "MAXIMUM_PAGE_SIZE = 100"

text \<open>The limit is a number of the request, so it may have a fraction.\<close>

definition pageLimit :: "rat option \<Rightarrow> err + nat" where
  "pageLimit value =
     (let limit = (case value of None \<Rightarrow> of_int DEFAULT_PAGE_SIZE | Some v \<Rightarrow> v) in
      if of_int \<lfloor>limit\<rfloor> \<noteq> limit \<or> limit < 1 \<or> of_int MAXIMUM_PAGE_SIZE < limit
      then Inl InvalidPaginationCursorError
      else Inr (nat \<lfloor>limit\<rfloor>))"

section \<open>Lemmas\<close>

lemma requireUuid_Inr [simp]: "requireUuid v f = Inr u \<longleftrightarrow> is_uuid v \<and> u = v"
  by (auto simp: requireUuid_def)

lemma requireTenant_Inr [simp]: "requireTenant v = Inr u \<longleftrightarrow> is_uuid v \<and> u = v"
  by (simp add: requireTenant_def)

lemma requireText_Inr [simp]:
  "requireText v f n = Inr u \<longleftrightarrow> u = js_trim v \<and> u \<noteq> [] \<and> length u \<le> n"
  by (auto simp: requireText_def Let_def)

lemma optional_Inr [simp]:
  "optional f x = Inr y \<longleftrightarrow>
     (case x of None \<Rightarrow> y = None | Some a \<Rightarrow> (\<exists>b. f a = Inr b \<and> y = Some b))"
  by (auto simp: optional_def split: option.splits)

lemma dropWhile_idem: "dropWhile P (dropWhile P xs) = dropWhile P xs"
  by (induction xs) auto

lemma pageLimit_bounds:
  assumes "pageLimit v = Inr n" shows "1 \<le> n \<and> n \<le> 100"
proof (cases v)
  case None
  with assms show ?thesis
    by (auto simp: pageLimit_def Let_def MAXIMUM_PAGE_SIZE_def DEFAULT_PAGE_SIZE_def)
next
  case (Some q)
  with assms have "n = nat \<lfloor>q\<rfloor>" "1 \<le> q" "q \<le> 100"
    by (auto simp: pageLimit_def Let_def MAXIMUM_PAGE_SIZE_def not_less split: if_splits)
  moreover from this have "1 \<le> \<lfloor>q\<rfloor>" "\<lfloor>q\<rfloor> \<le> 100" by linarith+
  moreover have "1 \<le> z \<Longrightarrow> z \<le> 100 \<Longrightarrow> 1 \<le> nat z \<and> nat z \<le> 100" for z :: int by auto
  ultimately show ?thesis by blast
qed

lemma matches_length: "matches ps cs \<Longrightarrow> length cs = length ps"
  by (induction ps cs rule: matches.induct) auto

lemma is_uuid_length: "is_uuid s \<Longrightarrow> length s = 36"
  by (auto simp: is_uuid_def uuid_pattern_def dest: matches_length)

lemma is_uuid_hd: "is_uuid s \<Longrightarrow> hex_char (hd s)"
  by (cases s) (simp_all add: is_uuid_def uuid_pattern_def numeral_eq_Suc)

end
