(* ===== verification/Configuration.thy ===== *)
theory Configuration
  imports Database_Types
begin

text \<open>
  \<open>config/env.schema.ts\<close>: the typed configuration and the parser of the environment variables.
  The components read the configuration and never change it.

  The environment is a function from names to optional values. The WHATWG URL parser is the
  parameter \<open>url_parser\<close>: it gives the six parts of a URL that the code reads, or fails. A string
  is a list of characters of the first 256 code points, so its UTF-8 length counts the upper half
  twice; the parser's reader collects the names of invalid variables and goes on.
\<close>

section \<open>The configuration\<close>

datatype SwarEnvironment = ENV_DEVELOPMENT | ENV_TEST | ENV_PRODUCTION

datatype MlEvidenceMode = ML_SIMULATED | ML_SHADOW | ML_CALIBRATED

datatype RiskInterventionMode = RIM_ENGINEERING_ONLY | RIM_PRODUCTION

datatype PhaseOScientificStatus = PHASE_O_BLOCKED | PHASE_O_PROMOTED

datatype PhasePProductionStatus = PHASE_P_BLOCKED_BY_PHASE_O | PHASE_P_PROMOTED

datatype PhaseQProductionStatus = PHASE_Q_ENGINEERING_ONLY | PHASE_Q_PROMOTED

record runtime_config =
  environment :: SwarEnvironment
  host :: string
  port :: int
  publicApiUrl :: string
  securityWebSocketUrl :: string
  corsAllowedOrigins :: "string list"
  bodyLimitBytes :: int
  inboundRequestTimeoutMs :: int
  shutdownTimeoutMs :: int

record database_config =
  databaseUrl :: string
  poolMax :: int
  idleTimeoutMs :: int
  connectionTimeoutMs :: int

record auth_config =
  accessSecret :: string
  refreshSecret :: string
  issuer :: string
  audience :: string
  accessTtlSeconds :: int
  clockToleranceSeconds :: int
  refreshTtlSeconds :: int
  loginMaximumAttempts :: int
  loginWindowSeconds :: int

record dependencies_config =
  mlInternalUrl :: string
  mlEvidenceMode :: MlEvidenceMode
  mlControlMaximumAttempts :: int
  mlControlRetryBackoffMs :: int
  internalAuthClockSkewSeconds :: int
  liveKitUrl :: string
  httpTimeoutMs :: int
  webSocketTimeoutMs :: int
  liveKitParticipantGrantTtlSeconds :: int
  analysisSessionTtlSeconds :: int

record risk_config =
  interventionMode :: RiskInterventionMode
  phaseOScientificStatus :: PhaseOScientificStatus
  phasePProductionStatus :: PhasePProductionStatus
  phaseQProductionStatus :: PhaseQProductionStatus

record secrets_config =
  mlInternalSecret :: string
  verificationCallbackSecret :: string
  liveKitApiKey :: string
  liveKitApiSecret :: string
  voiceprintEncryptionKey :: string
  voiceprintEncryptionKeyVersion :: string

record idempotency_config =
  idempotencyTtlSeconds :: int
  maximumEntries :: int

record api_config =
  rateLimitWindowSeconds :: int
  sensitiveRateLimitMaximum :: int
  mutationRateLimitMaximum :: int
  queryRateLimitMaximum :: int
  securityEventReplayMaximum :: int
  securitySubscriptionMaximumCalls :: int
  securityInboundRateLimitMaximum :: int
  securityConnectionMaximum :: int
  securityOutboxBatchSize :: int
  securityOutboxMaximumAttempts :: int
  securityOutboxRetryBaseMs :: int
  securityOutboxPollIntervalMs :: int
  securityOutboxLeaseMs :: int
  enrollmentMaximumSamples :: int
  enrollmentMaximumSampleBytes :: int
  enrollmentMaximumTotalBytes :: int
  enrollmentMaximumDeclaredDurationMs :: int
  stepUpChallengeTtlSeconds :: int

record configuration =
  c_runtime :: runtime_config
  c_database :: database_config
  c_auth :: auth_config
  c_dependencies :: dependencies_config
  c_risk :: risk_config
  c_secrets :: secrets_config
  c_idempotency :: idempotency_config
  c_api :: api_config

text \<open>The gates that production controls need, as the services test them.\<close>

definition gates_promoted :: "risk_config \<Rightarrow> bool" where
  "gates_promoted g \<longleftrightarrow>
     interventionMode g = RIM_PRODUCTION \<and> phaseOScientificStatus g = PHASE_O_PROMOTED \<and>
     phasePProductionStatus g = PHASE_P_PROMOTED \<and> phaseQProductionStatus g = PHASE_Q_PROMOTED"

section \<open>Characters\<close>

definition ascii_upper :: "char \<Rightarrow> char" where
  "ascii_upper c = (if CHR ''a'' \<le> c \<and> c \<le> CHR ''z'' then char_of (of_char c - (32::nat)) else c)"

definition ascii_lower :: "char \<Rightarrow> char" where
  "ascii_lower c = (if CHR ''A'' \<le> c \<and> c \<le> CHR ''Z'' then char_of (of_char c + (32::nat)) else c)"

definition utf8_length :: "string \<Rightarrow> nat" where
  "utf8_length s = sum_list (map (\<lambda>c. if (of_char c :: nat) < 128 then 1 else 2) s)"

fun occurs_in :: "string \<Rightarrow> string \<Rightarrow> bool" where
  "occurs_in pattern [] \<longleftrightarrow> pattern = []"
| "occurs_in pattern (c # cs) \<longleftrightarrow>
     take (length pattern) (c # cs) = pattern \<or> occurs_in pattern cs"

text \<open>\<open>/change.?me/\<close>: at most one character, not a line terminator, in between.\<close>

definition change_me_at :: "string \<Rightarrow> bool" where
  "change_me_at s \<longleftrightarrow> take 6 s = ''change'' \<and>
     (take 2 (drop 6 s) = ''me'' \<or>
      (take 2 (drop 7 s) = ''me'' \<and> s ! 6 \<noteq> CHR 10 \<and> s ! 6 \<noteq> CHR 13))"

fun change_me_in :: "string \<Rightarrow> bool" where
  "change_me_in [] \<longleftrightarrow> False"
| "change_me_in (c # cs) \<longleftrightarrow> change_me_at (c # cs) \<or> change_me_in cs"

definition insecureSecret :: "string \<Rightarrow> bool" where
  "insecureSecret value \<longleftrightarrow> (let v = map ascii_lower value in
     occurs_in ''replace_with'' v \<or> change_me_in v \<or> occurs_in ''development_secret'' v \<or>
     occurs_in ''example_secret'' v)"

text \<open>
  The base64 text of 32 bytes that decoding and encoding give back: 43 digits, of which the last
  one carries four bits, and one padding character.
\<close>

definition base64_value :: "char \<Rightarrow> nat option" where
  "base64_value c =
     (if CHR ''A'' \<le> c \<and> c \<le> CHR ''Z'' then Some (of_char c - 65)
      else if CHR ''a'' \<le> c \<and> c \<le> CHR ''z'' then Some (of_char c - 71)
      else if CHR ''0'' \<le> c \<and> c \<le> CHR ''9'' then Some (of_char c + 4)
      else if c = CHR ''+'' then Some 62 else if c = CHR ''/'' then Some 63 else None)"

definition base64_of_32_bytes :: "string \<Rightarrow> bool" where
  "base64_of_32_bytes s \<longleftrightarrow> length s = 44 \<and>
     list_all (\<lambda>c. base64_value c \<noteq> None) (take 43 s) \<and>
     the (base64_value (s ! 42)) mod 4 = 0 \<and> s ! 43 = CHR ''=''"

definition decimal_digit :: "char \<Rightarrow> bool" where
  "decimal_digit c \<longleftrightarrow> CHR ''0'' \<le> c \<and> c \<le> CHR ''9''"

definition digits_value :: "string \<Rightarrow> int" where
  "digits_value s = fold (\<lambda>c n. n * 10 + (of_char c - 48)) s 0"

fun split_on :: "char \<Rightarrow> string \<Rightarrow> string list" where
  "split_on d [] = [[]]"
| "split_on d (c # cs) =
     (if c = d then [] # split_on d cs
      else case split_on d cs of [] \<Rightarrow> [[c]] | p # ps \<Rightarrow> (c # p) # ps)"

section \<open>The reader\<close>

type_synonym process_env = "string \<Rightarrow> string option"

record url =
  u_protocol :: string
  u_hostname :: string
  u_username :: string
  u_password :: string
  u_pathname :: string
  u_origin :: string

type_synonym url_parser = "string \<Rightarrow> url option"

text \<open>The state of the \<open>Reader\<close> is its list \<open>invalid\<close>.\<close>

type_synonym 'a reader = "(string list, 'a) m"

definition push_invalid :: "string list \<Rightarrow> unit reader" where
  "push_invalid names = modifyM (\<lambda>invalid. invalid @ names)"

definition push_if :: "bool \<Rightarrow> string list \<Rightarrow> unit reader" where
  "push_if b names = (if b then push_invalid names else returnM ())"

definition read_text :: "process_env \<Rightarrow> string \<Rightarrow> nat \<Rightarrow> string reader" where
  "read_text source name maximum =
     (case map_option js_trim (source name) of
        None \<Rightarrow> thenM (push_invalid [name]) (returnM [])
      | Some value \<Rightarrow>
          if length value = 0 \<or> maximum < length value
          then thenM (push_invalid [name]) (returnM [])
          else returnM value)"

definition read_integer :: "process_env \<Rightarrow> string \<Rightarrow> int \<Rightarrow> int \<Rightarrow> int reader" where
  "read_integer source name minimum maximum =
     bindM (read_text source name 20) (\<lambda>raw.
     if raw = [] \<or> \<not> list_all decimal_digit raw \<or> 2 ^ 53 - 1 < digits_value raw \<or>
        digits_value raw < minimum \<or> maximum < digits_value raw
     then thenM (push_invalid [name]) (returnM minimum)
     else returnM (digits_value raw))"

definition read_secret :: "process_env \<Rightarrow> string \<Rightarrow> nat \<Rightarrow> string reader" where
  "read_secret source name minimumBytes =
     bindM (read_text source name 4096) (\<lambda>value.
     thenM (push_if (utf8_length value < minimumBytes \<or> insecureSecret value) [name])
     (returnM value))"

definition url_refused :: "string list \<Rightarrow> url option \<Rightarrow> bool" where
  "url_refused allowed parsed = (case parsed of
     None \<Rightarrow> True
   | Some u \<Rightarrow> \<not> List.member allowed (u_protocol u) \<or> u_hostname u = [] \<or>
       u_username u \<noteq> [] \<or> u_password u \<noteq> [])"

definition read_url ::
  "url_parser \<Rightarrow> process_env \<Rightarrow> string \<Rightarrow> string list \<Rightarrow> string list \<Rightarrow> string reader" where
  "read_url parse source name protocols productionProtocols =
     bindM (read_text source name 2048) (\<lambda>value.
     let allowed = (if source ''SWAR_ENV'' = Some ''production'' then productionProtocols
                    else protocols) in
     thenM (push_if (url_refused allowed (parse value)) [name]) (returnM value))"

definition parseEnvironmentName :: "process_env \<Rightarrow> SwarEnvironment reader" where
  "parseEnvironmentName source =
     bindM (read_text source ''SWAR_ENV'' 20) (\<lambda>value.
     if value = ''development'' then returnM ENV_DEVELOPMENT
     else if value = ''test'' then returnM ENV_TEST
     else if value = ''production'' then returnM ENV_PRODUCTION
     else thenM (push_invalid [''SWAR_ENV'']) (returnM ENV_DEVELOPMENT))"

definition parseEvidenceMode :: "process_env \<Rightarrow> MlEvidenceMode reader" where
  "parseEvidenceMode source =
     bindM (read_text source ''ML_EVIDENCE_MODE'' 20) (\<lambda>raw.
     let value = map ascii_upper raw in
     if value = ''SIMULATED'' then returnM ML_SIMULATED
     else if value = ''SHADOW'' then returnM ML_SHADOW
     else if value = ''CALIBRATED'' then returnM ML_CALIBRATED
     else thenM (push_invalid [''ML_EVIDENCE_MODE'']) (returnM ML_SHADOW))"

text \<open>The allowed values with their names; the first one is the result of an invalid variable.\<close>

definition parseEnum :: "process_env \<Rightarrow> string \<Rightarrow> (string \<times> 'a) list \<Rightarrow> 'a reader" where
  "parseEnum source name allowed =
     bindM (read_text source name 40) (\<lambda>raw.
     case map_of allowed (map ascii_upper raw) of
       Some v \<Rightarrow> returnM v
     | None \<Rightarrow> thenM (push_invalid [name]) (returnM (snd (hd allowed))))"

definition origin_refused :: "SwarEnvironment \<Rightarrow> string \<Rightarrow> url option \<Rightarrow> bool" where
  "origin_refused env origin parsed = (case parsed of
     None \<Rightarrow> True
   | Some u \<Rightarrow> \<not> List.member [''http:'', ''https:''] (u_protocol u) \<or> u_origin u \<noteq> origin \<or>
       (env = ENV_PRODUCTION \<and> u_protocol u \<noteq> ''https:''))"

definition parseCors ::
  "url_parser \<Rightarrow> process_env \<Rightarrow> SwarEnvironment \<Rightarrow> string list reader" where
  "parseCors parse source env =
     bindM (read_text source ''CORS_ALLOWED_ORIGINS'' 4096) (\<lambda>raw.
     let origins = dedup (filter (\<lambda>v. v \<noteq> []) (map js_trim (split_on CHR '','' raw))) in
     thenM (push_if (origins = [] \<or> List.member origins ''*'') [''CORS_ALLOWED_ORIGINS''])
     (thenM (iterM origins (\<lambda>origin.
        push_if (origin_refused env origin (parse origin)) [''CORS_ALLOWED_ORIGINS'']))
     (returnM origins)))"

definition database_url_refused :: "SwarEnvironment \<Rightarrow> url option \<Rightarrow> bool" where
  "database_url_refused env parsed = (case parsed of
     None \<Rightarrow> True
   | Some u \<Rightarrow> \<not> List.member [''postgres:'', ''postgresql:''] (u_protocol u) \<or>
       u_hostname u = [] \<or> length (u_pathname u) \<le> 1 \<or>
       (env = ENV_PRODUCTION \<and> u_password u = []))"

section \<open>The sections\<close>

definition parse_runtime ::
  "url_parser \<Rightarrow> process_env \<Rightarrow> SwarEnvironment \<Rightarrow> runtime_config reader" where
  "parse_runtime parse source environment' =
     bindM (read_text source ''BACKEND_HOST'' 255) (\<lambda>host'.
     bindM (read_integer source ''BACKEND_PORT'' 1 65535) (\<lambda>port'.
     bindM (read_url parse source ''PUBLIC_API_URL'' [''http:'', ''https:''] [''https:''])
       (\<lambda>publicApiUrl'.
     bindM (read_url parse source ''SECURITY_WS_URL'' [''ws:'', ''wss:''] [''wss:''])
       (\<lambda>securityWebSocketUrl'.
     bindM (parseCors parse source environment') (\<lambda>corsAllowedOrigins'.
     bindM (read_integer source ''HTTP_BODY_LIMIT_BYTES'' 1024 1048576) (\<lambda>bodyLimitBytes'.
     bindM (read_integer source ''HTTP_REQUEST_TIMEOUT_MS'' 1000 120000)
       (\<lambda>inboundRequestTimeoutMs'.
     bindM (read_integer source ''SHUTDOWN_TIMEOUT_MS'' 1000 60000) (\<lambda>shutdownTimeoutMs'.
     returnM \<lparr>environment = environment', host = host', port = port', publicApiUrl =
     publicApiUrl', securityWebSocketUrl = securityWebSocketUrl', corsAllowedOrigins =
     corsAllowedOrigins', bodyLimitBytes = bodyLimitBytes', inboundRequestTimeoutMs =
     inboundRequestTimeoutMs', shutdownTimeoutMs = shutdownTimeoutMs'\<rparr>))))))))"

definition parse_database ::
  "process_env \<Rightarrow> string \<Rightarrow> database_config reader" where
  "parse_database source databaseUrl' =
     bindM (read_integer source ''POSTGRES_POOL_MAX'' 1 100) (\<lambda>poolMax'.
     bindM (read_integer source ''POSTGRES_IDLE_TIMEOUT_MS'' 1000 300000) (\<lambda>idleTimeoutMs'.
     bindM (read_integer source ''POSTGRES_CONNECTION_TIMEOUT_MS'' 100 60000)
       (\<lambda>connectionTimeoutMs'.
     returnM \<lparr>databaseUrl = databaseUrl', poolMax = poolMax', idleTimeoutMs =
     idleTimeoutMs', connectionTimeoutMs = connectionTimeoutMs'\<rparr>)))"

definition parse_auth ::
  "process_env \<Rightarrow> string \<Rightarrow> string \<Rightarrow> auth_config reader" where
  "parse_auth source accessSecret' refreshSecret' =
     bindM (read_text source ''JWT_ISSUER'' 160) (\<lambda>issuer'.
     bindM (read_text source ''JWT_AUDIENCE'' 160) (\<lambda>audience'.
     bindM (read_integer source ''JWT_ACCESS_TTL_SECONDS'' 60 3600) (\<lambda>accessTtlSeconds'.
     bindM (read_integer source ''JWT_CLOCK_TOLERANCE_SECONDS'' 0 60) (\<lambda>clockToleranceSeconds'.
     bindM (read_integer source ''REFRESH_SESSION_TTL_SECONDS'' 300 2592000) (\<lambda>refreshTtlSeconds'.
     bindM (read_integer source ''AUTH_LOGIN_MAX_ATTEMPTS'' 1 100) (\<lambda>loginMaximumAttempts'.
     bindM (read_integer source ''AUTH_LOGIN_WINDOW_SECONDS'' 1 3600) (\<lambda>loginWindowSeconds'.
     returnM \<lparr>accessSecret = accessSecret', refreshSecret = refreshSecret', issuer =
     issuer', audience = audience', accessTtlSeconds = accessTtlSeconds', clockToleranceSeconds =
     clockToleranceSeconds', refreshTtlSeconds = refreshTtlSeconds', loginMaximumAttempts =
     loginMaximumAttempts', loginWindowSeconds = loginWindowSeconds'\<rparr>)))))))"

definition parse_dependencies ::
  "url_parser \<Rightarrow> process_env \<Rightarrow> dependencies_config reader" where
  "parse_dependencies parse source =
     bindM (read_url parse source ''ML_INTERNAL_URL'' [''http:'', ''https:''] [''https:''])
       (\<lambda>mlInternalUrl'.
     bindM (parseEvidenceMode source) (\<lambda>mlEvidenceMode'.
     bindM (read_integer source ''ML_CONTROL_MAX_ATTEMPTS'' 1 5) (\<lambda>mlControlMaximumAttempts'.
     bindM (read_integer source ''ML_CONTROL_RETRY_BACKOFF_MS'' 10 5000)
       (\<lambda>mlControlRetryBackoffMs'.
     bindM (read_integer source ''INTERNAL_AUTH_CLOCK_SKEW_SECONDS'' 1 300)
       (\<lambda>internalAuthClockSkewSeconds'.
     bindM (read_url parse source ''LIVEKIT_URL'' [''ws:'', ''wss:''] [''wss:'']) (\<lambda>liveKitUrl'.
     bindM (read_integer source ''DOWNSTREAM_HTTP_TIMEOUT_MS'' 100 30000) (\<lambda>httpTimeoutMs'.
     bindM (read_integer source ''DOWNSTREAM_WEBSOCKET_TIMEOUT_MS'' 100 30000)
       (\<lambda>webSocketTimeoutMs'.
     bindM (read_integer source ''LIVEKIT_PARTICIPANT_GRANT_TTL_SECONDS'' 30 900)
       (\<lambda>liveKitParticipantGrantTtlSeconds'.
     bindM (read_integer source ''ANALYSIS_SESSION_TTL_SECONDS'' 30 3600)
       (\<lambda>analysisSessionTtlSeconds'.
     returnM \<lparr>mlInternalUrl = mlInternalUrl', mlEvidenceMode = mlEvidenceMode',
     mlControlMaximumAttempts = mlControlMaximumAttempts', mlControlRetryBackoffMs =
     mlControlRetryBackoffMs', internalAuthClockSkewSeconds = internalAuthClockSkewSeconds',
     liveKitUrl = liveKitUrl', httpTimeoutMs = httpTimeoutMs', webSocketTimeoutMs =
     webSocketTimeoutMs', liveKitParticipantGrantTtlSeconds = liveKitParticipantGrantTtlSeconds',
     analysisSessionTtlSeconds = analysisSessionTtlSeconds'\<rparr>))))))))))"

definition parse_risk ::
  "process_env \<Rightarrow> risk_config reader" where
  "parse_risk source =
     bindM (parseEnum source ''RISK_INTERVENTION_MODE''
       [(''ENGINEERING_ONLY'', RIM_ENGINEERING_ONLY), (''PRODUCTION'', RIM_PRODUCTION)])
       (\<lambda>interventionMode'.
     bindM (parseEnum source ''PHASE_O_SCIENTIFIC_STATUS''
       [(''BLOCKED'', PHASE_O_BLOCKED), (''PROMOTED'', PHASE_O_PROMOTED)])
       (\<lambda>phaseOScientificStatus'.
     bindM (parseEnum source ''PHASE_P_PRODUCTION_STATUS''
       [(''BLOCKED_BY_PHASE_O'', PHASE_P_BLOCKED_BY_PHASE_O), (''PROMOTED'', PHASE_P_PROMOTED)])
       (\<lambda>phasePProductionStatus'.
     bindM (parseEnum source ''PHASE_Q_PRODUCTION_STATUS''
       [(''ENGINEERING_ONLY'', PHASE_Q_ENGINEERING_ONLY), (''PROMOTED'', PHASE_Q_PROMOTED)])
       (\<lambda>phaseQProductionStatus'.
     returnM \<lparr>interventionMode = interventionMode', phaseOScientificStatus =
     phaseOScientificStatus', phasePProductionStatus = phasePProductionStatus',
     phaseQProductionStatus = phaseQProductionStatus'\<rparr>))))"

definition parse_secrets ::
  "process_env \<Rightarrow> string \<Rightarrow> secrets_config reader" where
  "parse_secrets source voiceprintEncryptionKey' =
     bindM (read_secret source ''ML_INTERNAL_SECRET'' 32) (\<lambda>mlInternalSecret'.
     bindM (read_secret source ''VERIFICATION_CALLBACK_SECRET'' 32) (\<lambda>verificationCallbackSecret'.
     bindM (read_secret source ''LIVEKIT_API_KEY'' 8) (\<lambda>liveKitApiKey'.
     bindM (read_secret source ''LIVEKIT_API_SECRET'' 32) (\<lambda>liveKitApiSecret'.
     bindM (read_text source ''VOICEPRINT_ENCRYPTION_KEY_VERSION'' 128)
       (\<lambda>voiceprintEncryptionKeyVersion'.
     returnM \<lparr>mlInternalSecret = mlInternalSecret', verificationCallbackSecret =
     verificationCallbackSecret', liveKitApiKey = liveKitApiKey', liveKitApiSecret =
     liveKitApiSecret', voiceprintEncryptionKey = voiceprintEncryptionKey',
     voiceprintEncryptionKeyVersion = voiceprintEncryptionKeyVersion'\<rparr>)))))"

definition parse_idempotency ::
  "process_env \<Rightarrow> idempotency_config reader" where
  "parse_idempotency source =
     bindM (read_integer source ''IDEMPOTENCY_TTL_SECONDS'' 60 86400) (\<lambda>idempotencyTtlSeconds'.
     bindM (read_integer source ''IDEMPOTENCY_MAX_ENTRIES'' 100 100000) (\<lambda>maximumEntries'.
     returnM \<lparr>idempotencyTtlSeconds = idempotencyTtlSeconds', maximumEntries =
     maximumEntries'\<rparr>))"

definition parse_api ::
  "process_env \<Rightarrow> api_config reader" where
  "parse_api source =
     bindM (read_integer source ''API_RATE_LIMIT_WINDOW_SECONDS'' 1 3600)
       (\<lambda>rateLimitWindowSeconds'.
     bindM (read_integer source ''API_SENSITIVE_RATE_LIMIT_MAX'' 1 1000)
       (\<lambda>sensitiveRateLimitMaximum'.
     bindM (read_integer source ''API_MUTATION_RATE_LIMIT_MAX'' 1 10000)
       (\<lambda>mutationRateLimitMaximum'.
     bindM (read_integer source ''API_QUERY_RATE_LIMIT_MAX'' 1 100000) (\<lambda>queryRateLimitMaximum'.
     bindM (read_integer source ''SECURITY_WS_REPLAY_MAX_EVENTS'' 1 10000)
       (\<lambda>securityEventReplayMaximum'.
     bindM (read_integer source ''SECURITY_WS_SUBSCRIPTION_MAX_CALLS'' 1 1000)
       (\<lambda>securitySubscriptionMaximumCalls'.
     bindM (read_integer source ''SECURITY_WS_INBOUND_RATE_LIMIT_MAX'' 1 10000)
       (\<lambda>securityInboundRateLimitMaximum'.
     bindM (read_integer source ''SECURITY_WS_CONNECTION_MAXIMUM'' 1 10000)
       (\<lambda>securityConnectionMaximum'.
     bindM (read_integer source ''SECURITY_OUTBOX_BATCH_SIZE'' 1 1000) (\<lambda>securityOutboxBatchSize'.
     bindM (read_integer source ''SECURITY_OUTBOX_MAX_ATTEMPTS'' 1 20)
       (\<lambda>securityOutboxMaximumAttempts'.
     bindM (read_integer source ''SECURITY_OUTBOX_RETRY_BASE_MS'' 10 60000)
       (\<lambda>securityOutboxRetryBaseMs'.
     bindM (read_integer source ''SECURITY_OUTBOX_POLL_INTERVAL_MS'' 100 60000)
       (\<lambda>securityOutboxPollIntervalMs'.
     bindM (read_integer source ''SECURITY_OUTBOX_LEASE_MS'' 1000 300000)
       (\<lambda>securityOutboxLeaseMs'.
     bindM (read_integer source ''ENROLLMENT_MAX_SAMPLES'' 1 20) (\<lambda>enrollmentMaximumSamples'.
     bindM (read_integer source ''ENROLLMENT_MAX_SAMPLE_BYTES'' 1024 10485760)
       (\<lambda>enrollmentMaximumSampleBytes'.
     bindM (read_integer source ''ENROLLMENT_MAX_TOTAL_BYTES'' 1024 52428800)
       (\<lambda>enrollmentMaximumTotalBytes'.
     bindM (read_integer source ''ENROLLMENT_MAX_DECLARED_DURATION_MS'' 250 300000)
       (\<lambda>enrollmentMaximumDeclaredDurationMs'.
     bindM (read_integer source ''STEP_UP_CHALLENGE_TTL_SECONDS'' 30 3600)
       (\<lambda>stepUpChallengeTtlSeconds'.
     returnM \<lparr>rateLimitWindowSeconds = rateLimitWindowSeconds', sensitiveRateLimitMaximum
     = sensitiveRateLimitMaximum', mutationRateLimitMaximum = mutationRateLimitMaximum',
     queryRateLimitMaximum = queryRateLimitMaximum', securityEventReplayMaximum =
     securityEventReplayMaximum', securitySubscriptionMaximumCalls =
     securitySubscriptionMaximumCalls', securityInboundRateLimitMaximum =
     securityInboundRateLimitMaximum', securityConnectionMaximum = securityConnectionMaximum',
     securityOutboxBatchSize = securityOutboxBatchSize', securityOutboxMaximumAttempts =
     securityOutboxMaximumAttempts', securityOutboxRetryBaseMs = securityOutboxRetryBaseMs',
     securityOutboxPollIntervalMs = securityOutboxPollIntervalMs', securityOutboxLeaseMs =
     securityOutboxLeaseMs', enrollmentMaximumSamples = enrollmentMaximumSamples',
     enrollmentMaximumSampleBytes = enrollmentMaximumSampleBytes', enrollmentMaximumTotalBytes =
     enrollmentMaximumTotalBytes', enrollmentMaximumDeclaredDurationMs =
     enrollmentMaximumDeclaredDurationMs', stepUpChallengeTtlSeconds =
     stepUpChallengeTtlSeconds'\<rparr>))))))))))))))))))"

section \<open>The parser\<close>

text \<open>Lines 362 to 397: the names that the cross checks add, in the order of the code.\<close>

definition cross_checks :: "configuration \<Rightarrow> string list" where
  "cross_checks c =
     (if enrollmentMaximumTotalBytes (c_api c) < enrollmentMaximumSampleBytes (c_api c)
      then [''ENROLLMENT_MAX_TOTAL_BYTES''] else []) @
     (if environment (c_runtime c) = ENV_PRODUCTION \<and>
         mlEvidenceMode (c_dependencies c) \<noteq> ML_CALIBRATED
      then [''ML_EVIDENCE_MODE''] else []) @
     (if environment (c_runtime c) = ENV_PRODUCTION \<and>
         interventionMode (c_risk c) \<noteq> RIM_PRODUCTION
      then [''RISK_INTERVENTION_MODE''] else []) @
     (if interventionMode (c_risk c) = RIM_PRODUCTION \<and>
         (phaseOScientificStatus (c_risk c) \<noteq> PHASE_O_PROMOTED \<or>
          phasePProductionStatus (c_risk c) \<noteq> PHASE_P_PROMOTED \<or>
          phaseQProductionStatus (c_risk c) \<noteq> PHASE_Q_PROMOTED)
      then [''RISK_INTERVENTION_MODE'', ''PHASE_O_SCIENTIFIC_STATUS'',
            ''PHASE_P_PRODUCTION_STATUS'', ''PHASE_Q_PRODUCTION_STATUS''] else []) @
     (if phasePProductionStatus (c_risk c) = PHASE_P_PROMOTED \<and>
         phaseOScientificStatus (c_risk c) \<noteq> PHASE_O_PROMOTED
      then [''PHASE_O_SCIENTIFIC_STATUS'', ''PHASE_P_PRODUCTION_STATUS''] else [])"

definition read_configuration :: "url_parser \<Rightarrow> process_env \<Rightarrow> configuration reader" where
  "read_configuration parse source =
     bindM (parseEnvironmentName source) (\<lambda>env.
     bindM (read_secret source ''JWT_ACCESS_SECRET'' 32) (\<lambda>accessSecret'.
     bindM (read_secret source ''JWT_REFRESH_SECRET'' 32) (\<lambda>refreshSecret'.
     thenM (push_if (accessSecret' = refreshSecret')
              [''JWT_ACCESS_SECRET'', ''JWT_REFRESH_SECRET''])
     (bindM (read_text source ''VOICEPRINT_ENCRYPTION_KEY'' 256) (\<lambda>voiceprintKey.
     thenM (push_if (\<not> base64_of_32_bytes voiceprintKey) [''VOICEPRINT_ENCRYPTION_KEY''])
     (bindM (read_text source ''DATABASE_URL'' 4096) (\<lambda>url.
     thenM (push_if (database_url_refused env (parse url)) [''DATABASE_URL''])
     (bindM (parse_runtime parse source env) (\<lambda>runtime'.
     bindM (parse_database source url) (\<lambda>database'.
     bindM (parse_auth source accessSecret' refreshSecret') (\<lambda>auth'.
     bindM (parse_dependencies parse source) (\<lambda>dependencies'.
     bindM (parse_risk source) (\<lambda>risk'.
     bindM (parse_secrets source voiceprintKey) (\<lambda>secrets'.
     bindM (parse_idempotency source) (\<lambda>idempotency'.
     bindM (parse_api source) (\<lambda>api'.
     let c = \<lparr>c_runtime = runtime', c_database = database', c_auth = auth',
              c_dependencies = dependencies', c_risk = risk', c_secrets = secrets',
              c_idempotency = idempotency', c_api = api'\<rparr> in
     thenM (push_invalid (cross_checks c)) (returnM c)))))))))))))))))"

definition parseEnvironment :: "url_parser \<Rightarrow> process_env \<Rightarrow> err + configuration" where
  "parseEnvironment parse source =
     (case read_configuration parse source [] of
        (Inr c, invalid) \<Rightarrow>
          if invalid \<noteq> [] then Inl (EnvironmentValidationError (sort (dedup invalid))) else Inr c
      | (Inl e, _) \<Rightarrow> Inl e)"

section \<open>An engineering configuration\<close>

definition engineering_configuration :: configuration where
  "engineering_configuration =
     \<lparr>c_runtime = \<lparr>environment = ENV_DEVELOPMENT, host = ''localhost'', port = 3000,
        publicApiUrl = ''http://localhost:3000'', securityWebSocketUrl = ''ws://localhost:3000'',
        corsAllowedOrigins = [''http://localhost:5173''], bodyLimitBytes = 65536,
        inboundRequestTimeoutMs = 10000, shutdownTimeoutMs = 10000\<rparr>,
      c_database = \<lparr>databaseUrl = ''postgresql://localhost/swar'', poolMax = 10,
        idleTimeoutMs = 10000, connectionTimeoutMs = 5000\<rparr>,
      c_auth = \<lparr>accessSecret = ''a'', refreshSecret = ''b'', issuer = ''swar'',
        audience = ''swar'', accessTtlSeconds = 900, clockToleranceSeconds = 0,
        refreshTtlSeconds = 3600, loginMaximumAttempts = 5, loginWindowSeconds = 60\<rparr>,
      c_dependencies = \<lparr>mlInternalUrl = ''http://localhost:8000'', mlEvidenceMode = ML_SIMULATED,
        mlControlMaximumAttempts = 3, mlControlRetryBackoffMs = 100,
        internalAuthClockSkewSeconds = 30, liveKitUrl = ''ws://localhost:7880'',
        httpTimeoutMs = 1000, webSocketTimeoutMs = 1000,
        liveKitParticipantGrantTtlSeconds = 60, analysisSessionTtlSeconds = 600\<rparr>,
      c_risk = \<lparr>interventionMode = RIM_ENGINEERING_ONLY,
        phaseOScientificStatus = PHASE_O_BLOCKED,
        phasePProductionStatus = PHASE_P_BLOCKED_BY_PHASE_O,
        phaseQProductionStatus = PHASE_Q_ENGINEERING_ONLY\<rparr>,
      c_secrets = \<lparr>mlInternalSecret = ''m'', verificationCallbackSecret = ''v'',
        liveKitApiKey = ''k'', liveKitApiSecret = ''s'', voiceprintEncryptionKey = ''e'',
        voiceprintEncryptionKeyVersion = ''k1''\<rparr>,
      c_idempotency = \<lparr>idempotencyTtlSeconds = 600, maximumEntries = 1000\<rparr>,
      c_api = \<lparr>rateLimitWindowSeconds = 60, sensitiveRateLimitMaximum = 5,
        mutationRateLimitMaximum = 30, queryRateLimitMaximum = 60,
        securityEventReplayMaximum = 100, securitySubscriptionMaximumCalls = 10,
        securityInboundRateLimitMaximum = 20, securityConnectionMaximum = 50,
        securityOutboxBatchSize = 10, securityOutboxMaximumAttempts = 3,
        securityOutboxRetryBaseMs = 100, securityOutboxPollIntervalMs = 1000,
        securityOutboxLeaseMs = 5000, enrollmentMaximumSamples = 5,
        enrollmentMaximumSampleBytes = 4096, enrollmentMaximumTotalBytes = 8192,
        enrollmentMaximumDeclaredDurationMs = 5000, stepUpChallengeTtlSeconds = 300\<rparr>\<rparr>"

section \<open>Accepted configurations\<close>

text \<open>A reader only appends to its list; a run is quiet when it adds nothing to an empty list.\<close>

definition appends :: "'a reader \<Rightarrow> bool" where
  "appends m \<longleftrightarrow> (\<forall>invalid. \<exists>a names. m invalid = (Inr a, invalid @ names))"

definition quiet :: "'a reader \<Rightarrow> 'a \<Rightarrow> bool" where
  "quiet m a \<longleftrightarrow> m [] = (Inr a, [])"

named_theorems reader_simps

lemma appends_returnM [reader_simps]: "appends (returnM a)"
  by (simp add: appends_def monad_simps)

lemma appends_push_invalid [reader_simps]: "appends (push_invalid names)"
  by (simp add: appends_def push_invalid_def monad_simps)

lemma appends_push_if [reader_simps]: "appends (push_if b names)"
  by (simp add: push_if_def reader_simps)

lemma appends_bindM [reader_simps]:
  assumes "appends m" "\<And>a. appends (f a)" shows "appends (bindM m f)"
  unfolding appends_def
proof
  fix invalid
  obtain a names where "m invalid = (Inr a, invalid @ names)"
    using assms(1) unfolding appends_def by blast
  moreover obtain b names' where "f a (invalid @ names) = (Inr b, (invalid @ names) @ names')"
    using assms(2) by (metis appends_def)
  ultimately show "\<exists>a names. bindM m f invalid = (Inr a, invalid @ names)" by simp
qed

lemma appends_thenM [reader_simps]: "appends m \<Longrightarrow> appends k \<Longrightarrow> appends (thenM m k)"
  by (simp add: thenM_def appends_bindM)

lemma appends_iterM [reader_simps]: "(\<And>x. appends (f x)) \<Longrightarrow> appends (iterM xs f)"
  by (induction xs) (simp_all add: reader_simps)

lemma quiet_bindM [reader_simps]:
  assumes "appends m" "\<And>a. appends (f a)"
  shows "quiet (bindM m f) b \<longleftrightarrow> (\<exists>a. quiet m a \<and> quiet (f a) b)"
proof -
  obtain a names where m: "m [] = (Inr a, names)"
    using assms(1) unfolding appends_def by (metis append_Nil)
  obtain c names' where "f a names = (Inr c, names @ names')"
    using assms(2) by (metis appends_def)
  with m show ?thesis by (auto simp: quiet_def)
qed

lemma quiet_thenM [reader_simps]:
  "appends m \<Longrightarrow> appends k \<Longrightarrow> quiet (thenM m k) b \<longleftrightarrow> (\<exists>a. quiet m a) \<and> quiet k b"
  by (simp add: thenM_def quiet_bindM)

lemma quiet_returnM [reader_simps]: "quiet (returnM a) b \<longleftrightarrow> b = a"
  by (auto simp: quiet_def monad_simps)

lemma quiet_push_invalid [reader_simps]: "quiet (push_invalid names) u \<longleftrightarrow> names = []"
  by (auto simp: quiet_def push_invalid_def monad_simps)

lemma quiet_push_if [reader_simps]: "quiet (push_if b names) u \<longleftrightarrow> \<not> b \<or> names = []"
  by (simp add: push_if_def reader_simps)

lemma appends_if [reader_simps]: "appends (if b then m else k) \<longleftrightarrow> (if b then appends m else appends k)"
  by simp

lemma appends_Let [reader_simps]: "appends (f x) \<Longrightarrow> appends (Let x f)"
  by simp

lemma appends_read_text [reader_simps]: "appends (read_text source name n)"
  by (auto simp: read_text_def reader_simps split: option.split)

lemma appends_read_integer [reader_simps]: "appends (read_integer source name a b)"
  by (simp add: read_integer_def reader_simps)

lemma appends_read_secret [reader_simps]: "appends (read_secret source name n)"
  by (simp add: read_secret_def reader_simps)

lemma appends_read_url [reader_simps]: "appends (read_url parse source name ps qs)"
  by (simp add: read_url_def Let_def reader_simps)

lemma appends_parseEnvironmentName [reader_simps]: "appends (parseEnvironmentName source)"
  by (simp add: parseEnvironmentName_def reader_simps)

lemma appends_parseEvidenceMode [reader_simps]: "appends (parseEvidenceMode source)"
  by (simp add: parseEvidenceMode_def Let_def reader_simps)

lemma appends_parseEnum [reader_simps]: "appends (parseEnum source name allowed)"
  unfolding parseEnum_def
  by (intro appends_bindM) (auto simp: reader_simps split: option.split)

lemma appends_parseCors [reader_simps]: "appends (parseCors parse source env)"
  by (simp add: parseCors_def Let_def reader_simps)

lemma appends_sections [reader_simps]:
  "appends (parse_runtime parse source env)" "appends (parse_database source url)"
  "appends (parse_auth source s1 s2)" "appends (parse_dependencies parse source)"
  "appends (parse_risk source)" "appends (parse_secrets source key)"
  "appends (parse_idempotency source)" "appends (parse_api source)"
  by (simp_all add: parse_runtime_def parse_database_def parse_auth_def parse_dependencies_def
      parse_risk_def parse_secrets_def parse_idempotency_def parse_api_def reader_simps)

lemma quiet_integer: "quiet (read_integer source name a b) v \<Longrightarrow> a \<le> v \<and> v \<le> b"
  by (auto simp: read_integer_def reader_simps split: if_splits)

lemma quiet_secret:
  "quiet (read_secret source name n) v \<Longrightarrow> n \<le> utf8_length v \<and> \<not> insecureSecret v"
  by (auto simp: read_secret_def reader_simps)

lemma quiet_url:
  "quiet (read_url parse source name ps qs) v \<Longrightarrow>
     \<not> url_refused (if source ''SWAR_ENV'' = Some ''production'' then qs else ps) (parse v)"
  by (auto simp: read_url_def reader_simps Let_def split: if_splits)


text \<open>What the other components may assume of a configuration that was accepted.\<close>

definition gates_consistent :: "configuration \<Rightarrow> bool" where
  "gates_consistent c \<longleftrightarrow>
     (environment (c_runtime c) = ENV_PRODUCTION \<longrightarrow>
        gates_promoted (c_risk c) \<and> mlEvidenceMode (c_dependencies c) = ML_CALIBRATED) \<and>
     (interventionMode (c_risk c) = RIM_PRODUCTION \<longrightarrow> gates_promoted (c_risk c)) \<and>
     (phasePProductionStatus (c_risk c) = PHASE_P_PROMOTED \<longrightarrow>
        phaseOScientificStatus (c_risk c) = PHASE_O_PROMOTED)"

definition limits_ok :: "configuration \<Rightarrow> bool" where
  "limits_ok c \<longleftrightarrow>
     60 \<le> accessTtlSeconds (c_auth c) \<and> accessTtlSeconds (c_auth c) \<le> 3600 \<and>
     300 \<le> refreshTtlSeconds (c_auth c) \<and> refreshTtlSeconds (c_auth c) \<le> 2592000 \<and>
     1 \<le> loginMaximumAttempts (c_auth c) \<and> loginMaximumAttempts (c_auth c) \<le> 100 \<and>
     1 \<le> loginWindowSeconds (c_auth c) \<and>
     1 \<le> mlControlMaximumAttempts (c_dependencies c) \<and>
     mlControlMaximumAttempts (c_dependencies c) \<le> 5 \<and>
     30 \<le> analysisSessionTtlSeconds (c_dependencies c) \<and>
     60 \<le> idempotencyTtlSeconds (c_idempotency c) \<and>
     100 \<le> maximumEntries (c_idempotency c) \<and>
     1 \<le> rateLimitWindowSeconds (c_api c) \<and> 1 \<le> sensitiveRateLimitMaximum (c_api c) \<and>
     1 \<le> mutationRateLimitMaximum (c_api c) \<and> 1 \<le> queryRateLimitMaximum (c_api c) \<and>
     1 \<le> securityOutboxBatchSize (c_api c) \<and> 1 \<le> securityOutboxMaximumAttempts (c_api c) \<and>
     securityOutboxMaximumAttempts (c_api c) \<le> 20 \<and> 10 \<le> securityOutboxRetryBaseMs (c_api c) \<and>
     1000 \<le> securityOutboxLeaseMs (c_api c) \<and> 1 \<le> enrollmentMaximumSamples (c_api c) \<and>
     1024 \<le> enrollmentMaximumSampleBytes (c_api c) \<and>
     enrollmentMaximumSampleBytes (c_api c) \<le> enrollmentMaximumTotalBytes (c_api c) \<and>
     30 \<le> stepUpChallengeTtlSeconds (c_api c)"

definition secrets_ok :: "configuration \<Rightarrow> bool" where
  "secrets_ok c \<longleftrightarrow>
     accessSecret (c_auth c) \<noteq> refreshSecret (c_auth c) \<and>
     32 \<le> utf8_length (accessSecret (c_auth c)) \<and> 32 \<le> utf8_length (refreshSecret (c_auth c)) \<and>
     base64_of_32_bytes (voiceprintEncryptionKey (c_secrets c))"

definition over_tls :: "url_parser \<Rightarrow> configuration \<Rightarrow> bool" where
  "over_tls parse c \<longleftrightarrow>
     map_option u_protocol (parse (publicApiUrl (c_runtime c))) = Some ''https:'' \<and>
     map_option u_protocol (parse (securityWebSocketUrl (c_runtime c))) = Some ''wss:'' \<and>
     map_option u_protocol (parse (mlInternalUrl (c_dependencies c))) = Some ''https:'' \<and>
     map_option u_protocol (parse (liveKitUrl (c_dependencies c))) = Some ''wss:''"

lemma parseEnvironment_quiet:
  assumes "parseEnvironment parse source = Inr c"
  shows "quiet (read_configuration parse source) c"
proof -
  obtain r invalid where r: "read_configuration parse source [] = (r, invalid)" by fastforce
  with assms show ?thesis
    by (cases r) (auto simp: parseEnvironment_def quiet_def split: if_splits)
qed

lemma quiet_auth: "quiet (parse_auth source s1 s2) a \<Longrightarrow>
    accessSecret a = s1 \<and> refreshSecret a = s2 \<and>
    60 \<le> accessTtlSeconds a \<and> accessTtlSeconds a \<le> 3600 \<and>
    300 \<le> refreshTtlSeconds a \<and> refreshTtlSeconds a \<le> 2592000 \<and>
    1 \<le> loginMaximumAttempts a \<and> loginMaximumAttempts a \<le> 100 \<and> 1 \<le> loginWindowSeconds a"
  by (auto simp: parse_auth_def reader_simps dest!: quiet_integer)

lemma quiet_dependencies: "quiet (parse_dependencies parse source) a \<Longrightarrow>
    1 \<le> mlControlMaximumAttempts a \<and> mlControlMaximumAttempts a \<le> 5 \<and>
    30 \<le> analysisSessionTtlSeconds a"
  by (auto simp: parse_dependencies_def reader_simps dest!: quiet_integer)

lemma quiet_idempotency: "quiet (parse_idempotency source) a \<Longrightarrow>
    60 \<le> idempotencyTtlSeconds a \<and> 100 \<le> maximumEntries a"
  by (auto simp: parse_idempotency_def reader_simps dest!: quiet_integer)

lemma quiet_api: "quiet (parse_api source) a \<Longrightarrow>
    1 \<le> rateLimitWindowSeconds a \<and> 1 \<le> sensitiveRateLimitMaximum a \<and>
    1 \<le> mutationRateLimitMaximum a \<and> 1 \<le> queryRateLimitMaximum a \<and>
    1 \<le> securityOutboxBatchSize a \<and> 1 \<le> securityOutboxMaximumAttempts a \<and>
    securityOutboxMaximumAttempts a \<le> 20 \<and> 10 \<le> securityOutboxRetryBaseMs a \<and>
    1000 \<le> securityOutboxLeaseMs a \<and> 1 \<le> enrollmentMaximumSamples a \<and>
    1024 \<le> enrollmentMaximumSampleBytes a \<and> 30 \<le> stepUpChallengeTtlSeconds a"
  by (auto simp: parse_api_def reader_simps dest!: quiet_integer)

lemma quiet_configuration:
  assumes "quiet (read_configuration parse source) c"
  obtains env s1 s2 key url where "quiet (parseEnvironmentName source) env"
    and "quiet (read_secret source ''JWT_ACCESS_SECRET'' 32) s1"
    and "quiet (read_secret source ''JWT_REFRESH_SECRET'' 32) s2" and "s1 \<noteq> s2"
    and "base64_of_32_bytes key"
    and "quiet (parse_runtime parse source env) (c_runtime c)"
    and "quiet (parse_auth source s1 s2) (c_auth c)"
    and "quiet (parse_dependencies parse source) (c_dependencies c)"
    and "quiet (parse_secrets source key) (c_secrets c)"
    and "quiet (parse_idempotency source) (c_idempotency c)"
    and "quiet (parse_api source) (c_api c)" and "cross_checks c = []"
  using assms by (auto simp: read_configuration_def reader_simps Let_def)

lemma secrets_of: "quiet (parse_secrets source key) a \<Longrightarrow> voiceprintEncryptionKey a = key"
  by (auto simp: parse_secrets_def reader_simps)

lemma runtime_of: "quiet (parse_runtime parse source env) a \<Longrightarrow> environment a = env"
  by (auto simp: parse_runtime_def reader_simps)

lemma cross_checks_gates: "cross_checks c = [] \<Longrightarrow> gates_consistent c"
  by (auto simp: cross_checks_def gates_consistent_def gates_promoted_def split: if_splits)

lemma cross_checks_total:
  "cross_checks c = [] \<Longrightarrow>
     enrollmentMaximumSampleBytes (c_api c) \<le> enrollmentMaximumTotalBytes (c_api c)"
  by (auto simp: cross_checks_def split: if_splits)

lemma url_protocol:
  "\<not> url_refused [p] parsed \<Longrightarrow> map_option u_protocol parsed = Some p"
  by (auto simp: url_refused_def split: option.splits)

lemma runtime_tls:
  assumes "quiet (parse_runtime parse source env) a" "source ''SWAR_ENV'' = Some ''production''"
  shows "map_option u_protocol (parse (publicApiUrl a)) = Some ''https:'' \<and>
    map_option u_protocol (parse (securityWebSocketUrl a)) = Some ''wss:''"
  using assms by (auto simp: parse_runtime_def reader_simps dest!: quiet_url url_protocol)

lemma dependencies_tls:
  assumes "quiet (parse_dependencies parse source) a" "source ''SWAR_ENV'' = Some ''production''"
  shows "map_option u_protocol (parse (mlInternalUrl a)) = Some ''https:'' \<and>
    map_option u_protocol (parse (liveKitUrl a)) = Some ''wss:''"
  using assms by (auto simp: parse_dependencies_def reader_simps dest!: quiet_url url_protocol)

lemma environment_name_production:
  assumes "quiet (parseEnvironmentName source) env" "source ''SWAR_ENV'' = Some ''production''"
  shows "env = ENV_PRODUCTION"
proof -
  have "js_trim ''production'' = ''production''" by code_simp
  with assms show ?thesis
    by (auto simp: parseEnvironmentName_def reader_simps read_text_def)
qed

section \<open>Properties\<close>

text \<open>
  A production environment, and a URL parser that knows URLs of the form \<open>scheme://host/path\<close>.
\<close>

definition sample_url :: url_parser where
  "sample_url s = (case split_on CHR ''/'' s of
     scheme # [] # authority # path \<Rightarrow>
       (let make = (\<lambda>h u p. \<lparr>u_protocol = scheme, u_hostname = h, u_username = u, u_password = p,
              u_pathname = concat (map (\<lambda>x. ''/'' @ x) path), u_origin = scheme @ ''//'' @ h\<rparr>) in
        case split_on CHR ''@'' authority of
          [h] \<Rightarrow> Some (make h [] [])
        | [credentials, h] \<Rightarrow>
            (case split_on CHR '':'' credentials of [u, p] \<Rightarrow> Some (make h u p) | _ \<Rightarrow> None)
        | _ \<Rightarrow> None)
   | _ \<Rightarrow> None)"

definition production_environment :: "(string \<times> string) list" where
  "production_environment =
     [(''SWAR_ENV'', ''production''),
      (''JWT_ACCESS_SECRET'', ''a-secret-of-the-access-tokens-000''),
      (''JWT_REFRESH_SECRET'', ''a-secret-of-the-refresh-tokens-00''),
      (''VOICEPRINT_ENCRYPTION_KEY'', ''AAAAAAAAAAAAAAAAAAAAAAAAAAAAAAAAAAAAAAAAAAA=''),
      (''DATABASE_URL'', ''postgres://u:p@db/swar''), (''BACKEND_HOST'', ''h''),
      (''PUBLIC_API_URL'', ''https://h''), (''SECURITY_WS_URL'', ''wss://h''),
      (''CORS_ALLOWED_ORIGINS'', ''https://h''), (''JWT_ISSUER'', ''i''),
      (''JWT_AUDIENCE'', ''a''), (''ML_INTERNAL_URL'', ''https://m''),
      (''ML_EVIDENCE_MODE'', ''CALIBRATED''), (''LIVEKIT_URL'', ''wss://l''),
      (''RISK_INTERVENTION_MODE'', ''PRODUCTION''),
      (''PHASE_O_SCIENTIFIC_STATUS'', ''PROMOTED''),
      (''PHASE_P_PRODUCTION_STATUS'', ''PROMOTED''),
      (''PHASE_Q_PRODUCTION_STATUS'', ''PROMOTED''),
      (''ML_INTERNAL_SECRET'', ''a-secret-of-the-internal-calls-00''),
      (''VERIFICATION_CALLBACK_SECRET'', ''a-secret-of-the-callbacks-0000000''),
      (''LIVEKIT_API_KEY'', ''livekit-key''),
      (''LIVEKIT_API_SECRET'', ''a-secret-of-the-livekit-server-00''),
      (''VOICEPRINT_ENCRYPTION_KEY_VERSION'', ''k1''), (''BACKEND_PORT'', ''1''),
      (''HTTP_BODY_LIMIT_BYTES'', ''1024''), (''HTTP_REQUEST_TIMEOUT_MS'', ''1000''),
      (''SHUTDOWN_TIMEOUT_MS'', ''1000''), (''POSTGRES_POOL_MAX'', ''1''),
      (''POSTGRES_IDLE_TIMEOUT_MS'', ''1000''), (''POSTGRES_CONNECTION_TIMEOUT_MS'', ''100''),
      (''JWT_ACCESS_TTL_SECONDS'', ''60''), (''JWT_CLOCK_TOLERANCE_SECONDS'', ''0''),
      (''REFRESH_SESSION_TTL_SECONDS'', ''300''), (''AUTH_LOGIN_MAX_ATTEMPTS'', ''1''),
      (''AUTH_LOGIN_WINDOW_SECONDS'', ''1''), (''ML_CONTROL_MAX_ATTEMPTS'', ''1''),
      (''ML_CONTROL_RETRY_BACKOFF_MS'', ''10''), (''INTERNAL_AUTH_CLOCK_SKEW_SECONDS'', ''1''),
      (''DOWNSTREAM_HTTP_TIMEOUT_MS'', ''100''),
      (''DOWNSTREAM_WEBSOCKET_TIMEOUT_MS'', ''100''),
      (''LIVEKIT_PARTICIPANT_GRANT_TTL_SECONDS'', ''30''),
      (''ANALYSIS_SESSION_TTL_SECONDS'', ''30''), (''IDEMPOTENCY_TTL_SECONDS'', ''60''),
      (''IDEMPOTENCY_MAX_ENTRIES'', ''100''), (''API_RATE_LIMIT_WINDOW_SECONDS'', ''1''),
      (''API_SENSITIVE_RATE_LIMIT_MAX'', ''1''), (''API_MUTATION_RATE_LIMIT_MAX'', ''1''),
      (''API_QUERY_RATE_LIMIT_MAX'', ''1''), (''SECURITY_WS_REPLAY_MAX_EVENTS'', ''1''),
      (''SECURITY_WS_SUBSCRIPTION_MAX_CALLS'', ''1''),
      (''SECURITY_WS_INBOUND_RATE_LIMIT_MAX'', ''1''),
      (''SECURITY_WS_CONNECTION_MAXIMUM'', ''1''), (''SECURITY_OUTBOX_BATCH_SIZE'', ''1''),
      (''SECURITY_OUTBOX_MAX_ATTEMPTS'', ''1''), (''SECURITY_OUTBOX_RETRY_BASE_MS'', ''10''),
      (''SECURITY_OUTBOX_POLL_INTERVAL_MS'', ''100''),
      (''SECURITY_OUTBOX_LEASE_MS'', ''1000''), (''ENROLLMENT_MAX_SAMPLES'', ''1''),
      (''ENROLLMENT_MAX_SAMPLE_BYTES'', ''1024''), (''ENROLLMENT_MAX_TOTAL_BYTES'', ''1024''),
      (''ENROLLMENT_MAX_DECLARED_DURATION_MS'', ''250''),
      (''STEP_UP_CHALLENGE_TTL_SECONDS'', ''30'')]"

definition padded_environment :: "(string \<times> string) list" where
  "padded_environment =
     [(''SWAR_ENV'', '' production''), (''PUBLIC_API_URL'', ''http://h''),
      (''ML_INTERNAL_URL'', ''http://m'')] @ production_environment"


lemma production_accepted:
  obtains c where "parseEnvironment sample_url (map_of production_environment) = Inr c"
proof -
  have "(case parseEnvironment sample_url (map_of production_environment) of
           Inr c \<Rightarrow> True | _ \<Rightarrow> False)"
    by code_simp
  then show thesis using that by (auto split: sum.splits)
qed




text \<open>
  The environment's name is trimmed where it is parsed and compared untrimmed where the
  addresses are checked: with a space before \<open>production\<close> the configuration is accepted as a
  production one with addresses that are not encrypted.
\<close>

lemma padded_production_skips_tls:
  "(case parseEnvironment sample_url (map_of padded_environment) of
      Inr c \<Rightarrow> environment (c_runtime c) = ENV_PRODUCTION \<and>
        map_option u_protocol (sample_url (publicApiUrl (c_runtime c))) = Some ''http:'' \<and>
        map_option u_protocol (sample_url (mlInternalUrl (c_dependencies c))) = Some ''http:''
    | Inl e \<Rightarrow> False)"
  by code_simp

end
