(* ===== verification/Domain_State_Machines.thy ===== *)
theory Domain_State_Machines
  imports Schema
begin

text \<open>
  The lifecycle tables of \<open>modules/domain/domain-state-machines.ts\<close> and the check that every
  service calls before it writes a new status. A table maps a status to the statuses that may
  follow it. The locale \<open>lifecycle\<close> states what a client relies on: a rank that every step
  increases, so that no status is ever left and entered again.
\<close>

section \<open>Names of the statuses\<close>

text \<open>The enumerations are strings in the source; their names appear in the errors.\<close>

fun call_status_name :: "CallStatus \<Rightarrow> string" where
  "call_status_name CALL_REQUESTED = ''REQUESTED''"
| "call_status_name CALL_AUTHORIZED = ''AUTHORIZED''"
| "call_status_name CALL_ACTIVE = ''ACTIVE''"
| "call_status_name CALL_ENDING = ''ENDING''"
| "call_status_name CALL_ENDED = ''ENDED''"
| "call_status_name CALL_CANCELLED = ''CANCELLED''"
| "call_status_name CALL_FAILED = ''FAILED''"

fun session_status_name :: "AnalysisSessionStatus \<Rightarrow> string" where
  "session_status_name SESS_AUTHORIZED = ''AUTHORIZED''"
| "session_status_name SESS_STARTING = ''STARTING''"
| "session_status_name SESS_ACTIVE = ''ACTIVE''"
| "session_status_name SESS_DEGRADED = ''DEGRADED''"
| "session_status_name SESS_STOPPING = ''STOPPING''"
| "session_status_name SESS_STOPPED = ''STOPPED''"
| "session_status_name SESS_FAILED = ''FAILED''"
| "session_status_name SESS_EXPIRED = ''EXPIRED''"
| "session_status_name SESS_REVOKED = ''REVOKED''"

fun intervention_status_name :: "InterventionStatus \<Rightarrow> string" where
  "intervention_status_name IV_REQUIRED = ''REQUIRED''"
| "intervention_status_name IV_ACKNOWLEDGED = ''ACKNOWLEDGED''"
| "intervention_status_name IV_IN_PROGRESS = ''IN_PROGRESS''"
| "intervention_status_name IV_SATISFIED = ''SATISFIED''"
| "intervention_status_name IV_DECLINED = ''DECLINED''"
| "intervention_status_name IV_EXPIRED = ''EXPIRED''"
| "intervention_status_name IV_CANCELLED = ''CANCELLED''"
| "intervention_status_name IV_FAILED = ''FAILED''"

section \<open>Transition tables\<close>

fun callTransitions :: "CallStatus \<Rightarrow> CallStatus list" where
  "callTransitions CALL_REQUESTED = [CALL_AUTHORIZED, CALL_CANCELLED, CALL_FAILED]"
| "callTransitions CALL_AUTHORIZED = [CALL_ACTIVE, CALL_CANCELLED, CALL_FAILED]"
| "callTransitions CALL_ACTIVE = [CALL_ENDING, CALL_FAILED]"
| "callTransitions CALL_ENDING = [CALL_ENDED, CALL_FAILED]"
| "callTransitions CALL_ENDED = []"
| "callTransitions CALL_CANCELLED = []"
| "callTransitions CALL_FAILED = []"

fun consentTransitions :: "ConsentStatus \<Rightarrow> ConsentStatus list" where
  "consentTransitions CONSENT_GRANTED = [CONSENT_REVOKED, CONSENT_EXPIRED]"
| "consentTransitions CONSENT_REVOKED = []"
| "consentTransitions CONSENT_EXPIRED = []"

fun voiceprintTransitions :: "VoiceprintStatus \<Rightarrow> VoiceprintStatus list" where
  "voiceprintTransitions VP_ENROLLING = [VP_ACTIVE, VP_FAILED]"
| "voiceprintTransitions VP_ACTIVE = [VP_REVOKED, VP_DELETED]"
| "voiceprintTransitions VP_REVOKED = [VP_DELETED]"
| "voiceprintTransitions VP_FAILED = [VP_DELETED]"
| "voiceprintTransitions VP_DELETED = []"

fun trackBindingTransitions :: "TrackBindingStatus \<Rightarrow> TrackBindingStatus list" where
  "trackBindingTransitions BIND_AUTHORIZED = [BIND_ACTIVE, BIND_REJECTED, BIND_REVOKED]"
| "trackBindingTransitions BIND_ACTIVE = [BIND_SUPERSEDED, BIND_REVOKED]"
| "trackBindingTransitions BIND_SUPERSEDED = []"
| "trackBindingTransitions BIND_REVOKED = []"
| "trackBindingTransitions BIND_REJECTED = []"

fun analysisTransitions :: "AnalysisSessionStatus \<Rightarrow> AnalysisSessionStatus list" where
  "analysisTransitions SESS_AUTHORIZED = [SESS_STARTING, SESS_REVOKED, SESS_EXPIRED]"
| "analysisTransitions SESS_STARTING = [SESS_ACTIVE, SESS_FAILED, SESS_REVOKED]"
| "analysisTransitions SESS_ACTIVE =
     [SESS_DEGRADED, SESS_STOPPING, SESS_FAILED, SESS_EXPIRED, SESS_REVOKED]"
| "analysisTransitions SESS_DEGRADED =
     [SESS_ACTIVE, SESS_STOPPING, SESS_FAILED, SESS_EXPIRED, SESS_REVOKED]"
| "analysisTransitions SESS_STOPPING = [SESS_STOPPED, SESS_FAILED]"
| "analysisTransitions SESS_STOPPED = []"
| "analysisTransitions SESS_FAILED = []"
| "analysisTransitions SESS_EXPIRED = []"
| "analysisTransitions SESS_REVOKED = []"

fun interventionTransitions :: "InterventionStatus \<Rightarrow> InterventionStatus list" where
  "interventionTransitions IV_REQUIRED =
     [IV_ACKNOWLEDGED, IV_IN_PROGRESS, IV_EXPIRED, IV_CANCELLED, IV_FAILED]"
| "interventionTransitions IV_ACKNOWLEDGED =
     [IV_IN_PROGRESS, IV_EXPIRED, IV_CANCELLED, IV_FAILED]"
| "interventionTransitions IV_IN_PROGRESS =
     [IV_SATISFIED, IV_DECLINED, IV_EXPIRED, IV_FAILED]"
| "interventionTransitions IV_SATISFIED = []"
| "interventionTransitions IV_DECLINED = []"
| "interventionTransitions IV_EXPIRED = []"
| "interventionTransitions IV_CANCELLED = []"
| "interventionTransitions IV_FAILED = []"

fun verificationTransitions :: "VerificationStatus \<Rightarrow> VerificationStatus list" where
  "verificationTransitions VC_PENDING = [VC_PASSED, VC_FAILED, VC_EXPIRED, VC_CANCELLED]"
| "verificationTransitions VC_PASSED = []"
| "verificationTransitions VC_FAILED = []"
| "verificationTransitions VC_EXPIRED = []"
| "verificationTransitions VC_CANCELLED = []"

fun alertTransitions :: "AlertStatus \<Rightarrow> AlertStatus list" where
  "alertTransitions ALERT_PENDING = [ALERT_DELIVERED, ALERT_FAILED, ALERT_CANCELLED]"
| "alertTransitions ALERT_DELIVERED = []"
| "alertTransitions ALERT_FAILED = []"
| "alertTransitions ALERT_CANCELLED = []"

definition assertTransition ::
  "string \<Rightarrow> ('t \<Rightarrow> string) \<Rightarrow> ('t \<Rightarrow> 't list) \<Rightarrow> 't \<Rightarrow> 't \<Rightarrow> err + unit" where
  "assertTransition aggregate name transitions from to' =
     (if \<not> List.member (transitions from) to'
      then Inl (IllegalDomainTransitionError aggregate (name from) (name to'))
      else Inr ())"

lemma assertTransition_eq_Inr [simp]:
  "assertTransition agg name tr a b = Inr u \<longleftrightarrow> b \<in> set (tr a)"
  by (simp add: assertTransition_def)

section \<open>Lifecycles\<close>

definition steps_to :: "('t \<Rightarrow> 't list) \<Rightarrow> 't \<Rightarrow> 't \<Rightarrow> bool" where
  "steps_to tr a b \<longleftrightarrow> List.member (tr a) b"

abbreviation reaches :: "('t \<Rightarrow> 't list) \<Rightarrow> 't \<Rightarrow> 't \<Rightarrow> bool" where
  "reaches tr \<equiv> (steps_to tr)\<^sup>*\<^sup>*"

locale lifecycle =
  fixes tr :: "'t \<Rightarrow> 't list" and rank :: "'t \<Rightarrow> nat"
  assumes rank_step: "b \<in> set (tr a) \<Longrightarrow> rank a < rank b"
begin

lemma reaches_rank: "reaches tr a b \<Longrightarrow> a = b \<or> rank a < rank b"
  by (induction rule: rtranclp_induct) (auto simp: steps_to_def dest: rank_step)

lemma never_returns: "reaches tr a b \<Longrightarrow> reaches tr b a \<Longrightarrow> a = b"
  using reaches_rank [of a b] reaches_rank [of b a] by auto

lemma terminal_absorbing: "tr a = [] \<Longrightarrow> reaches tr a b \<Longrightarrow> b = a"
  by (erule converse_rtranclpE) (auto simp: steps_to_def)

lemma no_self_step: "a \<notin> set (tr a)"
  using rank_step [of a a] by auto

end

fun call_rank :: "CallStatus \<Rightarrow> nat" where
  "call_rank CALL_REQUESTED = 0"
| "call_rank CALL_AUTHORIZED = 1"
| "call_rank CALL_ACTIVE = 2"
| "call_rank CALL_ENDING = 3"
| "call_rank _ = 4"

fun intervention_rank :: "InterventionStatus \<Rightarrow> nat" where
  "intervention_rank IV_REQUIRED = 0"
| "intervention_rank IV_ACKNOWLEDGED = 1"
| "intervention_rank IV_IN_PROGRESS = 2"
| "intervention_rank _ = 3"

fun voiceprint_rank :: "VoiceprintStatus \<Rightarrow> nat" where
  "voiceprint_rank VP_ENROLLING = 0"
| "voiceprint_rank VP_ACTIVE = 1"
| "voiceprint_rank VP_DELETED = 3"
| "voiceprint_rank _ = 2"

fun binding_rank :: "TrackBindingStatus \<Rightarrow> nat" where
  "binding_rank BIND_AUTHORIZED = 0"
| "binding_rank BIND_ACTIVE = 1"
| "binding_rank _ = 2"

interpretation call_life: lifecycle callTransitions call_rank
  by unfold_locales (rename_tac b a, case_tac a; auto)

interpretation intervention_life: lifecycle interventionTransitions intervention_rank
  by unfold_locales (rename_tac b a, case_tac a; auto)

interpretation voiceprint_life: lifecycle voiceprintTransitions voiceprint_rank
  by unfold_locales (rename_tac b a, case_tac a; auto)

interpretation binding_life: lifecycle trackBindingTransitions binding_rank
  by unfold_locales (rename_tac b a, case_tac a; auto)

interpretation consent_life: lifecycle consentTransitions "\<lambda>s. if s = CONSENT_GRANTED then 0 else 1"
  by unfold_locales (rename_tac b a, case_tac a; auto)

interpretation verification_life: lifecycle verificationTransitions "\<lambda>s. if s = VC_PENDING then 0 else 1"
  by unfold_locales (rename_tac b a, case_tac a; auto)

interpretation alert_life: lifecycle alertTransitions "\<lambda>s. if s = ALERT_PENDING then 0 else 1"
  by unfold_locales (rename_tac b a, case_tac a; auto)

text \<open>
  The analysis session is the one aggregate with a cycle (\<open>ACTIVE\<close> and \<open>DEGRADED\<close>); its four
  final statuses are left by no step.
\<close>

definition session_final :: "AnalysisSessionStatus \<Rightarrow> bool" where
  "session_final s \<longleftrightarrow> List.member [SESS_STOPPED, SESS_FAILED, SESS_EXPIRED, SESS_REVOKED] s"

lemma session_final_iff: "session_final s \<longleftrightarrow> analysisTransitions s = []"
  by (cases s) (auto simp: session_final_def)

lemma session_final_absorbing:
  "session_final s \<Longrightarrow> reaches analysisTransitions s t \<Longrightarrow> t = s"
  by (erule converse_rtranclpE) (auto simp: steps_to_def session_final_iff)

lemma steps_from_required:
  "reaches interventionTransitions IV_REQUIRED s \<Longrightarrow> s = IV_SATISFIED \<Longrightarrow>
     reaches interventionTransitions IV_REQUIRED IV_IN_PROGRESS \<and>
     steps_to interventionTransitions IV_IN_PROGRESS s"
proof (induction rule: rtranclp_induct)
  case (step y z)
  then show ?case by (cases y) (auto simp: steps_to_def)
qed simp

section \<open>Properties\<close>

text \<open>
  C33: no lifecycle returns to a status it has left: two different statuses of a call, a track
  binding, an intervention, a voiceprint, a consent, a verification or an alert are never
  reachable from each other.
\<close>

theorem lifecycles_never_return:
  "(reaches callTransitions c c' \<and> reaches callTransitions c' c \<longrightarrow> c = c') \<and>
   (reaches trackBindingTransitions b b' \<and> reaches trackBindingTransitions b' b \<longrightarrow> b = b') \<and>
   (reaches interventionTransitions i i' \<and> reaches interventionTransitions i' i \<longrightarrow> i = i') \<and>
   (reaches voiceprintTransitions v v' \<and> reaches voiceprintTransitions v' v \<longrightarrow> v = v') \<and>
   (reaches consentTransitions g g' \<and> reaches consentTransitions g' g \<longrightarrow> g = g') \<and>
   (reaches verificationTransitions p p' \<and> reaches verificationTransitions p' p \<longrightarrow> p = p') \<and>
   (reaches alertTransitions a a' \<and> reaches alertTransitions a' a \<longrightarrow> a = a')"
  by (blast intro: call_life.never_returns binding_life.never_returns
      intervention_life.never_returns voiceprint_life.never_returns consent_life.never_returns
      verification_life.never_returns alert_life.never_returns)

theorem lifecycles_never_return_witness:
  "reaches callTransitions CALL_REQUESTED CALL_ACTIVE \<and>
   \<not> reaches callTransitions CALL_ACTIVE CALL_REQUESTED"
proof -
  have "steps_to callTransitions CALL_REQUESTED CALL_AUTHORIZED"
    "steps_to callTransitions CALL_AUTHORIZED CALL_ACTIVE"
    by (simp_all add: steps_to_def)
  then have up: "reaches callTransitions CALL_REQUESTED CALL_ACTIVE"
    by (meson r_into_rtranclp rtranclp_trans)
  moreover have "\<not> reaches callTransitions CALL_ACTIVE CALL_REQUESTED"
  proof
    assume "reaches callTransitions CALL_ACTIVE CALL_REQUESTED"
    with up lifecycles_never_return [of CALL_REQUESTED CALL_ACTIVE] have "CALL_REQUESTED = CALL_ACTIVE"
      by blast
    then show False by simp
  qed
  ultimately show ?thesis ..
qed

text \<open>
  An intervention is satisfied only from \<open>IN_PROGRESS\<close>, and the analysis session, the one
  lifecycle with a cycle, never leaves a final status.
\<close>

theorem satisfied_only_in_progress:
  "(steps_to interventionTransitions s IV_SATISFIED \<longleftrightarrow> s = IV_IN_PROGRESS) \<and>
   (session_final t \<longrightarrow> (reaches analysisTransitions t u \<longleftrightarrow> u = t))"
  using session_final_absorbing by (cases s) (auto simp: steps_to_def)

theorem satisfied_only_in_progress_witness:
  "session_final SESS_EXPIRED \<and> \<not> reaches analysisTransitions SESS_EXPIRED SESS_ACTIVE"
proof
  show f: "session_final SESS_EXPIRED" by (simp add: session_final_def)
  show "\<not> reaches analysisTransitions SESS_EXPIRED SESS_ACTIVE"
    using satisfied_only_in_progress [of IV_REQUIRED SESS_EXPIRED SESS_ACTIVE] f by simp
qed

end
