(* ===== verification/Store.thy ===== *)
theory Store
  imports Schema
begin

text \<open>
  The database as the repositories use it through the Prisma client, and the world that the
  handlers run in.

  A \<open>table\<close> gives the rows of the database record, the unique constraints of the schema (two rows
  that \<open>clash\<close> cannot both be stored) and the check constraints of the migrations. \<open>create\<close> and
  \<open>update_rows\<close> are the two ways a row is written: a statement that breaks a constraint changes
  nothing and throws. \<open>transaction\<close> is \<open>$transaction\<close>: an error restores the database, and the
  database may refuse to commit (P2034), which the list \<open>w_conflicts\<close> decides in advance.
  \<open>serializable\<close> is the retry loop of \<open>database/transaction.service.ts\<close>.

  The world also holds what a handler reads from its surroundings: the clock, whose readings are
  a sequence, the stream of generated identifiers and random texts, the calls made to external
  providers with their answers, and what the process keeps in memory.
  Foreign keys and lost connections are not modelled: a handler that meets one throws, as it does
  on any other error, and writes nothing more.
\<close>

section \<open>The world\<close>

text \<open>
  What the analysis service sends to the machine-learning service
  (\<open>integrations/ml/ml-control.port.ts\<close>), and the requests to external providers.
\<close>

record MlAnalysisGrant =
  ag_organizationId :: uuid
  ag_sessionId :: uuid
  ag_callId :: uuid
  ag_roomName :: string
  ag_participantIdentity :: string
  ag_trackSid :: string
  ag_bindingId :: uuid
  ag_bindingRevision :: int
  ag_evidenceMode :: EvidenceMode
  ag_grantToken :: string
  ag_grantExpiresAt :: instant
  ag_expiresAt :: instant
  ag_voiceprintId :: "uuid option"

datatype ml_payload =
    MlStart MlAnalysisGrant
  | MlStop string
  | MlInfer uuid uuid uuid "string list"
  | MlCancel string

text \<open>
  The events of \<open>modules/security-events/security-event.port.ts\<close> and the messages that the gateway
  sends to a socket. Sockets are numbered; the gateway keeps a state for every client.
\<close>

datatype SecurityEventType =
  RISK_STATE_CHANGED | INTERVENTION_REQUIRED | CALL_ENDED_EVENT | DASHBOARD_RISK_EVENT_CREATED

record SecurityEvent =
  se_outboxId :: "uuid option"
  se_eventId :: string
  se_eventType :: SecurityEventType
  se_schemaVersion :: string
  se_organizationId :: uuid
  se_callId :: uuid
  se_targetId :: uuid
  se_occurredAt :: instant
  se_metadata :: "(string \<times> json) list"

datatype socket_message = SecurityReady int | EventMessage SecurityEvent

record AuthPrincipal =
  pr_userId :: uuid
  pr_organizationId :: uuid
  pr_membershipId :: uuid
  pr_deviceId :: uuid
  pr_sessionId :: uuid
  pr_roles :: "OrganizationRole list"

record ClientState =
  cs_accessToken :: string
  cs_principal :: AuthPrincipal
  cs_callIds :: "uuid list"
  cs_inboundCount :: nat
  cs_inboundWindowStartedAt :: instant
  cs_lastAcknowledgedEventId :: "string option"

datatype provider_call =
    LiveKitListRooms string
  | LiveKitCreateRoom string int uuid
  | LiveKitRemoveParticipant string string
  | LiveKitDeleteRoom string
  | MlRequest string string ml_payload
  | SocketReady nat
  | SocketSend nat socket_message
  | SocketClose nat int string

text \<open>
  What the process keeps in memory beside the database: the login attempts of
  \<open>login-attempt-limiter.ts\<close>, the records of the two demo adapters of
  \<open>modules/interventions\<close>, the audio samples of an enrollment, and the gateway's clients, replay
  buffer and fingerprints. JavaScript's \<open>Map\<close> is a list of keys and values in the order of
  insertion.
\<close>

record AttemptWindow =
  win_count :: nat
  win_resetAt :: instant

datatype HoldStatus = HELD | RELEASED

record ProtectedActionHold =
  ph_adapterKind :: string
  ph_protectedActionReference :: string
  ph_interventionId :: uuid
  ph_status :: HoldStatus

record EngineeringActionReceipt =
  rc_adapterKind :: string
  rc_interventionId :: uuid
  rc_action :: InterventionType
  rc_status :: string

record world =
  w_db :: db
  w_clock :: "nat \<Rightarrow> instant"
  w_ticks :: nat
  w_ids :: "nat \<Rightarrow> uuid"
  w_idn :: nat
  w_conflicts :: "bool list"
  w_answers :: "nat \<Rightarrow> nat option"
  w_log :: "provider_call list"
  w_attempts :: "(string \<times> AttemptWindow) list"
  w_holds :: "(string \<times> ProtectedActionHold) list"
  w_receipts :: "(string \<times> EngineeringActionReceipt) list"
  w_audio :: "string list"
  w_clients :: "(nat \<times> ClientState) list"
  w_replay :: "SecurityEvent list"
  w_fingerprints :: "(string \<times> string) list"

type_synonym 'a op = "(world, 'a) m"

definition now :: "instant op" where
  "now = (\<lambda>w. (Inr (w_clock w (w_ticks w)), w\<lparr>w_ticks := Suc (w_ticks w)\<rparr>))"

definition new_id :: "uuid op" where
  "new_id = (\<lambda>w. (Inr (w_ids w (w_idn w)), w\<lparr>w_idn := Suc (w_idn w)\<rparr>))"

text \<open>
  A request to an external provider: it is logged, and the answers are given in advance: a number
  (an HTTP status, or how many rows were found), or nothing when the request fails.
\<close>

definition external_call :: "provider_call \<Rightarrow> nat option op" where
  "external_call c = (\<lambda>w. (Inr (w_answers w (length (w_log w))), w\<lparr>w_log := w_log w @ [c]\<rparr>))"

definition provider :: "provider_call \<Rightarrow> err \<Rightarrow> nat op" where
  "provider c e = bindM (external_call c) (\<lambda>answer. case answer of
     None \<Rightarrow> throwM e
   | Some n \<Rightarrow> returnM n)"

section \<open>Tables\<close>

record 'r table =
  t_get :: "db \<Rightarrow> 'r list"
  t_put :: "('r list \<Rightarrow> 'r list) \<Rightarrow> db \<Rightarrow> db"
  t_clash :: "'r \<Rightarrow> 'r \<Rightarrow> bool"
  t_check :: "'r \<Rightarrow> bool"

fun pairwise_free :: "('r \<Rightarrow> 'r \<Rightarrow> bool) \<Rightarrow> 'r list \<Rightarrow> bool" where
  "pairwise_free clash [] \<longleftrightarrow> True"
| "pairwise_free clash (r # rs) \<longleftrightarrow> \<not> list_ex (clash r) rs \<and> pairwise_free clash rs"

definition rows :: "'r table \<Rightarrow> 'r list op" where
  "rows tb = getM (\<lambda>w. t_get tb (w_db w))"

definition find_many :: "'r table \<Rightarrow> ('r \<Rightarrow> bool) \<Rightarrow> 'r list op" where
  "find_many tb P = getM (\<lambda>w. filter P (t_get tb (w_db w)))"

definition find_unique_row :: "'r table \<Rightarrow> ('r \<Rightarrow> bool) \<Rightarrow> 'r option op" where
  "find_unique_row tb P = getM (\<lambda>w. find P (t_get tb (w_db w)))"

definition find_latest :: "'r table \<Rightarrow> ('r \<Rightarrow> bool) \<Rightarrow> ('r \<Rightarrow> 'k::linorder) \<Rightarrow> 'r option op" where
  "find_latest tb P key = getM (\<lambda>w. latest_by key (filter P (t_get tb (w_db w))))"

definition count_rows :: "'r table \<Rightarrow> ('r \<Rightarrow> bool) \<Rightarrow> nat op" where
  "count_rows tb P = getM (\<lambda>w. length (filter P (t_get tb (w_db w))))"

definition create :: "'r table \<Rightarrow> 'r \<Rightarrow> 'r op" where
  "create tb r = (\<lambda>w.
     if \<not> t_check tb r then (Inl CheckConstraintViolation, w)
     else if list_ex (\<lambda>x. t_clash tb x r) (t_get tb (w_db w))
     then (Inl P2002_UniqueConstraint, w)
     else (Inr r, w\<lparr>w_db := t_put tb (\<lambda>rs. rs @ [r]) (w_db w)\<rparr>))"

definition change_rows :: "('r \<Rightarrow> bool) \<Rightarrow> ('r \<Rightarrow> 'r) \<Rightarrow> 'r list \<Rightarrow> 'r list" where
  "change_rows P f rs = map (\<lambda>r. if P r then f r else r) rs"

definition update_rows :: "'r table \<Rightarrow> ('r \<Rightarrow> bool) \<Rightarrow> ('r \<Rightarrow> 'r) \<Rightarrow> nat op" where
  "update_rows tb P f = (\<lambda>w.
     let rs = t_get tb (w_db w); hit = filter P rs in
     if list_ex (\<lambda>r. \<not> t_check tb (f r)) hit then (Inl CheckConstraintViolation, w)
     else if hit \<noteq> [] \<and> \<not> pairwise_free (t_clash tb) (change_rows P f rs)
     then (Inl P2002_UniqueConstraint, w)
     else (Inr (length hit), w\<lparr>w_db := t_put tb (change_rows P f) (w_db w)\<rparr>))"

text \<open>\<open>update\<close> by a unique key: the row must be there, and the new row is the result.\<close>

definition update_one :: "'r table \<Rightarrow> ('r \<Rightarrow> bool) \<Rightarrow> ('r \<Rightarrow> 'r) \<Rightarrow> 'r op" where
  "update_one tb P f =
     bindM (find_unique_row tb P) (\<lambda>found. case found of
       None \<Rightarrow> throwM P2025_RecordNotFound
     | Some r \<Rightarrow> bindM (update_rows tb P f) (\<lambda>_. returnM (f r)))"

definition find_or_throw :: "'r table \<Rightarrow> ('r \<Rightarrow> bool) \<Rightarrow> err \<Rightarrow> 'r op" where
  "find_or_throw tb P e =
     bindM (find_unique_row tb P) (\<lambda>found. case found of None \<Rightarrow> throwM e | Some r \<Rightarrow> returnM r)"

section \<open>Transactions\<close>

definition rollback :: "world \<Rightarrow> world \<Rightarrow> world" where
  "rollback w w' = w'\<lparr>w_db := w_db w\<rparr>"

definition transaction :: "'a op \<Rightarrow> 'a op" where
  "transaction operation = (\<lambda>w.
     let (refused, rest) = (case w_conflicts w of [] \<Rightarrow> (False, []) | c # cs \<Rightarrow> (c, cs)) in
     case operation (w\<lparr>w_conflicts := rest\<rparr>) of
       (Inl e, w') \<Rightarrow> (Inl e, rollback w w')
     | (Inr a, w') \<Rightarrow> if refused then (Inl P2034_WriteConflict, rollback w w') else (Inr a, w'))"

definition MAX_TRANSACTION_ATTEMPTS :: nat where
  "MAX_TRANSACTION_ATTEMPTS = 5"

text \<open>The attempts that are left; each P2034 but the last one is retried.\<close>

fun serializable_attempts :: "nat \<Rightarrow> 'a op \<Rightarrow> 'a op" where
  "serializable_attempts left operation = (\<lambda>w.
     case transaction operation w of
       (Inl P2034_WriteConflict, w') \<Rightarrow>
         (case left of
            0 \<Rightarrow> (Inl P2034_WriteConflict, w')
          | Suc left' \<Rightarrow> serializable_attempts left' operation w')
     | r \<Rightarrow> r)"

declare serializable_attempts.simps [simp del]

definition serializable :: "'a op \<Rightarrow> 'a op" where
  "serializable operation = serializable_attempts (MAX_TRANSACTION_ATTEMPTS - 1) operation"

section \<open>Laws\<close>

lemma keeps_now [hoare]: "(\<And>w n. I w \<Longrightarrow> I (w\<lparr>w_ticks := n\<rparr>)) \<Longrightarrow> keeps I now"
  by (simp add: keeps_def now_def)

lemma keeps_new_id [hoare]: "(\<And>w n. I w \<Longrightarrow> I (w\<lparr>w_idn := n\<rparr>)) \<Longrightarrow> keeps I new_id"
  by (simp add: keeps_def new_id_def)

lemma keeps_external_call: "(\<And>w l. I w \<Longrightarrow> I (w\<lparr>w_log := l\<rparr>)) \<Longrightarrow> keeps I (external_call c)"
  by (simp add: keeps_def external_call_def)

lemma keeps_provider: "(\<And>w l. I w \<Longrightarrow> I (w\<lparr>w_log := l\<rparr>)) \<Longrightarrow> keeps I (provider c e)"
  by (auto simp: provider_def intro!: hoare keeps_external_call)

lemma keeps_reads [hoare]:
  "keeps I (rows tb)" "keeps I (find_many tb P)" "keeps I (find_unique_row tb P)"
  "keeps I (find_latest tb P key)" "keeps I (count_rows tb P)"
  by (simp_all add: rows_def find_many_def find_unique_row_def find_latest_def count_rows_def
      keeps_getM)

lemma keeps_find_or_throw [hoare]: "keeps I (find_or_throw tb P e)"
  by (auto simp: find_or_throw_def intro!: hoare)

text \<open>An invariant of the database is one that no other part of the world can break.\<close>

definition on_db :: "(db \<Rightarrow> bool) \<Rightarrow> world \<Rightarrow> bool" where
  "on_db I w = I (w_db w)"

lemma on_db_frame [simp]:
  "on_db I (w\<lparr>w_ticks := n\<rparr>) = on_db I w" "on_db I (w\<lparr>w_idn := k\<rparr>) = on_db I w"
  "on_db I (w\<lparr>w_log := l\<rparr>) = on_db I w" "on_db I (w\<lparr>w_conflicts := cs\<rparr>) = on_db I w"
  "on_db I (w\<lparr>w_attempts := ats\<rparr>) = on_db I w" "on_db I (w\<lparr>w_holds := hs\<rparr>) = on_db I w"
  "on_db I (w\<lparr>w_receipts := rs\<rparr>) = on_db I w" "on_db I (w\<lparr>w_audio := au\<rparr>) = on_db I w"
  "on_db I (w\<lparr>w_clients := cl\<rparr>) = on_db I w" "on_db I (w\<lparr>w_replay := re\<rparr>) = on_db I w"
  "on_db I (w\<lparr>w_fingerprints := fs\<rparr>) = on_db I w"
  "on_db I (w\<lparr>w_db := d\<rparr>) = I d"
  by (simp_all add: on_db_def)

lemma on_db_rollback [simp]: "on_db I (rollback w w') = on_db I w"
  by (simp add: on_db_def rollback_def)

lemma keeps_provider_db [hoare]: "keeps (on_db I) (external_call c)" "keeps (on_db I) (provider c e)"
  by (rule keeps_external_call keeps_provider; simp)+

lemma keeps_create:
  assumes "\<And>d. I d \<Longrightarrow> t_check tb r \<Longrightarrow> \<not> list_ex (\<lambda>x. t_clash tb x r) (t_get tb d) \<Longrightarrow>
             I (t_put tb (\<lambda>rs. rs @ [r]) d)"
  shows "keeps (on_db I) (create tb r)"
  using assms by (auto simp: keeps_def create_def on_db_def)

lemma keeps_update_rows:
  assumes "\<And>d. I d \<Longrightarrow> (\<forall>r \<in> set (t_get tb d). P r \<longrightarrow> t_check tb (f r)) \<Longrightarrow>
             I (t_put tb (change_rows P f) d)"
  shows "keeps (on_db I) (update_rows tb P f)"
proof (rule keepsI)
  fix w assume "on_db I w"
  with assms [of "w_db w"] show "on_db I (snd (update_rows tb P f w))"
    by (auto simp: update_rows_def on_db_def Let_def list_ex_iff)
qed

lemma keeps_update_one:
  "keeps (on_db I) (update_rows tb P f) \<Longrightarrow> keeps (on_db I) (update_one tb P f)"
  by (auto simp: update_one_def intro!: hoare)

lemma keeps_transaction [hoare]:
  assumes "keeps (on_db I) operation" shows "keeps (on_db I) (transaction operation)"
proof (rule keepsI)
  fix w assume I: "on_db I w"
  obtain refused rest where s:
      "(case w_conflicts w of [] \<Rightarrow> (False, []) | c # cs \<Rightarrow> (c, cs)) = (refused, rest)"
    by fastforce
  obtain r w' where r: "operation (w\<lparr>w_conflicts := rest\<rparr>) = (r, w')" by fastforce
  have "on_db I w'" by (rule keepsD [OF assms _ r]) (simp add: I)
  with I show "on_db I (snd (transaction operation w))"
    by (cases r) (simp_all add: transaction_def s r)
qed

lemma keeps_serializable_attempts:
  "keeps (on_db I) operation \<Longrightarrow> keeps (on_db I) (serializable_attempts n operation)"
proof (induction n)
  case 0
  then have t: "keeps (on_db I) (transaction operation)" by (rule keeps_transaction)
  show ?case
  proof (rule keepsI)
    fix w assume "on_db I w"
    then have "on_db I (snd (transaction operation w))" by (rule keeps_sndD [OF t])
    then show "on_db I (snd (serializable_attempts 0 operation w))"
      by (subst serializable_attempts.simps) (auto split: prod.split sum.split err.split)
  qed
next
  case (Suc n)
  then have t: "keeps (on_db I) (transaction operation)"
    and IH: "keeps (on_db I) (serializable_attempts n operation)"
    by (auto intro: keeps_transaction)
  show ?case
  proof (rule keepsI)
    fix w assume "on_db I w"
    then have "on_db I (snd (transaction operation w))" by (rule keeps_sndD [OF t])
    then show "on_db I (snd (serializable_attempts (Suc n) operation w))"
      by (subst serializable_attempts.simps)
        (auto split: prod.split sum.split err.split intro: keeps_sndD [OF IH])
  qed
qed

lemma keeps_serializable [hoare]:
  "keeps (on_db I) operation \<Longrightarrow> keeps (on_db I) (serializable operation)"
  by (simp add: serializable_def keeps_serializable_attempts)

text \<open>A transaction that throws leaves the database as it was.\<close>

lemma transaction_atomic:
  "transaction operation w = (Inl e, w') \<Longrightarrow> w_db w' = w_db w"
  by (auto simp: transaction_def rollback_def Let_def split: prod.splits sum.splits if_splits)

lemma serializable_attempts_atomic:
  "serializable_attempts n operation w = (Inl e, w') \<Longrightarrow> w_db w' = w_db w"
proof (induction n arbitrary: w)
  case 0
  then show ?case
    by (subst (asm) serializable_attempts.simps)
      (auto split: prod.splits sum.splits err.splits dest: transaction_atomic)
next
  case (Suc n)
  obtain r w1 where t: "transaction operation w = (r, w1)" by fastforce
  show ?case
  proof (cases "r = Inl P2034_WriteConflict")
    case True
    with t Suc.prems have "serializable_attempts n operation w1 = (Inl e, w')"
      by (simp add: serializable_attempts.simps [of "Suc n"])
    from Suc.IH [OF this] transaction_atomic [OF t [unfolded True]] show ?thesis by simp
  next
    case False
    with t Suc.prems have "(r, w1) = (Inl e, w')"
      by (simp add: serializable_attempts.simps [of "Suc n"] split: sum.splits err.splits)
    with t show ?thesis by (auto dest: transaction_atomic)
  qed
qed

lemma serializable_atomic:
  "serializable operation w = (Inl e, w') \<Longrightarrow> w_db w' = w_db w"
  by (auto simp: serializable_def dest: serializable_attempts_atomic)

lemma serializable_attempts_committed:
  "serializable_attempts n operation w = (Inr a, w') \<Longrightarrow>
     \<exists>w0 cs. w_db w0 = w_db w \<and> transaction operation w0 = (Inr a, w')"
proof (induction n arbitrary: w)
  case 0
  then show ?case
    by (subst (asm) serializable_attempts.simps) (auto split: prod.splits sum.splits err.splits)
next
  case (Suc n)
  obtain r w1 where t: "transaction operation w = (r, w1)" by fastforce
  show ?case
  proof (cases "r = Inl P2034_WriteConflict")
    case True
    with t Suc.prems have "serializable_attempts n operation w1 = (Inr a, w')"
      by (simp add: serializable_attempts.simps [of "Suc n"])
    from Suc.IH [OF this] transaction_atomic [OF t [unfolded True]] show ?thesis by simp
  next
    case False
    with t Suc.prems have "(r, w1) = (Inr a, w')"
      by (simp add: serializable_attempts.simps [of "Suc n"] split: sum.splits err.splits)
    with t show ?thesis by auto
  qed
qed

section \<open>What a successful run says\<close>

lemma now_run [run_simps]:
  "now w = (Inr t, w') \<longleftrightarrow> t = w_clock w (w_ticks w) \<and> w' = w\<lparr>w_ticks := Suc (w_ticks w)\<rparr>"
  by (auto simp: now_def)

lemma external_call_run [run_simps]:
  "external_call c w = (Inr a, w') \<longleftrightarrow>
     a = w_answers w (length (w_log w)) \<and> w' = w\<lparr>w_log := w_log w @ [c]\<rparr>"
  by (auto simp: external_call_def)

lemma new_id_run [run_simps]:
  "new_id w = (Inr i, w') \<longleftrightarrow> i = w_ids w (w_idn w) \<and> w' = w\<lparr>w_idn := Suc (w_idn w)\<rparr>"
  by (auto simp: new_id_def)

lemma find_unique_row_run [run_simps]:
  "find_unique_row tb P w = (Inr x, w') \<longleftrightarrow> x = find P (t_get tb (w_db w)) \<and> w' = w"
  by (simp add: find_unique_row_def)

lemma find_many_run [run_simps]:
  "find_many tb P w = (Inr xs, w') \<longleftrightarrow> xs = filter P (t_get tb (w_db w)) \<and> w' = w"
  by (simp add: find_many_def)

lemma find_latest_run [run_simps]:
  "find_latest tb P key w = (Inr x, w') \<longleftrightarrow>
     x = latest_by key (filter P (t_get tb (w_db w))) \<and> w' = w"
  by (simp add: find_latest_def)

lemma count_rows_run [run_simps]:
  "count_rows tb P w = (Inr n, w') \<longleftrightarrow> n = length (filter P (t_get tb (w_db w))) \<and> w' = w"
  by (simp add: count_rows_def)

lemma create_run [run_simps]:
  "create tb r w = (Inr a, w') \<longleftrightarrow>
     a = r \<and> t_check tb r \<and> \<not> list_ex (\<lambda>x. t_clash tb x r) (t_get tb (w_db w)) \<and>
     w' = w\<lparr>w_db := t_put tb (\<lambda>rs. rs @ [r]) (w_db w)\<rparr>"
  by (auto simp: create_def)

lemma update_rows_run [run_simps]:
  "update_rows tb P f w = (Inr n, w') \<longleftrightarrow>
     n = length (filter P (t_get tb (w_db w))) \<and>
     list_all (\<lambda>r. t_check tb (f r)) (filter P (t_get tb (w_db w))) \<and>
     (filter P (t_get tb (w_db w)) = [] \<or>
      pairwise_free (t_clash tb) (change_rows P f (t_get tb (w_db w)))) \<and>
     w' = w\<lparr>w_db := t_put tb (change_rows P f) (w_db w)\<rparr>"
  by (auto simp: update_rows_def Let_def list_ex_iff list_all_iff)

lemma update_one_run [run_simps]:
  "update_one tb P f w = (Inr r, w') \<longleftrightarrow>
     (\<exists>x n. find P (t_get tb (w_db w)) = Some x \<and> r = f x \<and> update_rows tb P f w = (Inr n, w'))"
  by (auto simp: update_one_def bindM_eq_Inr_iff find_unique_row_run split: option.splits)

lemma find_or_throw_run [run_simps]:
  "find_or_throw tb P e w = (Inr r, w') \<longleftrightarrow> find P (t_get tb (w_db w)) = Some r \<and> w' = w"
  by (auto simp: find_or_throw_def bindM_eq_Inr_iff find_unique_row_run split: option.splits)

text \<open>An update that changes no row leaves the table as it was.\<close>

lemma change_rows_none: "filter P rs = [] \<Longrightarrow> change_rows P f rs = rs"
  by (auto simp: change_rows_def filter_empty_conv intro: map_idI)

lemma length_change_rows [simp]: "length (change_rows P f rs) = length rs"
  by (simp add: change_rows_def)

lemma set_change_rows:
  "set (change_rows P f rs) = {r \<in> set rs. \<not> P r} \<union> f ` {r \<in> set rs. P r}"
  by (auto simp: change_rows_def)

lemma transaction_run:
  assumes "transaction operation w = (Inr a, w')"
  obtains cs where "operation (w\<lparr>w_conflicts := cs\<rparr>) = (Inr a, w')"
  using assms by (auto simp: transaction_def Let_def split: prod.splits sum.splits if_splits)

text \<open>A run of \<open>serializable\<close> that returns is a run of its operation from the same database.\<close>

lemma serializable_run:
  assumes "serializable operation w = (Inr a, w')"
  obtains w0 where "w_db w0 = w_db w" and "operation w0 = (Inr a, w')"
proof -
  obtain w1 where w1: "w_db w1 = w_db w" "transaction operation w1 = (Inr a, w')"
    using assms unfolding serializable_def by (metis serializable_attempts_committed)
  from transaction_run [OF w1(2)] obtain cs where "operation (w1\<lparr>w_conflicts := cs\<rparr>) = (Inr a, w')" .
  with w1(1) show thesis by (intro that [of "w1\<lparr>w_conflicts := cs\<rparr>"]) simp_all
qed

end
