(* ===== verification/Tables.thy ===== *)
theory Tables
  imports Store
begin

text \<open>
  The table descriptors: for every model of \<open>schema.prisma\<close> its rows in the database record, the
  unique constraints (\<open>@id\<close>, \<open>@@unique\<close> and the partial unique indexes of the migrations) and
  the check constraints. A unique key with a null column never clashes, as in PostgreSQL.
  Of the checks on the text patterns of hashes only that of a model's checkpoint, which the caller
  gives, is kept: in the other columns the backend writes digests.

  The locale \<open>db_table\<close> is what the repositories rely on; every descriptor interprets it.
\<close>

section \<open>Unique constraints\<close>

definition same_some :: "'a option \<Rightarrow> 'a option \<Rightarrow> bool" where
  "same_some x y \<longleftrightarrow> x \<noteq> None \<and> x = y"

definition call_clash :: "call_row \<Rightarrow> call_row \<Rightarrow> bool" where
  "call_clash a b \<longleftrightarrow> ca_id a = ca_id b \<or>
     (ca_org a = ca_org b \<and> (ca_roomName a = ca_roomName b \<or> ca_idemKey a = ca_idemKey b))"

definition participant_clash :: "participant_row \<Rightarrow> participant_row \<Rightarrow> bool" where
  "participant_clash a b \<longleftrightarrow> cp_id a = cp_id b \<or>
     (cp_org a = cp_org b \<and> cp_call a = cp_call b \<and> cp_livekitIdentity a = cp_livekitIdentity b)"

definition track_clash :: "track_row \<Rightarrow> track_row \<Rightarrow> bool" where
  "track_clash a b \<longleftrightarrow> mt_id a = mt_id b \<or> (mt_org a = mt_org b \<and> mt_trackSid a = mt_trackSid b)"

definition binding_clash :: "binding_row \<Rightarrow> binding_row \<Rightarrow> bool" where
  "binding_clash a b \<longleftrightarrow> tb_id a = tb_id b \<or>
     (tb_org a = tb_org b \<and> tb_call a = tb_call b \<and>
        (tb_revision a = tb_revision b \<or> (tb_status a = BIND_ACTIVE \<and> tb_status b = BIND_ACTIVE))) \<or>
     (tb_org a = tb_org b \<and> tb_track a = tb_track b)"

definition session_clash :: "session_row \<Rightarrow> session_row \<Rightarrow> bool" where
  "session_clash a b \<longleftrightarrow> as_id a = as_id b \<or> (as_org a = as_org b \<and> as_idemKey a = as_idemKey b)"

definition model_clash :: "model_row \<Rightarrow> model_row \<Rightarrow> bool" where
  "model_clash a b \<longleftrightarrow> mv_id a = mv_id b \<or>
     (mv_name a = mv_name b \<and> mv_version a = mv_version b \<and>
      mv_checkpointHash a = mv_checkpointHash b)"

definition policy_clash :: "policy_row \<Rightarrow> policy_row \<Rightarrow> bool" where
  "policy_clash a b \<longleftrightarrow> rp_id a = rp_id b \<or>
     (rp_org a = rp_org b \<and> rp_key a = rp_key b \<and>
        (rp_version a = rp_version b \<or> (rp_status a = POLICY_ACTIVE \<and> rp_status b = POLICY_ACTIVE)))"

definition evidence_clash :: "evidence_row \<Rightarrow> evidence_row \<Rightarrow> bool" where
  "evidence_clash a b \<longleftrightarrow> ev_id a = ev_id b \<or>
     (ev_org a = ev_org b \<and>
        (ev_idemKey a = ev_idemKey b \<or>
         (ev_session a = ev_session b \<and>
            (ev_eventSequence a = ev_eventSequence b \<or>
             (ev_windowSequence a = ev_windowSequence b \<and> ev_type a = ev_type b \<and>
              ev_revision a = ev_revision b)))))"

definition assessment_clash :: "assessment_row \<Rightarrow> assessment_row \<Rightarrow> bool" where
  "assessment_clash a b \<longleftrightarrow> ra_id a = ra_id b \<or>
     (ra_org a = ra_org b \<and>
        (ra_idemKey a = ra_idemKey b \<or>
         (ra_session a = ra_session b \<and> ra_evidenceHash a = ra_evidenceHash b)))"

definition link_clash :: "evidence_link_row \<Rightarrow> evidence_link_row \<Rightarrow> bool" where
  "link_clash a b \<longleftrightarrow>
     el_org a = el_org b \<and> el_owner a = el_owner b \<and> el_evidence a = el_evidence b"

definition risk_event_clash :: "risk_event_row \<Rightarrow> risk_event_row \<Rightarrow> bool" where
  "risk_event_clash a b \<longleftrightarrow> re_id a = re_id b \<or>
     (re_org a = re_org b \<and>
        (re_idemKey a = re_idemKey b \<or> same_some (re_assessment a) (re_assessment b) \<or>
         (re_call a = re_call b \<and> re_eventSequence a = re_eventSequence b)))"

definition intervention_clash :: "intervention_row \<Rightarrow> intervention_row \<Rightarrow> bool" where
  "intervention_clash a b \<longleftrightarrow>
     iv_id a = iv_id b \<or> (iv_org a = iv_org b \<and> iv_idemKey a = iv_idemKey b)"

definition challenge_clash :: "challenge_row \<Rightarrow> challenge_row \<Rightarrow> bool" where
  "challenge_clash a b \<longleftrightarrow> vc_id a = vc_id b \<or>
     (vc_org a = vc_org b \<and>
        (vc_idemKey a = vc_idemKey b \<or>
         (vc_intervention a = vc_intervention b \<and> vc_attemptNumber a = vc_attemptNumber b)))"

definition alert_clash :: "alert_row \<Rightarrow> alert_row \<Rightarrow> bool" where
  "alert_clash a b \<longleftrightarrow> al_id a = al_id b \<or>
     (al_org a = al_org b \<and>
        (al_idemKey a = al_idemKey b \<or> same_some (al_externalEventId a) (al_externalEventId b)))"

definition audit_clash :: "audit_row \<Rightarrow> audit_row \<Rightarrow> bool" where
  "audit_clash a b \<longleftrightarrow>
     au_id a = au_id b \<or> (au_org a = au_org b \<and> same_some (au_idemKey a) (au_idemKey b))"

definition membership_clash :: "membership_row \<Rightarrow> membership_row \<Rightarrow> bool" where
  "membership_clash a b \<longleftrightarrow>
     ms_id a = ms_id b \<or> (ms_org a = ms_org b \<and> ms_user a = ms_user b)"

definition speaker_clash :: "speaker_row \<Rightarrow> speaker_row \<Rightarrow> bool" where
  "speaker_clash a b \<longleftrightarrow> ts_id a = ts_id b \<or>
     (ts_org a = ts_org b \<and>
        (same_some (ts_externalReference a) (ts_externalReference b) \<or>
         same_some (ts_user a) (ts_user b)))"

definition voiceprint_clash :: "voiceprint_row \<Rightarrow> voiceprint_row \<Rightarrow> bool" where
  "voiceprint_clash a b \<longleftrightarrow> vp_id a = vp_id b \<or>
     (vp_org a = vp_org b \<and> vp_speaker a = vp_speaker b \<and>
      vp_status a = VP_ACTIVE \<and> vp_status b = VP_ACTIVE)"

section \<open>Check constraints\<close>

definition call_check :: "call_row \<Rightarrow> bool" where
  "call_check r \<longleftrightarrow>
     (List.member [CALL_AUTHORIZED, CALL_ACTIVE, CALL_ENDING, CALL_ENDED] (ca_status r) \<longrightarrow>
      ca_authorizedAt r \<noteq> None)"

definition track_check :: "track_row \<Rightarrow> bool" where
  "track_check r \<longleftrightarrow> (mt_status r = TRACK_ENDED \<longrightarrow> mt_endedAt r \<noteq> None)"

definition binding_check :: "binding_row \<Rightarrow> bool" where
  "binding_check r \<longleftrightarrow> 0 \<le> tb_revision r \<and>
     (case tb_status r of
        BIND_ACTIVE \<Rightarrow> tb_activatedAt r \<noteq> None \<and> tb_endedAt r = None
      | BIND_SUPERSEDED \<Rightarrow> tb_endedAt r \<noteq> None
      | BIND_REVOKED \<Rightarrow> tb_endedAt r \<noteq> None
      | BIND_REJECTED \<Rightarrow> tb_rejectionCode r \<noteq> None
      | BIND_AUTHORIZED \<Rightarrow> True)"

definition session_check :: "session_row \<Rightarrow> bool" where
  "session_check r \<longleftrightarrow> 0 \<le> as_bindingRevision r \<and> as_authorizedAt r < as_expiresAt r \<and>
     (List.member [SESS_STOPPED, SESS_FAILED, SESS_EXPIRED, SESS_REVOKED] (as_status r) \<longrightarrow>
      as_stoppedAt r \<noteq> None)"

definition nonneg_option :: "int option \<Rightarrow> bool" where
  "nonneg_option x \<longleftrightarrow> (case x of None \<Rightarrow> True | Some v \<Rightarrow> 0 \<le> v)"

definition option_le :: "instant option \<Rightarrow> instant option \<Rightarrow> bool" where
  "option_le x y \<longleftrightarrow> (case (x, y) of (Some a, Some b) \<Rightarrow> a \<le> b | _ \<Rightarrow> True)"

definition evidence_readiness_check :: "evidence_row \<Rightarrow> bool" where
  "evidence_readiness_check r \<longleftrightarrow> (case ev_readiness r of
     READY \<Rightarrow> ev_type r \<noteq> INSUFFICIENT_EVIDENCE \<and> ev_type r \<noteq> PIPELINE_ERROR \<and>
       ev_modelVersionId r \<noteq> None \<and> ev_modelName r \<noteq> None \<and> ev_modelVersion r \<noteq> None \<and>
       ev_checkpointHash r \<noteq> None \<and> ev_scoreName r \<noteq> None \<and> ev_rawScore r \<noteq> None \<and>
       ev_errorCode r = None
   | INSUFFICIENT \<Rightarrow> ev_type r = INSUFFICIENT_EVIDENCE \<and>
       ev_rawScore r = None \<and> ev_calibratedScore r = None \<and> ev_errorCode r = None
   | ERROR \<Rightarrow> ev_type r = PIPELINE_ERROR \<and>
       ev_rawScore r = None \<and> ev_calibratedScore r = None \<and> ev_errorCode r \<noteq> None)"

definition evidence_check :: "evidence_row \<Rightarrow> bool" where
  "evidence_check r \<longleftrightarrow>
     0 \<le> ev_eventSequence r \<and> 0 \<le> ev_windowSequence r \<and> 0 \<le> ev_revision r \<and>
     0 \<le> ev_windowStartMs r \<and> ev_windowStartMs r \<le> ev_windowEndMs r \<and>
     nonneg_option (ev_processingLatencyMs r) \<and> nonneg_option (ev_speechDurationMs r) \<and>
     evidence_readiness_check r \<and>
     (ev_calibratedScore r \<noteq> None \<longrightarrow> ev_calibrationVersion r \<noteq> None) \<and>
     option_le (ev_capturedAt r) (ev_inferenceStartedAt r) \<and>
     option_le (ev_inferenceStartedAt r) (ev_inferenceCompletedAt r) \<and>
     option_le (ev_inferenceCompletedAt r) (Some (ev_observedAt r))"

definition assessment_check :: "assessment_row \<Rightarrow> bool" where
  "assessment_check r \<longleftrightarrow> 0 \<le> ra_maxWindowSequence r \<and>
     (if ra_productionEligible r
      then \<not> ra_activationSuppressed r \<and> ra_decisionMode r = DECISION_PRODUCTION_ELIGIBLE \<and>
           ra_evidenceMode r = MODE_CALIBRATED
      else ra_activationSuppressed r \<and> ra_decisionMode r \<noteq> DECISION_PRODUCTION_ELIGIBLE)"

definition blank :: "string \<Rightarrow> bool" where
  "blank s \<longleftrightarrow> list_all (\<lambda>c. c = CHR '' '') s"

definition risk_event_check :: "risk_event_row \<Rightarrow> bool" where
  "risk_event_check r \<longleftrightarrow> 0 \<le> re_eventSequence r \<and> re_priorState r \<noteq> re_state r \<and>
     \<not> blank (re_reasonCode r) \<and> \<not> blank (re_policyVersion r) \<and> \<not> blank (re_thresholdVersion r)"

definition intervention_check :: "intervention_row \<Rightarrow> bool" where
  "intervention_check r \<longleftrightarrow>
     (List.member [IV_SATISFIED, IV_DECLINED, IV_EXPIRED, IV_CANCELLED, IV_FAILED] (iv_status r) \<longrightarrow>
      iv_resolvedAt r \<noteq> None) \<and>
     ((iv_leaseId r = None) = (iv_leaseExpiresAt r = None)) \<and>
     (iv_deadLetteredAt r \<noteq> None \<longrightarrow> iv_status r = IV_FAILED)"

definition challenge_check :: "challenge_row \<Rightarrow> bool" where
  "challenge_check r \<longleftrightarrow> 1 \<le> vc_attemptNumber r \<and> vc_requestedAt r < vc_expiresAt r"

definition alert_check :: "alert_row \<Rightarrow> bool" where
  "alert_check r \<longleftrightarrow> 0 \<le> al_attemptCount r \<and>
     (al_status r = ALERT_DELIVERED \<longrightarrow> al_deliveredAt r \<noteq> None) \<and>
     ((al_leaseId r = None) = (al_leaseExpiresAt r = None)) \<and>
     (al_leaseId r \<noteq> None \<longrightarrow> al_status r = ALERT_PENDING)"

definition hex_digest :: "string \<Rightarrow> bool" where
  "hex_digest s \<longleftrightarrow> length s = 64 \<and>
     list_all (\<lambda>c. (CHR ''0'' \<le> c \<and> c \<le> CHR ''9'') \<or> (CHR ''a'' \<le> c \<and> c \<le> CHR ''f'')) s"

definition model_check :: "model_row \<Rightarrow> bool" where
  "model_check r \<longleftrightarrow> 0 < mv_inputSampleRateHz r \<and> 0 < mv_inputChannelCount r \<and>
     hex_digest (mv_checkpointHash r) \<and> \<not> blank (mv_checkpointSource r) \<and>
     \<not> blank (mv_checkpointLicense r)"

definition user_check :: "user_row \<Rightarrow> bool" where
  "user_check r \<longleftrightarrow> (us_status r = USER_DELETED) = (us_deletedAt r \<noteq> None)"

definition membership_check :: "membership_row \<Rightarrow> bool" where
  "membership_check r \<longleftrightarrow> (case ms_status r of
     MEM_ACTIVE \<Rightarrow> ms_joinedAt r \<noteq> None \<and> ms_revokedAt r = None
   | MEM_REVOKED \<Rightarrow> ms_revokedAt r \<noteq> None
   | _ \<Rightarrow> True)"

definition refresh_check :: "refresh_row \<Rightarrow> bool" where
  "refresh_check r \<longleftrightarrow> rs_issuedAt r < rs_expiresAt r \<and>
     (rs_status r = REFRESH_ROTATED \<longrightarrow> rs_rotatedAt r \<noteq> None) \<and>
     (rs_status r = REFRESH_REVOKED \<longrightarrow> rs_revokedAt r \<noteq> None)"

definition speaker_check :: "speaker_row \<Rightarrow> bool" where
  "speaker_check r \<longleftrightarrow> (case ts_status r of
     SPEAKER_DELETED \<Rightarrow> ts_deletedAt r \<noteq> None
   | SPEAKER_REVOKED \<Rightarrow> ts_revokedAt r \<noteq> None \<and> ts_deletedAt r = None
   | _ \<Rightarrow> ts_deletedAt r = None)"

definition consent_check :: "consent_row \<Rightarrow> bool" where
  "consent_check r \<longleftrightarrow> (case co_status r of
     CONSENT_GRANTED \<Rightarrow> co_revokedAt r = None
   | CONSENT_REVOKED \<Rightarrow> co_revokedAt r \<noteq> None \<and> co_revocationReasonCode r \<noteq> None
   | CONSENT_EXPIRED \<Rightarrow> co_expiresAt r \<noteq> None)"

definition voiceprint_check :: "voiceprint_row \<Rightarrow> bool" where
  "voiceprint_check r \<longleftrightarrow> 0 \<le> vp_sampleCount r \<and> (case vp_status r of
     VP_ACTIVE \<Rightarrow> vp_ciphertext r \<noteq> None \<and> vp_activatedAt r \<noteq> None \<and> vp_deletedAt r = None
   | VP_DELETED \<Rightarrow> vp_ciphertext r = None \<and> vp_deletedAt r \<noteq> None
   | VP_REVOKED \<Rightarrow> vp_revokedAt r \<noteq> None \<and> vp_deletedAt r = None
   | _ \<Rightarrow> vp_deletedAt r = None)"

section \<open>Descriptors\<close>

definition calls_table :: "call_row table" where
  [table_defs]: "calls_table = \<lparr>t_get = d_calls, t_put = d_calls_update,
     t_clash = call_clash, t_check = call_check\<rparr>"

definition participants_table :: "participant_row table" where
  [table_defs]: "participants_table = \<lparr>t_get = d_participants, t_put = d_participants_update,
     t_clash = participant_clash, t_check = (\<lambda>_. True)\<rparr>"

definition tracks_table :: "track_row table" where
  [table_defs]: "tracks_table = \<lparr>t_get = d_tracks, t_put = d_tracks_update,
     t_clash = track_clash, t_check = track_check\<rparr>"

definition bindings_table :: "binding_row table" where
  [table_defs]: "bindings_table = \<lparr>t_get = d_bindings, t_put = d_bindings_update,
     t_clash = binding_clash, t_check = binding_check\<rparr>"

definition sessions_table :: "session_row table" where
  [table_defs]: "sessions_table = \<lparr>t_get = d_sessions, t_put = d_sessions_update,
     t_clash = session_clash, t_check = session_check\<rparr>"

definition models_table :: "model_row table" where
  [table_defs]: "models_table = \<lparr>t_get = d_models, t_put = d_models_update,
     t_clash = model_clash, t_check = model_check\<rparr>"

definition policies_table :: "policy_row table" where
  [table_defs]: "policies_table = \<lparr>t_get = d_policies, t_put = d_policies_update,
     t_clash = policy_clash, t_check = (\<lambda>_. True)\<rparr>"

definition evidence_table :: "evidence_row table" where
  [table_defs]: "evidence_table = \<lparr>t_get = d_evidence, t_put = d_evidence_update,
     t_clash = evidence_clash, t_check = evidence_check\<rparr>"

definition assessments_table :: "assessment_row table" where
  [table_defs]: "assessments_table = \<lparr>t_get = d_assessments, t_put = d_assessments_update,
     t_clash = assessment_clash, t_check = assessment_check\<rparr>"

definition assessmentEvidence_table :: "evidence_link_row table" where
  [table_defs]: "assessmentEvidence_table = \<lparr>t_get = d_assessmentEvidence, t_put = d_assessmentEvidence_update,
     t_clash = link_clash, t_check = (\<lambda>_. True)\<rparr>"

definition riskEvents_table :: "risk_event_row table" where
  [table_defs]: "riskEvents_table = \<lparr>t_get = d_riskEvents, t_put = d_riskEvents_update,
     t_clash = risk_event_clash, t_check = risk_event_check\<rparr>"

definition riskEventEvidence_table :: "evidence_link_row table" where
  [table_defs]: "riskEventEvidence_table = \<lparr>t_get = d_riskEventEvidence, t_put = d_riskEventEvidence_update,
     t_clash = link_clash, t_check = (\<lambda>_. True)\<rparr>"

definition interventions_table :: "intervention_row table" where
  [table_defs]: "interventions_table = \<lparr>t_get = d_interventions, t_put = d_interventions_update,
     t_clash = intervention_clash, t_check = intervention_check\<rparr>"

definition challenges_table :: "challenge_row table" where
  [table_defs]: "challenges_table = \<lparr>t_get = d_challenges, t_put = d_challenges_update,
     t_clash = challenge_clash, t_check = challenge_check\<rparr>"

definition alerts_table :: "alert_row table" where
  [table_defs]: "alerts_table = \<lparr>t_get = d_alerts, t_put = d_alerts_update,
     t_clash = alert_clash, t_check = alert_check\<rparr>"

definition audits_table :: "audit_row table" where
  [table_defs]: "audits_table = \<lparr>t_get = d_audit, t_put = d_audit_update,
     t_clash = audit_clash, t_check = (\<lambda>_. True)\<rparr>"

definition organizations_table :: "organization_row table" where
  [table_defs]: "organizations_table = \<lparr>t_get = d_organizations, t_put = d_organizations_update,
     t_clash = (\<lambda>a b. og_id a = og_id b \<or> og_slug a = og_slug b), t_check = (\<lambda>_. True)\<rparr>"

definition users_table :: "user_row table" where
  [table_defs]: "users_table = \<lparr>t_get = d_users, t_put = d_users_update,
     t_clash = (\<lambda>a b. us_id a = us_id b \<or> us_email a = us_email b), t_check = user_check\<rparr>"

definition memberships_table :: "membership_row table" where
  [table_defs]: "memberships_table = \<lparr>t_get = d_memberships, t_put = d_memberships_update,
     t_clash = membership_clash, t_check = membership_check\<rparr>"

definition roles_table :: "role_row table" where
  [table_defs]: "roles_table = \<lparr>t_get = d_roles, t_put = d_roles_update,
     t_clash = (\<lambda>a b. a = b), t_check = (\<lambda>_. True)\<rparr>"

definition devices_table :: "device_row table" where
  [table_defs]: "devices_table = \<lparr>t_get = d_devices, t_put = d_devices_update,
     t_clash = (\<lambda>a b. dv_id a = dv_id b \<or>
       (dv_org a = dv_org b \<and> dv_publicId a = dv_publicId b)), t_check = (\<lambda>_. True)\<rparr>"

definition refreshes_table :: "refresh_row table" where
  [table_defs]: "refreshes_table = \<lparr>t_get = d_refreshSessions, t_put = d_refreshSessions_update,
     t_clash = (\<lambda>a b. rs_id a = rs_id b \<or> rs_tokenHash a = rs_tokenHash b), t_check = refresh_check\<rparr>"

definition speakers_table :: "speaker_row table" where
  [table_defs]: "speakers_table = \<lparr>t_get = d_speakers, t_put = d_speakers_update,
     t_clash = speaker_clash, t_check = speaker_check\<rparr>"

definition consents_table :: "consent_row table" where
  [table_defs]: "consents_table = \<lparr>t_get = d_consents, t_put = d_consents_update,
     t_clash = (\<lambda>a b. co_id a = co_id b), t_check = consent_check\<rparr>"

definition voiceprints_table :: "voiceprint_row table" where
  [table_defs]: "voiceprints_table = \<lparr>t_get = d_voiceprints, t_put = d_voiceprints_update,
     t_clash = voiceprint_clash, t_check = voiceprint_check\<rparr>"

section \<open>The interface of a table\<close>

locale db_table =
  fixes tb :: "'r table"
  assumes get_put: "t_get tb (t_put tb f d) = f (t_get tb d)"
    and put_put: "t_put tb f (t_put tb g d) = t_put tb (\<lambda>rs. f (g rs)) d"
    and clash_sym: "t_clash tb a b = t_clash tb b a"
begin

definition consistent :: "db \<Rightarrow> bool" where
  "consistent d \<longleftrightarrow>
     pairwise_free (t_clash tb) (t_get tb d) \<and> list_all (t_check tb) (t_get tb d)"

lemma pairwise_free_snoc:
  "pairwise_free (t_clash tb) (rs @ [r]) \<longleftrightarrow>
     pairwise_free (t_clash tb) rs \<and> \<not> list_ex (\<lambda>x. t_clash tb x r) rs"
  by (induction rs) (auto simp: clash_sym)

lemma create_rows:
  "create tb r w = (Inr a, w') \<Longrightarrow>
     a = r \<and> w' = w\<lparr>w_db := w_db w'\<rparr> \<and> t_get tb (w_db w') = t_get tb (w_db w) @ [r]"
  by (auto simp: create_def get_put split: if_splits)

lemma create_consistent: "keeps (on_db consistent) (create tb r)"
  by (auto simp: keeps_def create_def on_db_def consistent_def get_put pairwise_free_snoc)

lemma update_consistent: "keeps (on_db consistent) (update_rows tb P f)"
  by (auto simp: keeps_def update_rows_def on_db_def consistent_def get_put Let_def
      list_all_iff list_ex_iff change_rows_def filter_empty_conv cong: map_cong)

lemma pairwise_free_unique:
  "pairwise_free (t_clash tb) rs \<Longrightarrow> x \<in> set rs \<Longrightarrow> y \<in> set rs \<Longrightarrow> t_clash tb x y \<Longrightarrow> x = y"
  by (induction rs) (auto simp: list_ex_iff clash_sym)

lemma consistent_unique:
  "consistent d \<Longrightarrow> x \<in> set (t_get tb d) \<Longrightarrow> y \<in> set (t_get tb d) \<Longrightarrow> t_clash tb x y \<Longrightarrow> x = y"
  by (auto simp: consistent_def dest: pairwise_free_unique)

end

lemmas clash_defs = call_clash_def participant_clash_def track_clash_def binding_clash_def
  session_clash_def model_clash_def policy_clash_def evidence_clash_def assessment_clash_def
  link_clash_def risk_event_clash_def intervention_clash_def challenge_clash_def alert_clash_def
  audit_clash_def membership_clash_def speaker_clash_def voiceprint_clash_def

lemma same_some_commute: "same_some x y = same_some y x"
  by (auto simp: same_some_def)

interpretation calls_db: db_table calls_table
  by unfold_locales (auto simp: calls_table_def clash_defs same_some_commute)

interpretation participants_db: db_table participants_table
  by unfold_locales (auto simp: participants_table_def clash_defs same_some_commute)

interpretation tracks_db: db_table tracks_table
  by unfold_locales (auto simp: tracks_table_def clash_defs same_some_commute)

interpretation bindings_db: db_table bindings_table
  by unfold_locales (auto simp: bindings_table_def clash_defs same_some_commute)

interpretation sessions_db: db_table sessions_table
  by unfold_locales (auto simp: sessions_table_def clash_defs same_some_commute)

interpretation models_db: db_table models_table
  by unfold_locales (auto simp: models_table_def clash_defs same_some_commute)

interpretation policies_db: db_table policies_table
  by unfold_locales (auto simp: policies_table_def clash_defs same_some_commute)

interpretation evidence_db: db_table evidence_table
  by unfold_locales (auto simp: evidence_table_def clash_defs same_some_commute)

interpretation assessments_db: db_table assessments_table
  by unfold_locales (auto simp: assessments_table_def clash_defs same_some_commute)

interpretation assessmentEvidence_db: db_table assessmentEvidence_table
  by unfold_locales (auto simp: assessmentEvidence_table_def clash_defs same_some_commute)

interpretation riskEvents_db: db_table riskEvents_table
  by unfold_locales (auto simp: riskEvents_table_def clash_defs same_some_commute)

interpretation riskEventEvidence_db: db_table riskEventEvidence_table
  by unfold_locales (auto simp: riskEventEvidence_table_def clash_defs same_some_commute)

interpretation interventions_db: db_table interventions_table
  by unfold_locales (auto simp: interventions_table_def clash_defs same_some_commute)

interpretation challenges_db: db_table challenges_table
  by unfold_locales (auto simp: challenges_table_def clash_defs same_some_commute)

interpretation alerts_db: db_table alerts_table
  by unfold_locales (auto simp: alerts_table_def clash_defs same_some_commute)

interpretation audits_db: db_table audits_table
  by unfold_locales (auto simp: audits_table_def clash_defs same_some_commute)

interpretation organizations_db: db_table organizations_table
  by unfold_locales (auto simp: organizations_table_def clash_defs same_some_commute)

interpretation users_db: db_table users_table
  by unfold_locales (auto simp: users_table_def clash_defs same_some_commute)

interpretation memberships_db: db_table memberships_table
  by unfold_locales (auto simp: memberships_table_def clash_defs same_some_commute)

interpretation roles_db: db_table roles_table
  by unfold_locales (auto simp: roles_table_def clash_defs same_some_commute)

interpretation devices_db: db_table devices_table
  by unfold_locales (auto simp: devices_table_def clash_defs same_some_commute)

interpretation refreshes_db: db_table refreshes_table
  by unfold_locales (auto simp: refreshes_table_def clash_defs same_some_commute)

interpretation speakers_db: db_table speakers_table
  by unfold_locales (auto simp: speakers_table_def clash_defs same_some_commute)

interpretation consents_db: db_table consents_table
  by unfold_locales (auto simp: consents_table_def clash_defs same_some_commute)

interpretation voiceprints_db: db_table voiceprints_table
  by unfold_locales (auto simp: voiceprints_table_def clash_defs same_some_commute)

end
