(* ===== verification/Audit_Log.thy ===== *)
theory Audit_Log
  imports Tables Database_Types
begin

text \<open>
  \<open>modules/audit/audit.repository.ts\<close> and \<open>audit.service.ts\<close>: the append-only audit log. Metadata
  is limited to eight named fields, each checked and copied into a JSON object in a fixed order;
  an append with an idempotency key that was used returns the row that is there.
\<close>

record AllowedAuditMetadata =
  am_operation :: "string option"
  am_policyVersion :: "string option"
  am_schemaVersion :: "string option"
  am_decisionMode :: "string option"
  am_evidenceMode :: "string option"
  am_thresholdVersion :: "string option"
  am_productionEligible :: "bool option"
  am_controlMode :: "string option"

record AppendAuditInput =
  aa_actor :: "uuid option"
  aa_correlationId :: string
  aa_idempotencyKey :: "string option"
  aa_action :: string
  aa_targetType :: string
  aa_targetId :: uuid
  aa_outcome :: AuditOutcome
  aa_reasonCode :: "string option"
  aa_sourceIpHash :: "string option"
  aa_metadata :: "AllowedAuditMetadata option"
  aa_occurredAt :: "instant option"

definition no_metadata :: AllowedAuditMetadata where
  "no_metadata = \<lparr>am_operation = None, am_policyVersion = None, am_schemaVersion = None,
     am_decisionMode = None, am_evidenceMode = None, am_thresholdVersion = None,
     am_productionEligible = None, am_controlMode = None\<rparr>"

text \<open>One conditional spread \<open>...(x === undefined ? {} : { key: requireText(x, ...) })\<close>.\<close>

definition text_entry ::
  "string \<Rightarrow> nat \<Rightarrow> string option \<Rightarrow> err + (string \<times> json) list" where
  "text_entry key maximum value = (case value of
     None \<Rightarrow> Inr []
   | Some v \<Rightarrow> bindE (requireText v (''auditMetadata.'' @ key) maximum)
                 (\<lambda>t. Inr [(key, JStr t)]))"

definition normalized_metadata :: "AllowedAuditMetadata \<Rightarrow> err + (string \<times> json) list" where
  "normalized_metadata m =
     bindE (text_entry ''operation'' 160 (am_operation m)) (\<lambda>e1.
     bindE (text_entry ''policyVersion'' 160 (am_policyVersion m)) (\<lambda>e2.
     bindE (text_entry ''schemaVersion'' 160 (am_schemaVersion m)) (\<lambda>e3.
     bindE (text_entry ''decisionMode'' 80 (am_decisionMode m)) (\<lambda>e4.
     bindE (text_entry ''evidenceMode'' 80 (am_evidenceMode m)) (\<lambda>e5.
     bindE (text_entry ''thresholdVersion'' 160 (am_thresholdVersion m)) (\<lambda>e6.
     bindE (text_entry ''controlMode'' 40 (am_controlMode m)) (\<lambda>e8.
     Inr (e1 @ e2 @ e3 @ e4 @ e5 @ e6 @
          (case am_productionEligible m of None \<Rightarrow> [] | Some b \<Rightarrow> [(''productionEligible'', JBool b)]) @
          e8))))))))"

definition audit_row_of ::
  "uuid \<Rightarrow> AppendAuditInput \<Rightarrow> uuid \<Rightarrow> instant \<Rightarrow> err + audit_row" where
  "audit_row_of organizationId input newId occurredAt =
     bindE (optional normalized_metadata (aa_metadata input)) (\<lambda>metadata.
     bindE (optional (\<lambda>a. requireUuid a ''actorMembershipId'') (aa_actor input)) (\<lambda>actor.
     bindE (requireText (aa_correlationId input) ''correlationId'' 128) (\<lambda>correlationId.
     bindE (optional (\<lambda>k. requireText k ''idempotencyKey'' 128) (aa_idempotencyKey input))
       (\<lambda>idempotencyKey.
     bindE (requireText (aa_action input) ''action'' 120) (\<lambda>action.
     bindE (requireText (aa_targetType input) ''targetType'' 80) (\<lambda>targetType.
     bindE (requireUuid (aa_targetId input) ''targetId'') (\<lambda>targetId.
     bindE (optional (\<lambda>c. requireText c ''reasonCode'' 80) (aa_reasonCode input)) (\<lambda>reasonCode.
     bindE (optional (\<lambda>h. requireText h ''sourceIpHash'' 64) (aa_sourceIpHash input))
       (\<lambda>sourceIpHash.
     Inr \<lparr>au_id = newId, au_org = organizationId, au_actor = actor,
          au_correlationId = correlationId, au_idemKey = idempotencyKey, au_action = action,
          au_targetType = targetType, au_targetId = targetId, au_outcome = aa_outcome input,
          au_reasonCode = reasonCode, au_sourceIpHash = sourceIpHash, au_metadata = metadata,
          au_occurredAt = occurredAt\<rparr>)))))))))"

definition audit_appendWithClient :: "uuid \<Rightarrow> AppendAuditInput \<Rightarrow> audit_row op" where
  "audit_appendWithClient context input =
     bindM (liftE (requireTenant context)) (\<lambda>organizationId.
     bindM (case aa_occurredAt input of Some t \<Rightarrow> returnM t | None \<Rightarrow> now) (\<lambda>occurredAt.
     bindM new_id (\<lambda>newId.
     bindM (liftE (audit_row_of organizationId input newId occurredAt)) (\<lambda>row.
     create audits_table row))))"

definition same_audit :: "audit_row \<Rightarrow> AppendAuditInput \<Rightarrow> bool" where
  "same_audit existing input \<longleftrightarrow>
     au_action existing = aa_action input \<and> au_targetType existing = aa_targetType input \<and>
     au_targetId existing = aa_targetId input \<and> au_outcome existing = aa_outcome input"

definition audit_append :: "uuid \<Rightarrow> AppendAuditInput \<Rightarrow> audit_row op" where
  "audit_append context input =
     bindM (liftE (requireTenant context)) (\<lambda>organizationId.
     case aa_idempotencyKey input of
       None \<Rightarrow> audit_appendWithClient context input
     | Some key \<Rightarrow>
         bindM (liftE (requireText key ''idempotencyKey'' 128)) (\<lambda>k.
         bindM (find_unique_row audits_table
                  (\<lambda>a. au_org a = organizationId \<and> au_idemKey a = Some k)) (\<lambda>found.
         case found of
           Some existing \<Rightarrow>
             if \<not> same_audit existing input then throwM IdempotencyConflictError
             else returnM existing
         | None \<Rightarrow> audit_appendWithClient context input)))"

record WorkflowAuditInput =
  wa_organizationId :: uuid
  wa_actor :: "uuid option"
  wa_correlationId :: string
  wa_idempotencyKey :: "string option"
  wa_action :: string
  wa_targetType :: string
  wa_targetId :: uuid
  wa_outcome :: "AuditOutcome option"
  wa_reasonCode :: "string option"
  wa_operation :: string

definition audit_record :: "WorkflowAuditInput \<Rightarrow> audit_row op" where
  "audit_record input = audit_append (wa_organizationId input)
     \<lparr>aa_actor = wa_actor input, aa_correlationId = wa_correlationId input,
      aa_idempotencyKey = wa_idempotencyKey input, aa_action = wa_action input,
      aa_targetType = wa_targetType input, aa_targetId = wa_targetId input,
      aa_outcome = (case wa_outcome input of None \<Rightarrow> AUDIT_SUCCEEDED | Some q \<Rightarrow> q),
      aa_reasonCode = wa_reasonCode input, aa_sourceIpHash = None,
      aa_metadata = Some (no_metadata\<lparr>am_operation := Some (wa_operation input)\<rparr>),
      aa_occurredAt = None\<rparr>"

section \<open>Lemmas\<close>

lemma keeps_audit_appendWithClient:
  assumes "\<And>d r. I d \<Longrightarrow> I (d_audit_update (\<lambda>rs. rs @ [r]) d)"
  shows "keeps (on_db I) (audit_appendWithClient context input)"
  unfolding audit_appendWithClient_def
  by (intro hoare keeps_create) (auto simp: table_defs assms)

lemma keeps_audit_append:
  assumes "\<And>d r. I d \<Longrightarrow> I (d_audit_update (\<lambda>rs. rs @ [r]) d)"
  shows "keeps (on_db I) (audit_append context input)"
  unfolding audit_append_def
  by (intro hoare keeps_audit_appendWithClient) (auto simp: assms)

lemma keeps_audit_record:
  assumes "\<And>d r. I d \<Longrightarrow> I (d_audit_update (\<lambda>rs. rs @ [r]) d)"
  shows "keeps (on_db I) (audit_record input)"
  unfolding audit_record_def by (intro keeps_audit_append) (rule assms)

text \<open>The log is append-only: an append never changes or removes a row that is there.\<close>

lemma audit_appendWithClient_prefix:
  "keeps (on_db (\<lambda>d. \<exists>more. d_audit d = old @ more)) (audit_appendWithClient context input)"
  by (rule keeps_audit_appendWithClient) auto

end
