(* ===== verification/Evidence.thy ===== *)
theory Evidence
  imports Audit_Log
begin

text \<open>
  \<open>modules/evidence/evidence.repository.ts\<close>: evidence is recorded once per idempotency key; an
  accepted event with a higher revision supersedes the accepted event of its (window, type) slot,
  one with a lower revision is stored as stale. A score of the input stands for the number its
  shortest decimal numeral denotes, which is what the client sends to the database; the column
  keeps nine decimals.
\<close>

record RecordEvidenceInput =
  ri_callId :: uuid
  ri_analysisSessionId :: uuid
  ri_trackBindingId :: uuid
  ri_participantIdentity :: "string option"
  ri_trackSid :: "string option"
  ri_windowId :: "string option"
  ri_correlationId :: "string option"
  ri_modelVersionId :: "uuid option"
  ri_supersedesEvidenceId :: "uuid option"
  ri_idempotencyKey :: string
  ri_schemaVersion :: string
  ri_evidenceMode :: EvidenceMode
  ri_eventSequence :: int
  ri_windowSequence :: int
  ri_revision :: int
  ri_evidenceType :: EvidenceType
  ri_readiness :: EvidenceReadiness
  ri_acceptanceStatus :: "EvidenceAcceptanceStatus option"
  ri_windowStartMs :: int
  ri_windowEndMs :: int
  ri_observedAt :: instant
  ri_capturedAt :: "instant option"
  ri_inferenceStartedAt :: "instant option"
  ri_inferenceCompletedAt :: "instant option"
  ri_processingLatencyMs :: "int option"
  ri_speechDurationMs :: "int option"
  ri_qualityScore :: "rat option"
  ri_reasonCodes :: "string list option"
  ri_modelName :: "string option"
  ri_modelVersion :: "string option"
  ri_checkpointHash :: "string option"
  ri_scoreName :: "string option"
  ri_scoreDirection :: "ScoreDirection option"
  ri_rawScore :: "rat option"
  ri_calibratedScore :: "rat option"
  ri_calibrationVersion :: "string option"
  ri_errorCode :: "string option"

definition or_default :: "'a option \<Rightarrow> 'a \<Rightarrow> 'a" where
  "or_default x d = (case x of None \<Rightarrow> d | Some v \<Rightarrow> v)"

text \<open>\<open>Decimal(18, 9)\<close>: rounded to nine decimals, halves away from zero, nine digits before.\<close>

definition decimal9 :: "rat \<Rightarrow> rat" where
  "decimal9 x = (let y = \<bar>x\<bar> * 10 ^ 9; n = \<lfloor>y + 1 / 2\<rfloor> in sgn x * of_int n / 10 ^ 9)"

definition decimal_column :: "rat \<Rightarrow> err + rat" where
  "decimal_column x =
     (if 10 ^ 9 \<le> \<bar>decimal9 x\<bar> then Inl (Error ''numeric field overflow'') else Inr (decimal9 x))"

definition isEquivalent :: "evidence_row \<Rightarrow> RecordEvidenceInput \<Rightarrow> bool" where
  "isEquivalent existing input \<longleftrightarrow>
     ev_call existing = ri_callId input \<and>
     ev_session existing = ri_analysisSessionId input \<and>
     ev_binding existing = ri_trackBindingId input \<and>
     ev_participantIdentity existing = ri_participantIdentity input \<and>
     ev_trackSid existing = ri_trackSid input \<and>
     ev_windowId existing = ri_windowId input \<and>
     ev_correlationId existing = ri_correlationId input \<and>
     ev_eventSequence existing = ri_eventSequence input \<and>
     ev_windowSequence existing = ri_windowSequence input \<and>
     ev_revision existing = ri_revision input \<and>
     ev_type existing = ri_evidenceType input \<and>
     ev_readiness existing = ri_readiness input \<and>
     ev_windowStartMs existing = ri_windowStartMs input \<and>
     ev_windowEndMs existing = ri_windowEndMs input \<and>
     ev_modelVersionId existing = ri_modelVersionId input \<and>
     (ri_supersedesEvidenceId input = None \<or>
      ev_supersedes existing = ri_supersedesEvidenceId input) \<and>
     ev_schemaVersion existing = ri_schemaVersion input \<and>
     ev_mode existing = ri_evidenceMode input \<and>
     ev_status existing = or_default (ri_acceptanceStatus input) ACCEPTED \<and>
     ev_observedAt existing = ri_observedAt input \<and>
     ev_capturedAt existing = ri_capturedAt input \<and>
     ev_inferenceStartedAt existing = ri_inferenceStartedAt input \<and>
     ev_inferenceCompletedAt existing = ri_inferenceCompletedAt input \<and>
     ev_processingLatencyMs existing = ri_processingLatencyMs input \<and>
     ev_speechDurationMs existing = ri_speechDurationMs input \<and>
     ev_qualityScore existing = ri_qualityScore input \<and>
     ev_reasonCodes existing = or_default (ri_reasonCodes input) [] \<and>
     ev_modelName existing = ri_modelName input \<and>
     ev_modelVersion existing = ri_modelVersion input \<and>
     ev_checkpointHash existing = ri_checkpointHash input \<and>
     ev_scoreName existing = ri_scoreName input \<and>
     ev_scoreDirection existing = or_default (ri_scoreDirection input) NOT_APPLICABLE \<and>
     ev_rawScore existing = ri_rawScore input \<and>
     ev_calibratedScore existing = ri_calibratedScore input \<and>
     ev_calibrationVersion existing = ri_calibrationVersion input \<and>
     ev_errorCode existing = ri_errorCode input"

text \<open>The row that \<open>create\<close> writes (lines 197 to 246).\<close>

definition evidence_row_of ::
  "uuid \<Rightarrow> RecordEvidenceInput \<Rightarrow> string \<Rightarrow> EvidenceAcceptanceStatus \<Rightarrow> uuid option \<Rightarrow> uuid \<Rightarrow>
   err + evidence_row" where
  "evidence_row_of organizationId input idempotencyKey acceptanceStatus supersedes newId =
     bindE (optional (\<lambda>v. requireText v ''participantIdentity'' 160) (ri_participantIdentity input))
       (\<lambda>participantIdentity.
     bindE (optional (\<lambda>v. requireText v ''trackSid'' 128) (ri_trackSid input)) (\<lambda>trackSid.
     bindE (optional (\<lambda>v. requireText v ''windowId'' 200) (ri_windowId input)) (\<lambda>windowId.
     bindE (optional (\<lambda>v. requireText v ''correlationId'' 128) (ri_correlationId input))
       (\<lambda>correlationId.
     bindE (optional (\<lambda>v. requireUuid v ''modelVersionId'') (ri_modelVersionId input))
       (\<lambda>modelVersionId.
     bindE (optional (\<lambda>v. requireUuid v ''supersedesEvidenceId'') supersedes)
       (\<lambda>supersedesEvidenceId.
     bindE (requireText (ri_schemaVersion input) ''schemaVersion'' 40) (\<lambda>schemaVersion.
     bindE (optional decimal_column (ri_qualityScore input)) (\<lambda>qualityScore.
     bindE (optional decimal_column (ri_rawScore input)) (\<lambda>rawScore.
     bindE (optional decimal_column (ri_calibratedScore input)) (\<lambda>calibratedScore.
     Inr \<lparr>ev_id = newId, ev_org = organizationId, ev_call = ri_callId input,
          ev_session = ri_analysisSessionId input, ev_binding = ri_trackBindingId input,
          ev_participantIdentity = participantIdentity, ev_trackSid = trackSid,
          ev_windowId = windowId, ev_correlationId = correlationId,
          ev_modelVersionId = modelVersionId, ev_supersedes = supersedesEvidenceId,
          ev_idemKey = idempotencyKey, ev_schemaVersion = schemaVersion,
          ev_mode = ri_evidenceMode input, ev_eventSequence = ri_eventSequence input,
          ev_windowSequence = ri_windowSequence input, ev_revision = ri_revision input,
          ev_type = ri_evidenceType input, ev_readiness = ri_readiness input,
          ev_status = acceptanceStatus, ev_windowStartMs = ri_windowStartMs input,
          ev_windowEndMs = ri_windowEndMs input, ev_observedAt = ri_observedAt input,
          ev_capturedAt = ri_capturedAt input,
          ev_inferenceStartedAt = ri_inferenceStartedAt input,
          ev_inferenceCompletedAt = ri_inferenceCompletedAt input,
          ev_processingLatencyMs = ri_processingLatencyMs input,
          ev_speechDurationMs = ri_speechDurationMs input, ev_qualityScore = qualityScore,
          ev_reasonCodes = or_default (ri_reasonCodes input) [],
          ev_modelName = ri_modelName input, ev_modelVersion = ri_modelVersion input,
          ev_checkpointHash = ri_checkpointHash input, ev_scoreName = ri_scoreName input,
          ev_scoreDirection = or_default (ri_scoreDirection input) NOT_APPLICABLE,
          ev_rawScore = rawScore, ev_calibratedScore = calibratedScore,
          ev_calibrationVersion = ri_calibrationVersion input,
          ev_errorCode = ri_errorCode input\<rparr>))))))))))"

definition in_slot :: "uuid \<Rightarrow> uuid \<Rightarrow> int \<Rightarrow> EvidenceType \<Rightarrow> evidence_row \<Rightarrow> bool" where
  "in_slot organizationId session window type e \<longleftrightarrow>
     ev_org e = organizationId \<and> ev_session e = session \<and> ev_windowSequence e = window \<and>
     ev_type e = type \<and> ev_status e = ACCEPTED"

text \<open>
  Lines 168 to 195: the acceptance status and the superseded event, from the latest accepted
  event of the slot; a higher revision marks that event superseded.
\<close>

definition resolve_revision ::
  "uuid \<Rightarrow> RecordEvidenceInput \<Rightarrow> (EvidenceAcceptanceStatus \<times> uuid option) op" where
  "resolve_revision organizationId input =
     (let acceptanceStatus = or_default (ri_acceptanceStatus input) ACCEPTED;
          supersedes = ri_supersedesEvidenceId input in
      if acceptanceStatus \<noteq> ACCEPTED then returnM (acceptanceStatus, supersedes)
      else
        bindM (find_latest evidence_table
                 (in_slot organizationId (ri_analysisSessionId input) (ri_windowSequence input)
                    (ri_evidenceType input))
                 (\<lambda>e. (ev_revision e, ev_eventSequence e))) (\<lambda>latest.
        case latest of
          None \<Rightarrow> returnM (ACCEPTED, supersedes)
        | Some l \<Rightarrow>
            if ri_revision input < ev_revision l then returnM (STALE, supersedes)
            else if ev_revision l < ri_revision input then
              thenM (guardM (supersedes = None \<or> supersedes = Some (ev_id l))
                       IdempotencyConflictError)
              (bindM (update_one evidence_table (\<lambda>e. ev_id e = ev_id l)
                       (\<lambda>e. e\<lparr>ev_status := SUPERSEDED\<rparr>)) (\<lambda>_.
               returnM (ACCEPTED, Some (ev_id l))))
            else returnM (ACCEPTED, supersedes)))"

text \<open>The insertion (lines 197 to 246) after the revision is resolved.\<close>

definition insert_evidence ::
  "uuid \<Rightarrow> RecordEvidenceInput \<Rightarrow> string \<Rightarrow> EvidenceAcceptanceStatus \<times> uuid option \<Rightarrow>
   evidence_row op" where
  "insert_evidence organizationId input idempotencyKey res =
     (let (acceptanceStatus, supersedes) = res in
      bindM new_id (\<lambda>newId.
      bindM (liftE (evidence_row_of organizationId input idempotencyKey acceptanceStatus
                      supersedes newId)) (\<lambda>row.
      create evidence_table row)))"

definition store_new_evidence ::
  "uuid \<Rightarrow> RecordEvidenceInput \<Rightarrow> string \<Rightarrow> evidence_row op" where
  "store_new_evidence organizationId input idempotencyKey =
     bindM (resolve_revision organizationId input)
       (insert_evidence organizationId input idempotencyKey)"

definition evidence_input_ok :: "RecordEvidenceInput \<Rightarrow> bool" where
  "evidence_input_ok input \<longleftrightarrow>
     \<not> (ri_eventSequence input < 0 \<or> ri_windowSequence input < 0 \<or> ri_revision input < 0 \<or>
        ri_windowStartMs input < 0 \<or> ri_windowEndMs input < ri_windowStartMs input)"

definition recordWithClient :: "uuid \<Rightarrow> RecordEvidenceInput \<Rightarrow> evidence_row op" where
  "recordWithClient context input =
     bindM (liftE (requireTenant context)) (\<lambda>organizationId.
     bindM (liftE (requireUuid (ri_callId input) ''callId'')) (\<lambda>_.
     bindM (liftE (requireUuid (ri_analysisSessionId input) ''analysisSessionId'')) (\<lambda>_.
     bindM (liftE (requireUuid (ri_trackBindingId input) ''trackBindingId'')) (\<lambda>_.
     thenM (guardM (evidence_input_ok input) IdempotencyConflictError)
     (bindM (liftE (requireText (ri_idempotencyKey input) ''idempotencyKey'' 128))
       (\<lambda>idempotencyKey.
     bindM (find_unique_row evidence_table
              (\<lambda>e. ev_org e = organizationId \<and> ev_idemKey e = idempotencyKey)) (\<lambda>found.
     case found of
       Some existing \<Rightarrow>
         if \<not> isEquivalent existing input then throwM IdempotencyConflictError
         else returnM existing
     | None \<Rightarrow>
         store_new_evidence organizationId input idempotencyKey)))))))"

definition evidence_record :: "uuid \<Rightarrow> RecordEvidenceInput \<Rightarrow> evidence_row op" where
  "evidence_record context input =
     catchM (recordWithClient context input) (\<lambda>error.
       if error = P2002_UniqueConstraint then
         bindM (liftE (requireTenant context)) (\<lambda>organizationId.
         bindM (liftE (requireText (ri_idempotencyKey input) ''idempotencyKey'' 128)) (\<lambda>key.
         bindM (find_unique_row evidence_table
                  (\<lambda>e. ev_org e = organizationId \<and> ev_idemKey e = key)) (\<lambda>replay.
         case replay of
           Some r \<Rightarrow> if isEquivalent r input then returnM r else throwM IdempotencyConflictError
         | None \<Rightarrow> throwM IdempotencyConflictError)))
       else throwM error)"

section \<open>One accepted event per slot\<close>

text \<open>
  The evidence the risk engine reads: at most one accepted event for a session, window and type.
\<close>

definition slot_unique :: "db \<Rightarrow> bool" where
  "slot_unique d \<longleftrightarrow>
     (\<forall>o' s w t. length (filter (in_slot o' s w t) (d_evidence d)) \<le> 1)"

lemma in_slot_superseded [simp]: "\<not> in_slot o' s w t (e\<lparr>ev_status := SUPERSEDED\<rparr>)"
  by (simp add: in_slot_def)

lemma length_filter_le_supersede:
  "length (filter (in_slot o' s w t) (change_rows P (\<lambda>e. e\<lparr>ev_status := SUPERSEDED\<rparr>) es))
     \<le> length (filter (in_slot o' s w t) es)"
  by (induction es) (auto simp: change_rows_def)

lemma slot_unique_supersede:
  "slot_unique d \<Longrightarrow>
     slot_unique (d_evidence_update (change_rows P (\<lambda>e. e\<lparr>ev_status := SUPERSEDED\<rparr>)) d)"
  by (auto simp: slot_unique_def intro: order_trans [OF length_filter_le_supersede])

lemma slot_unique_append:
  assumes "slot_unique d"
    and "ev_status r = ACCEPTED \<Longrightarrow>
           \<forall>e \<in> set (d_evidence d).
             \<not> in_slot (ev_org r) (ev_session r) (ev_windowSequence r) (ev_type r) e"
  shows "slot_unique (d_evidence_update (\<lambda>rs. rs @ [r]) d)"
proof -
  have "filter (in_slot o' s w t) (d_evidence d) = []" if "in_slot o' s w t r" for o' s w t
  proof -
    have "ev_status r = ACCEPTED" "o' = ev_org r" "s = ev_session r" "w = ev_windowSequence r"
      "t = ev_type r"
      using that by (auto simp: in_slot_def)
    with assms(2) show ?thesis by (simp add: filter_empty_conv)
  qed
  then have "length (filter (in_slot o' s w t) (d_evidence d)) +
      length (filter (in_slot o' s w t) [r]) \<le> 1" for o' s w t
    using assms(1) by (cases "in_slot o' s w t r") (auto simp: slot_unique_def)
  then show ?thesis by (simp add: slot_unique_def)
qed

lemma slot_unique_other:
  "d_evidence d' = d_evidence d \<Longrightarrow> slot_unique d' = slot_unique d"
  by (simp add: slot_unique_def)

lemma single_filter:
  assumes "length (filter P xs) \<le> 1" "x \<in> set xs" "P x" "y \<in> set xs" "P y"
  shows "x = y"
proof -
  obtain z where "filter P xs = [z]"
    using assms(1-3) by (cases "filter P xs") (auto simp: filter_empty_conv)
  moreover have "x \<in> set (filter P xs)" "y \<in> set (filter P xs)" using assms by simp_all
  ultimately show ?thesis by (simp only: list.set singleton_iff)
qed

text \<open>
  After the revision is resolved as accepted, an accepted event that is still in the slot has the
  revision of the input, so the insertion that follows would break a unique constraint.
\<close>

lemma find_or_update_state:
  "update_one tb P f w = (Inr r, w') \<Longrightarrow> w' = w\<lparr>w_db := t_put tb (change_rows P f) (w_db w)\<rparr>"
  by (auto simp: update_one_def find_unique_row_def update_rows_def Let_def bindM_def monad_simps
      split: option.splits sum.splits prod.splits if_splits)

lemma resolve_revision_slot:
  assumes "resolve_revision o' i w = (Inr (ACCEPTED, sp), w')" "slot_unique (w_db w)"
    and "e \<in> set (d_evidence (w_db w'))"
    and "in_slot o' (ri_analysisSessionId i) (ri_windowSequence i) (ri_evidenceType i) e"
  shows "ev_revision e = ri_revision i"
proof -
  let ?P = "in_slot o' (ri_analysisSessionId i) (ri_windowSequence i) (ri_evidenceType i)"
  let ?k = "\<lambda>e. (ev_revision e, ev_eventSequence e)"
  let ?l = "latest_by ?k (filter ?P (d_evidence (w_db w)))"
  have fl: "find_latest evidence_table ?P ?k w = (Inr ?l, w)"
    by (simp add: find_latest_def getM_def evidence_table_def)
  show ?thesis
  proof (cases ?l)
    case None
    with assms fl show ?thesis
      by (auto simp: resolve_revision_def Let_def monad_simps filter_empty_conv split: if_splits)
  next
    case (Some l)
    have l: "l \<in> set (d_evidence (w_db w))" "?P l"
      using latest_by_mem [OF Some] by auto
    have only: "x = l" if "x \<in> set (d_evidence (w_db w))" "?P x" for x
      using assms(2) l that single_filter [of ?P "d_evidence (w_db w)" x l]
      by (simp add: slot_unique_def)
    consider (eq) "ev_revision l = ri_revision i" "w' = w"
      | (up) "w' = w\<lparr>w_db := t_put evidence_table
                 (change_rows (\<lambda>x. ev_id x = ev_id l) (\<lambda>x. x\<lparr>ev_status := SUPERSEDED\<rparr>)) (w_db w)\<rparr>"
      using assms(1) fl Some
      by (auto simp: resolve_revision_def Let_def monad_simps bindM_def
          dest!: find_or_update_state split: if_splits sum.splits prod.splits)
    then show ?thesis
    proof cases
      case eq
      with assms(3,4) only show ?thesis by auto
    next
      case up
      then obtain x where x: "x \<in> set (d_evidence (w_db w))"
          "e = (if ev_id x = ev_id l then x\<lparr>ev_status := SUPERSEDED\<rparr> else x)"
        using assms(3) by (auto simp: change_rows_def evidence_table_def)
      show ?thesis
      proof (cases "ev_id x = ev_id l")
        case True
        with x(2) assms(4) show ?thesis by simp
      next
        case False
        with x(2) have "x = e" by simp
        with only [OF x(1)] assms(4) False show ?thesis by simp
      qed
    qed
  qed
qed

lemma keeps_resolve_revision:
  assumes "\<And>d P. I d \<Longrightarrow> I (d_evidence_update (change_rows P (\<lambda>e. e\<lparr>ev_status := SUPERSEDED\<rparr>)) d)"
  shows "keeps (on_db I) (resolve_revision o' i)"
  unfolding resolve_revision_def Let_def
  by (intro hoare keeps_update_one keeps_update_rows) (auto simp: evidence_table_def assms)

lemma evidence_row_of_fields:
  "evidence_row_of o' i k st sp n = Inr r \<Longrightarrow>
     ev_id r = n \<and> ev_org r = o' \<and> ev_session r = ri_analysisSessionId i \<and>
     ev_windowSequence r = ri_windowSequence i \<and> ev_type r = ri_evidenceType i \<and>
     ev_revision r = ri_revision i \<and> ev_status r = st \<and> ev_idemKey r = k \<and>
     ev_call r = ri_callId i \<and> ev_binding r = ri_trackBindingId i"
  unfolding evidence_row_of_def
  by ((drule bindE_cont, erule exE)+, drule iffD1 [OF sum.inject(2)], hypsubst)
    (simp only: evidence_row.simps simp_thms)

lemma insert_evidence_apply:
  "insert_evidence o' i k (st, sp) w =
     (case evidence_row_of o' i k st sp (w_ids w (w_idn w)) of
        Inl e \<Rightarrow> (Inl e, w\<lparr>w_idn := Suc (w_idn w)\<rparr>)
      | Inr r \<Rightarrow> create evidence_table r (w\<lparr>w_idn := Suc (w_idn w)\<rparr>))"
  by (simp add: insert_evidence_def new_id_def bindM_def monad_simps split: sum.split)

lemma create_evidence_slot:
  assumes "slot_unique (w_db w)"
    and "ev_status r = ACCEPTED \<Longrightarrow>
           \<forall>e \<in> set (d_evidence (w_db w)).
             in_slot (ev_org r) (ev_session r) (ev_windowSequence r) (ev_type r) e \<longrightarrow>
             ev_revision e = ev_revision r"
  shows "slot_unique (w_db (snd (create evidence_table r w)))"
proof (cases "list_ex (\<lambda>x. evidence_clash x r) (d_evidence (w_db w)) \<or> \<not> evidence_check r")
  case True
  with assms(1) show ?thesis by (auto simp: create_def evidence_table_def)
next
  case False
  have "\<not> in_slot (ev_org r) (ev_session r) (ev_windowSequence r) (ev_type r) e"
    if "ev_status r = ACCEPTED" "e \<in> set (d_evidence (w_db w))" for e
    using assms(2) that False
    by (auto simp: list_ex_iff evidence_clash_def in_slot_def)
  with assms(1) slot_unique_append [of "w_db w" r] False show ?thesis
    by (simp add: create_def evidence_table_def)
qed

lemma insert_evidence_slot:
  assumes "resolve_revision o' i w0 = (Inr res, w)" "slot_unique (w_db w0)"
  shows "slot_unique (w_db (snd (insert_evidence o' i k res w)))"
proof -
  obtain st sp where res: "res = (st, sp)" by (cases res)
  have u: "slot_unique (w_db w)"
    using keepsD [OF keeps_resolve_revision [of slot_unique] _ assms(1)] assms(2)
    by (simp add: on_db_def slot_unique_supersede)
  show ?thesis
  proof (cases "evidence_row_of o' i k st sp (w_ids w (w_idn w))")
    case (Inl e)
    with u show ?thesis by (simp add: res insert_evidence_apply)
  next
    case (Inr r)
    note f = evidence_row_of_fields [OF Inr]
    have "ev_revision e = ev_revision r"
      if "ev_status r = ACCEPTED" "e \<in> set (d_evidence (w_db w))"
        "in_slot (ev_org r) (ev_session r) (ev_windowSequence r) (ev_type r) e" for e
      using resolve_revision_slot [of o' i w0 sp w e] assms res that by (simp add: f)
    with u Inr show ?thesis
      by (simp add: res insert_evidence_apply create_evidence_slot)
  qed
qed

lemma keeps_store_new_evidence: "keeps (on_db slot_unique) (store_new_evidence o' i k)"
  unfolding store_new_evidence_def
  by (rule keeps_bindM_seq)
    (auto intro: keeps_resolve_revision slot_unique_supersede simp: on_db_def insert_evidence_slot)

lemma keeps_slot_unique: "keeps (on_db slot_unique) (recordWithClient context i)"
  unfolding recordWithClient_def by (intro hoare keeps_store_new_evidence)

section \<open>Retries\<close>

text \<open>The same input again: the stored event is compared with the input and nothing is written.\<close>

definition evidence_key :: "evidence_row \<Rightarrow> uuid \<times> string" where
  "evidence_key e = (ev_org e, ev_idemKey e)"

lemma supersede_keys:
  "map evidence_key (change_rows P (\<lambda>e. e\<lparr>ev_status := SUPERSEDED\<rparr>) es) = map evidence_key es"
  by (simp add: change_rows_def evidence_key_def)

lemma store_new_evidence_rows:
  assumes "store_new_evidence o' i k w = (Inr r, w')"
  shows "\<exists>es. d_evidence (w_db w') = es @ [r] \<and>
           map evidence_key es = map evidence_key (d_evidence (w_db w))"
    and "evidence_key r = (o', k)"
proof -
  obtain st sp w1 where a: "resolve_revision o' i w = (Inr (st, sp), w1)"
      "insert_evidence o' i k (st, sp) w1 = (Inr r, w')"
    using assms unfolding store_new_evidence_def by (metis bindM_eq_InrE surj_pair)
  have keys: "map evidence_key (d_evidence (w_db w1)) = map evidence_key (d_evidence (w_db w))"
    using keepsD [OF keeps_resolve_revision
        [of "\<lambda>d. map evidence_key (d_evidence d) = map evidence_key (d_evidence (w_db w))"] _ a(1)]
    by (simp add: on_db_def supersede_keys)
  obtain r' where r': "evidence_row_of o' i k st sp (w_ids w1 (w_idn w1)) = Inr r'"
      "create evidence_table r' (w1\<lparr>w_idn := Suc (w_idn w1)\<rparr>) = (Inr r, w')"
    using a(2) by (auto simp: insert_evidence_apply split: sum.splits)
  note c = evidence_db.create_rows [OF r'(2)]
  from c r'(1) show "evidence_key r = (o', k)"
    by (simp add: evidence_key_def evidence_row_of_fields)
  from c keys show "\<exists>es. d_evidence (w_db w') = es @ [r] \<and>
      map evidence_key es = map evidence_key (d_evidence (w_db w))"
    by (simp add: evidence_table_def)
qed

lemma find_key_iff:
  "find (\<lambda>e. ev_org e = o' \<and> ev_idemKey e = k) es = None \<longleftrightarrow> (o', k) \<notin> set (map evidence_key es)"
  by (auto simp: find_None_iff evidence_key_def image_iff)

lemma find_append_None: "find P xs = None \<Longrightarrow> find P (xs @ ys) = find P ys"
  by (induction xs) (auto split: if_splits)

lemma evidence_retry_state:
  assumes "recordWithClient context i w = (Inr r, w')"
  shows "recordWithClient context i w' =
           (if isEquivalent r i then Inr r else Inl IdempotencyConflictError, w')"
proof -
  let ?k = "js_trim (ri_idempotencyKey i)"
  let ?P = "\<lambda>e. ev_org e = context \<and> ev_idemKey e = ?k"
  have checks: "is_uuid context" "is_uuid (ri_callId i)" "is_uuid (ri_analysisSessionId i)"
      "is_uuid (ri_trackBindingId i)" "evidence_input_ok i"
      "requireText (ri_idempotencyKey i) ''idempotencyKey'' 128 = Inr ?k"
    and body: "(case find ?P (d_evidence (w_db w)) of
       Some existing \<Rightarrow>
         if \<not> isEquivalent existing i then throwM IdempotencyConflictError else returnM existing
     | None \<Rightarrow> store_new_evidence context i ?k) w = (Inr r, w')"
    using assms unfolding recordWithClient_def
    by (auto simp: run_simps find_unique_row_def evidence_table_def)
  have found: "find ?P (d_evidence (w_db w')) = Some r"
  proof (cases "find ?P (d_evidence (w_db w))")
    case None
    with body have new: "store_new_evidence context i ?k w = (Inr r, w')" by simp
    obtain es where es: "d_evidence (w_db w') = es @ [r]"
        "map evidence_key es = map evidence_key (d_evidence (w_db w))"
      using store_new_evidence_rows(1) [OF new] by blast
    have "find ?P es = None"
      using None unfolding find_key_iff es(2) .
    with es(1) store_new_evidence_rows(2) [OF new] show ?thesis
      by (simp add: find_append_None evidence_key_def)
  next
    case (Some x)
    with body show ?thesis by (auto simp: monad_simps split: if_splits)
  qed
  with checks show ?thesis
    by (simp add: recordWithClient_def bindM_def thenM_def monad_simps find_unique_row_def
        evidence_table_def requireTenant_def requireUuid_def requireText_def Let_def)
qed

section \<open>Properties\<close>

definition org1 :: uuid where "org1 = ''11111111-1111-4111-8111-111111111111''"
definition call1 :: uuid where "call1 = ''22222222-2222-4222-8222-222222222222''"
definition session1 :: uuid where "session1 = ''33333333-3333-4333-8333-333333333333''"
definition binding1 :: uuid where "binding1 = ''44444444-4444-4444-8444-444444444444''"
definition model1 :: uuid where "model1 = ''55555555-5555-4555-8555-555555555555''"

definition sample_world :: "db \<Rightarrow> world" where
  "sample_world d = \<lparr>w_db = d, w_clock = (\<lambda>n. 1000 + int n), w_ticks = 0,
     w_ids = (\<lambda>n. ''99999999-9999-4999-8999-99999999999'' @ [CHR ''0'']), w_idn = 0,
     w_conflicts = [], w_answers = (\<lambda>_. Some 200), w_log = [], w_attempts = [],
     w_holds = [], w_receipts = [], w_audio = [],
     w_clients = [], w_replay = [], w_fingerprints = []\<rparr>"

definition sample_input :: "string \<Rightarrow> int \<Rightarrow> int \<Rightarrow> rat \<Rightarrow> RecordEvidenceInput" where
  "sample_input key sequence revision score =
     \<lparr>ri_callId = call1, ri_analysisSessionId = session1, ri_trackBindingId = binding1,
      ri_participantIdentity = None, ri_trackSid = None, ri_windowId = None,
      ri_correlationId = None, ri_modelVersionId = Some model1, ri_supersedesEvidenceId = None,
      ri_idempotencyKey = key, ri_schemaVersion = ''1.1.0'', ri_evidenceMode = MODE_SIMULATED,
      ri_eventSequence = sequence, ri_windowSequence = 0, ri_revision = revision,
      ri_evidenceType = IDENTITY, ri_readiness = READY, ri_acceptanceStatus = Some ACCEPTED,
      ri_windowStartMs = 0, ri_windowEndMs = 1000, ri_observedAt = 1000, ri_capturedAt = None,
      ri_inferenceStartedAt = None, ri_inferenceCompletedAt = None,
      ri_processingLatencyMs = Some 5, ri_speechDurationMs = Some 900, ri_qualityScore = None,
      ri_reasonCodes = None, ri_modelName = Some ''voice'', ri_modelVersion = Some ''1'',
      ri_checkpointHash = Some ''aa'', ri_scoreName = Some ''similarity'',
      ri_scoreDirection = Some HIGHER_MEANS_MORE, ri_rawScore = Some score,
      ri_calibratedScore = None, ri_calibrationVersion = None, ri_errorCode = None\<rparr>"

text \<open>
  C11: a session never has two accepted events for the same window and evidence type: recording an
  event, whatever its revision and however it ends, keeps it so.
\<close>

theorem one_accepted_per_slot:
  assumes "slot_unique (w_db w)"
  shows "slot_unique (w_db (snd (recordWithClient organizationId input w)))"
  using keeps_sndD [OF keeps_slot_unique, of w] assms by (simp add: on_db_def)

theorem one_accepted_per_slot_witness:
  "slot_unique (w_db (snd (recordWithClient org1 (sample_input ''k'' 0 0 1) (sample_world empty_db))))"
  by (rule one_accepted_per_slot) (simp add: slot_unique_def sample_world_def empty_db_def)

text \<open>
  C28: an input that was recorded and is sent again writes nothing; it returns the stored event
  when that event is equivalent to the input, and is otherwise refused as a conflict.
\<close>

theorem recorded_evidence_retry:
  assumes "recordWithClient organizationId input w = (Inr e, w')"
  shows "recordWithClient organizationId input w' =
           (if isEquivalent e input then Inr e else Inl IdempotencyConflictError, w')"
  using evidence_retry_state [OF assms] .

definition first_run :: "(err + evidence_row) \<times> world" where
  "first_run = recordWithClient org1 (sample_input ''k'' 0 0 1) (sample_world empty_db)"

theorem recorded_evidence_retry_witness:
  "(case first_run of
      (Inr e, w') \<Rightarrow> recordWithClient org1 (sample_input ''k'' 0 0 1) w' = (Inr e, w')
    | _ \<Rightarrow> False)"
proof -
  have "(case first_run of (Inr e, w') \<Rightarrow> isEquivalent e (sample_input ''k'' 0 0 1) | _ \<Rightarrow> False)"
    by code_simp
  then obtain e w' where r: "first_run = (Inr e, w')" "isEquivalent e (sample_input ''k'' 0 0 1)"
    by (auto split: prod.splits sum.splits)
  have "recordWithClient org1 (sample_input ''k'' 0 0 1) w' = (Inr e, w')"
    using recorded_evidence_retry [OF r(1) [unfolded first_run_def]] r(2) by (simp only: if_True)
  then show ?thesis by (simp only: r(1) prod.case sum.case)
qed


definition precise_input :: RecordEvidenceInput where
  "precise_input = sample_input ''k'' 0 0 (8734217524528503 / 10000000000000000)"

definition precise_run :: "(err + evidence_row) \<times> world" where
  "precise_run = recordWithClient org1 precise_input (sample_world empty_db)"


end
