(* ===== verification/Js_Number.thy ===== *)
theory Js_Number
  imports Prelude
begin

text \<open>
  JavaScript's number arithmetic. A number of the program is an IEEE 754 double; every finite
  double is a rational, and each of \<open>+\<close>, \<open>-\<close> and \<open>*\<close> is the exact result rounded to the nearest
  double, ties to even. \<open>fl\<close> is that rounding (53 significant bits, least exponent -1074). The
  values the program computes with lie far below the overflow threshold and it rejects
  \<open>NaN\<close> and the infinities where it reads numbers, so neither is a value of the model.
\<close>

section \<open>Rounding to an integer, ties to even\<close>

definition round_half_even :: "rat \<Rightarrow> int" where
  "round_half_even x =
     (let f = \<lfloor>x\<rfloor>; d = x - of_int f in
      if d < 1 / 2 then f else if 1 / 2 < d then f + 1 else if even f then f else f + 1)"

lemma round_half_even_of_int [simp]: "round_half_even (of_int n) = n"
  by (simp add: round_half_even_def)

lemma round_half_even_mono:
  assumes "x \<le> y" shows "round_half_even x \<le> round_half_even y"
proof (cases "\<lfloor>x\<rfloor> = \<lfloor>y\<rfloor>")
  case True
  with assms show ?thesis by (auto simp: round_half_even_def Let_def)
next
  case False
  with floor_mono [OF assms] have "\<lfloor>x\<rfloor> + 1 \<le> \<lfloor>y\<rfloor>" by linarith
  moreover have "round_half_even x \<le> \<lfloor>x\<rfloor> + 1" "\<lfloor>y\<rfloor> \<le> round_half_even y"
    by (auto simp: round_half_even_def Let_def)
  ultimately show ?thesis by linarith
qed

section \<open>The binary exponent of a positive rational\<close>

fun nbits :: "nat \<Rightarrow> nat" where
  "nbits n = (if n = 0 then 0 else Suc (nbits (n div 2)))"

declare nbits.simps [simp del]

lemma nbits_bounds: "0 < n \<Longrightarrow> 2 ^ nbits n \<le> 2 * n \<and> n < 2 ^ nbits n"
proof (induction n rule: nbits.induct)
  case (1 n)
  show ?case
  proof (cases "n div 2 = 0")
    case True
    with "1.prems" have "n = 1" by auto
    moreover have "nbits 0 = 0" by (subst nbits.simps) simp
    moreover from this have "nbits (Suc 0) = 1" by (subst nbits.simps) simp
    ultimately show ?thesis by simp
  next
    case False
    with "1" have "2 ^ nbits (n div 2) \<le> 2 * (n div 2)" "n div 2 < 2 ^ nbits (n div 2)"
      by auto
    with "1.prems" show ?thesis by (auto simp: nbits.simps [of n])
  qed
qed

definition ilog2 :: "rat \<Rightarrow> int" where
  "ilog2 x = (case quotient_of x of (p, q) \<Rightarrow>
     let k = int (nbits (nat p)) - int (nbits (nat q))
     in if 2 powi k \<le> x then k else k - 1)"

lemma two_powi_pos [simp]: "0 < (2 :: rat) powi k"
  by (simp add: zero_less_power_int)

lemma two_powi_add: "(2 :: rat) powi (a + b) = 2 powi a * 2 powi b"
  by (simp add: power_int_add)

lemma two_powi_Suc: "(2 :: rat) powi (a + 1) = 2 * 2 powi a"
  by (simp add: power_int_add)

lemma two_powi_mono: "a \<le> b \<Longrightarrow> (2 :: rat) powi a \<le> 2 powi b"
  by (simp add: power_int_increasing)

lemma two_powi_diff: "(2 :: rat) powi (a - b) = 2 powi a / 2 powi b"
  by (simp add: power_int_diff)

lemma nbits_powi:
  assumes "0 < n"
  shows "(2 :: rat) powi int (nbits (nat n)) \<le> 2 * of_int n"
    and "of_int n < (2 :: rat) powi int (nbits (nat n))"
proof -
  have b: "2 ^ nbits (nat n) \<le> 2 * nat n" "nat n < 2 ^ nbits (nat n)"
    using nbits_bounds [of "nat n"] assms by auto
  have "of_nat (2 ^ nbits (nat n)) \<le> (of_nat (2 * nat n) :: rat)"
    using b(1) by (simp only: of_nat_le_iff)
  with assms show "(2 :: rat) powi int (nbits (nat n)) \<le> 2 * of_int n"
    by (simp add: power_int_def)
  have "(of_nat (nat n) :: rat) < of_nat (2 ^ nbits (nat n))"
    using b(2) by (simp only: of_nat_less_iff)
  with assms show "of_int n < (2 :: rat) powi int (nbits (nat n))"
    by (simp add: power_int_def)
qed

lemma ilog2_bounds:
  assumes "0 < x"
  shows "2 powi ilog2 x \<le> x" and "x < 2 powi (ilog2 x + 1)"
proof -
  obtain p q where pq: "quotient_of x = (p, q)" by (cases "quotient_of x") auto
  have q: "0 < q" using quotient_of_denom_pos [OF pq] .
  have x: "x = of_int p / of_int q" using quotient_of_div [OF pq] .
  with assms q have p: "0 < p" by (simp add: zero_less_divide_iff)
  let ?k = "int (nbits (nat p)) - int (nbits (nat q))"
  have up: "x < 2 powi (?k + 1)"
  proof -
    have "of_int p * 2 powi int (nbits (nat q)) < 2 powi int (nbits (nat p)) * (2 * of_int q :: rat)"
      using nbits_powi [OF p] nbits_powi [OF q] p q
      by (intro mult_less_le_imp_less) auto
    moreover have "(2 :: rat) powi (?k + 1)
        = 2 * 2 powi int (nbits (nat p)) / 2 powi int (nbits (nat q))"
      by (simp only: two_powi_Suc two_powi_diff times_divide_eq_right)
    ultimately show ?thesis using q
      by (simp only: x) (simp add: field_simps)
  qed
  have lo: "2 powi (?k - 1) \<le> x"
  proof -
    have "2 powi int (nbits (nat p)) * of_int q \<le> 2 * of_int p * (2 powi int (nbits (nat q)) :: rat)"
      using nbits_powi [OF p] nbits_powi [OF q] p q
      by (intro mult_mono) auto
    moreover have "(2 :: rat) powi (?k - 1)
        = 2 powi int (nbits (nat p)) / 2 powi int (nbits (nat q)) / 2"
      by (simp only: two_powi_diff) simp
    ultimately show ?thesis using q
      by (simp only: x) (simp add: field_simps)
  qed
  have il: "ilog2 x = (if 2 powi ?k \<le> x then ?k else ?k - 1)"
    by (simp add: ilog2_def pq Let_def)
  show "2 powi ilog2 x \<le> x" "x < 2 powi (ilog2 x + 1)"
    using up lo by (auto simp: il)
qed

lemma ilog2_mono: "0 < x \<Longrightarrow> x \<le> y \<Longrightarrow> ilog2 x \<le> ilog2 y"
proof (rule ccontr)
  assume "0 < x" "x \<le> y" "\<not> ilog2 x \<le> ilog2 y"
  then have "y < 2 powi (ilog2 y + 1)" "2 powi ilog2 x \<le> x" "ilog2 y + 1 \<le> ilog2 x"
    by (auto intro: ilog2_bounds)
  then show False
    using two_powi_mono [of "ilog2 y + 1" "ilog2 x"] \<open>x \<le> y\<close> by linarith
qed

section \<open>Rounding to a double\<close>

definition fl_exponent :: "rat \<Rightarrow> int" where
  "fl_exponent x = max (ilog2 \<bar>x\<bar> - 52) (- 1074)"

definition fl :: "rat \<Rightarrow> rat" where
  "fl x = (if x = 0 then 0
     else let e = fl_exponent x in of_int (round_half_even (x / 2 powi e)) * 2 powi e)"

definition js_add :: "rat \<Rightarrow> rat \<Rightarrow> rat" where "js_add a b = fl (a + b)"
definition js_sub :: "rat \<Rightarrow> rat \<Rightarrow> rat" where "js_sub a b = fl (a - b)"
definition js_mul :: "rat \<Rightarrow> rat \<Rightarrow> rat" where "js_mul a b = fl (a * b)"

lemma fl_0 [simp]: "fl 0 = 0"
  by (simp add: fl_def)

lemma fl_nonneg: "0 \<le> x \<Longrightarrow> 0 \<le> fl x"
proof -
  assume "0 \<le> x"
  then have "round_half_even (of_int 0) \<le> round_half_even (x / 2 powi fl_exponent x)"
    by (intro round_half_even_mono) simp
  then have "0 \<le> round_half_even (x / 2 powi fl_exponent x)"
    by (simp only: round_half_even_of_int)
  then show ?thesis by (simp add: fl_def Let_def less_imp_le)
qed

lemma fl_at_power:
  assumes "0 \<le> L - e" shows "of_int (round_half_even (2 powi L / 2 powi e)) * 2 powi e = (2 powi L :: rat)"
proof -
  have "(2 powi L / 2 powi e :: rat) = of_int (2 ^ nat (L - e))"
    using assms by (simp only: two_powi_diff [symmetric]) (simp add: power_int_def)
  moreover from this have "of_int (2 ^ nat (L - e)) * 2 powi e = (2 powi L :: rat)"
    by (simp add: field_simps)
  ultimately show ?thesis by (simp only: round_half_even_of_int)
qed

lemma fl_le_power:
  assumes "0 < x" "x \<le> 2 powi L" "fl_exponent x \<le> L" shows "fl x \<le> 2 powi L"
proof -
  let ?e = "fl_exponent x"
  have "round_half_even (x / 2 powi ?e) \<le> round_half_even (2 powi L / 2 powi ?e)"
    using assms(2) by (intro round_half_even_mono divide_right_mono) auto
  then have "of_int (round_half_even (x / 2 powi ?e)) * 2 powi ?e
      \<le> of_int (round_half_even (2 powi L / 2 powi ?e)) * (2 powi ?e :: rat)"
    by (intro mult_right_mono) (auto simp: less_imp_le)
  also have "\<dots> = 2 powi L" using assms(3) by (intro fl_at_power) simp
  finally show ?thesis using assms(1) by (simp add: fl_def Let_def)
qed

lemma power_le_fl:
  assumes "0 < x" "2 powi L \<le> x" "fl_exponent x \<le> L" shows "2 powi L \<le> fl x"
proof -
  let ?e = "fl_exponent x"
  have "2 powi L = of_int (round_half_even (2 powi L / 2 powi ?e)) * (2 powi ?e :: rat)"
    using assms(3) by (intro fl_at_power [symmetric]) simp
  also have "round_half_even (2 powi L / 2 powi ?e) \<le> round_half_even (x / 2 powi ?e)"
    using assms(2) by (intro round_half_even_mono divide_right_mono) auto
  then have "of_int (round_half_even (2 powi L / 2 powi ?e)) * (2 powi ?e :: rat)
      \<le> of_int (round_half_even (x / 2 powi ?e)) * 2 powi ?e"
    by (intro mult_right_mono) (auto simp: less_imp_le)
  finally show ?thesis using assms(1) by (simp add: fl_def Let_def)
qed

lemma fl_mono:
  assumes "0 \<le> x" "x \<le> y" shows "fl x \<le> fl y"
proof (cases "x = 0 \<or> fl_exponent x = fl_exponent y")
  case True
  then show ?thesis
  proof
    assume "x = 0"
    with assms fl_nonneg [of y] show ?thesis by (simp only: fl_0)
  next
    assume e: "fl_exponent x = fl_exponent y"
    have "round_half_even (x / 2 powi fl_exponent y) \<le> round_half_even (y / 2 powi fl_exponent y)"
      using assms(2) by (intro round_half_even_mono divide_right_mono) auto
    then have "of_int (round_half_even (x / 2 powi fl_exponent y)) * 2 powi fl_exponent y
        \<le> of_int (round_half_even (y / 2 powi fl_exponent y)) * (2 powi fl_exponent y :: rat)"
      by (intro mult_right_mono) (auto simp: less_imp_le)
    then show ?thesis
      using assms e fl_nonneg [of y] by (auto simp: fl_def Let_def split: if_splits)
  qed
next
  case False
  with assms have x: "0 < x" "0 < y" by auto
  have le: "ilog2 x \<le> ilog2 y" by (rule ilog2_mono) (use x assms in auto)
  from False x have ne: "fl_exponent x \<noteq> fl_exponent y" by simp
  let ?L = "ilog2 y"
  have ey: "fl_exponent y = ?L - 52" "fl_exponent x < ?L - 52" "ilog2 x + 1 \<le> ?L"
    using ne le x by (auto simp: fl_exponent_def max_def split: if_splits)
  have "x \<le> 2 powi ?L"
    using ilog2_bounds(2) [OF x(1)] two_powi_mono [OF ey(3)] by linarith
  then have "fl x \<le> 2 powi ?L" using x ey by (intro fl_le_power) auto
  also have "2 powi ?L \<le> fl y"
    using x ey ilog2_bounds(1) [OF x(2)] by (intro power_le_fl) auto
  finally show ?thesis .
qed

lemma fl_1 [simp]: "fl 1 = 1"
proof -
  have "ilog2 1 = 0"
    by (simp add: ilog2_def)
  then have e: "fl_exponent 1 = - 52" by (simp add: fl_exponent_def)
  have "fl 1 \<le> 2 powi 0" "2 powi 0 \<le> fl 1"
    by (rule fl_le_power power_le_fl; simp add: e)+
  then show ?thesis by simp
qed

section \<open>The interface the risk engine uses\<close>

text \<open>
  What the engine needs of number arithmetic: rounding is monotone on nonnegative numbers and
  exact at 0 and 1. The weighted fusion of two scores is then monotone in each score, and a
  complement of a score in \<open>[0, 1]\<close> stays there.
\<close>

locale unit_rounding =
  fixes rnd :: "rat \<Rightarrow> rat"
  assumes rnd_mono: "0 \<le> x \<Longrightarrow> x \<le> y \<Longrightarrow> rnd x \<le> rnd y"
    and rnd_0: "rnd 0 = 0"
    and rnd_1: "rnd 1 = 1"
begin

lemma rnd_nonneg: "0 \<le> x \<Longrightarrow> 0 \<le> rnd x"
  using rnd_mono [of 0 x] by (simp add: rnd_0)

lemma rnd_unit: "0 \<le> x \<Longrightarrow> x \<le> 1 \<Longrightarrow> 0 \<le> rnd x \<and> rnd x \<le> 1"
  using rnd_mono [of x 1] rnd_nonneg by (simp add: rnd_1)

lemma complement_unit: "0 \<le> x \<Longrightarrow> x \<le> 1 \<Longrightarrow> 0 \<le> rnd (1 - x) \<and> rnd (1 - x) \<le> 1"
  by (rule rnd_unit) auto

lemma complement_antimono: "x \<le> y \<Longrightarrow> y \<le> 1 \<Longrightarrow> rnd (1 - y) \<le> rnd (1 - x)"
  by (rule rnd_mono) auto

lemma fusion_mono:
  assumes "0 \<le> a" "a \<le> a'" "0 \<le> b" "b \<le> b'" "0 \<le> v" "0 \<le> w"
  shows "rnd (rnd (a * v) + rnd (b * w)) \<le> rnd (rnd (a' * v) + rnd (b' * w))"
proof -
  have "rnd (a * v) \<le> rnd (a' * v)" "rnd (b * w) \<le> rnd (b' * w)"
    using assms by (auto intro!: rnd_mono mult_right_mono)
  moreover have "0 \<le> rnd (a * v)" "0 \<le> rnd (b * w)"
    using assms by (auto intro!: rnd_nonneg)
  ultimately show ?thesis by (intro rnd_mono) auto
qed

end

interpretation dbl: unit_rounding fl
  by unfold_locales (auto intro: fl_mono)

end
