(* ===== verification/Risk_Policy.thy ===== *)
theory Risk_Policy
  imports Schema Js_Number
begin

text \<open>
  \<open>modules/risk/risk-policy.ts\<close>: the risk policy document and its validation. The document comes
  from a JSON column or a request body, so it is read from a \<open>json\<close> value; a property that is
  not there is \<open>undefined\<close>, the value \<open>None\<close> of \<open>unknown\<close>. Every rejection is the one error
  \<open>RiskPolicyValidationError\<close>.

  The source tests \<open>activationMode\<close> and \<open>thresholdClassification\<close> through \<open>String(...)\<close> and then
  keeps the value itself, whatever its type. The two fields are therefore \<open>json\<close> values here, and
  a comparison with a string literal is a comparison with \<open>JStr\<close> of it.
\<close>

type_synonym unknown = "json option"

section \<open>The document\<close>

record policy_doc =
  pd_activationMode :: json
  pd_thresholdClassification :: json
  pd_thresholdVersion :: string
  pd_calibrationVersion :: "string option"
  pd_minimumScore :: rat
  pd_minimumSpeechDurationMs :: int
  pd_rejectingReasonCodes :: "string list"
  pd_identityEnter :: rat
  pd_identityClear :: rat
  pd_spoofEnter :: rat
  pd_spoofClear :: rat
  pd_fastWeight :: rat
  pd_deepWeight :: rat
  pd_entryWindows :: int
  pd_clearWindows :: int
  pd_maximumGap :: int
  pd_highRisk :: "InterventionType list"
  pd_critical :: "InterventionType list"

fun intervention_name :: "InterventionType \<Rightarrow> string" where
  "intervention_name WARN = ''WARN''"
| "intervention_name HOLD_PROTECTED_ACTION = ''HOLD_PROTECTED_ACTION''"
| "intervention_name REQUIRE_STEP_UP = ''REQUIRE_STEP_UP''"
| "intervention_name REQUIRE_CALLBACK = ''REQUIRE_CALLBACK''"
| "intervention_name SUPERVISOR_ESCALATION = ''SUPERVISOR_ESCALATION''"
| "intervention_name END_CALL = ''END_CALL''"

definition all_interventions :: "InterventionType list" where
  "all_interventions =
     [WARN, HOLD_PROTECTED_ACTION, REQUIRE_STEP_UP, REQUIRE_CALLBACK, SUPERVISOR_ESCALATION,
      END_CALL]"

definition intervention_of_name :: "string \<Rightarrow> InterventionType option" where
  "intervention_of_name s = find (\<lambda>t. intervention_name t = s) all_interventions"

section \<open>Readers of one value\<close>

definition object_of :: "unknown \<Rightarrow> err + (string \<times> json) list" where
  "object_of v = (case v of Some (JObj kvs) \<Rightarrow> Inr kvs | _ \<Rightarrow> Inl RiskPolicyValidationError)"

definition field_of :: "(string \<times> json) list \<Rightarrow> string \<Rightarrow> unknown" where
  "field_of kvs k = map_of kvs k"

definition exactKeys :: "(string \<times> json) list \<Rightarrow> string list \<Rightarrow> err + unit" where
  "exactKeys kvs keys = guardE (sort (map fst kvs) = sort keys) RiskPolicyValidationError"

definition number_of :: "unknown \<Rightarrow> rat \<Rightarrow> rat \<Rightarrow> err + rat" where
  "number_of v minimum maximum = (case v of
     Some (JNum x) \<Rightarrow>
       if x < minimum \<or> maximum < x then Inl RiskPolicyValidationError else Inr x
   | _ \<Rightarrow> Inl RiskPolicyValidationError)"

definition integer_of :: "unknown \<Rightarrow> rat \<Rightarrow> rat \<Rightarrow> err + int" where
  "integer_of v minimum maximum =
     bindE (number_of v minimum maximum) (\<lambda>x.
     if of_int \<lfloor>x\<rfloor> = x then Inr \<lfloor>x\<rfloor> else Inl RiskPolicyValidationError)"

definition text_of :: "unknown \<Rightarrow> nat \<Rightarrow> err + string" where
  "text_of v maximum = (case v of
     Some (JStr s) \<Rightarrow>
       if length s = 0 \<or> maximum < length s then Inl RiskPolicyValidationError else Inr s
   | _ \<Rightarrow> Inl RiskPolicyValidationError)"

definition interventions_of :: "unknown \<Rightarrow> err + InterventionType list" where
  "interventions_of v = (case v of
     Some (JArr items) \<Rightarrow>
       if list_ex (\<lambda>i. case i of JStr s \<Rightarrow> intervention_of_name s = None | _ \<Rightarrow> True) items
       then Inl RiskPolicyValidationError
       else Inr (dedup (List.map_filter
              (\<lambda>i. case i of JStr s \<Rightarrow> intervention_of_name s | _ \<Rightarrow> None) items))
   | _ \<Rightarrow> Inl RiskPolicyValidationError)"

definition reason_codes_of :: "unknown \<Rightarrow> err + string list" where
  "reason_codes_of v = (case v of
     Some (JArr items) \<Rightarrow>
       if list_ex (\<lambda>i. case i of JStr s \<Rightarrow> 80 < length s | _ \<Rightarrow> True) items
       then Inl RiskPolicyValidationError
       else Inr (dedup (List.map_filter (\<lambda>i. case i of JStr s \<Rightarrow> Some s | _ \<Rightarrow> None) items))
   | _ \<Rightarrow> Inl RiskPolicyValidationError)"

text \<open>
  \<open>allowed.includes(String(value))\<close> for names that are neither empty nor numerals and hold no
  comma: \<open>String\<close> of a one-element array is \<open>String\<close> of the element (of \<open>null\<close> and
  \<open>undefined\<close> inside an array, the empty text), a longer array yields a comma, a number a
  numeral, and an object \<open>[object Object]\<close>.
\<close>

fun string_includes :: "string list \<Rightarrow> json \<Rightarrow> bool" where
  "string_includes allowed (JStr s) = List.member allowed s"
| "string_includes allowed JNull = List.member allowed ''null''"
| "string_includes allowed (JBool b) =
     List.member allowed (if b then ''true'' else ''false'')"
| "string_includes allowed (JArr [v]) = (v \<noteq> JNull \<and> string_includes allowed v)"
| "string_includes allowed (JObj _) = List.member allowed ''[object Object]''"
| "string_includes allowed _ = False"

definition includes_of :: "string list \<Rightarrow> unknown \<Rightarrow> err + json" where
  "includes_of allowed v = (case v of
     Some j \<Rightarrow> if string_includes allowed j then Inr j else Inl RiskPolicyValidationError
   | None \<Rightarrow> Inl RiskPolicyValidationError)"

section \<open>Validation\<close>

definition root_keys :: "string list" where
  "root_keys = [''schemaVersion'', ''activationMode'', ''thresholdClassification'',
     ''thresholdVersion'', ''calibrationVersion'', ''quality'', ''thresholds'', ''fusion'',
     ''hysteresis'', ''interventions'']"

text \<open>The rule on production documents (lines 137 to 144).\<close>

definition activation_consistent :: "json \<Rightarrow> json \<Rightarrow> string option \<Rightarrow> bool" where
  "activation_consistent activationMode thresholdClassification calibrationVersion \<longleftrightarrow>
     \<not> ((activationMode = JStr ''PRODUCTION'' \<or>
          thresholdClassification = JStr ''PROMOTED_CALIBRATION'') \<and>
         (activationMode \<noteq> JStr ''PRODUCTION'' \<or>
          thresholdClassification \<noteq> JStr ''PROMOTED_CALIBRATION'' \<or>
          calibrationVersion = None))"

text \<open>\<open>Number.EPSILON * 8\<close> is \<open>2^-49\<close>.\<close>

definition weights_sum_to_one :: "rat \<Rightarrow> rat \<Rightarrow> bool" where
  "weights_sum_to_one f d \<longleftrightarrow> \<not> (1 / 2 ^ 49 < \<bar>js_sub (js_add f d) 1\<bar>)"

definition parseRiskPolicyDocument :: "unknown \<Rightarrow> err + policy_doc" where
  "parseRiskPolicyDocument value =
     bindE (object_of value) (\<lambda>root.
     bindE (exactKeys root root_keys) (\<lambda>_.
     bindE (guardE (field_of root ''schemaVersion'' = Some (JStr ''1.0.0''))
              RiskPolicyValidationError) (\<lambda>_.
     bindE (includes_of [''ENGINEERING_ONLY'', ''PRODUCTION''] (field_of root ''activationMode''))
       (\<lambda>activationMode.
     bindE (includes_of [''ENGINEERING_FIXTURE_NOT_CALIBRATED'', ''PROMOTED_CALIBRATION'']
              (field_of root ''thresholdClassification'')) (\<lambda>thresholdClassification.
     bindE (object_of (field_of root ''quality'')) (\<lambda>quality.
     bindE (exactKeys quality
              [''minimumScore'', ''minimumSpeechDurationMs'', ''rejectingReasonCodes'']) (\<lambda>_.
     bindE (reason_codes_of (field_of quality ''rejectingReasonCodes'')) (\<lambda>rejecting.
     bindE (object_of (field_of root ''thresholds'')) (\<lambda>thresholds.
     bindE (exactKeys thresholds
              [''identityEnter'', ''identityClear'', ''spoofEnter'', ''spoofClear'']) (\<lambda>_.
     bindE (object_of (field_of root ''fusion'')) (\<lambda>fusion.
     bindE (exactKeys fusion [''fastWeight'', ''deepWeight'']) (\<lambda>_.
     bindE (number_of (field_of fusion ''fastWeight'') 0 1) (\<lambda>fastWeight.
     bindE (number_of (field_of fusion ''deepWeight'') 0 1) (\<lambda>deepWeight.
     bindE (guardE (weights_sum_to_one fastWeight deepWeight) RiskPolicyValidationError) (\<lambda>_.
     bindE (object_of (field_of root ''hysteresis'')) (\<lambda>hysteresis.
     bindE (exactKeys hysteresis
              [''entryConsecutiveWindows'', ''clearConsecutiveWindows'', ''maximumWindowGap''])
       (\<lambda>_.
     bindE (object_of (field_of root ''interventions'')) (\<lambda>configured.
     bindE (exactKeys configured [''highRisk'', ''critical'']) (\<lambda>_.
     bindE (if field_of root ''calibrationVersion'' = Some JNull then Inr None
            else bindE (text_of (field_of root ''calibrationVersion'') 80) (\<lambda>t. Inr (Some t)))
       (\<lambda>calibrationVersion.
     bindE (guardE (activation_consistent activationMode thresholdClassification
              calibrationVersion) RiskPolicyValidationError) (\<lambda>_.
     bindE (text_of (field_of root ''thresholdVersion'') 80) (\<lambda>thresholdVersion.
     bindE (number_of (field_of quality ''minimumScore'') 0 1) (\<lambda>minimumScore.
     bindE (integer_of (field_of quality ''minimumSpeechDurationMs'') 0 300000) (\<lambda>minimumSpeech.
     bindE (number_of (field_of thresholds ''identityEnter'') 0 1) (\<lambda>identityEnter.
     bindE (number_of (field_of thresholds ''identityClear'') 0 1) (\<lambda>identityClear.
     bindE (number_of (field_of thresholds ''spoofEnter'') 0 1) (\<lambda>spoofEnter.
     bindE (number_of (field_of thresholds ''spoofClear'') 0 1) (\<lambda>spoofClear.
     bindE (integer_of (field_of hysteresis ''entryConsecutiveWindows'') 1 100) (\<lambda>entryWindows.
     bindE (integer_of (field_of hysteresis ''clearConsecutiveWindows'') 1 100) (\<lambda>clearWindows.
     bindE (integer_of (field_of hysteresis ''maximumWindowGap'') 0 10000) (\<lambda>maximumGap.
     bindE (interventions_of (field_of configured ''highRisk'')) (\<lambda>highRisk.
     bindE (interventions_of (field_of configured ''critical'')) (\<lambda>critical.
     Inr \<lparr>pd_activationMode = activationMode,
          pd_thresholdClassification = thresholdClassification,
          pd_thresholdVersion = thresholdVersion,
          pd_calibrationVersion = calibrationVersion,
          pd_minimumScore = minimumScore,
          pd_minimumSpeechDurationMs = minimumSpeech,
          pd_rejectingReasonCodes = rejecting,
          pd_identityEnter = identityEnter, pd_identityClear = identityClear,
          pd_spoofEnter = spoofEnter, pd_spoofClear = spoofClear,
          pd_fastWeight = fastWeight, pd_deepWeight = deepWeight,
          pd_entryWindows = entryWindows, pd_clearWindows = clearWindows,
          pd_maximumGap = maximumGap,
          pd_highRisk = highRisk, pd_critical = critical\<rparr>)))))))))))))))))))))))))))))))))"

text \<open>
  The document as the object that line 145 builds and that the policy service stores in the JSON
  column.
\<close>

definition policy_json :: "policy_doc \<Rightarrow> json" where
  "policy_json d = JObj
     [(''schemaVersion'', JStr ''1.0.0''),
      (''activationMode'', pd_activationMode d),
      (''thresholdClassification'', pd_thresholdClassification d),
      (''thresholdVersion'', JStr (pd_thresholdVersion d)),
      (''calibrationVersion'',
         (case pd_calibrationVersion d of None \<Rightarrow> JNull | Some v \<Rightarrow> JStr v)),
      (''quality'', JObj
         [(''minimumScore'', JNum (pd_minimumScore d)),
          (''minimumSpeechDurationMs'', JNum (of_int (pd_minimumSpeechDurationMs d))),
          (''rejectingReasonCodes'', JArr (map JStr (pd_rejectingReasonCodes d)))]),
      (''thresholds'', JObj
         [(''identityEnter'', JNum (pd_identityEnter d)),
          (''identityClear'', JNum (pd_identityClear d)),
          (''spoofEnter'', JNum (pd_spoofEnter d)),
          (''spoofClear'', JNum (pd_spoofClear d))]),
      (''fusion'', JObj
         [(''fastWeight'', JNum (pd_fastWeight d)), (''deepWeight'', JNum (pd_deepWeight d))]),
      (''hysteresis'', JObj
         [(''entryConsecutiveWindows'', JNum (of_int (pd_entryWindows d))),
          (''clearConsecutiveWindows'', JNum (of_int (pd_clearWindows d))),
          (''maximumWindowGap'', JNum (of_int (pd_maximumGap d)))]),
      (''interventions'', JObj
         [(''highRisk'', JArr (map (JStr \<circ> intervention_name) (pd_highRisk d))),
          (''critical'', JArr (map (JStr \<circ> intervention_name) (pd_critical d)))])]"

section \<open>What each reader accepts\<close>

lemma object_of_Inr [simp]: "object_of v = Inr kvs \<longleftrightarrow> v = Some (JObj kvs)"
  by (auto simp: object_of_def split: option.splits json.splits)

lemma exactKeys_Inr: "exactKeys kvs ks = Inr u \<longleftrightarrow> sort (map fst kvs) = sort ks"
  by (simp add: exactKeys_def)

lemma number_of_Inr [simp]:
  "number_of v lo hi = Inr x \<longleftrightarrow> v = Some (JNum x) \<and> lo \<le> x \<and> x \<le> hi"
  by (auto simp: number_of_def split: option.splits json.splits)

lemma integer_of_Inr [simp]:
  "integer_of v lo hi = Inr n \<longleftrightarrow> v = Some (JNum (of_int n)) \<and> lo \<le> of_int n \<and> of_int n \<le> hi"
  by (auto simp: integer_of_def)

lemma text_of_Inr [simp]:
  "text_of v hi = Inr s \<longleftrightarrow> v = Some (JStr s) \<and> 0 < length s \<and> length s \<le> hi"
  by (auto simp: text_of_def split: option.splits json.splits)

lemma includes_of_Inr [simp]:
  "includes_of allowed v = Inr j \<longleftrightarrow> v = Some j \<and> string_includes allowed j"
  by (auto simp: includes_of_def split: option.splits)

lemma intervention_of_name_name [simp]: "intervention_of_name (intervention_name t) = Some t"
  by (cases t) (simp_all add: intervention_of_name_def all_interventions_def)

lemma interventions_of_distinct: "interventions_of v = Inr ts \<Longrightarrow> distinct ts"
  by (auto simp: interventions_of_def split: option.splits json.splits if_splits)

lemma interventions_of_names:
  "interventions_of (Some (JArr (map (JStr \<circ> intervention_name) ts))) = Inr (dedup ts)"
proof -
  let ?r = "\<lambda>i. case i of JStr s \<Rightarrow> intervention_of_name s | _ \<Rightarrow> None"
  have "List.map_filter ?r (map (JStr \<circ> intervention_name) ts) = ts"
    by (induction ts) (auto simp: List.map_filter_def)
  then show ?thesis by (auto simp: interventions_of_def list_ex_iff)
qed

lemma reason_codes_of_good:
  "reason_codes_of v = Inr cs \<Longrightarrow> distinct cs \<and> (\<forall>c \<in> set cs. length c \<le> 80)"
  by (auto simp: reason_codes_of_def list_ex_iff List.map_filter_def
      split: option.splits json.splits if_splits) force

lemma reason_codes_of_codes:
  assumes "\<forall>c \<in> set cs. length c \<le> 80"
  shows "reason_codes_of (Some (JArr (map JStr cs))) = Inr (dedup cs)"
proof -
  have "List.map_filter (\<lambda>i. case i of JStr s \<Rightarrow> Some s | _ \<Rightarrow> None) (map JStr cs) = cs"
    by (induction cs) (auto simp: List.map_filter_def)
  with assms show ?thesis by (auto simp: reason_codes_of_def list_ex_iff)
qed

lemmas reader_facts = interventions_of_distinct reason_codes_of_good

section \<open>Well-formed documents\<close>

text \<open>The ranges and gates that every accepted document satisfies.\<close>

definition policy_wf :: "policy_doc \<Rightarrow> bool" where
  "policy_wf d \<longleftrightarrow>
     string_includes [''ENGINEERING_ONLY'', ''PRODUCTION''] (pd_activationMode d) \<and>
     string_includes [''ENGINEERING_FIXTURE_NOT_CALIBRATED'', ''PROMOTED_CALIBRATION'']
       (pd_thresholdClassification d) \<and>
     activation_consistent (pd_activationMode d) (pd_thresholdClassification d)
       (pd_calibrationVersion d) \<and>
     0 < length (pd_thresholdVersion d) \<and> length (pd_thresholdVersion d) \<le> 80 \<and>
     (case pd_calibrationVersion d of None \<Rightarrow> True
      | Some v \<Rightarrow> 0 < length v \<and> length v \<le> 80) \<and>
     list_all (\<lambda>x. 0 \<le> x \<and> x \<le> 1)
       [pd_minimumScore d, pd_identityEnter d, pd_identityClear d, pd_spoofEnter d,
        pd_spoofClear d, pd_fastWeight d, pd_deepWeight d] \<and>
     weights_sum_to_one (pd_fastWeight d) (pd_deepWeight d) \<and>
     0 \<le> pd_minimumSpeechDurationMs d \<and> pd_minimumSpeechDurationMs d \<le> 300000 \<and>
     distinct (pd_rejectingReasonCodes d) \<and>
     list_all (\<lambda>c. length c \<le> 80) (pd_rejectingReasonCodes d) \<and>
     1 \<le> pd_entryWindows d \<and> pd_entryWindows d \<le> 100 \<and>
     1 \<le> pd_clearWindows d \<and> pd_clearWindows d \<le> 100 \<and>
     0 \<le> pd_maximumGap d \<and> pd_maximumGap d \<le> 10000 \<and>
     distinct (pd_highRisk d) \<and> distinct (pd_critical d)"

lemma parse_wf: "parseRiskPolicyDocument v = Inr d \<Longrightarrow> policy_wf d"
  unfolding parseRiskPolicyDocument_def
  apply (elim bindE_InrE)
  apply (simp only: guardE_eq_Inr includes_of_Inr number_of_Inr integer_of_Inr text_of_Inr object_of_Inr sum.inject)
  apply (drule sym [of _ d])
  apply (drule reader_facts)+
  apply (simp add: policy_wf_def list_all_iff)
  apply (auto split: if_splits)
  done

lemma exactKeys_same [simp]: "map fst kvs = ks \<Longrightarrow> exactKeys kvs ks = Inr ()"
  by (auto simp: exactKeys_def guardE_def)

lemma parse_policy_json: "policy_wf d \<Longrightarrow> parseRiskPolicyDocument (Some (policy_json d)) = Inr d"
  unfolding parseRiskPolicyDocument_def policy_json_def
  by (cases "pd_calibrationVersion d")
    (simp_all add: policy_wf_def field_of_def root_keys_def list_all_iff reason_codes_of_codes
      interventions_of_names [unfolded comp_def] comp_def)

lemma parse_round_trip:
  "parseRiskPolicyDocument v = Inr d \<Longrightarrow> parseRiskPolicyDocument (Some (policy_json d)) = Inr d"
  by (intro parse_policy_json parse_wf)

section \<open>Properties\<close>

definition sample_doc :: policy_doc where
  "sample_doc = \<lparr>pd_activationMode = JStr ''ENGINEERING_ONLY'',
     pd_thresholdClassification = JStr ''ENGINEERING_FIXTURE_NOT_CALIBRATED'',
     pd_thresholdVersion = ''t1'', pd_calibrationVersion = None,
     pd_minimumScore = 1 / 2, pd_minimumSpeechDurationMs = 500,
     pd_rejectingReasonCodes = [''CLIPPED''],
     pd_identityEnter = 1, pd_identityClear = 1 / 2, pd_spoofEnter = 1, pd_spoofClear = 1 / 2,
     pd_fastWeight = 1, pd_deepWeight = 0, pd_entryWindows = 2, pd_clearWindows = 3,
     pd_maximumGap = 0, pd_highRisk = [WARN], pd_critical = [HOLD_PROTECTED_ACTION, REQUIRE_STEP_UP]\<rparr>"

lemma sample_doc_wf: "policy_wf sample_doc"
  by code_simp

text \<open>
  C29: validation accepts only well-formed documents (every score, weight and threshold between 0
  and 1, weights that sum to one up to rounding, window counts in range, no repeated intervention
  or reason code, and the production gate), and the document it returns, stored and read back,
  is accepted as the same document.
\<close>

theorem accepted_policy_round_trip:
  assumes "parseRiskPolicyDocument v = Inr d"
  shows "policy_wf d \<and> parseRiskPolicyDocument (Some (policy_json d)) = Inr d"
  using parse_wf [OF assms] parse_round_trip [OF assms] by simp

theorem accepted_policy_round_trip_witness:
  "parseRiskPolicyDocument (Some (policy_json sample_doc)) = Inr sample_doc \<and> policy_wf sample_doc"
  using accepted_policy_round_trip [OF parse_policy_json [OF sample_doc_wf]] by simp

text \<open>
  The activation mode is tested through its string rendering and kept as it is: an array that
  holds one mode passes validation as that mode, and the rule that a production policy needs
  promoted thresholds and a calibration version does not apply to it.
\<close>

lemma array_activation_mode_accepted:
  "parseRiskPolicyDocument (Some (policy_json
      (sample_doc\<lparr>pd_activationMode := JArr [JStr ''PRODUCTION'']\<rparr>)))
     = Inr (sample_doc\<lparr>pd_activationMode := JArr [JStr ''PRODUCTION'']\<rparr>) \<and>
   parseRiskPolicyDocument (Some (policy_json
      (sample_doc\<lparr>pd_activationMode := JStr ''PRODUCTION''\<rparr>))) = Inl RiskPolicyValidationError"
proof
  have "policy_wf (sample_doc\<lparr>pd_activationMode := JArr [JStr ''PRODUCTION'']\<rparr>)"
    by code_simp
  then show "parseRiskPolicyDocument (Some (policy_json
      (sample_doc\<lparr>pd_activationMode := JArr [JStr ''PRODUCTION'']\<rparr>)))
     = Inr (sample_doc\<lparr>pd_activationMode := JArr [JStr ''PRODUCTION'']\<rparr>)"
    by (rule parse_policy_json)
  show "parseRiskPolicyDocument (Some (policy_json
      (sample_doc\<lparr>pd_activationMode := JStr ''PRODUCTION''\<rparr>))) = Inl RiskPolicyValidationError"
    by code_simp
qed

end
