(* ===== verification/Risk_Engine.thy ===== *)
theory Risk_Engine
  imports Risk_Policy "HOL-Library.AList"
begin

text \<open>
  \<open>modules/risk/risk-engine.ts\<close>: the pure function from accepted evidence and a policy to a risk
  decision. It keeps the latest revision of every (window, evidence type) slot, decides every
  window by quality gates and a two-threshold matrix, and folds the decisions, in window order,
  through a hysteresis. Scores are doubles, so their products, sums and complements are rounded.
\<close>

section \<open>Data\<close>

record RiskEngineEvidence =
  e_id :: uuid
  e_evidenceMode :: EvidenceMode
  e_evidenceType :: EvidenceType
  e_readiness :: EvidenceReadiness
  e_windowSequence :: int
  e_eventSequence :: int
  e_revision :: int
  e_observedAt :: instant
  e_qualityScore :: "rat option"
  e_speechDurationMs :: "int option"
  e_reasonCodes :: "string list"
  e_rawScore :: "rat option"
  e_calibratedScore :: "rat option"
  e_calibrationVersion :: "string option"
  e_scoreDirection :: ScoreDirection
  e_scoreTarget :: "ScoreTarget option"
  e_modelStatus :: "ModelLifecycleStatus option"
  e_modelTraceMatches :: bool

record RiskEngineResult =
  rr_outcome :: RiskAssessmentOutcome
  rr_effectiveState :: RiskState
  rr_reasonCode :: string
  rr_proposedInterventions :: "InterventionType list"
  rr_evidenceEventIds :: "uuid list"
  rr_maxWindowSequence :: int
  rr_occurredAt :: instant
  rr_allScoresCalibrated :: bool
  rr_calibrationVersions :: "string list"
  rr_allModelsActiveAndTraceable :: bool

record WindowDecision =
  wd_outcome :: RiskAssessmentOutcome
  wd_state :: "RiskState option"
  wd_reasonCode :: string
  wd_sequence :: int
  wd_observedAt :: instant

fun stateSeverity :: "RiskState \<Rightarrow> nat" where
  "stateSeverity VERIFIED = 0"
| "stateSeverity UNVERIFIED = 1"
| "stateSeverity HIGH_RISK = 2"
| "stateSeverity CRITICAL = 3"

fun risk_state_name :: "RiskState \<Rightarrow> string" where
  "risk_state_name VERIFIED = ''VERIFIED''"
| "risk_state_name UNVERIFIED = ''UNVERIFIED''"
| "risk_state_name HIGH_RISK = ''HIGH_RISK''"
| "risk_state_name CRITICAL = ''CRITICAL''"

section \<open>The latest evidence of every slot\<close>

text \<open>
  The order \<open>localeCompare\<close> gives the names of the evidence types. The template string key
  \<open>window:type\<close> is the pair, and a JavaScript \<open>Map\<close> is an association list whose \<open>update\<close> keeps
  the place of a key that is present.
\<close>

fun type_rank :: "EvidenceType \<Rightarrow> nat" where
  "type_rank AUDIO_QUALITY = 0"
| "type_rank IDENTITY = 1"
| "type_rank INSUFFICIENT_EVIDENCE = 2"
| "type_rank PIPELINE_ERROR = 3"
| "type_rank SPOOF_DEEP = 4"
| "type_rank SPOOF_FAST = 5"

definition slot_of :: "RiskEngineEvidence \<Rightarrow> int \<times> EvidenceType" where
  "slot_of e = (e_windowSequence e, e_evidenceType e)"

definition newer :: "RiskEngineEvidence \<Rightarrow> RiskEngineEvidence option \<Rightarrow> bool" where
  "newer event current = (case current of
     None \<Rightarrow> True
   | Some c \<Rightarrow> e_revision c < e_revision event \<or>
       (e_revision event = e_revision c \<and> e_eventSequence c < e_eventSequence event))"

fun keep_latest ::
  "((int \<times> EvidenceType) \<times> RiskEngineEvidence) list \<Rightarrow> RiskEngineEvidence list \<Rightarrow>
   ((int \<times> EvidenceType) \<times> RiskEngineEvidence) list" where
  "keep_latest latest [] = latest"
| "keep_latest latest (event # events) =
     keep_latest
       (if newer event (map_of latest (slot_of event))
        then AList.update (slot_of event) event latest else latest) events"

definition sort_rank :: "RiskEngineEvidence \<Rightarrow> int \<times> nat \<times> int" where
  "sort_rank e = (e_windowSequence e, type_rank (e_evidenceType e), e_revision e)"

definition selectLatest :: "RiskEngineEvidence list \<Rightarrow> RiskEngineEvidence list" where
  "selectLatest events = sort_key sort_rank (map snd (keep_latest [] events))"

section \<open>The decision of one window\<close>

definition targetScore :: "RiskEngineEvidence \<Rightarrow> ScoreTarget \<Rightarrow> rat option" where
  "targetScore event desired =
     (case (case e_calibratedScore event of Some s \<Rightarrow> Some s | None \<Rightarrow> e_rawScore event) of
        None \<Rightarrow> None
      | Some score \<Rightarrow>
          if score < 0 \<or> 1 < score \<or> e_scoreTarget event = None then None
          else (case (case e_scoreDirection event of
                        HIGHER_MEANS_MORE \<Rightarrow> Some score
                      | LOWER_MEANS_MORE \<Rightarrow> Some (js_sub 1 score)
                      | NOT_APPLICABLE \<Rightarrow> None) of
                  None \<Rightarrow> None
                | Some directed \<Rightarrow>
                    if e_scoreTarget event = Some desired then Some directed
                    else if (e_scoreTarget event = Some TARGET_BONAFIDE \<and> desired = TARGET_SPOOF) \<or>
                            (e_scoreTarget event = Some TARGET_SPOOF \<and> desired = TARGET_BONAFIDE)
                    then Some (js_sub 1 directed)
                    else None))"

definition insufficient :: "int \<Rightarrow> instant \<Rightarrow> string \<Rightarrow> WindowDecision" where
  "insufficient sequence observedAt reasonCode =
     \<lparr>wd_outcome = OUTCOME_INSUFFICIENT_EVIDENCE, wd_state = None, wd_reasonCode = reasonCode,
      wd_sequence = sequence, wd_observedAt = observedAt\<rparr>"

definition of_type :: "EvidenceType \<Rightarrow> RiskEngineEvidence list \<Rightarrow> RiskEngineEvidence option" where
  "of_type t events = find (\<lambda>e. e_evidenceType e = t) events"

text \<open>The quality gate of lines 155 to 166.\<close>

definition quality_gate_fails :: "policy_doc \<Rightarrow> RiskEngineEvidence list \<Rightarrow> bool" where
  "quality_gate_fails policy scored \<longleftrightarrow>
     list_ex (\<lambda>e. case e_qualityScore e of None \<Rightarrow> True | Some v \<Rightarrow> v < pd_minimumScore policy)
       scored \<or>
     list_ex (\<lambda>e. case e_speechDurationMs e of None \<Rightarrow> True
                   | Some v \<Rightarrow> v < pd_minimumSpeechDurationMs policy) scored \<or>
     list_ex (\<lambda>e. list_ex (\<lambda>code. List.member (pd_rejectingReasonCodes policy) code)
                    (e_reasonCodes e)) scored"

text \<open>The fusion of lines 173 to 176; at least one score is there.\<close>

definition fused_spoof :: "policy_doc \<Rightarrow> rat option \<Rightarrow> rat option \<Rightarrow> rat" where
  "fused_spoof policy fastScore deepScore = (case (fastScore, deepScore) of
     (Some f, Some d) \<Rightarrow> js_add (js_mul f (pd_fastWeight policy)) (js_mul d (pd_deepWeight policy))
   | (Some f, None) \<Rightarrow> f
   | (None, Some d) \<Rightarrow> d
   | (None, None) \<Rightarrow> 0)"

text \<open>The thresholds and the matrix of lines 177 to 194.\<close>

definition matrix_state :: "policy_doc \<Rightarrow> RiskState \<Rightarrow> rat \<Rightarrow> rat \<Rightarrow> RiskState" where
  "matrix_state policy currentState identityScore spoofScore =
     (let identityThreshold =
            (if currentState = VERIFIED \<or> currentState = CRITICAL
             then pd_identityClear policy else pd_identityEnter policy);
          spoofThreshold =
            (if currentState = HIGH_RISK \<or> currentState = CRITICAL
             then pd_spoofClear policy else pd_spoofEnter policy);
          identityHigh = (identityThreshold \<le> identityScore);
          spoofHigh = (spoofThreshold \<le> spoofScore)
      in if identityHigh then (if spoofHigh then CRITICAL else VERIFIED)
         else (if spoofHigh then HIGH_RISK else UNVERIFIED))"

text \<open>\<open>Math.max(...xs)\<close> of a list that is not empty.\<close>

definition max_of :: "int list \<Rightarrow> int" where
  "max_of xs = (case xs of [] \<Rightarrow> 0 | y # ys \<Rightarrow> fold max ys y)"

definition decide_scored ::
  "policy_doc \<Rightarrow> RiskState \<Rightarrow> RiskEngineEvidence \<Rightarrow> RiskEngineEvidence \<Rightarrow>
   RiskEngineEvidence option \<Rightarrow> RiskEngineEvidence option \<Rightarrow> WindowDecision" where
  "decide_scored policy currentState first identity fast deep =
     (let scored = [identity] @ (case fast of None \<Rightarrow> [] | Some f \<Rightarrow> [f])
                              @ (case deep of None \<Rightarrow> [] | Some d \<Rightarrow> [d]);
          sequence = e_windowSequence first; observedAt = e_observedAt first
      in if list_ex (\<lambda>e. e_readiness e \<noteq> READY) scored
         then insufficient sequence observedAt ''MODEL_NOT_READY''
         else if quality_gate_fails policy scored
         then insufficient sequence observedAt ''AUDIO_QUALITY_GATE_FAILED''
         else
           let identityScore = targetScore identity TARGET_EXPECTED_SPEAKER;
               fastScore = (case fast of None \<Rightarrow> None | Some f \<Rightarrow> targetScore f TARGET_SPOOF);
               deepScore = (case deep of None \<Rightarrow> None | Some d \<Rightarrow> targetScore d TARGET_SPOOF)
           in case identityScore of
                None \<Rightarrow> insufficient sequence observedAt ''SCORE_SEMANTICS_UNUSABLE''
              | Some i \<Rightarrow>
                  if fastScore = None \<and> deepScore = None
                  then insufficient sequence observedAt ''SCORE_SEMANTICS_UNUSABLE''
                  else
                    let state = matrix_state policy currentState i
                                  (fused_spoof policy fastScore deepScore)
                    in \<lparr>wd_outcome = STATE state, wd_state = Some state,
                        wd_reasonCode = ''MATRIX_'' @ risk_state_name state,
                        wd_sequence = sequence,
                        wd_observedAt = max_of (map e_observedAt scored)\<rparr>)"

definition evaluateWindow ::
  "RiskEngineEvidence list \<Rightarrow> policy_doc \<Rightarrow> RiskState \<Rightarrow> WindowDecision" where
  "evaluateWindow events policy currentState =
     (let first = hd events in
      case of_type INSUFFICIENT_EVIDENCE events of
        Some e \<Rightarrow> insufficient (e_windowSequence first) (e_observedAt e) ''AUDIO_INSUFFICIENT''
      | None \<Rightarrow>
          if of_type PIPELINE_ERROR events \<noteq> None
          then insufficient (e_windowSequence first) (e_observedAt first) ''PIPELINE_DEGRADED''
          else
            let fast = of_type SPOOF_FAST events; deep = of_type SPOOF_DEEP events
            in case of_type IDENTITY events of
                 None \<Rightarrow> insufficient (e_windowSequence first) (e_observedAt first)
                           ''EVIDENCE_COMPONENT_MISSING''
               | Some identity \<Rightarrow>
                   if fast = None \<and> deep = None
                   then insufficient (e_windowSequence first) (e_observedAt first)
                          ''EVIDENCE_COMPONENT_MISSING''
                   else decide_scored policy currentState first identity fast deep)"

section \<open>Hysteresis over the windows\<close>

text \<open>The five local variables of the loop of \<open>evaluateRiskEvidence\<close>.\<close>

record hysteresis =
  hy_effective :: RiskState
  hy_pending :: "RiskState option"
  hy_count :: int
  hy_previous :: "int option"
  hy_last :: WindowDecision

definition contiguous :: "policy_doc \<Rightarrow> int option \<Rightarrow> int \<Rightarrow> bool" where
  "contiguous policy previous sequence =
     (let gap = (case previous of None \<Rightarrow> 1 | Some p \<Rightarrow> sequence - p)
      in 0 < gap \<and> gap \<le> pd_maximumGap policy + 1)"

definition required_windows :: "policy_doc \<Rightarrow> RiskState \<Rightarrow> RiskState \<Rightarrow> int" where
  "required_windows policy effective decided =
     (if (effective = HIGH_RISK \<or> effective = CRITICAL) \<and>
         stateSeverity decided < stateSeverity effective
      then pd_clearWindows policy else pd_entryWindows policy)"

definition hyst_step ::
  "policy_doc \<Rightarrow> int \<times> RiskEngineEvidence list \<Rightarrow> hysteresis \<Rightarrow> hysteresis" where
  "hyst_step policy window h =
     (let (sequence, events) = window;
          decision = evaluateWindow events policy (hy_effective h);
          h1 = h\<lparr>hy_last := decision\<rparr>
      in case wd_state decision of
           None \<Rightarrow> h1\<lparr>hy_pending := None, hy_count := 0\<rparr>
         | Some s \<Rightarrow>
             if s = hy_effective h
             then h1\<lparr>hy_pending := None, hy_count := 0, hy_previous := Some sequence\<rparr>
             else
               let count = (if hy_pending h = Some s \<and> contiguous policy (hy_previous h) sequence
                            then hy_count h + 1 else 1)
               in if required_windows policy (hy_effective h) s \<le> count
                  then h1\<lparr>hy_effective := s, hy_pending := None, hy_count := 0,
                          hy_previous := Some sequence\<rparr>
                  else h1\<lparr>hy_pending := Some s, hy_count := count,
                          hy_previous := Some sequence\<rparr>)"

definition hyst_start :: "instant \<Rightarrow> hysteresis" where
  "hyst_start observedAt =
     \<lparr>hy_effective = UNVERIFIED, hy_pending = None, hy_count = 0, hy_previous = None,
      hy_last = insufficient 0 observedAt ''EVIDENCE_COMPONENT_MISSING''\<rparr>"

definition hyst_run ::
  "policy_doc \<Rightarrow> instant \<Rightarrow> (int \<times> RiskEngineEvidence list) list \<Rightarrow> hysteresis" where
  "hyst_run policy observedAt windows = fold (hyst_step policy) windows (hyst_start observedAt)"

text \<open>\<open>byWindow\<close>: the events of every window, in the order of the selection.\<close>

fun group_windows ::
  "(int \<times> RiskEngineEvidence list) list \<Rightarrow> RiskEngineEvidence list \<Rightarrow>
   (int \<times> RiskEngineEvidence list) list" where
  "group_windows byWindow [] = byWindow"
| "group_windows byWindow (event # events) =
     group_windows
       (AList.update (e_windowSequence event)
          ((case map_of byWindow (e_windowSequence event) of None \<Rightarrow> [] | Some g \<Rightarrow> g) @ [event])
          byWindow) events"

definition windows_of :: "RiskEngineEvidence list \<Rightarrow> (int \<times> RiskEngineEvidence list) list" where
  "windows_of selected = sort_key fst (group_windows [] selected)"

definition evaluateRiskEvidence ::
  "RiskEngineEvidence list \<Rightarrow> policy_doc \<Rightarrow> err + RiskEngineResult" where
  "evaluateRiskEvidence evidence policy =
     (let selected = selectLatest evidence in
      if selected = [] then Inl (Error ''Accepted risk evidence is required.'')
      else
        let h = hyst_run policy (e_observedAt (hd selected)) (windows_of selected);
            effectiveState = hy_effective h;
            lastDecision = hy_last h;
            scored = filter (\<lambda>e. e_readiness e = READY) selected
        in Inr
          \<lparr>rr_outcome = wd_outcome lastDecision,
           rr_effectiveState = effectiveState,
           rr_reasonCode =
             (if wd_state lastDecision \<noteq> None \<and> wd_state lastDecision \<noteq> Some effectiveState
              then ''HYSTERESIS_PENDING'' else wd_reasonCode lastDecision),
           rr_proposedInterventions =
             (if effectiveState = CRITICAL then pd_critical policy
              else if effectiveState = HIGH_RISK then pd_highRisk policy else []),
           rr_evidenceEventIds = map e_id selected,
           rr_maxWindowSequence = e_windowSequence (last selected),
           rr_occurredAt = max_of (map e_observedAt selected),
           rr_allScoresCalibrated =
             (scored \<noteq> [] \<and> list_all (\<lambda>e. e_evidenceMode e = MODE_CALIBRATED \<and>
                e_calibratedScore e \<noteq> None \<and> e_calibrationVersion e \<noteq> None) scored),
           rr_calibrationVersions =
             dedup (List.map_filter e_calibrationVersion scored),
           rr_allModelsActiveAndTraceable =
             (scored \<noteq> [] \<and> list_all (\<lambda>e. e_modelStatus e = Some MODEL_ACTIVE \<and>
                e_modelTraceMatches e \<and> e_scoreTarget e \<noteq> None) scored)\<rparr>)"

section \<open>What the selection keeps\<close>

definition version_of :: "RiskEngineEvidence \<Rightarrow> int \<times> int" where
  "version_of e = (e_revision e, e_eventSequence e)"

definition latest_in :: "RiskEngineEvidence list \<Rightarrow> RiskEngineEvidence \<Rightarrow> bool" where
  "latest_in xs e \<longleftrightarrow> e \<in> set xs \<and> (\<forall>x \<in> set xs. slot_of x = slot_of e \<longrightarrow> version_of x \<le> version_of e)"

definition keeps_latest ::
  "((int \<times> EvidenceType) \<times> RiskEngineEvidence) list \<Rightarrow> RiskEngineEvidence list \<Rightarrow> bool" where
  "keeps_latest m xs \<longleftrightarrow> distinct (map fst m) \<and>
     (\<forall>k. map_of m k = None \<longrightarrow> (\<forall>e \<in> set xs. slot_of e \<noteq> k)) \<and>
     (\<forall>k e. map_of m k = Some e \<longrightarrow> slot_of e = k \<and> latest_in xs e)"

lemma keeps_latestD:
  assumes "keeps_latest m xs"
  shows "distinct (map fst m)"
    and "map_of m k = None \<Longrightarrow> x \<in> set xs \<Longrightarrow> slot_of x \<noteq> k"
    and "map_of m k = Some e \<Longrightarrow> slot_of e = k"
    and "map_of m k = Some e \<Longrightarrow> latest_in xs e"
  using assms unfolding keeps_latest_def by blast+

lemma newer_iff:
  "newer e c \<longleftrightarrow> (case c of None \<Rightarrow> True | Some x \<Rightarrow> version_of x < version_of e)"
  by (auto simp: newer_def version_of_def split: option.splits)

lemma keeps_latestI:
  assumes "distinct (map fst m)"
    and "\<And>k x. map_of m k = None \<Longrightarrow> x \<in> set xs \<Longrightarrow> slot_of x \<noteq> k"
    and "\<And>k e. map_of m k = Some e \<Longrightarrow> slot_of e = k"
    and "\<And>k e. map_of m k = Some e \<Longrightarrow> latest_in xs e"
  shows "keeps_latest m xs"
  unfolding keeps_latest_def using assms by blast

lemma latest_in_snoc:
  "latest_in xs x \<Longrightarrow> (slot_of e = slot_of x \<Longrightarrow> version_of e \<le> version_of x) \<Longrightarrow>
     latest_in (xs @ [e]) x"
  by (auto simp: latest_in_def)

lemma latest_in_new:
  "(\<And>x. x \<in> set xs \<Longrightarrow> slot_of x = slot_of e \<Longrightarrow> version_of x \<le> version_of e) \<Longrightarrow>
     latest_in (xs @ [e]) e"
  by (auto simp: latest_in_def)

lemma keeps_latest_update:
  assumes "keeps_latest m xs" "newer e (map_of m (slot_of e))"
  shows "keeps_latest (AList.update (slot_of e) e m) (xs @ [e])"
proof (rule keeps_latestI)
  note old = keeps_latestD [OF assms(1)]
  show "distinct (map fst (AList.update (slot_of e) e m))"
    by (rule distinct_update) (rule old(1))
  have new: "version_of x \<le> version_of e" if "x \<in> set xs" "slot_of x = slot_of e" for x
  proof (cases "map_of m (slot_of e)")
    case None
    with old(2) that show ?thesis by blast
  next
    case (Some c)
    then have "latest_in xs c" "slot_of c = slot_of e" using old(3,4) by blast+
    moreover have "version_of c < version_of e" using assms(2) Some by (simp add: newer_iff)
    ultimately show ?thesis using that unfolding latest_in_def by fastforce
  qed
  fix k x
  show "map_of (AList.update (slot_of e) e m) k = None \<Longrightarrow> x \<in> set (xs @ [e]) \<Longrightarrow> slot_of x \<noteq> k"
    using old(2) [of k x] by (auto simp: update_conv' simp del: map_of_eq_None_iff split: if_splits)
  show "map_of (AList.update (slot_of e) e m) k = Some x \<Longrightarrow> slot_of x = k"
    using old(3) [of k x] by (simp add: update_conv' split: if_splits)
  show "map_of (AList.update (slot_of e) e m) k = Some x \<Longrightarrow> latest_in (xs @ [e]) x"
    using old(3,4) [of k x] new
    by (auto simp: update_conv' intro: latest_in_new latest_in_snoc split: if_splits)
qed

lemma keeps_latest_stay:
  assumes "keeps_latest m xs" "\<not> newer e (map_of m (slot_of e))"
  shows "keeps_latest m (xs @ [e])"
proof (rule keeps_latestI)
  note old = keeps_latestD [OF assms(1)]
  obtain c where c: "map_of m (slot_of e) = Some c" "version_of e \<le> version_of c"
    using assms(2) by (auto simp: newer_iff split: option.splits)
  show "distinct (map fst m)" by (rule old(1))
  fix k x
  show "map_of m k = None \<Longrightarrow> x \<in> set (xs @ [e]) \<Longrightarrow> slot_of x \<noteq> k"
    using old(2) [of k x] c(1) by (cases "x = e") auto
  show "map_of m k = Some x \<Longrightarrow> slot_of x = k" by (rule old(3))
  assume x: "map_of m k = Some x"
  show "latest_in (xs @ [e]) x"
  proof (rule latest_in_snoc [OF old(4) [OF x]])
    assume "slot_of e = slot_of x"
    with old(3) [OF x] c(1) x have "x = c" by simp
    with c(2) show "version_of e \<le> version_of x" by simp
  qed
qed

lemma keeps_latest_step:
  "keeps_latest m xs \<Longrightarrow>
     keeps_latest (if newer e (map_of m (slot_of e)) then AList.update (slot_of e) e m else m)
       (xs @ [e])"
  by (simp add: keeps_latest_update keeps_latest_stay)

lemma keeps_latest_fold: "keeps_latest m xs \<Longrightarrow> keeps_latest (keep_latest m ys) (xs @ ys)"
proof (induction m ys arbitrary: xs rule: keep_latest.induct)
  case (2 m e es)
  from "2.IH" [OF keeps_latest_step [OF "2.prems"]] show ?case
    by simp
qed simp

lemma keep_latest_ok: "keeps_latest (keep_latest [] xs) xs"
  using keeps_latest_fold [of "[]" "[]" xs] by (simp add: keeps_latest_def)

lemma keep_latest_values:
  assumes "keeps_latest m xs"
  shows "e \<in> set (map snd m) \<longleftrightarrow> map_of m (slot_of e) = Some e"
proof -
  note d = keeps_latestD(1) [OF assms]
  have "slot_of e = k" if "(k, e) \<in> set m" for k
    by (rule keeps_latestD(3) [OF assms map_of_is_SomeI [OF d that]])
  with d show ?thesis by (force dest: map_of_SomeD intro: map_of_is_SomeI)
qed

lemma keep_latest_distinct:
  assumes "keeps_latest m xs" shows "distinct (map (slot_of \<circ> snd) m)"
proof -
  note d = keeps_latestD(1) [OF assms]
  have "slot_of (snd p) = fst p" if "p \<in> set m" for p
    using keeps_latestD(3) [OF assms map_of_is_SomeI [OF d, of "fst p" "snd p"]] that by simp
  then have "map (slot_of \<circ> snd) m = map fst m" by (auto simp only: map_eq_conv comp_apply)
  then show ?thesis using d by (simp only:)
qed

lemma set_selectLatest:
  "e \<in> set (selectLatest xs) \<longleftrightarrow> map_of (keep_latest [] xs) (slot_of e) = Some e"
  using keep_latest_values [OF keep_latest_ok] by (simp add: selectLatest_def)

lemma selectLatest_latest: "e \<in> set (selectLatest xs) \<Longrightarrow> latest_in xs e"
  unfolding set_selectLatest by (rule keeps_latestD(4) [OF keep_latest_ok])

lemma selectLatest_covers:
  assumes "x \<in> set xs"
  shows "\<exists>e \<in> set (selectLatest xs). slot_of e = slot_of x \<and> version_of x \<le> version_of e"
proof -
  obtain e where e: "map_of (keep_latest [] xs) (slot_of x) = Some e" "slot_of e = slot_of x"
      "latest_in xs e"
    using keeps_latestD [OF keep_latest_ok [of xs]] assms
    by (cases "map_of (keep_latest [] xs) (slot_of x)") blast+
  then have "e \<in> set (selectLatest xs)" by (simp add: set_selectLatest)
  with e assms show ?thesis by (auto simp: latest_in_def)
qed

lemma selectLatest_distinct_slots: "distinct (map slot_of (selectLatest xs))"
proof -
  have "distinct (map slot_of (map snd (keep_latest [] xs)))"
    using keep_latest_distinct [OF keep_latest_ok] by (simp add: comp_def)
  then have "distinct (map snd (keep_latest [] xs))"
    and "inj_on slot_of (set (map snd (keep_latest [] xs)))"
    by (simp_all only: distinct_map)
  then show ?thesis
    by (simp only: selectLatest_def distinct_map distinct_sort set_sort simp_thms)
qed

lemma selectLatest_sorted: "sorted (map sort_rank (selectLatest xs))"
  by (simp add: selectLatest_def)

lemma selectLatest_Nil_iff: "selectLatest xs = [] \<longleftrightarrow> xs = []"
  using selectLatest_covers selectLatest_latest
  by (metis empty_iff empty_set latest_in_def list.set_sel(1))

lemma type_rank_inj: "type_rank s = type_rank t \<Longrightarrow> s = t"
  by (cases s; cases t) auto

lemma sort_rank_slot: "sort_rank x = sort_rank y \<Longrightarrow> slot_of x = slot_of y"
  by (auto simp: sort_rank_def slot_of_def dest: type_rank_inj)

lemma selectLatest_rank_inj: "inj_on sort_rank (set (selectLatest xs))"
  using selectLatest_distinct_slots [of xs]
  by (auto simp: distinct_map inj_on_def dest: sort_rank_slot)

text \<open>Two inputs with the same events, in any order, are the same input.\<close>

definition unambiguous :: "RiskEngineEvidence list \<Rightarrow> bool" where
  "unambiguous xs \<longleftrightarrow> inj_on (\<lambda>e. (slot_of e, version_of e)) (set xs)"

lemma set_selectLatest_unambiguous:
  assumes "unambiguous xs"
  shows "set (selectLatest xs) = {e. latest_in xs e}"
proof (intro set_eqI iffI CollectI)
  fix e assume "e \<in> {e. latest_in xs e}"
  then have e: "latest_in xs e" by simp
  then obtain x where x: "x \<in> set (selectLatest xs)" "slot_of x = slot_of e"
      "version_of e \<le> version_of x"
    using selectLatest_covers by (metis latest_in_def)
  have "x \<in> set xs" using selectLatest_latest [OF x(1)] by (simp add: latest_in_def)
  with e x assms have "x = e"
    by (auto simp: unambiguous_def inj_on_def latest_in_def)
  with x(1) show "e \<in> set (selectLatest xs)" by simp
qed (auto dest: selectLatest_latest)

lemma selectLatest_order_independent:
  assumes "set xs = set ys" "unambiguous xs"
  shows "selectLatest xs = selectLatest ys"
proof (rule map_sorted_distinct_set_unique)
  have "unambiguous ys" using assms by (simp add: unambiguous_def)
  with assms show eq: "set (selectLatest xs) = set (selectLatest ys)"
    by (simp add: set_selectLatest_unambiguous latest_in_def)
  then show "inj_on sort_rank (set (selectLatest xs) \<union> set (selectLatest ys))"
    using selectLatest_rank_inj [of xs] by simp
  show "distinct (map sort_rank (selectLatest xs))" for xs
    using selectLatest_distinct_slots [of xs] selectLatest_rank_inj [of xs]
    by (simp add: distinct_map)
  then show "distinct (map sort_rank (selectLatest ys))" .
qed (simp_all add: selectLatest_sorted)

lemma evaluate_order_independent:
  assumes "set xs = set ys" "unambiguous xs"
  shows "evaluateRiskEvidence xs policy = evaluateRiskEvidence ys policy"
  using selectLatest_order_independent [OF assms] by (simp add: evaluateRiskEvidence_def)

section \<open>Scores and the matrix\<close>

lemma targetScore_unit:
  assumes "targetScore e t = Some v" shows "0 \<le> v \<and> v \<le> 1"
  using assms
  by (auto simp: targetScore_def js_sub_def dbl.complement_unit
      split: option.splits if_splits ScoreDirection.splits)

lemma matrix_state_mono:
  "a \<le> b \<Longrightarrow> stateSeverity (matrix_state p cur i a) \<le> stateSeverity (matrix_state p cur i b)"
  by (auto simp: matrix_state_def Let_def)

lemma matrix_state_identity_antimono:
  "i \<le> j \<Longrightarrow> stateSeverity (matrix_state p cur j a) \<le> 1 \<Longrightarrow>
     stateSeverity (matrix_state p cur i a) \<le> 1"
  by (auto simp: matrix_state_def Let_def split: if_splits)

lemma fused_spoof_mono:
  assumes "policy_wf p" "0 \<le> f" "f \<le> f'" "\<And>d. deep = Some d \<Longrightarrow> 0 \<le> d"
  shows "fused_spoof p (Some f) deep \<le> fused_spoof p (Some f') deep"
  using assms dbl.fusion_mono [of f f' _ _ "pd_fastWeight p" "pd_deepWeight p"]
  by (auto simp: fused_spoof_def js_add_def js_mul_def policy_wf_def split: option.splits)

section \<open>The hysteresis\<close>

definition decided :: "policy_doc \<Rightarrow> RiskState \<Rightarrow> int \<times> RiskEngineEvidence list \<Rightarrow> RiskState option" where
  "decided p cur w = wd_state (evaluateWindow (snd w) p cur)"

fun chained :: "policy_doc \<Rightarrow> (int \<times> RiskEngineEvidence list) list \<Rightarrow> bool" where
  "chained p (v # w # ws) \<longleftrightarrow> contiguous p (Some (fst v)) (fst w) \<and> chained p (w # ws)"
| "chained p _ \<longleftrightarrow> True"

text \<open>
  \<open>streak p cur s ws\<close>: the windows \<open>ws\<close>, each next to the one before it up to the allowed gap,
  all decide \<open>s\<close> while \<open>cur\<close> is the effective state.
\<close>

definition streak ::
  "policy_doc \<Rightarrow> RiskState \<Rightarrow> RiskState \<Rightarrow> (int \<times> RiskEngineEvidence list) list \<Rightarrow> bool" where
  "streak p cur s ws \<longleftrightarrow> ws \<noteq> [] \<and> list_all (\<lambda>w. decided p cur w = Some s) ws \<and> chained p ws"

lemma chained_snoc:
  "chained p (ws @ [w]) \<longleftrightarrow>
     chained p ws \<and> (ws \<noteq> [] \<longrightarrow> contiguous p (Some (fst (last ws))) (fst w))"
  by (induction p ws rule: chained.induct) auto

lemma streak_snoc:
  "streak p cur s ws \<Longrightarrow> decided p cur w = Some s \<Longrightarrow>
     contiguous p (Some (fst (last ws))) (fst w) \<Longrightarrow> streak p cur s (ws @ [w])"
  by (simp add: streak_def chained_snoc)

lemma streak_single: "decided p cur w = Some s \<Longrightarrow> streak p cur s [w]"
  by (simp add: streak_def)

lemma hyst_run_snoc: "hyst_run p t (ws @ [w]) = hyst_step p w (hyst_run p t ws)"
  by (simp add: hyst_run_def)

lemma hyst_run_Nil: "hyst_run p t [] = hyst_start t"
  by (simp add: hyst_run_def)

lemma hyst_step_insufficient:
  "decided p (hy_effective h) w = None \<Longrightarrow>
     hy_effective (hyst_step p w h) = hy_effective h \<and> hy_pending (hyst_step p w h) = None"
  by (cases w) (simp add: hyst_step_def decided_def Let_def)

lemma hyst_step_agree:
  "decided p (hy_effective h) w = Some (hy_effective h) \<Longrightarrow>
     hy_effective (hyst_step p w h) = hy_effective h \<and> hy_pending (hyst_step p w h) = None"
  by (cases w) (simp add: hyst_step_def decided_def Let_def)

definition next_count :: "policy_doc \<Rightarrow> hysteresis \<Rightarrow> RiskState \<Rightarrow> int \<Rightarrow> int" where
  "next_count p h s q =
     (if hy_pending h = Some s \<and> contiguous p (hy_previous h) q then hy_count h + 1 else 1)"

lemma hyst_step_disagree:
  assumes "decided p (hy_effective h) w = Some s" "s \<noteq> hy_effective h"
  shows "hyst_step p w h =
     (if required_windows p (hy_effective h) s \<le> next_count p h s (fst w)
      then h\<lparr>hy_last := evaluateWindow (snd w) p (hy_effective h), hy_effective := s,
             hy_pending := None, hy_count := 0, hy_previous := Some (fst w)\<rparr>
      else h\<lparr>hy_last := evaluateWindow (snd w) p (hy_effective h), hy_pending := Some s,
             hy_count := next_count p h s (fst w), hy_previous := Some (fst w)\<rparr>)"
  using assms by (cases w) (simp add: hyst_step_def decided_def next_count_def Let_def)

text \<open>A pending state rests on a streak that ends at the last window.\<close>

definition pending_ok :: "policy_doc \<Rightarrow> instant \<Rightarrow> (int \<times> RiskEngineEvidence list) list \<Rightarrow> bool" where
  "pending_ok p t ws \<longleftrightarrow>
     (\<forall>s. hy_pending (hyst_run p t ws) = Some s \<longrightarrow>
        (\<exists>pre suf. ws = pre @ suf \<and> streak p (hy_effective (hyst_run p t ws)) s suf \<and>
           hy_effective (hyst_run p t pre) = hy_effective (hyst_run p t ws) \<and>
           int (length suf) = hy_count (hyst_run p t ws) \<and>
           hy_previous (hyst_run p t ws) = Some (fst (last suf))))"

text \<open>
  \<open>entered p t ws s\<close>: after some prefix of the windows another state was in effect, the windows
  that follow are a streak for \<open>s\<close> of the required length, and \<open>s\<close> has been in effect since.
\<close>

definition entered ::
  "policy_doc \<Rightarrow> instant \<Rightarrow> (int \<times> RiskEngineEvidence list) list \<Rightarrow> RiskState \<Rightarrow> bool" where
  "entered p t ws s \<longleftrightarrow>
     (\<exists>pre suf post. ws = pre @ suf @ post \<and>
        hy_effective (hyst_run p t pre) \<noteq> s \<and>
        streak p (hy_effective (hyst_run p t pre)) s suf \<and>
        required_windows p (hy_effective (hyst_run p t pre)) s \<le> int (length suf) \<and>
        (\<forall>ps qs. post = ps @ qs \<longrightarrow> hy_effective (hyst_run p t (pre @ suf @ ps)) = s))"

lemma streak_extends:
  assumes "pending_ok p t ws" "decided p (hy_effective (hyst_run p t ws)) w = Some s"
  defines "cur \<equiv> hy_effective (hyst_run p t ws)"
  shows "\<exists>pre suf. ws @ [w] = pre @ suf \<and> streak p cur s suf \<and> fst (last suf) = fst w \<and>
           hy_effective (hyst_run p t pre) = cur \<and>
           int (length suf) = next_count p (hyst_run p t ws) s (fst w)"
proof (cases "hy_pending (hyst_run p t ws) = Some s \<and>
              contiguous p (hy_previous (hyst_run p t ws)) (fst w)")
  case True
  then obtain pre suf where a: "ws = pre @ suf" "streak p cur s suf"
      "hy_effective (hyst_run p t pre) = cur"
      "int (length suf) = hy_count (hyst_run p t ws)"
      "hy_previous (hyst_run p t ws) = Some (fst (last suf))"
    using assms(1) unfolding pending_ok_def cur_def by blast
  have "streak p cur s (suf @ [w])"
    using streak_snoc [OF a(2)] assms(2) True a(5) by (simp add: cur_def)
  with a True show ?thesis
    by (intro exI [of _ pre] exI [of _ "suf @ [w]"]) (simp add: next_count_def)
next
  case False
  have "streak p cur s [w]" using assms(2) by (simp add: streak_single cur_def)
  with False show ?thesis
    by (intro exI [of _ ws] exI [of _ "[w]"]) (auto simp: next_count_def cur_def)
qed

lemma pending_ok_run: "pending_ok p t ws"
proof (induction ws rule: rev_induct)
  case Nil
  show ?case by (simp add: pending_ok_def hyst_run_Nil hyst_start_def)
next
  case (snoc w ws)
  let ?h = "hyst_run p t ws"
  show ?case
  proof (cases "decided p (hy_effective ?h) w")
    case None
    then show ?thesis using hyst_step_insufficient [of p ?h w]
      by (simp add: pending_ok_def hyst_run_snoc)
  next
    case (Some s)
    show ?thesis
    proof (cases "s = hy_effective ?h")
      case True
      then show ?thesis using hyst_step_agree [of p ?h w] Some
        by (simp add: pending_ok_def hyst_run_snoc)
    next
      case False
      note step = hyst_step_disagree [OF Some False, folded hyst_run_snoc]
      obtain pre suf where a: "ws @ [w] = pre @ suf" "streak p (hy_effective ?h) s suf"
          "fst (last suf) = fst w" "hy_effective (hyst_run p t pre) = hy_effective ?h"
          "int (length suf) = next_count p ?h s (fst w)"
        using streak_extends [OF snoc Some] by blast
      show ?thesis
        unfolding pending_ok_def step
        by (rule allI, rule impI, rule exI [of _ pre], rule exI [of _ suf])
          (use a in \<open>auto split: if_splits\<close>)
    qed
  qed
qed

lemma entered_snoc:
  assumes "entered p t ws s" "hy_effective (hyst_run p t (ws @ [w])) = s"
  shows "entered p t (ws @ [w]) s"
proof -
  obtain pre suf post where a: "ws = pre @ suf @ post" "hy_effective (hyst_run p t pre) \<noteq> s"
      "streak p (hy_effective (hyst_run p t pre)) s suf"
      "required_windows p (hy_effective (hyst_run p t pre)) s \<le> int (length suf)"
      "\<And>ps qs. post = ps @ qs \<Longrightarrow> hy_effective (hyst_run p t (pre @ suf @ ps)) = s"
    using assms(1) unfolding entered_def by blast
  have "hy_effective (hyst_run p t (pre @ suf @ ps)) = s" if "post @ [w] = ps @ qs" for ps qs
    using that a(1,5) assms(2) by (cases qs rule: rev_cases) auto
  with a(1-4) show ?thesis
    unfolding entered_def by (intro exI [of _ pre] exI [of _ suf] exI [of _ "post @ [w]"]) auto
qed

lemma effective_entered:
  "hy_effective (hyst_run p t ws) \<noteq> UNVERIFIED \<Longrightarrow>
     entered p t ws (hy_effective (hyst_run p t ws))"
proof (induction ws rule: rev_induct)
  case Nil
  then show ?case by (simp add: hyst_run_Nil hyst_start_def)
next
  case (snoc w ws)
  let ?h = "hyst_run p t ws"
  show ?case
  proof (cases "hy_effective (hyst_run p t (ws @ [w])) = hy_effective ?h")
    case True
    with snoc entered_snoc [of p t ws "hy_effective ?h" w] show ?thesis by simp
  next
    case False
    then obtain s where s: "decided p (hy_effective ?h) w = Some s" "s \<noteq> hy_effective ?h"
      using hyst_step_insufficient [of p ?h w] hyst_step_agree [of p ?h w]
      by (cases "decided p (hy_effective ?h) w") (auto simp: hyst_run_snoc)
    have new: "required_windows p (hy_effective ?h) s \<le> next_count p ?h s (fst w)"
      "hy_effective (hyst_run p t (ws @ [w])) = s"
      using False hyst_step_disagree [OF s] by (auto simp: hyst_run_snoc split: if_splits)
    obtain pre suf where a: "ws @ [w] = pre @ suf" "streak p (hy_effective ?h) s suf"
        "hy_effective (hyst_run p t pre) = hy_effective ?h"
        "int (length suf) = next_count p ?h s (fst w)"
      using streak_extends [OF pending_ok_run s(1)] by blast
    show ?thesis
      unfolding entered_def
      by (rule exI [of _ pre], rule exI [of _ suf], rule exI [of _ "[]"])
        (use a new s in auto)
  qed
qed

text \<open>Windows without usable evidence never move the state.\<close>

lemma insufficient_tail:
  "list_all (\<lambda>w. decided p (hy_effective (hyst_run p t ws)) w = None) vs \<Longrightarrow>
     hy_effective (hyst_run p t (ws @ vs)) = hy_effective (hyst_run p t ws)"
proof (induction vs rule: rev_induct)
  case (snoc v vs)
  then have "hy_effective (hyst_run p t (ws @ vs)) = hy_effective (hyst_run p t ws)"
    "decided p (hy_effective (hyst_run p t ws)) v = None"
    by simp_all
  then show ?case
    using hyst_step_insufficient [of p "hyst_run p t (ws @ vs)" v]
    by (simp add: hyst_run_snoc append_assoc [symmetric] del: append_assoc)
qed simp

section \<open>Windows of the selection\<close>

lemma group_windows_spec:
  "distinct (map fst m) \<Longrightarrow>
     distinct (map fst (group_windows m es)) \<and>
     (\<forall>q. map_of (group_windows m es) q =
        (case (map_of m q, filter (\<lambda>e. e_windowSequence e = q) es) of
           (None, []) \<Rightarrow> None
         | (None, xs) \<Rightarrow> Some xs
         | (Some g, xs) \<Rightarrow> Some (g @ xs)))"
proof (induction m es rule: group_windows.induct)
  case (1 m)
  then show ?case by (auto split: option.splits)
next
  case (2 m e es)
  let ?q = "e_windowSequence e"
  let ?m = "AList.update ?q ((case map_of m ?q of None \<Rightarrow> [] | Some g \<Rightarrow> g) @ [e]) m"
  have IH: "distinct (map fst (group_windows ?m es))"
    "\<And>q. map_of (group_windows ?m es) q =
        (case (map_of ?m q, filter (\<lambda>e. e_windowSequence e = q) es) of
           (None, []) \<Rightarrow> None | (None, xs) \<Rightarrow> Some xs | (Some g, xs) \<Rightarrow> Some (g @ xs))"
    using "2.IH" "2.prems" by (auto simp: distinct_update)
  show ?case
    using IH by (auto simp: update_conv' split: option.splits list.splits)
qed

lemma windows_of_spec:
  "(q, g) \<in> set (windows_of es) \<longleftrightarrow> g \<noteq> [] \<and> g = filter (\<lambda>e. e_windowSequence e = q) es"
proof -
  have d: "distinct (map fst (group_windows [] es))"
    and m: "map_of (group_windows [] es) q =
      (case filter (\<lambda>e. e_windowSequence e = q) es of [] \<Rightarrow> None | xs \<Rightarrow> Some xs)"
    using group_windows_spec [of "[]" es] by auto
  have "(q, g) \<in> set (windows_of es) \<longleftrightarrow> map_of (group_windows [] es) q = Some g"
    using d by (simp add: windows_of_def)
  with m show ?thesis by (auto split: list.splits)
qed

lemma windows_of_sorted: "sorted (map fst (windows_of es)) \<and> distinct (map fst (windows_of es))"
proof -
  have "distinct (map fst (group_windows [] es))"
    using group_windows_spec [of "[]" es] by simp
  then have "distinct (map fst (windows_of es))"
    unfolding windows_of_def by (simp add: distinct_map)
  then show ?thesis by (simp add: windows_of_def)
qed

section \<open>The result\<close>

lemma evaluate_ok_iff: "(\<exists>r. evaluateRiskEvidence xs p = Inr r) \<longleftrightarrow> xs \<noteq> []"
  by (auto simp: evaluateRiskEvidence_def Let_def selectLatest_Nil_iff)

lemma evaluate_effective:
  "evaluateRiskEvidence xs p = Inr r \<Longrightarrow>
     rr_effectiveState r =
       hy_effective (hyst_run p (e_observedAt (hd (selectLatest xs))) (windows_of (selectLatest xs)))"
  by (auto simp: evaluateRiskEvidence_def Let_def split: if_splits)

lemma evaluate_interventions:
  "evaluateRiskEvidence xs p = Inr r \<Longrightarrow> rr_proposedInterventions r \<noteq> [] \<Longrightarrow>
     rr_effectiveState r = HIGH_RISK \<or> rr_effectiveState r = CRITICAL"
  by (auto simp: evaluateRiskEvidence_def Let_def split: if_splits)

lemma evaluate_ids:
  "evaluateRiskEvidence xs p = Inr r \<Longrightarrow> rr_evidenceEventIds r = map e_id (selectLatest xs)"
  by (auto simp: evaluateRiskEvidence_def Let_def split: if_splits)

lemma evaluate_maxWindow:
  assumes "evaluateRiskEvidence xs p = Inr r" "x \<in> set xs"
  shows "e_windowSequence x \<le> rr_maxWindowSequence r"
proof -
  let ?ys = "selectLatest xs"
  have ne: "?ys \<noteq> []" and m: "rr_maxWindowSequence r = e_windowSequence (last ?ys)"
    using assms(1) by (auto simp: evaluateRiskEvidence_def Let_def split: if_splits)
  obtain y where y: "y \<in> set ?ys" "slot_of y = slot_of x"
    using selectLatest_covers [OF assms(2)] by blast
  have "sort_rank y \<le> sort_rank (last ?ys)"
  proof -
    have "sorted (map sort_rank (butlast ?ys @ [last ?ys]))"
      using ne selectLatest_sorted [of xs] by simp
    then have "\<forall>z \<in> set (butlast ?ys). sort_rank z \<le> sort_rank (last ?ys)"
      by (simp add: sorted_append)
    moreover have "y \<in> set (butlast ?ys @ [last ?ys])" using y ne by simp
    ultimately show ?thesis by auto
  qed
  then have "e_windowSequence y \<le> e_windowSequence (last ?ys)"
    by (auto simp: sort_rank_def less_eq_prod_def)
  with y m show ?thesis by (simp add: slot_of_def)
qed

section \<open>Properties\<close>

text \<open>A policy and evidence for the examples: two windows in which the expected voice is spoofed.\<close>

definition sample_policy :: policy_doc where
  "sample_policy = \<lparr>pd_activationMode = JStr ''ENGINEERING_ONLY'',
     pd_thresholdClassification = JStr ''ENGINEERING_FIXTURE_NOT_CALIBRATED'',
     pd_thresholdVersion = ''t1'', pd_calibrationVersion = None,
     pd_minimumScore = 0, pd_minimumSpeechDurationMs = 500, pd_rejectingReasonCodes = [''CLIPPED''],
     pd_identityEnter = 1, pd_identityClear = 1, pd_spoofEnter = 1, pd_spoofClear = 1,
     pd_fastWeight = 1, pd_deepWeight = 0, pd_entryWindows = 2, pd_clearWindows = 3,
     pd_maximumGap = 0, pd_highRisk = [WARN], pd_critical = [HOLD_PROTECTED_ACTION, REQUIRE_STEP_UP]\<rparr>"

definition sample_event ::
  "string \<Rightarrow> EvidenceType \<Rightarrow> int \<Rightarrow> int \<Rightarrow> ScoreTarget \<Rightarrow> rat \<Rightarrow> RiskEngineEvidence" where
  "sample_event i t window sequence target score =
     \<lparr>e_id = i, e_evidenceMode = MODE_SHADOW, e_evidenceType = t, e_readiness = READY,
      e_windowSequence = window, e_eventSequence = sequence, e_revision = 0,
      e_observedAt = 1000 * window, e_qualityScore = Some 1, e_speechDurationMs = Some 900,
      e_reasonCodes = [], e_rawScore = Some score, e_calibratedScore = None,
      e_calibrationVersion = None, e_scoreDirection = HIGHER_MEANS_MORE,
      e_scoreTarget = Some target, e_modelStatus = Some MODEL_ACTIVE,
      e_modelTraceMatches = True\<rparr>"

definition sample_evidence :: "RiskEngineEvidence list" where
  "sample_evidence =
     [sample_event ''a'' IDENTITY 0 0 TARGET_EXPECTED_SPEAKER 1,
      sample_event ''b'' SPOOF_FAST 0 1 TARGET_SPOOF 1,
      sample_event ''c'' IDENTITY 1 2 TARGET_EXPECTED_SPEAKER 1,
      sample_event ''d'' SPOOF_FAST 1 3 TARGET_SPOOF 1]"

lemma sample_run:
  obtains r where "evaluateRiskEvidence sample_evidence sample_policy = Inr r"
    and "rr_effectiveState r = CRITICAL"
proof -
  have "(case evaluateRiskEvidence sample_evidence sample_policy of
      Inl _ \<Rightarrow> None | Inr r \<Rightarrow> Some (rr_effectiveState r)) = Some CRITICAL"
    by code_simp
  then show thesis by (auto split: sum.splits intro: that)
qed



text \<open>
  C23: the decision does not depend on the order in which the evidence arrives: two lists with the
  same events, in which no two events of a slot have the same revision and sequence, give the
  same result.
\<close>

theorem evaluation_order_independent:
  assumes "set evidence = set evidence'" "unambiguous evidence"
  shows "evaluateRiskEvidence evidence policy = evaluateRiskEvidence evidence' policy"
  using evaluate_order_independent [OF assms] .

theorem evaluation_order_independent_witness:
  "evaluateRiskEvidence sample_evidence sample_policy =
     evaluateRiskEvidence (rev sample_evidence) sample_policy"
proof (rule evaluation_order_independent)
  show "unambiguous sample_evidence"
    by (simp add: unambiguous_def sample_evidence_def sample_event_def slot_of_def version_of_def)
qed simp

text \<open>
  C31: the selection keeps, for every window and evidence type that occurs, exactly one event, the
  one with the greatest revision and, among these, the greatest event sequence.
\<close>

theorem selection_keeps_latest:
  "distinct (map slot_of (selectLatest events)) \<and>
   slot_of ` set (selectLatest events) = slot_of ` set events \<and>
   (\<forall>e \<in> set (selectLatest events). latest_in events e)"
proof (intro conjI ballI set_eqI iffI)
  fix k assume "k \<in> slot_of ` set (selectLatest events)"
  then show "k \<in> slot_of ` set events"
    using selectLatest_latest by (fastforce simp: latest_in_def)
next
  fix k assume "k \<in> slot_of ` set events"
  then obtain x where "x \<in> set events" "k = slot_of x" by blast
  with selectLatest_covers [of x events] show "k \<in> slot_of ` set (selectLatest events)"
    by (metis imageI)
qed (auto simp: selectLatest_distinct_slots selectLatest_latest)

theorem selection_keeps_latest_witness:
  "map e_id (selectLatest (sample_evidence @ [(sample_event ''e'' IDENTITY 1 4
       TARGET_EXPECTED_SPEAKER 0)\<lparr>e_revision := 1\<rparr>])) = [''a'', ''b'', ''e'', ''d''] \<and>
   latest_in sample_evidence (hd (selectLatest sample_evidence))"
proof
  show "map e_id (selectLatest (sample_evidence @ [(sample_event ''e'' IDENTITY 1 4
       TARGET_EXPECTED_SPEAKER 0)\<lparr>e_revision := 1\<rparr>])) = [''a'', ''b'', ''e'', ''d'']"
    by code_simp
  have "selectLatest sample_evidence \<noteq> []"
    by (simp add: selectLatest_Nil_iff sample_evidence_def)
  then show "latest_in sample_evidence (hd (selectLatest sample_evidence))"
    using selection_keeps_latest [of sample_evidence] by simp
qed

definition rescore_fast :: "rat \<Rightarrow> RiskEngineEvidence list \<Rightarrow> RiskEngineEvidence list" where
  "rescore_fast s events =
     map (\<lambda>e. if e_evidenceType e = SPOOF_FAST then e\<lparr>e_calibratedScore := Some s\<rparr> else e) events"

lemma of_type_rescore_other:
  "t \<noteq> SPOOF_FAST \<Longrightarrow> of_type t (rescore_fast s events) = of_type t events"
  by (induction events) (auto simp: of_type_def rescore_fast_def)

lemma of_type_rescore_fast:
  "of_type SPOOF_FAST (rescore_fast s events) =
     map_option (\<lambda>e. e\<lparr>e_calibratedScore := Some s\<rparr>) (of_type SPOOF_FAST events)"
  by (induction events) (auto simp: of_type_def rescore_fast_def)

lemma quality_gate_cons:
  "quality_gate_fails p (e # es) \<longleftrightarrow> quality_gate_fails p [e] \<or> quality_gate_fails p es"
  by (auto simp: quality_gate_fails_def)

lemma decide_scored_state:
  assumes "wd_state (decide_scored p cur first i (Some f) deep) = Some a"
    and "targetScore f TARGET_SPOOF = Some v"
  shows "\<exists>x. targetScore i TARGET_EXPECTED_SPEAKER = Some x \<and>
           a = matrix_state p cur x (fused_spoof p (Some v)
                 (case deep of None \<Rightarrow> None | Some d \<Rightarrow> targetScore d TARGET_SPOOF))"
  using assms
  by (auto simp: decide_scored_def Let_def insufficient_def split: if_splits option.splits)

lemma evaluateWindow_scored:
  assumes "wd_state (evaluateWindow events p cur) = Some a" "of_type SPOOF_FAST events = Some f"
  shows "\<exists>i. of_type IDENTITY events = Some i \<and>
           wd_state (decide_scored p cur (hd events) i (Some f) (of_type SPOOF_DEEP events)) = Some a"
  using assms
  by (auto simp: evaluateWindow_def Let_def insufficient_def split: if_splits option.splits)

text \<open>
  C30: a higher fast spoof score never lowers the severity of a window: if only the score of the
  window's fast spoof evidence changes, and its spoof reading does not fall, a window that is
  decided before and after is decided at least as severely after.
\<close>

theorem window_monotone_in_fast_score:
  assumes "policy_wf policy" "of_type SPOOF_FAST events = Some f"
    and "targetScore f TARGET_SPOOF = Some v"
    and "targetScore (f\<lparr>e_calibratedScore := Some s\<rparr>) TARGET_SPOOF = Some v'" "v \<le> v'"
    and "wd_state (evaluateWindow events policy current) = Some a"
    and "wd_state (evaluateWindow (rescore_fast s events) policy current) = Some b"
  shows "stateSeverity a \<le> stateSeverity b"
proof -
  let ?d = "case of_type SPOOF_DEEP events of None \<Rightarrow> None | Some d \<Rightarrow> targetScore d TARGET_SPOOF"
  obtain i x where i: "of_type IDENTITY events = Some i"
      "targetScore i TARGET_EXPECTED_SPEAKER = Some x"
      "a = matrix_state policy current x (fused_spoof policy (Some v) ?d)"
    using evaluateWindow_scored [OF assms(6,2)] decide_scored_state assms(3) by blast
  have "of_type SPOOF_FAST (rescore_fast s events) = Some (f\<lparr>e_calibratedScore := Some s\<rparr>)"
    by (simp add: of_type_rescore_fast assms(2))
  from evaluateWindow_scored [OF assms(7) this] i(1)
  have "wd_state (decide_scored policy current (hd (rescore_fast s events)) i
      (Some (f\<lparr>e_calibratedScore := Some s\<rparr>)) (of_type SPOOF_DEEP events)) = Some b"
    by (simp add: of_type_rescore_other)
  from decide_scored_state [OF this assms(4)] i(2)
  have b: "b = matrix_state policy current x (fused_spoof policy (Some v') ?d)" by simp
  have "fused_spoof policy (Some v) ?d \<le> fused_spoof policy (Some v') ?d"
    using assms(1,3,5)
    by (intro fused_spoof_mono) (auto dest: targetScore_unit split: option.splits)
  with i(3) b show ?thesis by (simp add: matrix_state_mono)
qed

definition low_window :: "RiskEngineEvidence list" where
  "low_window = [sample_event ''a'' IDENTITY 0 0 TARGET_EXPECTED_SPEAKER 1,
                 sample_event ''b'' SPOOF_FAST 0 1 TARGET_SPOOF 0]"

theorem window_monotone_in_fast_score_witness:
  "stateSeverity VERIFIED \<le> stateSeverity CRITICAL \<and>
   wd_state (evaluateWindow low_window sample_policy UNVERIFIED) = Some VERIFIED \<and>
   wd_state (evaluateWindow (rescore_fast 1 low_window) sample_policy UNVERIFIED) = Some CRITICAL"
proof -
  let ?f = "sample_event ''b'' SPOOF_FAST 0 1 TARGET_SPOOF 0"
  have a: "wd_state (evaluateWindow low_window sample_policy UNVERIFIED) = Some VERIFIED"
    and b: "wd_state (evaluateWindow (rescore_fast 1 low_window) sample_policy UNVERIFIED)
              = Some CRITICAL"
    and f: "of_type SPOOF_FAST low_window = Some ?f" "targetScore ?f TARGET_SPOOF = Some 0"
      "targetScore (?f\<lparr>e_calibratedScore := Some 1\<rparr>) TARGET_SPOOF = Some 1"
    by code_simp+
  have p: "policy_wf sample_policy" by code_simp
  have "stateSeverity VERIFIED \<le> stateSeverity CRITICAL"
    by (rule window_monotone_in_fast_score [OF p f(1) f(2) f(3) _ a b]) simp
  with a b show ?thesis by blast
qed

end
