(* ===== verification/Risk_Activation.thy ===== *)
theory Risk_Activation
  imports Risk_Engine Configuration
begin

text \<open>
  \<open>modules/risk/risk-activation-gate.service.ts\<close>: the one place that decides whether a decision
  may drive production controls. Every gate that is closed adds a blocker code; production is
  eligible exactly when no code was added.
\<close>

record ProductionEvidenceStatus =
  pe_evidenceMode :: EvidenceMode
  pe_sufficientEvidence :: bool
  pe_allScoresCalibrated :: bool
  pe_calibrationVersions :: "string list"
  pe_allModelsActiveAndTraceable :: bool

record RiskActivationDecision =
  ad_decisionMode :: RiskDecisionMode
  ad_productionEligible :: bool
  ad_activationSuppressed :: bool
  ad_blockerCodes :: "string list"

definition blocker :: "bool \<Rightarrow> string \<Rightarrow> string list" where
  "blocker b code = (if b then [code] else [])"

definition calibration_mismatch :: "policy_doc \<Rightarrow> string list \<Rightarrow> bool" where
  "calibration_mismatch policy versions = (case pd_calibrationVersion policy of
     None \<Rightarrow> True
   | Some v \<Rightarrow> length versions \<noteq> 1 \<or> \<not> List.member versions v)"

definition activation_blockers ::
  "risk_config \<Rightarrow> policy_doc \<Rightarrow> ProductionEvidenceStatus \<Rightarrow> string list" where
  "activation_blockers configured policy evidence =
     blocker (interventionMode configured \<noteq> RIM_PRODUCTION) ''ENGINEERING_ONLY_MODE'' @
     blocker (phaseOScientificStatus configured \<noteq> PHASE_O_PROMOTED)
       ''PHASE_O_SCIENTIFIC_CALIBRATION_BLOCKED'' @
     blocker (phasePProductionStatus configured \<noteq> PHASE_P_PROMOTED)
       ''PHASE_P_NOT_PRODUCTION_PROMOTED'' @
     blocker (phaseQProductionStatus configured \<noteq> PHASE_Q_PROMOTED)
       ''PHASE_Q_ENGINEERING_ONLY'' @
     blocker (pd_activationMode policy \<noteq> JStr ''PRODUCTION'') ''POLICY_ENGINEERING_ONLY'' @
     blocker (pd_thresholdClassification policy \<noteq> JStr ''PROMOTED_CALIBRATION'')
       ''THRESHOLDS_NOT_PROMOTED'' @
     blocker (pe_evidenceMode evidence \<noteq> MODE_CALIBRATED) ''EVIDENCE_NOT_CALIBRATED_MODE'' @
     blocker (\<not> pe_sufficientEvidence evidence) ''INSUFFICIENT_EVIDENCE'' @
     blocker (\<not> pe_allScoresCalibrated evidence) ''CALIBRATED_SCORE_MISSING'' @
     blocker (\<not> pe_allModelsActiveAndTraceable evidence) ''MODEL_TRACE_NOT_ACTIVE'' @
     blocker (calibration_mismatch policy (pe_calibrationVersions evidence))
       ''CALIBRATION_VERSION_MISMATCH''"

definition activation_evaluate ::
  "risk_config \<Rightarrow> policy_doc \<Rightarrow> ProductionEvidenceStatus \<Rightarrow> RiskActivationDecision" where
  "activation_evaluate configured policy evidence =
     (let blockers = activation_blockers configured policy evidence;
          productionEligible = (length blockers = 0);
          decisionMode =
            (if productionEligible then DECISION_PRODUCTION_ELIGIBLE
             else if pe_evidenceMode evidence = MODE_SIMULATED then DECISION_ENGINEERING_TEST
             else if pe_evidenceMode evidence = MODE_SHADOW then DECISION_SHADOW
             else DECISION_CALIBRATED_BLOCKED)
      in \<lparr>ad_decisionMode = decisionMode, ad_productionEligible = productionEligible,
          ad_activationSuppressed = (\<not> productionEligible), ad_blockerCodes = blockers\<rparr>)"

lemma blocker_Nil [simp]: "blocker b c = [] \<longleftrightarrow> \<not> b"
  by (simp add: blocker_def)

lemma eligible_iff:
  "ad_productionEligible (activation_evaluate g p e) \<longleftrightarrow>
     gates_promoted g \<and>
     pd_activationMode p = JStr ''PRODUCTION'' \<and>
     pd_thresholdClassification p = JStr ''PROMOTED_CALIBRATION'' \<and>
     pe_evidenceMode e = MODE_CALIBRATED \<and> pe_sufficientEvidence e \<and>
     pe_allScoresCalibrated e \<and> pe_allModelsActiveAndTraceable e \<and>
     \<not> calibration_mismatch p (pe_calibrationVersions e)"
  by (auto simp: activation_evaluate_def activation_blockers_def gates_promoted_def Let_def)

lemma decision_mode_eligible:
  "ad_decisionMode (activation_evaluate g p e) = DECISION_PRODUCTION_ELIGIBLE \<longleftrightarrow>
     ad_productionEligible (activation_evaluate g p e)"
  by (simp add: activation_evaluate_def Let_def)

lemma suppressed_iff:
  "ad_activationSuppressed (activation_evaluate g p e) \<longleftrightarrow>
     \<not> ad_productionEligible (activation_evaluate g p e)"
  by (simp add: activation_evaluate_def Let_def)

lemma eligible_calibration:
  "\<not> calibration_mismatch p vs \<longleftrightarrow> (\<exists>v. pd_calibrationVersion p = Some v \<and> vs = [v])"
  by (cases "pd_calibrationVersion p")
    (auto simp: calibration_mismatch_def length_Suc_conv numeral_eq_Suc)

section \<open>Properties\<close>


end
