(* ===== verification/Risk_Context.thy ===== *)
theory Risk_Context
  imports Evidence Risk_Activation
begin

text \<open>
  What the two risk services share (\<open>modules/risk/headless-risk-pipeline.service.ts\<close> and
  \<open>risk-decision.service.ts\<close>, whose helper functions are the same text): the hash of an evidence
  set, the engine's view of an evidence row, the control mode, and the session with its call,
  policy and accepted evidence.

  The SHA-256 digest and the configuration are fields of the \<open>runtime\<close> argument.
\<close>

record runtime =
  x_config :: configuration
  x_sha256 :: "string \<Rightarrow> string"

section \<open>Names\<close>

fun evidence_type_name :: "EvidenceType \<Rightarrow> string" where
  "evidence_type_name IDENTITY = ''IDENTITY''"
| "evidence_type_name SPOOF_FAST = ''SPOOF_FAST''"
| "evidence_type_name SPOOF_DEEP = ''SPOOF_DEEP''"
| "evidence_type_name AUDIO_QUALITY = ''AUDIO_QUALITY''"
| "evidence_type_name INSUFFICIENT_EVIDENCE = ''INSUFFICIENT_EVIDENCE''"
| "evidence_type_name PIPELINE_ERROR = ''PIPELINE_ERROR''"

fun acceptance_name :: "EvidenceAcceptanceStatus \<Rightarrow> string" where
  "acceptance_name ACCEPTED = ''ACCEPTED''"
| "acceptance_name SUPERSEDED = ''SUPERSEDED''"
| "acceptance_name DUPLICATE = ''DUPLICATE''"
| "acceptance_name STALE = ''STALE''"
| "acceptance_name REJECTED = ''REJECTED''"

fun evidence_mode_name :: "EvidenceMode \<Rightarrow> string" where
  "evidence_mode_name MODE_SIMULATED = ''SIMULATED''"
| "evidence_mode_name MODE_SHADOW = ''SHADOW''"
| "evidence_mode_name MODE_CALIBRATED = ''CALIBRATED''"

fun decision_mode_name :: "RiskDecisionMode \<Rightarrow> string" where
  "decision_mode_name DECISION_ENGINEERING_TEST = ''ENGINEERING_TEST''"
| "decision_mode_name DECISION_SHADOW = ''SHADOW''"
| "decision_mode_name DECISION_CALIBRATED_BLOCKED = ''CALIBRATED_BLOCKED''"
| "decision_mode_name DECISION_PRODUCTION_ELIGIBLE = ''PRODUCTION_ELIGIBLE''"

fun control_mode_name :: "SecurityControlMode \<Rightarrow> string" where
  "control_mode_name DEMO = ''DEMO''"
| "control_mode_name SHADOW = ''SHADOW''"
| "control_mode_name PRODUCTION = ''PRODUCTION''"

section \<open>Pure helpers\<close>

definition quoted :: "string \<Rightarrow> string" where
  "quoted s = [CHR 34] @ s @ [CHR 34]"

definition json_field :: "string \<Rightarrow> string \<Rightarrow> string" where
  "json_field key rendered = quoted key @ '':'' @ rendered"

fun joined :: "string \<Rightarrow> string list \<Rightarrow> string" where
  "joined sep [] = []"
| "joined sep [x] = x"
| "joined sep (x # xs) = x @ sep @ joined sep xs"

text \<open>
  \<open>JSON.stringify\<close> of the canonical list; identifiers and enumeration names hold no character
  that JSON escapes. The list is sorted by the identifiers, whose order is that of their
  characters.
\<close>

definition canonical_event :: "evidence_row \<Rightarrow> string" where
  "canonical_event e = ''{'' @ joined '',''
     [json_field ''id'' (quoted (ev_id e)),
      json_field ''eventSequence'' (quoted (int_string (ev_eventSequence e))),
      json_field ''windowSequence'' (quoted (int_string (ev_windowSequence e))),
      json_field ''evidenceType'' (quoted (evidence_type_name (ev_type e))),
      json_field ''revision'' (int_string (ev_revision e)),
      json_field ''acceptanceStatus'' (quoted (acceptance_name (ev_status e)))] @ ''}''"

definition canonical_events :: "evidence_row list \<Rightarrow> string" where
  "canonical_events events =
     ''['' @ joined '','' (map canonical_event (sort_key ev_id events)) @ '']''"

definition evidenceSetHash :: "runtime \<Rightarrow> evidence_row list \<Rightarrow> string" where
  "evidenceSetHash env events = x_sha256 env (canonical_events events)"

definition externalEventId ::
  "runtime \<Rightarrow> uuid \<Rightarrow> string \<Rightarrow> uuid \<Rightarrow> string \<Rightarrow> string" where
  "externalEventId env organizationId eventType targetId idempotencyKey =
     ''evt_'' @ x_sha256 env
       (organizationId @ '':'' @ eventType @ '':'' @ targetId @ '':'' @ idempotencyKey)"

definition model_trace_matches :: "evidence_row \<Rightarrow> model_row option \<Rightarrow> bool" where
  "model_trace_matches event model = (case model of
     None \<Rightarrow> False
   | Some v \<Rightarrow> Some (mv_id v) = ev_modelVersionId event \<and>
       Some (mv_name v) = ev_modelName event \<and> Some (mv_version v) = ev_modelVersion event \<and>
       Some (mv_checkpointHash v) = ev_checkpointHash event \<and>
       Some (mv_scoreName v) = ev_scoreName event \<and>
       mv_scoreDirection v = ev_scoreDirection event)"

text \<open>\<open>Number(decimal)\<close> is the double nearest to the stored decimal.\<close>

definition engineEvidence :: "evidence_row \<times> model_row option \<Rightarrow> RiskEngineEvidence" where
  "engineEvidence em = (let (event, model) = em in
     \<lparr>e_id = ev_id event, e_evidenceMode = ev_mode event, e_evidenceType = ev_type event,
      e_readiness = ev_readiness event, e_windowSequence = ev_windowSequence event,
      e_eventSequence = ev_eventSequence event, e_revision = ev_revision event,
      e_observedAt = ev_observedAt event,
      e_qualityScore = map_option fl (ev_qualityScore event),
      e_speechDurationMs = ev_speechDurationMs event,
      e_reasonCodes = ev_reasonCodes event,
      e_rawScore = map_option fl (ev_rawScore event),
      e_calibratedScore = map_option fl (ev_calibratedScore event),
      e_calibrationVersion = ev_calibrationVersion event,
      e_scoreDirection = ev_scoreDirection event,
      e_scoreTarget = (case model of None \<Rightarrow> None | Some v \<Rightarrow> mv_scoreTarget v),
      e_modelStatus = map_option mv_status model,
      e_modelTraceMatches = model_trace_matches event model\<rparr>)"

definition controlMode :: "EvidenceMode \<Rightarrow> bool \<Rightarrow> SecurityControlMode" where
  "controlMode evidenceMode productionEligible =
     (if productionEligible then PRODUCTION
      else if evidenceMode = MODE_SIMULATED then DEMO else SHADOW)"

definition assertModeAllowed :: "configuration \<Rightarrow> SecurityControlMode \<Rightarrow> bool \<Rightarrow> err + unit" where
  "assertModeAllowed configuration mode productionEligible =
     (if mode = PRODUCTION \<and> \<not> productionEligible
      then Inl (Error ''Production controls require production-eligible evidence.'')
      else if mode = PRODUCTION \<and> \<not> gates_promoted (c_risk configuration)
      then Inl (Error ''Production controls are blocked by O/P/Q promotion gates.'')
      else if environment (c_runtime configuration) = ENV_PRODUCTION \<and> mode \<noteq> PRODUCTION
      then Inl (Error ''DEMO and SHADOW intervention delivery are prohibited in production.'')
      else Inr ())"

section \<open>The session with its call, policy and accepted evidence\<close>

record decision_context =
  dc_session :: session_row
  dc_call :: call_row
  dc_policy :: policy_row
  dc_evidence :: "(evidence_row \<times> model_row option) list"

definition session_by :: "uuid \<Rightarrow> uuid \<Rightarrow> session_row \<Rightarrow> bool" where
  "session_by organizationId i s \<longleftrightarrow> as_org s = organizationId \<and> as_id s = i"

definition call_by :: "uuid \<Rightarrow> uuid \<Rightarrow> call_row \<Rightarrow> bool" where
  "call_by organizationId i c \<longleftrightarrow> ca_org c = organizationId \<and> ca_id c = i"

definition policy_by :: "uuid \<Rightarrow> uuid \<Rightarrow> policy_row \<Rightarrow> bool" where
  "policy_by organizationId i p \<longleftrightarrow> rp_org p = organizationId \<and> rp_id p = i"

definition session_evidence :: "session_row \<Rightarrow> db \<Rightarrow> (evidence_row \<times> model_row option) list" where
  "session_evidence session d =
     map (\<lambda>e. (e, find (\<lambda>v. Some (mv_id v) = ev_modelVersionId e) (d_models d)))
       (sort_key (\<lambda>e. (ev_windowSequence e, ev_eventSequence e))
          (filter (\<lambda>e. ev_org e = as_org session \<and> ev_session e = as_id session \<and>
                       ev_call e = as_call session \<and> ev_status e = ACCEPTED) (d_evidence d)))"

definition load_context :: "uuid \<Rightarrow> uuid \<Rightarrow> err \<Rightarrow> decision_context op" where
  "load_context organizationId sessionId missing =
     bindM (find_or_throw sessions_table (session_by organizationId sessionId) missing)
       (\<lambda>session.
     bindM (find_or_throw calls_table (call_by organizationId (as_call session)) missing) (\<lambda>call.
     bindM (find_or_throw policies_table (policy_by organizationId (ca_policyId call)) missing)
       (\<lambda>policy.
     bindM (getM (\<lambda>w. session_evidence session (w_db w))) (\<lambda>evidence.
     returnM \<lparr>dc_session = session, dc_call = call, dc_policy = policy,
              dc_evidence = evidence\<rparr>))))"

end
