(* ===== verification/Risk_Pipeline.thy ===== *)
theory Risk_Pipeline
  imports Risk_Context
begin

text \<open>
  \<open>modules/risk/headless-risk-pipeline.service.ts\<close>: one transaction that records a piece of
  evidence and, when it is accepted, evaluates the session's evidence, writes the assessment with
  its evidence links and audit row and, on a transition, the risk event, its interventions and
  the outbox alerts. The transaction is tried up to three times on a write conflict. Logging and
  telemetry, which follow the commit, are not modelled.
\<close>

section \<open>The result of the pipeline\<close>

datatype assessment_status = RECORDED | SUPPRESSED_ASSESSMENT

record pipeline_result =
  pr_evidenceEventId :: uuid
  pr_acceptanceStatus :: EvidenceAcceptanceStatus
  pr_assessmentStatus :: assessment_status
  pr_riskAssessmentId :: "uuid option"
  pr_outcome :: "RiskAssessmentOutcome option"
  pr_effectiveState :: "RiskState option"
  pr_decisionMode :: "RiskDecisionMode option"
  pr_productionEligible :: bool
  pr_activationSuppressed :: "bool option"
  pr_reasonCode :: string
  pr_mode :: "SecurityControlMode option"
  pr_riskEventId :: "uuid option"
  pr_interventionIds :: "uuid list option"
  pr_outboxIds :: "uuid list option"

definition suppressed_result :: "evidence_row \<Rightarrow> string \<Rightarrow> pipeline_result" where
  "suppressed_result trigger reasonCode =
     \<lparr>pr_evidenceEventId = ev_id trigger, pr_acceptanceStatus = ev_status trigger,
      pr_assessmentStatus = SUPPRESSED_ASSESSMENT, pr_riskAssessmentId = None,
      pr_outcome = None, pr_effectiveState = None, pr_decisionMode = None,
      pr_productionEligible = False, pr_activationSuppressed = None,
      pr_reasonCode = reasonCode, pr_mode = None, pr_riskEventId = None,
      pr_interventionIds = None, pr_outboxIds = None\<rparr>"

definition pipeline_response ::
  "evidence_row \<Rightarrow> assessment_row \<Rightarrow> (risk_event_row \<times> uuid list \<times> uuid list) option \<Rightarrow>
   pipeline_result" where
  "pipeline_response trigger assessment riskEvent =
     \<lparr>pr_evidenceEventId = ev_id trigger, pr_acceptanceStatus = ev_status trigger,
      pr_assessmentStatus = RECORDED, pr_riskAssessmentId = Some (ra_id assessment),
      pr_outcome = Some (ra_outcome assessment),
      pr_effectiveState = Some (ra_effectiveState assessment),
      pr_decisionMode = Some (ra_decisionMode assessment),
      pr_productionEligible = ra_productionEligible assessment,
      pr_activationSuppressed = Some (ra_activationSuppressed assessment),
      pr_reasonCode = ra_reasonCode assessment,
      pr_mode = Some (case riskEvent of Some (e, _) \<Rightarrow> re_mode e
         | None \<Rightarrow> controlMode (ra_evidenceMode assessment) (ra_productionEligible assessment)),
      pr_riskEventId = map_option (\<lambda>(e, _). re_id e) riskEvent,
      pr_interventionIds = map_option (\<lambda>(_, is, _). is) riskEvent,
      pr_outboxIds = map_option (\<lambda>(_, _, os). os) riskEvent\<rparr>"

section \<open>Rows\<close>

text \<open>What \<open>recordDecision\<close> has computed when it writes: its local constants.\<close>

record decision =
  dn_context :: decision_context
  dn_trigger :: evidence_row
  dn_policy :: policy_doc
  dn_result :: RiskEngineResult
  dn_activation :: RiskActivationDecision
  dn_hash :: string
  dn_prior :: RiskState
  dn_mode :: SecurityControlMode

definition dn_org :: "decision \<Rightarrow> uuid" where
  "dn_org n = as_org (dc_session (dn_context n))"

definition dn_transitioned :: "decision \<Rightarrow> bool" where
  "dn_transitioned n \<longleftrightarrow> dn_prior n \<noteq> rr_effectiveState (dn_result n)"

definition assessment_row_of :: "decision \<Rightarrow> uuid \<Rightarrow> instant \<Rightarrow> assessment_row" where
  "assessment_row_of n newId createdAt =
     (let session = dc_session (dn_context n); policyRow = dc_policy (dn_context n);
          evaluated = dn_result n; activation = dn_activation n in
      \<lparr>ra_id = newId, ra_org = as_org session, ra_call = as_call session,
       ra_session = as_id session, ra_policyId = rp_id policyRow,
       ra_idemKey = ''risk-assessment:'' @ as_id session @ '':'' @ dn_hash n,
       ra_schemaVersion = ''1.1.0'', ra_evidenceHash = dn_hash n,
       ra_evidenceMode = as_evidenceMode session,
       ra_decisionMode = ad_decisionMode activation, ra_outcome = rr_outcome evaluated,
       ra_priorState = dn_prior n, ra_effectiveState = rr_effectiveState evaluated,
       ra_transitioned = dn_transitioned n,
       ra_productionEligible = ad_productionEligible activation,
       ra_activationSuppressed = ad_activationSuppressed activation,
       ra_blockerCodes = ad_blockerCodes activation, ra_reasonCode = rr_reasonCode evaluated,
       ra_policyKey = rp_key policyRow, ra_policyVersion = rp_version policyRow,
       ra_thresholdVersion = pd_thresholdVersion (dn_policy n),
       ra_calibrationVersion = pd_calibrationVersion (dn_policy n),
       ra_proposedInterventions = rr_proposedInterventions evaluated,
       ra_maxWindowSequence = rr_maxWindowSequence evaluated,
       ra_occurredAt = rr_occurredAt evaluated, ra_createdAt = createdAt\<rparr>)"

definition risk_event_row_of :: "decision \<Rightarrow> uuid \<Rightarrow> uuid \<Rightarrow> int \<Rightarrow> risk_event_row" where
  "risk_event_row_of n assessmentId newId eventSequence =
     (let session = dc_session (dn_context n); policyRow = dc_policy (dn_context n);
          evaluated = dn_result n in
      \<lparr>re_id = newId, re_org = as_org session, re_call = as_call session,
       re_session = Some (as_id session), re_policyId = rp_id policyRow,
       re_assessment = Some assessmentId, re_idemKey = ''risk-event:'' @ assessmentId,
       re_schemaVersion = ''1.1.0'', re_eventSequence = eventSequence, re_mode = dn_mode n,
       re_priorState = dn_prior n, re_state = rr_effectiveState evaluated,
       re_reasonCode = rr_reasonCode evaluated, re_policyKey = rp_key policyRow,
       re_policyVersion = rp_version policyRow,
       re_thresholdVersion = pd_thresholdVersion (dn_policy n),
       re_occurredAt = rr_occurredAt evaluated\<rparr>)"

definition intervention_row_of ::
  "decision \<Rightarrow> uuid \<Rightarrow> uuid \<Rightarrow> InterventionType \<Rightarrow> uuid \<Rightarrow> intervention_row" where
  "intervention_row_of n assessmentId riskEventId type newId =
     (let session = dc_session (dn_context n) in
      \<lparr>iv_id = newId, iv_org = as_org session, iv_call = as_call session,
       iv_riskEvent = riskEventId, iv_resolvedBy = None,
       iv_idemKey = ''intervention:'' @ assessmentId @ '':'' @ intervention_name type,
       iv_type = type, iv_status = IV_REQUIRED, iv_mode = dn_mode n,
       iv_policyVersion = rp_version (dc_policy (dn_context n)),
       iv_reasonCode = rr_reasonCode (dn_result n),
       iv_protectedAction = (if type = HOLD_PROTECTED_ACTION
          then ca_protectedAction (dc_call (dn_context n)) else None),
       iv_requiredAt = rr_occurredAt (dn_result n), iv_acknowledgedAt = None,
       iv_resolvedAt = None, iv_expiresAt = None, iv_attemptCount = 0, iv_nextAttemptAt = None,
       iv_leaseId = None, iv_leaseExpiresAt = None, iv_deadLetteredAt = None,
       iv_failureCode = None\<rparr>)"

definition alert_row_of ::
  "runtime \<Rightarrow> decision \<Rightarrow> uuid \<Rightarrow> uuid \<Rightarrow> string \<Rightarrow> uuid \<Rightarrow> uuid option \<Rightarrow> uuid \<Rightarrow> instant \<Rightarrow>
   alert_row" where
  "alert_row_of env n assessmentId riskEventId eventType targetId interventionId newId createdAt =
     (let organizationId = dn_org n;
          idempotencyKey =
            ''security-event:'' @ assessmentId @ '':'' @ eventType @ '':'' @ targetId in
      \<lparr>al_id = newId, al_org = organizationId, al_call = as_call (dc_session (dn_context n)),
       al_riskEvent = riskEventId, al_intervention = interventionId, al_acknowledgedBy = None,
       al_idemKey = idempotencyKey,
       al_externalEventId =
         Some (externalEventId env organizationId eventType targetId idempotencyKey),
       al_channel = SECURITY_WEBSOCKET, al_status = ALERT_PENDING, al_mode = dn_mode n,
       al_eventType = eventType, al_schemaVersion = ''1.1.0'', al_recipient = None,
       al_attemptCount = 0, al_nextAttemptAt = None, al_leaseId = None,
       al_leaseExpiresAt = None, al_deliveredAt = None, al_acknowledgedAt = None,
       al_failureCode = None, al_createdAt = createdAt\<rparr>)"

definition pipeline_audit ::
  "decision \<Rightarrow> string \<Rightarrow> string \<Rightarrow> string \<Rightarrow> uuid \<Rightarrow> string option \<Rightarrow> AllowedAuditMetadata \<Rightarrow>
   AppendAuditInput" where
  "pipeline_audit n idempotencyKey action targetType targetId reasonCode metadata =
     \<lparr>aa_actor = None, aa_correlationId = ev_id (dn_trigger n),
      aa_idempotencyKey = Some idempotencyKey, aa_action = action, aa_targetType = targetType,
      aa_targetId = targetId, aa_outcome = AUDIT_SUCCEEDED, aa_reasonCode = reasonCode,
      aa_sourceIpHash = None, aa_metadata = Some metadata,
      aa_occurredAt = Some (rr_occurredAt (dn_result n))\<rparr>"

definition assessment_metadata :: "decision \<Rightarrow> AllowedAuditMetadata" where
  "assessment_metadata n = \<lparr>am_operation = Some ''headless-risk-pipeline'',
     am_policyVersion = Some (rp_version (dc_policy (dn_context n))),
     am_schemaVersion = Some ''1.1.0'',
     am_decisionMode = Some (decision_mode_name (ad_decisionMode (dn_activation n))),
     am_evidenceMode = Some (evidence_mode_name (as_evidenceMode (dc_session (dn_context n)))),
     am_thresholdVersion = Some (pd_thresholdVersion (dn_policy n)),
     am_productionEligible = Some (ad_productionEligible (dn_activation n)),
     am_controlMode = Some (control_mode_name (dn_mode n))\<rparr>"

definition transition_metadata :: "decision \<Rightarrow> AllowedAuditMetadata" where
  "transition_metadata n = no_metadata\<lparr>am_operation := Some ''headless-risk-pipeline'',
     am_policyVersion := Some (rp_version (dc_policy (dn_context n))),
     am_schemaVersion := Some ''1.1.0'', am_controlMode := Some (control_mode_name (dn_mode n)),
     am_productionEligible := Some (ad_productionEligible (dn_activation n))\<rparr>"

section \<open>Writes\<close>

definition link_evidence :: "evidence_link_row table \<Rightarrow> uuid \<Rightarrow> uuid \<Rightarrow> uuid list \<Rightarrow> unit op" where
  "link_evidence tb organizationId owner ids =
     iterM ids (\<lambda>i. bindM (create tb
       \<lparr>el_org = organizationId, el_owner = owner, el_evidence = i\<rparr>) (\<lambda>_. returnM ()))"

text \<open>Lines 301 to 358: the assessment, its evidence links and its audit row.\<close>

definition write_assessment :: "decision \<Rightarrow> assessment_row op" where
  "write_assessment n =
     bindM new_id (\<lambda>newId.
     bindM now (\<lambda>createdAt.
     bindM (create assessments_table (assessment_row_of n newId createdAt)) (\<lambda>assessment.
     thenM (link_evidence assessmentEvidence_table (dn_org n) (ra_id assessment)
              (rr_evidenceEventIds (dn_result n)))
     (bindM (audit_appendWithClient (dn_org n)
        (pipeline_audit n (ra_id assessment @ '':audit'') ''risk.assessment.recorded''
           ''RiskAssessment'' (ra_id assessment)
           (Some (if ad_activationSuppressed (dn_activation n)
                  then ''PRODUCTION_ACTIVATION_SUPPRESSED'' else ''PRODUCTION_ELIGIBLE''))
           (assessment_metadata n))) (\<lambda>_.
     returnM assessment)))))"

definition next_event_sequence :: "uuid \<Rightarrow> uuid \<Rightarrow> db \<Rightarrow> int" where
  "next_event_sequence organizationId callId d =
     (case map re_eventSequence
             (filter (\<lambda>e. re_org e = organizationId \<and> re_call e = callId) (d_riskEvents d)) of
        [] \<Rightarrow> 0 | s # ss \<Rightarrow> fold max ss s) + 1"

definition intervention_inputs :: "decision \<Rightarrow> InterventionType list" where
  "intervention_inputs n =
     (if dn_mode n = SHADOW then []
      else filter (\<lambda>t. t \<noteq> HOLD_PROTECTED_ACTION \<or>
                       ca_protectedAction (dc_call (dn_context n)) \<noteq> None)
             (rr_proposedInterventions (dn_result n)))"

definition enqueue ::
  "runtime \<Rightarrow> decision \<Rightarrow> uuid \<Rightarrow> uuid \<Rightarrow> string \<Rightarrow> uuid \<Rightarrow> uuid option \<Rightarrow> uuid op" where
  "enqueue env n assessmentId riskEventId eventType targetId interventionId =
     bindM new_id (\<lambda>newId.
     bindM now (\<lambda>createdAt.
     bindM (create alerts_table (alert_row_of env n assessmentId riskEventId eventType targetId
              interventionId newId createdAt)) (\<lambda>alert.
     returnM (al_id alert))))"

definition write_interventions :: "decision \<Rightarrow> uuid \<Rightarrow> uuid \<Rightarrow> uuid list op" where
  "write_interventions n assessmentId riskEventId =
     mapM (\<lambda>type. bindM new_id (\<lambda>newId.
             bindM (create interventions_table
                      (intervention_row_of n assessmentId riskEventId type newId)) (\<lambda>row.
             returnM (iv_id row)))) (intervention_inputs n)"

definition write_outbox ::
  "runtime \<Rightarrow> decision \<Rightarrow> uuid \<Rightarrow> uuid \<Rightarrow> uuid list \<Rightarrow> uuid list op" where
  "write_outbox env n assessmentId riskEventId interventionIds =
     bindM (enqueue env n assessmentId riskEventId ''dashboard.risk-event.created'' riskEventId None)
       (\<lambda>first.
     if dn_mode n = SHADOW then returnM [first]
     else
       bindM (enqueue env n assessmentId riskEventId ''risk.state.changed'' riskEventId None)
         (\<lambda>second.
       bindM (mapM (\<lambda>i. enqueue env n assessmentId riskEventId ''intervention.required'' i (Some i))
                interventionIds) (\<lambda>others.
       returnM (first # second # others))))"

text \<open>Lines 364 to 486: the risk event, the interventions, the outbox and the audit row.\<close>

definition write_transition ::
  "runtime \<Rightarrow> decision \<Rightarrow> uuid \<Rightarrow> (risk_event_row \<times> uuid list \<times> uuid list) op" where
  "write_transition env n assessmentId =
     bindM (getM (\<lambda>w. next_event_sequence (dn_org n)
                        (as_call (dc_session (dn_context n))) (w_db w))) (\<lambda>eventSequence.
     bindM new_id (\<lambda>newId.
     bindM (create riskEvents_table (risk_event_row_of n assessmentId newId eventSequence))
       (\<lambda>riskEvent.
     thenM (link_evidence riskEventEvidence_table (dn_org n) (re_id riskEvent)
              (rr_evidenceEventIds (dn_result n)))
     (bindM (write_interventions n assessmentId (re_id riskEvent)) (\<lambda>interventionIds.
     bindM (write_outbox env n assessmentId (re_id riskEvent) interventionIds) (\<lambda>outboxIds.
     bindM (audit_appendWithClient (dn_org n)
        (pipeline_audit n (re_id riskEvent @ '':audit'') ''risk.transition.recorded''
           ''RiskEvent'' (re_id riskEvent) None (transition_metadata n))) (\<lambda>_.
     returnM (riskEvent, interventionIds, outboxIds))))))))"

section \<open>The decision\<close>

definition suppress_invalid_policy :: "uuid \<Rightarrow> evidence_row \<Rightarrow> pipeline_result op" where
  "suppress_invalid_policy organizationId trigger =
     bindM (audit_appendWithClient organizationId
       \<lparr>aa_actor = None, aa_correlationId = ev_id trigger,
        aa_idempotencyKey = Some (ev_id trigger @ '':risk-policy-invalid''),
        aa_action = ''risk.assessment.suppressed'', aa_targetType = ''EvidenceEvent'',
        aa_targetId = ev_id trigger, aa_outcome = AUDIT_FAILED,
        aa_reasonCode = Some ''RISK_POLICY_INVALID'', aa_sourceIpHash = None,
        aa_metadata = Some (no_metadata\<lparr>am_operation := Some ''headless-risk-pipeline''\<rparr>),
        aa_occurredAt = None\<rparr>) (\<lambda>_.
     returnM (suppressed_result trigger ''RISK_POLICY_INVALID''))"

definition replay_response :: "evidence_row \<Rightarrow> assessment_row \<Rightarrow> pipeline_result op" where
  "replay_response trigger replay =
     bindM (find_unique_row riskEvents_table
              (\<lambda>e. re_org e = ra_org replay \<and> re_assessment e = Some (ra_id replay)))
       (\<lambda>replayEvent. case replayEvent of
          None \<Rightarrow> returnM (pipeline_response trigger replay None)
        | Some e \<Rightarrow>
            bindM (find_many interventions_table (\<lambda>i. iv_org i = re_org e \<and> iv_riskEvent i = re_id e))
              (\<lambda>is.
            bindM (find_many alerts_table (\<lambda>a. al_org a = re_org e \<and> al_riskEvent a = re_id e))
              (\<lambda>als.
            returnM (pipeline_response trigger replay (Some (e, map iv_id is, map al_id als))))))"

definition latest_assessment :: "uuid \<Rightarrow> uuid \<Rightarrow> assessment_row option op" where
  "latest_assessment organizationId sessionId =
     find_latest assessments_table (\<lambda>a. ra_org a = organizationId \<and> ra_session a = sessionId)
       (\<lambda>a. (ra_createdAt a, ra_id a))"

definition evidence_status_of ::
  "decision_context \<Rightarrow> RiskEngineResult \<Rightarrow> ProductionEvidenceStatus" where
  "evidence_status_of ctx evaluated =
     \<lparr>pe_evidenceMode = as_evidenceMode (dc_session ctx),
      pe_sufficientEvidence = (rr_outcome evaluated \<noteq> OUTCOME_INSUFFICIENT_EVIDENCE),
      pe_allScoresCalibrated = rr_allScoresCalibrated evaluated,
      pe_calibrationVersions = rr_calibrationVersions evaluated,
      pe_allModelsActiveAndTraceable = rr_allModelsActiveAndTraceable evaluated\<rparr>"

definition decide ::
  "runtime \<Rightarrow> decision_context \<Rightarrow> evidence_row \<Rightarrow> policy_doc \<Rightarrow> RiskEngineResult \<Rightarrow>
   assessment_row option \<Rightarrow> decision" where
  "decide env ctx trigger policy evaluated previous =
     (let activation = activation_evaluate (c_risk (x_config env)) policy
                         (evidence_status_of ctx evaluated) in
      \<lparr>dn_context = ctx, dn_trigger = trigger, dn_policy = policy, dn_result = evaluated,
       dn_activation = activation, dn_hash = evidenceSetHash env (map fst (dc_evidence ctx)),
       dn_prior = (case previous of None \<Rightarrow> UNVERIFIED | Some p \<Rightarrow> ra_effectiveState p),
       dn_mode = controlMode (as_evidenceMode (dc_session ctx))
                   (ad_productionEligible activation)\<rparr>)"

definition record_new_decision :: "runtime \<Rightarrow> decision \<Rightarrow> pipeline_result op" where
  "record_new_decision env n =
     bindM (liftE (assertModeAllowed (x_config env) (dn_mode n)
              (ad_productionEligible (dn_activation n)))) (\<lambda>_.
     bindM (write_assessment n) (\<lambda>assessment.
     if \<not> dn_transitioned n \<or> rr_outcome (dn_result n) = OUTCOME_INSUFFICIENT_EVIDENCE
     then returnM (pipeline_response (dn_trigger n) assessment None)
     else bindM (write_transition env n (ra_id assessment)) (\<lambda>transition.
          returnM (pipeline_response (dn_trigger n) assessment (Some transition)))))"

definition recordDecision ::
  "runtime \<Rightarrow> decision_context \<Rightarrow> evidence_row \<Rightarrow> pipeline_result op" where
  "recordDecision env ctx trigger =
     (let organizationId = as_org (dc_session ctx); sessionId = as_id (dc_session ctx) in
      case parseRiskPolicyDocument (Some (rp_document (dc_policy ctx))) of
        Inl RiskPolicyValidationError \<Rightarrow> suppress_invalid_policy organizationId trigger
      | Inl e \<Rightarrow> throwM e
      | Inr policy \<Rightarrow>
          bindM (liftE (evaluateRiskEvidence (map engineEvidence (dc_evidence ctx)) policy))
            (\<lambda>evaluated.
          let hash = evidenceSetHash env (map fst (dc_evidence ctx)) in
          bindM (find_unique_row assessments_table
                   (\<lambda>a. ra_org a = organizationId \<and> ra_session a = sessionId \<and>
                        ra_evidenceHash a = hash)) (\<lambda>replay.
          case replay of
            Some r \<Rightarrow> replay_response trigger r
          | None \<Rightarrow>
              bindM (latest_assessment organizationId sessionId) (\<lambda>previous.
              record_new_decision env (decide env ctx trigger policy evaluated previous)))))"

section \<open>The transaction\<close>

definition snapshot_valid :: "decision_context \<Rightarrow> evidence_row \<Rightarrow> bool" where
  "snapshot_valid ctx event \<longleftrightarrow>
     \<not> (as_call (dc_session ctx) \<noteq> ev_call event \<or>
        as_binding (dc_session ctx) \<noteq> ev_binding event \<or>
        ca_policyId (dc_call ctx) \<noteq> rp_id (dc_policy ctx) \<or>
        ca_policyVersion (dc_call ctx) \<noteq> rp_version (dc_policy ctx))"

definition process_evidence :: "runtime \<Rightarrow> uuid \<Rightarrow> RecordEvidenceInput \<Rightarrow> pipeline_result op" where
  "process_evidence env organizationId input =
     bindM (recordWithClient organizationId input) (\<lambda>event.
     if ev_status event \<noteq> ACCEPTED
     then returnM (suppressed_result event ''EVIDENCE_NOT_ACCEPTED_FOR_RISK'')
     else
       bindM (load_context organizationId (ev_session event) P2025_RecordNotFound) (\<lambda>ctx.
       thenM (guardM (snapshot_valid ctx event)
         (Error ''The tenant-scoped analysis binding or risk-policy snapshot is invalid.''))
       (recordDecision env ctx event)))"

definition isConcurrentWriteConflict :: "err \<Rightarrow> bool" where
  "isConcurrentWriteConflict error \<longleftrightarrow>
     error = P2002_UniqueConstraint \<or> error = P2034_WriteConflict"

fun ingest_attempts :: "nat \<Rightarrow> 'a op \<Rightarrow> 'a op" where
  "ingest_attempts left operation = catchM (serializable operation) (\<lambda>error.
     if \<not> isConcurrentWriteConflict error then throwM error
     else case left of 0 \<Rightarrow> throwM error | Suc left' \<Rightarrow> ingest_attempts left' operation)"

declare ingest_attempts.simps [simp del]

definition ingestAcceptedEvidence ::
  "runtime \<Rightarrow> uuid \<Rightarrow> RecordEvidenceInput \<Rightarrow> pipeline_result op" where
  "ingestAcceptedEvidence env organizationId input =
     ingest_attempts 2 (process_evidence env organizationId input)"

section \<open>Invariants of the database\<close>

text \<open>
  What every decision that reaches a write satisfies: the control mode is the one its evidence
  mode and eligibility give, and an eligible decision had every gate open.
\<close>

definition decision_ok :: "runtime \<Rightarrow> decision \<Rightarrow> bool" where
  "decision_ok env n \<longleftrightarrow>
     dn_mode n = controlMode (as_evidenceMode (dc_session (dn_context n)))
                   (ad_productionEligible (dn_activation n)) \<and>
     (ad_productionEligible (dn_activation n) \<longrightarrow> gates_promoted (c_risk (x_config env)))"

lemma decide_ok: "decision_ok env (decide env ctx trigger policy evaluated previous)"
  by (simp add: decision_ok_def decide_def Let_def eligible_iff)

text \<open>
  The interface of an invariant: it survives each row that the pipeline writes. The pipeline's
  preservation proof is made once, inside the locale; every invariant interprets it.
\<close>

locale pipeline_invariant =
  fixes env :: runtime and I :: "db \<Rightarrow> bool"
  assumes new_evidence: "I d \<Longrightarrow> I (d_evidence_update (\<lambda>rs. rs @ [ev]) d)"
    and superseded:
      "I d \<Longrightarrow> I (d_evidence_update (change_rows P (\<lambda>x. x\<lparr>ev_status := SUPERSEDED\<rparr>)) d)"
    and assessment:
      "decision_ok env n \<Longrightarrow> I d \<Longrightarrow>
         I (d_assessments_update (\<lambda>rs. rs @ [assessment_row_of n i t]) d)"
    and assessment_link: "I d \<Longrightarrow> I (d_assessmentEvidence_update (\<lambda>rs. rs @ [l]) d)"
    and risk_event:
      "decision_ok env n \<Longrightarrow> dn_transitioned n \<Longrightarrow> I d \<Longrightarrow>
         I (d_riskEvents_update (\<lambda>rs. rs @ [risk_event_row_of n a i
              (next_event_sequence (dn_org n) (as_call (dc_session (dn_context n))) d)]) d)"
    and risk_event_link: "I d \<Longrightarrow> I (d_riskEventEvidence_update (\<lambda>rs. rs @ [l]) d)"
    and intervention:
      "decision_ok env n \<Longrightarrow> type \<in> set (intervention_inputs n) \<Longrightarrow> I d \<Longrightarrow>
         I (d_interventions_update (\<lambda>rs. rs @ [intervention_row_of n a e type i]) d)"
    and alert:
      "decision_ok env n \<Longrightarrow>
         dn_mode n \<noteq> SHADOW \<or> eventType = ''dashboard.risk-event.created'' \<Longrightarrow> I d \<Longrightarrow>
         I (d_alerts_update (\<lambda>rs. rs @ [alert_row_of env n a e eventType x j i t]) d)"
    and audit: "I d \<Longrightarrow> I (d_audit_update (\<lambda>rs. rs @ [r]) d)"
begin

lemma keeps_recordWithClient: "keeps (on_db I) (recordWithClient context input)"
  unfolding recordWithClient_def store_new_evidence_def insert_evidence_def
  by (intro hoare keeps_resolve_revision keeps_create)
    (auto simp: evidence_table_def new_evidence superseded)

lemma keeps_audit: "keeps (on_db I) (audit_appendWithClient context input)"
  by (rule keeps_audit_appendWithClient) (rule audit)

lemma keeps_write_assessment: "decision_ok env n \<Longrightarrow> keeps (on_db I) (write_assessment n)"
  unfolding write_assessment_def link_evidence_def
  by (intro hoare keeps_audit keeps_create)
    (auto simp: assessments_table_def assessmentEvidence_table_def assessment assessment_link)

lemma keeps_enqueue:
  "decision_ok env n \<Longrightarrow> dn_mode n \<noteq> SHADOW \<or> eventType = ''dashboard.risk-event.created'' \<Longrightarrow>
     keeps (on_db I) (enqueue env n a e eventType x j)"
  unfolding enqueue_def by (intro hoare keeps_create) (auto simp: alerts_table_def alert)

lemma keeps_write_interventions:
  "decision_ok env n \<Longrightarrow> keeps (on_db I) (write_interventions n a e)"
  unfolding write_interventions_def
  by (intro hoare keeps_create) (auto simp: interventions_table_def intervention)

lemma keeps_write_outbox: "decision_ok env n \<Longrightarrow> keeps (on_db I) (write_outbox env n a e ids)"
  unfolding write_outbox_def by (intro hoare keeps_enqueue) auto

text \<open>The sequence that is read is the one of the state the event is written to.\<close>

lemma keeps_sequenced_create:
  assumes "decision_ok env n" "dn_transitioned n"
    and rest: "\<And>r. keeps (on_db I) (k r)"
  shows "keeps (on_db I)
    (bindM (getM (\<lambda>w. next_event_sequence (dn_org n) (as_call (dc_session (dn_context n))) (w_db w)))
       (\<lambda>s. bindM new_id (\<lambda>i. bindM (create riskEvents_table (risk_event_row_of n a i s)) k)))"
proof (rule keepsI)
  fix w assume w: "on_db I w"
  let ?s = "next_event_sequence (dn_org n) (as_call (dc_session (dn_context n))) (w_db w)"
  let ?w = "w\<lparr>w_idn := Suc (w_idn w)\<rparr>"
  let ?r = "risk_event_row_of n a (w_ids w (w_idn w)) ?s"
  obtain x w' where c: "create riskEvents_table ?r ?w = (x, w')" by fastforce
  have "on_db I w'"
    using w c risk_event [OF assms(1,2), of "w_db w" a]
    by (auto simp: create_def riskEvents_table_def on_db_def split: if_splits)
  with c rest show "on_db I (snd (bindM (getM (\<lambda>w. next_event_sequence (dn_org n)
      (as_call (dc_session (dn_context n))) (w_db w)))
       (\<lambda>s. bindM new_id (\<lambda>i. bindM (create riskEvents_table (risk_event_row_of n a i s)) k)) w))"
    by (cases x) (auto simp: bindM_def getM_def new_id_def dest: keeps_sndD)
qed

lemma keeps_write_transition:
  "decision_ok env n \<Longrightarrow> dn_transitioned n \<Longrightarrow> keeps (on_db I) (write_transition env n a)"
  unfolding write_transition_def link_evidence_def
  by (intro keeps_sequenced_create hoare keeps_audit keeps_write_interventions keeps_write_outbox
      keeps_create)
    (auto simp: riskEventEvidence_table_def risk_event_link)

lemma keeps_record_new_decision:
  "decision_ok env n \<Longrightarrow> keeps (on_db I) (record_new_decision env n)"
  unfolding record_new_decision_def
  by (intro hoare keeps_write_assessment keeps_write_transition) auto

lemma keeps_recordDecision: "keeps (on_db I) (recordDecision env ctx trigger)"
  unfolding recordDecision_def Let_def suppress_invalid_policy_def replay_response_def
    latest_assessment_def
  by (auto intro!: hoare keeps_audit keeps_record_new_decision decide_ok split: sum.split err.split)

lemma keeps_process_evidence: "keeps (on_db I) (process_evidence env organizationId input)"
  unfolding process_evidence_def load_context_def
  by (intro hoare keeps_recordWithClient keeps_recordDecision)

lemma keeps_attempts:
  "keeps (on_db I) operation \<Longrightarrow> keeps (on_db I) (ingest_attempts n operation)"
  by (induction n) (subst ingest_attempts.simps, intro hoare, auto split: nat.split intro: hoare)+

lemma keeps_ingest: "keeps (on_db I) (ingestAcceptedEvidence env organizationId input)"
  unfolding ingestAcceptedEvidence_def by (intro keeps_attempts keeps_process_evidence)

lemma ingest_preserves:
  "I (w_db w) \<Longrightarrow> I (w_db (snd (ingestAcceptedEvidence env organizationId input w)))"
  using keeps_sndD [OF keeps_ingest, of w] by (simp add: on_db_def)

end

section \<open>The invariants\<close>

text \<open>No row that drives production controls.\<close>

definition no_production :: "db \<Rightarrow> bool" where
  "no_production d \<longleftrightarrow>
     list_all (\<lambda>a. \<not> ra_productionEligible a) (d_assessments d) \<and>
     list_all (\<lambda>e. re_mode e \<noteq> PRODUCTION) (d_riskEvents d) \<and>
     list_all (\<lambda>i. iv_mode i \<noteq> PRODUCTION) (d_interventions d) \<and>
     list_all (\<lambda>a. al_mode a \<noteq> PRODUCTION) (d_alerts d)"

definition gated :: "runtime \<Rightarrow> db \<Rightarrow> bool" where
  "gated env d \<longleftrightarrow> gates_promoted (c_risk (x_config env)) \<or> no_production d"

lemma controlMode_PRODUCTION [simp]: "controlMode m b = PRODUCTION \<longleftrightarrow> b"
  by (simp add: controlMode_def)

lemmas pipeline_rows = assessment_row_of_def risk_event_row_of_def intervention_row_of_def
  alert_row_of_def Let_def

interpretation gated_inv: pipeline_invariant env "gated env" for env
  by unfold_locales (auto simp: gated_def no_production_def pipeline_rows decision_ok_def)

text \<open>
  Shadow decisions are observed and nothing else: no intervention, and no alert but the
  dashboard's. A hold always names the action it holds.
\<close>

definition controls_ok :: "db \<Rightarrow> bool" where
  "controls_ok d \<longleftrightarrow>
     list_all (\<lambda>i. iv_mode i \<noteq> SHADOW \<and>
                   (iv_type i = HOLD_PROTECTED_ACTION \<longrightarrow> iv_protectedAction i \<noteq> None))
       (d_interventions d) \<and>
     list_all (\<lambda>a. al_mode a = SHADOW \<longrightarrow> al_eventType a = ''dashboard.risk-event.created'')
       (d_alerts d)"

interpretation controls_inv: pipeline_invariant env controls_ok for env
  by unfold_locales
    (auto simp: controls_ok_def pipeline_rows intervention_inputs_def split: if_splits)

text \<open>The risk events of a call are numbered 1, 2, 3 and so on, in the order they are written.\<close>

definition call_sequences :: "uuid \<Rightarrow> uuid \<Rightarrow> db \<Rightarrow> int list" where
  "call_sequences organizationId callId d =
     map re_eventSequence
       (filter (\<lambda>e. re_org e = organizationId \<and> re_call e = callId) (d_riskEvents d))"

definition dense :: "int list \<Rightarrow> bool" where
  "dense xs \<longleftrightarrow> xs = map int [1..<Suc (length xs)]"

definition dense_sequences :: "db \<Rightarrow> bool" where
  "dense_sequences d \<longleftrightarrow> (\<forall>o' c. dense (call_sequences o' c d))"

lemma dense_snoc: "dense (xs @ [y]) \<longleftrightarrow> dense xs \<and> y = int (length xs) + 1"
proof -
  have "[1..<Suc (Suc (length xs))] = [1..<Suc (length xs)] @ [Suc (length xs)]"
    by simp
  then show ?thesis unfolding dense_def
    by (simp only: length_append_singleton map_append list.map append_same_eq append1_eq_conv)
      auto
qed

definition top_of :: "int list \<Rightarrow> int" where
  "top_of xs = (case xs of [] \<Rightarrow> 0 | s # ss \<Rightarrow> fold max ss s)"

lemma dense_top: "dense xs \<Longrightarrow> top_of xs = int (length xs)"
proof (induction xs rule: rev_induct)
  case (snoc y xs)
  then have "top_of xs = int (length xs)" "y = int (length xs) + 1" by (simp_all add: dense_snoc)
  then show ?case by (cases xs) (simp_all add: top_of_def)
qed (simp add: top_of_def)

lemma next_event_sequence_dense:
  "dense_sequences d \<Longrightarrow>
     next_event_sequence o' c d = int (length (call_sequences o' c d)) + 1"
  using dense_top [of "call_sequences o' c d"]
  by (simp add: dense_sequences_def next_event_sequence_def call_sequences_def top_of_def)

lemma dense_append:
  assumes "dense_sequences d"
  shows "dense_sequences (d_riskEvents_update (\<lambda>rs. rs @ [risk_event_row_of n a i
           (next_event_sequence (dn_org n) (as_call (dc_session (dn_context n))) d)]) d)"
    (is "dense_sequences ?d")
proof -
  have "dense (call_sequences o' c ?d)" for o' c
  proof (cases "o' = dn_org n \<and> c = as_call (dc_session (dn_context n))")
    case True
    then have "call_sequences o' c ?d =
        call_sequences o' c d @ [int (length (call_sequences o' c d)) + 1]"
      using next_event_sequence_dense [OF assms]
      by (simp add: call_sequences_def risk_event_row_of_def Let_def dn_org_def)
    with assms show ?thesis by (simp add: dense_snoc dense_sequences_def)
  next
    case False
    then have "call_sequences o' c ?d = call_sequences o' c d"
      by (auto simp: call_sequences_def risk_event_row_of_def Let_def dn_org_def)
    with assms show ?thesis by (simp add: dense_sequences_def)
  qed
  then show ?thesis by (simp add: dense_sequences_def)
qed

interpretation dense_inv: pipeline_invariant env dense_sequences for env
  by unfold_locales (rule dense_append | simp add: dense_sequences_def call_sequences_def)+

section \<open>Failure\<close>

lemma ingest_attempts_atomic:
  "ingest_attempts n operation w = (Inl e, w') \<Longrightarrow> w_db w' = w_db w"
proof (induction n arbitrary: w)
  case 0
  then show ?case
    by (subst (asm) ingest_attempts.simps)
      (auto simp: catchM_def monad_simps split: prod.splits sum.splits if_splits
        dest: serializable_atomic)
next
  case (Suc n)
  obtain r w1 where r: "serializable operation w = (r, w1)" by fastforce
  with Suc.prems obtain x where x: "r = Inl x"
    by (cases r) (auto simp: ingest_attempts.simps [of "Suc n"])
  with r have "w_db w1 = w_db w" by (auto dest: serializable_atomic)
  with Suc r x show ?case
    by (auto simp: ingest_attempts.simps [of "Suc n"] monad_simps split: if_splits)
qed

text \<open>
  A decision that changes the state while the last window is insufficient: the assessment carries
  the new state, nothing else is written, and the next decision sees no transition.
\<close>

lemma keeps_write_assessment_frame:
  assumes "\<And>d f. I (d_assessments_update f d) = I d" "\<And>d f. I (d_assessmentEvidence_update f d) = I d"
    "\<And>d f. I (d_audit_update f d) = I d"
  shows "keeps (on_db I) (write_assessment n)"
  unfolding write_assessment_def link_evidence_def
  by (intro hoare keeps_create keeps_audit_appendWithClient)
    (auto simp: assessments_table_def assessmentEvidence_table_def assms)

lemma write_assessment_row:
  assumes "write_assessment n w = (Inr a, w')"
  shows "d_assessments (w_db w') = d_assessments (w_db w) @ [a]"
    and "a = assessment_row_of n (ra_id a) (ra_createdAt a)"
proof -
  have l: "keeps (on_db (\<lambda>d. d_assessments d = as))
      (link_evidence assessmentEvidence_table x y zs)" for as x y zs
    unfolding link_evidence_def by (intro hoare keeps_create) (simp add: assessmentEvidence_table_def)
  have u: "keeps (on_db (\<lambda>d. d_assessments d = as)) (audit_appendWithClient x y)" for as x y
    by (rule keeps_audit_appendWithClient) simp
  let ?rest = "\<lambda>x. thenM (link_evidence assessmentEvidence_table (dn_org n) (ra_id x)
        (rr_evidenceEventIds (dn_result n)))
     (bindM (audit_appendWithClient (dn_org n)
        (pipeline_audit n (ra_id x @ '':audit'') ''risk.assessment.recorded''
           ''RiskAssessment'' (ra_id x)
           (Some (if ad_activationSuppressed (dn_activation n)
                  then ''PRODUCTION_ACTIVATION_SUPPRESSED'' else ''PRODUCTION_ELIGIBLE''))
           (assessment_metadata n))) (\<lambda>_. returnM x))"
  have rest: "keeps (on_db (\<lambda>d. d_assessments d = as)) (?rest x)" for as x
    by (intro hoare l u)
  from assms obtain i w1 where 1: "new_id w = (Inr i, w1)"
      "bindM now (\<lambda>t. bindM (create assessments_table (assessment_row_of n i t)) ?rest) w1 = (Inr a, w')"
    unfolding write_assessment_def by (rule bindM_eq_InrE)
  from 1(2) obtain t w2 where 2: "now w1 = (Inr t, w2)"
      "bindM (create assessments_table (assessment_row_of n i t)) ?rest w2 = (Inr a, w')"
    by (rule bindM_eq_InrE)
  from 2(2) obtain x w3 where 3: "create assessments_table (assessment_row_of n i t) w2 = (Inr x, w3)"
      "?rest x w3 = (Inr a, w')"
    by (rule bindM_eq_InrE)
  have x: "x = assessment_row_of n i t" "a = x"
    and w3: "d_assessments (w_db w3) = d_assessments (w_db w) @ [x]"
    using 1(1) 2(1) 3 by (auto simp: run_simps assessments_table_def)
  show "d_assessments (w_db w') = d_assessments (w_db w) @ [a]"
    using keepsD [OF rest _ 3(2)] w3 x(2) by (simp add: on_db_def)
  from x show "a = assessment_row_of n (ra_id a) (ra_createdAt a)"
    by (simp add: assessment_row_of_def Let_def)
qed

lemma write_assessment_quiet:
  assumes "write_assessment n w = (Inr a, w')"
  shows "d_riskEvents (w_db w') = d_riskEvents (w_db w)"
    and "d_interventions (w_db w') = d_interventions (w_db w)"
    and "d_alerts (w_db w') = d_alerts (w_db w)"
  using keepsD [OF keeps_write_assessment_frame [of "\<lambda>d. d_riskEvents d = d_riskEvents (w_db w)"] _ assms]
    keepsD [OF keeps_write_assessment_frame [of "\<lambda>d. d_interventions d = d_interventions (w_db w)"] _ assms]
    keepsD [OF keeps_write_assessment_frame [of "\<lambda>d. d_alerts d = d_alerts (w_db w)"] _ assms]
  by (simp_all add: on_db_def)

section \<open>Properties\<close>

text \<open>The world of the examples: one simulated session of one call under one policy.\<close>

definition sample_env :: runtime where
  "sample_env = \<lparr>x_config = engineering_configuration, x_sha256 = (\<lambda>s. s)\<rparr>"

definition sample_uuid :: "nat \<Rightarrow> uuid" where
  "sample_uuid n = ''99999999-9999-4999-8999-9999999999'' @ [digit_char (n div 10 mod 10), digit_char (n mod 10)]"

definition policy1 :: uuid where "policy1 = ''66666666-6666-4666-8666-666666666666''"

definition sample_policy_row :: policy_row where
  "sample_policy_row = \<lparr>rp_id = policy1, rp_org = org1, rp_key = ''default'', rp_version = ''1'',
     rp_schemaVersion = ''1.0.0'',
     rp_document = policy_json (sample_policy\<lparr>pd_entryWindows := 1\<rparr>),
     rp_status = POLICY_ACTIVE, rp_createdBy = org1, rp_effectiveAt = Some 0,
     rp_retiredAt = None, rp_createdAt = 0\<rparr>"

definition sample_model :: "uuid \<Rightarrow> string \<Rightarrow> ScoreTarget \<Rightarrow> model_row" where
  "sample_model i name target = \<lparr>mv_id = i, mv_name = name, mv_version = ''1'',
     mv_capability = CAP_FAST_SPOOF, mv_checkpointHash = ''aa'', mv_checkpointSource = ''s'',
     mv_checkpointLicense = ''l'', mv_inputSampleRateHz = 16000, mv_inputChannelCount = 1,
     mv_scoreName = ''similarity'',
     mv_scoreDirection = HIGHER_MEANS_MORE, mv_scoreTarget = Some target,
     mv_calibrationVersion = None, mv_status = MODEL_ACTIVE\<rparr>"

definition sample_call_row :: call_row where
  "sample_call_row = \<lparr>ca_id = call1, ca_org = org1, ca_roomName = ''room'', ca_expectedSpeaker = None,
     ca_policyId = policy1, ca_policyVersion = ''1'', ca_createdBy = org1, ca_idemKey = ''c'',
     ca_protectedAction = Some ''transfer'', ca_status = CALL_ACTIVE, ca_authorizedAt = Some 0,
     ca_startedAt = Some 0, ca_endedAt = None, ca_createdAt = 0\<rparr>"

definition sample_session_row :: session_row where
  "sample_session_row = \<lparr>as_id = session1, as_org = org1, as_call = call1, as_binding = binding1,
     as_voiceprint = None, as_idemKey = ''s'', as_bindingRevision = 0,
     as_evidenceMode = MODE_SIMULATED, as_status = SESS_ACTIVE, as_authorizedAt = 0,
     as_startedAt = Some 0, as_stoppedAt = None, as_expiresAt = 600000, as_failureCode = None,
     as_createdAt = 0\<rparr>"

definition sample_db :: db where
  "sample_db = empty_db\<lparr>d_calls := [sample_call_row], d_sessions := [sample_session_row],
     d_policies := [sample_policy_row],
     d_models := [sample_model model1 ''voice'' TARGET_EXPECTED_SPEAKER,
                  sample_model org1 ''spoof'' TARGET_SPOOF]\<rparr>"

definition demo_world :: world where
  "demo_world = (sample_world sample_db)\<lparr>w_ids := sample_uuid\<rparr>"

definition voice_input :: "string \<Rightarrow> int \<Rightarrow> int \<Rightarrow> RecordEvidenceInput" where
  "voice_input key sequence window =
     (sample_input key sequence 0 1)\<lparr>ri_windowSequence := window, ri_qualityScore := Some 1\<rparr>"

definition spoof_input :: "string \<Rightarrow> int \<Rightarrow> int \<Rightarrow> RecordEvidenceInput" where
  "spoof_input key sequence window =
     (voice_input key sequence window)\<lparr>ri_evidenceType := SPOOF_FAST,
        ri_modelVersionId := Some org1, ri_modelName := Some ''spoof''\<rparr>"

text \<open>What the ingestion of a list of inputs leaves in the database.\<close>

definition ingest_all :: "RecordEvidenceInput list \<Rightarrow> db" where
  "ingest_all inputs =
     w_db (fold (\<lambda>i w. snd (ingestAcceptedEvidence sample_env org1 i w)) inputs demo_world)"

text \<open>
  C2: while one promotion gate is closed, no evidence makes the pipeline store an eligible
  assessment or a risk event, intervention or alert in production mode.
\<close>

theorem closed_gates_no_production:
  assumes "\<not> gates_promoted (c_risk (x_config env))" "no_production (w_db w)"
  shows "no_production (w_db (snd (ingestAcceptedEvidence env organizationId input w)))"
  using gated_inv.ingest_preserves [of env w organizationId input] assms by (simp add: gated_def)

theorem closed_gates_no_production_witness:
  "no_production (w_db (snd (ingestAcceptedEvidence sample_env org1 (voice_input ''k'' 0 0) demo_world)))"
proof (rule closed_gates_no_production)
  show "\<not> gates_promoted (c_risk (x_config sample_env))"
    by (simp add: gates_promoted_def sample_env_def engineering_configuration_def)
  show "no_production (w_db demo_world)"
    by (simp add: no_production_def demo_world_def sample_world_def sample_db_def empty_db_def)
qed

text \<open>
  C20: a shadow decision is only observed: the pipeline never stores an intervention in shadow
  mode, nor a shadow alert other than the dashboard's, and a hold intervention always names the
  protected action of its call.
\<close>

theorem shadow_is_observation_only:
  assumes "controls_ok (w_db w)"
  shows "controls_ok (w_db (snd (ingestAcceptedEvidence env organizationId input w)))"
  using controls_inv.ingest_preserves [OF assms] .

theorem shadow_is_observation_only_witness:
  "controls_ok (w_db (snd (ingestAcceptedEvidence sample_env org1 (voice_input ''k'' 0 0) demo_world)))"
  by (rule shadow_is_observation_only)
    (simp add: controls_ok_def demo_world_def sample_world_def sample_db_def empty_db_def)

text \<open>
  C12: the risk events of a call are numbered without gap or repetition, in the order they are
  written, whatever evidence of whatever session of the call causes them.
\<close>

theorem risk_event_numbers_dense:
  assumes "dense_sequences (w_db w)"
  shows "dense_sequences (w_db (snd (ingestAcceptedEvidence env organizationId input w)))"
  using dense_inv.ingest_preserves [OF assms] .

theorem risk_event_numbers_dense_witness:
  "dense_sequences (w_db (snd (ingestAcceptedEvidence sample_env org1 (voice_input ''k'' 0 0) demo_world)))"
  by (rule risk_event_numbers_dense)
    (simp add: dense_sequences_def dense_def call_sequences_def demo_world_def sample_world_def
      sample_db_def empty_db_def)

text \<open>
  C19: ingestion is atomic: when it throws, at any step and after any number of attempts, the
  database is what it was, the evidence itself included.
\<close>

theorem ingestion_atomic:
  assumes "ingestAcceptedEvidence env organizationId input w = (Inl e, w')"
  shows "w_db w' = w_db w"
  using ingest_attempts_atomic assms unfolding ingestAcceptedEvidence_def .

theorem ingestion_atomic_witness:
  "w_db (snd (ingestAcceptedEvidence sample_env org1 (voice_input ''k'' 0 0) (sample_world empty_db)))
     = empty_db"
proof -
  have "fst (ingestAcceptedEvidence sample_env org1 (voice_input ''k'' 0 0) (sample_world empty_db))
      = Inl P2025_RecordNotFound"
    by code_simp
  then have "ingestAcceptedEvidence sample_env org1 (voice_input ''k'' 0 0) (sample_world empty_db) =
      (Inl P2025_RecordNotFound,
       snd (ingestAcceptedEvidence sample_env org1 (voice_input ''k'' 0 0) (sample_world empty_db)))"
    by (metis prod.collapse)
  from ingestion_atomic [OF this] show ?thesis by (simp add: sample_world_def)
qed


text \<open>
  A decision of the kind C17 is about: the first window is spoofed, the second one has its voice
  evidence and not yet its spoof evidence. The engine enters the critical state at the first window.
\<close>

definition late_decision :: "err + decision" where
  "late_decision =
     bindE (evidence_row_of org1 (voice_input ''c'' 2 1) ''c'' ACCEPTED None (sample_uuid 90))
       (\<lambda>trigger.
     bindE (evaluateRiskEvidence
        [sample_event ''a'' IDENTITY 0 0 TARGET_EXPECTED_SPEAKER 1,
         sample_event ''b'' SPOOF_FAST 0 1 TARGET_SPOOF 1,
         sample_event ''c'' IDENTITY 1 2 TARGET_EXPECTED_SPEAKER 1]
        (sample_policy\<lparr>pd_entryWindows := 1\<rparr>)) (\<lambda>evaluated.
     Inr (decide sample_env
       \<lparr>dc_session = sample_session_row, dc_call = sample_call_row,
        dc_policy = sample_policy_row, dc_evidence = []\<rparr>
       trigger (sample_policy\<lparr>pd_entryWindows := 1\<rparr>) evaluated None)))"


end
