(* ===== verification/Pagination.thy ===== *)
theory Pagination
  imports Database_Types "HOL-Library.Product_Lexorder"
begin

text \<open>
  \<open>database/pagination.ts\<close> and the query of every list operation: rows in descending order of a
  time and an identifier, a page of at most the requested size, and a cursor that holds the key
  of the page's last row. The cursor's text (JSON in base64url) is the parameter \<open>cursor_codec\<close>:
  \<open>cc_decode\<close> gives the instant and the identifier of a text that decodes to an object with two
  such strings, and nothing otherwise.
\<close>

type_synonym cursor = "instant \<times> uuid"

record cursor_codec =
  cc_encode :: "cursor \<Rightarrow> string"
  cc_decode :: "string \<Rightarrow> cursor option"

record PageRequest =
  pq_cursor :: "string option"
  pq_limit :: "rat option"

record 'r PageResult =
  pg_items :: "'r list"
  pg_nextCursor :: "string option"

definition MAXIMUM_CURSOR_LENGTH :: nat where
  "MAXIMUM_CURSOR_LENGTH = 512"

definition encodeTimeCursor :: "cursor_codec \<Rightarrow> cursor \<Rightarrow> string" where
  "encodeTimeCursor codec c = cc_encode codec c"

definition decodeTimeCursor :: "cursor_codec \<Rightarrow> string option \<Rightarrow> err + cursor option" where
  "decodeTimeCursor codec value = (case value of
     None \<Rightarrow> Inr None
   | Some v \<Rightarrow>
       if length v = 0 \<or> MAXIMUM_CURSOR_LENGTH < length v then Inl InvalidPaginationCursorError
       else case cc_decode codec v of
              None \<Rightarrow> Inl InvalidPaginationCursorError
            | Some (timestamp, i) \<Rightarrow>
                (case requireUuid i ''cursor.id'' of
                   Inl e \<Rightarrow> Inl InvalidPaginationCursorError
                 | Inr u \<Rightarrow> Inr (Some (timestamp, u))))"

text \<open>The query: \<open>where\<close> below the cursor, \<open>orderBy\<close> both columns descending, \<open>take\<close>.\<close>

definition keyset_query ::
  "('r \<Rightarrow> cursor) \<Rightarrow> cursor option \<Rightarrow> nat \<Rightarrow> 'r list \<Rightarrow> 'r list" where
  "keyset_query key after limit rs =
     take limit (rev (sort_key key (filter (\<lambda>r. case after of None \<Rightarrow> True
       | Some (timestamp, i) \<Rightarrow> fst (key r) < timestamp \<or>
           (fst (key r) = timestamp \<and> snd (key r) < i)) rs)))"

definition page_of ::
  "cursor_codec \<Rightarrow> ('r \<Rightarrow> cursor) \<Rightarrow> nat \<Rightarrow> 'r list \<Rightarrow> 'r PageResult" where
  "page_of codec key limit found =
     (let hasNextPage = limit < length found;
          items = (if hasNextPage then take limit found else found) in
      \<lparr>pg_items = items,
       pg_nextCursor = (if hasNextPage \<and> items \<noteq> []
         then Some (encodeTimeCursor codec (key (last items))) else None)\<rparr>)"

definition keyset_page ::
  "cursor_codec \<Rightarrow> ('r \<Rightarrow> cursor) \<Rightarrow> PageRequest \<Rightarrow> 'r list \<Rightarrow> err + 'r PageResult" where
  "keyset_page codec key request rs =
     bindE (pageLimit (pq_limit request)) (\<lambda>limit.
     bindE (decodeTimeCursor codec (pq_cursor request)) (\<lambda>after.
     Inr (page_of codec key limit (keyset_query key after (limit + 1) rs))))"

section \<open>Reading all pages\<close>

text \<open>A client that follows the cursors: at most \<open>fuel\<close> pages of \<open>limit\<close> rows each.\<close>

fun read_pages ::
  "cursor_codec \<Rightarrow> ('r \<Rightarrow> cursor) \<Rightarrow> rat option \<Rightarrow> nat \<Rightarrow> string option \<Rightarrow> 'r list \<Rightarrow>
   'r list list option" where
  "read_pages codec key limit 0 after rs = None"
| "read_pages codec key limit (Suc fuel) after rs =
     (case keyset_page codec key \<lparr>pq_cursor = after, pq_limit = limit\<rparr> rs of
        Inl e \<Rightarrow> None
      | Inr page \<Rightarrow>
          (case pg_nextCursor page of
             None \<Rightarrow> Some [pg_items page]
           | Some c \<Rightarrow> map_option ((#) (pg_items page))
                         (read_pages codec key limit fuel (Some c) rs)))"

text \<open>What the platform's encoding gives: the text of a cursor decodes to it and is not long.\<close>

definition codec_ok :: "cursor_codec \<Rightarrow> cursor list \<Rightarrow> bool" where
  "codec_ok codec cs \<longleftrightarrow>
     (\<forall>c \<in> set cs. cc_decode codec (cc_encode codec c) = Some c \<and>
        cc_encode codec c \<noteq> [] \<and> length (cc_encode codec c) \<le> MAXIMUM_CURSOR_LENGTH)"

lemma decode_encode:
  "codec_ok codec cs \<Longrightarrow> c \<in> set cs \<Longrightarrow> is_uuid (snd c) \<Longrightarrow>
     decodeTimeCursor codec (Some (encodeTimeCursor codec c)) = Inr (Some c)"
  by (cases c)
    (auto simp: codec_ok_def decodeTimeCursor_def encodeTimeCursor_def requireUuid_def)

definition newest_first :: "('r \<Rightarrow> cursor) \<Rightarrow> 'r list \<Rightarrow> 'r list" where
  "newest_first key rs = rev (sort_key key rs)"

lemma keyset_query_below:
  "keyset_query key after n rs =
     take n (filter (\<lambda>r. case after of None \<Rightarrow> True | Some c \<Rightarrow> key r < c) (newest_first key rs))"
proof -
  have "(\<lambda>r. case after of None \<Rightarrow> True | Some (t, i) \<Rightarrow> fst (key r) < t \<or>
          (fst (key r) = t \<and> snd (key r) < i)) =
        (\<lambda>r. case after of None \<Rightarrow> True | Some c \<Rightarrow> key r < c)"
    by (auto simp: fun_eq_iff less_prod_def split: option.split prod.split)
  then show ?thesis
    by (simp add: keyset_query_def newest_first_def rev_filter [symmetric] filter_sort)
qed

lemma newest_first_strict:
  assumes "distinct (map key rs)" "newest_first key rs = xs @ x # ys"
  shows "(\<forall>z \<in> set ys. key z < key x) \<and> (\<forall>z \<in> set xs. key x < key z)"
proof -
  let ?s = "sort_key key rs"
  have s: "?s = rev ys @ x # rev xs"
    using arg_cong [OF assms(2), of rev] by (simp add: newest_first_def)
  have "distinct (map key ?s)"
    using assms(1) by (simp add: distinct_map)
  moreover have "sorted (map key ?s)" by simp
  ultimately have "sorted (map key ?s) \<and> distinct (map key ?s)" by simp
  then have "sorted_wrt (<) (map key ?s)" by (simp only: strict_sorted_iff)
  then show ?thesis unfolding s by (auto simp: sorted_wrt_append)
qed

lemma below_last:
  assumes "distinct (map key rs)" "newest_first key rs = xs @ ys" "xs \<noteq> []"
  shows "filter (\<lambda>r. key r < key (last xs)) (newest_first key rs) = ys"
proof -
  obtain us u where u: "xs = us @ [u]" using assms(3) by (metis rev_exhaust)
  with assms(2) have "newest_first key rs = us @ u # ys" by simp
  with newest_first_strict [OF assms(1) this] show ?thesis
    by (auto simp: u filter_empty_conv intro!: filter_True dest: less_asym)
qed

text \<open>One page, when \<open>xs\<close> was read before and \<open>ys\<close> is left.\<close>

definition cursor_after :: "cursor_codec \<Rightarrow> ('r \<Rightarrow> cursor) \<Rightarrow> 'r list \<Rightarrow> string option" where
  "cursor_after codec key xs =
     (if xs = [] then None else Some (encodeTimeCursor codec (key (last xs))))"

lemma page_step:
  assumes "distinct (map key rs)" "codec_ok codec (map key rs)"
    and "\<forall>r \<in> set rs. is_uuid (snd (key r))" "pageLimit limit = Inr n"
    and split: "newest_first key rs = xs @ ys"
  shows "keyset_page codec key \<lparr>pq_cursor = cursor_after codec key xs, pq_limit = limit\<rparr> rs =
    Inr \<lparr>pg_items = take n ys,
         pg_nextCursor = (if n < length ys then cursor_after codec key (xs @ take n ys) else None)\<rparr>"
proof -
  have n: "0 < n" using pageLimit_bounds [OF assms(4)] by simp
  let ?after = "if xs = [] then None else Some (key (last xs))"
  have "decodeTimeCursor codec (cursor_after codec key xs) = Inr ?after"
  proof (cases "xs = []")
    case False
    then have "last xs \<in> set (newest_first key rs)" by (simp add: split)
    then have "last xs \<in> set rs" by (simp add: newest_first_def)
    with False assms(2,3) show ?thesis
      by (simp add: cursor_after_def decode_encode [of codec "map key rs"])
  qed (simp add: cursor_after_def decodeTimeCursor_def)
  moreover have "keyset_query key ?after (n + 1) rs = take (n + 1) ys"
    using below_last [OF assms(1) split] split
    by (cases "xs = []") (simp_all add: keyset_query_below del: filter_append)
  ultimately show ?thesis
    using assms(4) n
    by (auto simp: keyset_page_def page_of_def Let_def cursor_after_def min_def)
qed

lemma pages_from:
  assumes "distinct (map key rs)" "codec_ok codec (map key rs)"
    and "\<forall>r \<in> set rs. is_uuid (snd (key r))" "pageLimit limit = Inr n"
    and "newest_first key rs = xs @ ys" "length ys < fuel"
  shows "\<exists>pages. read_pages codec key limit fuel (cursor_after codec key xs) rs = Some pages \<and>
    concat pages = ys \<and> (\<forall>p \<in> set pages. length p \<le> n)"
  using assms(5,6)
proof (induction fuel arbitrary: xs ys)
  case (Suc fuel)
  note page = page_step [OF assms(1-4) Suc.prems(1)]
  have n: "0 < n" using pageLimit_bounds [OF assms(4)] by simp
  show ?case
  proof (cases "n < length ys")
    case True
    then have "length (drop n ys) < fuel" using Suc.prems(2) n by simp
    moreover have "newest_first key rs = (xs @ take n ys) @ drop n ys"
      using Suc.prems(1) by simp
    ultimately obtain pages where p: "concat pages = drop n ys" "\<forall>p \<in> set pages. length p \<le> n"
        "read_pages codec key limit fuel (cursor_after codec key (xs @ take n ys)) rs = Some pages"
      using Suc.IH by blast
    obtain c where "cursor_after codec key (xs @ take n ys) = Some c"
      using True n by (cases ys) (auto simp: cursor_after_def)
    with p page True show ?thesis by (intro exI [of _ "take n ys # pages"]) simp
  next
    case False
    with page show ?thesis by simp
  qed
qed simp

section \<open>Properties\<close>

text \<open>
  C36: following the cursors returns every row exactly once, newest first, in pages of at most the
  requested size, and ends: as many pages as there are rows, and one more, are enough. Rows have
  distinct keys, and the encoding of a cursor decodes to the cursor.
\<close>

theorem pages_complete:
  assumes "distinct (map key rs)" "codec_ok codec (map key rs)"
    and "\<forall>r \<in> set rs. is_uuid (snd (key r))" "pageLimit limit = Inr n"
  shows "\<exists>pages. read_pages codec key limit (Suc (length rs)) None rs = Some pages \<and>
    concat pages = rev (sort_key key rs) \<and> (\<forall>p \<in> set pages. length p \<le> n)"
  using pages_from [OF assms, of "[]" "newest_first key rs" "Suc (length rs)"]
  by (simp add: cursor_after_def newest_first_def)

text \<open>A codec for the example: the instant, a blank and the identifier.\<close>

definition sample_codec :: cursor_codec where
  "sample_codec = \<lparr>cc_encode = (\<lambda>(t, i). int_string t @ '' '' @ i),
     cc_decode = (\<lambda>s. if s = ''5 22222222-2222-4222-8222-222222222222''
        then Some (5, ''22222222-2222-4222-8222-222222222222'')
        else if s = ''7 11111111-1111-4111-8111-111111111111''
        then Some (7, ''11111111-1111-4111-8111-111111111111'') else None)\<rparr>"

definition sample_keys :: "cursor list" where
  "sample_keys = [(5, ''22222222-2222-4222-8222-222222222222''),
     (7, ''11111111-1111-4111-8111-111111111111'')]"

theorem pages_complete_witness:
  "\<exists>pages. read_pages sample_codec (\<lambda>c. c) (Some 1) 3 None sample_keys = Some pages \<and>
     concat pages = rev (sort_key (\<lambda>c. c) sample_keys) \<and> (\<forall>p \<in> set pages. length p \<le> 1)"
proof -
  have "distinct (map (\<lambda>c. c) sample_keys)" by code_simp
  moreover have "codec_ok sample_codec (map (\<lambda>c. c) sample_keys)" by code_simp
  moreover have "\<forall>r \<in> set sample_keys. is_uuid (snd r)" by code_simp
  moreover have "pageLimit (Some 1) = Inr 1" by code_simp
  moreover have "Suc (length sample_keys) = 3" by (simp add: sample_keys_def)
  ultimately show ?thesis
    using pages_complete [of "\<lambda>c. c" sample_keys sample_codec "Some 1" 1] by simp
qed

end
