(* ===== verification/Risk_Repository.thy ===== *)
theory Risk_Repository
  imports Risk_Context Pagination
begin

text \<open>
  \<open>modules/risk/risk.repository.ts\<close>: assessments and risk transitions that a caller decided are
  stored once per idempotency key, each in one transaction with its evidence links and audit row;
  a transition also stores its interventions and alerts and is refused unless the production
  gates are open. Interventions and verification challenges change status by compare and set.
\<close>

section \<open>Inputs\<close>

record InterventionWriteInput =
  iw_idempotencyKey :: string
  iw_type :: InterventionType
  iw_policyVersion :: string
  iw_reasonCode :: string
  iw_protectedAction :: "string option"
  iw_expiresAt :: "instant option"

record AlertWriteInput =
  aw_idempotencyKey :: string
  aw_channel :: AlertChannel
  aw_eventType :: string
  aw_schemaVersion :: string
  aw_recipient :: "string option"
  aw_interventionIndex :: "int option"

record RecordRiskTransitionInput =
  tr_callId :: uuid
  tr_sessionId :: "uuid option"
  tr_policyId :: uuid
  tr_idempotencyKey :: string
  tr_schemaVersion :: string
  tr_eventSequence :: int
  tr_priorState :: RiskState
  tr_state :: RiskState
  tr_reasonCode :: string
  tr_policyKey :: string
  tr_policyVersion :: string
  tr_thresholdVersion :: string
  tr_occurredAt :: instant
  tr_evidenceIds :: "uuid list"
  tr_interventions :: "InterventionWriteInput list"
  tr_alerts :: "AlertWriteInput list"
  tr_auditActor :: "uuid option"
  tr_auditCorrelationId :: string
  tr_auditKey :: string

record RecordRiskAssessmentInput =
  ai_callId :: uuid
  ai_sessionId :: uuid
  ai_policyId :: uuid
  ai_idempotencyKey :: string
  ai_schemaVersion :: string
  ai_evidenceHash :: string
  ai_evidenceMode :: EvidenceMode
  ai_decisionMode :: RiskDecisionMode
  ai_outcome :: RiskAssessmentOutcome
  ai_priorState :: RiskState
  ai_effectiveState :: RiskState
  ai_transitioned :: bool
  ai_productionEligible :: bool
  ai_activationSuppressed :: bool
  ai_reasonCode :: string
  ai_policyKey :: string
  ai_policyVersion :: string
  ai_thresholdVersion :: string
  ai_calibrationVersion :: "string option"
  ai_proposedInterventions :: "InterventionType list"
  ai_maxWindowSequence :: int
  ai_occurredAt :: instant
  ai_evidenceIds :: "uuid list"
  ai_auditCorrelationId :: string
  ai_auditKey :: string

type_synonym assessment_aggregate = "assessment_row \<times> uuid list"

type_synonym risk_event_aggregate =
  "risk_event_row \<times> uuid list \<times> intervention_row list \<times> alert_row list"

section \<open>Reading\<close>

definition loadDecisionContext :: "uuid \<Rightarrow> uuid \<Rightarrow> decision_context op" where
  "loadDecisionContext context analysisSessionId =
     bindM (liftE (requireTenant context)) (\<lambda>organizationId.
     bindM (liftE (requireUuid analysisSessionId ''analysisSessionId'')) (\<lambda>i.
     load_context organizationId i (TenantResourceNotFoundError ''Analysis session'')))"

definition findLatestAssessment :: "uuid \<Rightarrow> uuid \<Rightarrow> assessment_row option op" where
  "findLatestAssessment context analysisSessionId =
     bindM (liftE (requireTenant context)) (\<lambda>organizationId.
     bindM (liftE (requireUuid analysisSessionId ''analysisSessionId'')) (\<lambda>i.
     find_latest assessments_table (\<lambda>a. ra_org a = organizationId \<and> ra_session a = i)
       (\<lambda>a. (ra_createdAt a, ra_id a))))"

definition assessment_links :: "assessment_row \<Rightarrow> uuid list op" where
  "assessment_links a =
     getM (\<lambda>w. map el_evidence (filter (\<lambda>l. el_org l = ra_org a \<and> el_owner l = ra_id a)
       (d_assessmentEvidence (w_db w))))"

definition with_links :: "assessment_row \<Rightarrow> assessment_aggregate op" where
  "with_links a = bindM (assessment_links a) (\<lambda>ids. returnM (a, ids))"

definition findAssessmentByIdempotency :: "uuid \<Rightarrow> string \<Rightarrow> assessment_aggregate option op" where
  "findAssessmentByIdempotency organizationId idempotencyKey =
     bindM (find_unique_row assessments_table
              (\<lambda>a. ra_org a = organizationId \<and> ra_idemKey a = idempotencyKey)) (\<lambda>found.
     case found of None \<Rightarrow> returnM None
     | Some a \<Rightarrow> bindM (with_links a) (\<lambda>agg. returnM (Some agg)))"

definition event_aggregate :: "risk_event_row \<Rightarrow> risk_event_aggregate op" where
  "event_aggregate e =
     getM (\<lambda>w. (e,
       map el_evidence (filter (\<lambda>l. el_org l = re_org e \<and> el_owner l = re_id e)
         (d_riskEventEvidence (w_db w))),
       filter (\<lambda>i. iv_org i = re_org e \<and> iv_riskEvent i = re_id e) (d_interventions (w_db w)),
       filter (\<lambda>a. al_org a = re_org e \<and> al_riskEvent a = re_id e) (d_alerts (w_db w))))"

definition findByIdempotency :: "uuid \<Rightarrow> string \<Rightarrow> risk_event_aggregate option op" where
  "findByIdempotency organizationId idempotencyKey =
     bindM (find_unique_row riskEvents_table
              (\<lambda>e. re_org e = organizationId \<and> re_idemKey e = idempotencyKey)) (\<lambda>found.
     case found of None \<Rightarrow> returnM None
     | Some e \<Rightarrow> bindM (event_aggregate e) (\<lambda>agg. returnM (Some agg)))"

section \<open>Assessments\<close>

definition sha256_pattern :: "string \<Rightarrow> bool" where
  "sha256_pattern s \<longleftrightarrow> length s = 64 \<and>
     list_all (\<lambda>c. (CHR ''0'' \<le> c \<and> c \<le> CHR ''9'') \<or> (CHR ''a'' \<le> c \<and> c \<le> CHR ''f'')) s"

definition assessment_equivalent :: "assessment_aggregate \<Rightarrow> RecordRiskAssessmentInput \<Rightarrow> bool" where
  "assessment_equivalent existing input \<longleftrightarrow> (case existing of (a, ids) \<Rightarrow>
     ra_call a = ai_callId input \<and> ra_session a = ai_sessionId input \<and>
     ra_policyId a = ai_policyId input \<and> ra_schemaVersion a = ai_schemaVersion input \<and>
     ra_evidenceHash a = ai_evidenceHash input \<and> ra_evidenceMode a = ai_evidenceMode input \<and>
     ra_decisionMode a = ai_decisionMode input \<and> ra_outcome a = ai_outcome input \<and>
     ra_priorState a = ai_priorState input \<and> ra_effectiveState a = ai_effectiveState input \<and>
     ra_transitioned a = ai_transitioned input \<and>
     ra_productionEligible a = ai_productionEligible input \<and>
     ra_activationSuppressed a = ai_activationSuppressed input \<and>
     ra_reasonCode a = ai_reasonCode input \<and> ra_policyKey a = ai_policyKey input \<and>
     ra_policyVersion a = ai_policyVersion input \<and>
     ra_thresholdVersion a = ai_thresholdVersion input \<and>
     ra_calibrationVersion a = ai_calibrationVersion input \<and>
     ra_maxWindowSequence a = ai_maxWindowSequence input \<and>
     ra_occurredAt a = ai_occurredAt input \<and>
     ra_proposedInterventions a = ai_proposedInterventions input \<and>
     sort ids = sort (dedup (ai_evidenceIds input)))"

definition require_evidence_ids :: "uuid list \<Rightarrow> uuid list op" where
  "require_evidence_ids ids =
     mapM (\<lambda>i. liftE (requireUuid i ''evidenceEventId'')) (dedup ids)"

definition new_assessment_row ::
  "uuid \<Rightarrow> RecordRiskAssessmentInput \<Rightarrow> string \<Rightarrow> session_row \<Rightarrow> policy_row \<Rightarrow> uuid \<Rightarrow> instant \<Rightarrow>
   err + assessment_row" where
  "new_assessment_row organizationId input idempotencyKey session policy newId createdAt =
     bindE (requireText (ai_schemaVersion input) ''schemaVersion'' 40) (\<lambda>schemaVersion.
     bindE (requireText (ai_reasonCode input) ''reasonCode'' 80) (\<lambda>reasonCode.
     bindE (requireText (ai_policyKey input) ''policyKey'' 80) (\<lambda>policyKey.
     bindE (requireText (ai_policyVersion input) ''policyVersion'' 40) (\<lambda>policyVersion.
     bindE (requireText (ai_thresholdVersion input) ''thresholdVersion'' 80) (\<lambda>thresholdVersion.
     Inr \<lparr>ra_id = newId, ra_org = organizationId, ra_call = ai_callId input,
          ra_session = as_id session, ra_policyId = rp_id policy, ra_idemKey = idempotencyKey,
          ra_schemaVersion = schemaVersion, ra_evidenceHash = ai_evidenceHash input,
          ra_evidenceMode = ai_evidenceMode input, ra_decisionMode = ai_decisionMode input,
          ra_outcome = ai_outcome input, ra_priorState = ai_priorState input,
          ra_effectiveState = ai_effectiveState input, ra_transitioned = ai_transitioned input,
          ra_productionEligible = ai_productionEligible input,
          ra_activationSuppressed = ai_activationSuppressed input, ra_blockerCodes = [],
          ra_reasonCode = reasonCode, ra_policyKey = policyKey,
          ra_policyVersion = policyVersion, ra_thresholdVersion = thresholdVersion,
          ra_calibrationVersion = ai_calibrationVersion input,
          ra_proposedInterventions = ai_proposedInterventions input,
          ra_maxWindowSequence = ai_maxWindowSequence input,
          ra_occurredAt = ai_occurredAt input, ra_createdAt = createdAt\<rparr>)))))"

definition assessment_audit :: "RecordRiskAssessmentInput \<Rightarrow> uuid \<Rightarrow> AppendAuditInput" where
  "assessment_audit input assessmentId =
     \<lparr>aa_actor = None, aa_correlationId = ai_auditCorrelationId input,
      aa_idempotencyKey = Some (ai_auditKey input), aa_action = ''risk.assessment.recorded'',
      aa_targetType = ''RiskAssessment'', aa_targetId = assessmentId,
      aa_outcome = AUDIT_SUCCEEDED,
      aa_reasonCode = Some (if ai_activationSuppressed input
        then ''PRODUCTION_ACTIVATION_SUPPRESSED'' else ''PRODUCTION_ELIGIBLE''),
      aa_sourceIpHash = None,
      aa_metadata = Some (no_metadata\<lparr>
        am_decisionMode := Some (decision_mode_name (ai_decisionMode input)),
        am_evidenceMode := Some (evidence_mode_name (ai_evidenceMode input)),
        am_policyVersion := Some (ai_policyVersion input),
        am_thresholdVersion := Some (ai_thresholdVersion input),
        am_productionEligible := Some (ai_productionEligible input)\<rparr>),
      aa_occurredAt = Some (ai_occurredAt input)\<rparr>"

definition policy_matches_call ::
  "policy_row option \<Rightarrow> string \<Rightarrow> string \<Rightarrow> call_row \<Rightarrow> bool" where
  "policy_matches_call policy policyKey policyVersion call = (case policy of
     None \<Rightarrow> False
   | Some p \<Rightarrow> rp_key p = policyKey \<and> rp_version p = policyVersion \<and>
       ca_policyId call = rp_id p \<and> ca_policyVersion call = rp_version p)"

text \<open>The evidence that both writers count: accepted, of the call and session, by identifier.\<close>

definition accepted_among :: "uuid \<Rightarrow> uuid \<Rightarrow> uuid option \<Rightarrow> uuid list \<Rightarrow> evidence_row \<Rightarrow> bool" where
  "accepted_among organizationId callId sessionId ids e \<longleftrightarrow>
     ev_org e = organizationId \<and> ev_call e = callId \<and>
     (sessionId = None \<or> sessionId = Some (ev_session e)) \<and>
     List.member ids (ev_id e) \<and> ev_status e = ACCEPTED"

definition link_assessment :: "uuid \<Rightarrow> uuid \<Rightarrow> uuid list \<Rightarrow> unit op" where
  "link_assessment organizationId assessmentId ids =
     iterM ids (\<lambda>i. bindM (create assessmentEvidence_table
       \<lparr>el_org = organizationId, el_owner = assessmentId, el_evidence = i\<rparr>) (\<lambda>_. returnM ()))"

definition insert_assessment ::
  "uuid \<Rightarrow> RecordRiskAssessmentInput \<Rightarrow> string \<Rightarrow> session_row \<Rightarrow> policy_row \<Rightarrow> uuid list \<Rightarrow>
   assessment_aggregate op" where
  "insert_assessment organizationId input idempotencyKey session policy evidenceIds =
     bindM new_id (\<lambda>newId.
     bindM now (\<lambda>createdAt.
     bindM (liftE (new_assessment_row organizationId input idempotencyKey session policy newId
              createdAt)) (\<lambda>row.
     bindM (create assessments_table row) (\<lambda>assessment.
     thenM (link_assessment organizationId (ra_id assessment) evidenceIds)
     (bindM (audit_appendWithClient organizationId (assessment_audit input (ra_id assessment)))
       (\<lambda>_.
     bindM (find_or_throw assessments_table (\<lambda>a. ra_id a = ra_id assessment)
              P2025_RecordNotFound) with_links))))))"

definition store_assessment ::
  "uuid \<Rightarrow> RecordRiskAssessmentInput \<Rightarrow> string \<Rightarrow> assessment_aggregate op" where
  "store_assessment organizationId input idempotencyKey =
     bindM (liftE (requireUuid (ai_callId input) ''callId'')) (\<lambda>callId.
     bindM (liftE (requireUuid (ai_sessionId input) ''analysisSessionId'')) (\<lambda>sessionId.
     bindM (find_or_throw sessions_table
              (\<lambda>s. session_by organizationId sessionId s \<and> as_call s = callId)
              (TenantResourceNotFoundError ''Analysis session'')) (\<lambda>session.
     bindM (find_or_throw calls_table (call_by organizationId (as_call session))
              (TenantResourceNotFoundError ''Analysis session'')) (\<lambda>call.
     bindM (liftE (requireUuid (ai_policyId input) ''riskPolicyId'')) (\<lambda>policyId.
     bindM (find_unique_row policies_table (policy_by organizationId policyId)) (\<lambda>policy.
     thenM (guardM (policy_matches_call policy (ai_policyKey input) (ai_policyVersion input) call)
              (TenantResourceNotFoundError ''Call-frozen risk policy''))
     (bindM (require_evidence_ids (ai_evidenceIds input)) (\<lambda>evidenceIds.
     bindM (count_rows evidence_table (\<lambda>e.
              accepted_among organizationId callId (Some (as_id session)) evidenceIds e \<and>
              ev_mode e = ai_evidenceMode input)) (\<lambda>evidenceCount.
     thenM (guardM (evidenceIds \<noteq> [] \<and> evidenceCount = length evidenceIds)
              (TenantResourceNotFoundError ''Accepted evidence''))
     (insert_assessment organizationId input idempotencyKey session (the policy)
        evidenceIds))))))))))"

definition replay_assessment ::
  "RecordRiskAssessmentInput \<Rightarrow> assessment_aggregate \<Rightarrow> assessment_aggregate op" where
  "replay_assessment input existing =
     thenM (guardM (assessment_equivalent existing input) IdempotencyConflictError)
       (returnM existing)"

definition recordAssessment :: "uuid \<Rightarrow> RecordRiskAssessmentInput \<Rightarrow> assessment_aggregate op" where
  "recordAssessment context input =
     bindM (liftE (requireTenant context)) (\<lambda>organizationId.
     bindM (liftE (requireText (ai_idempotencyKey input) ''idempotencyKey'' 128)) (\<lambda>key.
     thenM (guardM (sha256_pattern (ai_evidenceHash input))
              (PersistenceConflictError ''Risk assessment evidence hash is invalid.''))
     (bindM (findAssessmentByIdempotency organizationId key) (\<lambda>found.
     case found of
       Some existing \<Rightarrow> replay_assessment input existing
     | None \<Rightarrow>
         catchM (serializable (store_assessment organizationId input key)) (\<lambda>error.
           if error = P2002_UniqueConstraint
           then bindM (findAssessmentByIdempotency organizationId key) (\<lambda>replay.
                case replay of Some r \<Rightarrow> replay_assessment input r | None \<Rightarrow> throwM error)
           else throwM error)))))"

section \<open>Transitions\<close>

definition transition_equivalent ::
  "risk_event_aggregate \<Rightarrow> RecordRiskTransitionInput \<Rightarrow> bool" where
  "transition_equivalent existing input \<longleftrightarrow> (case existing of (e, _) \<Rightarrow>
     re_call e = tr_callId input \<and> re_eventSequence e = tr_eventSequence input \<and>
     re_priorState e = tr_priorState input \<and> re_state e = tr_state input \<and>
     re_policyVersion e = tr_policyVersion input)"

definition replay_transition ::
  "RecordRiskTransitionInput \<Rightarrow> risk_event_aggregate \<Rightarrow> risk_event_aggregate op" where
  "replay_transition input existing =
     thenM (guardM (transition_equivalent existing input) IdempotencyConflictError)
       (returnM existing)"

definition score_target_valid :: "evidence_row \<Rightarrow> model_row option \<Rightarrow> bool" where
  "score_target_valid e model = (case model of
     None \<Rightarrow> False
   | Some v \<Rightarrow> (case ev_type e of
       IDENTITY \<Rightarrow> mv_scoreTarget v = Some TARGET_EXPECTED_SPEAKER
     | SPOOF_FAST \<Rightarrow> mv_scoreTarget v = Some TARGET_SPOOF \<or> mv_scoreTarget v = Some TARGET_BONAFIDE
     | SPOOF_DEEP \<Rightarrow> mv_scoreTarget v = Some TARGET_SPOOF \<or> mv_scoreTarget v = Some TARGET_BONAFIDE
     | _ \<Rightarrow> False))"

definition evidence_activates :: "policy_doc \<Rightarrow> evidence_row \<times> model_row option \<Rightarrow> bool" where
  "evidence_activates policy em = (case em of (e, model) \<Rightarrow>
     ev_readiness e = READY \<and> ev_mode e = MODE_CALIBRATED \<and> ev_calibratedScore e \<noteq> None \<and>
     ev_calibrationVersion e = pd_calibrationVersion policy \<and>
     (case model of None \<Rightarrow> False
      | Some v \<Rightarrow> mv_status v = MODEL_ACTIVE \<and> mv_scoreTarget v \<noteq> None \<and>
          Some (mv_name v) = ev_modelName e \<and> Some (mv_version v) = ev_modelVersion e \<and>
          Some (mv_checkpointHash v) = ev_checkpointHash e \<and>
          Some (mv_scoreName v) = ev_scoreName e \<and> mv_scoreDirection v = ev_scoreDirection e) \<and>
     score_target_valid e model)"

definition activation_eligible ::
  "risk_config \<Rightarrow> policy_doc \<Rightarrow> (evidence_row \<times> model_row option) list \<Rightarrow> bool" where
  "activation_eligible gate policy evidence \<longleftrightarrow>
     gates_promoted gate \<and> pd_activationMode policy = JStr ''PRODUCTION'' \<and>
     pd_thresholdClassification policy = JStr ''PROMOTED_CALIBRATION'' \<and>
     pd_calibrationVersion policy \<noteq> None \<and> evidence \<noteq> [] \<and>
     list_all (evidence_activates policy) evidence"

definition assertProductionActivation ::
  "risk_config \<Rightarrow> json \<Rightarrow> (evidence_row \<times> model_row option) list \<Rightarrow> err + unit" where
  "assertProductionActivation gate policyDocument evidence =
     (case parseRiskPolicyDocument (Some policyDocument) of
        Inl RiskPolicyValidationError \<Rightarrow>
          Inl (PersistenceConflictError ''Production risk activation policy is invalid.'')
      | Inl e \<Rightarrow> Inl e
      | Inr policy \<Rightarrow> guardE (activation_eligible gate policy evidence) (PersistenceConflictError
          ''Production risk activation is blocked by scientific or serving promotion gates.''))"

definition accepted_with_models ::
  "uuid \<Rightarrow> uuid \<Rightarrow> uuid option \<Rightarrow> uuid list \<Rightarrow> db \<Rightarrow> (evidence_row \<times> model_row option) list" where
  "accepted_with_models organizationId callId sessionId ids d =
     map (\<lambda>e. (e, find (\<lambda>v. Some (mv_id v) = ev_modelVersionId e) (d_models d)))
       (filter (accepted_among organizationId callId sessionId ids) (d_evidence d))"

definition new_risk_event_row ::
  "uuid \<Rightarrow> RecordRiskTransitionInput \<Rightarrow> string \<Rightarrow> policy_row \<Rightarrow> uuid \<Rightarrow> err + risk_event_row" where
  "new_risk_event_row organizationId input idempotencyKey policy newId =
     bindE (optional (\<lambda>s. requireUuid s ''analysisSessionId'') (tr_sessionId input)) (\<lambda>session.
     bindE (requireText (tr_schemaVersion input) ''schemaVersion'' 40) (\<lambda>schemaVersion.
     bindE (requireText (tr_reasonCode input) ''transitionReasonCode'' 80) (\<lambda>reasonCode.
     bindE (requireText (tr_policyKey input) ''policyKey'' 80) (\<lambda>policyKey.
     bindE (requireText (tr_policyVersion input) ''policyVersion'' 40) (\<lambda>policyVersion.
     bindE (requireText (tr_thresholdVersion input) ''thresholdVersion'' 80) (\<lambda>thresholdVersion.
     Inr \<lparr>re_id = newId, re_org = organizationId, re_call = tr_callId input,
          re_session = session, re_policyId = rp_id policy, re_assessment = None,
          re_idemKey = idempotencyKey, re_schemaVersion = schemaVersion,
          re_eventSequence = tr_eventSequence input, re_mode = PRODUCTION,
          re_priorState = tr_priorState input, re_state = tr_state input,
          re_reasonCode = reasonCode, re_policyKey = policyKey,
          re_policyVersion = policyVersion, re_thresholdVersion = thresholdVersion,
          re_occurredAt = tr_occurredAt input\<rparr>))))))"

definition new_intervention_row ::
  "uuid \<Rightarrow> RecordRiskTransitionInput \<Rightarrow> uuid \<Rightarrow> InterventionWriteInput \<Rightarrow> uuid \<Rightarrow>
   err + intervention_row" where
  "new_intervention_row organizationId input riskEventId i newId =
     bindE (requireText (iw_idempotencyKey i) ''intervention.idempotencyKey'' 128) (\<lambda>key.
     bindE (requireText (iw_policyVersion i) ''intervention.policyVersion'' 40) (\<lambda>policyVersion.
     bindE (requireText (iw_reasonCode i) ''intervention.reasonCode'' 80) (\<lambda>reasonCode.
     bindE (optional (\<lambda>v. requireText v ''intervention.protectedActionReference'' 160)
       (iw_protectedAction i)) (\<lambda>protectedAction.
     Inr \<lparr>iv_id = newId, iv_org = organizationId, iv_call = tr_callId input,
          iv_riskEvent = riskEventId, iv_resolvedBy = None, iv_idemKey = key,
          iv_type = iw_type i, iv_status = IV_REQUIRED, iv_mode = PRODUCTION,
          iv_policyVersion = policyVersion, iv_reasonCode = reasonCode,
          iv_protectedAction = protectedAction, iv_requiredAt = tr_occurredAt input,
          iv_acknowledgedAt = None, iv_resolvedAt = None, iv_expiresAt = iw_expiresAt i,
          iv_attemptCount = 0, iv_nextAttemptAt = None, iv_leaseId = None,
          iv_leaseExpiresAt = None, iv_deadLetteredAt = None, iv_failureCode = None\<rparr>))))"

text \<open>\<open>interventions.at(index)\<close>: a negative index counts from the end.\<close>

definition at_index :: "'a list \<Rightarrow> int \<Rightarrow> 'a option" where
  "at_index xs i =
     (let j = (if i < 0 then int (length xs) + i else i) in
      if j < 0 \<or> int (length xs) \<le> j then None else Some (xs ! nat j))"

definition alert_target :: "intervention_row list \<Rightarrow> AlertWriteInput \<Rightarrow> err + uuid option" where
  "alert_target interventions a = (case aw_interventionIndex a of
     None \<Rightarrow> Inr None
   | Some i \<Rightarrow> (case at_index interventions i of
       None \<Rightarrow> Inl (PersistenceConflictError ''Alert intervention index is invalid.'')
     | Some r \<Rightarrow> Inr (Some (iv_id r))))"

definition new_alert_row ::
  "uuid \<Rightarrow> RecordRiskTransitionInput \<Rightarrow> uuid \<Rightarrow> intervention_row list \<Rightarrow> AlertWriteInput \<Rightarrow> uuid \<Rightarrow>
   instant \<Rightarrow> err + alert_row" where
  "new_alert_row organizationId input riskEventId interventions a newId createdAt =
     bindE (alert_target interventions a) (\<lambda>interventionId.
     bindE (requireText (aw_idempotencyKey a) ''alert.idempotencyKey'' 128) (\<lambda>key.
     bindE (requireText (aw_eventType a) ''alert.eventType'' 120) (\<lambda>eventType.
     bindE (requireText (aw_schemaVersion a) ''alert.schemaVersion'' 40) (\<lambda>schemaVersion.
     bindE (optional (\<lambda>v. requireText v ''alert.recipientReference'' 160) (aw_recipient a))
       (\<lambda>recipient.
     Inr \<lparr>al_id = newId, al_org = organizationId, al_call = tr_callId input,
          al_riskEvent = riskEventId, al_intervention = interventionId,
          al_acknowledgedBy = None, al_idemKey = key, al_externalEventId = None,
          al_channel = aw_channel a, al_status = ALERT_PENDING, al_mode = PRODUCTION,
          al_eventType = eventType, al_schemaVersion = schemaVersion, al_recipient = recipient,
          al_attemptCount = 0, al_nextAttemptAt = None, al_leaseId = None,
          al_leaseExpiresAt = None, al_deliveredAt = None, al_acknowledgedAt = None,
          al_failureCode = None, al_createdAt = createdAt\<rparr>)))))"

definition transition_audit :: "RecordRiskTransitionInput \<Rightarrow> uuid \<Rightarrow> AppendAuditInput" where
  "transition_audit input riskEventId =
     \<lparr>aa_actor = tr_auditActor input, aa_correlationId = tr_auditCorrelationId input,
      aa_idempotencyKey = Some (tr_auditKey input), aa_action = ''risk.transition.recorded'',
      aa_targetType = ''RiskEvent'', aa_targetId = riskEventId, aa_outcome = AUDIT_SUCCEEDED,
      aa_reasonCode = None, aa_sourceIpHash = None,
      aa_metadata = Some (no_metadata\<lparr>am_operation := Some ''risk-transition'',
        am_policyVersion := Some (tr_policyVersion input),
        am_schemaVersion := Some (tr_schemaVersion input)\<rparr>),
      aa_occurredAt = Some (tr_occurredAt input)\<rparr>"

text \<open>Lines 406 to 535: everything after the checks.\<close>

definition insert_transition ::
  "uuid \<Rightarrow> RecordRiskTransitionInput \<Rightarrow> string \<Rightarrow> policy_row \<Rightarrow> uuid list \<Rightarrow>
   risk_event_aggregate op" where
  "insert_transition organizationId input idempotencyKey policy evidenceIds =
     bindM new_id (\<lambda>newId.
     bindM (liftE (new_risk_event_row organizationId input idempotencyKey policy newId)) (\<lambda>row.
     bindM (create riskEvents_table row) (\<lambda>riskEvent.
     thenM (iterM evidenceIds (\<lambda>i. bindM (create riskEventEvidence_table
        \<lparr>el_org = organizationId, el_owner = re_id riskEvent, el_evidence = i\<rparr>)
        (\<lambda>_. returnM ())))
     (bindM (mapM (\<lambda>i. bindM new_id (\<lambda>j.
        bindM (liftE (new_intervention_row organizationId input (re_id riskEvent) i j)) (\<lambda>r.
        create interventions_table r))) (tr_interventions input)) (\<lambda>interventions.
     thenM (iterM (tr_alerts input) (\<lambda>a. bindM new_id (\<lambda>j. bindM now (\<lambda>createdAt.
        bindM (liftE (new_alert_row organizationId input (re_id riskEvent) interventions a j
                 createdAt)) (\<lambda>r.
        bindM (create alerts_table r) (\<lambda>_. returnM ()))))))
     (bindM (audit_appendWithClient organizationId (transition_audit input (re_id riskEvent)))
        (\<lambda>_.
     bindM (find_or_throw riskEvents_table (\<lambda>e. re_id e = re_id riskEvent)
              (TenantResourceNotFoundError ''Risk event'')) event_aggregate)))))))"

definition check_session :: "uuid \<Rightarrow> uuid \<Rightarrow> uuid option \<Rightarrow> unit op" where
  "check_session organizationId callId sessionId = (case sessionId of
     None \<Rightarrow> returnM ()
   | Some s \<Rightarrow>
       bindM (liftE (requireUuid s ''analysisSessionId'')) (\<lambda>i.
       bindM (find_or_throw sessions_table
                (\<lambda>r. session_by organizationId i r \<and> as_call r = callId)
                (TenantResourceNotFoundError ''Call analysis session'')) (\<lambda>_. returnM ())))"

definition store_transition ::
  "configuration \<Rightarrow> uuid \<Rightarrow> RecordRiskTransitionInput \<Rightarrow> string \<Rightarrow> risk_event_aggregate op" where
  "store_transition config organizationId input idempotencyKey =
     bindM (liftE (requireUuid (tr_policyId input) ''riskPolicyId'')) (\<lambda>policyId.
     bindM (find_or_throw policies_table
              (\<lambda>p. policy_by organizationId policyId p \<and> rp_key p = tr_policyKey input \<and>
                   rp_version p = tr_policyVersion input)
              (TenantResourceNotFoundError ''Versioned risk policy'')) (\<lambda>policy.
     bindM (find_or_throw calls_table
              (\<lambda>c. call_by organizationId (tr_callId input) c \<and> ca_policyId c = rp_id policy \<and>
                   ca_policyVersion c = rp_version policy)
              (TenantResourceNotFoundError ''Call-frozen risk policy'')) (\<lambda>_.
     thenM (check_session organizationId (tr_callId input) (tr_sessionId input))
     (bindM (require_evidence_ids (tr_evidenceIds input)) (\<lambda>evidenceIds.
     thenM (guardM (evidenceIds \<noteq> []) (TenantResourceNotFoundError ''Accepted evidence''))
     (bindM (getM (\<lambda>w. accepted_with_models organizationId (tr_callId input)
                        (tr_sessionId input) evidenceIds (w_db w))) (\<lambda>accepted.
     thenM (guardM (length accepted = length evidenceIds)
              (TenantResourceNotFoundError ''Accepted evidence''))
     (bindM (liftE (assertProductionActivation (c_risk config) (rp_document policy) accepted))
        (\<lambda>_.
     insert_transition organizationId input idempotencyKey policy evidenceIds)))))))))"

definition recordTransition ::
  "configuration \<Rightarrow> uuid \<Rightarrow> RecordRiskTransitionInput \<Rightarrow> risk_event_aggregate op" where
  "recordTransition config context input =
     bindM (liftE (requireTenant context)) (\<lambda>organizationId.
     bindM (liftE (requireUuid (tr_callId input) ''callId'')) (\<lambda>_.
     bindM (liftE (requireText (tr_idempotencyKey input) ''idempotencyKey'' 128)) (\<lambda>key.
     thenM (guardM (\<not> (tr_eventSequence input < 0 \<or> tr_priorState input = tr_state input))
              (PersistenceConflictError ''Risk transition sequence/state is invalid.''))
     (bindM (findByIdempotency organizationId key) (\<lambda>found.
     case found of
       Some existing \<Rightarrow> replay_transition input existing
     | None \<Rightarrow>
         catchM (serializable (store_transition config organizationId input key)) (\<lambda>error.
           if error = P2002_UniqueConstraint
           then bindM (findByIdempotency organizationId key) (\<lambda>replay.
                case replay of Some r \<Rightarrow> replay_transition input r | None \<Rightarrow> throwM error)
           else throwM error))))))"

section \<open>Lists\<close>

definition listRiskEvents ::
  "cursor_codec \<Rightarrow> uuid \<Rightarrow> uuid \<Rightarrow> PageRequest \<Rightarrow> risk_event_row PageResult op" where
  "listRiskEvents codec context callId request =
     bindM (liftE (requireTenant context)) (\<lambda>organizationId.
     bindM (liftE (requireUuid callId ''callId'')) (\<lambda>call.
     bindM (find_many riskEvents_table (\<lambda>e. re_org e = organizationId \<and> re_call e = call))
       (\<lambda>rs.
     liftE (keyset_page codec (\<lambda>e. (re_occurredAt e, re_id e)) request rs))))"

definition listRiskAssessments ::
  "cursor_codec \<Rightarrow> uuid \<Rightarrow> uuid \<Rightarrow> PageRequest \<Rightarrow> assessment_row PageResult op" where
  "listRiskAssessments codec context callId request =
     bindM (liftE (requireTenant context)) (\<lambda>organizationId.
     bindM (liftE (requireUuid callId ''callId'')) (\<lambda>call.
     bindM (find_many assessments_table (\<lambda>a. ra_org a = organizationId \<and> ra_call a = call))
       (\<lambda>rs.
     liftE (keyset_page codec (\<lambda>a. (ra_occurredAt a, ra_id a)) request rs))))"

section \<open>Interventions, challenges and alerts\<close>

definition resolved_status :: "InterventionStatus \<Rightarrow> bool" where
  "resolved_status s \<longleftrightarrow>
     List.member [IV_SATISFIED, IV_DECLINED, IV_EXPIRED, IV_CANCELLED, IV_FAILED] s"

definition intervention_after ::
  "InterventionStatus \<Rightarrow> uuid option \<Rightarrow> instant \<Rightarrow> instant \<Rightarrow> intervention_row \<Rightarrow>
   intervention_row" where
  "intervention_after nextStatus resolvedBy acknowledgedAt resolvedAt r =
     (let r1 = r\<lparr>iv_status := nextStatus\<rparr>;
          r2 = (if nextStatus = IV_ACKNOWLEDGED
                then r1\<lparr>iv_acknowledgedAt := Some acknowledgedAt\<rparr> else r1);
          r3 = (case resolvedBy of None \<Rightarrow> r2 | Some m \<Rightarrow> r2\<lparr>iv_resolvedBy := Some m\<rparr>) in
      if resolved_status nextStatus
      then r3\<lparr>iv_resolvedAt := Some resolvedAt, iv_leaseId := None,
              iv_leaseExpiresAt := None, iv_nextAttemptAt := None\<rparr>
      else r3)"

definition intervention_in ::
  "uuid \<Rightarrow> uuid \<Rightarrow> InterventionStatus \<Rightarrow> intervention_row \<Rightarrow> bool" where
  "intervention_in organizationId i s r \<longleftrightarrow>
     iv_org r = organizationId \<and> iv_id r = i \<and> iv_status r = s"

text \<open>\<open>new Date()\<close> is read only for the fields that are written.\<close>

definition now_if :: "bool \<Rightarrow> instant op" where
  "now_if b = (if b then now else returnM 0)"

definition updateInterventionStatus ::
  "uuid \<Rightarrow> uuid \<Rightarrow> InterventionStatus \<Rightarrow> InterventionStatus \<Rightarrow> uuid option \<Rightarrow>
   intervention_row op" where
  "updateInterventionStatus context interventionId expectedStatus nextStatus resolvedBy =
     bindM (liftE (requireTenant context)) (\<lambda>organizationId.
     bindM (liftE (requireUuid interventionId ''interventionId'')) (\<lambda>i.
     bindM (now_if (nextStatus = IV_ACKNOWLEDGED)) (\<lambda>acknowledgedAt.
     bindM (liftE (optional (\<lambda>m. requireUuid m ''resolvedByMembershipId'') resolvedBy))
       (\<lambda>resolver.
     bindM (now_if (resolved_status nextStatus)) (\<lambda>resolvedAt.
     bindM (update_rows interventions_table
              (intervention_in organizationId i expectedStatus)
              (intervention_after nextStatus resolver acknowledgedAt resolvedAt)) (\<lambda>n.
     thenM (guardM (n = 1)
              (PersistenceConflictError ''Intervention state changed concurrently.''))
     (find_or_throw interventions_table (\<lambda>r. iv_id r = i)
        (TenantResourceNotFoundError ''Intervention''))))))))"

definition findIntervention :: "uuid \<Rightarrow> uuid \<Rightarrow> intervention_row op" where
  "findIntervention context interventionId =
     bindM (liftE (requireTenant context)) (\<lambda>organizationId.
     bindM (liftE (requireUuid interventionId ''interventionId'')) (\<lambda>i.
     find_or_throw interventions_table (\<lambda>r. iv_org r = organizationId \<and> iv_id r = i)
       (TenantResourceNotFoundError ''Intervention'')))"

record ChallengeInput =
  ch_callId :: uuid
  ch_interventionId :: uuid
  ch_performedBy :: "uuid option"
  ch_idempotencyKey :: string
  ch_method :: string
  ch_attemptNumber :: rat
  ch_expiresAt :: instant

definition new_challenge_row ::
  "uuid \<Rightarrow> ChallengeInput \<Rightarrow> string \<Rightarrow> uuid \<Rightarrow> instant \<Rightarrow> err + challenge_row" where
  "new_challenge_row organizationId input idempotencyKey newId requestedAt =
     bindE (requireUuid (ch_callId input) ''callId'') (\<lambda>callId.
     bindE (requireUuid (ch_interventionId input) ''interventionId'') (\<lambda>interventionId.
     bindE (optional (\<lambda>m. requireUuid m ''performedByMembershipId'') (ch_performedBy input))
       (\<lambda>performedBy.
     bindE (requireText (ch_method input) ''method'' 80) (\<lambda>method.
     Inr \<lparr>vc_id = newId, vc_org = organizationId, vc_call = callId,
          vc_intervention = interventionId, vc_performedBy = performedBy,
          vc_idemKey = idempotencyKey, vc_method = method, vc_status = VC_PENDING,
          vc_attemptNumber = \<lfloor>ch_attemptNumber input\<rfloor>, vc_resultCode = None,
          vc_requestedAt = requestedAt, vc_expiresAt = ch_expiresAt input,
          vc_completedAt = None\<rparr>))))"

definition challenge_by_key :: "uuid \<Rightarrow> string \<Rightarrow> challenge_row option op" where
  "challenge_by_key organizationId key =
     find_unique_row challenges_table (\<lambda>c. vc_org c = organizationId \<and> vc_idemKey c = key)"

definition same_challenge :: "challenge_row \<Rightarrow> ChallengeInput \<Rightarrow> bool" where
  "same_challenge existing input \<longleftrightarrow>
     vc_call existing = ch_callId input \<and> vc_intervention existing = ch_interventionId input \<and>
     vc_method existing = ch_method input \<and>
     of_int (vc_attemptNumber existing) = ch_attemptNumber input"

definition createVerificationChallenge :: "uuid \<Rightarrow> ChallengeInput \<Rightarrow> challenge_row op" where
  "createVerificationChallenge context input =
     bindM (liftE (requireTenant context)) (\<lambda>organizationId.
     thenM (guardM (of_int \<lfloor>ch_attemptNumber input\<rfloor> = ch_attemptNumber input \<and>
                    1 \<le> ch_attemptNumber input)
              (PersistenceConflictError ''Verification attempt number is invalid.''))
     (bindM (liftE (requireText (ch_idempotencyKey input) ''idempotencyKey'' 128)) (\<lambda>key.
     bindM (challenge_by_key organizationId key) (\<lambda>found.
     case found of
       Some existing \<Rightarrow>
         thenM (guardM (same_challenge existing input) IdempotencyConflictError)
           (returnM existing)
     | None \<Rightarrow>
         catchM
           (bindM new_id (\<lambda>newId. bindM now (\<lambda>requestedAt.
            bindM (liftE (new_challenge_row organizationId input key newId requestedAt))
              (create challenges_table))))
           (\<lambda>error.
             if error = P2002_UniqueConstraint
             then bindM (challenge_by_key organizationId key) (\<lambda>replay.
                  case replay of Some r \<Rightarrow> returnM r | None \<Rightarrow> throwM IdempotencyConflictError)
             else throwM error)))))"

definition findVerificationChallenge :: "uuid \<Rightarrow> uuid \<Rightarrow> challenge_row op" where
  "findVerificationChallenge context challengeId =
     bindM (liftE (requireTenant context)) (\<lambda>organizationId.
     bindM (liftE (requireUuid challengeId ''challengeId'')) (\<lambda>i.
     find_or_throw challenges_table (\<lambda>c. vc_org c = organizationId \<and> vc_id c = i)
       (TenantResourceNotFoundError ''Verification challenge'')))"

definition completeVerificationChallenge ::
  "uuid \<Rightarrow> uuid \<Rightarrow> VerificationStatus \<Rightarrow> string \<Rightarrow> challenge_row op" where
  "completeVerificationChallenge context challengeId status resultCode =
     bindM (liftE (requireTenant context)) (\<lambda>organizationId.
     bindM (liftE (requireUuid challengeId ''challengeId'')) (\<lambda>i.
     bindM now (\<lambda>t.
     bindM (liftE (requireText resultCode ''resultCode'' 80)) (\<lambda>code.
     bindM now (\<lambda>completedAt.
     bindM (update_rows challenges_table
              (\<lambda>c. vc_org c = organizationId \<and> vc_id c = i \<and> vc_status c = VC_PENDING \<and>
                   t < vc_expiresAt c)
              (\<lambda>c. c\<lparr>vc_status := status, vc_resultCode := Some code,
                      vc_completedAt := Some completedAt\<rparr>)) (\<lambda>n.
     if n \<noteq> 1 then
       bindM (findVerificationChallenge context i) (\<lambda>replay.
       if vc_status replay = status \<and> vc_resultCode replay = Some resultCode
       then returnM replay
       else throwM (PersistenceConflictError ''Verification challenge is not pending.''))
     else findVerificationChallenge context i))))))"

definition markAlertDelivered :: "uuid \<Rightarrow> uuid \<Rightarrow> alert_row op" where
  "markAlertDelivered context alertId =
     bindM (liftE (requireTenant context)) (\<lambda>organizationId.
     bindM (liftE (requireUuid alertId ''alertId'')) (\<lambda>i.
     bindM now (\<lambda>t.
     bindM (update_rows alerts_table
              (\<lambda>a. al_org a = organizationId \<and> al_id a = i \<and> al_status a = ALERT_PENDING)
              (\<lambda>a. a\<lparr>al_status := ALERT_DELIVERED, al_deliveredAt := Some t\<rparr>)) (\<lambda>n.
     thenM (guardM (n = 1) (PersistenceConflictError ''Alert is not pending.''))
     (find_or_throw alerts_table (\<lambda>a. al_id a = i) (TenantResourceNotFoundError ''Alert''))))))"

section \<open>Lemmas\<close>

lemma keeps_find_by_key [hoare]: "keeps I (findByIdempotency organizationId key)"
  by (auto simp: findByIdempotency_def event_aggregate_def intro!: hoare)

lemma keeps_find_assessment_by_key [hoare]:
  "keeps I (findAssessmentByIdempotency organizationId key)"
  by (auto simp: findAssessmentByIdempotency_def with_links_def assessment_links_def intro!: hoare)

lemma keeps_replay_transition [hoare]: "keeps I (replay_transition input existing)"
  by (auto simp: replay_transition_def intro!: hoare)

lemma keeps_replay_assessment [hoare]: "keeps I (replay_assessment input existing)"
  by (auto simp: replay_assessment_def intro!: hoare)

lemma keeps_check_session [hoare]: "keeps I (check_session organizationId callId sessionId)"
  by (auto simp: check_session_def intro!: hoare)

lemma keeps_require_evidence_ids [hoare]: "keeps I (require_evidence_ids ids)"
  by (auto simp: require_evidence_ids_def intro!: hoare)

lemma keeps_recordTransition:
  assumes "\<And>org' key policy ids. gates_promoted (c_risk config) \<Longrightarrow>
    keeps (on_db I) (insert_transition org' input key policy ids)"
  shows "keeps (on_db I) (recordTransition config context input)"
proof -
  have store: "keeps (on_db I) (store_transition config org' input key)" for org' key
  proof (cases "gates_promoted (c_risk config)")
    case True
    with assms show ?thesis unfolding store_transition_def by (intro hoare)
  next
    case False
    then have "assertProductionActivation (c_risk config) doc ev \<noteq> Inr u" for doc ev u
      by (auto simp: assertProductionActivation_def activation_eligible_def
          split: sum.splits err.splits)
    then have gate: "keeps (on_db I) (bindM (liftE
        (assertProductionActivation (c_risk config) doc ev)) k)" for doc ev and k :: "unit \<Rightarrow> risk_event_aggregate op"
      by (intro keeps_bindM_seq hoare) simp
    show ?thesis unfolding store_transition_def by (intro gate hoare)
  qed
  show ?thesis
    unfolding recordTransition_def by (intro hoare store)
qed

lemma keeps_insert_assessment:
  assumes "\<And>d row. ra_productionEligible row = ai_productionEligible input \<Longrightarrow> I d \<Longrightarrow>
      I (d_assessments_update (\<lambda>rs. rs @ [row]) d)"
    and "\<And>d l. I d \<Longrightarrow> I (d_assessmentEvidence_update (\<lambda>rs. rs @ [l]) d)"
    and "\<And>d r. I d \<Longrightarrow> I (d_audit_update (\<lambda>rs. rs @ [r]) d)"
  shows "keeps (on_db I) (insert_assessment organizationId input key session policy ids)"
proof -
  have row: "keeps (on_db I) (create assessments_table row)"
    if "new_assessment_row organizationId input key session policy i t = Inr row" for row i t
  proof (rule keeps_create)
    have "ra_productionEligible row = ai_productionEligible input"
      using that unfolding new_assessment_row_def
      by - ((drule bindE_cont, erule exE)+, drule iffD1 [OF sum.inject(2)], hypsubst,
        simp only: assessment_row.simps)
    then show "I (t_put assessments_table (\<lambda>rs. rs @ [row]) d)" if "I d" for d
      using that assms(1) by (simp add: assessments_table_def)
  qed
  have tail: "keeps (on_db I) (bindM (liftE (new_assessment_row organizationId input key session policy i t)) (\<lambda>row.
     bindM (create assessments_table row) k))" if "\<And>a. keeps (on_db I) (k a)"
    for i t and k :: "assessment_row \<Rightarrow> assessment_aggregate op"
  proof (rule keeps_bindM_seq)
    fix s row s' assume "on_db I s"
      "liftE (new_assessment_row organizationId input key session policy i t) s = (Inr row, s')"
    then have "keeps (on_db I) (bindM (create assessments_table row) k)" "on_db I s'"
      by (auto intro!: hoare row that)
    then show "on_db I (snd (bindM (create assessments_table row) k s'))" by (rule keeps_sndD)
  qed (rule keeps_liftE)
  show ?thesis
    unfolding insert_assessment_def link_assessment_def with_links_def assessment_links_def
    by (intro hoare tail keeps_create keeps_audit_appendWithClient)
      (auto simp: assessmentEvidence_table_def assms)
qed

lemma keeps_recordAssessment:
  assumes "\<And>d row. ra_productionEligible row = ai_productionEligible input \<Longrightarrow> I d \<Longrightarrow>
      I (d_assessments_update (\<lambda>rs. rs @ [row]) d)"
    and "\<And>d l. I d \<Longrightarrow> I (d_assessmentEvidence_update (\<lambda>rs. rs @ [l]) d)"
    and "\<And>d r. I d \<Longrightarrow> I (d_audit_update (\<lambda>rs. rs @ [r]) d)"
  shows "keeps (on_db I) (recordAssessment context input)"
  unfolding recordAssessment_def store_assessment_def
  by (intro hoare keeps_insert_assessment) (auto simp: assms)


lemma now_if_run [run_simps]:
  "now_if b w = (Inr t, w') \<longleftrightarrow>
     (if b then t = w_clock w (w_ticks w) \<and> w' = w\<lparr>w_ticks := Suc (w_ticks w)\<rparr>
      else t = 0 \<and> w' = w)"
  by (simp add: now_if_def run_simps)

lemma now_if_total:
  obtains t w' where "now_if b w = (Inr t, w')" and "w_db w' = w_db w"
  by (cases b) (simp_all add: now_if_def now_def returnM_def)

lemma intervention_after_status [simp]: "iv_status (intervention_after s m t u r) = s"
  by (simp add: intervention_after_def Let_def split: option.split)

lemma updateInterventionStatus_run:
  assumes "updateInterventionStatus context i expected next' resolvedBy w = (Inr r, w')"
  shows "is_uuid context \<and> is_uuid i \<and>
    length (filter (intervention_in context i expected) (d_interventions (w_db w))) = 1 \<and>
    (\<exists>m t u. d_interventions (w_db w') = change_rows (intervention_in context i expected)
        (intervention_after next' m t u) (d_interventions (w_db w))) \<and>
    find (\<lambda>x. iv_id x = i) (d_interventions (w_db w')) = Some r"
proof -
  have now_db: "w_db v' = w_db v" if "now_if b v = (Inr t, v')" for b v t v'
    using that by (auto simp: now_if_run split: if_splits)
  show ?thesis
    using assms
    apply (simp only: updateInterventionStatus_def bindM_eq_Inr_iff thenM_eq_Inr_iff liftE_eq_Inr
        guardM_eq_Inr requireTenant_Inr requireUuid_Inr update_rows_run find_or_throw_run)
    apply (elim exE conjE)
    apply (drule now_db)+
    apply (simp only: interventions_table_def table.simps world.simps)
    apply (intro conjI exI)
    apply simp_all
    done
qed

lemma updateInterventionStatus_missing:
  assumes "filter (intervention_in context i expected) (d_interventions (w_db w)) = []"
    and "is_uuid context" "is_uuid i" "case resolvedBy of None \<Rightarrow> True | Some m \<Rightarrow> is_uuid m"
  shows "fst (updateInterventionStatus context i expected next' resolvedBy w) =
      Inl (PersistenceConflictError ''Intervention state changed concurrently.'') \<and>
    w_db (snd (updateInterventionStatus context i expected next' resolvedBy w)) = w_db w"
proof -
  let ?P = "intervention_in context i expected"
  have upd: "update_rows interventions_table ?P f v = (Inr 0, v)" if "w_db v = w_db w" for f v
    using assms(1) that change_rows_none [OF assms(1)]
    by (simp add: update_rows_def interventions_table_def Let_def)
  obtain a w1 where 1: "now_if (next' = IV_ACKNOWLEDGED) w = (Inr a, w1)" "w_db w1 = w_db w"
    by (rule now_if_total)
  obtain b w2 where 2: "now_if (resolved_status next') w1 = (Inr b, w2)" "w_db w2 = w_db w1"
    by (rule now_if_total)
  obtain m where 3: "optional (\<lambda>m. requireUuid m ''resolvedByMembershipId'') resolvedBy = Inr m"
    using assms(4) by (cases resolvedBy) (simp_all add: optional_def requireUuid_def)
  have 4: "requireTenant context = Inr context" "requireUuid i ''interventionId'' = Inr i"
    using assms(2,3) by (simp_all add: requireTenant_def requireUuid_def)
  show ?thesis
    using 1 2 upd
    by (simp add: updateInterventionStatus_def 3 4 liftE_def bindM_def thenM_def guardM_def
        throwM_def returnM_def)
qed

text \<open>A change that moves the rows it hits out of the condition leaves none in it.\<close>

lemma filter_after_change:
  "(\<And>r. P r \<Longrightarrow> \<not> P (f r)) \<Longrightarrow> filter P (change_rows P f rs) = []"
  by (auto simp: change_rows_def filter_empty_conv)

lemma challenge_rows:
  "keeps (on_db (\<lambda>d. \<forall>c \<in> set old. vc_status c \<noteq> VC_PENDING \<longrightarrow> c \<in> set (d_challenges d)))
     (completeVerificationChallenge context i status code)"
  unfolding completeVerificationChallenge_def findVerificationChallenge_def
  by (intro hoare keeps_update_rows) (auto simp: challenges_table_def set_change_rows)

section \<open>Properties\<close>

text \<open>
  While one promotion gate is closed, storing a risk transition is refused before anything is
  written, whatever the transition, its evidence and its policy document.
\<close>

theorem closed_gate_refuses_transition:
  assumes "\<not> gates_promoted (c_risk config)"
  shows "w_db (snd (recordTransition config context input w)) = w_db w"
proof -
  have "keeps (on_db (\<lambda>d. d = w_db w)) (recordTransition config context input)"
    using assms by (intro keeps_recordTransition) simp
  from keeps_sndD [OF this, of w] show ?thesis by (simp add: on_db_def)
qed

definition sample_transition :: RecordRiskTransitionInput where
  "sample_transition = \<lparr>tr_callId = call1, tr_sessionId = Some session1, tr_policyId = model1,
     tr_idempotencyKey = ''k'', tr_schemaVersion = ''1'', tr_eventSequence = 1,
     tr_priorState = UNVERIFIED, tr_state = CRITICAL, tr_reasonCode = ''r'',
     tr_policyKey = ''p'', tr_policyVersion = ''1'', tr_thresholdVersion = ''1'',
     tr_occurredAt = 0, tr_evidenceIds = [binding1], tr_interventions = [], tr_alerts = [],
     tr_auditActor = None, tr_auditCorrelationId = ''c'', tr_auditKey = ''a''\<rparr>"

theorem closed_gate_refuses_transition_witness:
  "w_db (snd (recordTransition engineering_configuration org1 sample_transition
     (sample_world empty_db))) = empty_db"
  using closed_gate_refuses_transition [of engineering_configuration org1 sample_transition
      "sample_world empty_db"]
  by (simp add: gates_promoted_def engineering_configuration_def sample_world_def)

text \<open>
  C34: a status change of an intervention is a compare and set: after one that leaves the expected
  status, every other change that expects the same status is refused and writes nothing, so of
  two concurrent resolutions exactly one wins.
\<close>

theorem intervention_change_wins_once:
  assumes "updateInterventionStatus organizationId i expected first who w = (Inr r, w')"
    and "first \<noteq> expected" "case who' of None \<Rightarrow> True | Some m \<Rightarrow> is_uuid m"
  shows "fst (updateInterventionStatus organizationId i expected second who' w') =
      Inl (PersistenceConflictError ''Intervention state changed concurrently.'') \<and>
    w_db (snd (updateInterventionStatus organizationId i expected second who' w')) = w_db w'"
proof -
  note run = updateInterventionStatus_run [OF assms(1)]
  then obtain m t u where "d_interventions (w_db w') =
      change_rows (intervention_in organizationId i expected)
        (intervention_after first m t u) (d_interventions (w_db w))"
    by blast
  moreover have "\<not> intervention_in organizationId i expected (intervention_after first m t u x)" for x
    using assms(2) by (simp add: intervention_in_def)
  ultimately have "filter (intervention_in organizationId i expected) (d_interventions (w_db w')) = []"
    by (simp add: filter_after_change)
  with run assms(3) show ?thesis by (intro updateInterventionStatus_missing) auto
qed

definition sample_intervention :: "InterventionType \<Rightarrow> InterventionStatus \<Rightarrow> intervention_row" where
  "sample_intervention type status = \<lparr>iv_id = binding1, iv_org = org1, iv_call = call1,
     iv_riskEvent = model1, iv_resolvedBy = None, iv_idemKey = ''i'', iv_type = type,
     iv_status = status, iv_mode = DEMO, iv_policyVersion = ''1'', iv_reasonCode = ''r'',
     iv_protectedAction = Some ''transfer'', iv_requiredAt = 0, iv_acknowledgedAt = None,
     iv_resolvedAt = None, iv_expiresAt = None, iv_attemptCount = 0, iv_nextAttemptAt = None,
     iv_leaseId = None, iv_leaseExpiresAt = None, iv_deadLetteredAt = None,
     iv_failureCode = None\<rparr>"

definition intervention_world :: world where
  "intervention_world = sample_world
     (empty_db\<lparr>d_interventions := [sample_intervention WARN IV_REQUIRED]\<rparr>)"

theorem intervention_change_wins_once_witness:
  "(case updateInterventionStatus org1 binding1 IV_REQUIRED IV_ACKNOWLEDGED None
      intervention_world of
      (Inr r, w') \<Rightarrow> fst (updateInterventionStatus org1 binding1 IV_REQUIRED IV_CANCELLED None w') =
        Inl (PersistenceConflictError ''Intervention state changed concurrently.'')
    | _ \<Rightarrow> False)"
proof -
  have "(case updateInterventionStatus org1 binding1 IV_REQUIRED IV_ACKNOWLEDGED None
      intervention_world of (Inr r, w') \<Rightarrow> True | _ \<Rightarrow> False)"
    by code_simp
  then obtain r w' where r: "updateInterventionStatus org1 binding1 IV_REQUIRED IV_ACKNOWLEDGED None
      intervention_world = (Inr r, w')"
    by (auto split: prod.splits sum.splits)
  show ?thesis
    unfolding r prod.case sum.case
    using intervention_change_wins_once [OF r, of None IV_CANCELLED] by simp
qed

text \<open>
  C35: the result of a verification challenge is final: whatever result is reported later, the row
  of a challenge that is not pending stays in the database as it is.
\<close>

theorem challenge_result_final:
  assumes "c \<in> set (d_challenges (w_db w))" "vc_status c \<noteq> VC_PENDING"
  shows "c \<in> set (d_challenges
    (w_db (snd (completeVerificationChallenge organizationId i status code w))))"
  using keeps_sndD [OF challenge_rows [of "d_challenges (w_db w)"], of w] assms
  by (auto simp: on_db_def)

definition sample_challenge :: "VerificationStatus \<Rightarrow> challenge_row" where
  "sample_challenge status = \<lparr>vc_id = session1, vc_org = org1, vc_call = call1,
     vc_intervention = binding1, vc_performedBy = None, vc_idemKey = ''v'', vc_method = ''callback'',
     vc_status = status, vc_attemptNumber = 1, vc_resultCode = Some ''NO_MATCH'',
     vc_requestedAt = 0, vc_expiresAt = 60000, vc_completedAt = Some 10\<rparr>"

theorem challenge_result_final_witness:
  "sample_challenge VC_FAILED \<in> set (d_challenges (w_db (snd (completeVerificationChallenge org1
     session1 VC_PASSED ''OK''
     (sample_world (empty_db\<lparr>d_challenges := [sample_challenge VC_FAILED]\<rparr>))))))"
  by (rule challenge_result_final) (simp_all add: sample_world_def sample_challenge_def)

end
