(* ===== verification/Authorization.thy ===== *)
theory Authorization
  imports Configuration Store
begin

text \<open>
  Who may do what: the permission table of \<open>modules/auth/permissions.ts\<close>, the authenticated
  principal, the resource check every service makes first
  (\<open>resource-authorization.service.ts\<close>), the guard of the routes (\<open>guards/roles.guard.ts\<close>) and the
  authentication of the two internal services (\<open>internal-service-authenticator.service.ts\<close>,
  \<open>guards/internal-service.guard.ts\<close>), with SHA-256 as a parameter.
\<close>

section \<open>Permissions\<close>

datatype Permission =
    P_organization_read | P_organization_manage | P_membership_manage | P_device_manage_self
  | P_call_create | P_call_read | P_call_end | P_enrollment_manage | P_voiceprint_delete
  | P_risk_event_read | P_intervention_resolve | P_risk_policy_read | P_risk_policy_manage
  | P_audit_read

definition permissions :: "Permission list" where
  "permissions =
     [P_organization_read, P_organization_manage, P_membership_manage, P_device_manage_self,
      P_call_create, P_call_read, P_call_end, P_enrollment_manage, P_voiceprint_delete,
      P_risk_event_read, P_intervention_resolve, P_risk_policy_read, P_risk_policy_manage,
      P_audit_read]"

fun rolePermissions :: "OrganizationRole \<Rightarrow> Permission list" where
  "rolePermissions OWNER = permissions"
| "rolePermissions ADMIN = permissions"
| "rolePermissions SECURITY_ANALYST =
     [P_organization_read, P_device_manage_self, P_call_create, P_call_read, P_call_end,
      P_risk_event_read, P_intervention_resolve, P_risk_policy_read, P_audit_read]"
| "rolePermissions CALL_OPERATOR =
     [P_organization_read, P_device_manage_self, P_call_create, P_call_read, P_call_end,
      P_risk_event_read]"
| "rolePermissions ENROLLMENT_OPERATOR =
     [P_organization_read, P_device_manage_self, P_call_read, P_enrollment_manage,
      P_voiceprint_delete]"
| "rolePermissions MEMBER = [P_organization_read, P_device_manage_self, P_call_read]"

definition hasPermission :: "OrganizationRole list \<Rightarrow> Permission \<Rightarrow> bool" where
  "hasPermission roles permission \<longleftrightarrow>
     list_ex (\<lambda>role. List.member (rolePermissions role) permission) roles"

section \<open>The subject of a request\<close>

definition authorization_assert :: "AuthPrincipal \<Rightarrow> Permission \<Rightarrow> uuid \<Rightarrow> err + unit" where
  "authorization_assert subject permission resourceOrganizationId =
     (if pr_organizationId subject \<noteq> resourceOrganizationId \<or>
         \<not> hasPermission (pr_roles subject) permission
      then Inl (AuthError FORBIDDEN) else Inr ())"

text \<open>\<open>RolesGuard.canActivate\<close> with the metadata of the route and the request's principal.\<close>

definition roles_guard ::
  "Permission list option \<Rightarrow> OrganizationRole list option \<Rightarrow> AuthPrincipal option \<Rightarrow> err + bool" where
  "roles_guard required_metadata roles_metadata subject =
     (let required = (case required_metadata of None \<Rightarrow> [] | Some ps \<Rightarrow> ps);
          requiredRoles = (case roles_metadata of None \<Rightarrow> [] | Some rs \<Rightarrow> rs);
          hasRequiredRole = (requiredRoles = [] \<or> list_ex (\<lambda>role. case subject of
            None \<Rightarrow> False | Some p \<Rightarrow> List.member (pr_roles p) role) requiredRoles) in
      case subject of
        None \<Rightarrow> Inl (AuthError FORBIDDEN)
      | Some p \<Rightarrow>
          if \<not> hasRequiredRole \<or>
             list_ex (\<lambda>permission. \<not> hasPermission (pr_roles p) permission) required
          then Inl (AuthError FORBIDDEN) else Inr True)"

section \<open>Internal services\<close>

datatype InternalServiceName = SWAR_ML | SWAR_VERIFIER

fun internal_service_text :: "InternalServiceName \<Rightarrow> string" where
  "internal_service_text SWAR_ML = ''swar-ml''"
| "internal_service_text SWAR_VERIFIER = ''swar-verifier''"

definition bearer :: string where "bearer = ''Bearer ''"

definition starts_with :: "string \<Rightarrow> string \<Rightarrow> bool" where
  "starts_with p s \<longleftrightarrow> take (length p) s = p"

definition internal_authenticate ::
  "configuration \<Rightarrow> (string \<Rightarrow> string) \<Rightarrow> string option \<Rightarrow> string option \<Rightarrow> InternalServiceName \<Rightarrow>
   err + unit" where
  "internal_authenticate config sha256 authorization serviceName expectedService =
     (let supplied = (case authorization of
            None \<Rightarrow> []
          | Some a \<Rightarrow> if starts_with bearer a then drop 7 a else []);
          expected = (case expectedService of
            SWAR_ML \<Rightarrow> mlInternalSecret (c_secrets config)
          | SWAR_VERIFIER \<Rightarrow> verificationCallbackSecret (c_secrets config)) in
      if serviceName \<noteq> Some (internal_service_text expectedService) \<or> length supplied = 0 \<or>
         sha256 supplied \<noteq> sha256 expected
      then Inl (AuthError TOKEN_INVALID) else Inr ())"

text \<open>A header that was sent more than once is an array and counts as missing.\<close>

datatype header = HText string | HArray "string list"

definition single_header :: "header option \<Rightarrow> string option" where
  "single_header h = (case h of Some (HText s) \<Rightarrow> Some s | _ \<Rightarrow> None)"

definition internal_service_guard ::
  "configuration \<Rightarrow> (string \<Rightarrow> string) \<Rightarrow> header option \<Rightarrow> header option \<Rightarrow>
   InternalServiceName option \<Rightarrow> err + bool" where
  "internal_service_guard config sha256 authorization serviceName expectedService =
     (case expectedService of
        None \<Rightarrow> Inl (Error ''Internal service guard is not scoped.'')
      | Some expected \<Rightarrow>
          bindE (internal_authenticate config sha256 (single_header authorization)
                   (single_header serviceName) expected) (\<lambda>_. Inr True))"

section \<open>Lemmas\<close>

lemma authorization_assert_Inr [simp]:
  "authorization_assert subject permission org = Inr u \<longleftrightarrow>
     pr_organizationId subject = org \<and> hasPermission (pr_roles subject) permission"
  by (auto simp: authorization_assert_def)

lemma authorization_assert_error:
  "authorization_assert subject permission org = Inl e \<Longrightarrow> e = AuthError FORBIDDEN"
  by (auto simp: authorization_assert_def split: if_splits)

text \<open>A principal with every required permission and role passes, and no other.\<close>

lemma roles_guard_passes:
  "roles_guard (Some ps) None (Some p) = Inr True \<longleftrightarrow>
     (\<forall>permission \<in> set ps. hasPermission (pr_roles p) permission)"
  by (auto simp: roles_guard_def list_ex_iff)

lemma permission_monotone:
  "hasPermission roles permission \<Longrightarrow> set roles \<subseteq> set roles' \<Longrightarrow> hasPermission roles' permission"
  by (auto simp: hasPermission_def list_ex_iff)

lemma internal_authenticate_needs_secret:
  assumes "internal_authenticate config sha256 authorization serviceName expected = Inr u"
    and "\<And>x y. sha256 x = sha256 y \<Longrightarrow> x = y"
  shows "authorization = Some (bearer @ (case expected of
      SWAR_ML \<Rightarrow> mlInternalSecret (c_secrets config)
    | SWAR_VERIFIER \<Rightarrow> verificationCallbackSecret (c_secrets config)))"
proof -
  obtain a where a: "authorization = Some a" "starts_with bearer a"
    and hash: "sha256 (drop 7 a) = sha256 (case expected of
      SWAR_ML \<Rightarrow> mlInternalSecret (c_secrets config)
    | SWAR_VERIFIER \<Rightarrow> verificationCallbackSecret (c_secrets config))"
    using assms(1)
    by (auto simp: internal_authenticate_def Let_def split: option.splits if_splits)
  have "a = take 7 a @ drop 7 a" by simp
  moreover have "take 7 a = bearer" using a(2) by (simp add: starts_with_def bearer_def eval_nat_numeral)
  ultimately show ?thesis using a(1) assms(2) [OF hash] by simp
qed

end
