(* ===== verification/Refresh_Sessions.thy ===== *)
theory Refresh_Sessions
  imports Tables Authorization
begin

text \<open>
  \<open>modules/auth/refresh-session.repository.ts\<close>: login identities and refresh sessions. A session
  belongs to a family; rotation replaces the active session of the family by a new one, and a
  token that was replaced, revoked or expired before revokes the whole family when it is used.
\<close>

section \<open>Relations\<close>

definition membership_of :: "db \<Rightarrow> uuid \<Rightarrow> uuid \<Rightarrow> membership_row option" where
  "membership_of d organizationId membershipId =
     find (\<lambda>m. ms_org m = organizationId \<and> ms_id m = membershipId) (d_memberships d)"

definition user_of :: "db \<Rightarrow> uuid \<Rightarrow> user_row option" where
  "user_of d userId = find (\<lambda>u. us_id u = userId) (d_users d)"

definition device_of :: "db \<Rightarrow> uuid \<Rightarrow> uuid \<Rightarrow> device_row option" where
  "device_of d organizationId deviceId =
     find (\<lambda>v. dv_org v = organizationId \<and> dv_id v = deviceId) (d_devices d)"

definition roles_of :: "db \<Rightarrow> uuid \<Rightarrow> uuid \<Rightarrow> OrganizationRole list" where
  "roles_of d organizationId membershipId =
     map mr_role (filter (\<lambda>r. mr_org r = organizationId \<and> mr_membership r = membershipId)
       (d_roles d))"

text \<open>The filter \<open>membership: { status: ACTIVE, user: { status: ACTIVE, ... } }\<close>.\<close>

definition membership_active ::
  "db \<Rightarrow> uuid \<Rightarrow> uuid \<Rightarrow> (membership_row \<Rightarrow> user_row \<Rightarrow> bool) \<Rightarrow> bool" where
  "membership_active d organizationId membershipId P \<longleftrightarrow>
     (case membership_of d organizationId membershipId of
        None \<Rightarrow> False
      | Some m \<Rightarrow> ms_status m = MEM_ACTIVE \<and>
          (case user_of d (ms_user m) of
             None \<Rightarrow> False
           | Some u \<Rightarrow> us_status u = USER_ACTIVE \<and> P m u))"

text \<open>\<open>include: { membership: ... }\<close>: the foreign key says that the row is there.\<close>

definition get_membership :: "uuid \<Rightarrow> uuid \<Rightarrow> membership_row op" where
  "get_membership organizationId membershipId =
     find_or_throw memberships_table
       (\<lambda>m. ms_org m = organizationId \<and> ms_id m = membershipId) P2025_RecordNotFound"

definition get_user :: "uuid \<Rightarrow> user_row op" where
  "get_user userId = find_or_throw users_table (\<lambda>u. us_id u = userId) P2025_RecordNotFound"

definition get_device :: "uuid \<Rightarrow> uuid \<Rightarrow> device_row op" where
  "get_device organizationId deviceId =
     find_or_throw devices_table (\<lambda>v. dv_org v = organizationId \<and> dv_id v = deviceId)
       P2025_RecordNotFound"

definition get_roles :: "uuid \<Rightarrow> uuid \<Rightarrow> OrganizationRole list op" where
  "get_roles organizationId membershipId = getM (\<lambda>w. roles_of (w_db w) organizationId membershipId)"

section \<open>Login identities\<close>

record LoginRequest =
  lg_email :: string
  lg_organizationSlug :: string
  lg_devicePublicId :: string
  lg_password :: string

record LoginIdentity =
  li_userId :: uuid
  li_organizationId :: uuid
  li_membershipId :: uuid
  li_deviceId :: uuid
  li_roles :: "OrganizationRole list"
  li_passwordHash :: string

datatype RotationResult =
  Rotated AuthPrincipal | Invalid | Expired | Reuse AuthPrincipal

definition organization_active :: "db \<Rightarrow> uuid \<Rightarrow> string \<Rightarrow> bool" where
  "organization_active d organizationId slug \<longleftrightarrow>
     (case find (\<lambda>g. og_id g = organizationId) (d_organizations d) of
        None \<Rightarrow> False
      | Some g \<Rightarrow> og_slug g = slug \<and> og_status g = ''ACTIVE'')"

definition login_device :: "db \<Rightarrow> LoginRequest \<Rightarrow> device_row \<Rightarrow> bool" where
  "login_device d input v \<longleftrightarrow>
     dv_publicId v = lg_devicePublicId input \<and> dv_status v = DEVICE_ACTIVE \<and>
     organization_active d (dv_org v) (lg_organizationSlug input) \<and>
     membership_active d (dv_org v) (dv_membership v) (\<lambda>m u. us_email u = lg_email input)"

definition findLoginIdentity :: "LoginRequest \<Rightarrow> LoginIdentity option op" where
  "findLoginIdentity input =
     bindM (getM (\<lambda>w. find (login_device (w_db w) input) (d_devices (w_db w)))) (\<lambda>found.
     case found of
       None \<Rightarrow> returnM None
     | Some device \<Rightarrow>
         bindM (get_membership (dv_org device) (dv_membership device)) (\<lambda>membership.
         bindM (get_user (ms_user membership)) (\<lambda>user.
         bindM (get_roles (dv_org device) (dv_membership device)) (\<lambda>roles.
         returnM (Some \<lparr>li_userId = us_id user, li_organizationId = dv_org device,
           li_membershipId = dv_membership device, li_deviceId = dv_id device,
           li_roles = roles, li_passwordHash = us_passwordHash user\<rparr>)))))"

section \<open>Sessions\<close>

definition new_refresh_row ::
  "uuid \<Rightarrow> uuid \<Rightarrow> uuid \<Rightarrow> string \<Rightarrow> uuid \<Rightarrow> instant \<Rightarrow> uuid \<Rightarrow> instant \<Rightarrow> refresh_row" where
  "new_refresh_row organizationId membershipId deviceId tokenHash familyId expiresAt newId
     issuedAt =
     \<lparr>rs_id = newId, rs_org = organizationId, rs_membership = membershipId,
      rs_device = deviceId, rs_tokenHash = tokenHash, rs_family = familyId,
      rs_status = REFRESH_ACTIVE, rs_issuedAt = issuedAt, rs_expiresAt = expiresAt,
      rs_rotatedAt = None, rs_revokedAt = None\<rparr>"

definition create_session ::
  "LoginIdentity \<Rightarrow> string \<Rightarrow> uuid \<Rightarrow> instant \<Rightarrow> AuthPrincipal op" where
  "create_session identity tokenHash familyId expiresAt = serializable
     (bindM (getM (\<lambda>w. find (\<lambda>v. dv_id v = li_deviceId identity \<and>
               dv_org v = li_organizationId identity \<and>
               dv_membership v = li_membershipId identity \<and> dv_status v = DEVICE_ACTIVE \<and>
               membership_active (w_db w) (dv_org v) (dv_membership v) (\<lambda>m u. True))
             (d_devices (w_db w)))) (\<lambda>found.
      case found of
        None \<Rightarrow> throwM (Error ''AUTH_IDENTITY_CHANGED'')
      | Some device \<Rightarrow>
          bindM (get_roles (dv_org device) (dv_membership device)) (\<lambda>roles.
          bindM new_id (\<lambda>newId.
          bindM now (\<lambda>issuedAt.
          bindM (create refreshes_table (new_refresh_row (dv_org device) (dv_membership device)
                   (dv_id device) tokenHash familyId expiresAt newId issuedAt)) (\<lambda>session.
          returnM \<lparr>pr_userId = li_userId identity, pr_organizationId = dv_org device,
            pr_membershipId = dv_membership device, pr_deviceId = dv_id device,
            pr_sessionId = rs_id session, pr_roles = roles\<rparr>))))))"

definition active_in_family :: "uuid \<Rightarrow> refresh_row \<Rightarrow> bool" where
  "active_in_family familyId r \<longleftrightarrow> rs_family r = familyId \<and> rs_status r = REFRESH_ACTIVE"

definition revoke_active :: "uuid \<Rightarrow> nat op" where
  "revoke_active familyId =
     bindM now (\<lambda>t. update_rows refreshes_table (active_in_family familyId)
       (\<lambda>r. r\<lparr>rs_status := REFRESH_REVOKED, rs_revokedAt := Some t\<rparr>))"

definition toPrincipal ::
  "refresh_row \<Rightarrow> uuid \<Rightarrow> membership_row \<Rightarrow> OrganizationRole list \<Rightarrow> AuthPrincipal" where
  "toPrincipal session sessionId membership roles =
     \<lparr>pr_userId = ms_user membership, pr_organizationId = rs_org session,
      pr_membershipId = rs_membership session, pr_deviceId = rs_device session,
      pr_sessionId = sessionId, pr_roles = roles\<rparr>"

text \<open>The session is active and not expired: it is replaced by the next one of its family.\<close>

definition rotate_active ::
  "string \<Rightarrow> instant \<Rightarrow> refresh_row \<Rightarrow> membership_row \<Rightarrow> OrganizationRole list \<Rightarrow>
   RotationResult op" where
  "rotate_active nextHash expiresAt current membership roles =
     bindM now (\<lambda>rotatedAt.
     bindM (update_rows refreshes_table
              (\<lambda>r. rs_id r = rs_id current \<and> rs_status r = REFRESH_ACTIVE)
              (\<lambda>r. r\<lparr>rs_status := REFRESH_ROTATED, rs_rotatedAt := Some rotatedAt\<rparr>)) (\<lambda>count.
     if count \<noteq> 1 then
       bindM (revoke_active (rs_family current)) (\<lambda>_.
       returnM (Reuse (toPrincipal current (rs_id current) membership roles)))
     else
       bindM new_id (\<lambda>newId.
       bindM now (\<lambda>issuedAt.
       bindM (create refreshes_table (new_refresh_row (rs_org current) (rs_membership current)
                (rs_device current) nextHash (rs_family current) expiresAt newId issuedAt)) (\<lambda>next'.
       returnM (Rotated (toPrincipal current (rs_id next') membership roles)))))))"

definition rotate_related ::
  "string \<Rightarrow> instant \<Rightarrow> refresh_row \<Rightarrow> device_row \<Rightarrow> membership_row \<Rightarrow> user_row \<Rightarrow>
   OrganizationRole list \<Rightarrow> RotationResult op" where
  "rotate_related nextHash expiresAt current device membership user roles =
     (if rs_status current \<noteq> REFRESH_ACTIVE then
       bindM (revoke_active (rs_family current)) (\<lambda>_.
       returnM (Reuse (toPrincipal current (rs_id current) membership roles)))
     else
       bindM now (\<lambda>t.
       if rs_expiresAt current \<le> t then
         bindM now (\<lambda>revokedAt.
         bindM (update_one refreshes_table (\<lambda>r. rs_id r = rs_id current)
                  (\<lambda>r. r\<lparr>rs_status := REFRESH_EXPIRED, rs_revokedAt := Some revokedAt\<rparr>)) (\<lambda>_.
         returnM Expired))
       else if \<not> (dv_status device = DEVICE_ACTIVE \<and> ms_status membership = MEM_ACTIVE \<and>
                  us_status user = USER_ACTIVE) then
         bindM (revoke_active (rs_family current)) (\<lambda>_. returnM Invalid)
       else rotate_active nextHash expiresAt current membership roles))"

definition rotate_found ::
  "string \<Rightarrow> instant \<Rightarrow> refresh_row \<Rightarrow> RotationResult op" where
  "rotate_found nextHash expiresAt current =
     bindM (get_device (rs_org current) (rs_device current)) (\<lambda>device.
     bindM (get_membership (rs_org current) (rs_membership current)) (\<lambda>membership.
     bindM (get_user (ms_user membership)) (\<lambda>user.
     bindM (get_roles (rs_org current) (rs_membership current)) (\<lambda>roles.
     rotate_related nextHash expiresAt current device membership user roles))))"

definition session_of_token :: "string \<Rightarrow> refresh_row option op" where
  "session_of_token tokenHash = find_unique_row refreshes_table (\<lambda>r. rs_tokenHash r = tokenHash)"

definition rotate_session :: "string \<Rightarrow> string \<Rightarrow> instant \<Rightarrow> RotationResult op" where
  "rotate_session currentHash nextHash expiresAt = serializable
     (bindM (session_of_token currentHash) (\<lambda>found. case found of
        None \<Rightarrow> returnM Invalid
      | Some current \<Rightarrow> rotate_found nextHash expiresAt current))"

definition revokeFamily :: "string \<Rightarrow> AuthPrincipal option op" where
  "revokeFamily tokenHash = serializable
     (bindM (session_of_token tokenHash) (\<lambda>found. case found of
        None \<Rightarrow> returnM None
      | Some session \<Rightarrow>
          bindM (get_membership (rs_org session) (rs_membership session)) (\<lambda>membership.
          bindM (get_roles (rs_org session) (rs_membership session)) (\<lambda>roles.
          bindM (revoke_active (rs_family session)) (\<lambda>_.
          returnM (Some (toPrincipal session (rs_id session) membership roles)))))))"

record AccessTokenClaims =
  cl_sub :: uuid
  cl_organizationId :: uuid
  cl_membershipId :: uuid
  cl_deviceId :: uuid
  cl_sessionId :: uuid
  cl_jti :: string
  cl_tokenUse :: string

definition live_session :: "db \<Rightarrow> AccessTokenClaims \<Rightarrow> instant \<Rightarrow> refresh_row \<Rightarrow> bool" where
  "live_session d claims t r \<longleftrightarrow>
     rs_id r = cl_sessionId claims \<and> rs_org r = cl_organizationId claims \<and>
     rs_membership r = cl_membershipId claims \<and> rs_device r = cl_deviceId claims \<and>
     rs_status r = REFRESH_ACTIVE \<and> t < rs_expiresAt r \<and>
     (case device_of d (rs_org r) (rs_device r) of
        None \<Rightarrow> False | Some v \<Rightarrow> dv_status v = DEVICE_ACTIVE) \<and>
     membership_active d (rs_org r) (rs_membership r) (\<lambda>m u. ms_user m = cl_sub claims)"

definition findPrincipal :: "AccessTokenClaims \<Rightarrow> AuthPrincipal option op" where
  "findPrincipal claims =
     bindM now (\<lambda>t.
     bindM (getM (\<lambda>w. find (live_session (w_db w) claims t) (d_refreshSessions (w_db w))))
       (\<lambda>found. case found of
       None \<Rightarrow> returnM None
     | Some session \<Rightarrow>
         bindM (get_membership (rs_org session) (rs_membership session)) (\<lambda>membership.
         bindM (get_roles (rs_org session) (rs_membership session)) (\<lambda>roles.
         returnM (Some (toPrincipal session (rs_id session) membership roles))))))"

end
