(* ===== verification/Store_Rules.thy ===== *)
theory Store_Rules
  imports Tables Database_Types
begin

text \<open>
  Further rules for operations on the store: what is kept when the database plays no part, which
  operations throw without writing anything, and rows of a table without conflicts.
\<close>

section \<open>Frames\<close>

named_theorems framed \<open>rules for what does not depend on the database\<close>

text \<open>What does not depend on the database is kept by every use of it.\<close>

lemma keeps_create_frame [framed]:
  "(\<And>w d. I w \<Longrightarrow> I (w\<lparr>w_db := d\<rparr>)) \<Longrightarrow> keeps I (create tb r)"
  by (simp add: keeps_def create_def)

lemma keeps_update_rows_frame [framed]:
  "(\<And>w d. I w \<Longrightarrow> I (w\<lparr>w_db := d\<rparr>)) \<Longrightarrow> keeps I (update_rows tb P f)"
  by (simp add: keeps_def update_rows_def Let_def)

lemma keeps_update_one_frame [framed]:
  "(\<And>w d. I w \<Longrightarrow> I (w\<lparr>w_db := d\<rparr>)) \<Longrightarrow> keeps I (update_one tb P f)"
  by (auto simp: update_one_def intro!: hoare framed)

lemma keeps_transaction_frame:
  assumes "keeps I operation" "\<And>w d. I w \<Longrightarrow> I (w\<lparr>w_db := d\<rparr>)" "\<And>w cs. I w \<Longrightarrow> I (w\<lparr>w_conflicts := cs\<rparr>)"
  shows "keeps I (transaction operation)"
proof (rule keepsI)
  fix w assume I: "I w"
  obtain refused rest where s:
      "(case w_conflicts w of [] \<Rightarrow> (False, []) | c # cs \<Rightarrow> (c, cs)) = (refused, rest)"
    by fastforce
  obtain r w' where r: "operation (w\<lparr>w_conflicts := rest\<rparr>) = (r, w')" by fastforce
  have "I w'" by (rule keepsD [OF assms(1) _ r]) (simp add: I assms(3))
  then show "I (snd (transaction operation w))"
    by (cases r) (simp_all add: transaction_def s r rollback_def assms(2))
qed

lemma keeps_serializable_frame [framed]:
  assumes "keeps I operation" "\<And>w d. I w \<Longrightarrow> I (w\<lparr>w_db := d\<rparr>)" "\<And>w cs. I w \<Longrightarrow> I (w\<lparr>w_conflicts := cs\<rparr>)"
  shows "keeps I (serializable operation)"
proof -
  have t: "keeps I (transaction operation)" by (rule keeps_transaction_frame [OF assms])
  have "keeps I (serializable_attempts n operation)" for n
  proof (induction n)
    case 0
    show ?case
    proof (rule keepsI)
      fix w assume "I w"
      then have "I (snd (transaction operation w))" by (rule keeps_sndD [OF t])
      then show "I (snd (serializable_attempts 0 operation w))"
        by (subst serializable_attempts.simps) (auto split: prod.split sum.split err.split)
    qed
  next
    case (Suc n)
    show ?case
    proof (rule keepsI)
      fix w assume "I w"
      then have "I (snd (transaction operation w))" by (rule keeps_sndD [OF t])
      then show "I (snd (serializable_attempts (Suc n) operation w))"
        by (subst serializable_attempts.simps)
          (auto split: prod.split sum.split err.split intro: keeps_sndD [OF Suc])
    qed
  qed
  then show ?thesis by (simp add: serializable_def)
qed

lemma keeps_guard_then:
  "(b \<Longrightarrow> keeps I m) \<Longrightarrow> keeps I (thenM (guardM b e) m)"
  by (cases b) (auto simp: guardM_def thenM_def keeps_throwM)

lemma keeps_bind_tenant:
  "keeps I (k context) \<Longrightarrow> keeps I (bindM (liftE (requireTenant context)) k)"
  by (auto simp: keeps_def bindM_def liftE_def requireTenant_def requireUuid_def)

lemma keeps_bind_uuid:
  "keeps I (k i) \<Longrightarrow> keeps I (bindM (liftE (requireUuid i name)) k)"
  by (auto simp: keeps_def bindM_def liftE_def requireUuid_def)

section \<open>Transactions that break an invariant on the way\<close>

text \<open>An error rolls back, so only the runs that return matter.\<close>

lemma keeps_serializable_gives:
  assumes "gives (on_db I) operation (\<lambda>_. on_db I)"
  shows "keeps (on_db I) (serializable operation)"
proof (rule keepsI)
  fix w assume w: "on_db I w"
  obtain r w' where r: "serializable operation w = (r, w')" by fastforce
  show "on_db I (snd (serializable operation w))"
  proof (cases r)
    case (Inl e)
    with r serializable_atomic [of operation w e w'] w show ?thesis by (simp add: on_db_def)
  next
    case (Inr a)
    with r obtain w0 where "w_db w0 = w_db w" "operation w0 = (Inr a, w')"
      by (auto elim: serializable_run)
    with validD [OF assms, of w0 a w'] w r show ?thesis by (simp add: on_db_def)
  qed
qed

lemma keeps_transaction_gives:
  assumes "gives (on_db I) operation (\<lambda>_. on_db I)"
  shows "keeps (on_db I) (transaction operation)"
proof (rule keepsI)
  fix w assume w: "on_db I w"
  obtain r w' where r: "transaction operation w = (r, w')" by fastforce
  show "on_db I (snd (transaction operation w))"
  proof (cases r)
    case (Inl e)
    with r transaction_atomic [of operation w e w'] w show ?thesis by (simp add: on_db_def)
  next
    case (Inr a)
    with r obtain cs where "operation (w\<lparr>w_conflicts := cs\<rparr>) = (Inr a, w')"
      by (auto elim: transaction_run)
    with validD [OF assms, of "w\<lparr>w_conflicts := cs\<rparr>" a w'] w r show ?thesis by (simp add: on_db_def)
  qed
qed

lemma update_rows_error: "update_rows tb P f w = (Inl e, w') \<Longrightarrow> w' = w"
  by (auto simp: update_rows_def Let_def split: if_splits)

section \<open>Refusals\<close>

text \<open>\<open>refuses d m\<close>: from the database \<open>d\<close> the operation throws and leaves it as it is.\<close>

definition refuses :: "db \<Rightarrow> 'a op \<Rightarrow> bool" where
  "refuses d m \<longleftrightarrow> (\<forall>w. w_db w = d \<longrightarrow> (\<exists>e w'. m w = (Inl e, w') \<and> w_db w' = d))"

lemma refuses_throwM [intro]: "refuses d (throwM e)"
  by (simp add: refuses_def throwM_def)

lemma refuses_bindM:
  assumes "keeps (on_db (\<lambda>x. x = d)) m" "\<And>a. refuses d (f a)"
  shows "refuses d (bindM m f)"
  unfolding refuses_def
proof (intro allI impI)
  fix w :: world assume w: "w_db w = d"
  obtain r w1 where r: "m w = (r, w1)" by fastforce
  from keepsD [OF assms(1) _ r] w have "w_db w1 = d" by (simp add: on_db_def)
  with r assms(2) show "\<exists>e w'. bindM m f w = (Inl e, w') \<and> w_db w' = d"
    by (cases r) (auto simp: refuses_def)
qed

lemma refuses_bindM_val:
  assumes "\<And>w. w_db w = d \<Longrightarrow> m w = (Inr a, w)" "refuses d (f a)"
  shows "refuses d (bindM m f)"
  using assms by (simp add: refuses_def)

lemma refuses_bindM_run:
  assumes "keeps (on_db (\<lambda>x. x = d)) m"
    and "\<And>w a w'. w_db w = d \<Longrightarrow> m w = (Inr a, w') \<Longrightarrow> refuses d (f a)"
  shows "refuses d (bindM m f)"
  unfolding refuses_def
proof (intro allI impI)
  fix w :: world assume w: "w_db w = d"
  obtain r w1 where r: "m w = (r, w1)" by fastforce
  from keepsD [OF assms(1) _ r] w have "w_db w1 = d" by (simp add: on_db_def)
  with r w assms(2) show "\<exists>e w'. bindM m f w = (Inl e, w') \<and> w_db w' = d"
    by (cases r) (auto simp: refuses_def)
qed

lemma refuses_bindM1: "refuses d m \<Longrightarrow> refuses d (bindM m f)"
  by (fastforce simp: refuses_def bindM_def)

lemma refuses_thenM:
  "keeps (on_db (\<lambda>x. x = d)) m \<Longrightarrow> refuses d k \<Longrightarrow> refuses d (thenM m k)"
  by (simp add: thenM_def refuses_bindM)

lemma refuses_catchM:
  "refuses d m \<Longrightarrow> (\<And>e. refuses d (h e)) \<Longrightarrow> refuses d (catchM m h)"
  by (fastforce simp: refuses_def catchM_def)

lemma refuses_if:
  "(b \<Longrightarrow> refuses d m) \<Longrightarrow> (\<not> b \<Longrightarrow> refuses d k) \<Longrightarrow> refuses d (if b then m else k)"
  by simp

lemma refuses_create:
  "x \<in> set (t_get tb d) \<Longrightarrow> t_clash tb x r \<Longrightarrow> refuses d (create tb r)"
  by (auto simp: refuses_def create_def list_ex_iff)

section \<open>Rows without conflicts\<close>

lemma pairwise_free_map:
  "(\<And>a b. clash (g a) (g b) = clash a b) \<Longrightarrow> pairwise_free clash (map g rs) = pairwise_free clash rs"
  by (induction rs) (auto simp: list_ex_iff)

lemma pairwise_free_filter:
  assumes "pairwise_free clash rs" "x \<in> set rs" "P x" "\<And>y. P y \<Longrightarrow> clash x y \<and> clash y x"
  shows "filter P rs = [x]"
  using assms(1,2)
proof (induction rs)
  case (Cons r rs)
  show ?case
  proof (cases "r = x")
    case True
    then have "filter P rs = []"
      using Cons.prems(1) assms(4) by (auto simp: filter_empty_conv list_ex_iff)
    with True assms(3) show ?thesis by simp
  next
    case False
    with Cons.prems have "\<not> P r" using assms(4) by (auto simp: list_ex_iff)
    with False Cons show ?thesis by simp
  qed
qed simp

end
