(* ===== verification/Auth_Service.thy ===== *)
theory Auth_Service
  imports Refresh_Sessions Audit_Log Store_Rules "HOL-Library.AList"
begin

text \<open>
  \<open>modules/auth\<close>: the login limiter, the password and token services, login, refresh and logout
  (\<open>auth.service.ts\<close>), the authentication of an access token
  (\<open>access-session-authenticator.service.ts\<close>) with its guard, and the parsers of the requests
  (\<open>auth.contracts.ts\<close>). Argon2, the JWT library, HMAC and SHA-256 are fields of \<open>auth_runtime\<close>;
  random tokens are the next text of the world's stream.
\<close>

record auth_runtime =
  ae_config :: auth_config
  ae_sign :: "auth_config \<Rightarrow> instant \<Rightarrow> AccessTokenClaims \<Rightarrow> string"
  ae_verify :: "auth_config \<Rightarrow> instant \<Rightarrow> string \<Rightarrow> AccessTokenClaims option"
  ae_hmac :: "string \<Rightarrow> string \<Rightarrow> string"
  ae_sha256 :: "string \<Rightarrow> string"
  ae_argon2 :: "string \<Rightarrow> string \<Rightarrow> bool option"
  ae_dummyHash :: "string option"

section \<open>The login limiter\<close>

definition limiter_key :: "auth_runtime \<Rightarrow> string \<Rightarrow> string" where
  "limiter_key env identity = ae_sha256 env (map ascii_lower identity)"

definition drop_attempts :: "string \<Rightarrow> unit op" where
  "drop_attempts key = modifyM (\<lambda>w. w\<lparr>w_attempts := AList.delete key (w_attempts w)\<rparr>)"

definition assertAllowed :: "auth_runtime \<Rightarrow> string \<Rightarrow> unit op" where
  "assertAllowed env identity =
     bindM (getM (\<lambda>w. map_of (w_attempts w) (limiter_key env identity))) (\<lambda>found.
     case found of
       None \<Rightarrow> returnM ()
     | Some current \<Rightarrow>
         bindM now (\<lambda>t1.
         if t1 < win_resetAt current \<and>
            loginMaximumAttempts (ae_config env) \<le> int (win_count current)
         then throwM (AuthError AUTH_RATE_LIMITED)
         else bindM now (\<lambda>t2.
           if win_resetAt current \<le> t2 then drop_attempts (limiter_key env identity)
           else returnM ())))"

definition next_window :: "auth_config \<Rightarrow> instant \<Rightarrow> AttemptWindow option \<Rightarrow> AttemptWindow" where
  "next_window config t current = (case current of
     None \<Rightarrow> \<lparr>win_count = 1, win_resetAt = t + loginWindowSeconds config * 1000\<rparr>
   | Some c \<Rightarrow>
       if win_resetAt c \<le> t
       then \<lparr>win_count = 1, win_resetAt = t + loginWindowSeconds config * 1000\<rparr>
       else c\<lparr>win_count := win_count c + 1\<rparr>)"

definition note_failure ::
  "auth_config \<Rightarrow> string \<Rightarrow> instant \<Rightarrow> (string \<times> AttemptWindow) list \<Rightarrow>
   (string \<times> AttemptWindow) list" where
  "note_failure config key t attempts =
     (let counted = AList.update key (next_window config t (map_of attempts key)) attempts in
      if 10000 < length counted
      then filter (\<lambda>(candidate, window). \<not> win_resetAt window \<le> t) counted
      else counted)"

definition limiter_failed :: "auth_runtime \<Rightarrow> string \<Rightarrow> unit op" where
  "limiter_failed env identity =
     bindM now (\<lambda>t. modifyM (\<lambda>w. w\<lparr>w_attempts :=
       note_failure (ae_config env) (limiter_key env identity) t (w_attempts w)\<rparr>))"

definition limiter_succeeded :: "auth_runtime \<Rightarrow> string \<Rightarrow> unit op" where
  "limiter_succeeded env identity = drop_attempts (limiter_key env identity)"

section \<open>Passwords and tokens\<close>

definition password_hash_allowed :: "string \<Rightarrow> err + unit" where
  "password_hash_allowed password =
     guardE (\<not> (length password < 12 \<or> 1024 < length password))
       (Error ''Password length is outside the accepted range.'')"

definition password_verify :: "auth_runtime \<Rightarrow> string option \<Rightarrow> string \<Rightarrow> err + bool" where
  "password_verify env passwordHash password =
     (case (case passwordHash of None \<Rightarrow> ae_dummyHash env | Some h \<Rightarrow> Some h) of
        None \<Rightarrow> Inl (Error ''Password service is not initialized.'')
      | Some selectedHash \<Rightarrow>
          (case ae_argon2 env selectedHash password of
             None \<Rightarrow> Inr False
           | Some same \<Rightarrow> Inr (passwordHash \<noteq> None \<and> same)))"

definition hashRefresh :: "auth_runtime \<Rightarrow> string \<Rightarrow> string" where
  "hashRefresh env token = ae_hmac env (refreshSecret (ae_config env)) token"

definition issueRefresh :: "auth_runtime \<Rightarrow> (string \<times> string) op" where
  "issueRefresh env = bindM new_id (\<lambda>token. returnM (token, hashRefresh env token))"

definition issueAccess :: "auth_runtime \<Rightarrow> AuthPrincipal \<Rightarrow> string op" where
  "issueAccess env subject =
     bindM new_id (\<lambda>jti. bindM now (\<lambda>t.
     returnM (ae_sign env (ae_config env) t
       \<lparr>cl_sub = pr_userId subject, cl_organizationId = pr_organizationId subject,
        cl_membershipId = pr_membershipId subject, cl_deviceId = pr_deviceId subject,
        cl_sessionId = pr_sessionId subject, cl_jti = jti, cl_tokenUse = ''access''\<rparr>)))"

definition claims_complete :: "AccessTokenClaims \<Rightarrow> bool" where
  "claims_complete c \<longleftrightarrow> cl_tokenUse c = ''access'' \<and> cl_sub c \<noteq> [] \<and>
     cl_organizationId c \<noteq> [] \<and> cl_membershipId c \<noteq> [] \<and> cl_deviceId c \<noteq> [] \<and>
     cl_sessionId c \<noteq> [] \<and> cl_jti c \<noteq> []"

definition verifyAccess :: "auth_runtime \<Rightarrow> string \<Rightarrow> AccessTokenClaims op" where
  "verifyAccess env token =
     bindM now (\<lambda>t.
     case ae_verify env (ae_config env) t token of
       None \<Rightarrow> throwM (AuthError TOKEN_INVALID)
     | Some claims \<Rightarrow>
         thenM (guardM (claims_complete claims) (AuthError TOKEN_INVALID)) (returnM claims))"

section \<open>Login, refresh, logout\<close>

record AuthSessionResponse =
  sr_accessToken :: string
  sr_refreshToken :: string
  sr_tokenType :: string
  sr_expiresIn :: int
  sr_principal :: AuthPrincipal

definition refreshExpiry :: "auth_runtime \<Rightarrow> instant op" where
  "refreshExpiry env = bindM now (\<lambda>t. returnM (t + refreshTtlSeconds (ae_config env) * 1000))"

definition session_response :: "auth_runtime \<Rightarrow> AuthPrincipal \<Rightarrow> string \<Rightarrow> AuthSessionResponse op" where
  "session_response env subject refreshToken =
     bindM (issueAccess env subject) (\<lambda>accessToken.
     returnM \<lparr>sr_accessToken = accessToken, sr_refreshToken = refreshToken,
       sr_tokenType = ''Bearer'', sr_expiresIn = accessTtlSeconds (ae_config env),
       sr_principal = subject\<rparr>)"

definition record_session_audit ::
  "AuthPrincipal \<Rightarrow> string \<Rightarrow> string \<Rightarrow> AuditOutcome \<Rightarrow> unit op" where
  "record_session_audit subject correlationId action outcome =
     bindM (audit_append (pr_organizationId subject)
       \<lparr>aa_actor = Some (pr_membershipId subject), aa_correlationId = correlationId,
        aa_idempotencyKey = None, aa_action = action, aa_targetType = ''refresh_session'',
        aa_targetId = pr_sessionId subject, aa_outcome = outcome, aa_reasonCode = None,
        aa_sourceIpHash = None,
        aa_metadata = Some (no_metadata\<lparr>am_operation := Some action\<rparr>),
        aa_occurredAt = None\<rparr>) (\<lambda>_. returnM ())"

definition attempt_key :: "LoginRequest \<Rightarrow> string" where
  "attempt_key input =
     lg_organizationSlug input @ '':'' @ lg_email input @ '':'' @ lg_devicePublicId input"

definition open_session ::
  "auth_runtime \<Rightarrow> LoginIdentity \<Rightarrow> string \<Rightarrow> AuthSessionResponse op" where
  "open_session env identity correlationId =
     bindM (issueRefresh env) (\<lambda>(token, hash).
     bindM (catchM
        (bindM new_id (\<lambda>familyId. bindM (refreshExpiry env) (\<lambda>expiresAt.
           create_session identity hash familyId expiresAt)))
        (\<lambda>_. throwM (AuthError AUTHENTICATION_FAILED))) (\<lambda>subject.
     thenM (catchM
        (record_session_audit subject correlationId ''auth.session.created'' AUDIT_SUCCEEDED)
        (\<lambda>_. bindM (revokeFamily hash) (\<lambda>_. throwM (AuthError AUTHENTICATION_FAILED))))
     (session_response env subject token)))"

definition login :: "auth_runtime \<Rightarrow> LoginRequest \<Rightarrow> string \<Rightarrow> AuthSessionResponse op" where
  "login env input correlationId =
     thenM (assertAllowed env (attempt_key input))
     (bindM (findLoginIdentity input) (\<lambda>identity.
      bindM (liftE (password_verify env (map_option li_passwordHash identity) (lg_password input)))
        (\<lambda>passwordMatches.
      case identity of
        None \<Rightarrow> thenM (limiter_failed env (attempt_key input))
                  (throwM (AuthError AUTHENTICATION_FAILED))
      | Some i \<Rightarrow>
          if \<not> passwordMatches then
            thenM (limiter_failed env (attempt_key input))
              (throwM (AuthError AUTHENTICATION_FAILED))
          else thenM (limiter_succeeded env (attempt_key input))
                 (open_session env i correlationId))))"

definition refresh :: "auth_runtime \<Rightarrow> string \<Rightarrow> string \<Rightarrow> AuthSessionResponse op" where
  "refresh env refreshToken correlationId =
     bindM (issueRefresh env) (\<lambda>(token, hash).
     bindM (refreshExpiry env) (\<lambda>expiresAt.
     bindM (rotate_session (hashRefresh env refreshToken) hash expiresAt) (\<lambda>result.
     case result of
       Reuse subject \<Rightarrow>
         thenM (record_session_audit subject correlationId ''auth.refresh.reuse-detected''
                  AUDIT_DENIED)
           (throwM (AuthError REFRESH_REUSE_DETECTED))
     | Invalid \<Rightarrow> throwM (AuthError TOKEN_INVALID)
     | Expired \<Rightarrow> throwM (AuthError TOKEN_INVALID)
     | Rotated subject \<Rightarrow>
         thenM (catchM
            (record_session_audit subject correlationId ''auth.session.rotated'' AUDIT_SUCCEEDED)
            (\<lambda>_. bindM (revokeFamily hash) (\<lambda>_. throwM (AuthError TOKEN_INVALID))))
         (session_response env subject token))))"

definition logout :: "auth_runtime \<Rightarrow> string \<Rightarrow> string \<Rightarrow> unit op" where
  "logout env refreshToken correlationId =
     bindM (revokeFamily (hashRefresh env refreshToken)) (\<lambda>subject.
     case subject of
       None \<Rightarrow> returnM ()
     | Some p \<Rightarrow> record_session_audit p correlationId ''auth.session.revoked'' AUDIT_SUCCEEDED)"

section \<open>Access tokens\<close>

definition token_malformed :: "string \<Rightarrow> bool" where
  "token_malformed token \<longleftrightarrow> length token = 0 \<or> List.member token CHR '' ''"

definition authenticate :: "auth_runtime \<Rightarrow> string \<Rightarrow> AuthPrincipal op" where
  "authenticate env token =
     thenM (guardM (\<not> token_malformed token) (AuthError TOKEN_INVALID))
     (bindM (verifyAccess env token) (\<lambda>claims.
      bindM (findPrincipal claims) (\<lambda>subject. case subject of
        None \<Rightarrow> throwM (AuthError TOKEN_INVALID)
      | Some p \<Rightarrow> returnM p)))"

text \<open>\<open>AccessTokenGuard.canActivate\<close> returns the principal it puts into the request.\<close>

definition access_token_guard :: "auth_runtime \<Rightarrow> header option \<Rightarrow> AuthPrincipal op" where
  "access_token_guard env authorization =
     (case single_header authorization of
        None \<Rightarrow> throwM (AuthError TOKEN_INVALID)
      | Some value \<Rightarrow>
          if \<not> starts_with bearer value then throwM (AuthError TOKEN_INVALID)
          else thenM (guardM (\<not> token_malformed (drop 7 value)) (AuthError TOKEN_INVALID))
                 (authenticate env (drop 7 value)))"

section \<open>Requests\<close>

text \<open>\<open>none\<close> stands for a value that is not an object, a field for one that may have any type.\<close>

definition auth_record :: "json option \<Rightarrow> err + (string \<times> json) list" where
  "auth_record value = (case value of
     Some (JObj entries) \<Rightarrow> Inr entries
   | _ \<Rightarrow> Inl (AuthError AUTHENTICATION_FAILED))"

definition stringField :: "(string \<times> json) list \<Rightarrow> string \<Rightarrow> nat \<Rightarrow> err + string" where
  "stringField value name maximum = (case map_of value name of
     Some (JStr field) \<Rightarrow>
       (let normalized = js_trim field in
        if length normalized = 0 \<or> maximum < length normalized
        then Inl (AuthError AUTHENTICATION_FAILED) else Inr normalized)
   | _ \<Rightarrow> Inl (AuthError AUTHENTICATION_FAILED))"

definition secretField :: "(string \<times> json) list \<Rightarrow> string \<Rightarrow> nat \<Rightarrow> err + string" where
  "secretField value name maximum = (case map_of value name of
     Some (JStr field) \<Rightarrow>
       if length field = 0 \<or> maximum < length field
       then Inl (AuthError AUTHENTICATION_FAILED) else Inr field
   | _ \<Rightarrow> Inl (AuthError AUTHENTICATION_FAILED))"

definition parseLoginRequest :: "json option \<Rightarrow> err + LoginRequest" where
  "parseLoginRequest value =
     bindE (auth_record value) (\<lambda>body.
     bindE (guardE (list_all (\<lambda>(key, _). List.member
              [''email'', ''organizationSlug'', ''devicePublicId'', ''password''] key) body)
            (AuthError AUTHENTICATION_FAILED)) (\<lambda>_.
     bindE (stringField body ''email'' 320) (\<lambda>email.
     bindE (stringField body ''organizationSlug'' 80) (\<lambda>slug.
     bindE (stringField body ''devicePublicId'' 128) (\<lambda>device.
     bindE (secretField body ''password'' 1024) (\<lambda>password.
     Inr \<lparr>lg_email = map ascii_lower email, lg_organizationSlug = map ascii_lower slug,
          lg_devicePublicId = device, lg_password = password\<rparr>))))))"

definition parseRefreshRequest :: "json option \<Rightarrow> err + string" where
  "parseRefreshRequest value =
     bindE (auth_record value) (\<lambda>body.
     bindE (guardE (list_all (\<lambda>(key, _). key = ''refreshToken'') body) (AuthError TOKEN_INVALID))
       (\<lambda>_. stringField body ''refreshToken'' 512))"

text \<open>The routes of \<open>auth.controller.ts\<close>; the correlation identifier is the request's.\<close>

definition login_route :: "auth_runtime \<Rightarrow> json option \<Rightarrow> string \<Rightarrow> AuthSessionResponse op" where
  "login_route env body requestId =
     bindM (liftE (parseLoginRequest body)) (\<lambda>input. login env input requestId)"

definition refresh_route :: "auth_runtime \<Rightarrow> json option \<Rightarrow> string \<Rightarrow> AuthSessionResponse op" where
  "refresh_route env body requestId =
     bindM (liftE (parseRefreshRequest body)) (\<lambda>token. refresh env token requestId)"

definition revoke_route :: "auth_runtime \<Rightarrow> json option \<Rightarrow> string \<Rightarrow> unit op" where
  "revoke_route env body requestId =
     bindM (liftE (parseRefreshRequest body)) (\<lambda>token. logout env token requestId)"

section \<open>Lemmas\<close>

section \<open>Families of sessions\<close>

definition families_ok :: "db \<Rightarrow> bool" where
  "families_ok d \<longleftrightarrow>
     (\<forall>f. length (filter (active_in_family f) (d_refreshSessions d)) \<le> 1)"

definition families_in :: "uuid set \<Rightarrow> db \<Rightarrow> bool" where
  "families_in F d \<longleftrightarrow> (\<forall>r \<in> set (d_refreshSessions d). rs_family r \<in> F)"

lemma active_after_change:
  assumes "\<And>r. P r \<Longrightarrow> rs_family (f r) = rs_family r \<and> rs_status (f r) \<noteq> REFRESH_ACTIVE"
  shows "filter (active_in_family g) (change_rows P f rs) =
    filter (\<lambda>r. active_in_family g r \<and> \<not> P r) rs"
  using assms by (induction rs) (auto simp: change_rows_def active_in_family_def)

lemma families_in_change:
  "(\<And>r. P r \<Longrightarrow> rs_family (f r) = rs_family r) \<Longrightarrow>
     (\<forall>r \<in> set (change_rows P f rs). rs_family r \<in> F) = (\<forall>r \<in> set rs. rs_family r \<in> F)"
  by (induction rs) (auto simp: change_rows_def)

lemma filter_conj_le:
  "length (filter P rs) \<le> n \<Longrightarrow> length (filter (\<lambda>r. P r \<and> Q r) rs) \<le> n"
  by (metis filter_filter length_filter_le order.trans)

lemma deactivate:
  assumes "d_refreshSessions d' = change_rows P f (d_refreshSessions d)"
    and "\<And>r. P r \<Longrightarrow> rs_family (f r) = rs_family r \<and> rs_status (f r) \<noteq> REFRESH_ACTIVE"
  shows "families_ok d \<Longrightarrow> families_ok d'" and "families_in F d \<Longrightarrow> families_in F d'"
  using assms(2)
  by (auto simp: families_ok_def families_in_def assms(1) active_after_change filter_conj_le
      families_in_change)

lemma refresh_update_run:
  "update_rows refreshes_table P f w = (Inr n, w') \<Longrightarrow>
     n = length (filter P (d_refreshSessions (w_db w))) \<and>
     d_refreshSessions (w_db w') = change_rows P f (d_refreshSessions (w_db w))"
  by (simp add: update_rows_run refreshes_table_def)

lemma revoke_active_run:
  assumes "revoke_active f w = (Inr n, w')"
  shows "filter (active_in_family f) (d_refreshSessions (w_db w')) = []"
    and "families_ok (w_db w) \<Longrightarrow> families_ok (w_db w')"
    and "families_in F (w_db w) \<Longrightarrow> families_in F (w_db w')"
proof -
  obtain t where "d_refreshSessions (w_db w') = change_rows (active_in_family f)
      (\<lambda>r. r\<lparr>rs_status := REFRESH_REVOKED, rs_revokedAt := Some t\<rparr>) (d_refreshSessions (w_db w))"
    using assms
    by (auto simp: revoke_active_def bindM_eq_Inr_iff now_run dest!: refresh_update_run)
  note rows = this deactivate [OF this]
  show "filter (active_in_family f) (d_refreshSessions (w_db w')) = []"
    by (simp add: rows(1) active_after_change filter_empty_conv)
  show "families_ok (w_db w) \<Longrightarrow> families_ok (w_db w')"
    and "families_in F (w_db w) \<Longrightarrow> families_in F (w_db w')"
    by (simp_all add: rows)
qed

lemma create_refresh_run:
  "create refreshes_table r w = (Inr a, w') \<Longrightarrow>
     a = r \<and> d_refreshSessions (w_db w') = d_refreshSessions (w_db w) @ [r]"
  by (simp add: create_run refreshes_table_def)

lemma families_snoc:
  assumes "d_refreshSessions d' = d_refreshSessions d @ [r]" "families_ok d"
    and "filter (active_in_family (rs_family r)) (d_refreshSessions d) = []"
  shows "families_ok d'"
  using assms by (auto simp: families_ok_def active_in_family_def)

lemma rotate_active_run:
  assumes run: "rotate_active hash expiresAt c membership roles w = (Inr result, w')"
    and c: "c \<in> set (d_refreshSessions (w_db w))" "rs_status c = REFRESH_ACTIVE"
    and inv: "families_ok (w_db w)" "families_in F (w_db w)"
  shows "families_ok (w_db w') \<and> families_in F (w_db w')"
proof -
  let ?P = "\<lambda>r. rs_id r = rs_id c \<and> rs_status r = REFRESH_ACTIVE"
  let ?f = "\<lambda>t r. r\<lparr>rs_status := REFRESH_ROTATED, rs_rotatedAt := Some t\<rparr>"
  obtain t n w1 where upd: "update_rows refreshes_table ?P (?f t) (w\<lparr>w_ticks := Suc (w_ticks w)\<rparr>) = (Inr n, w1)"
    and rest: "(if n \<noteq> 1 then
       bindM (revoke_active (rs_family c)) (\<lambda>_.
       returnM (Reuse (toPrincipal c (rs_id c) membership roles)))
     else
       bindM new_id (\<lambda>newId.
       bindM now (\<lambda>issuedAt.
       bindM (create refreshes_table (new_refresh_row (rs_org c) (rs_membership c)
                (rs_device c) hash (rs_family c) expiresAt newId issuedAt)) (\<lambda>next'.
       returnM (Rotated (toPrincipal c (rs_id next') membership roles)))))) w1 = (Inr result, w')"
    using run unfolding rotate_active_def bindM_eq_Inr_iff now_run by blast
  have rows: "n = length (filter ?P (d_refreshSessions (w_db w)))"
      "d_refreshSessions (w_db w1) = change_rows ?P (?f t) (d_refreshSessions (w_db w))"
    using refresh_update_run [OF upd] by simp_all
  from deactivate [OF rows(2)] inv have inv1: "families_ok (w_db w1)" "families_in F (w_db w1)"
    by simp_all
  show ?thesis
  proof (cases "n = 1")
    case False
    with rest obtain k where "revoke_active (rs_family c) w1 = (Inr k, w')"
      by (auto simp: bindM_eq_Inr_iff)
    from revoke_active_run(2,3) [OF this] inv1 show ?thesis by blast
  next
    case True
    with rest obtain i u where "create refreshes_table (new_refresh_row (rs_org c)
        (rs_membership c) (rs_device c) hash (rs_family c) expiresAt i u)
        (w1\<lparr>w_idn := Suc (w_idn w1), w_ticks := Suc (w_ticks w1)\<rparr>) =
        (Inr (new_refresh_row (rs_org c) (rs_membership c) (rs_device c) hash (rs_family c)
          expiresAt i u), w')"
      by (auto simp: bindM_eq_Inr_iff new_id_run now_run create_run)
    from create_refresh_run [OF this] have new: "d_refreshSessions (w_db w') =
        d_refreshSessions (w_db w1) @ [new_refresh_row (rs_org c) (rs_membership c) (rs_device c)
          hash (rs_family c) expiresAt i u]"
      by simp
    have "filter (active_in_family (rs_family c)) (d_refreshSessions (w_db w1)) = []"
    proof -
      have "length (filter (active_in_family (rs_family c)) (d_refreshSessions (w_db w))) \<le> 1"
        using inv(1) by (simp add: families_ok_def)
      moreover have "c \<in> set (filter (active_in_family (rs_family c)) (d_refreshSessions (w_db w)))"
        using c by (simp add: active_in_family_def)
      ultimately have "filter (active_in_family (rs_family c)) (d_refreshSessions (w_db w)) = [c]"
        by (cases "filter (active_in_family (rs_family c)) (d_refreshSessions (w_db w))") auto
      then have "{r \<in> set (d_refreshSessions (w_db w)). active_in_family (rs_family c) r} = {c}"
        by (metis set_filter empty_set list.simps(15))
      then show ?thesis
        using c(2) by (auto simp: rows(2) active_after_change filter_empty_conv)
    qed
    then have "families_ok (w_db w')"
      by (intro families_snoc [OF new]) (simp_all add: inv1 new_refresh_row_def)
    moreover have "families_in F (w_db w')"
      using inv1 inv(2) c(1) by (auto simp: families_in_def new new_refresh_row_def)
    ultimately show ?thesis by simp
  qed
qed


lemma rotate_found_run:
  assumes run: "rotate_found hash expiresAt c w = (Inr result, w')"
    and c: "c \<in> set (d_refreshSessions (w_db w))"
  shows "families_ok (w_db w) \<Longrightarrow> families_in F (w_db w) \<Longrightarrow>
      families_ok (w_db w') \<and> families_in F (w_db w')"
    and "rs_status c \<noteq> REFRESH_ACTIVE \<Longrightarrow>
      (\<exists>p. result = Reuse p) \<and>
      filter (active_in_family (rs_family c)) (d_refreshSessions (w_db w')) = []"
proof -
  obtain device membership user roles where
      "rotate_related hash expiresAt c device membership user roles w = (Inr result, w')"
    using run
    by (auto simp: rotate_found_def get_device_def get_membership_def get_user_def get_roles_def
        bindM_eq_Inr_iff find_or_throw_run)
  note body = this [unfolded rotate_related_def]
  show "(\<exists>p. result = Reuse p) \<and>
      filter (active_in_family (rs_family c)) (d_refreshSessions (w_db w')) = []"
    if "rs_status c \<noteq> REFRESH_ACTIVE"
    using body that by (auto simp: bindM_eq_Inr_iff dest: revoke_active_run(1))
  show "families_ok (w_db w') \<and> families_in F (w_db w')"
    if inv: "families_ok (w_db w)" "families_in F (w_db w)"
  proof (cases "rs_status c = REFRESH_ACTIVE")
    case False
    with body obtain n where "revoke_active (rs_family c) w = (Inr n, w')"
      by (auto simp: bindM_eq_Inr_iff)
    with revoke_active_run(2,3) inv show ?thesis by blast
  next
    case True
    let ?w1 = "w\<lparr>w_ticks := Suc (w_ticks w)\<rparr>"
    from True body consider (expired) t v n where
        "update_rows refreshes_table (\<lambda>r. rs_id r = rs_id c)
           (\<lambda>r. r\<lparr>rs_status := REFRESH_EXPIRED, rs_revokedAt := Some t\<rparr>) v = (Inr n, w')"
        "w_db v = w_db w"
      | (invalid) n where "revoke_active (rs_family c) ?w1 = (Inr n, w')"
      | (active) "rotate_active hash expiresAt c membership roles ?w1 = (Inr result, w')"
      by (auto simp: bindM_eq_Inr_iff now_run update_one_run split: if_splits)
    then show ?thesis
    proof cases
      case expired
      from deactivate [OF conjunct2 [OF refresh_update_run [OF expired(1)]]] expired(2) inv
      show ?thesis by simp
    next
      case invalid
      from revoke_active_run(2,3) [OF invalid] inv show ?thesis by simp
    next
      case active
      with rotate_active_run [OF active _ True, of F] c inv show ?thesis by simp
    qed
  qed
qed

lemma rotate_session_run:
  assumes run: "rotate_session currentHash hash expiresAt w = (r, w')"
  shows "families_ok (w_db w) \<Longrightarrow> families_in F (w_db w) \<Longrightarrow>
      families_ok (w_db w') \<and> families_in F (w_db w')"
    and "find (\<lambda>x. rs_tokenHash x = currentHash) (d_refreshSessions (w_db w)) = Some c \<Longrightarrow>
      rs_status c \<noteq> REFRESH_ACTIVE \<Longrightarrow> r = Inr result \<Longrightarrow>
      (\<exists>p. result = Reuse p) \<and>
      filter (active_in_family (rs_family c)) (d_refreshSessions (w_db w')) = []"
proof -
  have inner: "w_db w' = w_db w \<or> (\<exists>w0 c. w_db w0 = w_db w \<and>
      find (\<lambda>x. rs_tokenHash x = currentHash) (d_refreshSessions (w_db w)) = Some c \<and>
      rotate_found hash expiresAt c w0 = (Inr q, w'))" if q: "r = Inr q" for q
  proof -
    obtain w0 where w0: "w_db w0 = w_db w" "(bindM (session_of_token currentHash) (\<lambda>found. case found of
        None \<Rightarrow> returnM Invalid
      | Some current \<Rightarrow> rotate_found hash expiresAt current)) w0 = (Inr q, w')"
      using run q unfolding rotate_session_def by (auto elim: serializable_run)
    then show ?thesis
      by (auto simp: session_of_token_def bindM_eq_Inr_iff find_unique_row_run refreshes_table_def
          split: option.splits)
  qed
  show "families_ok (w_db w') \<and> families_in F (w_db w')"
    if inv: "families_ok (w_db w)" "families_in F (w_db w)"
  proof (cases r)
    case (Inl e)
    with run have "w_db w' = w_db w" by (simp add: rotate_session_def serializable_atomic)
    with inv show ?thesis by simp
  next
    case (Inr q)
    from inner [OF Inr] show ?thesis
      using inv rotate_found_run(1) by (metis find_Some_iff2)
  qed
  show "(\<exists>p. result = Reuse p) \<and>
      filter (active_in_family (rs_family c)) (d_refreshSessions (w_db w')) = []"
    if c: "find (\<lambda>x. rs_tokenHash x = currentHash) (d_refreshSessions (w_db w)) = Some c"
      "rs_status c \<noteq> REFRESH_ACTIVE" and r: "r = Inr result"
  proof -
    obtain w0 where w0: "w_db w0 = w_db w" "(bindM (session_of_token currentHash) (\<lambda>found. case found of
        None \<Rightarrow> returnM Invalid
      | Some current \<Rightarrow> rotate_found hash expiresAt current)) w0 = (Inr result, w')"
      using run r unfolding rotate_session_def by (auto elim: serializable_run)
    then have "rotate_found hash expiresAt c w0 = (Inr result, w')"
      using c(1) by (auto simp: session_of_token_def bindM_eq_Inr_iff find_unique_row_run
          refreshes_table_def split: option.splits)
    from rotate_found_run(2) [OF this _ c(2)] c(1) w0(1) show ?thesis
      by (auto dest: find_Some_iff2)
  qed
qed


text \<open>Families of sessions stay in \<open>F\<close>, each with at most one active session.\<close>

definition families_within :: "uuid set \<Rightarrow> db \<Rightarrow> bool" where
  "families_within F d \<longleftrightarrow> families_ok d \<and> families_in F d"

lemma families_within_audit: "families_within F d \<Longrightarrow> families_within F (d_audit_update f d)"
  by (simp add: families_within_def families_ok_def families_in_def)

lemma keeps_rotate_session [hoare]:
  "keeps (on_db (families_within F)) (rotate_session currentHash hash expiresAt)"
proof (rule keepsI)
  fix w assume "on_db (families_within F) w"
  moreover obtain r w' where "rotate_session currentHash hash expiresAt w = (r, w')" by fastforce
  ultimately show "on_db (families_within F) (snd (rotate_session currentHash hash expiresAt w))"
    by (auto simp: on_db_def families_within_def dest: rotate_session_run(1))
qed

lemma keeps_revoke_active [hoare]: "keeps (on_db (families_within F)) (revoke_active f)"
proof (rule keepsI)
  fix w assume I: "on_db (families_within F) w"
  obtain r w' where r: "revoke_active f w = (r, w')" by fastforce
  show "on_db (families_within F) (snd (revoke_active f w))"
  proof (cases r)
    case (Inl e)
    with r have "w_db w' = w_db w"
      by (auto simp: revoke_active_def bindM_def now_def update_rows_def Let_def split: if_splits)
    with I r show ?thesis by (simp add: on_db_def)
  next
    case (Inr n)
    from revoke_active_run [OF r [unfolded Inr]] I r show ?thesis
      by (auto simp: on_db_def families_within_def)
  qed
qed

lemma keeps_revokeFamily [hoare]: "keeps (on_db (families_within F)) (revokeFamily tokenHash)"
  by (auto simp: revokeFamily_def session_of_token_def get_membership_def get_roles_def
      intro!: hoare)

lemma keeps_record_session_audit [hoare]:
  "keeps (on_db (families_within F)) (record_session_audit subject correlationId action outcome)"
  unfolding record_session_audit_def
  by (intro hoare keeps_audit_append) (rule families_within_audit)

lemma keeps_session_response [hoare]:
  "keeps (on_db (families_within F)) (session_response env subject token)"
  unfolding session_response_def issueAccess_def by (intro hoare) simp_all

lemma keeps_refresh: "keeps (on_db (families_within F)) (refresh env token correlationId)"
  unfolding refresh_def issueRefresh_def refreshExpiry_def
  by (intro hoare; (simp; fail)?) (auto intro!: hoare split: RotationResult.split)

lemma keeps_logout: "keeps (on_db (families_within F)) (logout env token correlationId)"
  unfolding logout_def by (intro hoare)


text \<open>The identifiers that were drawn stay drawn.\<close>

definition drawn :: "(nat \<Rightarrow> uuid) \<Rightarrow> nat \<Rightarrow> world \<Rightarrow> bool" where
  "drawn ids n w \<longleftrightarrow> w_ids w = ids \<and> n \<le> w_idn w"

lemma drawn_frame [simp]:
  "drawn ids n w \<Longrightarrow> drawn ids n (w\<lparr>w_db := d\<rparr>)" "drawn ids n w \<Longrightarrow> drawn ids n (w\<lparr>w_ticks := k\<rparr>)"
  "drawn ids n w \<Longrightarrow> drawn ids n (w\<lparr>w_conflicts := cs\<rparr>)"
  "drawn ids n w \<Longrightarrow> drawn ids n (w\<lparr>w_attempts := ats\<rparr>)"
  by (simp_all add: drawn_def)

lemma keeps_drawn_new_id: "keeps (drawn ids n) new_id"
  by (simp add: keeps_def new_id_def drawn_def)

lemma drawn_audit: "keeps (drawn ids n) (record_session_audit subject correlationId action outcome)"
  unfolding record_session_audit_def audit_append_def audit_appendWithClient_def
  by (intro keeps_drawn_new_id framed hoare) simp_all

lemma drawn_revokeFamily: "keeps (drawn ids n) (revokeFamily tokenHash)"
  unfolding revokeFamily_def session_of_token_def get_membership_def get_roles_def revoke_active_def
  by (intro keeps_drawn_new_id framed hoare) simp_all

lemma drawn_rotate: "keeps (drawn ids n) (rotate_session currentHash hash expiresAt)"
  unfolding rotate_session_def session_of_token_def rotate_found_def rotate_related_def
    rotate_active_def get_device_def get_membership_def get_user_def get_roles_def
    revoke_active_def
  by (intro keeps_drawn_new_id framed hoare) simp_all

lemma drawn_create_session: "keeps (drawn ids n) (create_session identity hash f expiresAt)"
  unfolding create_session_def get_roles_def
  by (intro keeps_drawn_new_id framed hoare) simp_all

lemma drawn_response: "keeps (drawn ids n) (session_response env subject token)"
  unfolding session_response_def issueAccess_def
  by (intro keeps_drawn_new_id framed hoare) simp_all

lemma drawn_refresh: "keeps (drawn ids n) (refresh env token correlationId)"
  unfolding refresh_def issueRefresh_def refreshExpiry_def
  by (intro keeps_drawn_new_id framed hoare; (simp; fail)?)
    (auto intro!: hoare drawn_audit drawn_revokeFamily drawn_rotate drawn_response
      split: RotationResult.split)

lemma drawn_logout: "keeps (drawn ids n) (logout env token correlationId)"
  unfolding logout_def by (intro hoare drawn_audit drawn_revokeFamily)

lemma drawn_open_session: "keeps (drawn ids n) (open_session env identity correlationId)"
  unfolding open_session_def issueRefresh_def refreshExpiry_def
  by (intro keeps_drawn_new_id framed hoare drawn_audit drawn_revokeFamily drawn_create_session
      drawn_response) simp_all

lemma drawn_limiter:
  "keeps (drawn ids n) (assertAllowed env i)" "keeps (drawn ids n) (limiter_failed env i)"
  "keeps (drawn ids n) (limiter_succeeded env i)"
  unfolding assertAllowed_def limiter_failed_def limiter_succeeded_def drop_attempts_def
  by (intro hoare keeps_modifyM; simp)+

lemma keeps_findLoginIdentity: "keeps I (findLoginIdentity input)"
  unfolding findLoginIdentity_def get_membership_def get_user_def get_roles_def
  by (intro hoare)

lemma drawn_login: "keeps (drawn ids n) (login env input correlationId)"
  unfolding login_def
  by (intro hoare drawn_limiter keeps_findLoginIdentity drawn_open_session)

section \<open>Login\<close>

lemma create_session_run:
  assumes "create_session identity hash f expiresAt w = (r, w')"
  shows "w_db w' = w_db w \<or> (\<exists>row. rs_family row = f \<and>
    d_refreshSessions (w_db w') = d_refreshSessions (w_db w) @ [row])"
proof (cases r)
  case (Inl e)
  with assms show ?thesis by (simp add: create_session_def serializable_atomic)
next
  case (Inr p)
  from assms [unfolded Inr create_session_def] show ?thesis
  proof (rule serializable_run)
    fix w0 assume "w_db w0 = w_db w" and "(bindM (getM (\<lambda>w. find (\<lambda>v. dv_id v = li_deviceId identity \<and>
               dv_org v = li_organizationId identity \<and>
               dv_membership v = li_membershipId identity \<and> dv_status v = DEVICE_ACTIVE \<and>
               membership_active (w_db w) (dv_org v) (dv_membership v) (\<lambda>m u. True))
             (d_devices (w_db w)))) (\<lambda>found.
      case found of
        None \<Rightarrow> throwM (Error ''AUTH_IDENTITY_CHANGED'')
      | Some device \<Rightarrow>
          bindM (get_roles (dv_org device) (dv_membership device)) (\<lambda>roles.
          bindM new_id (\<lambda>newId.
          bindM now (\<lambda>issuedAt.
          bindM (create refreshes_table (new_refresh_row (dv_org device) (dv_membership device)
                   (dv_id device) hash f expiresAt newId issuedAt)) (\<lambda>session.
          returnM \<lparr>pr_userId = li_userId identity, pr_organizationId = dv_org device,
            pr_membershipId = dv_membership device, pr_deviceId = dv_id device,
            pr_sessionId = rs_id session, pr_roles = roles\<rparr>)))))) w0 = (Inr p, w')"
    then show ?thesis
      by (auto simp: bindM_eq_Inr_iff get_roles_def new_id_run now_run create_run refreshes_table_def
          new_refresh_row_def split: option.splits)
  qed
qed

lemma open_session_families:
  assumes "families_within F (w_db w)" and new: "w_ids w (Suc (w_idn w)) \<notin> F"
  shows "families_within (insert (w_ids w (Suc (w_idn w))) F)
      (w_db (snd (open_session env identity correlationId w))) \<and>
    drawn (w_ids w) (Suc (Suc (w_idn w))) (snd (open_session env identity correlationId w))"
proof -
  let ?f = "w_ids w (Suc (w_idn w))"
  let ?w2 = "w\<lparr>w_idn := Suc (Suc (w_idn w)), w_ticks := Suc (w_ticks w)\<rparr>"
  let ?exp = "w_clock w (w_ticks w) + refreshTtlSeconds (ae_config env) * 1000"
  let ?hash = "hashRefresh env (w_ids w (w_idn w))"
  let ?I = "\<lambda>v. on_db (families_within (insert ?f F)) v \<and>
    drawn (w_ids w) (Suc (Suc (w_idn w))) v"
  obtain r w3 where c: "create_session identity ?hash ?f ?exp ?w2 = (r, w3)" by fastforce
  have "filter (active_in_family ?f) (d_refreshSessions (w_db w)) = []"
    using assms
    by (auto simp: families_within_def families_in_def filter_empty_conv active_in_family_def)
  with create_session_run [OF c] assms(1) have "families_within (insert ?f F) (w_db w3)"
    by (auto simp: families_within_def families_in_def intro: families_snoc)
  moreover have "drawn (w_ids w) (Suc (Suc (w_idn w))) w3"
    by (rule keepsD [OF drawn_create_session _ c]) (simp add: drawn_def)
  ultimately have I3: "?I w3" by (simp add: on_db_def)
  show ?thesis
  proof (cases r)
    case (Inl e)
    with c have "snd (open_session env identity correlationId w) = w3"
      by (simp add: open_session_def issueRefresh_def refreshExpiry_def bindM_def new_id_def now_def
          returnM_def catchM_def throwM_def)
    with I3 show ?thesis by (simp add: on_db_def)
  next
    case (Inr p)
    let ?rest = "thenM (catchM
        (record_session_audit p correlationId ''auth.session.created'' AUDIT_SUCCEEDED)
        (\<lambda>_. bindM (revokeFamily ?hash) (\<lambda>_. throwM (AuthError AUTHENTICATION_FAILED))))
      (session_response env p (w_ids w (w_idn w)))"
    have "keeps (on_db (families_within (insert ?f F))) ?rest" by (intro hoare)
    moreover have "keeps (drawn (w_ids w) (Suc (Suc (w_idn w)))) ?rest"
      by (intro hoare drawn_audit drawn_revokeFamily drawn_response)
    ultimately have I4: "?I (snd (?rest w3))"
      using I3 by (intro conjI) (simp_all only: keeps_sndD)
    have "open_session env identity correlationId w = ?rest w3"
      using c Inr by (simp add: open_session_def issueRefresh_def refreshExpiry_def bindM_def
          new_id_def now_def returnM_def catchM_def)
    with I4 show ?thesis by (simp only: on_db_def)
  qed
qed

definition sessions_sound :: "world \<Rightarrow> bool" where
  "sessions_sound w \<longleftrightarrow> inj (w_ids w) \<and> families_ok (w_db w) \<and>
     (\<forall>r \<in> set (d_refreshSessions (w_db w)). \<forall>n \<ge> w_idn w. rs_family r \<noteq> w_ids w n)"

abbreviation used_families :: "world \<Rightarrow> uuid set" where
  "used_families w \<equiv> rs_family ` set (d_refreshSessions (w_db w))"

lemma sessions_sound_next:
  assumes "sessions_sound w" "drawn (w_ids w) (w_idn w) w'"
    and "families_within (insert f (used_families w)) (w_db w')"
    and "\<And>n. w_idn w' \<le> n \<Longrightarrow> w_ids w n \<noteq> f"
  shows "sessions_sound w'"
  using assms by (fastforce simp: sessions_sound_def drawn_def families_within_def families_in_def)

lemma keeps_sound:
  assumes "\<And>F. keeps (on_db (families_within F)) m" "\<And>ids n. keeps (drawn ids n) m"
  shows "keeps sessions_sound m"
proof (rule keepsI)
  fix w assume w: "sessions_sound w"
  let ?w' = "snd (m w)"
  have "families_within (used_families w) (w_db w)"
    using w by (simp add: families_within_def sessions_sound_def families_in_def)
  then have F: "families_within (used_families w) (w_db ?w')"
    using keeps_sndD [OF assms(1)] by (simp add: on_db_def)
  have d: "drawn (w_ids w) (w_idn w) ?w'"
    by (rule keeps_sndD [OF assms(2)]) (simp add: drawn_def)
  show "sessions_sound ?w'"
    using w F d by (fastforce simp: sessions_sound_def drawn_def families_within_def families_in_def)
qed

lemma keeps_sound_open_session: "keeps sessions_sound (open_session env identity correlationId)"
proof (rule keepsI)
  fix w assume w: "sessions_sound w"
  let ?f = "w_ids w (Suc (w_idn w))"
  have 1: "families_within (used_families w) (w_db w)"
    using w by (simp add: families_within_def sessions_sound_def families_in_def)
  have "rs_family r \<noteq> ?f" if "r \<in> set (d_refreshSessions (w_db w))" for r
    using w that by (simp add: sessions_sound_def)
  then have 2: "?f \<notin> used_families w" by (metis imageE)
  note o = open_session_families [OF 1 2, of env identity correlationId]
  show "sessions_sound (snd (open_session env identity correlationId w))"
  proof (rule sessions_sound_next [OF w])
    show "w_ids w n \<noteq> ?f" if "w_idn (snd (open_session env identity correlationId w)) \<le> n" for n
      using o that w by (auto simp: drawn_def sessions_sound_def inj_eq)
  qed (use o in \<open>auto simp: drawn_def\<close>)
qed

lemma sessions_sound_frame [simp]:
  "sessions_sound w \<Longrightarrow> sessions_sound (w\<lparr>w_ticks := k\<rparr>)"
  "sessions_sound w \<Longrightarrow> sessions_sound (w\<lparr>w_attempts := ats\<rparr>)"
  by (simp_all add: sessions_sound_def)

lemma keeps_limiter:
  assumes "\<And>w k. I w \<Longrightarrow> I (w\<lparr>w_ticks := k\<rparr>)" "\<And>w ats. I w \<Longrightarrow> I (w\<lparr>w_attempts := ats\<rparr>)"
  shows "keeps I (assertAllowed env i)" "keeps I (limiter_failed env i)"
    "keeps I (limiter_succeeded env i)"
  unfolding assertAllowed_def limiter_failed_def limiter_succeeded_def drop_attempts_def
  by (intro hoare keeps_modifyM assms; simp)+

lemma keeps_sound_login: "keeps sessions_sound (login env input correlationId)"
  unfolding login_def
  by (intro hoare keeps_limiter keeps_findLoginIdentity keeps_sound_open_session) simp_all

section \<open>Properties\<close>

datatype auth_request =
    Login LoginRequest string
  | Refresh string string
  | Logout string string

fun auth_step :: "auth_runtime \<Rightarrow> world \<Rightarrow> auth_request \<Rightarrow> world" where
  "auth_step env w (Login input correlationId) = snd (login env input correlationId w)"
| "auth_step env w (Refresh token correlationId) = snd (refresh env token correlationId w)"
| "auth_step env w (Logout token correlationId) = snd (logout env token correlationId w)"

text \<open>
  C6: after any sequence of logins, refreshes and logouts, at most one refresh session of every
  family is active, when every generated identifier is new.
\<close>

theorem one_active_session_per_family:
  assumes "inj (w_ids w)" "families_ok (w_db w)"
    and "\<forall>r \<in> set (d_refreshSessions (w_db w)). \<forall>n \<ge> w_idn w. rs_family r \<noteq> w_ids w n"
  shows "length (filter (\<lambda>r. rs_family r = f \<and> rs_status r = REFRESH_ACTIVE)
    (d_refreshSessions (w_db (foldl (auth_step env) w requests)))) \<le> 1"
proof -
  have step: "sessions_sound v \<Longrightarrow> sessions_sound (auth_step env v req)" for v req
    by (cases req) (auto intro: keeps_sndD [OF keeps_sound_login]
      keeps_sndD [OF keeps_sound [OF keeps_refresh drawn_refresh]]
      keeps_sndD [OF keeps_sound [OF keeps_logout drawn_logout]])
  have "sessions_sound v \<Longrightarrow> sessions_sound (foldl (auth_step env) v requests)" for v
    by (induction requests arbitrary: v) (simp_all add: step)
  then have "sessions_sound (foldl (auth_step env) w requests)"
    using assms by (simp add: sessions_sound_def)
  then show ?thesis
    by (simp add: sessions_sound_def families_ok_def active_in_family_def [abs_def])
qed

text \<open>An organization with one account, one device and one refresh session.\<close>

definition account1 :: uuid where "account1 = ''66666666-6666-4666-8666-666666666666''"

definition auth_ids :: "nat \<Rightarrow> uuid" where
  "auth_ids n = (if n < 10 then ''99999999-9999-4999-8999-99999999999'' @ [char_of (48 + n)]
     else replicate (27 + n) CHR ''9'')"

lemma inj_auth_ids: "inj auth_ids"
proof (rule injI)
  fix m n assume eq: "auth_ids m = auth_ids n"
  have l: "length (auth_ids m) = length (auth_ids n)" by (simp only: eq)
  have e: "(of_char (last (auth_ids m)) :: nat) = of_char (last (auth_ids n))" by (simp only: eq)
  show "m = n"
    using l e by (auto simp: auth_ids_def split: if_splits)
qed

definition auth_org :: uuid where "auth_org = ''11111111-1111-4111-8111-111111111111''"

definition sample_refresh :: "RefreshSessionStatus \<Rightarrow> refresh_row" where
  "sample_refresh status = \<lparr>rs_id = account1, rs_org = auth_org, rs_membership = account1,
     rs_device = account1, rs_tokenHash = ''h:old'', rs_family = account1, rs_status = status,
     rs_issuedAt = 0, rs_expiresAt = 100000, rs_rotatedAt = Some 5, rs_revokedAt = Some 5\<rparr>"

definition auth_db :: "refresh_row list \<Rightarrow> db" where
  "auth_db sessions = empty_db\<lparr>
     d_organizations := [\<lparr>og_id = auth_org, og_slug = ''acme'', og_displayName = ''Acme'',
       og_status = ''ACTIVE''\<rparr>],
     d_users := [\<lparr>us_id = account1, us_email = ''a@b'', us_passwordHash = ''right'',
       us_status = USER_ACTIVE, us_deletedAt = None\<rparr>],
     d_memberships := [\<lparr>ms_id = account1, ms_org = auth_org, ms_user = account1,
       ms_status = MEM_ACTIVE, ms_joinedAt = Some 0, ms_revokedAt = None\<rparr>],
     d_roles := [\<lparr>mr_org = auth_org, mr_membership = account1, mr_role = MEMBER\<rparr>],
     d_devices := [\<lparr>dv_id = account1, dv_org = auth_org, dv_membership = account1,
       dv_publicId = ''phone'', dv_label = None, dv_status = DEVICE_ACTIVE\<rparr>],
     d_refreshSessions := sessions\<rparr>"

definition auth_world :: "refresh_row list \<Rightarrow> world" where
  "auth_world sessions = \<lparr>w_db = auth_db sessions, w_clock = (\<lambda>n. 1000 + int n mod 50),
     w_ticks = 0, w_ids = auth_ids, w_idn = 0, w_conflicts = [], w_answers = (\<lambda>_. Some 200),
     w_log = [], w_attempts = [], w_holds = [], w_receipts = [], w_audio = [],
     w_clients = [], w_replay = [], w_fingerprints = []\<rparr>"

definition sample_auth :: auth_runtime where
  "sample_auth = \<lparr>ae_config = c_auth engineering_configuration,
     ae_sign = (\<lambda>_ _ c. cl_sessionId c),
     ae_verify = (\<lambda>_ _ token. if token = account1 then Some \<lparr>cl_sub = account1,
       cl_organizationId = auth_org, cl_membershipId = account1, cl_deviceId = account1,
       cl_sessionId = account1, cl_jti = ''j'', cl_tokenUse = ''access''\<rparr> else None),
     ae_hmac = (\<lambda>_ token. ''h:'' @ token), ae_sha256 = (\<lambda>s. s),
     ae_argon2 = (\<lambda>hash password. Some (hash = password)), ae_dummyHash = Some ''dummy''\<rparr>"

definition sample_login :: "string \<Rightarrow> LoginRequest" where
  "sample_login password = \<lparr>lg_email = ''a@b'', lg_organizationSlug = ''acme'',
     lg_devicePublicId = ''phone'', lg_password = password\<rparr>"

theorem one_active_session_per_family_witness:
  "length (filter (\<lambda>r. rs_family r = auth_ids 1 \<and> rs_status r = REFRESH_ACTIVE)
    (d_refreshSessions (w_db (foldl (auth_step sample_auth) (auth_world [])
      [Login (sample_login ''right'') ''c'', Refresh (auth_ids 0) ''c'', Refresh (auth_ids 0) ''c''])))) \<le> 1"
  by (rule one_active_session_per_family)
    (simp_all add: auth_world_def auth_db_def inj_auth_ids families_ok_def)

text \<open>
  C17: a refresh token whose session is no longer active is refused, and then no session of its
  family is active any more, unless the transaction failed and wrote nothing.
\<close>

theorem reused_token_revokes_family:
  assumes "find (\<lambda>r. rs_tokenHash r = hashRefresh env token) (d_refreshSessions (w_db w)) = Some s"
    and "rs_status s \<noteq> REFRESH_ACTIVE"
    and "refresh env token correlationId w = (r, w')"
  shows "(\<exists>e. r = Inl e) \<and>
    (w_db w' = w_db w \<or>
     (\<forall>x \<in> set (d_refreshSessions (w_db w')). rs_family x = rs_family s \<longrightarrow>
        rs_status x \<noteq> REFRESH_ACTIVE))"
proof -
  let ?w1 = "w\<lparr>w_idn := Suc (w_idn w), w_ticks := Suc (w_ticks w)\<rparr>"
  let ?exp = "w_clock w (w_ticks w) + refreshTtlSeconds (ae_config env) * 1000"
  obtain q w2 where rot: "rotate_session (hashRefresh env token)
      (hashRefresh env (w_ids w (w_idn w))) ?exp ?w1 = (q, w2)" by fastforce
  show ?thesis
  proof (cases q)
    case (Inl e)
    with rot have "r = Inl e \<and> w' = w2"
      using assms(3) by (simp add: refresh_def issueRefresh_def refreshExpiry_def bindM_def
          new_id_def now_def returnM_def)
    moreover have "w_db w2 = w_db w"
      using serializable_atomic [OF rot [unfolded rotate_session_def Inl]] by simp
    ultimately show ?thesis by simp
  next
    case (Inr result)
    from rotate_session_run(2) [OF rot _ assms(2) Inr] assms(1)
    obtain p where p: "result = Reuse p" and
      none: "filter (active_in_family (rs_family s)) (d_refreshSessions (w_db w2)) = []" by auto
    let ?audit = "record_session_audit p correlationId ''auth.refresh.reuse-detected'' AUDIT_DENIED"
    have tail: "(r, w') = thenM ?audit (throwM (AuthError REFRESH_REUSE_DETECTED)) w2"
      using assms(3) rot Inr p by (simp add: refresh_def issueRefresh_def refreshExpiry_def bindM_def
          new_id_def now_def returnM_def)
    have "keeps (on_db (\<lambda>d. filter (active_in_family (rs_family s)) (d_refreshSessions d) = [])) ?audit"
      unfolding record_session_audit_def by (intro hoare keeps_audit_append) simp
    from keeps_thenM [OF this keeps_throwM]
    have I: "keeps (on_db (\<lambda>d. filter (active_in_family (rs_family s)) (d_refreshSessions d) = []))
        (thenM ?audit (throwM (AuthError REFRESH_REUSE_DETECTED)))" .
    have "filter (active_in_family (rs_family s)) (d_refreshSessions (w_db w')) = []"
      using keepsD [OF I _ tail [symmetric]] none unfolding on_db_def by blast
    moreover have "\<exists>e. r = Inl e"
      using tail by (auto simp: thenM_def bindM_def throwM_def split: prod.splits sum.splits)
    ultimately show ?thesis by (simp add: filter_empty_conv active_in_family_def)
  qed
qed

theorem reused_token_revokes_family_witness:
  "\<exists>e. fst (refresh sample_auth ''old'' ''c'' (auth_world [sample_refresh REFRESH_ROTATED])) = Inl e"
proof -
  obtain r w' where r: "refresh sample_auth ''old'' ''c'' (auth_world [sample_refresh REFRESH_ROTATED]) = (r, w')"
    by fastforce
  from reused_token_revokes_family [OF _ _ r, of "sample_refresh REFRESH_ROTATED"] r show ?thesis
    by (simp add: auth_world_def auth_db_def sample_refresh_def hashRefresh_def sample_auth_def)
qed

section \<open>Access tokens\<close>

lemma membership_active_user:
  "membership_active d org mid (\<lambda>m u. ms_user m = i) \<Longrightarrow>
     find (\<lambda>m. ms_org m = org \<and> ms_id m = mid) (d_memberships d) = Some m \<Longrightarrow> ms_user m = i"
  by (auto simp: membership_active_def membership_of_def split: option.splits)

lemma findPrincipal_run:
  assumes "findPrincipal claims w = (Inr (Some p), w')"
  shows "w_db w' = w_db w \<and> (\<exists>r. r \<in> set (d_refreshSessions (w_db w)) \<and>
    live_session (w_db w) claims (w_clock w (w_ticks w)) r \<and>
    pr_sessionId p = rs_id r \<and> pr_organizationId p = rs_org r \<and>
    pr_membershipId p = rs_membership r \<and> pr_deviceId p = rs_device r \<and>
    pr_userId p = cl_sub claims \<and>
    pr_roles p = roles_of (w_db w) (rs_org r) (rs_membership r))"
proof -
  obtain r m where r: "find (live_session (w_db w) claims (w_clock w (w_ticks w)))
        (d_refreshSessions (w_db w)) = Some r"
    and m: "find (\<lambda>m. ms_org m = rs_org r \<and> ms_id m = rs_membership r) (d_memberships (w_db w)) = Some m"
    and p: "p = toPrincipal r (rs_id r) m (roles_of (w_db w) (rs_org r) (rs_membership r))"
    and w': "w_db w' = w_db w"
    using assms
    by (auto simp: findPrincipal_def bindM_eq_Inr_iff now_run get_membership_def get_roles_def
        find_or_throw_run memberships_table_def split: option.splits)
  have live: "live_session (w_db w) claims (w_clock w (w_ticks w)) r" "r \<in> set (d_refreshSessions (w_db w))"
    using find_Some_iff2 [OF r] by simp_all
  then have "ms_user m = cl_sub claims"
    using m by (auto simp: live_session_def dest: membership_active_user)
  with live p w' show ?thesis by (auto simp: toPrincipal_def)
qed


lemma authenticate_run:
  assumes "authenticate env token w = (Inr p, w')"
  shows "w_db w' = w_db w \<and> pr_roles p =
      roles_of (w_db w) (pr_organizationId p) (pr_membershipId p) \<and>
    (\<exists>r \<in> set (d_refreshSessions (w_db w)). rs_id r = pr_sessionId p \<and>
      rs_org r = pr_organizationId p \<and> rs_membership r = pr_membershipId p \<and>
      rs_device r = pr_deviceId p \<and> rs_status r = REFRESH_ACTIVE \<and>
      w_clock w (Suc (w_ticks w)) < rs_expiresAt r \<and>
      (\<exists>v. device_of (w_db w) (rs_org r) (rs_device r) = Some v \<and> dv_status v = DEVICE_ACTIVE) \<and>
      membership_active (w_db w) (rs_org r) (rs_membership r)
        (\<lambda>m u. ms_user m = pr_userId p))"
proof -
  obtain claims where "findPrincipal claims (w\<lparr>w_ticks := Suc (w_ticks w)\<rparr>) = (Inr (Some p), w')"
    using assms
    by (auto simp: authenticate_def verifyAccess_def bindM_eq_Inr_iff thenM_eq_Inr_iff now_run
        split: option.splits)
  from findPrincipal_run [OF this] obtain r where r: "r \<in> set (d_refreshSessions (w_db w))"
    and live: "live_session (w_db w) claims (w_clock w (Suc (w_ticks w))) r"
    and p: "pr_sessionId p = rs_id r" "pr_organizationId p = rs_org r"
      "pr_membershipId p = rs_membership r" "pr_deviceId p = rs_device r"
      "pr_userId p = cl_sub claims" "pr_roles p = roles_of (w_db w) (rs_org r) (rs_membership r)"
    and db: "w_db w' = w_db w"
    by auto
  from live obtain v where "device_of (w_db w) (rs_org r) (rs_device r) = Some v"
      "dv_status v = DEVICE_ACTIVE"
    by (auto simp: live_session_def split: option.splits)
  with r db live [unfolded live_session_def] show ?thesis
    unfolding p by blast
qed

text \<open>
  C16: the principal of an access token is that of an active, unexpired refresh session whose
  device, membership and user are active, and its roles are those the membership has now.
\<close>

theorem authenticated_session_is_live:
  assumes "authenticate env token w = (Inr p, w')"
  shows "w_db w' = w_db w \<and> pr_roles p =
      roles_of (w_db w) (pr_organizationId p) (pr_membershipId p) \<and>
    (\<exists>r \<in> set (d_refreshSessions (w_db w)). rs_id r = pr_sessionId p \<and>
      rs_org r = pr_organizationId p \<and> rs_membership r = pr_membershipId p \<and>
      rs_device r = pr_deviceId p \<and> rs_status r = REFRESH_ACTIVE \<and>
      w_clock w (Suc (w_ticks w)) < rs_expiresAt r \<and>
      (\<exists>v. device_of (w_db w) (rs_org r) (rs_device r) = Some v \<and> dv_status v = DEVICE_ACTIVE) \<and>
      membership_active (w_db w) (rs_org r) (rs_membership r)
        (\<lambda>m u. ms_user m = pr_userId p))"
  using authenticate_run [OF assms] .

theorem authenticated_session_is_live_witness:
  "\<exists>p w'. authenticate sample_auth account1 (auth_world [sample_refresh REFRESH_ACTIVE]) = (Inr p, w') \<and>
     pr_roles p = roles_of (auth_db [sample_refresh REFRESH_ACTIVE]) (pr_organizationId p)
       (pr_membershipId p)"
proof -
  have "(case authenticate sample_auth account1 (auth_world [sample_refresh REFRESH_ACTIVE]) of
      (Inr p, w') \<Rightarrow> True | _ \<Rightarrow> False)"
    by code_simp
  then obtain p w' where r: "authenticate sample_auth account1
      (auth_world [sample_refresh REFRESH_ACTIVE]) = (Inr p, w')"
    by (auto split: prod.splits sum.splits)
  from authenticated_session_is_live [OF r] r show ?thesis by (auto simp: auth_world_def)
qed

lemma revokeFamily_rows:
  assumes "revokeFamily hash w = (Inr q, w')"
    and "find (\<lambda>r. rs_tokenHash r = hash) (d_refreshSessions (w_db w)) = Some s"
  shows "filter (active_in_family (rs_family s)) (d_refreshSessions (w_db w')) = [] \<and> q \<noteq> None"
  using assms(1) unfolding revokeFamily_def
proof (rule serializable_run)
  fix w0 assume "w_db w0 = w_db w" "(bindM (session_of_token hash) (\<lambda>found. case found of
        None \<Rightarrow> returnM None
      | Some session \<Rightarrow>
          bindM (get_membership (rs_org session) (rs_membership session)) (\<lambda>membership.
          bindM (get_roles (rs_org session) (rs_membership session)) (\<lambda>roles.
          bindM (revoke_active (rs_family session)) (\<lambda>_.
          returnM (Some (toPrincipal session (rs_id session) membership roles))))))) w0 = (Inr q, w')"
  with assms(2) show ?thesis
    by (auto simp: session_of_token_def bindM_eq_Inr_iff find_unique_row_run refreshes_table_def
        get_membership_def get_roles_def find_or_throw_run dest: revoke_active_run(1))
qed

text \<open>
  C37: once a logout has returned, no access token of any session of that family is accepted.
\<close>

theorem logout_ends_access:
  assumes "find (\<lambda>r. rs_tokenHash r = hashRefresh env token) (d_refreshSessions (w_db w)) = Some s"
    and "logout env token correlationId w = (Inr u, w')"
    and "w_db v = w_db w'" "authenticate env access v = (Inr p, v')"
  shows "\<exists>r \<in> set (d_refreshSessions (w_db v)). rs_id r = pr_sessionId p \<and>
    rs_family r \<noteq> rs_family s"
proof -
  obtain q w1 where q: "revokeFamily (hashRefresh env token) w = (Inr (Some q), w1)"
    and audit: "record_session_audit q correlationId ''auth.session.revoked'' AUDIT_SUCCEEDED w1 = (Inr u, w')"
    using assms(2) revokeFamily_rows [OF _ assms(1)]
    by (fastforce simp: logout_def bindM_eq_Inr_iff split: option.splits)
  let ?I = "\<lambda>d. filter (active_in_family (rs_family s)) (d_refreshSessions d) = []"
  have "keeps (on_db ?I) (record_session_audit q correlationId ''auth.session.revoked'' AUDIT_SUCCEEDED)"
    unfolding record_session_audit_def by (intro hoare keeps_audit_append) simp
  from keepsD [OF this _ audit] revokeFamily_rows [OF q assms(1)] have "?I (w_db w')"
    unfolding on_db_def by blast
  moreover obtain r where "r \<in> set (d_refreshSessions (w_db v))" "rs_id r = pr_sessionId p"
      "rs_status r = REFRESH_ACTIVE"
    using authenticated_session_is_live [OF assms(4)] by blast
  ultimately show ?thesis
    by (auto simp: assms(3) filter_empty_conv active_in_family_def)
qed


section \<open>Guesses in one window\<close>

lemma map_of_delete: "map_of (AList.delete k xs) k' = (if k' = k then None else map_of xs k')"
  by (simp add: delete_conv')

lemma map_of_filter_snd:
  "map_of xs k = Some v \<Longrightarrow> Q v \<Longrightarrow> distinct (map fst xs) \<Longrightarrow> map_of (filter (\<lambda>(c, v). Q v) xs) k = Some v"
  by (induction xs) (auto simp: map_of_eq_None_iff dom_map_of_conv_image_fst)

text \<open>The window of one identity: \<open>n\<close> failures are counted, and it is not over at any reading.\<close>

definition counted :: "(nat \<Rightarrow> instant) \<Rightarrow> string \<Rightarrow> nat \<Rightarrow> world \<Rightarrow> bool" where
  "counted clock key n w \<longleftrightarrow> w_clock w = clock \<and> distinct (map fst (w_attempts w)) \<and>
     (case map_of (w_attempts w) key of
        None \<Rightarrow> n = 0
      | Some c \<Rightarrow> win_count c = n \<and> (\<forall>j. clock j < win_resetAt c))"

definition one_window :: "auth_runtime \<Rightarrow> (nat \<Rightarrow> instant) \<Rightarrow> bool" where
  "one_window env clock \<longleftrightarrow>
     (\<forall>i j. clock i < clock j + loginWindowSeconds (ae_config env) * 1000)"

lemma counted_failed:
  assumes "counted clock (limiter_key env i) n w" "one_window env clock"
  shows "counted clock (limiter_key env i) (Suc n) (snd (limiter_failed env i w))"
proof -
  let ?key = "limiter_key env i" and ?t = "w_clock w (w_ticks w)"
  let ?xs = "AList.update ?key (next_window (ae_config env) ?t (map_of (w_attempts w) ?key)) (w_attempts w)"
  let ?c = "next_window (ae_config env) ?t (map_of (w_attempts w) ?key)"
  have c: "win_count ?c = Suc n \<and> (\<forall>j. clock j < win_resetAt ?c)"
    using assms by (cases "map_of (w_attempts w) ?key")
      (auto simp: counted_def one_window_def next_window_def simp del: map_of_eq_Some_iff dest: leD)
  have d: "distinct (map fst ?xs)"
    using assms(1) by (simp add: counted_def distinct_update)
  have m: "map_of ?xs ?key = Some ?c" by (simp add: update_conv')
  have f: "map_of (filter (\<lambda>(k, v). \<not> win_resetAt v \<le> ?t) ?xs) ?key = Some ?c"
    using c assms(1) by (intro map_of_filter_snd [OF m _ d]) (auto simp: counted_def not_le)
  have e: "distinct (map fst (filter (\<lambda>(k, v). \<not> win_resetAt v \<le> ?t) ?xs))"
    using d by (rule distinct_map_filter)
  show ?thesis
    using c d m f e assms(1)
    by (auto simp: limiter_failed_def bindM_def now_def modifyM_def note_failure_def counted_def Let_def)
qed

lemma counted_allowed:
  assumes "counted clock (limiter_key env i) n w" "assertAllowed env i w = (r, w')"
  shows "counted clock (limiter_key env i) n w' \<and>
    (r = Inr () \<and> (n = 0 \<or> int n < loginMaximumAttempts (ae_config env)) \<or> r = Inl (AuthError AUTH_RATE_LIMITED))"
proof (cases "map_of (w_attempts w) (limiter_key env i)")
  case None
  with assms show ?thesis
    by (auto simp: assertAllowed_def counted_def bindM_def getM_def returnM_def)
next
  case (Some c)
  with assms(1) have "\<not> win_resetAt c \<le> w_clock w (Suc (w_ticks w))" "win_count c = n"
    by (simp_all add: counted_def not_le del: map_of_eq_Some_iff)
  with assms Some show ?thesis
    by (auto simp: assertAllowed_def counted_def bindM_def now_def getM_def throwM_def returnM_def
        simp del: map_of_eq_Some_iff split: if_splits)
qed


lemma password_wrong:
  assumes "\<And>h. ae_argon2 env h password \<noteq> Some True"
  shows "password_verify env stored password = Inr False \<or>
    (\<exists>e. password_verify env stored password = Inl (Error e))"
proof (cases "case stored of None \<Rightarrow> ae_dummyHash env | Some h \<Rightarrow> Some h")
  case None
  then show ?thesis by (simp add: password_verify_def)
next
  case (Some h)
  then show ?thesis
    using assms [of h] by (cases "ae_argon2 env h password") (auto simp: password_verify_def)
qed

lemma login_step:
  assumes "counted clock (limiter_key env (attempt_key i)) n w" "one_window env clock"
    and "\<And>h. ae_argon2 env h (lg_password i) \<noteq> Some True"
    and run: "login env i correlationId w = (r, w')"
  shows "(counted clock (limiter_key env (attempt_key i)) n w' \<and> (\<exists>e. r = Inl e \<and> e \<noteq> AuthError AUTHENTICATION_FAILED)) \<or>
    (counted clock (limiter_key env (attempt_key i)) (Suc n) w' \<and>
     (n = 0 \<or> int n < loginMaximumAttempts (ae_config env)) \<and>
     r = Inl (AuthError AUTHENTICATION_FAILED))"
proof -
  let ?key = "limiter_key env (attempt_key i)"
  obtain r1 w1 where 1: "assertAllowed env (attempt_key i) w = (r1, w1)" by fastforce
  note allowed = counted_allowed [OF assms(1) 1]
  show ?thesis
  proof (cases r1)
    case (Inl e)
    with 1 run have "r = Inl e" "w' = w1"
      by (simp_all add: login_def thenM_def bindM_def)
    with allowed Inl show ?thesis by auto
  next
    case (Inr u)
    obtain r2 w2 where 2: "findLoginIdentity i w1 = (r2, w2)" by fastforce
    from keepsD [OF keeps_findLoginIdentity [of "\<lambda>v. v = w1"] refl 2] have "w2 = w1" .
    show ?thesis
    proof (cases r2)
      case (Inl e)
      with 1 2 Inr run \<open>w2 = w1\<close> have "r = Inl e" "w' = w1"
        by (simp_all add: login_def thenM_def bindM_def)
      moreover have "e \<noteq> AuthError AUTHENTICATION_FAILED"
        using 2 Inl by (auto simp: findLoginIdentity_def get_membership_def get_user_def
            get_roles_def find_or_throw_def find_unique_row_def bindM_def getM_def throwM_def returnM_def
            split: option.splits)
      ultimately show ?thesis using allowed Inr by auto
    next
      case found: (Inr identity)
      let ?verify = "password_verify env (map_option li_passwordHash identity) (lg_password i)"
      let ?w3 = "snd (limiter_failed env (attempt_key i) w1)"
      have failed: "thenM (limiter_failed env (attempt_key i)) (throwM (AuthError AUTHENTICATION_FAILED)) w1 =
          (Inl (AuthError AUTHENTICATION_FAILED), ?w3)"
        by (simp add: thenM_def bindM_def limiter_failed_def now_def modifyM_def throwM_def)
      have login: "login env i correlationId w = bindM (liftE ?verify) (\<lambda>passwordMatches.
          case identity of
            None \<Rightarrow> thenM (limiter_failed env (attempt_key i)) (throwM (AuthError AUTHENTICATION_FAILED))
          | Some j \<Rightarrow> if \<not> passwordMatches
              then thenM (limiter_failed env (attempt_key i)) (throwM (AuthError AUTHENTICATION_FAILED))
              else thenM (limiter_succeeded env (attempt_key i)) (open_session env j correlationId)) w1"
        using 1 2 Inr found \<open>w2 = w1\<close> by (simp add: login_def thenM_def)
      consider "?verify = Inr False" | e where "?verify = Inl (Error e)"
        using password_wrong [of env "lg_password i"] assms(3) by blast
      then show ?thesis
      proof cases
        case 1
        then have "login env i correlationId w = (Inl (AuthError AUTHENTICATION_FAILED), ?w3)"
          using failed by (cases identity) (simp_all add: login bindM_def liftE_def)
        with run have "r = Inl (AuthError AUTHENTICATION_FAILED)" "w' = ?w3" by simp_all
        with allowed Inr counted_failed [OF conjunct1 [OF allowed] assms(2)] show ?thesis by simp
      next
        case 2
        then have "login env i correlationId w = (Inl (Error e), w1)"
          by (simp add: login bindM_def liftE_def)
        with run allowed show ?thesis by auto
      qed
    qed
  qed
qed

fun login_results ::
  "auth_runtime \<Rightarrow> world \<Rightarrow> (LoginRequest \<times> string) list \<Rightarrow> (err + AuthSessionResponse) list" where
  "login_results env w [] = []"
| "login_results env w ((input, correlationId) # later) =
     (case login env input correlationId w of (r, w') \<Rightarrow> r # login_results env w' later)"

lemma guesses_from:
  assumes "one_window env clock" "1 \<le> loginMaximumAttempts (ae_config env)"
    and "counted clock (limiter_key env k) n w" "int n \<le> loginMaximumAttempts (ae_config env)"
    and "\<forall>(i, c) \<in> set guesses. attempt_key i = k \<and> (\<forall>h. ae_argon2 env h (lg_password i) \<noteq> Some True)"
  shows "int (n + length (filter (\<lambda>r. r = Inl (AuthError AUTHENTICATION_FAILED))
      (login_results env w guesses))) \<le> loginMaximumAttempts (ae_config env) \<and>
    (\<forall>r \<in> set (login_results env w guesses). \<exists>e. r = Inl e)"
  using assms(3,4,5)
proof (induction guesses arbitrary: n w)
  case (Cons g guesses)
  obtain i c where g: "g = (i, c)" by fastforce
  with Cons.prems have k: "attempt_key i = k" "\<And>h. ae_argon2 env h (lg_password i) \<noteq> Some True" by auto
  obtain r w' where r: "login env i c w = (r, w')" by fastforce
  from login_step [OF _ assms(1) k(2) r, of n] Cons.prems(1) k(1)
  consider (other) e where "counted clock (limiter_key env k) n w'" "r = Inl e"
      "e \<noteq> AuthError AUTHENTICATION_FAILED"
    | (failed) "counted clock (limiter_key env k) (Suc n) w'" "r = Inl (AuthError AUTHENTICATION_FAILED)"
      "n = 0 \<or> int n < loginMaximumAttempts (ae_config env)"
    by auto
  then show ?case
  proof cases
    case other
    with Cons.IH [OF other(1)] Cons.prems r g show ?thesis by auto
  next
    case failed
    then have "int (Suc n) \<le> loginMaximumAttempts (ae_config env)" using assms(2) by auto
    with Cons.IH [OF failed(1)] failed Cons.prems(3) r g show ?thesis by auto
  qed
qed simp




theorem logout_ends_access_witness:
  "\<not> (\<exists>p v'. authenticate sample_auth account1
      (snd (logout sample_auth ''old'' ''c'' (auth_world [sample_refresh REFRESH_ACTIVE]))) = (Inr p, v'))"
proof
  let ?w = "auth_world [sample_refresh REFRESH_ACTIVE]"
  assume "\<exists>p v'. authenticate sample_auth account1 (snd (logout sample_auth ''old'' ''c'' ?w)) = (Inr p, v')"
  then obtain p v' where a: "authenticate sample_auth account1 (snd (logout sample_auth ''old'' ''c'' ?w)) = (Inr p, v')"
    by blast
  have "(case logout sample_auth ''old'' ''c'' ?w of (Inr u, w') \<Rightarrow>
      map (\<lambda>r. (rs_id r, rs_family r)) (d_refreshSessions (w_db w')) = [(account1, account1)] | _ \<Rightarrow> False)"
    by code_simp
  then obtain w' where r: "logout sample_auth ''old'' ''c'' ?w = (Inr (), w')"
    and rows: "map (\<lambda>r. (rs_id r, rs_family r)) (d_refreshSessions (w_db w')) = [(account1, account1)]"
    by (auto split: prod.splits sum.splits)
  have "find (\<lambda>r. rs_tokenHash r = hashRefresh sample_auth ''old'') (d_refreshSessions (w_db ?w)) =
      Some (sample_refresh REFRESH_ACTIVE)"
    by (simp add: auth_world_def auth_db_def sample_refresh_def hashRefresh_def sample_auth_def)
  from logout_ends_access [OF this r refl a [unfolded r snd_conv]] rows show False
    by (auto simp: sample_refresh_def)
qed

end
