(* ===== verification/Interventions.thy ===== *)
theory Interventions
  imports Risk_Repository Authorization Domain_State_Machines Store_Rules
    "HOL-Library.AList"
begin

text \<open>
  \<open>modules/interventions\<close>: the service that acknowledges, cancels, holds and releases
  interventions, step-up verification, the two demo adapters with their maps in memory, and the
  executor that dispatches demo interventions. The adapters are the only providers of the two
  ports (\<open>intervention.port.ts\<close>, \<open>engineering-action.port.ts\<close>), and their constructors refuse a
  production environment. Logging and telemetry are left out.
\<close>

section \<open>The demo adapters\<close>

record HoldInput =
  hd_organizationId :: uuid
  hd_interventionId :: uuid
  hd_protectedActionReference :: string
  hd_idempotencyKey :: string

definition adapter_start :: "configuration \<Rightarrow> string \<Rightarrow> err + unit" where
  "adapter_start config message =
     guardE (environment (c_runtime config) \<noteq> ENV_PRODUCTION) (Error message)"

definition hold_adapter_start :: "configuration \<Rightarrow> err + unit" where
  "hold_adapter_start config = adapter_start config
     ''The SWAR demo transaction-hold adapter is prohibited in production.''"

definition action_adapter_start :: "configuration \<Rightarrow> err + unit" where
  "action_adapter_start config = adapter_start config
     ''The SWAR safe demo action adapter is prohibited in production.''"

definition hold_record :: "HoldStatus \<Rightarrow> HoldInput \<Rightarrow> ProtectedActionHold" where
  "hold_record status input = \<lparr>ph_adapterKind = ''SWAR_DEMO_TRANSACTION_HOLD'',
     ph_protectedActionReference = hd_protectedActionReference input,
     ph_interventionId = hd_interventionId input, ph_status = status\<rparr>"

text \<open>\<open>hold\<close> and \<open>release\<close> differ in the status of the record they make.\<close>

definition adapter_record :: "HoldStatus \<Rightarrow> HoldInput \<Rightarrow> ProtectedActionHold op" where
  "adapter_record status input =
     (let key = hd_organizationId input @ '':'' @ hd_idempotencyKey input in
      bindM (getM (\<lambda>w. map_of (w_holds w) key)) (\<lambda>found. case found of
        Some existing \<Rightarrow>
          thenM (guardM (\<not> (ph_interventionId existing \<noteq> hd_interventionId input \<or>
              ph_protectedActionReference existing \<noteq> hd_protectedActionReference input))
            IdempotencyConflictError) (returnM existing)
      | None \<Rightarrow>
          thenM (modifyM (\<lambda>w. w\<lparr>w_holds := AList.update key (hold_record status input) (w_holds w)\<rparr>))
            (returnM (hold_record status input))))"

definition adapter_hold :: "HoldInput \<Rightarrow> ProtectedActionHold op" where
  "adapter_hold input = adapter_record HELD input"

definition adapter_release :: "HoldInput \<Rightarrow> ProtectedActionHold op" where
  "adapter_release input = adapter_record RELEASED input"

definition action_dispatch ::
  "uuid \<Rightarrow> uuid \<Rightarrow> InterventionType \<Rightarrow> string \<Rightarrow> EngineeringActionReceipt op" where
  "action_dispatch organizationId interventionId action idempotencyKey =
     (let key = organizationId @ '':'' @ idempotencyKey;
          receipt = \<lparr>rc_adapterKind = ''SWAR_SAFE_DEMO_ACTION'', rc_interventionId = interventionId,
            rc_action = action, rc_status = ''RECORDED''\<rparr> in
      bindM (getM (\<lambda>w. map_of (w_receipts w) key)) (\<lambda>found. case found of
        Some existing \<Rightarrow>
          thenM (guardM (\<not> (rc_interventionId existing \<noteq> interventionId \<or>
              rc_action existing \<noteq> action)) IdempotencyConflictError) (returnM existing)
      | None \<Rightarrow>
          thenM (modifyM (\<lambda>w. w\<lparr>w_receipts := AList.update key receipt (w_receipts w)\<rparr>))
            (returnM receipt)))"

section \<open>The service\<close>

record ResolveInput =
  rv_interventionId :: uuid
  rv_idempotencyKey :: string
  rv_correlationId :: string

definition intervention_audit ::
  "AuthPrincipal \<Rightarrow> ResolveInput \<Rightarrow> string \<Rightarrow> string \<Rightarrow> uuid \<Rightarrow> AuditOutcome option \<Rightarrow>
   string option \<Rightarrow> string \<Rightarrow> audit_row op" where
  "intervention_audit subject input suffix action targetId outcome reasonCode operation = audit_record
     \<lparr>wa_organizationId = pr_organizationId subject, wa_actor = Some (pr_membershipId subject),
      wa_correlationId = rv_correlationId input,
      wa_idempotencyKey = Some (rv_idempotencyKey input @ suffix), wa_action = action,
      wa_targetType = ''Intervention'', wa_targetId = targetId, wa_outcome = outcome,
      wa_reasonCode = reasonCode, wa_operation = operation\<rparr>"

definition may_resolve :: "AuthPrincipal \<Rightarrow> unit op" where
  "may_resolve subject =
     liftE (authorization_assert subject P_intervention_resolve (pr_organizationId subject))"

definition intervention_transition ::
  "InterventionStatus \<Rightarrow> InterventionStatus \<Rightarrow> unit op" where
  "intervention_transition from to' = liftE (assertTransition ''Intervention''
     intervention_status_name interventionTransitions from to')"

definition acknowledge :: "AuthPrincipal \<Rightarrow> ResolveInput \<Rightarrow> intervention_row op" where
  "acknowledge subject input =
     thenM (may_resolve subject)
     (bindM (findIntervention (pr_organizationId subject) (rv_interventionId input)) (\<lambda>current.
      if iv_status current = IV_ACKNOWLEDGED then returnM current
      else
        thenM (intervention_transition (iv_status current) IV_ACKNOWLEDGED)
        (bindM (updateInterventionStatus (pr_organizationId subject) (iv_id current)
                  (iv_status current) IV_ACKNOWLEDGED (Some (pr_membershipId subject)))
           (\<lambda>acknowledged.
         bindM (intervention_audit subject input [] ''intervention.acknowledged'' (iv_id acknowledged)
                  None None ''intervention-acknowledge'') (\<lambda>_.
         returnM acknowledged)))))"

definition cancel :: "AuthPrincipal \<Rightarrow> ResolveInput \<Rightarrow> string \<Rightarrow> intervention_row op" where
  "cancel subject input reasonCode =
     thenM (may_resolve subject)
     (bindM (findIntervention (pr_organizationId subject) (rv_interventionId input)) (\<lambda>current.
      if iv_status current = IV_CANCELLED then returnM current
      else if iv_status current = IV_IN_PROGRESS then
        throwM (PersistenceConflictError
          ''An active intervention requires an independently verified resolution.'')
      else
        thenM (intervention_transition (iv_status current) IV_CANCELLED)
        (bindM (updateInterventionStatus (pr_organizationId subject) (iv_id current)
                  (iv_status current) IV_CANCELLED (Some (pr_membershipId subject)))
           (\<lambda>cancelled.
         bindM (intervention_audit subject input [] ''intervention.cancelled'' (iv_id cancelled)
                  None (Some reasonCode) ''intervention-cancel'') (\<lambda>_.
         returnM cancelled)))))"

definition hold_input ::
  "AuthPrincipal \<Rightarrow> ResolveInput \<Rightarrow> intervention_row \<Rightarrow> string \<Rightarrow> HoldInput" where
  "hold_input subject input current reference =
     \<lparr>hd_organizationId = pr_organizationId subject, hd_interventionId = iv_id current,
      hd_protectedActionReference = reference, hd_idempotencyKey = rv_idempotencyKey input\<rparr>"

definition apply_hold ::
  "AuthPrincipal \<Rightarrow> ResolveInput \<Rightarrow> intervention_row \<Rightarrow> string \<Rightarrow> intervention_row op" where
  "apply_hold subject input current reference =
     thenM (catchM
        (bindM (adapter_hold (hold_input subject input current reference)) (\<lambda>_. returnM ()))
        (\<lambda>_. bindM (intervention_audit subject input '':hold-failed''
                ''intervention.hold.provider-unknown'' (iv_id current) (Some AUDIT_FAILED)
                (Some ''PROTECTED_ACTION_HOLD_FAILED_OR_TIMED_OUT'') ''intervention-hold'') (\<lambda>_.
              throwM (DomainProviderError ''PROTECTED_ACTION'' ''hold''
                (intervention_status_name (iv_status current))))))
     (bindM (updateInterventionStatus (pr_organizationId subject) (iv_id current)
               (iv_status current) IV_IN_PROGRESS None) (\<lambda>held.
      bindM (intervention_audit subject input '':held'' ''intervention.hold.applied'' (iv_id held)
               None None ''intervention-hold'') (\<lambda>_.
      returnM held)))"

definition hold :: "AuthPrincipal \<Rightarrow> ResolveInput \<Rightarrow> intervention_row op" where
  "hold subject input =
     thenM (may_resolve subject)
     (bindM (findIntervention (pr_organizationId subject) (rv_interventionId input)) (\<lambda>current.
      case iv_protectedAction current of
        None \<Rightarrow> throwM (PersistenceConflictError ''Intervention is not a protected-action hold.'')
      | Some reference \<Rightarrow>
          if iv_type current \<noteq> HOLD_PROTECTED_ACTION then
            throwM (PersistenceConflictError ''Intervention is not a protected-action hold.'')
          else if iv_status current = IV_IN_PROGRESS then returnM current
          else
            thenM (intervention_transition (iv_status current) IV_IN_PROGRESS)
              (apply_hold subject input current reference)))"

definition apply_release ::
  "AuthPrincipal \<Rightarrow> ResolveInput \<Rightarrow> intervention_row \<Rightarrow> string \<Rightarrow> intervention_row op" where
  "apply_release subject input current reference =
     thenM (catchM
        (bindM (adapter_release (hold_input subject input current reference)) (\<lambda>_. returnM ()))
        (\<lambda>_. bindM (intervention_audit subject input '':release-failed''
                ''intervention.release.provider-unknown'' (iv_id current) (Some AUDIT_FAILED)
                (Some ''PROTECTED_ACTION_RELEASE_FAILED_OR_TIMED_OUT'') ''intervention-release'')
              (\<lambda>_. throwM (DomainProviderError ''PROTECTED_ACTION'' ''release''
                (intervention_status_name IV_IN_PROGRESS)))))
     (bindM (updateInterventionStatus (pr_organizationId subject) (iv_id current)
               IV_IN_PROGRESS IV_SATISFIED (Some (pr_membershipId subject))) (\<lambda>released.
      bindM (intervention_audit subject input '':released'' ''intervention.hold.released''
               (iv_id released) None None ''intervention-release'') (\<lambda>_.
      returnM released)))"

text \<open>The disjunction of lines 180 to 188, each part tested in order, negated.\<close>

definition release_allowed :: "intervention_row \<Rightarrow> challenge_row \<Rightarrow> instant \<Rightarrow> bool" where
  "release_allowed current challenge t \<longleftrightarrow>
     iv_type current = HOLD_PROTECTED_ACTION \<and> iv_protectedAction current \<noteq> None \<and>
     iv_status current = IV_IN_PROGRESS \<and> vc_intervention challenge = iv_id current \<and>
     vc_call challenge = iv_call current \<and> vc_status challenge = VC_PASSED \<and>
     t < vc_expiresAt challenge"

definition releaseAfterIndependentVerification ::
  "AuthPrincipal \<Rightarrow> ResolveInput \<Rightarrow> uuid \<Rightarrow> intervention_row op" where
  "releaseAfterIndependentVerification subject input verificationChallengeId =
     thenM (may_resolve subject)
     (bindM (findIntervention (pr_organizationId subject) (rv_interventionId input)) (\<lambda>current.
      bindM (findVerificationChallenge (pr_organizationId subject) verificationChallengeId)
        (\<lambda>challenge.
      bindM now (\<lambda>t.
      thenM (guardM (release_allowed current challenge t)
               (PersistenceConflictError ''Active protected-action hold was not found.''))
      (thenM (intervention_transition (iv_status current) IV_SATISFIED)
        (apply_release subject input current (the (iv_protectedAction current))))))))"

section \<open>Step-up verification\<close>

definition stepup_request ::
  "configuration \<Rightarrow> AuthPrincipal \<Rightarrow> uuid \<Rightarrow> string \<Rightarrow> string \<Rightarrow> challenge_row op" where
  "stepup_request config subject interventionId method idempotencyKey =
     thenM (may_resolve subject)
     (bindM (findIntervention (pr_organizationId subject) interventionId) (\<lambda>intervention.
      thenM (guardM (List.member [REQUIRE_STEP_UP, REQUIRE_CALLBACK, HOLD_PROTECTED_ACTION]
               (iv_type intervention)) (ApiError ''STEP_UP_NOT_REQUIRED'' 409 []))
      (bindM now (\<lambda>t.
       createVerificationChallenge (pr_organizationId subject)
         \<lparr>ch_callId = iv_call intervention, ch_interventionId = iv_id intervention,
          ch_performedBy = Some (pr_membershipId subject), ch_idempotencyKey = idempotencyKey,
          ch_method = method, ch_attemptNumber = 1,
          ch_expiresAt = t + stepUpChallengeTtlSeconds (c_api config) * 1000\<rparr>))))"

definition stepup_complete ::
  "uuid \<Rightarrow> uuid \<Rightarrow> VerificationStatus \<Rightarrow> string \<Rightarrow> challenge_row op" where
  "stepup_complete organizationId challengeId result resultCode =
     completeVerificationChallenge organizationId challengeId result resultCode"

section \<open>The executor of demo interventions\<close>

text \<open>Candidates: due, with attempts left, and not leased at the time the batch is read.\<close>

definition lease_free :: "instant \<Rightarrow> intervention_row \<Rightarrow> bool" where
  "lease_free t r \<longleftrightarrow> (iv_leaseId r = None \<and> iv_leaseExpiresAt r = None) \<or>
     (case iv_leaseExpiresAt r of None \<Rightarrow> False | Some e \<Rightarrow> e \<le> t)"

definition due_candidate :: "api_config \<Rightarrow> instant \<Rightarrow> intervention_row \<Rightarrow> bool" where
  "due_candidate api t r \<longleftrightarrow>
     iv_mode r = DEMO \<and> iv_status r = IV_REQUIRED \<and>
     iv_attemptCount r < securityOutboxMaximumAttempts api \<and>
     (case iv_nextAttemptAt r of None \<Rightarrow> True | Some n \<Rightarrow> n \<le> t) \<and> lease_free t r"

text \<open>\<open>orderBy\<close> ascending: PostgreSQL puts the rows without a next attempt last.\<close>

definition due_order :: "intervention_row \<Rightarrow> bool \<times> instant \<times> instant \<times> uuid" where
  "due_order r = (iv_nextAttemptAt r = None,
     (case iv_nextAttemptAt r of None \<Rightarrow> 0 | Some n \<Rightarrow> n), iv_requiredAt r, iv_id r)"

definition due_batch :: "api_config \<Rightarrow> instant \<Rightarrow> intervention_row list \<Rightarrow> intervention_row list" where
  "due_batch api t rs = take (nat (securityOutboxBatchSize api))
     (sort_key due_order (filter (due_candidate api t) rs))"

definition claimable :: "instant \<Rightarrow> intervention_row \<Rightarrow> intervention_row \<Rightarrow> bool" where
  "claimable t candidate r \<longleftrightarrow>
     iv_id r = iv_id candidate \<and> iv_org r = iv_org candidate \<and> iv_mode r = DEMO \<and>
     iv_status r = IV_REQUIRED \<and> iv_attemptCount r = iv_attemptCount candidate \<and> lease_free t r"

definition claim_row :: "uuid \<Rightarrow> instant \<Rightarrow> intervention_row \<Rightarrow> intervention_row" where
  "claim_row leaseId leaseExpiresAt r =
     r\<lparr>iv_attemptCount := iv_attemptCount r + 1, iv_nextAttemptAt := None,
       iv_leaseId := Some leaseId, iv_leaseExpiresAt := Some leaseExpiresAt,
       iv_failureCode := None\<rparr>"

definition leased_by :: "uuid \<Rightarrow> intervention_row \<Rightarrow> intervention_row \<Rightarrow> bool" where
  "leased_by leaseId candidate r \<longleftrightarrow>
     iv_id r = iv_id candidate \<and> iv_org r = iv_org candidate \<and> iv_mode r = DEMO \<and>
     iv_status r = IV_REQUIRED \<and> iv_attemptCount r = iv_attemptCount candidate + 1 \<and>
     iv_leaseId r = Some leaseId"

definition dispatch_key :: "intervention_row \<Rightarrow> string" where
  "dispatch_key candidate = ''demo-dispatch:'' @ iv_id candidate"

definition perform_candidate :: "intervention_row \<Rightarrow> unit op" where
  "perform_candidate candidate =
     (if iv_type candidate = HOLD_PROTECTED_ACTION then
        (case iv_protectedAction candidate of
           None \<Rightarrow> throwM (Error ''DEMO_HOLD_REFERENCE_MISSING'')
         | Some reference \<Rightarrow>
             bindM (adapter_hold \<lparr>hd_organizationId = iv_org candidate,
                hd_interventionId = iv_id candidate, hd_protectedActionReference = reference,
                hd_idempotencyKey = dispatch_key candidate\<rparr>) (\<lambda>_. returnM ()))
      else bindM (action_dispatch (iv_org candidate) (iv_id candidate) (iv_type candidate)
             (dispatch_key candidate)) (\<lambda>_. returnM ()))"

definition executor_audit ::
  "intervention_row \<Rightarrow> uuid \<Rightarrow> string \<Rightarrow> string \<Rightarrow> AuditOutcome option \<Rightarrow> string option \<Rightarrow>
   audit_row op" where
  "executor_audit candidate leaseId suffix action outcome reasonCode = audit_record
     \<lparr>wa_organizationId = iv_org candidate, wa_actor = None, wa_correlationId = leaseId,
      wa_idempotencyKey = Some (dispatch_key candidate @ suffix), wa_action = action,
      wa_targetType = ''Intervention'', wa_targetId = iv_id candidate, wa_outcome = outcome,
      wa_reasonCode = reasonCode, wa_operation = ''demo-intervention-dispatch''\<rparr>"

definition finish_candidate :: "uuid \<Rightarrow> intervention_row \<Rightarrow> bool op" where
  "finish_candidate leaseId candidate =
     thenM (perform_candidate candidate)
     (bindM (update_rows interventions_table (leased_by leaseId candidate)
               (\<lambda>r. r\<lparr>iv_status := IV_IN_PROGRESS, iv_nextAttemptAt := None,
                       iv_leaseId := None, iv_leaseExpiresAt := None\<rparr>)) (\<lambda>_.
      bindM (executor_audit candidate leaseId '':succeeded''
               ''intervention.demo-action.dispatched'' None None) (\<lambda>_.
      returnM True)))"

definition failed_row :: "bool \<Rightarrow> instant \<Rightarrow> instant \<Rightarrow> intervention_row \<Rightarrow> intervention_row" where
  "failed_row exhausted nextAttemptAt deadLetteredAt r =
     r\<lparr>iv_status := (if exhausted then IV_FAILED else IV_REQUIRED),
       iv_failureCode := Some (if exhausted then ''DEMO_ACTION_RETRY_EXHAUSTED''
                               else ''DEMO_ACTION_RETRY_SCHEDULED''),
       iv_nextAttemptAt := (if exhausted then None else Some nextAttemptAt),
       iv_leaseId := None, iv_leaseExpiresAt := None,
       iv_deadLetteredAt := (if exhausted then Some deadLetteredAt else None)\<rparr>"

definition fail_candidate :: "api_config \<Rightarrow> uuid \<Rightarrow> intervention_row \<Rightarrow> bool op" where
  "fail_candidate api leaseId candidate =
     (let attempt = iv_attemptCount candidate + 1;
          exhausted = (securityOutboxMaximumAttempts api \<le> attempt);
          delay = securityOutboxRetryBaseMs api * 2 ^ nat (max 0 (attempt - 1)) in
      bindM (now_if (\<not> exhausted)) (\<lambda>t1.
      bindM (now_if exhausted) (\<lambda>t2.
      bindM (update_rows interventions_table (leased_by leaseId candidate)
               (failed_row exhausted (t1 + delay) t2)) (\<lambda>_.
      bindM (executor_audit candidate leaseId ('':attempt:'' @ int_string attempt @ '':failed'')
               ''intervention.demo-action.failed'' (Some AUDIT_FAILED)
               (Some (if exhausted then ''DEMO_ACTION_RETRY_EXHAUSTED''
                      else ''DEMO_ACTION_RETRY_SCHEDULED''))) (\<lambda>_.
      returnM False)))))"

definition execute_candidate :: "api_config \<Rightarrow> instant \<Rightarrow> intervention_row \<Rightarrow> bool op" where
  "execute_candidate api t candidate =
     bindM new_id (\<lambda>leaseId.
     bindM now (\<lambda>claimedAt.
     bindM (update_rows interventions_table (claimable t candidate)
              (claim_row leaseId (claimedAt + securityOutboxLeaseMs api))) (\<lambda>claimed.
     if claimed \<noteq> 1 then returnM False
     else catchM (finish_candidate leaseId candidate) (\<lambda>_. fail_candidate api leaseId candidate))))"

definition executePending :: "configuration \<Rightarrow> bool \<Rightarrow> bool \<Rightarrow> nat op" where
  "executePending config running shuttingDown =
     (if running \<or> shuttingDown \<or> environment (c_runtime config) = ENV_PRODUCTION then returnM 0
      else
        bindM now (\<lambda>t.
        bindM (getM (\<lambda>w. due_batch (c_api config) t (d_interventions (w_db w)))) (\<lambda>candidates.
        bindM (mapM (execute_candidate (c_api config) t) candidates) (\<lambda>outcomes.
        returnM (length (filter (\<lambda>completed. completed) outcomes))))))"

section \<open>Lemmas\<close>

text \<open>Every satisfied intervention has a challenge of its own that was passed.\<close>

definition satisfied_verified :: "db \<Rightarrow> bool" where
  "satisfied_verified d \<longleftrightarrow> (\<forall>r \<in> set (d_interventions d). iv_status r = IV_SATISFIED \<longrightarrow>
     (\<exists>c \<in> set (d_challenges d). vc_org c = iv_org r \<and> vc_intervention c = iv_id r \<and>
        vc_status c = VC_PASSED))"

definition verified_and :: "challenge_row set \<Rightarrow> db \<Rightarrow> bool" where
  "verified_and C d \<longleftrightarrow> satisfied_verified d \<and> C \<subseteq> set (d_challenges d)"

lemma keeps_audit_verified [hoare]:
  "keeps (on_db (verified_and C)) (audit_record input)"
  by (rule keeps_audit_record) (simp add: verified_and_def satisfied_verified_def)

lemma keeps_intervention_audit [hoare]:
  "keeps (on_db (verified_and C)) (intervention_audit subject input suffix action i outcome rc operation)"
  unfolding intervention_audit_def by (intro hoare)

lemma keeps_find_intervention [hoare]: "keeps I (findIntervention context i)"
  unfolding findIntervention_def by (intro hoare)

lemma keeps_find_challenge [hoare]: "keeps I (findVerificationChallenge context i)"
  unfolding findVerificationChallenge_def by (intro hoare)

lemma keeps_may_resolve [hoare]: "keeps I (may_resolve subject)"
  unfolding may_resolve_def by (intro hoare)

lemma keeps_intervention_transition [hoare]: "keeps I (intervention_transition a b)"
  unfolding intervention_transition_def by (intro hoare)

lemma keeps_update_interventions:
  assumes "\<And>r. P r \<Longrightarrow> iv_id (f r) = iv_id r \<and> iv_org (f r) = iv_org r"
    and "\<And>r. P r \<Longrightarrow> iv_status (f r) = IV_SATISFIED \<Longrightarrow>
      iv_status r = IV_SATISFIED \<or> (\<exists>c \<in> C. vc_org c = iv_org r \<and> vc_intervention c = iv_id r \<and>
        vc_status c = VC_PASSED)"
  shows "keeps (on_db (verified_and C)) (update_rows interventions_table P f)"
proof (rule keeps_update_rows)
  fix d assume I: "verified_and C d"
  have "satisfied_verified (d_interventions_update (change_rows P f) d)"
    unfolding satisfied_verified_def
  proof (intro ballI impI)
    fix x assume x: "x \<in> set (d_interventions (d_interventions_update (change_rows P f) d))"
      "iv_status x = IV_SATISFIED"
    then consider "x \<in> set (d_interventions d)"
      | r where "r \<in> set (d_interventions d)" "P r" "x = f r"
      by (auto simp: set_change_rows)
    then show "\<exists>c \<in> set (d_challenges (d_interventions_update (change_rows P f) d)).
        vc_org c = iv_org x \<and> vc_intervention c = iv_id x \<and> vc_status c = VC_PASSED"
    proof cases
      case 1
      with I x(2) show ?thesis by (simp add: verified_and_def satisfied_verified_def)
    next
      case 2
      with assms x(2) I show ?thesis
        unfolding verified_and_def satisfied_verified_def by fastforce
    qed
  qed
  with I show "verified_and C (t_put interventions_table (change_rows P f) d)"
    by (simp add: verified_and_def interventions_table_def)
qed

lemma intervention_after_id [simp]:
  "iv_id (intervention_after s m t u r) = iv_id r" "iv_org (intervention_after s m t u r) = iv_org r"
  by (simp_all add: intervention_after_def Let_def split: option.split)

lemma keeps_updateInterventionStatus:
  assumes "next' = IV_SATISFIED \<Longrightarrow> expected = IV_SATISFIED \<or>
    (\<exists>c \<in> C. vc_org c = context \<and> vc_intervention c = i \<and> vc_status c = VC_PASSED)"
  shows "keeps (on_db (verified_and C))
    (updateInterventionStatus context i expected next' who)"
proof -
  have "keeps (on_db (verified_and C)) (update_rows interventions_table
      (intervention_in context i expected) (intervention_after next' m t u))" for m t u
    using assms by (intro keeps_update_interventions) (auto simp: intervention_in_def)
  then show ?thesis
    unfolding updateInterventionStatus_def now_if_def
    by (intro keeps_bind_tenant keeps_bind_uuid hoare) simp_all
qed

lemma keeps_create_challenge:
  "keeps (on_db (verified_and C)) (createVerificationChallenge context input)"
proof -
  have "keeps (on_db (verified_and C)) (create challenges_table row)" for row
    by (rule keeps_create) (auto simp: verified_and_def satisfied_verified_def challenges_table_def)
  then show ?thesis
    unfolding createVerificationChallenge_def challenge_by_key_def
    by (intro hoare; simp)
qed

lemma keeps_complete_challenge:
  assumes "\<forall>c \<in> C. vc_status c \<noteq> VC_PENDING"
  shows "keeps (on_db (verified_and C)) (completeVerificationChallenge context i status code)"
proof -
  have "keeps (on_db (verified_and C)) (update_rows challenges_table
      (\<lambda>c. vc_org c = org' \<and> vc_id c = i' \<and> vc_status c = VC_PENDING \<and> t < vc_expiresAt c)
      (\<lambda>c. c\<lparr>vc_status := status, vc_resultCode := Some code', vc_completedAt := Some t'\<rparr>))"
    for org' i' t code' t'
  proof (rule keeps_update_rows)
    fix d let ?d' = "t_put challenges_table (change_rows (\<lambda>c. vc_org c = org' \<and> vc_id c = i' \<and>
        vc_status c = VC_PENDING \<and> t < vc_expiresAt c)
        (\<lambda>c. c\<lparr>vc_status := status, vc_resultCode := Some code', vc_completedAt := Some t'\<rparr>)) d"
    assume I: "verified_and C d"
    have kept: "c \<in> set (d_challenges ?d')" if "c \<in> set (d_challenges d)" "vc_status c \<noteq> VC_PENDING" for c
      using that by (auto simp: challenges_table_def set_change_rows)
    have same: "d_interventions ?d' = d_interventions d" by (simp add: challenges_table_def)
    have "satisfied_verified ?d'"
      unfolding satisfied_verified_def same
    proof (intro ballI impI)
      fix r assume "r \<in> set (d_interventions d)" "iv_status r = IV_SATISFIED"
      with I obtain c where c: "c \<in> set (d_challenges d)" "vc_org c = iv_org r"
          "vc_intervention c = iv_id r" "vc_status c = VC_PASSED"
        unfolding verified_and_def satisfied_verified_def by blast
      then have "c \<in> set (d_challenges ?d')" by (intro kept) simp_all
      with c show "\<exists>c \<in> set (d_challenges ?d'). vc_org c = iv_org r \<and> vc_intervention c = iv_id r \<and>
          vc_status c = VC_PASSED" by blast
    qed
    moreover have "C \<subseteq> set (d_challenges ?d')"
      using I assms by (auto simp: verified_and_def intro!: kept)
    ultimately show "verified_and C ?d'" by (simp add: verified_and_def)
  qed
  then show ?thesis
    unfolding completeVerificationChallenge_def by (intro hoare) simp_all
qed

lemma keeps_adapter [hoare]:
  "keeps (on_db I) (adapter_record status input)"
  "keeps (on_db I) (action_dispatch org' i action key)"
  unfolding adapter_record_def action_dispatch_def Let_def
  by (intro hoare keeps_modifyM; simp)+

lemma keeps_acknowledge: "keeps (on_db (verified_and C)) (acknowledge subject input)"
  unfolding acknowledge_def by (intro hoare keeps_updateInterventionStatus) simp

lemma keeps_cancel: "keeps (on_db (verified_and C)) (cancel subject input reason)"
  unfolding cancel_def by (intro hoare keeps_updateInterventionStatus) simp

lemma keeps_hold: "keeps (on_db (verified_and C)) (hold subject input)"
  unfolding hold_def apply_hold_def adapter_hold_def
  by (intro hoare keeps_updateInterventionStatus) simp

lemma keeps_apply_release:
  assumes "vc_org c = pr_organizationId subject" "vc_intervention c = iv_id current"
    "vc_status c = VC_PASSED" "c \<in> C"
  shows "keeps (on_db (verified_and C)) (apply_release subject input current reference)"
  unfolding apply_release_def adapter_release_def
  using assms by (intro hoare keeps_updateInterventionStatus) auto

lemma keeps_release:
  "keeps (on_db (verified_and {})) (releaseAfterIndependentVerification subject input i)"
  unfolding releaseAfterIndependentVerification_def
proof (rule keeps_thenM [OF keeps_may_resolve], rule keeps_bindM [OF keeps_find_intervention])
  fix current
  show "keeps (on_db (verified_and {})) (bindM (findVerificationChallenge (pr_organizationId subject) i)
        (\<lambda>challenge. bindM now (\<lambda>t.
      thenM (guardM (release_allowed current challenge t)
               (PersistenceConflictError ''Active protected-action hold was not found.''))
      (thenM (intervention_transition (iv_status current) IV_SATISFIED)
        (apply_release subject input current (the (iv_protectedAction current)))))))"
  proof (rule keeps_bindM_seq [OF keeps_find_challenge])
    fix w c w' assume w: "on_db (verified_and {}) w"
      and run: "findVerificationChallenge (pr_organizationId subject) i w = (Inr c, w')"
    let ?m = "bindM now (\<lambda>t.
      thenM (guardM (release_allowed current c t)
               (PersistenceConflictError ''Active protected-action hold was not found.''))
      (thenM (intervention_transition (iv_status current) IV_SATISFIED)
        (apply_release subject input current (the (iv_protectedAction current)))))"
    have c: "c \<in> set (d_challenges (w_db w))" "vc_org c = pr_organizationId subject" "w' = w"
      using run by (auto simp: findVerificationChallenge_def bindM_eq_Inr_iff find_or_throw_run
          requireTenant_Inr requireUuid_Inr challenges_table_def dest: find_Some_iff2)
    have "keeps (on_db (verified_and {c})) ?m"
      by (intro hoare keeps_guard_then keeps_apply_release) (auto simp: release_allowed_def c(2))
    moreover have "on_db (verified_and {c}) w'"
      using w c by (simp add: on_db_def verified_and_def)
    ultimately have "on_db (verified_and {c}) (snd (?m w'))" by (rule keeps_sndD)
    then show "on_db (verified_and {}) (snd (?m w'))" by (simp add: on_db_def verified_and_def)
  qed
qed


lemma keeps_executor: "keeps (on_db (verified_and C)) (executePending config running shuttingDown)"
proof -
  have claim: "keeps (on_db (verified_and C)) (update_rows interventions_table (claimable t candidate)
      (claim_row leaseId e))" for t candidate leaseId e
    by (rule keeps_update_interventions) (simp_all add: claim_row_def)
  have finished: "keeps (on_db (verified_and C)) (update_rows interventions_table (leased_by leaseId candidate)
      (\<lambda>r. r\<lparr>iv_status := IV_IN_PROGRESS, iv_nextAttemptAt := None,
              iv_leaseId := None, iv_leaseExpiresAt := None\<rparr>))" for leaseId candidate
    by (rule keeps_update_interventions) simp_all
  have failed: "keeps (on_db (verified_and C)) (update_rows interventions_table (leased_by leaseId candidate)
      (failed_row exhausted t1 t2))" for leaseId candidate exhausted t1 t2
    by (rule keeps_update_interventions) (auto simp: failed_row_def split: if_splits)
  show ?thesis
    unfolding executePending_def execute_candidate_def finish_candidate_def fail_candidate_def
      perform_candidate_def executor_audit_def adapter_hold_def now_if_def Let_def
    by (intro hoare claim finished failed; simp)
qed

lemma keeps_stepup_request:
  "keeps (on_db (verified_and C)) (stepup_request config subject i method key)"
  unfolding stepup_request_def by (intro hoare keeps_create_challenge) simp

section \<open>Properties\<close>

datatype intervention_request =
    Acknowledge AuthPrincipal ResolveInput
  | Cancel AuthPrincipal ResolveInput string
  | Hold AuthPrincipal ResolveInput
  | Release AuthPrincipal ResolveInput uuid
  | RequestStepUp AuthPrincipal uuid string string
  | CompleteStepUp uuid uuid VerificationStatus string
  | RunExecutor bool bool

fun intervention_step :: "configuration \<Rightarrow> world \<Rightarrow> intervention_request \<Rightarrow> world" where
  "intervention_step config w (Acknowledge subject input) = snd (acknowledge subject input w)"
| "intervention_step config w (Cancel subject input reason) = snd (cancel subject input reason w)"
| "intervention_step config w (Hold subject input) = snd (hold subject input w)"
| "intervention_step config w (Release subject input i) =
     snd (releaseAfterIndependentVerification subject input i w)"
| "intervention_step config w (RequestStepUp subject i method key) =
     snd (stepup_request config subject i method key w)"
| "intervention_step config w (CompleteStepUp org i result code) =
     snd (stepup_complete org i result code w)"
| "intervention_step config w (RunExecutor running shuttingDown) =
     snd (executePending config running shuttingDown w)"

text \<open>
  C4: whatever is requested, in whatever order, an intervention is satisfied only when a
  verification challenge of that intervention and organization was passed.
\<close>

theorem satisfied_only_after_verification:
  assumes "\<forall>r \<in> set (d_interventions (w_db w)). iv_status r \<noteq> IV_SATISFIED"
    and "r \<in> set (d_interventions (w_db (foldl (intervention_step config) w requests)))"
    and "iv_status r = IV_SATISFIED"
  shows "\<exists>c \<in> set (d_challenges (w_db (foldl (intervention_step config) w requests))).
    vc_org c = iv_org r \<and> vc_intervention c = iv_id r \<and> vc_status c = VC_PASSED"
proof -
  have step: "on_db (verified_and {}) v \<Longrightarrow> on_db (verified_and {}) (intervention_step config v q)" for v q
    by (cases q) (auto intro: keeps_sndD keeps_acknowledge keeps_cancel keeps_hold keeps_release
        keeps_stepup_request keeps_complete_challenge keeps_executor simp: stepup_complete_def)
  have "on_db (verified_and {}) v \<Longrightarrow> on_db (verified_and {}) (foldl (intervention_step config) v requests)" for v
    by (induction requests arbitrary: v) (simp_all add: step)
  moreover have "on_db (verified_and {}) w"
    using assms(1) by (simp add: on_db_def verified_and_def satisfied_verified_def)
  ultimately have "satisfied_verified (w_db (foldl (intervention_step config) w requests))"
    by (simp add: on_db_def verified_and_def)
  with assms(2,3) show ?thesis unfolding satisfied_verified_def by blast
qed


definition resolver :: AuthPrincipal where
  "resolver = \<lparr>pr_userId = model1, pr_organizationId = org1, pr_membershipId = model1,
     pr_deviceId = model1, pr_sessionId = model1, pr_roles = [SECURITY_ANALYST]\<rparr>"

definition resolve_input :: "string \<Rightarrow> ResolveInput" where
  "resolve_input key = \<lparr>rv_interventionId = binding1, rv_idempotencyKey = key,
     rv_correlationId = ''c''\<rparr>"

definition held_world :: world where
  "held_world = sample_world (empty_db
     \<lparr>d_interventions := [sample_intervention HOLD_PROTECTED_ACTION IV_IN_PROGRESS],
      d_challenges := [sample_challenge VC_PASSED]\<rparr>)"

theorem satisfied_only_after_verification_witness:
  "\<exists>(r :: intervention_row) (c :: challenge_row). iv_status r = IV_SATISFIED \<and> vc_status c = VC_PASSED \<and> vc_intervention c = iv_id r \<and>
     c \<in> set (d_challenges (w_db (foldl (intervention_step engineering_configuration) held_world
       [Release resolver (resolve_input ''k'') session1])))"
proof -
  let ?w = "foldl (intervention_step engineering_configuration) held_world
    [Release resolver (resolve_input ''k'') session1]"
  have "list_ex (\<lambda>r. iv_status r = IV_SATISFIED) (d_interventions (w_db ?w))" by code_simp
  then obtain r where r: "r \<in> set (d_interventions (w_db ?w))" "iv_status r = IV_SATISFIED"
    by (auto simp: list_ex_iff)
  have "\<forall>r \<in> set (d_interventions (w_db held_world)). iv_status r \<noteq> IV_SATISFIED"
    by (simp add: held_world_def sample_world_def sample_intervention_def)
  from satisfied_only_after_verification [OF this r] r(2) show ?thesis by blast
qed

section \<open>Step-up verification\<close>

lemma new_challenge_row_fields:
  "new_challenge_row org' input key i t = Inr row \<Longrightarrow>
     vc_org row = org' \<and> vc_intervention row = ch_interventionId input \<and>
     vc_attemptNumber row = \<lfloor>ch_attemptNumber input\<rfloor>"
  by (auto simp: new_challenge_row_def requireUuid_def split: if_splits)

lemma refuses_createVerificationChallenge:
  assumes "c \<in> set (d_challenges d)" "vc_org c = context"
    and "vc_intervention c = ch_interventionId input"
    and "vc_attemptNumber c = \<lfloor>ch_attemptNumber input\<rfloor>"
    and none: "\<forall>x \<in> set (d_challenges d). vc_org x = context \<longrightarrow>
      vc_idemKey x \<noteq> js_trim (ch_idempotencyKey input)"
  shows "refuses d (createVerificationChallenge context input)"
proof -
  have key: "challenge_by_key context (js_trim (ch_idempotencyKey input)) w = (Inr None, w)"
    if "w_db w = d" for w
    using none that
    by (auto simp: challenge_by_key_def find_unique_row_def getM_def challenges_table_def find_None_iff)
  have create: "refuses d (bindM (liftE (new_challenge_row context input k i t)) (create challenges_table))"
    for k i t
  proof (rule refuses_bindM_run)
    fix w row w' assume "liftE (new_challenge_row context input k i t) w = (Inr row, w')"
    then have "challenge_clash c row"
      using new_challenge_row_fields [of "context" input k i t row] assms
      by (auto simp: challenge_clash_def)
    with assms(1) show "refuses d (create challenges_table row)"
      by (intro refuses_create [of c]) (simp_all add: challenges_table_def)
  qed (rule keeps_liftE)
  have ids: "keeps (on_db (\<lambda>x. x = d)) new_id" "keeps (on_db (\<lambda>x. x = d)) now"
    by (intro hoare; simp)+
  show ?thesis
    unfolding createVerificationChallenge_def
  proof (rule refuses_bindM_run [OF keeps_liftE])
    fix w v w' assume "liftE (requireTenant context) w = (Inr v, w')"
    then have "v = context" by simp
    show "refuses d (thenM (guardM (of_int \<lfloor>ch_attemptNumber input\<rfloor> = ch_attemptNumber input \<and>
                    1 \<le> ch_attemptNumber input)
              (PersistenceConflictError ''Verification attempt number is invalid.''))
     (bindM (liftE (requireText (ch_idempotencyKey input) ''idempotencyKey'' 128)) (\<lambda>key.
     bindM (challenge_by_key v key) (\<lambda>found.
     case found of
       Some existing \<Rightarrow>
         thenM (guardM (same_challenge existing input) IdempotencyConflictError)
           (returnM existing)
     | None \<Rightarrow>
         catchM
           (bindM new_id (\<lambda>newId. bindM now (\<lambda>requestedAt.
            bindM (liftE (new_challenge_row v input key newId requestedAt))
              (create challenges_table))))
           (\<lambda>error.
             if error = P2002_UniqueConstraint
             then bindM (challenge_by_key v key) (\<lambda>replay.
                  case replay of Some r \<Rightarrow> returnM r | None \<Rightarrow> throwM IdempotencyConflictError)
             else throwM error)))))"
      unfolding \<open>v = context\<close>
    proof (rule refuses_thenM [OF keeps_guardM], rule refuses_bindM_run [OF keeps_liftE])
      fix u k u' assume "liftE (requireText (ch_idempotencyKey input) ''idempotencyKey'' 128) u = (Inr k, u')"
      then have k: "k = js_trim (ch_idempotencyKey input)" by simp
      show "refuses d (bindM (challenge_by_key context k) (\<lambda>found.
         case found of
           Some existing \<Rightarrow>
             thenM (guardM (same_challenge existing input) IdempotencyConflictError)
               (returnM existing)
         | None \<Rightarrow>
             catchM
               (bindM new_id (\<lambda>newId. bindM now (\<lambda>requestedAt.
                bindM (liftE (new_challenge_row context input k newId requestedAt))
                  (create challenges_table))))
               (\<lambda>error.
                 if error = P2002_UniqueConstraint
                 then bindM (challenge_by_key context k) (\<lambda>replay.
                      case replay of Some r \<Rightarrow> returnM r | None \<Rightarrow> throwM IdempotencyConflictError)
                 else throwM error)))"
        unfolding k
        by (rule refuses_bindM_val, erule key, simp only: option.case,
          intro refuses_catchM refuses_bindM [OF ids(1)] refuses_bindM [OF ids(2)] create
            refuses_if refuses_throwM, rule refuses_bindM_val, erule key, simp only: option.case,
          rule refuses_throwM)
    qed
  qed
qed

text \<open>
  Step-up verification always asks for the first attempt, so once an intervention has a
  challenge no second one can be requested: after a failed or expired challenge the hold stays.
\<close>

lemma second_challenge_refused:
  assumes "c \<in> set (d_challenges (w_db w))" "vc_org c = pr_organizationId subject"
    and "vc_intervention c = i" "vc_attemptNumber c = 1"
    and "\<forall>x \<in> set (d_challenges (w_db w)). vc_org x = pr_organizationId subject \<longrightarrow>
      vc_idemKey x \<noteq> js_trim key"
  shows "\<exists>e w'. stepup_request config subject i method key w = (Inl e, w') \<and> w_db w' = w_db w"
proof -
  have "refuses (w_db w) (stepup_request config subject i method key)"
    unfolding stepup_request_def
  proof (rule refuses_thenM [OF keeps_may_resolve], rule refuses_bindM_run [OF keeps_find_intervention])
    fix v r v' assume "findIntervention (pr_organizationId subject) i v = (Inr r, v')"
    then have "iv_id r = i"
      by (auto simp: findIntervention_def bindM_eq_Inr_iff find_or_throw_run dest: find_Some_iff2)
    then show "refuses (w_db w) (thenM (guardM (List.member [REQUIRE_STEP_UP, REQUIRE_CALLBACK, HOLD_PROTECTED_ACTION]
               (iv_type r)) (ApiError ''STEP_UP_NOT_REQUIRED'' 409 []))
      (bindM now (\<lambda>t.
       createVerificationChallenge (pr_organizationId subject)
         \<lparr>ch_callId = iv_call r, ch_interventionId = iv_id r,
          ch_performedBy = Some (pr_membershipId subject), ch_idempotencyKey = key,
          ch_method = method, ch_attemptNumber = 1,
          ch_expiresAt = t + stepUpChallengeTtlSeconds (c_api config) * 1000\<rparr>)))"
      using assms
      by (intro refuses_thenM refuses_bindM refuses_createVerificationChallenge [of c] hoare) simp_all
  qed
  then show ?thesis unfolding refuses_def by blast
qed

theorem second_challenge_refused_witness:
  "\<exists>e w'. stepup_request engineering_configuration resolver binding1 ''CALLBACK'' ''second''
      (sample_world (empty_db
     \<lparr>d_interventions := [sample_intervention HOLD_PROTECTED_ACTION IV_IN_PROGRESS],
      d_challenges := [sample_challenge VC_FAILED]\<rparr>)) = (Inl e, w') \<and>
     d_challenges (w_db w') = [sample_challenge VC_FAILED]"
proof -
  let ?w = "sample_world (empty_db
     \<lparr>d_interventions := [sample_intervention HOLD_PROTECTED_ACTION IV_IN_PROGRESS],
      d_challenges := [sample_challenge VC_FAILED]\<rparr>)"
  have rows: "d_challenges (w_db ?w) = [sample_challenge VC_FAILED]" by (simp add: sample_world_def)
  have "js_trim ''second'' = ''second''" by code_simp
  then have "\<exists>e w'. stepup_request engineering_configuration resolver binding1 ''CALLBACK'' ''second'' ?w =
      (Inl e, w') \<and> w_db w' = w_db ?w"
    by (intro second_challenge_refused [of "sample_challenge VC_FAILED"])
      (simp_all only: rows, simp_all add: sample_challenge_def resolver_def)
  with rows show ?thesis by auto
qed

section \<open>The last attempt\<close>

lemma keeps_adapters_db:
  "keeps (on_db I) (perform_candidate candidate)"
  unfolding perform_candidate_def adapter_hold_def by (intro hoare)

lemma fail_candidate_refused:
  assumes "r \<in> set (d_interventions d)" "leased_by leaseId candidate r" "iv_resolvedAt r = None"
    and "securityOutboxMaximumAttempts api \<le> iv_attemptCount candidate + 1"
  shows "refuses d (fail_candidate api leaseId candidate)"
proof -
  have "refuses d (update_rows interventions_table (leased_by leaseId candidate)
      (failed_row True t1 t2))" for t1 t2
    using assms(1-3)
    by (force simp: refuses_def update_rows_def Let_def interventions_table_def list_ex_iff
        failed_row_def intervention_check_def)
  then have bind: "refuses d (bindM (update_rows interventions_table (leased_by leaseId candidate)
      (failed_row True t1 t2)) k)" for t1 t2 and k :: "nat \<Rightarrow> bool op"
    by (rule refuses_bindM1)
  show ?thesis
    using assms(4)
    by (auto simp: fail_candidate_def Let_def now_if_def intro!: refuses_bindM hoare bind)
qed


lemma claim_run:
  assumes "candidate \<in> set (d_interventions (w_db w))" "claimable t candidate candidate"
    and "pairwise_free intervention_clash (d_interventions (w_db w))"
    and "iv_deadLetteredAt candidate = None"
  shows "\<exists>w'. update_rows interventions_table (claimable t candidate) (claim_row i e) w = (Inr 1, w') \<and>
    claim_row i e candidate \<in> set (d_interventions (w_db w'))"
proof -
  have hit: "filter (claimable t candidate) (d_interventions (w_db w)) = [candidate]"
    by (rule pairwise_free_filter [where clash = intervention_clash])
      (auto simp: assms(1-3), auto simp: claimable_def intervention_clash_def)
  have "pairwise_free intervention_clash (change_rows (claimable t candidate) (claim_row i e)
      (d_interventions (w_db w)))"
    using assms(3) unfolding change_rows_def
    by (subst pairwise_free_map) (auto simp: intervention_clash_def claim_row_def)
  moreover have "intervention_check (claim_row i e candidate)"
    using assms(2,4) by (simp add: intervention_check_def claim_row_def claimable_def)
  ultimately show ?thesis
    using hit assms(1,2)
    by (simp add: update_rows_def Let_def interventions_table_def set_change_rows)
qed



definition stuck_candidate :: intervention_row where
  "stuck_candidate = (sample_intervention HOLD_PROTECTED_ACTION IV_REQUIRED)
     \<lparr>iv_protectedAction := None, iv_attemptCount := 2\<rparr>"


section \<open>The reach of the executor\<close>

definition demo_bounded :: "int \<Rightarrow> intervention_row set \<Rightarrow> db \<Rightarrow> bool" where
  "demo_bounded maximum others d \<longleftrightarrow> others \<subseteq> set (d_interventions d) \<and>
     (\<forall>r \<in> set (d_interventions d). iv_mode r = DEMO \<longrightarrow> iv_attemptCount r \<le> maximum)"

lemma keeps_demo_update:
  assumes "\<And>r. P r \<Longrightarrow> iv_mode r = DEMO" "\<And>r. r \<in> others \<Longrightarrow> iv_mode r \<noteq> DEMO"
    and "\<And>r. P r \<Longrightarrow> iv_attemptCount r \<le> maximum \<Longrightarrow> iv_attemptCount (f r) \<le> maximum"
  shows "keeps (on_db (demo_bounded maximum others)) (update_rows interventions_table P f)"
proof (rule keeps_update_rows)
  fix d assume "demo_bounded maximum others d"
  then show "demo_bounded maximum others (t_put interventions_table (change_rows P f) d)"
    using assms by (auto simp: demo_bounded_def interventions_table_def set_change_rows)
qed

lemma keeps_demo_audit [hoare]:
  "keeps (on_db (demo_bounded maximum others)) (executor_audit candidate i suffix action q rc)"
  unfolding executor_audit_def by (rule keeps_audit_record) (simp add: demo_bounded_def)

lemma keeps_demo_candidate:
  assumes "iv_attemptCount candidate < maximum" "\<And>r. r \<in> others \<Longrightarrow> iv_mode r \<noteq> DEMO"
  shows "keeps (on_db (demo_bounded maximum others)) (execute_candidate api t candidate)"
proof -
  have claim: "keeps (on_db (demo_bounded maximum others))
      (update_rows interventions_table (claimable t candidate) (claim_row i e))" for i e
    using assms by (intro keeps_demo_update) (auto simp: claimable_def claim_row_def)
  have other: "keeps (on_db (demo_bounded maximum others))
      (update_rows interventions_table (leased_by i candidate) f)"
    if "\<And>r. iv_attemptCount (f r) = iv_attemptCount r" for i f
    using assms(2) by (intro keeps_demo_update) (auto simp: leased_by_def that)
  show ?thesis
    unfolding execute_candidate_def finish_candidate_def fail_candidate_def now_if_def Let_def
    by (intro hoare claim other keeps_adapters_db) (simp_all add: failed_row_def)
qed

text \<open>
  C39: the executor never touches an intervention that is not a demo one, and never attempts a
  demo intervention more often than the configuration allows.
\<close>

theorem executor_stays_in_demo:
  assumes "\<forall>r \<in> set (d_interventions (w_db w)). iv_mode r = DEMO \<longrightarrow>
      iv_attemptCount r \<le> securityOutboxMaximumAttempts (c_api config)"
    and "executePending config running shuttingDown w = (result, w')"
  shows "(\<forall>r \<in> set (d_interventions (w_db w)). iv_mode r \<noteq> DEMO \<longrightarrow>
      r \<in> set (d_interventions (w_db w'))) \<and>
    (\<forall>r \<in> set (d_interventions (w_db w')). iv_mode r = DEMO \<longrightarrow>
      iv_attemptCount r \<le> securityOutboxMaximumAttempts (c_api config))"
proof -
  let ?max = "securityOutboxMaximumAttempts (c_api config)"
  let ?others = "{r \<in> set (d_interventions (w_db w)). iv_mode r \<noteq> DEMO}"
  let ?I = "on_db (demo_bounded ?max ?others)"
  have batch: "keeps ?I (mapM (execute_candidate (c_api config) t) (due_batch (c_api config) t rs))"
    for t rs
  proof (rule keeps_mapM)
    fix r assume "r \<in> set (due_batch (c_api config) t rs)"
    then have "due_candidate (c_api config) t r"
      by (auto simp: due_batch_def dest: in_set_takeD)
    then show "keeps ?I (execute_candidate (c_api config) t r)"
      by (intro keeps_demo_candidate) (auto simp: due_candidate_def)
  qed
  have "keeps ?I (executePending config running shuttingDown)"
    unfolding executePending_def
  proof (rule keeps_if, rule keeps_returnM, rule keeps_bindM)
    show "keeps ?I now" by (intro hoare) simp
  next
    fix t
    show "keeps ?I (bindM (getM (\<lambda>w. due_batch (c_api config) t (d_interventions (w_db w)))) (\<lambda>candidates.
        bindM (mapM (execute_candidate (c_api config) t) candidates) (\<lambda>outcomes.
        returnM (length (filter (\<lambda>completed. completed) outcomes)))))"
    proof (rule keeps_bindM_seq [OF keeps_getM])
      fix v cs v'
      assume v: "?I v"
        "getM (\<lambda>w. due_batch (c_api config) t (d_interventions (w_db w))) v = (Inr cs, v')"
      then have cs: "cs = due_batch (c_api config) t (d_interventions (w_db v))" "v' = v" by simp_all
      show "?I (snd (bindM (mapM (execute_candidate (c_api config) t) cs) (\<lambda>outcomes.
          returnM (length (filter (\<lambda>completed. completed) outcomes))) v'))"
        unfolding cs using v(1) by (intro keeps_sndD [OF keeps_bindM [OF batch keeps_returnM]])
    qed
  qed
  moreover have "?I w" using assms(1) by (auto simp: on_db_def demo_bounded_def)
  ultimately have "?I (snd (executePending config running shuttingDown w))" by (rule keeps_sndD)
  then have "?I w'" by (simp only: assms(2) snd_conv)
  then show ?thesis by (auto simp: on_db_def demo_bounded_def)
qed

theorem executor_stays_in_demo_witness:
  "\<exists>w'. snd (executePending engineering_configuration False False (sample_world (empty_db
      \<lparr>d_interventions := [(sample_intervention WARN IV_REQUIRED)\<lparr>iv_mode := SHADOW\<rparr>]\<rparr>))) = w' \<and>
    (sample_intervention WARN IV_REQUIRED)\<lparr>iv_mode := SHADOW\<rparr> \<in> set (d_interventions (w_db w'))"
proof -
  let ?w = "sample_world (empty_db
      \<lparr>d_interventions := [(sample_intervention WARN IV_REQUIRED)\<lparr>iv_mode := SHADOW\<rparr>]\<rparr>)"
  obtain q w' where run: "executePending engineering_configuration False False ?w = (q, w')" by fastforce
  from executor_stays_in_demo [OF _ run] run show ?thesis
    by (simp add: sample_world_def sample_intervention_def)
qed

end
