(* ===== verification/Providers.thy ===== *)
theory Providers
  imports Authorization Store_Rules
begin

text \<open>
  The clients of the two external providers: \<open>integrations/livekit/livekit.client.ts\<close> and
  \<open>integrations/ml/ml-control.client.ts\<close>, with the retry loop of the latter. The signing of access
  tokens (the LiveKit SDK), base64 and the body of a response are parameters; the requests
  themselves go through \<open>provider\<close> and \<open>external_call\<close>. The headers that sign a request are left out.
\<close>

section \<open>LiveKit\<close>

record LiveKitPermissions =
  lp_canPublish :: bool
  lp_canPublishSources :: "string list option"
  lp_canSubscribe :: bool
  lp_hidden :: "bool option"

record LiveKitClaims =
  lc_identity :: string
  lc_ttl :: int
  lc_room :: string
  lc_permissions :: LiveKitPermissions
  lc_canPublishData :: bool
  lc_canUpdateOwnMetadata :: bool

record LiveKitParticipantGrant =
  lg_roomName :: string
  lg_participantIdentity :: string
  lg_token :: string
  lg_expiresAt :: instant

text \<open>
  What the services need from their surroundings. \<open>pe_ml\<close> says whether the optional ports are
  bound; \<open>pe_body\<close> gives the body of the answer to each request, \<open>pe_aes\<close> the tag and the text of
  AES-256-GCM for a key, an initialisation vector and a plain text.
\<close>

record provider_env =
  pe_config :: configuration
  pe_ml :: bool
  pe_jwt :: "LiveKitClaims \<Rightarrow> string"
  pe_sha256 :: "string \<Rightarrow> string"
  pe_base64 :: "string \<Rightarrow> string"
  pe_body :: "nat \<Rightarrow> (string \<times> json) list"
  pe_aes :: "string \<Rightarrow> string \<Rightarrow> string \<Rightarrow> string \<times> string"

fun livekit_permissions :: "ParticipantRole \<Rightarrow> LiveKitPermissions" where
  "livekit_permissions CALLER = \<lparr>lp_canPublish = True, lp_canPublishSources = Some [''MICROPHONE''],
     lp_canSubscribe = True, lp_hidden = None\<rparr>"
| "livekit_permissions CUSTOMER = \<lparr>lp_canPublish = True, lp_canPublishSources = Some [''MICROPHONE''],
     lp_canSubscribe = True, lp_hidden = None\<rparr>"
| "livekit_permissions OBSERVER = \<lparr>lp_canPublish = False, lp_canPublishSources = None,
     lp_canSubscribe = True, lp_hidden = None\<rparr>"
| "livekit_permissions ML_SUBSCRIBER = \<lparr>lp_canPublish = False, lp_canPublishSources = None,
     lp_canSubscribe = True, lp_hidden = Some True\<rparr>"

text \<open>Every error of the SDK is one value here: the services never look into it.\<close>

definition livekit_error :: err where
  "livekit_error = Error ''LiveKit request failed.''"

definition livekit_createRoom :: "string \<Rightarrow> uuid \<Rightarrow> rat \<Rightarrow> unit op" where
  "livekit_createRoom room callId maxParticipants =
     bindM (liftE (requireText room ''roomName'' 160)) (\<lambda>roomName.
     thenM (guardM (of_int \<lfloor>maxParticipants\<rfloor> = maxParticipants \<and> 2 \<le> maxParticipants)
       (DatabaseConfigurationError ''maxParticipants must be an integer of at least two.''))
     (bindM (provider (LiveKitListRooms roomName) livekit_error) (\<lambda>existing.
      if 0 < existing then returnM ()
      else bindM (provider (LiveKitCreateRoom roomName \<lfloor>maxParticipants\<rfloor> callId) livekit_error)
             (\<lambda>_. returnM ()))))"

definition livekit_grant ::
  "provider_env \<Rightarrow> string \<Rightarrow> string \<Rightarrow> ParticipantRole \<Rightarrow> int \<Rightarrow> LiveKitParticipantGrant op" where
  "livekit_grant env room participantIdentity profile ttlSeconds =
     bindM (liftE (requireText room ''roomName'' 160)) (\<lambda>roomName.
     bindM (liftE (requireText participantIdentity ''participantIdentity'' 160)) (\<lambda>identity.
     thenM (guardM (30 \<le> ttlSeconds \<and> ttlSeconds \<le> 900)
       (DatabaseConfigurationError ''LiveKit participant TTL must be between 30 and 900 seconds.''))
     (bindM now (\<lambda>t.
      returnM \<lparr>lg_roomName = roomName, lg_participantIdentity = identity,
        lg_token = pe_jwt env \<lparr>lc_identity = identity, lc_ttl = ttlSeconds, lc_room = roomName,
          lc_permissions = livekit_permissions profile, lc_canPublishData = False,
          lc_canUpdateOwnMetadata = False\<rparr>,
        lg_expiresAt = t + ttlSeconds * 1000\<rparr>))))"

definition livekit_removeParticipant :: "string \<Rightarrow> string \<Rightarrow> unit op" where
  "livekit_removeParticipant room participantIdentity =
     bindM (liftE (requireText room ''roomName'' 160)) (\<lambda>roomName.
     bindM (liftE (requireText participantIdentity ''participantIdentity'' 160)) (\<lambda>identity.
     bindM (provider (LiveKitRemoveParticipant roomName identity) livekit_error) (\<lambda>_. returnM ())))"

definition livekit_closeRoom :: "string \<Rightarrow> unit op" where
  "livekit_closeRoom room =
     bindM (liftE (requireText room ''roomName'' 160)) (\<lambda>roomName.
     bindM (provider (LiveKitDeleteRoom roomName) livekit_error) (\<lambda>_. returnM ()))"

section \<open>Webhooks\<close>

datatype LifecycleEventType =
    Participant_joined | Participant_left | Participant_connection_aborted
  | Track_published | Track_unpublished | Room_finished

record VerifiedLiveKitLifecycleEvent =
  lk_eventId :: string
  lk_eventType :: LifecycleEventType
  lk_roomName :: string
  lk_participantIdentity :: "string option"
  lk_trackSid :: "string option"
  lk_trackSource :: "string option"
  lk_mimeType :: "string option"
  lk_occurredAt :: instant

text \<open>An event as the SDK hands it over once the signature is checked.\<close>

record raw_webhook =
  rw_event :: string
  rw_id :: string
  rw_roomName :: "string option"
  rw_identity :: "string option"
  rw_track :: "(string \<times> string \<times> string) option"
  rw_createdAt :: int

definition lifecycle_event_types :: "(string \<times> LifecycleEventType) list" where
  "lifecycle_event_types =
     [(''participant_joined'', Participant_joined), (''participant_left'', Participant_left),
      (''participant_connection_aborted'', Participant_connection_aborted),
      (''track_published'', Track_published), (''track_unpublished'', Track_unpublished),
      (''room_finished'', Room_finished)]"

definition webhook_invalid :: err where
  "webhook_invalid = ApiError ''WEBHOOK_EVENT_INVALID'' 400 []"

text \<open>
  \<open>received\<close> is what the SDK's receiver returned, nothing when it threw; \<open>upper\<close> is the source's
  name in capitals.
\<close>

definition verifyWebhook ::
  "(string \<Rightarrow> string) \<Rightarrow> raw_webhook option \<Rightarrow> err + VerifiedLiveKitLifecycleEvent" where
  "verifyWebhook upper received = (case received of
     None \<Rightarrow> Inl (ApiError ''WEBHOOK_AUTHENTICATION_FAILED'' 401 [])
   | Some event \<Rightarrow>
       (case map_of lifecycle_event_types (rw_event event) of
          None \<Rightarrow> Inl webhook_invalid
        | Some eventType \<Rightarrow>
            (case rw_roomName event of
               None \<Rightarrow> Inl webhook_invalid
             | Some roomName \<Rightarrow>
                 if length roomName = 0 \<or> length (rw_id event) = 0 then Inl webhook_invalid
                 else Inr \<lparr>lk_eventId = rw_id event, lk_eventType = eventType,
                   lk_roomName = roomName, lk_participantIdentity = rw_identity event,
                   lk_trackSid = map_option (\<lambda>(sid, source, mime). sid) (rw_track event),
                   lk_trackSource = map_option (\<lambda>(sid, source, mime). upper source) (rw_track event),
                   lk_mimeType = map_option (\<lambda>(sid, source, mime). mime) (rw_track event),
                   lk_occurredAt = rw_createdAt event * 1000\<rparr>)))"

section \<open>The machine-learning service\<close>

text \<open>
  The loop over the attempts: an accepted status ends it, a status below 500 is a rejection, and
  anything else is tried again. An answer whose body does not parse counts as a failed request.
\<close>

fun ml_attempts :: "nat \<Rightarrow> provider_call \<Rightarrow> nat \<Rightarrow> unit op" where
  "ml_attempts 0 call accepted = throwM (Error ''ML_CONTROL_UNAVAILABLE'')"
| "ml_attempts (Suc left) call accepted =
     bindM (external_call call) (\<lambda>answer. case answer of
       None \<Rightarrow> ml_attempts left call accepted
     | Some status \<Rightarrow>
         if status = accepted then returnM ()
         else if status < 500 then throwM (Error ''ML_CONTROL_REJECTED'')
         else ml_attempts left call accepted)"

definition ml_request ::
  "provider_env \<Rightarrow> string \<Rightarrow> string \<Rightarrow> ml_payload \<Rightarrow> nat \<Rightarrow> unit op" where
  "ml_request env path idempotencyKey payload accepted =
     ml_attempts (nat (mlControlMaximumAttempts (c_dependencies (pe_config env))))
       (MlRequest path idempotencyKey payload) accepted"

text \<open>\<open>encodeURIComponent\<close>: UTF-8 in percent notation for all but the unreserved characters.\<close>

definition unreserved_char :: "char \<Rightarrow> bool" where
  "unreserved_char c \<longleftrightarrow> c = CHR 0x27 \<or> char_in
     ''ABCDEFGHIJKLMNOPQRSTUVWXYZabcdefghijklmnopqrstuvwxyz0123456789-_.!~*()'' c"

definition percent :: "nat \<Rightarrow> string" where
  "percent n = [CHR ''%'', ''0123456789ABCDEF'' ! (n div 16), ''0123456789ABCDEF'' ! (n mod 16)]"

definition encodeURIComponent :: "string \<Rightarrow> string" where
  "encodeURIComponent s = concat (map (\<lambda>c. let n = of_char c :: nat in
     if unreserved_char c then [c]
     else if n < 128 then percent n
     else percent (192 + n div 64) @ percent (128 + n mod 64)) s)"

definition ml_startAnalysis :: "provider_env \<Rightarrow> MlAnalysisGrant \<Rightarrow> unit op" where
  "ml_startAnalysis env grant = ml_request env ''/internal/v1/analysis-sessions''
     (''analysis-start:'' @ ag_sessionId grant) (MlStart grant) 202"

definition ml_stopAnalysis :: "provider_env \<Rightarrow> uuid \<Rightarrow> string \<Rightarrow> unit op" where
  "ml_stopAnalysis env sessionId reasonCode = ml_request env
     (''/internal/v1/analysis-sessions/'' @ encodeURIComponent sessionId @ ''/stop'')
     (''analysis-stop:'' @ sessionId @ '':'' @ reasonCode) (MlStop reasonCode) 204"

definition ml_cancelEnrollment :: "provider_env \<Rightarrow> string \<Rightarrow> string \<Rightarrow> unit op" where
  "ml_cancelEnrollment env operationId reasonCode = ml_request env
     (''/internal/v1/enrollment-inferences/'' @ encodeURIComponent operationId @ ''/cancel'')
     (''enrollment-cancel:'' @ operationId @ '':'' @ reasonCode) (MlCancel reasonCode) 204"

record MlEnrollmentResult =
  er_modelVersionId :: uuid
  er_embeddingFormat :: string
  er_acceptedSampleCount :: rat
  er_embedding :: string

definition inference_result ::
  "(string \<Rightarrow> string) \<Rightarrow> (string \<times> json) list \<Rightarrow> err + MlEnrollmentResult" where
  "inference_result base64 body =
     (case (map_of body ''modelVersionId'', map_of body ''embeddingFormat'',
            map_of body ''acceptedSampleCount'', map_of body ''embedding'') of
        (Some (JStr modelVersionId), Some (JStr embeddingFormat), Some (JNum count),
         Some (JStr embedding)) \<Rightarrow>
          if length (base64 embedding) = 0 then Inl (Error ''ML_CONTROL_RESPONSE_INVALID'')
          else Inr \<lparr>er_modelVersionId = modelVersionId, er_embeddingFormat = embeddingFormat,
                 er_acceptedSampleCount = count, er_embedding = base64 embedding\<rparr>
      | _ \<Rightarrow> Inl (Error ''ML_CONTROL_RESPONSE_INVALID''))"

text \<open>The body that counts is the answer to the last request that was made.\<close>

definition ml_inferEnrollment ::
  "provider_env \<Rightarrow> string \<Rightarrow> uuid \<Rightarrow> uuid \<Rightarrow> string list \<Rightarrow> MlEnrollmentResult op" where
  "ml_inferEnrollment env operationId consentId expectedModelVersionId samples =
     thenM (ml_request env ''/internal/v1/enrollment-inferences'' (''enrollment:'' @ operationId)
              (MlInfer operationId consentId expectedModelVersionId samples) 200)
     (bindM (getM (\<lambda>w. length (w_log w) - 1)) (\<lambda>n.
      liftE (inference_result (pe_base64 env) (pe_body env n))))"

section \<open>Lemmas\<close>

text \<open>No client touches the database.\<close>

lemma keeps_ml_attempts [hoare]: "keeps (on_db I) (ml_attempts n call accepted)"
  by (induction n) (auto intro!: hoare)

lemma keeps_providers [hoare]:
  "keeps (on_db I) (livekit_createRoom room c m)" "keeps (on_db I) (livekit_grant env room i p ttl)"
  "keeps (on_db I) (livekit_removeParticipant room i)" "keeps (on_db I) (livekit_closeRoom room)"
  "keeps (on_db I) (ml_startAnalysis env grant)" "keeps (on_db I) (ml_stopAnalysis env s reason)"
  "keeps (on_db I) (ml_cancelEnrollment env operation reason)"
  "keeps (on_db I) (ml_inferEnrollment env operation consent model samples)"
  unfolding livekit_createRoom_def livekit_grant_def livekit_removeParticipant_def
    livekit_closeRoom_def ml_startAnalysis_def ml_stopAnalysis_def ml_cancelEnrollment_def
    ml_inferEnrollment_def ml_request_def
  by (auto intro!: hoare)

end
