(* ===== verification/Enrollment.thy ===== *)
theory Enrollment
  imports Providers Domain_State_Machines Audit_Log
begin

text \<open>
  Trusted speakers, enrollment consent and voiceprints: \<open>modules/enrollment/enrollment.repository.ts\<close>,
  \<open>modules/trusted-speakers\<close> and \<open>modules/voice-enrollment\<close>. A voiceprint is activated only under a
  granted consent of its speaker; revoking the consent revokes the voiceprint and the analysis
  sessions that use it.
\<close>

section \<open>Sessions in use\<close>

text \<open>The two lists of session statuses that the repositories select by.\<close>

definition live_status :: "AnalysisSessionStatus \<Rightarrow> bool" where
  "live_status s \<longleftrightarrow> List.member [SESS_AUTHORIZED, SESS_STARTING, SESS_ACTIVE, SESS_DEGRADED] s"

definition open_status :: "AnalysisSessionStatus \<Rightarrow> bool" where
  "open_status s \<longleftrightarrow>
     List.member [SESS_AUTHORIZED, SESS_STARTING, SESS_ACTIVE, SESS_DEGRADED, SESS_STOPPING] s"

definition end_sessions ::
  "AnalysisSessionStatus \<Rightarrow> instant \<Rightarrow> (session_row \<Rightarrow> bool) \<Rightarrow> nat op" where
  "end_sessions status t P = update_rows sessions_table P
     (\<lambda>s. s\<lparr>as_status := status, as_stoppedAt := Some t\<rparr>)"

definition revoke_sessions :: "uuid list \<Rightarrow> instant \<Rightarrow> nat op" where
  "revoke_sessions ids t = end_sessions SESS_REVOKED t (\<lambda>s. List.member ids (as_id s))"

section \<open>The repository\<close>

record NewTrustedSpeaker =
  ns_userId :: "uuid option"
  ns_externalReference :: "string option"
  ns_label :: string

definition createTrustedSpeaker :: "uuid \<Rightarrow> NewTrustedSpeaker \<Rightarrow> speaker_row op" where
  "createTrustedSpeaker context input =
     bindM (liftE (requireTenant context)) (\<lambda>organizationId.
     bindM (liftE (optional (\<lambda>u. requireUuid u ''userId'') (ns_userId input))) (\<lambda>userId.
     bindM (liftE (optional (\<lambda>r. requireText r ''externalReference'' 128)
              (ns_externalReference input))) (\<lambda>externalReference.
     bindM (liftE (requireText (ns_label input) ''label'' 160)) (\<lambda>label.
     bindM new_id (\<lambda>i.
     create speakers_table \<lparr>ts_id = i, ts_org = organizationId, ts_user = userId,
       ts_externalReference = externalReference, ts_label = label,
       ts_status = SPEAKER_PENDING_ENROLLMENT, ts_revokedAt = None, ts_deletedAt = None\<rparr>)))))"

definition findTrustedSpeaker :: "uuid \<Rightarrow> uuid \<Rightarrow> speaker_row op" where
  "findTrustedSpeaker context trustedSpeakerId =
     bindM (liftE (requireTenant context)) (\<lambda>organizationId.
     bindM (liftE (requireUuid trustedSpeakerId ''trustedSpeakerId'')) (\<lambda>i.
     find_or_throw speakers_table (\<lambda>s. ts_org s = organizationId \<and> ts_id s = i)
       (TenantResourceNotFoundError ''Trusted speaker'')))"

record NewConsent =
  nc_trustedSpeakerId :: uuid
  nc_grantedByMembershipId :: uuid
  nc_purposeCode :: string
  nc_noticeVersion :: string
  nc_expiresAt :: "instant option"

definition enrollment_grantConsent :: "uuid \<Rightarrow> NewConsent \<Rightarrow> consent_row op" where
  "enrollment_grantConsent context input =
     bindM (liftE (requireTenant context)) (\<lambda>organizationId.
     bindM (liftE (requireUuid (nc_trustedSpeakerId input) ''trustedSpeakerId'')) (\<lambda>speaker.
     bindM (liftE (requireUuid (nc_grantedByMembershipId input) ''grantedByMembershipId'')) (\<lambda>member.
     bindM (liftE (requireText (nc_purposeCode input) ''purposeCode'' 80)) (\<lambda>purpose.
     bindM (liftE (requireText (nc_noticeVersion input) ''noticeVersion'' 40)) (\<lambda>notice.
     bindM now (\<lambda>grantedAt.
     bindM new_id (\<lambda>i.
     create consents_table \<lparr>co_id = i, co_org = organizationId, co_speaker = speaker,
       co_grantedBy = member, co_purposeCode = purpose, co_noticeVersion = notice,
       co_status = CONSENT_GRANTED, co_grantedAt = grantedAt, co_expiresAt = nc_expiresAt input,
       co_revokedAt = None, co_revocationReasonCode = None\<rparr>)))))))"

definition consent_at :: "uuid \<Rightarrow> uuid \<Rightarrow> consent_row \<Rightarrow> bool" where
  "consent_at organizationId i c \<longleftrightarrow> co_org c = organizationId \<and> co_id c = i"

definition voiceprint_at :: "uuid \<Rightarrow> uuid \<Rightarrow> voiceprint_row \<Rightarrow> bool" where
  "voiceprint_at organizationId i v \<longleftrightarrow> vp_org v = organizationId \<and> vp_id v = i"

definition findConsent :: "uuid \<Rightarrow> uuid \<Rightarrow> consent_row op" where
  "findConsent context consentId =
     bindM (liftE (requireTenant context)) (\<lambda>organizationId.
     bindM (liftE (requireUuid consentId ''consentId'')) (\<lambda>i.
     find_or_throw consents_table (consent_at organizationId i)
       (TenantResourceNotFoundError ''Enrollment consent'')))"

text \<open>PostgreSQL sorts nulls as the greatest values, so they come first in descending order.\<close>

definition nulls_greatest :: "instant option \<Rightarrow> nat \<times> int" where
  "nulls_greatest t = (case t of None \<Rightarrow> (1, 0) | Some x \<Rightarrow> (0, x))"

definition findActiveVoiceprint :: "uuid \<Rightarrow> uuid \<Rightarrow> voiceprint_row option op" where
  "findActiveVoiceprint context trustedSpeakerId =
     bindM (liftE (requireTenant context)) (\<lambda>organizationId.
     bindM (liftE (requireUuid trustedSpeakerId ''trustedSpeakerId'')) (\<lambda>speaker.
     find_latest voiceprints_table
       (\<lambda>v. vp_org v = organizationId \<and> vp_speaker v = speaker \<and> vp_status v = VP_ACTIVE \<and>
            vp_ciphertext v \<noteq> None)
       (\<lambda>v. nulls_greatest (vp_activatedAt v))))"

definition active_under :: "uuid \<Rightarrow> uuid \<Rightarrow> voiceprint_row \<Rightarrow> bool" where
  "active_under organizationId consentId v \<longleftrightarrow>
     vp_org v = organizationId \<and> vp_consent v = consentId \<and> vp_status v = VP_ACTIVE"

text \<open>The transaction of \<open>revokeConsent\<close> for a consent that is granted.\<close>

definition revoke_granted ::
  "uuid \<Rightarrow> uuid \<Rightarrow> string \<Rightarrow> instant \<Rightarrow> (consent_row \<times> uuid list) op" where
  "revoke_granted organizationId consentId reasonCode t =
     bindM (find_many voiceprints_table (active_under organizationId consentId)) (\<lambda>voiceprints.
     bindM (update_rows voiceprints_table (\<lambda>v. List.member (map vp_id voiceprints) (vp_id v))
              (\<lambda>v. v\<lparr>vp_status := VP_REVOKED, vp_revokedAt := Some t\<rparr>)) (\<lambda>_.
     bindM (find_many sessions_table (\<lambda>s. as_org s = organizationId \<and> live_status (as_status s) \<and>
              (case as_voiceprint s of None \<Rightarrow> False
               | Some v \<Rightarrow> List.member (map vp_id voiceprints) v))) (\<lambda>sessions.
     bindM (revoke_sessions (map as_id sessions) t) (\<lambda>_.
     bindM (liftE (requireText reasonCode ''reasonCode'' 80)) (\<lambda>reason.
     bindM (update_one consents_table (consent_at organizationId consentId)
              (\<lambda>c. c\<lparr>co_status := CONSENT_REVOKED, co_revokedAt := Some t,
                     co_revocationReasonCode := Some reason\<rparr>)) (\<lambda>revoked.
     returnM (revoked, map as_id sessions)))))))"

definition enrollment_revokeConsent ::
  "uuid \<Rightarrow> uuid \<Rightarrow> string \<Rightarrow> (consent_row \<times> uuid list) op" where
  "enrollment_revokeConsent context consentId reasonCode =
     bindM (liftE (requireTenant context)) (\<lambda>organizationId.
     bindM (liftE (requireUuid consentId ''consentId'')) (\<lambda>i.
     bindM now (\<lambda>t.
     serializable (
       bindM (find_or_throw consents_table (consent_at organizationId i)
                (TenantResourceNotFoundError ''Enrollment consent'')) (\<lambda>consent.
       if co_status consent = CONSENT_REVOKED then returnM (consent, [])
       else if co_status consent \<noteq> CONSENT_GRANTED
       then throwM (TenantResourceNotFoundError ''Active enrollment consent'')
       else revoke_granted organizationId i reasonCode t)))))"

definition erased :: "instant \<Rightarrow> voiceprint_row \<Rightarrow> voiceprint_row" where
  "erased t v = v\<lparr>vp_ciphertext := None, vp_status := VP_DELETED,
     vp_revokedAt := (case vp_revokedAt v of None \<Rightarrow> Some t | Some r \<Rightarrow> Some r),
     vp_deletedAt := Some t\<rparr>"

definition enrollment_deleteVoiceprint ::
  "uuid \<Rightarrow> uuid \<Rightarrow> (voiceprint_row \<times> uuid list) op" where
  "enrollment_deleteVoiceprint context voiceprintId =
     bindM (liftE (requireTenant context)) (\<lambda>organizationId.
     bindM (liftE (requireUuid voiceprintId ''voiceprintId'')) (\<lambda>i.
     bindM now (\<lambda>t.
     serializable (
       bindM (find_or_throw voiceprints_table (voiceprint_at organizationId i)
                (TenantResourceNotFoundError ''Voiceprint'')) (\<lambda>voiceprint.
       if vp_status voiceprint = VP_DELETED \<and> vp_ciphertext voiceprint = None
       then returnM (voiceprint, [])
       else
         bindM (find_many sessions_table (\<lambda>s. as_org s = organizationId \<and>
                  as_voiceprint s = Some i \<and> live_status (as_status s))) (\<lambda>sessions.
         bindM (revoke_sessions (map as_id sessions) t) (\<lambda>_.
         bindM (update_one voiceprints_table (voiceprint_at organizationId i) (erased t)) (\<lambda>deleted.
         returnM (deleted, map as_id sessions)))))))))"

record EncryptedVoiceprintEnvelope =
  en_kind :: string
  en_ciphertext :: string
  en_encryptionAlgorithm :: string
  en_encryptionKeyVersion :: string
  en_embeddingFormat :: string
  en_sampleCount :: rat

record ActivateVoiceprint =
  av_trustedSpeakerId :: uuid
  av_consentId :: uuid
  av_modelVersionId :: uuid
  av_createdByMembershipId :: uuid
  av_envelope :: EncryptedVoiceprintEnvelope

text \<open>The consent that \<open>activateVoiceprint\<close> asks for; the clock is read only for one that expires.\<close>

definition require_active_consent :: "uuid \<Rightarrow> uuid \<Rightarrow> uuid \<Rightarrow> consent_row op" where
  "require_active_consent organizationId consentId trustedSpeakerId =
     bindM (find_or_throw consents_table (consent_at organizationId consentId)
              (TenantResourceNotFoundError ''Active enrollment consent'')) (\<lambda>consent.
     thenM (guardM (co_speaker consent = trustedSpeakerId \<and> co_status consent = CONSENT_GRANTED)
              (TenantResourceNotFoundError ''Active enrollment consent''))
     (case co_expiresAt consent of
        None \<Rightarrow> returnM consent
      | Some e \<Rightarrow> bindM now (\<lambda>t.
          thenM (guardM (t < e) (TenantResourceNotFoundError ''Active enrollment consent''))
          (returnM consent))))"

definition store_voiceprint ::
  "uuid \<Rightarrow> uuid \<Rightarrow> uuid \<Rightarrow> ActivateVoiceprint \<Rightarrow> voiceprint_row op" where
  "store_voiceprint organizationId trustedSpeakerId consentId input =
     bindM now (\<lambda>revokedAt.
     bindM (update_rows voiceprints_table
              (\<lambda>v. vp_org v = organizationId \<and> vp_speaker v = trustedSpeakerId \<and>
                   vp_status v = VP_ACTIVE)
              (\<lambda>v. v\<lparr>vp_status := VP_REVOKED, vp_revokedAt := Some revokedAt\<rparr>)) (\<lambda>_.
     bindM now (\<lambda>activatedAt.
     bindM (liftE (requireText (en_encryptionAlgorithm (av_envelope input))
              ''encryptionAlgorithm'' 64)) (\<lambda>algorithm.
     bindM (liftE (requireText (en_encryptionKeyVersion (av_envelope input))
              ''encryptionKeyVersion'' 128)) (\<lambda>keyVersion.
     bindM (liftE (requireText (en_embeddingFormat (av_envelope input)) ''embeddingFormat'' 64))
       (\<lambda>format.
     bindM new_id (\<lambda>i.
     bindM (create voiceprints_table \<lparr>vp_id = i, vp_org = organizationId,
              vp_speaker = trustedSpeakerId, vp_consent = consentId,
              vp_model = av_modelVersionId input, vp_createdBy = av_createdByMembershipId input,
              vp_ciphertext = Some (en_ciphertext (av_envelope input)),
              vp_encryptionAlgorithm = algorithm, vp_encryptionKeyVersion = keyVersion,
              vp_embeddingFormat = format, vp_sampleCount = \<lfloor>en_sampleCount (av_envelope input)\<rfloor>,
              vp_status = VP_ACTIVE, vp_activatedAt = Some activatedAt, vp_revokedAt = None,
              vp_deletedAt = None\<rparr>) (\<lambda>voiceprint.
     bindM (update_one speakers_table (\<lambda>s. ts_org s = organizationId \<and> ts_id s = trustedSpeakerId)
              (\<lambda>s. s\<lparr>ts_status := SPEAKER_ACTIVE\<rparr>)) (\<lambda>_.
     returnM voiceprint)))))))))"

definition activateVoiceprint :: "uuid \<Rightarrow> ActivateVoiceprint \<Rightarrow> voiceprint_row op" where
  "activateVoiceprint context input =
     bindM (liftE (requireTenant context)) (\<lambda>organizationId.
     bindM (liftE (requireUuid (av_trustedSpeakerId input) ''trustedSpeakerId'')) (\<lambda>speaker.
     bindM (liftE (requireUuid (av_consentId input) ''consentId'')) (\<lambda>consentId.
     bindM (liftE (requireUuid (av_modelVersionId input) ''modelVersionId'')) (\<lambda>_.
     bindM (liftE (requireUuid (av_createdByMembershipId input) ''createdByMembershipId'')) (\<lambda>_.
     thenM (guardM (en_kind (av_envelope input) = ''encrypted-voiceprint-v1'' \<and>
              length (en_ciphertext (av_envelope input)) \<noteq> 0 \<and>
              of_int \<lfloor>en_sampleCount (av_envelope input)\<rfloor> = en_sampleCount (av_envelope input) \<and>
              0 < en_sampleCount (av_envelope input)) InvalidEncryptedPayloadError)
     (serializable (
        bindM (require_active_consent organizationId consentId speaker) (\<lambda>_.
        store_voiceprint organizationId speaker consentId input))))))))"

definition revokeConsentAndDeleteVoiceprint ::
  "uuid \<Rightarrow> uuid \<Rightarrow> uuid \<Rightarrow> string \<Rightarrow> voiceprint_row op" where
  "revokeConsentAndDeleteVoiceprint context consentId voiceprintId reasonCode =
     bindM (liftE (requireTenant context)) (\<lambda>organizationId.
     bindM (liftE (requireUuid consentId ''consentId'')) (\<lambda>c.
     bindM (liftE (requireUuid voiceprintId ''voiceprintId'')) (\<lambda>i.
     bindM now (\<lambda>t.
     serializable (
       bindM (find_or_throw voiceprints_table
                (\<lambda>v. voiceprint_at organizationId i v)
                (TenantResourceNotFoundError ''Voiceprint'')) (\<lambda>voiceprint.
       thenM (guardM (vp_consent voiceprint = c) (TenantResourceNotFoundError ''Voiceprint''))
       (bindM (liftE (requireText reasonCode ''reasonCode'' 80)) (\<lambda>reason.
        bindM (update_one consents_table (consent_at organizationId c)
                 (\<lambda>x. x\<lparr>co_status := CONSENT_REVOKED, co_revokedAt := Some t,
                        co_revocationReasonCode := Some reason\<rparr>)) (\<lambda>_.
        bindM (end_sessions SESS_REVOKED t (\<lambda>s. as_org s = organizationId \<and>
                 as_voiceprint s = Some i \<and> live_status (as_status s))) (\<lambda>_.
        update_one voiceprints_table (voiceprint_at organizationId i) (erased t)))))))))))"

end
