(* ===== verification/Enrollment_Service.thy ===== *)
theory Enrollment_Service
  imports Enrollment
begin

text \<open>
  \<open>modules/trusted-speakers/trusted-speakers.service.ts\<close> and
  \<open>modules/voice-enrollment\<close>: trusted speakers, consent, deletion, and the enrollment of a voice
  from audio samples that are held in memory only while the request runs.
\<close>

section \<open>Trusted speakers\<close>

text \<open>Every entry these services write to the audit log has the principal's membership as actor.\<close>

definition audit_as ::
  "AuthPrincipal \<Rightarrow> string \<Rightarrow> string option \<Rightarrow> string \<Rightarrow> string \<Rightarrow> uuid \<Rightarrow> AuditOutcome option \<Rightarrow>
   string option \<Rightarrow> string \<Rightarrow> unit op" where
  "audit_as subject correlationId key action targetType targetId outcome reasonCode operation =
     bindM (audit_record
       \<lparr>wa_organizationId = pr_organizationId subject, wa_actor = Some (pr_membershipId subject),
        wa_correlationId = correlationId, wa_idempotencyKey = key, wa_action = action,
        wa_targetType = targetType, wa_targetId = targetId, wa_outcome = outcome,
        wa_reasonCode = reasonCode, wa_operation = operation\<rparr>) (\<lambda>_. returnM ())"

definition may_do :: "AuthPrincipal \<Rightarrow> Permission \<Rightarrow> unit op" where
  "may_do subject permission =
     liftE (authorization_assert subject permission (pr_organizationId subject))"

definition speakers_create ::
  "AuthPrincipal \<Rightarrow> NewTrustedSpeaker \<Rightarrow> string \<Rightarrow> string option \<Rightarrow> speaker_row op" where
  "speakers_create subject input correlationId idempotencyKey =
     thenM (may_do subject P_enrollment_manage)
     (bindM (createTrustedSpeaker (pr_organizationId subject) input) (\<lambda>speaker.
      thenM (audit_as subject correlationId idempotencyKey ''trusted-speaker.created''
               ''TrustedSpeaker'' (ts_id speaker) None None ''trusted-speaker-create'')
      (returnM speaker)))"

record GrantConsentInput =
  gc_trustedSpeakerId :: uuid
  gc_purposeCode :: string
  gc_noticeVersion :: string
  gc_consentAffirmed :: bool
  gc_expiresAt :: "instant option"
  gc_correlationId :: string

definition speakers_grantConsent :: "AuthPrincipal \<Rightarrow> GrantConsentInput \<Rightarrow> consent_row op" where
  "speakers_grantConsent subject input =
     thenM (may_do subject P_enrollment_manage)
     (thenM (guardM (gc_consentAffirmed input)
        (PersistenceConflictError ''Explicit enrollment consent is required.''))
     (bindM (findTrustedSpeaker (pr_organizationId subject) (gc_trustedSpeakerId input)) (\<lambda>_.
      bindM (enrollment_grantConsent (pr_organizationId subject)
        \<lparr>nc_trustedSpeakerId = gc_trustedSpeakerId input,
         nc_grantedByMembershipId = pr_membershipId subject,
         nc_purposeCode = gc_purposeCode input, nc_noticeVersion = gc_noticeVersion input,
         nc_expiresAt = gc_expiresAt input\<rparr>) (\<lambda>consent.
      thenM (audit_as subject (gc_correlationId input) None ''enrollment.consent.granted''
               ''EnrollmentConsent'' (co_id consent) None None ''consent-grant'')
      (returnM consent)))))"

fun consent_status_name :: "ConsentStatus \<Rightarrow> string" where
  "consent_status_name CONSENT_GRANTED = ''GRANTED''"
| "consent_status_name CONSENT_REVOKED = ''REVOKED''"
| "consent_status_name CONSENT_EXPIRED = ''EXPIRED''"

text \<open>Stop the sessions that a revocation or deletion ended; both services do it the same way.\<close>

definition stop_sessions :: "provider_env \<Rightarrow> uuid list \<Rightarrow> string \<Rightarrow> unit op" where
  "stop_sessions env sessions reasonCode =
     thenM (guardM (sessions = [] \<or> pe_ml env) (Error ''ML control provider unavailable''))
     (iterM sessions (\<lambda>s. ml_stopAnalysis env s reasonCode))"

definition speakers_revokeConsent ::
  "provider_env \<Rightarrow> AuthPrincipal \<Rightarrow> uuid \<Rightarrow> string \<Rightarrow> string \<Rightarrow> string \<Rightarrow> consent_row op" where
  "speakers_revokeConsent env subject consentId reasonCode idempotencyKey correlationId =
     thenM (may_do subject P_enrollment_manage)
     (bindM (findConsent (pr_organizationId subject) consentId) (\<lambda>current.
      thenM (if co_status current \<noteq> CONSENT_REVOKED
             then liftE (assertTransition ''EnrollmentConsent'' consent_status_name consentTransitions
                    (co_status current) CONSENT_REVOKED)
             else returnM ())
      (bindM (enrollment_revokeConsent (pr_organizationId subject) consentId reasonCode)
         (\<lambda>(consent, sessions).
       thenM (catchM (stop_sessions env sessions ''CONSENT_REVOKED'') (\<lambda>_.
          thenM (audit_as subject correlationId (Some (idempotencyKey @ '':ml-clear-failed''))
                   ''enrollment.consent.revoked.ml-clear-failed'' ''EnrollmentConsent''
                   (co_id consent) (Some AUDIT_FAILED) (Some ''ML_CLEAR_FAILED'') ''consent-revoke'')
          (throwM (DomainProviderError ''ML'' ''consent-revocation-clear'' ''REVOKED''))))
       (thenM (audit_as subject correlationId (Some (idempotencyKey @ '':revoked''))
                 ''enrollment.consent.revoked'' ''EnrollmentConsent'' (co_id consent) None
                 (Some reasonCode) ''consent-revoke'')
        (returnM consent))))))"

definition speakers_deleteVoiceprint ::
  "provider_env \<Rightarrow> AuthPrincipal \<Rightarrow> uuid \<Rightarrow> string \<Rightarrow> string \<Rightarrow> voiceprint_row op" where
  "speakers_deleteVoiceprint env subject voiceprintId idempotencyKey correlationId =
     thenM (may_do subject P_voiceprint_delete)
     (bindM (enrollment_deleteVoiceprint (pr_organizationId subject) voiceprintId)
        (\<lambda>(voiceprint, sessions).
      thenM (catchM (stop_sessions env sessions ''VOICEPRINT_DELETED'') (\<lambda>_.
         thenM (audit_as subject correlationId (Some (idempotencyKey @ '':ml-clear-failed''))
                  ''voiceprint.deleted.ml-clear-failed'' ''Voiceprint'' (vp_id voiceprint)
                  (Some AUDIT_FAILED) (Some ''ML_CLEAR_FAILED'') ''voiceprint-delete'')
         (throwM (DomainProviderError ''ML'' ''voiceprint-deletion-clear'' ''DELETED''))))
      (thenM (audit_as subject correlationId (Some (idempotencyKey @ '':deleted''))
                ''voiceprint.deleted'' ''Voiceprint'' (vp_id voiceprint) None None
                ''voiceprint-delete'')
       (returnM voiceprint))))"

section \<open>Enrollment\<close>

text \<open>
  The audio samples of a request are buffers of the process: the constructor copies them there,
  \<open>view\<close> hands them out until \<open>clear\<close> has wiped them.
\<close>

definition ephemeral_audio :: "string list \<Rightarrow> unit op" where
  "ephemeral_audio samples =
     thenM (guardM (samples \<noteq> [] \<and> \<not> list_ex (\<lambda>s. length s = 0) samples)
       (DomainInputError ''Enrollment requires one or more non-empty audio samples.''))
     (modifyM (\<lambda>w. w\<lparr>w_audio := samples\<rparr>))"

definition audio_view :: "string list op" where
  "audio_view = bindM (getM w_audio) (\<lambda>samples.
     if samples = [] then throwM (DomainInputError ''Enrollment audio was already cleared.'')
     else returnM samples)"

definition audio_clear :: "unit op" where
  "audio_clear = modifyM (\<lambda>w. w\<lparr>w_audio := []\<rparr>)"

text \<open>The random vector is a text of the stream; tag and cipher text follow it.\<close>

definition cipher_encrypt ::
  "provider_env \<Rightarrow> string \<Rightarrow> string \<Rightarrow> rat \<Rightarrow> EncryptedVoiceprintEnvelope op" where
  "cipher_encrypt env embedding embeddingFormat sampleCount =
     thenM (guardM (length embedding \<noteq> 0) (DomainInputError ''Embedding is empty.''))
     (bindM new_id (\<lambda>iv.
      let key = pe_base64 env (voiceprintEncryptionKey (c_secrets (pe_config env)));
          (tag, encrypted) = pe_aes env key iv embedding in
      returnM \<lparr>en_kind = ''encrypted-voiceprint-v1'', en_ciphertext = iv @ tag @ encrypted,
        en_encryptionAlgorithm = ''AES-256-GCM-IV12-TAG16-PREFIXED'',
        en_encryptionKeyVersion = voiceprintEncryptionKeyVersion (c_secrets (pe_config env)),
        en_embeddingFormat = embeddingFormat, en_sampleCount = sampleCount\<rparr>))"

record EnrollInput =
  ei_operationId :: string
  ei_trustedSpeakerId :: uuid
  ei_consentId :: uuid
  ei_expectedModelVersionId :: uuid
  ei_idempotencyKey :: string
  ei_correlationId :: string

fun voiceprint_status_name :: "VoiceprintStatus \<Rightarrow> string" where
  "voiceprint_status_name VP_ENROLLING = ''ENROLLING''"
| "voiceprint_status_name VP_ACTIVE = ''ACTIVE''"
| "voiceprint_status_name VP_REVOKED = ''REVOKED''"
| "voiceprint_status_name VP_DELETED = ''DELETED''"
| "voiceprint_status_name VP_FAILED = ''FAILED''"

definition consent_usable :: "EnrollInput \<Rightarrow> consent_row \<Rightarrow> bool op" where
  "consent_usable input consent =
     (if co_speaker consent \<noteq> ei_trustedSpeakerId input \<or> co_status consent \<noteq> CONSENT_GRANTED
      then returnM False
      else case co_expiresAt consent of
             None \<Rightarrow> returnM True
           | Some e \<Rightarrow> bindM now (\<lambda>t. returnM (t < e)))"

text \<open>The body of the \<open>try\<close>.\<close>

definition enroll_voice ::
  "provider_env \<Rightarrow> AuthPrincipal \<Rightarrow> EnrollInput \<Rightarrow> uuid \<Rightarrow> voiceprint_row op" where
  "enroll_voice env subject input consentId =
     thenM (guardM (pe_ml env) (Error ''ML control provider unavailable''))
     (bindM audio_view (\<lambda>samples.
      bindM (ml_inferEnrollment env (ei_operationId input) consentId
               (ei_expectedModelVersionId input) samples) (\<lambda>result.
      thenM (guardM (er_modelVersionId result = ei_expectedModelVersionId input \<and>
               1 \<le> er_acceptedSampleCount result \<and> length (er_embedding result) \<noteq> 0)
             (PersistenceConflictError ''Enrollment result does not match authorization.''))
      (bindM (cipher_encrypt env (er_embedding result) (er_embeddingFormat result)
                (er_acceptedSampleCount result)) (\<lambda>envelope.
       thenM (liftE (assertTransition ''Voiceprint'' voiceprint_status_name voiceprintTransitions
                VP_ENROLLING VP_ACTIVE))
       (bindM (activateVoiceprint (pr_organizationId subject)
          \<lparr>av_trustedSpeakerId = ei_trustedSpeakerId input, av_consentId = ei_consentId input,
           av_modelVersionId = er_modelVersionId result,
           av_createdByMembershipId = pr_membershipId subject, av_envelope = envelope\<rparr>) (\<lambda>voiceprint.
        thenM (audit_as subject (ei_correlationId input)
                 (Some (ei_idempotencyKey input @ '':activated'')) ''voiceprint.activated''
                 ''Voiceprint'' (vp_id voiceprint) None None ''voice-enrollment'')
        (returnM voiceprint))))))))"

definition is_conflict :: "err \<Rightarrow> bool" where
  "is_conflict e \<longleftrightarrow> (case e of PersistenceConflictError _ \<Rightarrow> True | _ \<Rightarrow> False)"

text \<open>The body of the \<open>catch\<close>.\<close>

definition enroll_failed ::
  "provider_env \<Rightarrow> AuthPrincipal \<Rightarrow> EnrollInput \<Rightarrow> err \<Rightarrow> voiceprint_row op" where
  "enroll_failed env subject input e =
     thenM (liftE (assertTransition ''Voiceprint'' voiceprint_status_name voiceprintTransitions
              VP_ENROLLING VP_FAILED))
     (bindM (if \<not> pe_ml env then returnM True
             else catchM (thenM (ml_cancelEnrollment env (ei_operationId input) ''ENROLLMENT_FAILED'')
                            (returnM False)) (\<lambda>_. returnM True)) (\<lambda>cancellationFailed.
      thenM (audit_as subject (ei_correlationId input) (Some (ei_idempotencyKey input @ '':failed''))
               ''voiceprint.enrollment.failed'' ''TrustedSpeaker'' (ei_trustedSpeakerId input)
               (Some AUDIT_FAILED)
               (Some (if cancellationFailed then ''ENROLLMENT_FAILED_AND_CANCELLATION_UNCONFIRMED''
                      else ''ENROLLMENT_PROVIDER_OR_VALIDATION_FAILED'')) ''voice-enrollment'')
      (if is_conflict e then throwM e
       else throwM (DomainProviderError ''ML'' ''enrollment-inference'' ''FAILED''))))"

text \<open>\<open>finallyM\<close> is \<open>try ... finally\<close>: the second operation runs on either exit.\<close>

definition finallyM :: "'a op \<Rightarrow> unit op \<Rightarrow> 'a op" where
  "finallyM m k = (\<lambda>w. case m w of
     (Inl e, w1) \<Rightarrow> (case k w1 of (Inl e', w2) \<Rightarrow> (Inl e', w2) | (Inr _, w2) \<Rightarrow> (Inl e, w2))
   | (Inr a, w1) \<Rightarrow> (case k w1 of (Inl e', w2) \<Rightarrow> (Inl e', w2) | (Inr _, w2) \<Rightarrow> (Inr a, w2)))"

definition enroll :: "provider_env \<Rightarrow> AuthPrincipal \<Rightarrow> EnrollInput \<Rightarrow> voiceprint_row op" where
  "enroll env subject input =
     thenM (may_do subject P_enrollment_manage)
     (bindM (findConsent (pr_organizationId subject) (ei_consentId input)) (\<lambda>consent.
      bindM (consent_usable input consent) (\<lambda>usable.
      if \<not> usable
      then thenM audio_clear
        (throwM (PersistenceConflictError ''Active matching enrollment consent is required.''))
      else finallyM
        (catchM (enroll_voice env subject input (co_id consent)) (enroll_failed env subject input))
        audio_clear)))"

section \<open>Lemmas\<close>

lemma keeps_finallyM:
  "keeps I m \<Longrightarrow> keeps I k \<Longrightarrow> keeps I (finallyM m k)"
  by (fastforce simp: keeps_def finallyM_def split: prod.splits sum.splits)

text \<open>What says nothing about the audit log is kept by every entry.\<close>

lemma keeps_audit_as:
  "(\<And>d r. I d \<Longrightarrow> I (d_audit_update (\<lambda>rs. rs @ [r]) d)) \<Longrightarrow>
     keeps (on_db I) (audit_as subject c key action type i outcome reason operation)"
  unfolding audit_as_def by (intro hoare keeps_audit_record)

lemma keeps_end_sessions:
  "(\<And>d. I d \<Longrightarrow> I (d_sessions_update (change_rows P
       (\<lambda>s. s\<lparr>as_status := status, as_stoppedAt := Some t\<rparr>)) d)) \<Longrightarrow>
     keeps (on_db I) (end_sessions status t P)"
  unfolding end_sessions_def by (rule keeps_update_rows) (simp add: sessions_table_def)

section \<open>Consent\<close>

definition consent_backs :: "uuid \<Rightarrow> uuid \<Rightarrow> uuid \<Rightarrow> consent_row \<Rightarrow> bool" where
  "consent_backs org' speaker i c \<longleftrightarrow> co_id c = i \<and> co_org c = org' \<and> co_speaker c = speaker \<and>
     co_status c = CONSENT_GRANTED"

definition consented :: "voiceprint_row list \<Rightarrow> consent_row list \<Rightarrow> bool" where
  "consented vs cs \<longleftrightarrow> (\<forall>v \<in> set vs. vp_status v = VP_ACTIVE \<longrightarrow>
     (\<exists>c \<in> set cs. consent_backs (vp_org v) (vp_speaker v) (vp_consent v) c))"

definition consented_db :: "db \<Rightarrow> bool" where
  "consented_db d \<longleftrightarrow> consented (d_voiceprints d) (d_consents d)"

text \<open>With a consent that is granted, and with no active voiceprint under a consent.\<close>

definition consented_by :: "uuid \<Rightarrow> uuid \<Rightarrow> uuid \<Rightarrow> db \<Rightarrow> bool" where
  "consented_by org' speaker i d \<longleftrightarrow> consented_db d \<and>
     (\<exists>c \<in> set (d_consents d). consent_backs org' speaker i c)"

definition consented_off :: "uuid \<Rightarrow> uuid \<Rightarrow> db \<Rightarrow> bool" where
  "consented_off org' i d \<longleftrightarrow> consented_db d \<and>
     (\<forall>v \<in> set (d_voiceprints d). \<not> active_under org' i v)"

lemmas consent_defs = consented_by_def consented_off_def consented_db_def

lemma consented_deactivate:
  "consented vs cs \<Longrightarrow> (\<And>v. vp_status (f v) \<noteq> VP_ACTIVE) \<Longrightarrow> consented (change_rows P f vs) cs"
  by (auto simp: consented_def set_change_rows)

lemma active_under_deactivate:
  assumes "\<forall>v \<in> set vs. \<not> active_under org' i v" "\<And>v. vp_status (f v) \<noteq> VP_ACTIVE"
  shows "\<forall>v \<in> set (change_rows P f vs). \<not> active_under org' i v"
  using assms by (auto simp: active_under_def set_change_rows)

lemma consented_snoc:
  "consented (vs @ [v]) cs \<longleftrightarrow> consented vs cs \<and>
     (vp_status v = VP_ACTIVE \<longrightarrow> (\<exists>c \<in> set cs. consent_backs (vp_org v) (vp_speaker v) (vp_consent v) c))"
  by (auto simp: consented_def)

lemma keeps_store_voiceprint:
  "keeps (on_db (consented_by org' speaker i)) (store_voiceprint org' speaker i input)"
  unfolding store_voiceprint_def
  by (intro hoare keeps_update_rows keeps_update_one keeps_create)
    (auto simp: voiceprints_table_def speakers_table_def consent_defs consented_deactivate
        consented_snoc)

lemma require_active_consent_run:
  assumes "require_active_consent org' i speaker w = (Inr c, w')"
  shows "c \<in> set (d_consents (w_db w)) \<and> consent_backs org' speaker i c \<and> w_db w' = w_db w"
  using assms
  by (auto simp: require_active_consent_def run_simps consents_table_def consent_at_def
      consent_backs_def dest!: find_Some_iff2 split: option.splits)

lemma keeps_require_active_consent:
  "keeps (on_db I) (require_active_consent org' i speaker)"
  unfolding require_active_consent_def by (auto intro!: hoare)

lemma keeps_activate_consented: "keeps (on_db consented_db) (activateVoiceprint subject input)"
  unfolding activateVoiceprint_def
proof ((rule keeps_bindM [OF keeps_liftE])+, rule keeps_thenM [OF keeps_guardM], rule keeps_serializable)
  fix organizationId speaker i model member
  show "keeps (on_db consented_db) (bindM (require_active_consent organizationId i speaker)
      (\<lambda>_. store_voiceprint organizationId speaker i input))"
  proof (rule keeps_bindM_into [where J = "\<lambda>_. on_db (consented_by organizationId speaker i)"])
    fix w e w'
    assume "on_db consented_db w" "require_active_consent organizationId i speaker w = (Inl e, w')"
    with keepsD [OF keeps_require_active_consent] show "on_db consented_db w'" by blast
  next
    fix w c w'
    assume "on_db consented_db w" "require_active_consent organizationId i speaker w = (Inr c, w')"
    with require_active_consent_run show "on_db (consented_by organizationId speaker i) w'"
      by (fastforce simp: on_db_def consented_by_def)
  qed (auto simp: on_db_def consented_by_def intro: keeps_store_voiceprint)
qed

lemma keeps_revoke_granted:
  "keeps (on_db consented_db) (revoke_granted org' i reason t)"
  unfolding revoke_granted_def
proof (rule keeps_bindM_seq [OF keeps_reads(2)])
  fix w vs w1
  assume w: "on_db consented_db w"
    "find_many voiceprints_table (active_under org' i) w = (Inr vs, w1)"
  let ?f = "\<lambda>v. v\<lparr>vp_status := VP_REVOKED, vp_revokedAt := Some t\<rparr>"
  let ?m = "update_rows voiceprints_table (\<lambda>v. List.member (map vp_id vs) (vp_id v)) ?f"
  let ?k = "\<lambda>_. bindM (find_many sessions_table (\<lambda>s. as_org s = org' \<and> live_status (as_status s) \<and>
        (case as_voiceprint s of None \<Rightarrow> False | Some v \<Rightarrow> List.member (map vp_id vs) v))) (\<lambda>sessions.
     bindM (revoke_sessions (map as_id sessions) t) (\<lambda>_.
     bindM (liftE (requireText reason ''reasonCode'' 80)) (\<lambda>reason.
     bindM (update_one consents_table (consent_at org' i)
              (\<lambda>c. c\<lparr>co_status := CONSENT_REVOKED, co_revokedAt := Some t,
                     co_revocationReasonCode := Some reason\<rparr>)) (\<lambda>revoked.
     returnM (revoked, map as_id sessions)))))"
  have vs: "vs = filter (active_under org' i) (d_voiceprints (w_db w))" "w1 = w"
    using w(2) by (simp_all add: run_simps voiceprints_table_def)
  have k: "keeps (on_db (consented_off org' i)) (?k n)" for n
    unfolding revoke_sessions_def
    by (intro hoare keeps_end_sessions keeps_update_one keeps_update_rows;
      fastforce simp: consents_table_def consent_defs consented_def consent_backs_def
        set_change_rows active_under_def consent_at_def)
  obtain r w2 where m: "?m w1 = (r, w2)" by fastforce
  show "on_db consented_db (snd (bindM ?m ?k w1))"
  proof (cases r)
    case (Inl e)
    with m have "w2 = w1" by (auto dest: update_rows_error)
    with m Inl w(1) vs(2) show ?thesis by simp
  next
    case (Inr n)
    then have "on_db (consented_off org' i) w2"
      using m w(1) vs
      by (auto simp: update_rows_run voiceprints_table_def on_db_def consent_defs
          consented_deactivate set_change_rows active_under_def)
    then have "on_db (consented_off org' i) (snd (?k n w2))" by (rule keeps_sndD [OF k])
    with m Inr show ?thesis by (simp add: on_db_def consented_off_def)
  qed
qed

lemma keeps_revokeConsent_consented:
  "keeps (on_db consented_db) (enrollment_revokeConsent context consentId reason)"
  unfolding enrollment_revokeConsent_def
  by (intro keeps_bindM keeps_liftE keeps_now keeps_serializable keeps_find_or_throw keeps_if
      keeps_returnM keeps_throwM keeps_revoke_granted) simp_all

lemma keeps_deleteVoiceprint_consented:
  "keeps (on_db consented_db) (enrollment_deleteVoiceprint context voiceprintId)"
  unfolding enrollment_deleteVoiceprint_def revoke_sessions_def
  by (intro hoare keeps_end_sessions keeps_update_one keeps_update_rows)
    (auto simp: voiceprints_table_def consented_db_def consented_deactivate erased_def)

lemma keeps_frames_consented:
  "keeps (on_db consented_db) (createTrustedSpeaker context speaker)"
  "keeps (on_db consented_db) (findTrustedSpeaker context i)"
  "keeps (on_db consented_db) (findConsent context i)"
  "keeps (on_db consented_db) (audit_as subject c key action type i' outcome reason operation)"
  unfolding createTrustedSpeaker_def findTrustedSpeaker_def findConsent_def
  by (intro hoare keeps_create keeps_audit_as; simp add: speakers_table_def consented_db_def)+

lemma keeps_grantConsent_consented:
  "keeps (on_db consented_db) (enrollment_grantConsent context input)"
  unfolding enrollment_grantConsent_def
  by (intro hoare keeps_create) (fastforce simp: consents_table_def consented_db_def consented_def)+

lemma keeps_stop_sessions: "keeps (on_db I) (stop_sessions env sessions reason)"
  unfolding stop_sessions_def by (intro hoare)

lemma keeps_audio [hoare]:
  "keeps (on_db I) audio_view" "keeps (on_db I) audio_clear"
  "keeps (on_db I) (cipher_encrypt env embedding format n)"
  "keeps (on_db I) (consent_usable input consent)"
  unfolding audio_view_def audio_clear_def cipher_encrypt_def consent_usable_def Let_def
  by (auto intro!: hoare keeps_modifyM split: prod.split)

lemmas consented_rules = keeps_revokeConsent_consented keeps_deleteVoiceprint_consented
  keeps_frames_consented keeps_grantConsent_consented keeps_activate_consented keeps_stop_sessions
  keeps_finallyM

lemma keeps_speakers_consented:
  "keeps (on_db consented_db) (speakers_create subject speaker c key)"
  "keeps (on_db consented_db) (speakers_grantConsent subject grant)"
  "keeps (on_db consented_db) (speakers_revokeConsent env subject i reason key' c)"
  "keeps (on_db consented_db) (speakers_deleteVoiceprint env subject i key' c)"
  "keeps (on_db consented_db) (enroll env subject input)"
  unfolding speakers_create_def speakers_grantConsent_def speakers_revokeConsent_def
    speakers_deleteVoiceprint_def enroll_def enroll_voice_def enroll_failed_def may_do_def
  by (intro hoare consented_rules)+

text \<open>The samples are wiped whenever a request that reached the consent check ends.\<close>

lemma enroll_clears_audio:
  assumes "enroll env subject input w = (result, w')"
    and "hasPermission (pr_roles subject) P_enrollment_manage"
    and "findConsent (pr_organizationId subject) (ei_consentId input) w = (Inr consent, w)"
  shows "w_audio w' = []"
proof -
  have "\<exists>b w1. consent_usable input consent w = (Inr b, w1)"
    by (auto simp: consent_usable_def bindM_def now_def returnM_def split: option.split)
  then obtain b w1 where u: "consent_usable input consent w = (Inr b, w1)" by blast
  have clear: "finallyM m audio_clear v = (r, v') \<Longrightarrow> w_audio v' = []" for m :: "voiceprint_row op" and v r v'
    by (auto simp: finallyM_def audio_clear_def monad_simps split: prod.splits sum.splits)
  show ?thesis
    using assms u
    by (cases b) (auto simp: enroll_def may_do_def thenM_def audio_clear_def monad_simps
        authorization_assert_def intro: clear)
qed

end
