(* ===== verification/Call_Repository.thy ===== *)
theory Call_Repository
  imports Enrollment_Service Pagination
begin

text \<open>
  \<open>modules/calls/call.repository.ts\<close>: calls, their participants, the media tracks bound to them and
  the analysis sessions. A track is bound in one transaction: the call's active binding is
  superseded, its live sessions are revoked, and the track, its binding and a session are created
  with the next revision.
\<close>

section \<open>Calls and participants\<close>

record CallParticipantInput =
  pi_membershipId :: "uuid option"
  pi_trustedSpeakerId :: "uuid option"
  pi_livekitIdentity :: string
  pi_authorizedIdentity :: string
  pi_displayName :: "string option"
  pi_role :: ParticipantRole

record CreateCallInput =
  ci_roomName :: string
  ci_expectedTrustedSpeakerId :: "uuid option"
  ci_riskPolicyId :: uuid
  ci_riskPolicyVersion :: string
  ci_createdByMembershipId :: uuid
  ci_idempotencyKey :: string
  ci_protectedActionReference :: "string option"
  ci_participants :: "CallParticipantInput list"

definition call_at :: "uuid \<Rightarrow> uuid \<Rightarrow> call_row \<Rightarrow> bool" where
  "call_at organizationId i c \<longleftrightarrow> ca_org c = organizationId \<and> ca_id c = i"

definition session_at :: "uuid \<Rightarrow> uuid \<Rightarrow> session_row \<Rightarrow> bool" where
  "session_at organizationId i s \<longleftrightarrow> as_org s = organizationId \<and> as_id s = i"

definition participant_at :: "uuid \<Rightarrow> uuid \<Rightarrow> participant_row \<Rightarrow> bool" where
  "participant_at organizationId i p \<longleftrightarrow> cp_org p = organizationId \<and> cp_id p = i"

text \<open>The row of a participant; \<open>createMany\<close> and \<open>create\<close> build it from the same checks.\<close>

definition participant_row_of ::
  "uuid \<Rightarrow> uuid \<Rightarrow> instant \<Rightarrow> CallParticipantInput \<Rightarrow> uuid \<Rightarrow> err + participant_row" where
  "participant_row_of organizationId callId t participant newId =
     bindE (optional (\<lambda>m. requireUuid m ''membershipId'') (pi_membershipId participant)) (\<lambda>membership.
     bindE (optional (\<lambda>s. requireUuid s ''trustedSpeakerId'') (pi_trustedSpeakerId participant)) (\<lambda>speaker.
     bindE (requireText (pi_livekitIdentity participant) ''livekitIdentity'' 160) (\<lambda>identity.
     bindE (requireText (pi_authorizedIdentity participant) ''authorizedIdentity'' 160) (\<lambda>authorized.
     bindE (optional (\<lambda>n. requireText n ''displayName'' 160) (pi_displayName participant)) (\<lambda>display.
     Inr \<lparr>cp_id = newId, cp_org = organizationId, cp_call = callId, cp_membership = membership,
       cp_speaker = speaker, cp_livekitIdentity = identity, cp_authorizedIdentity = authorized,
       cp_displayName = display, cp_role = pi_role participant, cp_status = PART_AUTHORIZED,
       cp_authorizedAt = t, cp_joinedAt = None, cp_disconnectedAt = None, cp_leftAt = None\<rparr>)))))"

definition create_participant ::
  "uuid \<Rightarrow> uuid \<Rightarrow> instant \<Rightarrow> CallParticipantInput \<Rightarrow> participant_row op" where
  "create_participant organizationId callId t participant =
     bindM new_id (\<lambda>newId.
     bindM (liftE (participant_row_of organizationId callId t participant newId)) (\<lambda>row.
     create participants_table row))"

definition call_row_of ::
  "uuid \<Rightarrow> CreateCallInput \<Rightarrow> policy_row \<Rightarrow> instant \<Rightarrow> uuid \<Rightarrow> err + call_row" where
  "call_row_of organizationId input policy t newId =
     bindE (requireText (ci_roomName input) ''roomName'' 160) (\<lambda>roomName.
     bindE (optional (\<lambda>s. requireUuid s ''expectedTrustedSpeakerId'')
              (ci_expectedTrustedSpeakerId input)) (\<lambda>speaker.
     bindE (requireText (ci_riskPolicyVersion input) ''riskPolicyVersion'' 40) (\<lambda>version.
     bindE (requireUuid (ci_createdByMembershipId input) ''createdByMembershipId'') (\<lambda>member.
     bindE (requireText (ci_idempotencyKey input) ''idempotencyKey'' 128) (\<lambda>key.
     bindE (optional (\<lambda>r. requireText r ''protectedActionReference'' 160)
              (ci_protectedActionReference input)) (\<lambda>reference.
     Inr \<lparr>ca_id = newId, ca_org = organizationId, ca_roomName = roomName,
       ca_expectedSpeaker = speaker, ca_policyId = rp_id policy, ca_policyVersion = version,
       ca_createdBy = member, ca_idemKey = key, ca_protectedAction = reference,
       ca_status = CALL_AUTHORIZED, ca_authorizedAt = Some t, ca_startedAt = None,
       ca_endedAt = None, ca_createdAt = t\<rparr>))))))"

text \<open>A call that is new: its policy, its row and the rows of its participants.\<close>

definition insert_call :: "uuid \<Rightarrow> CreateCallInput \<Rightarrow> call_row op" where
  "insert_call organizationId input =
     bindM (liftE (requireUuid (ci_riskPolicyId input) ''riskPolicyId'')) (\<lambda>policyId.
     bindM (find_or_throw policies_table (\<lambda>p. rp_org p = organizationId \<and> rp_id p = policyId)
              (TenantResourceNotFoundError ''Versioned risk policy'')) (\<lambda>policy.
     thenM (guardM (rp_version policy = ci_riskPolicyVersion input)
              (TenantResourceNotFoundError ''Versioned risk policy''))
     (bindM now (\<lambda>t.
      bindM new_id (\<lambda>newId.
      bindM (liftE (call_row_of organizationId input policy t newId)) (\<lambda>row.
      bindM (create calls_table row) (\<lambda>call.
      bindM (mapM (create_participant organizationId (ca_id call) t) (ci_participants input)) (\<lambda>_.
      returnM call))))))))"

definition createCallWithParticipants :: "uuid \<Rightarrow> CreateCallInput \<Rightarrow> call_row op" where
  "createCallWithParticipants context input =
     bindM (liftE (requireTenant context)) (\<lambda>organizationId.
     thenM (guardM (ci_participants input \<noteq> []) (TenantResourceNotFoundError ''Call participant''))
     (bindM (mapM (\<lambda>p. liftE (requireText (pi_livekitIdentity p) ''livekitIdentity'' 160))
               (ci_participants input)) (\<lambda>identities.
      thenM (guardM (distinct identities)
               (TenantResourceNotFoundError ''Unique participant identity''))
      (serializable (
         bindM (find_unique_row calls_table
                  (\<lambda>c. ca_org c = organizationId \<and> ca_idemKey c = ci_idempotencyKey input)) (\<lambda>found.
         case found of
           Some existing \<Rightarrow>
             if ca_roomName existing \<noteq> ci_roomName input
             then throwM (TenantResourceNotFoundError ''Idempotent call input'')
             else returnM existing
         | None \<Rightarrow> insert_call organizationId input))))))"

definition findTenantCall :: "uuid \<Rightarrow> uuid \<Rightarrow> call_row op" where
  "findTenantCall context callId =
     bindM (liftE (requireTenant context)) (\<lambda>organizationId.
     bindM (liftE (requireUuid callId ''callId'')) (\<lambda>i.
     find_or_throw calls_table (call_at organizationId i) (TenantResourceNotFoundError ''Call'')))"

record CallAggregate =
  cg_call :: call_row
  cg_participants :: "participant_row list"

text \<open>The participants of a call, in the order of their insertion.\<close>

definition participants_of :: "call_row \<Rightarrow> participant_row \<Rightarrow> bool" where
  "participants_of call p \<longleftrightarrow> cp_org p = ca_org call \<and> cp_call p = ca_id call"

definition findCallAggregate :: "uuid \<Rightarrow> uuid \<Rightarrow> CallAggregate op" where
  "findCallAggregate context callId =
     bindM (findTenantCall context callId) (\<lambda>call.
     bindM (find_many participants_table (participants_of call)) (\<lambda>participants.
     returnM \<lparr>cg_call = call, cg_participants = participants\<rparr>))"

definition findByVerifiedRoomParticipant :: "string \<Rightarrow> string \<Rightarrow> (call_row \<times> participant_row) op" where
  "findByVerifiedRoomParticipant roomName participantIdentity =
     bindM (liftE (requireText roomName ''roomName'' 160)) (\<lambda>room.
     bindM (liftE (requireText participantIdentity ''participantIdentity'' 160)) (\<lambda>identity.
     bindM (rows participants_table) (\<lambda>participants.
     bindM (find_many calls_table (\<lambda>c. ca_roomName c = room \<and>
              list_ex (\<lambda>p. participants_of c p \<and> cp_livekitIdentity p = identity) participants)) (\<lambda>calls.
     case calls of
       [call] \<Rightarrow>
         (case find (\<lambda>p. participants_of call p \<and> cp_livekitIdentity p = participantIdentity)
                 participants of
            None \<Rightarrow> throwM (TenantResourceNotFoundError ''Authoritative room participant'')
          | Some participant \<Rightarrow> returnM (call, participant))
     | _ \<Rightarrow> throwM (TenantResourceNotFoundError ''Authoritative room participant'')))))"

definition same_participant :: "participant_row \<Rightarrow> CallParticipantInput \<Rightarrow> bool" where
  "same_participant existing input \<longleftrightarrow>
     cp_role existing = pi_role input \<and> cp_authorizedIdentity existing = pi_authorizedIdentity input \<and>
     cp_membership existing = pi_membershipId input \<and> cp_speaker existing = pi_trustedSpeakerId input"

definition addParticipant :: "uuid \<Rightarrow> uuid \<Rightarrow> CallParticipantInput \<Rightarrow> participant_row op" where
  "addParticipant context callId participant =
     bindM (liftE (requireTenant context)) (\<lambda>organizationId.
     bindM (liftE (requireUuid callId ''callId'')) (\<lambda>i.
     serializable (
       bindM (find_unique_row calls_table (call_at organizationId i)) (\<lambda>call.
       thenM (guardM (case call of None \<Rightarrow> False
                      | Some c \<Rightarrow> List.member [CALL_REQUESTED, CALL_AUTHORIZED] (ca_status c))
                (PersistenceConflictError ''Participants can only be invited before a call is active.''))
       (bindM (liftE (requireText (pi_livekitIdentity participant) ''livekitIdentity'' 160)) (\<lambda>identity.
        bindM (find_unique_row participants_table (\<lambda>p. cp_org p = organizationId \<and> cp_call p = i \<and>
                 cp_livekitIdentity p = identity)) (\<lambda>found.
        case found of
          Some existing \<Rightarrow>
            if \<not> same_participant existing participant then throwM IdempotencyConflictError
            else returnM existing
        | None \<Rightarrow> bindM now (\<lambda>t. create_participant organizationId i t participant))))))))"

definition markParticipantJoined :: "uuid \<Rightarrow> uuid \<Rightarrow> instant \<Rightarrow> participant_row op" where
  "markParticipantJoined context participantId joinedAt =
     bindM (liftE (requireTenant context)) (\<lambda>organizationId.
     bindM (liftE (requireUuid participantId ''participantId'')) (\<lambda>i.
     bindM (update_rows participants_table
              (\<lambda>p. participant_at organizationId i p \<and> cp_status p = PART_AUTHORIZED)
              (\<lambda>p. p\<lparr>cp_status := PART_JOINED, cp_joinedAt := Some joinedAt\<rparr>)) (\<lambda>n.
     if n = 0
     then bindM (find_unique_row participants_table (participant_at organizationId i)) (\<lambda>replay.
       case replay of
         Some p \<Rightarrow> if cp_status p = PART_JOINED then returnM p
           else throwM (PersistenceConflictError ''Participant cannot join from its current state.'')
       | None \<Rightarrow> throwM (PersistenceConflictError ''Participant cannot join from its current state.''))
     else find_or_throw participants_table (participant_at organizationId i) P2025_RecordNotFound)))"

definition markParticipantEnded :: "uuid \<Rightarrow> uuid \<Rightarrow> instant \<Rightarrow> participant_row op" where
  "markParticipantEnded context participantId occurredAt =
     bindM (liftE (requireTenant context)) (\<lambda>organizationId.
     bindM (liftE (requireUuid participantId ''participantId'')) (\<lambda>i.
     bindM (update_rows participants_table
              (\<lambda>p. participant_at organizationId i p \<and>
                   List.member [PART_AUTHORIZED, PART_JOINED] (cp_status p))
              (\<lambda>p. p\<lparr>cp_status := PART_LEFT, cp_leftAt := Some occurredAt\<rparr>)) (\<lambda>_.
     find_or_throw participants_table (participant_at organizationId i)
       (TenantResourceNotFoundError ''Call participant''))))"

section \<open>The state of a call\<close>

definition call_final :: "CallStatus \<Rightarrow> bool" where
  "call_final s \<longleftrightarrow> List.member [CALL_ENDED, CALL_CANCELLED, CALL_FAILED] s"

definition call_after :: "CallStatus \<Rightarrow> instant \<Rightarrow> call_row \<Rightarrow> call_row" where
  "call_after next' occurredAt c =
     (let c1 = c\<lparr>ca_status := next'\<rparr>;
          c2 = (if next' = CALL_ACTIVE then c1\<lparr>ca_startedAt := Some occurredAt\<rparr> else c1) in
      if call_final next' then c2\<lparr>ca_endedAt := Some occurredAt\<rparr> else c2)"

definition transitionCall ::
  "uuid \<Rightarrow> uuid \<Rightarrow> CallStatus \<Rightarrow> CallStatus \<Rightarrow> instant \<Rightarrow> call_row op" where
  "transitionCall context callId expected next' occurredAt =
     bindM (liftE (requireTenant context)) (\<lambda>organizationId.
     bindM (liftE (requireUuid callId ''callId'')) (\<lambda>i.
     bindM (update_rows calls_table (\<lambda>c. call_at organizationId i c \<and> ca_status c = expected)
              (call_after next' occurredAt)) (\<lambda>n.
     if n \<noteq> 1
     then bindM (findTenantCall context i) (\<lambda>replay.
       if ca_status replay = next' then returnM replay
       else throwM (PersistenceConflictError ''Call state changed concurrently.''))
     else findTenantCall context i)))"

definition listOpenAnalysisSessions :: "uuid \<Rightarrow> uuid \<Rightarrow> session_row list op" where
  "listOpenAnalysisSessions context callId =
     bindM (liftE (requireTenant context)) (\<lambda>organizationId.
     bindM (liftE (requireUuid callId ''callId'')) (\<lambda>i.
     bindM (find_many sessions_table (\<lambda>s. as_org s = organizationId \<and> as_call s = i \<and>
              open_status (as_status s))) (\<lambda>sessions.
     returnM (sort_key as_createdAt sessions))))"

definition listActiveCalls :: "cursor_codec \<Rightarrow> uuid \<Rightarrow> PageRequest \<Rightarrow> call_row PageResult op" where
  "listActiveCalls codec context page =
     bindM (liftE (requireTenant context)) (\<lambda>organizationId.
     bindM (find_many calls_table (\<lambda>c. ca_org c = organizationId \<and>
              List.member [CALL_AUTHORIZED, CALL_ACTIVE, CALL_ENDING] (ca_status c))) (\<lambda>rs.
     liftE (keyset_page codec (\<lambda>c. (ca_createdAt c, ca_id c)) page rs)))"

definition endCall :: "uuid \<Rightarrow> uuid \<Rightarrow> call_row op" where
  "endCall context callId =
     bindM (liftE (requireTenant context)) (\<lambda>organizationId.
     bindM (liftE (requireUuid callId ''callId'')) (\<lambda>i.
     bindM now (\<lambda>t.
     serializable (
       bindM (update_rows calls_table (\<lambda>c. call_at organizationId i c \<and>
                List.member [CALL_AUTHORIZED, CALL_ACTIVE, CALL_ENDING] (ca_status c))
                (\<lambda>c. c\<lparr>ca_status := CALL_ENDED, ca_endedAt := Some t\<rparr>)) (\<lambda>n.
       thenM (guardM (n = 1) (TenantResourceNotFoundError ''Active call''))
       (bindM (update_rows bindings_table (\<lambda>b. tb_org b = organizationId \<and> tb_call b = i \<and>
                 tb_status b = BIND_ACTIVE)
                 (\<lambda>b. b\<lparr>tb_status := BIND_REVOKED, tb_endedAt := Some t\<rparr>)) (\<lambda>_.
        bindM (end_sessions SESS_STOPPED t (\<lambda>s. as_org s = organizationId \<and> as_call s = i \<and>
                 open_status (as_status s))) (\<lambda>_.
        find_or_throw calls_table (\<lambda>c. ca_id c = i) (TenantResourceNotFoundError ''Call'')))))))))"

section \<open>Tracks, bindings and sessions\<close>

record BindTrackInput =
  bi_callId :: uuid
  bi_participantId :: uuid
  bi_trackSid :: string
  bi_trackSource :: string
  bi_mimeType :: "string option"
  bi_analysisIdempotencyKey :: string
  bi_analysisExpiresAt :: instant
  bi_evidenceMode :: "EvidenceMode option"
  bi_voiceprintId :: "uuid option"

record BindTrackResult =
  bt_binding :: binding_row
  bt_analysisSession :: session_row
  bt_mediaTrack :: track_row
  bt_supersededAnalysisSessionIds :: "uuid list"

text \<open>A track that is known: the request is a repetition or a conflict.\<close>

definition rebind_track ::
  "uuid \<Rightarrow> BindTrackInput \<Rightarrow> track_row \<Rightarrow> BindTrackResult op" where
  "rebind_track organizationId input existingTrack =
     thenM (guardM (mt_call existingTrack = bi_callId input \<and>
              mt_participant existingTrack = bi_participantId input) IdempotencyConflictError)
     (bindM (find_unique_row bindings_table
               (\<lambda>b. tb_org b = organizationId \<and> tb_track b = mt_id existingTrack)) (\<lambda>existingBinding.
      bindM (liftE (requireText (bi_analysisIdempotencyKey input) ''analysisIdempotencyKey'' 128)) (\<lambda>key.
      bindM (find_unique_row sessions_table
               (\<lambda>s. as_org s = organizationId \<and> as_idemKey s = key)) (\<lambda>existingSession.
      case (existingBinding, existingSession) of
        (Some b, Some s) \<Rightarrow>
          if as_binding s \<noteq> tb_id b then throwM IdempotencyConflictError
          else returnM \<lparr>bt_binding = b, bt_analysisSession = s, bt_mediaTrack = existingTrack,
                 bt_supersededAnalysisSessionIds = []\<rparr>
      | _ \<Rightarrow> throwM IdempotencyConflictError))))"

definition next_revision :: "uuid \<Rightarrow> uuid \<Rightarrow> int op" where
  "next_revision organizationId callId =
     bindM (find_many bindings_table (\<lambda>b. tb_org b = organizationId \<and> tb_call b = callId)) (\<lambda>bs.
     returnM (if bs = [] then 1 else Max (set (map tb_revision bs)) + 1))"

definition supersede_binding :: "uuid \<Rightarrow> uuid \<Rightarrow> instant \<Rightarrow> nat op" where
  "supersede_binding organizationId callId t =
     update_rows bindings_table
       (\<lambda>b. tb_org b = organizationId \<and> tb_call b = callId \<and> tb_status b = BIND_ACTIVE)
       (\<lambda>b. b\<lparr>tb_status := BIND_SUPERSEDED, tb_endedAt := Some t\<rparr>)"

definition create_track :: "uuid \<Rightarrow> BindTrackInput \<Rightarrow> instant \<Rightarrow> track_row op" where
  "create_track organizationId input t =
     bindM (liftE (requireText (bi_trackSid input) ''trackSid'' 128)) (\<lambda>sid.
     bindM (liftE (requireText (bi_trackSource input) ''trackSource'' 40)) (\<lambda>source.
     bindM (liftE (optional (\<lambda>m. requireText m ''mimeType'' 120) (bi_mimeType input))) (\<lambda>mime.
     bindM new_id (\<lambda>i.
     create tracks_table \<lparr>mt_id = i, mt_org = organizationId, mt_call = bi_callId input,
       mt_participant = bi_participantId input, mt_trackSid = sid, mt_trackSource = source,
       mt_mimeType = mime, mt_status = TRACK_PUBLISHED, mt_publishedAt = t, mt_endedAt = None\<rparr>))))"

definition create_binding ::
  "uuid \<Rightarrow> BindTrackInput \<Rightarrow> uuid \<Rightarrow> int \<Rightarrow> instant \<Rightarrow> binding_row op" where
  "create_binding organizationId input trackId revision t =
     bindM new_id (\<lambda>i.
     create bindings_table \<lparr>tb_id = i, tb_org = organizationId, tb_call = bi_callId input,
       tb_participant = bi_participantId input, tb_track = trackId, tb_revision = revision,
       tb_status = BIND_ACTIVE, tb_authorizedAt = t, tb_activatedAt = Some t, tb_endedAt = None,
       tb_rejectionCode = None, tb_createdAt = t\<rparr>)"

text \<open>Without a mode the column's default applies, which is \<open>SIMULATED\<close>.\<close>

definition create_analysis_session ::
  "uuid \<Rightarrow> BindTrackInput \<Rightarrow> uuid \<Rightarrow> int \<Rightarrow> instant \<Rightarrow> session_row op" where
  "create_analysis_session organizationId input bindingId revision t =
     bindM (liftE (optional (\<lambda>v. requireUuid v ''voiceprintId'') (bi_voiceprintId input))) (\<lambda>voiceprint.
     bindM (liftE (requireText (bi_analysisIdempotencyKey input) ''analysisIdempotencyKey'' 128)) (\<lambda>key.
     bindM new_id (\<lambda>i.
     create sessions_table \<lparr>as_id = i, as_org = organizationId, as_call = bi_callId input,
       as_binding = bindingId, as_voiceprint = voiceprint, as_idemKey = key,
       as_bindingRevision = revision,
       as_evidenceMode = (case bi_evidenceMode input of None \<Rightarrow> MODE_SIMULATED | Some m \<Rightarrow> m),
       as_status = SESS_AUTHORIZED, as_authorizedAt = t, as_startedAt = None, as_stoppedAt = None,
       as_expiresAt = bi_analysisExpiresAt input, as_failureCode = None, as_createdAt = t\<rparr>)))"

definition activate_call :: "uuid \<Rightarrow> uuid \<Rightarrow> instant \<Rightarrow> call_row op" where
  "activate_call organizationId callId started =
     update_one calls_table (call_at organizationId callId)
       (\<lambda>c. c\<lparr>ca_status := CALL_ACTIVE, ca_startedAt := Some started\<rparr>)"

text \<open>A track that is new.\<close>

definition bind_new_track ::
  "uuid \<Rightarrow> BindTrackInput \<Rightarrow> call_row \<Rightarrow> BindTrackResult op" where
  "bind_new_track organizationId input call =
     bindM (next_revision organizationId (bi_callId input)) (\<lambda>revision.
     bindM now (\<lambda>t.
     bindM (supersede_binding organizationId (bi_callId input) t) (\<lambda>_.
     bindM (find_many sessions_table (\<lambda>s. as_org s = organizationId \<and> as_call s = bi_callId input \<and>
              live_status (as_status s))) (\<lambda>superseded.
     bindM (revoke_sessions (map as_id superseded) t) (\<lambda>_.
     bindM (create_track organizationId input t) (\<lambda>track.
     bindM (create_binding organizationId input (mt_id track) revision t) (\<lambda>binding.
     bindM (create_analysis_session organizationId input (tb_id binding) revision t) (\<lambda>session.
     bindM (activate_call organizationId (bi_callId input)
              (case ca_startedAt call of None \<Rightarrow> t | Some x \<Rightarrow> x)) (\<lambda>_.
     returnM \<lparr>bt_binding = binding, bt_analysisSession = session, bt_mediaTrack = track,
       bt_supersededAnalysisSessionIds = map as_id superseded\<rparr>)))))))))"

definition bind_track :: "uuid \<Rightarrow> BindTrackInput \<Rightarrow> BindTrackResult op" where
  "bind_track organizationId input =
     bindM (find_unique_row participants_table (\<lambda>p. participant_at organizationId (bi_participantId input) p \<and>
              cp_call p = bi_callId input)) (\<lambda>participant.
     bindM (find_unique_row calls_table (call_at organizationId (bi_callId input))) (\<lambda>found.
     case found of
       None \<Rightarrow> throwM (TenantResourceNotFoundError ''Authorized call participant'')
     | Some call \<Rightarrow>
         thenM (guardM (participant \<noteq> None \<and> List.member [CALL_AUTHORIZED, CALL_ACTIVE] (ca_status call))
                  (TenantResourceNotFoundError ''Authorized call participant''))
         (bindM (liftE (requireText (bi_trackSid input) ''trackSid'' 128)) (\<lambda>sid.
          bindM (find_unique_row tracks_table (\<lambda>t. mt_org t = organizationId \<and> mt_trackSid t = sid))
            (\<lambda>existingTrack.
          case existingTrack of
            Some track \<Rightarrow> rebind_track organizationId input track
          | None \<Rightarrow> bind_new_track organizationId input call)))))"

definition bindTrackAndCreateAnalysis :: "uuid \<Rightarrow> BindTrackInput \<Rightarrow> BindTrackResult op" where
  "bindTrackAndCreateAnalysis context input =
     bindM (liftE (requireTenant context)) (\<lambda>organizationId.
     bindM (liftE (requireUuid (bi_callId input) ''callId'')) (\<lambda>_.
     bindM (liftE (requireUuid (bi_participantId input) ''participantId'')) (\<lambda>_.
     bindM now (\<lambda>t.
     thenM (guardM (t < bi_analysisExpiresAt input)
              (TenantResourceNotFoundError ''Future analysis expiry''))
     (serializable (bind_track organizationId input))))))"

text \<open>The transaction of \<open>closeVerifiedTrack\<close> for a track of the call.\<close>

definition close_track ::
  "uuid \<Rightarrow> track_row \<Rightarrow> instant \<Rightarrow> uuid list op" where
  "close_track organizationId track occurredAt =
     bindM (find_unique_row bindings_table
              (\<lambda>b. tb_org b = organizationId \<and> tb_track b = mt_id track)) (\<lambda>binding.
     bindM (case binding of None \<Rightarrow> returnM []
            | Some b \<Rightarrow> find_many sessions_table (\<lambda>s. as_org s = organizationId \<and>
                as_binding s = tb_id b \<and> open_status (as_status s))) (\<lambda>sessions.
     bindM (update_one tracks_table (\<lambda>t. mt_org t = organizationId \<and> mt_id t = mt_id track)
              (\<lambda>t. t\<lparr>mt_status := TRACK_UNPUBLISHED, mt_endedAt := Some occurredAt\<rparr>)) (\<lambda>_.
     bindM (case binding of None \<Rightarrow> returnM ()
            | Some b \<Rightarrow> if tb_status b = BIND_ACTIVE
                then bindM (update_one bindings_table
                        (\<lambda>x. tb_org x = organizationId \<and> tb_id x = tb_id b)
                        (\<lambda>x. x\<lparr>tb_status := BIND_REVOKED, tb_endedAt := Some occurredAt\<rparr>)) (\<lambda>_.
                      returnM ())
                else returnM ()) (\<lambda>_.
     bindM (revoke_sessions (map as_id sessions) occurredAt) (\<lambda>_.
     returnM (map as_id sessions))))))"

definition closeVerifiedTrack :: "uuid \<Rightarrow> uuid \<Rightarrow> string \<Rightarrow> instant \<Rightarrow> uuid list op" where
  "closeVerifiedTrack context callId trackSid occurredAt =
     bindM (liftE (requireTenant context)) (\<lambda>organizationId.
     bindM (liftE (requireUuid callId ''callId'')) (\<lambda>i.
     serializable (
       bindM (liftE (requireText trackSid ''trackSid'' 128)) (\<lambda>sid.
       bindM (find_or_throw tracks_table (\<lambda>t. mt_org t = organizationId \<and> mt_trackSid t = sid)
                (TenantResourceNotFoundError ''Media track'')) (\<lambda>track.
       thenM (guardM (mt_call track = i) (TenantResourceNotFoundError ''Media track''))
       (close_track organizationId track occurredAt))))))"

record AnalysisGrantContext =
  gr_session :: session_row
  gr_call :: call_row
  gr_participant :: participant_row
  gr_mediaTrack :: track_row
  gr_binding :: binding_row

text \<open>The included rows are there by the foreign keys; a missing one is an error here.\<close>

definition findAnalysisGrantContext :: "uuid \<Rightarrow> uuid \<Rightarrow> AnalysisGrantContext op" where
  "findAnalysisGrantContext context analysisSessionId =
     bindM (liftE (requireTenant context)) (\<lambda>organizationId.
     bindM (liftE (requireUuid analysisSessionId ''analysisSessionId'')) (\<lambda>i.
     bindM (find_or_throw sessions_table (session_at organizationId i)
              (TenantResourceNotFoundError ''Analysis session'')) (\<lambda>session.
     bindM (find_or_throw calls_table (call_at organizationId (as_call session)) P2025_RecordNotFound) (\<lambda>call.
     bindM (find_or_throw bindings_table (\<lambda>b. tb_org b = organizationId \<and> tb_id b = as_binding session)
              P2025_RecordNotFound) (\<lambda>binding.
     bindM (find_or_throw participants_table (participant_at organizationId (tb_participant binding))
              P2025_RecordNotFound) (\<lambda>participant.
     bindM (find_or_throw tracks_table (\<lambda>t. mt_org t = organizationId \<and> mt_id t = tb_track binding)
              P2025_RecordNotFound) (\<lambda>track.
     returnM \<lparr>gr_session = session, gr_call = call, gr_participant = participant,
       gr_mediaTrack = track, gr_binding = binding\<rparr>)))))))"

definition session_after ::
  "AnalysisSessionStatus \<Rightarrow> string option \<Rightarrow> instant \<Rightarrow> session_row \<Rightarrow> session_row" where
  "session_after next' failureCode occurredAt s =
     (let s1 = s\<lparr>as_status := next'\<rparr>;
          s2 = (if next' = SESS_ACTIVE then s1\<lparr>as_startedAt := Some occurredAt\<rparr> else s1);
          s3 = (if session_final next' then s2\<lparr>as_stoppedAt := Some occurredAt\<rparr> else s2) in
      case failureCode of None \<Rightarrow> s3 | Some code \<Rightarrow> s3\<lparr>as_failureCode := Some code\<rparr>)"

definition transitionAnalysisSession ::
  "uuid \<Rightarrow> uuid \<Rightarrow> AnalysisSessionStatus \<Rightarrow> AnalysisSessionStatus \<Rightarrow> string option \<Rightarrow> instant \<Rightarrow>
   session_row op" where
  "transitionAnalysisSession context analysisSessionId expected next' failureCode occurredAt =
     bindM (liftE (requireTenant context)) (\<lambda>organizationId.
     bindM (liftE (requireUuid analysisSessionId ''analysisSessionId'')) (\<lambda>i.
     bindM (liftE (optional (\<lambda>c. requireText c ''failureCode'' 80) failureCode)) (\<lambda>code.
     bindM (update_rows sessions_table (\<lambda>s. session_at organizationId i s \<and> as_status s = expected)
              (session_after next' code occurredAt)) (\<lambda>n.
     if n \<noteq> 1
     then bindM (find_unique_row sessions_table (session_at organizationId i)) (\<lambda>replay.
       case replay of
         Some s \<Rightarrow> if as_status s = next' then returnM s
           else throwM (PersistenceConflictError ''Analysis session state changed concurrently.'')
       | None \<Rightarrow> throwM (PersistenceConflictError ''Analysis session state changed concurrently.''))
     else find_or_throw sessions_table (session_at organizationId i) P2025_RecordNotFound))))"

end
