(* ===== verification/Calls.thy ===== *)
theory Calls
  imports Call_Repository Risk_Repository
begin

text \<open>
  The services that drive a call: \<open>modules/calls/calls.service.ts\<close> and
  \<open>modules/analysis/analysis.service.ts\<close>, with the outcome of every provider call. What they keep
  is stated in \<open>Call_Invariants\<close>.
\<close>

section \<open>Calls\<close>

text \<open>\<open>pe_sha256\<close> is the digest in hexadecimal.\<close>

definition stableIdentity :: "provider_env \<Rightarrow> string list \<Rightarrow> string" where
  "stableIdentity env parts =
     ''swar-'' @ take 40 (pe_sha256 env (join_with '':'' parts))"

fun role_name :: "ParticipantRole \<Rightarrow> string" where
  "role_name CALLER = ''CALLER''"
| "role_name CUSTOMER = ''CUSTOMER''"
| "role_name OBSERVER = ''OBSERVER''"
| "role_name ML_SUBSCRIBER = ''ML_SUBSCRIBER''"

fun participant_status_name :: "ParticipantStatus \<Rightarrow> string" where
  "participant_status_name PART_AUTHORIZED = ''AUTHORIZED''"
| "participant_status_name PART_JOINED = ''JOINED''"
| "participant_status_name PART_DISCONNECTED = ''DISCONNECTED''"
| "participant_status_name PART_LEFT = ''LEFT''"
| "participant_status_name PART_REVOKED = ''REVOKED''"

record CreateCallCommand =
  cc_riskPolicyId :: uuid
  cc_riskPolicyVersion :: string
  cc_expectedTrustedSpeakerId :: "uuid option"
  cc_protectedActionReference :: "string option"
  cc_idempotencyKey :: string
  cc_maximumParticipants :: rat
  cc_correlationId :: string

definition call_transition :: "CallStatus \<Rightarrow> CallStatus \<Rightarrow> unit op" where
  "call_transition from to' =
     liftE (assertTransition ''Call'' call_status_name callTransitions from to')"

definition grant_ttl :: "provider_env \<Rightarrow> int" where
  "grant_ttl env = liveKitParticipantGrantTtlSeconds (c_dependencies (pe_config env))"

definition new_call_input ::
  "provider_env \<Rightarrow> AuthPrincipal \<Rightarrow> CreateCallCommand \<Rightarrow> CreateCallInput" where
  "new_call_input env subject command =
     \<lparr>ci_roomName = stableIdentity env [pr_organizationId subject, cc_idempotencyKey command, ''room''],
      ci_expectedTrustedSpeakerId = cc_expectedTrustedSpeakerId command,
      ci_riskPolicyId = cc_riskPolicyId command, ci_riskPolicyVersion = cc_riskPolicyVersion command,
      ci_createdByMembershipId = pr_membershipId subject,
      ci_idempotencyKey = cc_idempotencyKey command,
      ci_protectedActionReference = cc_protectedActionReference command,
      ci_participants =
        [\<lparr>pi_membershipId = Some (pr_membershipId subject), pi_trustedSpeakerId = None,
          pi_livekitIdentity = stableIdentity env [pr_organizationId subject,
            cc_idempotencyKey command, pr_membershipId subject, role_name CUSTOMER],
          pi_authorizedIdentity = ''membership:'' @ pr_membershipId subject,
          pi_displayName = None, pi_role = CUSTOMER\<rparr>]\<rparr>"

definition calls_create :: "provider_env \<Rightarrow> AuthPrincipal \<Rightarrow> CreateCallCommand \<Rightarrow> call_row op" where
  "calls_create env subject command =
     thenM (may_do subject P_call_create)
     (thenM (guardM (of_int \<lfloor>cc_maximumParticipants command\<rfloor> = cc_maximumParticipants command \<and>
              2 \<le> cc_maximumParticipants command \<and> cc_maximumParticipants command \<le> 20)
              (PersistenceConflictError ''Call participant limit is invalid.''))
     (bindM (createCallWithParticipants (pr_organizationId subject)
               (new_call_input env subject command)) (\<lambda>call.
      thenM (catchM (livekit_createRoom (ca_roomName call) (ca_id call) (cc_maximumParticipants command))
        (\<lambda>_.
         thenM (if ca_status call = CALL_AUTHORIZED
                then thenM (call_transition (ca_status call) CALL_FAILED)
                  (bindM now (\<lambda>t.
                   bindM (transitionCall (pr_organizationId subject) (ca_id call) CALL_AUTHORIZED
                            CALL_FAILED t) (\<lambda>_. returnM ())))
                else returnM ())
         (thenM (audit_as subject (cc_correlationId command)
                   (Some (cc_idempotencyKey command @ '':room-failed'')) ''call.room.create.failed''
                   ''Call'' (ca_id call) (Some AUDIT_FAILED) (Some ''LIVEKIT_ROOM_CREATE_FAILED'')
                   ''call-create'')
          (throwM (DomainProviderError ''LIVEKIT'' ''room-create'' ''FAILED'')))))
      (thenM (audit_as subject (cc_correlationId command)
                (Some (cc_idempotencyKey command @ '':created'')) ''call.created'' ''Call''
                (ca_id call) None None ''call-create'')
       (returnM call)))))"

record InviteParticipantCommand =
  ip_callId :: uuid
  ip_role :: ParticipantRole
  ip_membershipId :: "uuid option"
  ip_trustedSpeakerId :: "uuid option"
  ip_displayName :: "string option"
  ip_idempotencyKey :: string
  ip_correlationId :: string

definition invited_participant ::
  "provider_env \<Rightarrow> AuthPrincipal \<Rightarrow> InviteParticipantCommand \<Rightarrow> call_row \<Rightarrow> CallParticipantInput" where
  "invited_participant env subject command call =
     \<lparr>pi_membershipId = ip_membershipId command, pi_trustedSpeakerId = ip_trustedSpeakerId command,
      pi_livekitIdentity = stableIdentity env [pr_organizationId subject, ca_id call,
        ip_idempotencyKey command, role_name (ip_role command)],
      pi_authorizedIdentity = (case ip_membershipId command of
          None \<Rightarrow> ''trusted-speaker:'' @ (case ip_trustedSpeakerId command of
            None \<Rightarrow> ''unassigned'' | Some s \<Rightarrow> s)
        | Some m \<Rightarrow> ''membership:'' @ m),
      pi_displayName = ip_displayName command, pi_role = ip_role command\<rparr>"

definition calls_invite ::
  "provider_env \<Rightarrow> AuthPrincipal \<Rightarrow> InviteParticipantCommand \<Rightarrow>
   (participant_row \<times> LiveKitParticipantGrant) op" where
  "calls_invite env subject command =
     thenM (may_do subject P_call_create)
     (thenM (guardM (\<not> ((ip_role command = CUSTOMER \<or> ip_role command = OBSERVER) \<and>
              ip_membershipId command = None))
              (PersistenceConflictError ''Customer and observer participants require membership.''))
     (thenM (guardM (\<not> (ip_role command = CALLER \<and> ip_membershipId command = None \<and>
              ip_trustedSpeakerId command = None))
              (PersistenceConflictError
                ''Caller participants require membership or a trusted-speaker authorization.''))
     (bindM (findTenantCall (pr_organizationId subject) (ip_callId command)) (\<lambda>call.
      bindM (addParticipant (pr_organizationId subject) (ca_id call)
               (invited_participant env subject command call)) (\<lambda>participant.
      catchM
        (bindM (livekit_grant env (ca_roomName call) (cp_livekitIdentity participant)
                  (cp_role participant) (grant_ttl env)) (\<lambda>grant.
         thenM (audit_as subject (ip_correlationId command)
                  (Some (ip_idempotencyKey command @ '':invited'')) ''call.participant.invited''
                  ''CallParticipant'' (cp_id participant) None None ''participant-invite'')
         (returnM (participant, grant))))
        (\<lambda>_.
         thenM (audit_as subject (ip_correlationId command)
                  (Some (ip_idempotencyKey command @ '':grant-failed''))
                  ''call.participant.grant.failed'' ''CallParticipant'' (cp_id participant)
                  (Some AUDIT_FAILED) (Some ''LIVEKIT_GRANT_FAILED'') ''participant-invite'')
         (throwM (DomainProviderError ''LIVEKIT'' ''participant-grant''
            (participant_status_name (cp_status participant))))))))))"

definition calls_answer ::
  "provider_env \<Rightarrow> AuthPrincipal \<Rightarrow> uuid \<Rightarrow> uuid \<Rightarrow> string \<Rightarrow> LiveKitParticipantGrant op" where
  "calls_answer env subject callId participantId correlationId =
     thenM (may_do subject P_call_read)
     (bindM (findCallAggregate (pr_organizationId subject) callId) (\<lambda>aggregate.
      case find (\<lambda>p. cp_id p = participantId) (cg_participants aggregate) of
        None \<Rightarrow> throwM (PersistenceConflictError
                  ''Only the authorized participant may answer this call.'')
      | Some participant \<Rightarrow>
          thenM (guardM (cp_membership participant = Some (pr_membershipId subject))
                   (PersistenceConflictError ''Only the authorized participant may answer this call.''))
          (bindM (livekit_grant env (ca_roomName (cg_call aggregate)) (cp_livekitIdentity participant)
                    (cp_role participant) (grant_ttl env)) (\<lambda>grant.
           thenM (audit_as subject correlationId None ''call.participant.answer.authorized''
                    ''CallParticipant'' (cp_id participant) None None ''call-answer'')
           (returnM grant)))))"

text \<open>An authorized call is cancelled once its room is closed.\<close>

definition cancel_call ::
  "AuthPrincipal \<Rightarrow> call_row \<Rightarrow> string \<Rightarrow> string \<Rightarrow> instant \<Rightarrow> call_row op" where
  "cancel_call subject call idempotencyKey correlationId t =
     thenM (catchM (livekit_closeRoom (ca_roomName call)) (\<lambda>_.
        thenM (audit_as subject correlationId (Some (idempotencyKey @ '':cancel-failed''))
                 ''call.cancel.provider-unknown'' ''Call'' (ca_id call) (Some AUDIT_FAILED)
                 (Some ''LIVEKIT_ROOM_CLOSE_FAILED_OR_TIMED_OUT'') ''call-cancel'')
        (throwM (DomainProviderError ''LIVEKIT'' ''call-cancel'' ''AUTHORIZED''))))
     (thenM (call_transition CALL_AUTHORIZED CALL_CANCELLED)
     (bindM (transitionCall (pr_organizationId subject) (ca_id call) CALL_AUTHORIZED CALL_CANCELLED t)
        (\<lambda>cancelled.
      thenM (audit_as subject correlationId (Some (idempotencyKey @ '':cancelled''))
               ''call.cancelled'' ''Call'' (ca_id cancelled) None None ''call-cancel'')
      (returnM cancelled))))"

text \<open>The \<open>try\<close> that cleans up at the providers and ends the call, and its \<open>catch\<close>.\<close>

definition clean_up_call ::
  "provider_env \<Rightarrow> AuthPrincipal \<Rightarrow> CallAggregate \<Rightarrow> string \<Rightarrow> string \<Rightarrow> call_row op" where
  "clean_up_call env subject aggregate idempotencyKey correlationId =
     (let call = cg_call aggregate in
      bindM (listOpenAnalysisSessions (pr_organizationId subject) (ca_id call)) (\<lambda>sessions.
      thenM (stop_sessions env (map as_id sessions) ''CALL_ENDED'')
      (thenM (iterM (cg_participants aggregate) (\<lambda>p.
                livekit_removeParticipant (ca_roomName call) (cp_livekitIdentity p)))
      (thenM (livekit_closeRoom (ca_roomName call))
      (thenM (call_transition CALL_ENDING CALL_ENDED)
      (bindM now (\<lambda>t.
       bindM (transitionCall (pr_organizationId subject) (ca_id call) CALL_ENDING CALL_ENDED t) (\<lambda>ended.
       thenM (audit_as subject correlationId (Some (idempotencyKey @ '':ended'')) ''call.ended''
                ''Call'' (ca_id ended) None None ''call-end'')
       (returnM ended)))))))))"

definition fail_call ::
  "AuthPrincipal \<Rightarrow> call_row \<Rightarrow> string \<Rightarrow> string \<Rightarrow> call_row op" where
  "fail_call subject call idempotencyKey correlationId =
     thenM (call_transition CALL_ENDING CALL_FAILED)
     (bindM now (\<lambda>t.
      bindM (transitionCall (pr_organizationId subject) (ca_id call) CALL_ENDING CALL_FAILED t) (\<lambda>_.
      thenM (audit_as subject correlationId (Some (idempotencyKey @ '':cleanup-failed''))
               ''call.cleanup.failed'' ''Call'' (ca_id call) (Some AUDIT_FAILED)
               (Some ''PROVIDER_CLEANUP_FAILED'') ''call-end'')
      (throwM (DomainProviderError ''LIVEKIT'' ''call-cleanup'' ''FAILED'')))))"

definition calls_end ::
  "provider_env \<Rightarrow> AuthPrincipal \<Rightarrow> uuid \<Rightarrow> string \<Rightarrow> string \<Rightarrow> call_row op" where
  "calls_end env subject callId idempotencyKey correlationId =
     thenM (may_do subject P_call_end)
     (bindM (findCallAggregate (pr_organizationId subject) callId) (\<lambda>aggregate.
      bindM now (\<lambda>t.
      let call = cg_call aggregate in
      if ca_status call = CALL_ENDED \<or> ca_status call = CALL_CANCELLED then returnM call
      else if ca_status call = CALL_AUTHORIZED
      then cancel_call subject call idempotencyKey correlationId t
      else
        thenM (guardM (ca_status call = CALL_ACTIVE \<or> ca_status call = CALL_ENDING)
                 (PersistenceConflictError ''Call cannot be ended from its current state.''))
        (thenM (if ca_status call = CALL_ACTIVE
                then thenM (call_transition CALL_ACTIVE CALL_ENDING)
                  (bindM (transitionCall (pr_organizationId subject) (ca_id call) CALL_ACTIVE
                            CALL_ENDING t) (\<lambda>_. returnM ()))
                else returnM ())
        (catchM (clean_up_call env subject aggregate idempotencyKey correlationId)
           (\<lambda>_. fail_call subject call idempotencyKey correlationId))))))"

section \<open>Analysis sessions\<close>

record AnalysisRequest =
  ar_organizationId :: uuid
  ar_analysisSessionId :: uuid
  ar_correlationId :: string
  ar_idempotencyKey :: string

definition analysis_audit ::
  "AnalysisRequest \<Rightarrow> string \<Rightarrow> string \<Rightarrow> uuid \<Rightarrow> AuditOutcome option \<Rightarrow> string option \<Rightarrow> string \<Rightarrow>
   unit op" where
  "analysis_audit input suffix action i outcome reasonCode operation =
     bindM (audit_record
       \<lparr>wa_organizationId = ar_organizationId input, wa_actor = None,
        wa_correlationId = ar_correlationId input,
        wa_idempotencyKey = Some (ar_idempotencyKey input @ suffix), wa_action = action,
        wa_targetType = ''AnalysisSession'', wa_targetId = i, wa_outcome = outcome,
        wa_reasonCode = reasonCode, wa_operation = operation\<rparr>) (\<lambda>_. returnM ())"

definition session_transition ::
  "AnalysisSessionStatus \<Rightarrow> AnalysisSessionStatus \<Rightarrow> unit op" where
  "session_transition from to' =
     liftE (assertTransition ''AnalysisSession'' session_status_name analysisTransitions from to')"

text \<open>A transition at the present time, checked against the table or not.\<close>

definition move_session ::
  "uuid \<Rightarrow> uuid \<Rightarrow> AnalysisSessionStatus \<Rightarrow> AnalysisSessionStatus \<Rightarrow> session_row op" where
  "move_session context i from to' =
     thenM (session_transition from to')
     (bindM now (\<lambda>t. transitionAnalysisSession context i from to' None t))"

text \<open>The voiceprint of the session must still be the call's active one.\<close>

definition check_voiceprint :: "uuid \<Rightarrow> AnalysisGrantContext \<Rightarrow> unit op" where
  "check_voiceprint context grant =
     (case as_voiceprint (gr_session grant) of
        None \<Rightarrow> returnM ()
      | Some voiceprintId \<Rightarrow>
          (case ca_expectedSpeaker (gr_call grant) of
             None \<Rightarrow> throwM (PersistenceConflictError
                       ''Analysis voiceprint is not authorized by the call.'')
           | Some speaker \<Rightarrow>
               bindM (findActiveVoiceprint context speaker) (\<lambda>current.
               if map_option vp_id current = Some voiceprintId then returnM ()
               else bindM now (\<lambda>t.
                 bindM (transitionAnalysisSession context (as_id (gr_session grant))
                          (as_status (gr_session grant)) SESS_REVOKED (Some ''VOICEPRINT_NOT_ACTIVE'') t)
                   (\<lambda>_.
                 throwM (PersistenceConflictError ''Analysis voiceprint is no longer active.''))))))"

text \<open>The \<open>try\<close> of \<open>start\<close>.\<close>

definition launch_analysis ::
  "provider_env \<Rightarrow> AnalysisRequest \<Rightarrow> AnalysisGrantContext \<Rightarrow> session_row op" where
  "launch_analysis env input grant =
     (let session = gr_session grant in
      thenM (guardM (pe_ml env) (Error ''ML control provider unavailable''))
      (bindM now (\<lambda>t.
       let remainingSeconds = (as_expiresAt session - t) div 1000 in
       thenM (guardM (30 \<le> remainingSeconds) (Error ''Analysis grant lifetime is too short''))
       (bindM (livekit_grant env (ca_roomName (gr_call grant)) (''swar-ml:'' @ as_id session)
                 ML_SUBSCRIBER (min remainingSeconds (grant_ttl env))) (\<lambda>mediaGrant.
        thenM (ml_startAnalysis env
          \<lparr>ag_organizationId = ar_organizationId input, ag_sessionId = as_id session,
           ag_callId = ca_id (gr_call grant), ag_roomName = ca_roomName (gr_call grant),
           ag_participantIdentity = cp_livekitIdentity (gr_participant grant),
           ag_trackSid = mt_trackSid (gr_mediaTrack grant), ag_bindingId = tb_id (gr_binding grant),
           ag_bindingRevision = tb_revision (gr_binding grant),
           ag_evidenceMode = as_evidenceMode session, ag_grantToken = lg_token mediaGrant,
           ag_grantExpiresAt = lg_expiresAt mediaGrant, ag_expiresAt = as_expiresAt session,
           ag_voiceprintId = as_voiceprint session\<rparr>)
        (bindM (move_session (ar_organizationId input) (as_id session) SESS_STARTING SESS_ACTIVE)
           (\<lambda>active.
         thenM (analysis_audit input '':active'' ''analysis.session.active'' (as_id active) None None
                  ''analysis-start'')
         (returnM active))))))))"

definition analysis_start :: "provider_env \<Rightarrow> AnalysisRequest \<Rightarrow> session_row op" where
  "analysis_start env input =
     bindM (findAnalysisGrantContext (ar_organizationId input) (ar_analysisSessionId input)) (\<lambda>grant.
     let session = gr_session grant in
     if as_status session = SESS_ACTIVE then returnM session
     else
       thenM (guardM (as_status session = SESS_AUTHORIZED \<or> as_status session = SESS_STARTING)
                (PersistenceConflictError ''Analysis session cannot start from its current state.''))
       (bindM now (\<lambda>t.
        if as_expiresAt session \<le> t
        then move_session (ar_organizationId input) (as_id session) (as_status session) SESS_EXPIRED
        else
          thenM (check_voiceprint (ar_organizationId input) grant)
          (thenM (if as_status session = SESS_AUTHORIZED
                  then bindM (move_session (ar_organizationId input) (as_id session)
                                SESS_AUTHORIZED SESS_STARTING) (\<lambda>_. returnM ())
                  else returnM ())
          (catchM (launch_analysis env input grant) (\<lambda>_.
             thenM (analysis_audit input '':start-pending'' ''analysis.session.start.provider-unknown''
                      (as_id session) (Some AUDIT_FAILED) (Some ''ML_START_FAILED_OR_TIMED_OUT'')
                      ''analysis-start'')
             (throwM (DomainProviderError ''ML'' ''analysis-start'' ''STARTING''))))))))"

text \<open>
  The last transition of \<open>stop\<close> is returned from the \<open>try\<close> without \<open>await\<close>, so its failure is not
  caught.
\<close>

definition analysis_stop :: "provider_env \<Rightarrow> AnalysisRequest \<Rightarrow> string \<Rightarrow> session_row op" where
  "analysis_stop env input reasonCode =
     bindM (findAnalysisGrantContext (ar_organizationId input) (ar_analysisSessionId input)) (\<lambda>grant.
     let session = gr_session grant in
     if as_status session = SESS_STOPPED then returnM session
     else if as_status session = SESS_AUTHORIZED \<or> as_status session = SESS_STARTING
     then
       bindM (move_session (ar_organizationId input) (as_id session) (as_status session) SESS_REVOKED)
         (\<lambda>stopped.
       thenM (analysis_audit input '':stopped'' ''analysis.session.stopped'' (as_id stopped) None
                (Some reasonCode) ''analysis-stop'')
       (returnM stopped))
     else
       thenM (guardM (List.member [SESS_ACTIVE, SESS_DEGRADED, SESS_STOPPING] (as_status session))
                (PersistenceConflictError ''Analysis session cannot stop from its current state.''))
       (thenM (if as_status session \<noteq> SESS_STOPPING
               then bindM (move_session (ar_organizationId input) (as_id session) (as_status session)
                             SESS_STOPPING) (\<lambda>_. returnM ())
               else returnM ())
       (thenM (catchM
          (thenM (guardM (pe_ml env) (Error ''ML control provider unavailable''))
           (thenM (ml_stopAnalysis env (as_id session) reasonCode)
            (session_transition SESS_STOPPING SESS_STOPPED)))
          (\<lambda>_.
           thenM (analysis_audit input '':stop-pending'' ''analysis.session.stop.provider-unknown''
                    (as_id session) (Some AUDIT_FAILED) (Some ''ML_STOP_FAILED_OR_TIMED_OUT'')
                    ''analysis-stop'')
           (throwM (DomainProviderError ''ML'' ''analysis-stop'' ''STOPPING''))))
        (bindM now (\<lambda>t. transitionAnalysisSession (ar_organizationId input) (as_id session)
           SESS_STOPPING SESS_STOPPED None t)))))"


end
