(* ===== verification/Media.thy ===== *)
theory Media
  imports Calls
begin

text \<open>
  \<open>modules/media/track-binding.service.ts\<close>: what a verified LiveKit webhook does to a call; the
  queries of \<open>modules/calls/call-queries.service.ts\<close>; and the expiry of stale records in
  \<open>modules/maintenance/backend-maintenance.service.ts\<close>. \<open>media_request\<close> collects the requests that
  reach calls, tracks, analysis sessions, consents and voiceprints; the properties hold for every
  sequence of them.
\<close>

section \<open>Verified lifecycle events\<close>

definition media_audit ::
  "uuid \<Rightarrow> string \<Rightarrow> string \<Rightarrow> string \<Rightarrow> string \<Rightarrow> uuid \<Rightarrow> AuditOutcome option \<Rightarrow> string option \<Rightarrow>
   string \<Rightarrow> unit op" where
  "media_audit organizationId eventId suffix action targetType targetId outcome reasonCode operation =
     bindM (audit_record
       \<lparr>wa_organizationId = organizationId, wa_actor = None, wa_correlationId = eventId,
        wa_idempotencyKey = Some (''livekit:'' @ eventId @ '':'' @ suffix), wa_action = action,
        wa_targetType = targetType, wa_targetId = targetId, wa_outcome = outcome,
        wa_reasonCode = reasonCode, wa_operation = operation\<rparr>) (\<lambda>_. returnM ())"

definition participant_joined ::
  "VerifiedLiveKitLifecycleEvent \<Rightarrow> call_row \<Rightarrow> participant_row \<Rightarrow> session_row option op" where
  "participant_joined event call participant =
     bindM (markParticipantJoined (ca_org call) (cp_id participant) (lk_occurredAt event)) (\<lambda>_.
     thenM (if ca_status call = CALL_AUTHORIZED
            then thenM (call_transition CALL_AUTHORIZED CALL_ACTIVE)
              (bindM (transitionCall (ca_org call) (ca_id call) CALL_AUTHORIZED CALL_ACTIVE
                        (lk_occurredAt event)) (\<lambda>_. returnM ()))
            else returnM ())
     (thenM (media_audit (ca_org call) (lk_eventId event) ''participant-joined''
               ''media.participant.joined'' ''CallParticipant'' (cp_id participant) None None
               ''verified-livekit-lifecycle'')
      (returnM None)))"

definition participant_ended ::
  "VerifiedLiveKitLifecycleEvent \<Rightarrow> call_row \<Rightarrow> participant_row \<Rightarrow> session_row option op" where
  "participant_ended event call participant =
     bindM (markParticipantEnded (ca_org call) (cp_id participant) (lk_occurredAt event)) (\<lambda>_.
     thenM (media_audit (ca_org call) (lk_eventId event) ''participant-ended''
              ''media.participant.ended'' ''CallParticipant'' (cp_id participant) None None
              ''verified-livekit-lifecycle'')
     (returnM None))"

text \<open>Stop one session at the ML service; a failure is noted in the audit log and passed over.\<close>

definition stop_noted ::
  "provider_env \<Rightarrow> uuid \<Rightarrow> string \<Rightarrow> string \<Rightarrow> string \<Rightarrow> string \<Rightarrow> string \<Rightarrow> uuid \<Rightarrow> unit op" where
  "stop_noted env organizationId eventId reasonCode suffix action operation sessionId =
     catchM (thenM (guardM (pe_ml env) (Error ''ML control provider unavailable''))
               (ml_stopAnalysis env sessionId reasonCode))
       (\<lambda>_. media_audit organizationId eventId (sessionId @ '':'' @ suffix) action
               ''AnalysisSession'' sessionId (Some AUDIT_FAILED) (Some ''ML_STOP_FAILED_OR_TIMED_OUT'')
               operation)"

definition track_unpublished ::
  "provider_env \<Rightarrow> VerifiedLiveKitLifecycleEvent \<Rightarrow> call_row \<Rightarrow> string \<Rightarrow> session_row option op" where
  "track_unpublished env event call trackSid =
     bindM (closeVerifiedTrack (ca_org call) (ca_id call) trackSid (lk_occurredAt event)) (\<lambda>sessions.
     thenM (iterM sessions (stop_noted env (ca_org call) (lk_eventId event) ''TRACK_UNPUBLISHED''
              ''stop-failed'' ''analysis.session.revoke.provider-unknown'' ''track-unpublished''))
     (thenM (media_audit (ca_org call) (lk_eventId event) ''track-unpublished''
               ''media.track.unpublished'' ''Call'' (ca_id call) None None ''track-unpublished'')
      (returnM None)))"

fun evidence_mode_of :: "MlEvidenceMode \<Rightarrow> EvidenceMode" where
  "evidence_mode_of ML_SIMULATED = MODE_SIMULATED"
| "evidence_mode_of ML_SHADOW = MODE_SHADOW"
| "evidence_mode_of ML_CALIBRATED = MODE_CALIBRATED"

text \<open>Only the microphone of the caller may be bound.\<close>

definition bindable :: "VerifiedLiveKitLifecycleEvent \<Rightarrow> participant_row \<Rightarrow> bool" where
  "bindable event participant \<longleftrightarrow>
     cp_role participant = CALLER \<and> lk_trackSource event = Some ''MICROPHONE'' \<and>
     (case lk_mimeType event of None \<Rightarrow> True
      | Some m \<Rightarrow> starts_with ''audio/'' (map ascii_lower m))"

definition track_published ::
  "provider_env \<Rightarrow> VerifiedLiveKitLifecycleEvent \<Rightarrow> call_row \<Rightarrow> participant_row \<Rightarrow> string \<Rightarrow>
   session_row option op" where
  "track_published env event call participant trackSid =
     thenM (guardM (bindable event participant)
              (PersistenceConflictError ''Only the authoritative caller microphone may be bound.''))
     (thenM (guardM (List.member [CALL_AUTHORIZED, CALL_ACTIVE] (ca_status call))
              (PersistenceConflictError ''Call is not accepting media bindings.''))
     (bindM (case ca_expectedSpeaker call of None \<Rightarrow> returnM None
             | Some speaker \<Rightarrow> findActiveVoiceprint (ca_org call) speaker) (\<lambda>voiceprint.
      bindM (bindTrackAndCreateAnalysis (ca_org call)
        \<lparr>bi_callId = ca_id call, bi_participantId = cp_id participant, bi_trackSid = trackSid,
         bi_trackSource = (case lk_trackSource event of None \<Rightarrow> [] | Some s \<Rightarrow> s),
         bi_mimeType = lk_mimeType event,
         bi_analysisIdempotencyKey = ''livekit:'' @ lk_eventId event @ '':analysis'',
         bi_analysisExpiresAt = lk_occurredAt event +
           analysisSessionTtlSeconds (c_dependencies (pe_config env)) * 1000,
         bi_evidenceMode = Some (evidence_mode_of (mlEvidenceMode (c_dependencies (pe_config env)))),
         bi_voiceprintId = map_option vp_id voiceprint\<rparr>) (\<lambda>bound.
      thenM (iterM (bt_supersededAnalysisSessionIds bound)
               (stop_noted env (ca_org call) (lk_eventId event) ''TRACK_SUPERSEDED''
                  ''superseded-stop-failed'' ''analysis.session.superseded.provider-unknown''
                  ''track-republish''))
      (thenM (media_audit (ca_org call) (lk_eventId event) ''track-bound'' ''media.track.bound''
                ''TrackBinding'' (tb_id (bt_binding bound)) None None ''track-published'')
       (bindM (analysis_start env
          \<lparr>ar_organizationId = ca_org call, ar_analysisSessionId = as_id (bt_analysisSession bound),
           ar_correlationId = lk_eventId event,
           ar_idempotencyKey = ''livekit:'' @ lk_eventId event @ '':analysis-start''\<rparr>) (\<lambda>session.
        returnM (Some session))))))))"

definition handleVerifiedLifecycle ::
  "provider_env \<Rightarrow> VerifiedLiveKitLifecycleEvent \<Rightarrow> session_row option op" where
  "handleVerifiedLifecycle env event =
     (if lk_eventType event = Room_finished then returnM None
      else case lk_participantIdentity event of
        None \<Rightarrow> throwM (PersistenceConflictError ''Verified participant identity is required.'')
      | Some identity \<Rightarrow>
          bindM (findByVerifiedRoomParticipant (lk_roomName event) identity) (\<lambda>(call, participant).
          if lk_eventType event = Participant_joined then participant_joined event call participant
          else if lk_eventType event = Participant_left \<or>
                  lk_eventType event = Participant_connection_aborted
          then participant_ended event call participant
          else case lk_trackSid event of
            None \<Rightarrow> throwM (PersistenceConflictError ''Verified track SID is required.'')
          | Some trackSid \<Rightarrow>
              if lk_eventType event = Track_unpublished
              then track_unpublished env event call trackSid
              else track_published env event call participant trackSid))"

section \<open>Queries\<close>

definition assertReadable :: "AuthPrincipal \<Rightarrow> uuid \<Rightarrow> unit op" where
  "assertReadable subject callId =
     thenM (may_do subject P_call_read)
     (bindM (findCallAggregate (pr_organizationId subject) callId) (\<lambda>_. returnM ()))"

record CurrentCall =
  cu_aggregate :: CallAggregate
  cu_assessment :: "assessment_row option"
  cu_riskEvent :: "risk_event_row option"
  cu_interventions :: "intervention_row list"

definition queries_current :: "AuthPrincipal \<Rightarrow> uuid \<Rightarrow> CurrentCall op" where
  "queries_current subject callId =
     thenM (may_do subject P_call_read)
     (bindM (findCallAggregate (pr_organizationId subject) callId) (\<lambda>aggregate.
      bindM (find_latest assessments_table
               (\<lambda>a. ra_org a = pr_organizationId subject \<and> ra_call a = callId)
               (\<lambda>a. (ra_occurredAt a, ra_id a))) (\<lambda>assessment.
      bindM (find_latest riskEvents_table
               (\<lambda>e. re_org e = pr_organizationId subject \<and> re_call e = callId)
               (\<lambda>e. (re_eventSequence e, re_id e))) (\<lambda>riskEvent.
      bindM (find_many interventions_table (\<lambda>i. iv_org i = pr_organizationId subject \<and>
               iv_call i = callId \<and>
               List.member [IV_REQUIRED, IV_ACKNOWLEDGED, IV_IN_PROGRESS] (iv_status i))) (\<lambda>interventions.
      returnM \<lparr>cu_aggregate = aggregate, cu_assessment = assessment, cu_riskEvent = riskEvent,
        cu_interventions = rev (sort_key (\<lambda>i. (iv_requiredAt i, iv_id i)) interventions)\<rparr>)))))"

definition queries_active ::
  "cursor_codec \<Rightarrow> AuthPrincipal \<Rightarrow> PageRequest \<Rightarrow> call_row PageResult op" where
  "queries_active codec subject page =
     thenM (may_do subject P_call_read) (listActiveCalls codec (pr_organizationId subject) page)"

definition queries_riskEvents ::
  "cursor_codec \<Rightarrow> AuthPrincipal \<Rightarrow> uuid \<Rightarrow> PageRequest \<Rightarrow> risk_event_row PageResult op" where
  "queries_riskEvents codec subject callId page =
     thenM (may_do subject P_risk_event_read)
     (bindM (findCallAggregate (pr_organizationId subject) callId) (\<lambda>_.
      listRiskEvents codec (pr_organizationId subject) callId page))"

definition queries_riskAssessments ::
  "cursor_codec \<Rightarrow> AuthPrincipal \<Rightarrow> uuid \<Rightarrow> PageRequest \<Rightarrow> assessment_row PageResult op" where
  "queries_riskAssessments codec subject callId page =
     thenM (may_do subject P_risk_event_read)
     (bindM (findCallAggregate (pr_organizationId subject) callId) (\<lambda>_.
      listRiskAssessments codec (pr_organizationId subject) callId page))"

section \<open>Maintenance\<close>

definition lapsed :: "instant \<Rightarrow> instant option \<Rightarrow> bool" where
  "lapsed t expiresAt \<longleftrightarrow> (case expiresAt of None \<Rightarrow> False | Some e \<Rightarrow> e \<le> t)"

definition expire_sessions :: "instant \<Rightarrow> nat op" where
  "expire_sessions t = update_rows sessions_table
     (\<lambda>s. as_expiresAt s \<le> t \<and> live_status (as_status s))
     (\<lambda>s. s\<lparr>as_status := SESS_EXPIRED, as_stoppedAt := Some t,
            as_failureCode := Some ''SESSION_TTL_EXPIRED''\<rparr>)"

definition expire_challenges :: "instant \<Rightarrow> nat op" where
  "expire_challenges t = update_rows challenges_table
     (\<lambda>c. vc_expiresAt c \<le> t \<and> vc_status c = VC_PENDING)
     (\<lambda>c. c\<lparr>vc_status := VC_EXPIRED, vc_completedAt := Some t,
            vc_resultCode := Some ''CHALLENGE_TTL_EXPIRED''\<rparr>)"

definition expire_interventions :: "instant \<Rightarrow> nat op" where
  "expire_interventions t = update_rows interventions_table
     (\<lambda>i. lapsed t (iv_expiresAt i) \<and> List.member [IV_REQUIRED, IV_ACKNOWLEDGED] (iv_status i))
     (\<lambda>i. i\<lparr>iv_status := IV_EXPIRED, iv_resolvedAt := Some t, iv_leaseId := None,
            iv_leaseExpiresAt := None, iv_nextAttemptAt := None,
            iv_failureCode := Some ''INTERVENTION_TTL_EXPIRED''\<rparr>)"

definition expireStaleRecords :: "bool \<Rightarrow> bool \<Rightarrow> nat op" where
  "expireStaleRecords running shuttingDown =
     (if running \<or> shuttingDown then returnM 0
      else bindM now (\<lambda>t.
        transaction (
          bindM (expire_sessions t) (\<lambda>sessions.
          bindM (expire_challenges t) (\<lambda>challenges.
          bindM (expire_interventions t) (\<lambda>interventions.
          returnM (sessions + challenges + interventions)))))))"

section \<open>Requests\<close>

datatype media_request =
    CreateCall AuthPrincipal CreateCallCommand
  | Invite AuthPrincipal InviteParticipantCommand
  | Answer AuthPrincipal uuid uuid string
  | EndCall AuthPrincipal uuid string string
  | Webhook VerifiedLiveKitLifecycleEvent
  | StartAnalysis AnalysisRequest
  | StopAnalysis AnalysisRequest string
  | CreateSpeaker AuthPrincipal NewTrustedSpeaker string "string option"
  | GrantConsent AuthPrincipal GrantConsentInput
  | RevokeConsent AuthPrincipal uuid string string string
  | DeleteVoiceprint AuthPrincipal uuid string string
  | Enroll AuthPrincipal EnrollInput "string list"
  | Maintenance

fun media_step :: "provider_env \<Rightarrow> world \<Rightarrow> media_request \<Rightarrow> world" where
  "media_step env w (CreateCall p c) = snd (calls_create env p c w)"
| "media_step env w (Invite p c) = snd (calls_invite env p c w)"
| "media_step env w (Answer p c i x) = snd (calls_answer env p c i x w)"
| "media_step env w (EndCall p c k x) = snd (calls_end env p c k x w)"
| "media_step env w (Webhook event) = snd (handleVerifiedLifecycle env event w)"
| "media_step env w (StartAnalysis q) = snd (analysis_start env q w)"
| "media_step env w (StopAnalysis q reason) = snd (analysis_stop env q reason w)"
| "media_step env w (CreateSpeaker p s c k) = snd (speakers_create p s c k w)"
| "media_step env w (GrantConsent p g) = snd (speakers_grantConsent p g w)"
| "media_step env w (RevokeConsent p i r k c) = snd (speakers_revokeConsent env p i r k c w)"
| "media_step env w (DeleteVoiceprint p i k c) = snd (speakers_deleteVoiceprint env p i k c w)"
| "media_step env w (Enroll p e samples) =
     snd (thenM (ephemeral_audio samples) (enroll env p e) w)"
| "media_step env w Maintenance = snd (expireStaleRecords False False w)"

section \<open>What the services rely on\<close>

text \<open>
  \<open>repositories\<close> is the interface between the services and the repositories: an invariant of the
  database that every repository operation the services call keeps, the status changes for the
  transitions that the services ask for. The services are then free to call them in any order.
\<close>

locale repositories =
  fixes I :: "db \<Rightarrow> bool"
  assumes audit: "keeps (on_db I) (audit_record entry)"
    and create_call: "keeps (on_db I) (createCallWithParticipants context call_input)"
    and add: "keeps (on_db I) (addParticipant context i participant)"
    and joined: "keeps (on_db I) (markParticipantJoined context i t)"
    and ended: "keeps (on_db I) (markParticipantEnded context i t)"
    and move_call: "b \<in> set (callTransitions a) \<Longrightarrow> keeps (on_db I) (transitionCall context i a b t)"
    and bind_track: "keeps (on_db I) (bindTrackAndCreateAnalysis context bind_input)"
    and close_track: "keeps (on_db I) (closeVerifiedTrack context i sid t)"
    and move_analysis: "(live_status y \<Longrightarrow> live_status x) \<Longrightarrow>
      keeps (on_db I) (transitionAnalysisSession context i x y code t)"
    and speaker: "keeps (on_db I) (createTrustedSpeaker context speaker_input)"
    and grant: "keeps (on_db I) (enrollment_grantConsent context consent_input)"
    and revoke: "keeps (on_db I) (enrollment_revokeConsent context i reason)"
    and delete: "keeps (on_db I) (enrollment_deleteVoiceprint context i)"
    and activate: "keeps (on_db I) (activateVoiceprint context voiceprint_input)"
    and expire: "keeps (on_db I) (expireStaleRecords running stopping)"
begin

lemma audits:
  "keeps (on_db I) (audit_as subject c key action type i outcome reason operation)"
  "keeps (on_db I) (analysis_audit q suffix action i outcome reason operation)"
  "keeps (on_db I) (media_audit org' e suffix action type i outcome reason operation)"
  unfolding audit_as_def analysis_audit_def media_audit_def by (intro hoare audit)+

lemma reads:
  "keeps (on_db I) (findTrustedSpeaker context i)" "keeps (on_db I) (findConsent context i)"
  "keeps (on_db I) (findActiveVoiceprint context i)" "keeps (on_db I) (findTenantCall context i)"
  "keeps (on_db I) (findCallAggregate context i)"
  "keeps (on_db I) (findByVerifiedRoomParticipant room i)"
  "keeps (on_db I) (listOpenAnalysisSessions context i)"
  "keeps (on_db I) (findAnalysisGrantContext context i)" "keeps (on_db I) (may_do subject p)"
  unfolding findTrustedSpeaker_def findConsent_def findActiveVoiceprint_def findTenantCall_def
    findCallAggregate_def findByVerifiedRoomParticipant_def listOpenAnalysisSessions_def
    findAnalysisGrantContext_def may_do_def
  by (auto intro!: hoare split: list.split)

lemma call_check: "keeps (on_db I) (call_transition a b)" "keeps (on_db I) (session_transition x y)"
  unfolding call_transition_def session_transition_def by (intro hoare)+

lemmas rules = audits reads call_check create_call add joined ended bind_track close_track speaker
  grant revoke delete activate keeps_stop_sessions keeps_finallyM

lemma move_session:
  "(live_status y \<Longrightarrow> live_status x) \<Longrightarrow> keeps (on_db I) (move_session context i x y)"
  unfolding move_session_def by (intro hoare call_check move_analysis) simp_all

lemma enrollment:
  "keeps (on_db I) (speakers_create subject s c key)"
  "keeps (on_db I) (speakers_grantConsent subject g)"
  "keeps (on_db I) (speakers_revokeConsent env subject i reason key' c)"
  "keeps (on_db I) (speakers_deleteVoiceprint env subject i key' c)"
  "keeps (on_db I) (enroll env subject e)"
  unfolding speakers_create_def speakers_grantConsent_def speakers_revokeConsent_def
    speakers_deleteVoiceprint_def enroll_def enroll_voice_def enroll_failed_def
  by (intro hoare rules)+

lemma calls:
  "keeps (on_db I) (calls_create env subject command)"
  "keeps (on_db I) (calls_invite env subject invitation)"
  "keeps (on_db I) (calls_answer env subject i j c)"
  "keeps (on_db I) (calls_end env subject i key c)"
  unfolding calls_create_def calls_invite_def calls_answer_def calls_end_def cancel_call_def
    clean_up_call_def fail_call_def Let_def
  by (intro hoare rules move_call; simp)+

lemma analysis:
  "keeps (on_db I) (analysis_start env q)" "keeps (on_db I) (analysis_stop env q reason)"
  unfolding analysis_start_def analysis_stop_def check_voiceprint_def launch_analysis_def Let_def
  by (intro hoare rules move_session move_analysis; auto simp: live_status_def)+

lemma media:
  "keeps (on_db I) (handleVerifiedLifecycle env event)"
  unfolding handleVerifiedLifecycle_def participant_joined_def participant_ended_def
    track_unpublished_def track_published_def stop_noted_def
  by (intro hoare rules analysis move_call; simp)

lemma step: "on_db I w \<Longrightarrow> on_db I (media_step env w q)"
proof (cases q)
  case (Enroll p e samples)
  have "keeps (on_db I) (thenM (ephemeral_audio samples) (enroll env p e))"
    unfolding ephemeral_audio_def by (intro hoare enrollment keeps_modifyM) simp
  then show "on_db I w \<Longrightarrow> ?thesis" using Enroll by (auto intro: keeps_sndD)
qed (auto intro: keeps_sndD calls media analysis enrollment expire)

lemma steps: "on_db I w \<Longrightarrow> on_db I (foldl (media_step env) w requests)"
  by (induction requests arbitrary: w) (simp_all add: step)

end

end
