(* ===== verification/Call_Invariants.thy ===== *)
theory Call_Invariants
  imports Media Risk_Pipeline
begin

text \<open>
  What the repositories promise to the services of calls, media, analysis and enrollment: the
  interpretations of \<open>repositories\<close> for three invariants of the database, and the properties of
  every sequence of requests that follow.
\<close>

section \<open>Live sessions\<close>

definition live_in :: "uuid \<Rightarrow> uuid \<Rightarrow> session_row \<Rightarrow> bool" where
  "live_in organizationId callId s \<longleftrightarrow>
     as_org s = organizationId \<and> as_call s = callId \<and> live_status (as_status s)"

text \<open>A session listens to a binding: the one it was created for, active, of the same call.\<close>

definition listens :: "session_row \<Rightarrow> binding_row \<Rightarrow> bool" where
  "listens s b \<longleftrightarrow> tb_id b = as_binding s \<and> tb_org b = as_org s \<and> tb_call b = as_call s \<and>
     tb_status b = BIND_ACTIVE"

definition single_live :: "session_row list \<Rightarrow> bool" where
  "single_live ss \<longleftrightarrow> (\<forall>organizationId callId. length (filter (live_in organizationId callId) ss) \<le> 1)"

definition heard :: "db \<Rightarrow> bool" where
  "heard d \<longleftrightarrow> single_live (d_sessions d) \<and>
     (\<forall>s \<in> set (d_sessions d). live_status (as_status s) \<longrightarrow> (\<exists>b \<in> set (d_bindings d). listens s b))"

text \<open>All but the sessions that a transaction is about to end, and a call without live sessions.\<close>

definition heard_but :: "(session_row \<Rightarrow> bool) \<Rightarrow> db \<Rightarrow> bool" where
  "heard_but P d \<longleftrightarrow> single_live (d_sessions d) \<and>
     (\<forall>s \<in> set (d_sessions d). live_status (as_status s) \<longrightarrow> \<not> P s \<longrightarrow>
        (\<exists>b \<in> set (d_bindings d). listens s b))"

definition silent :: "uuid \<Rightarrow> uuid \<Rightarrow> db \<Rightarrow> bool" where
  "silent organizationId callId d \<longleftrightarrow> heard d \<and>
     (\<forall>s \<in> set (d_sessions d). \<not> live_in organizationId callId s)"

lemma filter_change_le:
  assumes "\<And>r. r \<in> set rs \<Longrightarrow> P r \<Longrightarrow> Q (f r) \<Longrightarrow> Q r"
  shows "length (filter Q (change_rows P f rs)) \<le> length (filter Q rs)"
  using assms by (induction rs) (auto simp: change_rows_def)

lemma single_live_change:
  assumes "single_live ss"
    and "\<And>s. P s \<Longrightarrow> live_status (as_status (f s)) \<Longrightarrow> live_status (as_status s)"
    and "\<And>s. as_org (f s) = as_org s \<and> as_call (f s) = as_call s"
  shows "single_live (change_rows P f ss)"
  unfolding single_live_def
proof (intro allI)
  fix o' c
  have "length (filter (live_in o' c) (change_rows P f ss)) \<le> length (filter (live_in o' c) ss)"
    by (rule filter_change_le) (use assms(2,3) in \<open>auto simp: live_in_def\<close>)
  also have "\<dots> \<le> 1" using assms(1) by (simp add: single_live_def)
  finally show "length (filter (live_in o' c) (change_rows P f ss)) \<le> 1" .
qed

lemma listens_change:
  "as_binding (f s) = as_binding s \<Longrightarrow> as_org (f s) = as_org s \<Longrightarrow> as_call (f s) = as_call s \<Longrightarrow>
     listens (f s) b = listens s b"
  by (simp add: listens_def)

lemma heard_change:
  assumes "heard d"
    and "\<And>s. P s \<Longrightarrow> live_status (as_status (f s)) \<Longrightarrow> live_status (as_status s)"
    and "\<And>s. as_org (f s) = as_org s \<and> as_call (f s) = as_call s \<and> as_binding (f s) = as_binding s"
  shows "heard (d_sessions_update (change_rows P f) d)"
  using assms single_live_change [of "d_sessions d" P f]
  by (auto simp: heard_def set_change_rows listens_change)

lemma heard_frame [simp]:
  "heard (d_audit_update fa d) = heard d" "heard (d_calls_update fc d) = heard d"
  "heard (d_participants_update fp d) = heard d" "heard (d_tracks_update ft d) = heard d"
  "heard (d_voiceprints_update fv d) = heard d" "heard (d_consents_update fo d) = heard d"
  "heard (d_speakers_update fs d) = heard d" "heard (d_challenges_update fh d) = heard d"
  "heard (d_interventions_update fi d) = heard d"
  by (simp_all add: heard_def)

lemma silent_frame [simp]:
  "silent o' c (d_tracks_update ft d) = silent o' c d"
  by (simp add: silent_def)

lemma not_live [simp]:
  "\<not> live_status SESS_REVOKED" "\<not> live_status SESS_EXPIRED" "\<not> live_status SESS_STOPPED"
  "\<not> live_status SESS_STOPPING" "\<not> live_status SESS_FAILED" "live_status SESS_AUTHORIZED"
  by (simp_all add: live_status_def)

lemma keeps_heard_end:
  "\<not> live_status status \<Longrightarrow> keeps (on_db heard) (end_sessions status t P)"
  by (rule keeps_end_sessions) (rule heard_change, auto)

lemma keeps_heard_updates:
  "keeps (on_db heard) (update_rows calls_table Pc fc)"
  "keeps (on_db heard) (update_rows participants_table Pp fp)"
  "keeps (on_db heard) (update_rows tracks_table Pt ft)"
  "keeps (on_db heard) (update_rows voiceprints_table Pv fv)"
  "keeps (on_db heard) (update_rows consents_table Po fo)"
  "keeps (on_db heard) (update_rows speakers_table Ps fs)"
  "keeps (on_db heard) (update_rows challenges_table Ph fh)"
  "keeps (on_db heard) (update_rows interventions_table Pi fi)"
  by (rule keeps_update_rows; simp add: table_defs)+

lemma keeps_heard_creates:
  "keeps (on_db heard) (create calls_table rc)" "keeps (on_db heard) (create participants_table rp)"
  "keeps (on_db heard) (create voiceprints_table rv)" "keeps (on_db heard) (create consents_table ro)"
  "keeps (on_db heard) (create speakers_table rs)" "keeps (on_db heard) (create tracks_table rt)"
  by (rule keeps_create; simp add: table_defs)+

lemmas heard_rules = keeps_heard_updates keeps_heard_creates keeps_heard_end keeps_update_one

text \<open>Binding a track: supersede, revoke, and create what listens.\<close>

lemma supersede_gives:
  "gives (on_db heard) (supersede_binding o' c t)
     (\<lambda>_. on_db (heard_but (\<lambda>s. as_org s = o' \<and> as_call s = c)))"
  unfolding supersede_binding_def
  by (rule givesI) (fastforce simp: update_rows_run bindings_table_def on_db_def heard_def
      heard_but_def set_change_rows listens_def)

lemma revoke_gives:
  "gives (\<lambda>w. on_db (heard_but P) w \<and>
            (\<forall>s \<in> set (d_sessions (w_db w)). P s \<longrightarrow> live_status (as_status s) \<longrightarrow> List.member ids (as_id s)))
     (revoke_sessions ids t)
     (\<lambda>_ w. on_db heard w \<and> (\<forall>s \<in> set (d_sessions (w_db w)). P s \<longrightarrow> \<not> live_status (as_status s)))"
  if frame: "\<And>s t. P (s\<lparr>as_status := SESS_REVOKED, as_stoppedAt := t\<rparr>) = P s"
proof (rule givesI)
  fix w n w'
  let ?f = "\<lambda>s. s\<lparr>as_status := SESS_REVOKED, as_stoppedAt := Some t\<rparr>"
  assume w: "on_db (heard_but P) w \<and>
      (\<forall>s \<in> set (d_sessions (w_db w)). P s \<longrightarrow> live_status (as_status s) \<longrightarrow> List.member ids (as_id s))"
    and r: "revoke_sessions ids t w = (Inr n, w')"
  have w': "d_sessions (w_db w') = change_rows (\<lambda>s. List.member ids (as_id s)) ?f (d_sessions (w_db w))"
    "d_bindings (w_db w') = d_bindings (w_db w)"
    using r by (auto simp: revoke_sessions_def end_sessions_def update_rows_run sessions_table_def)
  have "single_live (d_sessions (w_db w'))"
    unfolding w' by (rule single_live_change) (use w in \<open>auto simp: on_db_def heard_but_def\<close>)
  moreover have "listens (?f s) b = listens s b" for s b by (rule listens_change) simp_all
  ultimately show "on_db heard w' \<and> (\<forall>s \<in> set (d_sessions (w_db w')). P s \<longrightarrow> \<not> live_status (as_status s))"
    using w by (auto simp: on_db_def heard_def heard_but_def w' set_change_rows frame)
qed

lemma create_track_gives:
  "gives (on_db (silent o' c)) (create_track o' input t) (\<lambda>_. on_db (silent o' c))"
  unfolding create_track_def
  by (intro gives_keeps hoare keeps_create) (simp_all add: tracks_table_def)

lemma create_binding_gives:
  "gives (on_db (silent o' (bi_callId input))) (create_binding o' input track revision t)
     (\<lambda>b w. on_db (silent o' (bi_callId input)) w \<and> b \<in> set (d_bindings (w_db w)) \<and>
        tb_org b = o' \<and> tb_call b = bi_callId input \<and> tb_status b = BIND_ACTIVE)"
  by (rule givesI)
    (auto simp: create_binding_def run_simps bindings_table_def on_db_def silent_def heard_def)

lemma single_live_snoc:
  "single_live ss \<Longrightarrow> \<forall>s \<in> set ss. \<not> live_in (as_org r) (as_call r) s \<Longrightarrow> single_live (ss @ [r])"
proof -
  assume ss: "single_live ss" and none: "\<forall>s \<in> set ss. \<not> live_in (as_org r) (as_call r) s"
  from none have nil: "filter (live_in (as_org r) (as_call r)) ss = []"
    by (simp add: filter_empty_conv)
  show ?thesis unfolding single_live_def
  proof (intro allI)
    fix o' c
    have "length (filter (live_in o' c) ss) \<le> 1" using ss by (simp add: single_live_def)
    moreover have "live_in o' c r \<Longrightarrow> filter (live_in o' c) ss = []"
      using nil by (auto simp: live_in_def)
    ultimately show "length (filter (live_in o' c) (ss @ [r])) \<le> 1" by auto
  qed
qed

lemma create_analysis_session_gives:
  "gives (\<lambda>w. on_db (silent o' (bi_callId input)) w \<and> b \<in> set (d_bindings (w_db w)) \<and>
        tb_org b = o' \<and> tb_call b = bi_callId input \<and> tb_status b = BIND_ACTIVE)
     (create_analysis_session o' input (tb_id b) revision t) (\<lambda>_. on_db heard)"
  by (rule givesI)
    (auto simp: create_analysis_session_def run_simps sessions_table_def on_db_def silent_def heard_def
      listens_def intro!: single_live_snoc, blast)

lemma bind_new_track_gives:
  "gives (on_db heard) (bind_new_track o' input call) (\<lambda>_. on_db heard)"
  unfolding bind_new_track_def
proof (rule gives_bind)
  show "gives (on_db heard) (next_revision o' (bi_callId input)) (\<lambda>_. on_db heard)"
    unfolding next_revision_def by (intro gives_keeps hoare)
next
  fix revision
  let ?call = "\<lambda>s. as_org s = o' \<and> as_call s = bi_callId input"
  show "gives (on_db heard) (bindM now (\<lambda>t.
     bindM (supersede_binding o' (bi_callId input) t) (\<lambda>_.
     bindM (find_many sessions_table (\<lambda>s. as_org s = o' \<and> as_call s = bi_callId input \<and>
              live_status (as_status s))) (\<lambda>superseded.
     bindM (revoke_sessions (map as_id superseded) t) (\<lambda>_.
     bindM (create_track o' input t) (\<lambda>track.
     bindM (create_binding o' input (mt_id track) revision t) (\<lambda>binding.
     bindM (create_analysis_session o' input (tb_id binding) revision t) (\<lambda>session.
     bindM (activate_call o' (bi_callId input) (case ca_startedAt call of None \<Rightarrow> t | Some x \<Rightarrow> x)) (\<lambda>_.
     returnM \<lparr>bt_binding = binding, bt_analysisSession = session, bt_mediaTrack = track,
       bt_supersededAnalysisSessionIds = map as_id superseded\<rparr>))))))))) (\<lambda>_. on_db heard)"
  proof (rule gives_bind, rule gives_keeps, rule keeps_now, simp, rule gives_bind, rule supersede_gives,
      rule gives_bind)
    show "gives (on_db (heard_but ?call)) (find_many sessions_table (\<lambda>s. as_org s = o' \<and>
         as_call s = bi_callId input \<and> live_status (as_status s)))
       (\<lambda>ss w. on_db (heard_but ?call) w \<and> (\<forall>s \<in> set (d_sessions (w_db w)). ?call s \<longrightarrow>
          live_status (as_status s) \<longrightarrow> List.member (map as_id ss) (as_id s)))"
      by (rule givesI) (auto simp: run_simps sessions_table_def)
  next
    fix t u superseded
    have revoked: "on_db heard w \<and> (\<forall>s \<in> set (d_sessions (w_db w)). ?call s \<longrightarrow> \<not> live_status (as_status s)) \<Longrightarrow>
        on_db (silent o' (bi_callId input)) w" for w
      by (auto simp: on_db_def silent_def live_in_def)
    show "gives (\<lambda>w. on_db (heard_but ?call) w \<and> (\<forall>s \<in> set (d_sessions (w_db w)). ?call s \<longrightarrow>
          live_status (as_status s) \<longrightarrow> List.member (map as_id superseded) (as_id s)))
      (bindM (revoke_sessions (map as_id superseded) t) (\<lambda>_.
       bindM (create_track o' input t) (\<lambda>track.
       bindM (create_binding o' input (mt_id track) revision t) (\<lambda>binding.
       bindM (create_analysis_session o' input (tb_id binding) revision t) (\<lambda>session.
       bindM (activate_call o' (bi_callId input) (case ca_startedAt call of None \<Rightarrow> t | Some x \<Rightarrow> x)) (\<lambda>_.
       returnM \<lparr>bt_binding = binding, bt_analysisSession = session, bt_mediaTrack = track,
         bt_supersededAnalysisSessionIds = map as_id superseded\<rparr>)))))) (\<lambda>_. on_db heard)"
    proof (rule gives_bind)
      show "gives (\<lambda>w. on_db (heard_but ?call) w \<and> (\<forall>s \<in> set (d_sessions (w_db w)). ?call s \<longrightarrow>
          live_status (as_status s) \<longrightarrow> List.member (map as_id superseded) (as_id s)))
        (revoke_sessions (map as_id superseded) t) (\<lambda>_. on_db (silent o' (bi_callId input)))"
        using revoke_gives [of ?call "map as_id superseded" t] revoked
        by (fastforce simp: valid_def split: prod.splits sum.splits)
    qed (intro gives_bind [OF create_track_gives] gives_bind [OF create_binding_gives]
        gives_bind [OF create_analysis_session_gives], unfold activate_call_def,
        intro gives_keeps hoare heard_rules)
  qed
qed

lemma keeps_rebind: "keeps (on_db I) (rebind_track o' input track)"
  unfolding rebind_track_def by (auto intro!: hoare split: option.split)

lemma keeps_heard_bind: "keeps (on_db heard) (bindTrackAndCreateAnalysis context input)"
proof -
  have "gives (on_db heard) (bind_track o' input) (\<lambda>_. on_db heard)" for o'
    unfolding bind_track_def
    by (intro gives_keep_bind gives_case_option gives_keep_then bind_new_track_gives
        gives_keeps [OF keeps_throwM] gives_keeps [OF keeps_rebind] hoare)
  then have body: "keeps (on_db heard) (serializable (bind_track o' input))" for o'
    by (rule keeps_serializable_gives)
  show ?thesis
    unfolding bindTrackAndCreateAnalysis_def
    by (intro keeps_bindM keeps_thenM keeps_liftE keeps_guardM keeps_now body) simp
qed

text \<open>Closing a track: its binding, and every session that listened to it.\<close>

definition covers :: "uuid \<Rightarrow> uuid \<Rightarrow> uuid list \<Rightarrow> db \<Rightarrow> bool" where
  "covers o' bindingId ids d \<longleftrightarrow> (\<forall>s \<in> set (d_sessions d). as_org s = o' \<and> as_binding s = bindingId \<longrightarrow>
     live_status (as_status s) \<longrightarrow> List.member ids (as_id s))"

lemma live_open: "live_status s \<Longrightarrow> open_status s"
  by (auto simp: live_status_def open_status_def)

lemma close_track_gives:
  "gives (on_db heard) (close_track o' track t) (\<lambda>_. on_db heard)"
proof -
  let ?of = "\<lambda>b s. as_org s = o' \<and> as_binding s = tb_id b"
  let ?close = "\<lambda>b. update_one bindings_table (\<lambda>x. tb_org x = o' \<and> tb_id x = tb_id b)
      (\<lambda>x. x\<lparr>tb_status := BIND_REVOKED, tb_endedAt := Some t\<rparr>)"
  let ?track = "update_one tracks_table (\<lambda>x. mt_org x = o' \<and> mt_id x = mt_id track)
      (\<lambda>x. x\<lparr>mt_status := TRACK_UNPUBLISHED, mt_endedAt := Some t\<rparr>)"
  let ?mine = "\<lambda>b. find_many sessions_table (\<lambda>s. as_org s = o' \<and> as_binding s = tb_id b \<and>
      open_status (as_status s))"
  have find: "gives (on_db heard) (?mine b)
      (\<lambda>ss. on_db (\<lambda>d. heard d \<and> covers o' (tb_id b) (map as_id ss) d))" for b
    by (rule givesI) (auto simp: run_simps sessions_table_def on_db_def covers_def live_open)
  have track: "gives (on_db (\<lambda>d. heard d \<and> covers o' i ids d)) ?track
      (\<lambda>_. on_db (\<lambda>d. heard d \<and> covers o' i ids d))" for i ids
    by (intro gives_keeps keeps_update_one keeps_update_rows) (simp add: tracks_table_def covers_def)
  have close: "gives (on_db (\<lambda>d. heard d \<and> covers o' (tb_id b) ids d)) (?close b)
      (\<lambda>_ w. on_db (heard_but (?of b)) w \<and> (\<forall>s \<in> set (d_sessions (w_db w)). ?of b s \<longrightarrow>
          live_status (as_status s) \<longrightarrow> List.member ids (as_id s)))" for b ids
    by (rule givesI) (fastforce simp: update_one_run update_rows_run bindings_table_def on_db_def
        heard_def heard_but_def covers_def set_change_rows listens_def)
  have revoke: "gives (\<lambda>w. on_db (heard_but (?of b)) w \<and> (\<forall>s \<in> set (d_sessions (w_db w)). ?of b s \<longrightarrow>
          live_status (as_status s) \<longrightarrow> List.member ids (as_id s)))
      (revoke_sessions ids t) (\<lambda>_. on_db heard)" for b ids
    using revoke_gives [of "?of b" ids t] by (fastforce simp: valid_def split: prod.splits sum.splits)
  have keeps: "keeps (on_db heard) ?track" "keeps (on_db heard) (revoke_sessions ids t)" for ids
    unfolding revoke_sessions_def by (intro heard_rules; simp)+
  show ?thesis
    unfolding close_track_def
  proof (rule gives_keep_bind [OF keeps_reads(3)])
    fix binding
    show "gives (on_db heard)
      (bindM (case binding of None \<Rightarrow> returnM [] | Some b \<Rightarrow> ?mine b) (\<lambda>sessions.
       bindM ?track (\<lambda>_.
       bindM (case binding of None \<Rightarrow> returnM ()
            | Some b \<Rightarrow> if tb_status b = BIND_ACTIVE
                then bindM (?close b) (\<lambda>_. returnM ()) else returnM ()) (\<lambda>_.
       bindM (revoke_sessions (map as_id sessions) t) (\<lambda>_.
       returnM (map as_id sessions)))))) (\<lambda>_. on_db heard)"
    proof (cases "\<exists>b. binding = Some b \<and> tb_status b = BIND_ACTIVE")
      case True
      then obtain b where b: "binding = Some b" "tb_status b = BIND_ACTIVE" by blast
      show ?thesis
        unfolding b(1) option.case bindM_assoc bindM_returnM if_P [OF b(2)]
        by (intro gives_bind [OF find] gives_bind [OF track] gives_bind [OF close]
            gives_bind [OF revoke] gives_return)
    next
      case False
      then have "(case binding of None \<Rightarrow> returnM ()
            | Some b \<Rightarrow> if tb_status b = BIND_ACTIVE
                then bindM (?close b) (\<lambda>_. returnM ()) else returnM ()) = returnM ()"
        by (auto split: option.split)
      then show ?thesis
        by (simp only: bindM_returnM) (intro gives_keeps hoare keeps)
    qed
  qed
qed

lemma keeps_heard_close: "keeps (on_db heard) (closeVerifiedTrack context i sid t)"
  unfolding closeVerifiedTrack_def
  by (intro keeps_bindM keeps_liftE keeps_serializable_gives gives_keep_bind gives_keep_then
      keeps_find_or_throw keeps_guardM close_track_gives)

lemma session_after_fields [simp]:
  "as_status (session_after y c t s) = y" "as_org (session_after y c t s) = as_org s"
  "as_call (session_after y c t s) = as_call s" "as_binding (session_after y c t s) = as_binding s"
  by (simp_all add: session_after_def Let_def split: option.split)

lemma keeps_heard_move:
  assumes "live_status y \<Longrightarrow> live_status x"
  shows "keeps (on_db heard) (transitionAnalysisSession context i x y code t)"
proof -
  have "keeps (on_db heard) (update_rows sessions_table (\<lambda>s. session_at o' j s \<and> as_status s = x)
      (session_after y c t))" for o' j c
    by (rule keeps_update_rows, simp add: sessions_table_def, rule heard_change)
      (use assms in auto)
  then show ?thesis
    unfolding transitionAnalysisSession_def by (intro hoare)
qed

lemma keeps_heard_expire: "keeps (on_db heard) (expireStaleRecords running stopping)"
proof -
  have "keeps (on_db heard) (expire_sessions t)" for t
    unfolding expire_sessions_def
    by (rule keeps_update_rows, simp add: sessions_table_def, rule heard_change) auto
  then show ?thesis
    unfolding expireStaleRecords_def expire_challenges_def expire_interventions_def
    by (intro hoare heard_rules) simp_all
qed

interpretation heard_repositories: repositories heard
proof unfold_locales
  show "keeps (on_db heard) (audit_record entry)" for entry
    by (rule keeps_audit_record) simp
  show "keeps (on_db heard) (createCallWithParticipants context input)" for "context" input
    unfolding createCallWithParticipants_def insert_call_def create_participant_def
    by (intro hoare heard_rules) simp_all
  show "keeps (on_db heard) (addParticipant context i participant)" for "context" i participant
    unfolding addParticipant_def create_participant_def by (intro hoare heard_rules) simp_all
  show "keeps (on_db heard) (markParticipantJoined context i t)" for "context" i t
    unfolding markParticipantJoined_def by (intro hoare heard_rules)
  show "keeps (on_db heard) (markParticipantEnded context i t)" for "context" i t
    unfolding markParticipantEnded_def by (intro hoare heard_rules)
  show "keeps (on_db heard) (transitionCall context i a b t)" for "context" i a b t
    unfolding transitionCall_def findTenantCall_def by (intro hoare heard_rules)
  show "keeps (on_db heard) (createTrustedSpeaker context input)" for "context" input
    unfolding createTrustedSpeaker_def by (intro hoare heard_rules) simp_all
  show "keeps (on_db heard) (enrollment_grantConsent context input)" for "context" input
    unfolding enrollment_grantConsent_def by (intro hoare heard_rules) simp_all
  show "keeps (on_db heard) (enrollment_revokeConsent context i reason)" for "context" i reason
    unfolding enrollment_revokeConsent_def revoke_granted_def revoke_sessions_def
    by (intro hoare heard_rules) simp_all
  show "keeps (on_db heard) (enrollment_deleteVoiceprint context i)" for "context" i
    unfolding enrollment_deleteVoiceprint_def revoke_sessions_def
    by (intro hoare heard_rules) simp_all
  show "keeps (on_db heard) (activateVoiceprint context input)" for "context" input
    unfolding activateVoiceprint_def require_active_consent_def store_voiceprint_def
    by (intro hoare heard_rules) simp_all
qed (rule keeps_heard_bind keeps_heard_close keeps_heard_move keeps_heard_expire; assumption?)+

section \<open>The lifecycle of a call\<close>

definition follows :: "call_row list \<Rightarrow> call_row list \<Rightarrow> bool" where
  "follows cs0 cs \<longleftrightarrow> (\<forall>c \<in> set cs0. \<exists>c' \<in> set cs. ca_id c' = ca_id c \<and> ca_org c' = ca_org c \<and>
     reaches callTransitions (ca_status c) (ca_status c'))"

definition on_course :: "call_row list \<Rightarrow> db \<Rightarrow> bool" where
  "on_course cs0 d \<longleftrightarrow> calls_db.consistent d \<and> follows cs0 (d_calls d)"

lemma follows_snoc: "follows cs0 cs \<Longrightarrow> follows cs0 (cs @ [c])"
  unfolding follows_def by fastforce

lemma follows_change:
  assumes "follows cs0 cs"
    and "\<And>c. c \<in> set cs \<Longrightarrow> P c \<Longrightarrow> ca_id (f c) = ca_id c \<and> ca_org (f c) = ca_org c \<and>
      reaches callTransitions (ca_status c) (ca_status (f c))"
  shows "follows cs0 (change_rows P f cs)"
  unfolding follows_def
proof
  fix c assume "c \<in> set cs0"
  with assms(1) obtain c' where c': "c' \<in> set cs" "ca_id c' = ca_id c" "ca_org c' = ca_org c"
    "reaches callTransitions (ca_status c) (ca_status c')"
    by (auto simp: follows_def)
  let ?c = "if P c' then f c' else c'"
  have "?c \<in> set (change_rows P f cs)" using c'(1) by (auto simp: change_rows_def)
  moreover have "ca_id ?c = ca_id c \<and> ca_org ?c = ca_org c \<and>
      reaches callTransitions (ca_status c) (ca_status ?c)"
    using c' assms(2) [OF c'(1)] by (auto intro: rtranclp_trans)
  ultimately show "\<exists>c' \<in> set (change_rows P f cs). ca_id c' = ca_id c \<and> ca_org c' = ca_org c \<and>
      reaches callTransitions (ca_status c) (ca_status c')" by blast
qed

lemma consistent_calls_cong: "d_calls d' = d_calls d \<Longrightarrow> on_course cs0 d' = on_course cs0 d"
  unfolding on_course_def calls_db.consistent_def by (simp add: calls_table_def)

lemma on_course_frame [simp]:
  "on_course cs0 (d_audit_update fa d) = on_course cs0 d"
  "on_course cs0 (d_sessions_update fe d) = on_course cs0 d"
  "on_course cs0 (d_bindings_update fb d) = on_course cs0 d"
  "on_course cs0 (d_participants_update fp d) = on_course cs0 d"
  "on_course cs0 (d_tracks_update ft d) = on_course cs0 d"
  "on_course cs0 (d_voiceprints_update fv d) = on_course cs0 d"
  "on_course cs0 (d_consents_update fo d) = on_course cs0 d"
  "on_course cs0 (d_speakers_update fs d) = on_course cs0 d"
  "on_course cs0 (d_challenges_update fh d) = on_course cs0 d"
  "on_course cs0 (d_interventions_update fi d) = on_course cs0 d"
  by (rule consistent_calls_cong, simp)+

lemma keeps_course_updates:
  "keeps (on_db (on_course cs0)) (update_rows participants_table Pp fp)"
  "keeps (on_db (on_course cs0)) (update_rows tracks_table Pt ft)"
  "keeps (on_db (on_course cs0)) (update_rows sessions_table Pe fe)"
  "keeps (on_db (on_course cs0)) (update_rows bindings_table Pb fb)"
  "keeps (on_db (on_course cs0)) (update_rows voiceprints_table Pv fv)"
  "keeps (on_db (on_course cs0)) (update_rows consents_table Po fo)"
  "keeps (on_db (on_course cs0)) (update_rows speakers_table Ps fs)"
  "keeps (on_db (on_course cs0)) (update_rows challenges_table Ph fh)"
  "keeps (on_db (on_course cs0)) (update_rows interventions_table Pi fi)"
  by (rule keeps_update_rows; simp add: table_defs)+

lemma keeps_course_creates:
  "keeps (on_db (on_course cs0)) (create participants_table rp)"
  "keeps (on_db (on_course cs0)) (create tracks_table rt)"
  "keeps (on_db (on_course cs0)) (create sessions_table re)"
  "keeps (on_db (on_course cs0)) (create bindings_table rb)"
  "keeps (on_db (on_course cs0)) (create voiceprints_table rv)"
  "keeps (on_db (on_course cs0)) (create consents_table ro)"
  "keeps (on_db (on_course cs0)) (create speakers_table rs)"
  by (rule keeps_create; simp add: table_defs)+

lemma keeps_course_new: "keeps (on_db (on_course cs0)) (create calls_table c)"
proof (rule keepsI)
  fix w assume w: "on_db (on_course cs0) w"
  then have "on_db calls_db.consistent (snd (create calls_table c w))"
    using keeps_sndD [OF calls_db.create_consistent, of w c] by (simp add: on_db_def on_course_def)
  moreover have "follows cs0 (d_calls (w_db (snd (create calls_table c w))))"
    using w by (auto simp: create_def calls_table_def on_db_def on_course_def follows_snoc)
  ultimately show "on_db (on_course cs0) (snd (create calls_table c w))"
    by (simp add: on_db_def on_course_def)
qed

lemma keeps_course_change:
  assumes "\<And>c d. on_course cs0 d \<Longrightarrow> J d \<Longrightarrow> c \<in> set (d_calls d) \<Longrightarrow> P c \<Longrightarrow> ca_id (f c) = ca_id c \<and>
      ca_org (f c) = ca_org c \<and> reaches callTransitions (ca_status c) (ca_status (f c))"
  shows "on_db (\<lambda>d. on_course cs0 d \<and> J d) w \<Longrightarrow>
    on_db (on_course cs0) (snd (update_rows calls_table P f w))"
proof -
  assume w: "on_db (\<lambda>d. on_course cs0 d \<and> J d) w"
  then have "on_db calls_db.consistent (snd (update_rows calls_table P f w))"
    using keeps_sndD [OF calls_db.update_consistent, of w P f] by (simp add: on_db_def on_course_def)
  moreover have "follows cs0 (d_calls (w_db (snd (update_rows calls_table P f w))))"
  proof -
    have "follows cs0 (change_rows P f (d_calls (w_db w)))"
      using w assms by (intro follows_change) (auto simp: on_db_def on_course_def)
    with w show ?thesis by (auto simp: update_rows_def Let_def calls_table_def on_db_def on_course_def)
  qed
  ultimately show ?thesis by (simp add: on_db_def on_course_def)
qed

text \<open>Binding a track activates the call that the transaction has found to be authorized or active.\<close>

definition bindable_call :: "uuid \<Rightarrow> uuid \<Rightarrow> call_row \<Rightarrow> bool" where
  "bindable_call o' i c \<longleftrightarrow> call_at o' i c \<and> List.member [CALL_AUTHORIZED, CALL_ACTIVE] (ca_status c)"

definition course_with :: "call_row list \<Rightarrow> call_row \<Rightarrow> db \<Rightarrow> bool" where
  "course_with cs0 call d \<longleftrightarrow> on_course cs0 d \<and> call \<in> set (d_calls d)"

lemma keeps_course_with:
  "keeps (on_db (course_with cs0 call)) (update_rows bindings_table Pb fb)"
  "keeps (on_db (course_with cs0 call)) (update_rows sessions_table Ps fs)"
  "keeps (on_db (course_with cs0 call)) (create tracks_table rt)"
  "keeps (on_db (course_with cs0 call)) (create bindings_table rb)"
  "keeps (on_db (course_with cs0 call)) (create sessions_table rs)"
  by (rule keeps_update_rows keeps_create; simp add: table_defs course_with_def)+

lemma reaches_active:
  "List.member [CALL_AUTHORIZED, CALL_ACTIVE] s \<Longrightarrow> reaches callTransitions s CALL_ACTIVE"
  by (cases s) (auto simp: steps_to_def)

lemma activate_call_gives:
  assumes "bindable_call o' i call"
  shows "gives (on_db (course_with cs0 call)) (activate_call o' i t) (\<lambda>_. on_db (on_course cs0))"
proof (rule givesI)
  fix w c w'
  let ?f = "\<lambda>c. c\<lparr>ca_status := CALL_ACTIVE, ca_startedAt := Some t\<rparr>"
  assume w: "on_db (course_with cs0 call) w" and r: "activate_call o' i t w = (Inr c, w')"
  obtain n where n: "update_rows calls_table (call_at o' i) ?f w = (Inr n, w')"
    using r by (auto simp: activate_call_def update_one_run)
  have "on_db (on_course cs0) (snd (update_rows calls_table (call_at o' i) ?f w))"
  proof (rule keeps_course_change [where J = "\<lambda>d. call \<in> set (d_calls d)"])
    fix c d assume c: "on_course cs0 d" "call \<in> set (d_calls d)" "c \<in> set (d_calls d)" "call_at o' i c"
    have "t_clash calls_table c call" using c(4) assms
      by (simp add: calls_table_def call_clash_def call_at_def bindable_call_def)
    then have "c = call"
      using c calls_db.consistent_unique [of d c call] by (simp add: on_course_def calls_table_def)
    with assms show "ca_id (?f c) = ca_id c \<and> ca_org (?f c) = ca_org c \<and>
        reaches callTransitions (ca_status c) (ca_status (?f c))"
      by (simp add: bindable_call_def reaches_active)
  qed (use w in \<open>simp add: on_db_def course_with_def\<close>)
  with n show "on_db (on_course cs0) w'" by simp
qed

lemma bind_new_track_course:
  assumes "bindable_call o' (bi_callId input) call"
  shows "gives (on_db (course_with cs0 call)) (bind_new_track o' input call) (\<lambda>_. on_db (on_course cs0))"
  unfolding bind_new_track_def next_revision_def supersede_binding_def revoke_sessions_def
    end_sessions_def create_track_def create_binding_def create_analysis_session_def
  by (intro gives_bind [OF gives_keeps] hoare keeps_course_with
      gives_bind [OF activate_call_gives [OF assms]] gives_return) simp_all

lemma keeps_course_bind:
  "keeps (on_db (on_course cs0)) (bindTrackAndCreateAnalysis context input)"
proof -
  let ?i = "bi_callId input"
  have found: "gives (on_db (on_course cs0)) (find_unique_row calls_table (call_at o' ?i))
      (\<lambda>found. on_db (\<lambda>d. on_course cs0 d \<and> (\<forall>c. found = Some c \<longrightarrow> c \<in> set (d_calls d) \<and> call_at o' ?i c)))"
    for o'
    by (rule givesI) (auto simp: run_simps calls_table_def on_db_def dest: find_Some_iff2)
  have new: "gives (on_db (\<lambda>d. on_course cs0 d \<and> (\<forall>c. Some call = Some c \<longrightarrow> c \<in> set (d_calls d) \<and> call_at o' ?i c)))
     (thenM (guardM (b \<and> List.member [CALL_AUTHORIZED, CALL_ACTIVE] (ca_status call)) e)
       (bindM (liftE r) (\<lambda>sid.
        bindM (find_unique_row tracks_table (T sid)) (\<lambda>existingTrack. case existingTrack of
            Some track \<Rightarrow> rebind_track o' input track
          | None \<Rightarrow> bind_new_track o' input call)))) (\<lambda>_. on_db (on_course cs0))"
    (is "gives ?P (thenM ?g ?k) ?Q") for o' b e r T and call :: call_row
  proof (cases "bindable_call o' ?i call")
    case True
    have "gives (on_db (course_with cs0 call)) (rebind_track o' input track) ?Q" for track
      by (rule gives_weaken [OF gives_keeps [OF keeps_rebind]]) (simp add: on_db_def course_with_def)
    then have "gives (on_db (course_with cs0 call)) ?k ?Q"
      by (intro gives_bind [OF gives_keeps] hoare gives_case_option bind_new_track_course [OF True])
    moreover have "?P w \<Longrightarrow> on_db (course_with cs0 call) w" for w
      by (simp add: on_db_def course_with_def)
    ultimately show ?thesis
      by (force simp: valid_def thenM_def bindM_def guardM_apply split: prod.splits sum.splits)
  next
    case False
    have "?P w \<Longrightarrow> \<exists>e w'. thenM ?g ?k w = (Inl e, w')" for w
      using False by (auto simp: on_db_def bindable_call_def thenM_def bindM_def guardM_apply)
    then show ?thesis by (force simp: valid_def split: prod.splits sum.splits)
  qed
  have "gives (on_db (on_course cs0)) (bind_track o' input) (\<lambda>_. on_db (on_course cs0))" for o'
    unfolding bind_track_def
    by (intro gives_keep_bind [OF keeps_reads(3)] gives_bind [OF found] gives_case_option gives_throw)
      (erule ssubst, rule new)
  then have body: "keeps (on_db (on_course cs0)) (serializable (bind_track o' input))" for o'
    by (rule keeps_serializable_gives)
  show ?thesis
    unfolding bindTrackAndCreateAnalysis_def
    by (intro keeps_bindM keeps_thenM keeps_liftE keeps_guardM keeps_now body) simp
qed

lemma keeps_course_move:
  assumes "b \<in> set (callTransitions a)"
  shows "keeps (on_db (on_course cs0)) (transitionCall context i a b t)"
proof -
  have "keeps (on_db (on_course cs0)) (update_rows calls_table (\<lambda>c. call_at o' j c \<and> ca_status c = a)
      (call_after b t))" for o' j
  proof (rule keepsI, rule keeps_course_change [where J = "\<lambda>_. True"])
    fix c :: call_row assume "call_at o' j c \<and> ca_status c = a"
    with assms show "ca_id (call_after b t c) = ca_id c \<and> ca_org (call_after b t c) = ca_org c \<and>
        reaches callTransitions (ca_status c) (ca_status (call_after b t c))"
      by (auto simp: call_after_def Let_def steps_to_def)
  qed simp
  then show ?thesis
    unfolding transitionCall_def findTenantCall_def by (intro hoare)
qed

lemmas course_rules = keeps_course_updates keeps_course_creates keeps_course_new keeps_update_one

interpretation call_repositories: repositories "on_course cs0"
proof unfold_locales
  show "keeps (on_db (on_course cs0)) (audit_record entry)" for entry
    by (rule keeps_audit_record) simp
  show "keeps (on_db (on_course cs0)) (createCallWithParticipants context input)" for "context" input
    unfolding createCallWithParticipants_def insert_call_def create_participant_def
    by (intro hoare course_rules) simp_all
  show "keeps (on_db (on_course cs0)) (addParticipant context i participant)" for "context" i participant
    unfolding addParticipant_def create_participant_def by (intro hoare course_rules) simp_all
  show "keeps (on_db (on_course cs0)) (markParticipantJoined context i t)" for "context" i t
    unfolding markParticipantJoined_def by (intro hoare course_rules)
  show "keeps (on_db (on_course cs0)) (markParticipantEnded context i t)" for "context" i t
    unfolding markParticipantEnded_def by (intro hoare course_rules)
  show "keeps (on_db (on_course cs0)) (closeVerifiedTrack context i sid t)" for "context" i sid t
    unfolding closeVerifiedTrack_def close_track_def revoke_sessions_def end_sessions_def
    by (intro hoare course_rules)
  show "keeps (on_db (on_course cs0)) (transitionAnalysisSession context i x y code t)"
    for "context" i x y code t
    unfolding transitionAnalysisSession_def by (intro hoare course_rules)
  show "keeps (on_db (on_course cs0)) (createTrustedSpeaker context input)" for "context" input
    unfolding createTrustedSpeaker_def by (intro hoare course_rules) simp_all
  show "keeps (on_db (on_course cs0)) (enrollment_grantConsent context input)" for "context" input
    unfolding enrollment_grantConsent_def by (intro hoare course_rules) simp_all
  show "keeps (on_db (on_course cs0)) (enrollment_revokeConsent context i reason)" for "context" i reason
    unfolding enrollment_revokeConsent_def revoke_granted_def revoke_sessions_def end_sessions_def
    by (intro hoare course_rules) simp_all
  show "keeps (on_db (on_course cs0)) (enrollment_deleteVoiceprint context i)" for "context" i
    unfolding enrollment_deleteVoiceprint_def revoke_sessions_def end_sessions_def
    by (intro hoare course_rules) simp_all
  show "keeps (on_db (on_course cs0)) (activateVoiceprint context input)" for "context" input
    unfolding activateVoiceprint_def require_active_consent_def store_voiceprint_def
    by (intro hoare course_rules) simp_all
  show "keeps (on_db (on_course cs0)) (expireStaleRecords running stopping)" for running stopping
    unfolding expireStaleRecords_def expire_sessions_def expire_challenges_def expire_interventions_def
    by (intro hoare course_rules) simp_all
qed (rule keeps_course_bind keeps_course_move; assumption?)+

section \<open>Consent\<close>

lemma keeps_consented_updates:
  "keeps (on_db consented_db) (update_rows calls_table Pc fc)"
  "keeps (on_db consented_db) (update_rows participants_table Pp fp)"
  "keeps (on_db consented_db) (update_rows tracks_table Pt ft)"
  "keeps (on_db consented_db) (update_rows sessions_table Pe fe)"
  "keeps (on_db consented_db) (update_rows bindings_table Pb fb)"
  "keeps (on_db consented_db) (update_rows challenges_table Ph fh)"
  "keeps (on_db consented_db) (update_rows interventions_table Pi fi)"
  by (rule keeps_update_rows; simp add: table_defs consented_db_def)+

lemma keeps_consented_creates:
  "keeps (on_db consented_db) (create calls_table rc)"
  "keeps (on_db consented_db) (create participants_table rp)"
  "keeps (on_db consented_db) (create tracks_table rt)"
  "keeps (on_db consented_db) (create sessions_table re)"
  "keeps (on_db consented_db) (create bindings_table rb)"
  by (rule keeps_create; simp add: table_defs consented_db_def)+

lemmas consented_frames = keeps_consented_updates keeps_consented_creates keeps_update_one

interpretation consent_repositories: repositories consented_db
proof unfold_locales
  show "keeps (on_db consented_db) (audit_record entry)" for entry
    by (rule keeps_audit_record) (simp add: consented_db_def)
  show "keeps (on_db consented_db) (createCallWithParticipants context input)" for "context" input
    unfolding createCallWithParticipants_def insert_call_def create_participant_def
    by (intro hoare consented_frames) simp_all
  show "keeps (on_db consented_db) (addParticipant context i participant)" for "context" i participant
    unfolding addParticipant_def create_participant_def by (intro hoare consented_frames) simp_all
  show "keeps (on_db consented_db) (markParticipantJoined context i t)" for "context" i t
    unfolding markParticipantJoined_def by (intro hoare consented_frames)
  show "keeps (on_db consented_db) (markParticipantEnded context i t)" for "context" i t
    unfolding markParticipantEnded_def by (intro hoare consented_frames)
  show "keeps (on_db consented_db) (transitionCall context i a b t)" for "context" i a b t
    unfolding transitionCall_def findTenantCall_def by (intro hoare consented_frames)
  show "keeps (on_db consented_db) (bindTrackAndCreateAnalysis context input)" for "context" input
    unfolding bindTrackAndCreateAnalysis_def bind_track_def rebind_track_def bind_new_track_def
      next_revision_def supersede_binding_def revoke_sessions_def end_sessions_def create_track_def
      create_binding_def create_analysis_session_def activate_call_def case_prod_unfold
    by (intro hoare consented_frames keeps_rebind) simp_all
  show "keeps (on_db consented_db) (closeVerifiedTrack context i sid t)" for "context" i sid t
    unfolding closeVerifiedTrack_def close_track_def revoke_sessions_def end_sessions_def
    by (intro hoare consented_frames)
  show "keeps (on_db consented_db) (transitionAnalysisSession context i x y code t)"
    for "context" i x y code t
    unfolding transitionAnalysisSession_def by (intro hoare consented_frames)
  show "keeps (on_db consented_db) (expireStaleRecords running stopping)" for running stopping
    unfolding expireStaleRecords_def expire_sessions_def expire_challenges_def expire_interventions_def
    by (intro hoare consented_frames) simp_all
qed (rule consented_rules)+

section \<open>Properties\<close>

text \<open>
  C5: whatever requests and webhooks come in whatever order, a call has at most one live analysis
  session, and every live session listens to a track binding of its call that is active.
\<close>

theorem live_session_hears_active_binding:
  assumes "heard (w_db w)" and "w' = foldl (media_step env) w requests"
  shows "(\<forall>s \<in> set (d_sessions (w_db w')). live_status (as_status s) \<longrightarrow>
      (\<exists>b \<in> set (d_bindings (w_db w')). tb_id b = as_binding s \<and> tb_org b = as_org s \<and>
         tb_call b = as_call s \<and> tb_status b = BIND_ACTIVE)) \<and>
    (\<forall>organizationId callId.
       length (filter (live_in organizationId callId) (d_sessions (w_db w'))) \<le> 1)"
  using heard_repositories.steps [of w env requests] assms
  by (simp add: on_db_def heard_def single_live_def listens_def)

definition media_caller :: participant_row where
  "media_caller = \<lparr>cp_id = model1, cp_org = org1, cp_call = call1, cp_membership = None,
     cp_speaker = None, cp_livekitIdentity = ''caller'', cp_authorizedIdentity = ''caller'',
     cp_displayName = None, cp_role = CALLER, cp_status = PART_AUTHORIZED, cp_authorizedAt = 0,
     cp_joinedAt = None, cp_disconnectedAt = None, cp_leftAt = None\<rparr>"

definition media_db :: db where
  "media_db = empty_db\<lparr>d_calls := [sample_call_row\<lparr>ca_status := CALL_AUTHORIZED\<rparr>],
     d_participants := [media_caller]\<rparr>"

definition media_world :: "db \<Rightarrow> world" where
  "media_world d = (sample_world d)\<lparr>w_ids := sample_uuid, w_answers := (\<lambda>_. Some 202)\<rparr>"

definition media_env :: provider_env where
  "media_env = \<lparr>pe_config = engineering_configuration, pe_ml = True, pe_jwt = lc_identity,
     pe_sha256 = id, pe_base64 = id, pe_body = (\<lambda>_. []), pe_aes = (\<lambda>k v m. (v, m))\<rparr>"

definition published :: "string \<Rightarrow> VerifiedLiveKitLifecycleEvent" where
  "published sid = \<lparr>lk_eventId = sid, lk_eventType = Track_published, lk_roomName = ''room'',
     lk_participantIdentity = Some ''caller'', lk_trackSid = Some sid,
     lk_trackSource = Some ''MICROPHONE'', lk_mimeType = None, lk_occurredAt = 1000\<rparr>"

theorem live_session_hears_active_binding_witness:
  "let w = foldl (media_step media_env) (media_world media_db) [Webhook (published ''TR1'')] in
   \<exists>s \<in> set (d_sessions (w_db w)). \<exists>b \<in> set (d_bindings (w_db w)).
     as_status s = SESS_ACTIVE \<and> tb_id b = as_binding s \<and> tb_status b = BIND_ACTIVE"
proof -
  let ?w = "foldl (media_step media_env) (media_world media_db)
       [Webhook (published ''TR1'')]"
  have "list_ex (\<lambda>s. as_status s = SESS_ACTIVE) (d_sessions (w_db ?w))" by code_simp
  then obtain s where s: "s \<in> set (d_sessions (w_db ?w))" "as_status s = SESS_ACTIVE"
    by (auto simp: list_ex_iff)
  have "heard (w_db (media_world media_db))"
    by (simp add: heard_def single_live_def media_world_def media_db_def sample_world_def empty_db_def)
  from live_session_hears_active_binding [OF this refl, of media_env
      "[Webhook (published ''TR1'')]", THEN conjunct1]
  have "live_status (as_status s) \<longrightarrow> (\<exists>b \<in> set (d_bindings (w_db ?w)).
      tb_id b = as_binding s \<and> tb_org b = as_org s \<and> tb_call b = as_call s \<and>
      tb_status b = BIND_ACTIVE)" using s(1) by (rule bspec)
  moreover have "live_status (as_status s)" by (simp only: s(2)) (simp add: live_status_def)
  ultimately obtain b where b: "b \<in> set (d_bindings (w_db ?w))" "tb_id b = as_binding s"
    "tb_status b = BIND_ACTIVE" by blast
  show ?thesis unfolding Let_def by (rule bexI [OF _ s(1)], rule bexI [OF _ b(1)]) (intro conjI s b)
qed

text \<open>
  C9: whatever requests and webhooks come in whatever order, the status of every call has moved
  only along the lifecycle table, and no call is lost: the services implement the abstract
  lifecycle.
\<close>

theorem calls_follow_lifecycle:
  assumes "calls_db.consistent (w_db w)" and "c \<in> set (d_calls (w_db w))"
  shows "\<exists>c' \<in> set (d_calls (w_db (foldl (media_step env) w requests))).
    ca_id c' = ca_id c \<and> ca_org c' = ca_org c \<and> reaches callTransitions (ca_status c) (ca_status c')"
proof -
  have "on_db (on_course (d_calls (w_db w))) w"
    using assms(1) by (auto simp: on_db_def on_course_def follows_def)
  then have "on_db (on_course (d_calls (w_db w))) (foldl (media_step env) w requests)"
    by (rule call_repositories.steps)
  with assms(2) show ?thesis by (simp add: on_db_def on_course_def follows_def)
qed

theorem calls_follow_lifecycle_witness:
  "\<exists>c' \<in> set (d_calls (w_db (foldl (media_step media_env) (media_world media_db)
       [Webhook (published ''TR1'')]))).
     ca_id c' = call1 \<and> ca_status c' = CALL_ACTIVE \<and> reaches callTransitions CALL_AUTHORIZED CALL_ACTIVE"
proof -
  let ?w = "foldl (media_step media_env) (media_world media_db) [Webhook (published ''TR1'')]"
  let ?c = "sample_call_row\<lparr>ca_status := CALL_AUTHORIZED\<rparr>"
  have active: "list_all (\<lambda>c. ca_status c = CALL_ACTIVE) (d_calls (w_db ?w))" by code_simp
  have "calls_db.consistent (w_db (media_world media_db))"
    unfolding calls_db.consistent_def
    by (simp add: calls_table_def call_check_def media_world_def media_db_def sample_world_def
        sample_call_row_def)
  moreover have "?c \<in> set (d_calls (w_db (media_world media_db)))"
    by (simp add: media_world_def media_db_def sample_world_def)
  ultimately obtain c' where c': "c' \<in> set (d_calls (w_db ?w))" "ca_id c' = ca_id ?c"
    "reaches callTransitions (ca_status ?c) (ca_status c')"
    using calls_follow_lifecycle [of "media_world media_db" ?c media_env "[Webhook (published ''TR1'')]"]
    by blast
  from active [unfolded list_all_iff] c'(1) have "ca_status c' = CALL_ACTIVE" by (rule bspec)
  moreover have "ca_id ?c = call1" "ca_status ?c = CALL_AUTHORIZED" by (simp_all add: sample_call_row_def)
  ultimately show ?thesis using c' by (intro bexI [of _ c'] conjI; simp only:)
qed

text \<open>
  C8: whatever requests come in whatever order, every active voiceprint belongs to a consent of
  its speaker and organization that is granted: revoking the consent takes the voiceprint away.
\<close>

theorem active_voiceprint_consented:
  assumes "consented_db (w_db w)"
    and "v \<in> set (d_voiceprints (w_db (foldl (media_step env) w requests)))"
    and "vp_status v = VP_ACTIVE"
  shows "\<exists>c \<in> set (d_consents (w_db (foldl (media_step env) w requests))).
    co_id c = vp_consent v \<and> co_org c = vp_org v \<and> co_speaker c = vp_speaker v \<and>
    co_status c = CONSENT_GRANTED"
  using consent_repositories.steps [of w env requests] assms
  by (fastforce simp: on_db_def consented_db_def consented_def consent_backs_def)

definition consented_voice :: voiceprint_row where
  "consented_voice = \<lparr>vp_id = binding1, vp_org = org1, vp_speaker = model1, vp_consent = session1,
     vp_model = model1, vp_createdBy = org1, vp_ciphertext = Some ''x'',
     vp_encryptionAlgorithm = ''a'', vp_encryptionKeyVersion = ''k'', vp_embeddingFormat = ''f'',
     vp_sampleCount = 1, vp_status = VP_ACTIVE, vp_activatedAt = Some 0, vp_revokedAt = None,
     vp_deletedAt = None\<rparr>"

definition voice_consent :: consent_row where
  "voice_consent = \<lparr>co_id = session1, co_org = org1, co_speaker = model1, co_grantedBy = org1,
     co_purposeCode = ''p'', co_noticeVersion = ''n'', co_status = CONSENT_GRANTED, co_grantedAt = 0,
     co_expiresAt = None, co_revokedAt = None, co_revocationReasonCode = None\<rparr>"

theorem active_voiceprint_consented_witness:
  "\<exists>c. co_id c = session1 \<and> co_status c = CONSENT_GRANTED \<and>
     c \<in> set (d_consents (w_db (foldl (media_step media_env)
       (media_world (empty_db\<lparr>d_voiceprints := [consented_voice], d_consents := [voice_consent]\<rparr>))
       [Maintenance])))"
proof -
  let ?w = "media_world (empty_db\<lparr>d_voiceprints := [consented_voice], d_consents := [voice_consent]\<rparr>)"
  have "consented_db (w_db ?w)"
    by (simp add: consented_db_def consented_def consent_backs_def media_world_def sample_world_def
        consented_voice_def voice_consent_def)
  moreover have "list_ex (\<lambda>v. vp_id v = binding1 \<and> vp_status v = VP_ACTIVE \<and> vp_consent v = session1)
      (d_voiceprints (w_db (foldl (media_step media_env) ?w [Maintenance])))" by code_simp
  then obtain v where "v \<in> set (d_voiceprints (w_db (foldl (media_step media_env) ?w [Maintenance])))"
    "vp_status v = VP_ACTIVE" "vp_consent v = session1"
    by (auto simp: list_ex_iff simp del: foldl_Cons)
  ultimately show ?thesis
    using active_voiceprint_consented [of ?w v media_env "[Maintenance]"]
    by (auto simp del: foldl_Cons)
qed

text \<open>
  Ending a call, whatever its outcome, leaves every analysis session and every track binding
  as it is: the sessions of an ended call stay open.
\<close>

theorem ending_leaves_sessions_open:
  "d_sessions (w_db (snd (calls_end env subject callId key correlationId w))) = d_sessions (w_db w) \<and>
   d_bindings (w_db (snd (calls_end env subject callId key correlationId w))) = d_bindings (w_db w)"
proof -
  let ?I = "\<lambda>d. d_sessions d = d_sessions (w_db w) \<and> d_bindings d = d_bindings (w_db w)"
  have "keeps (on_db ?I) (update_rows calls_table P f)" for P f
    by (rule keeps_update_rows) (simp add: calls_table_def)
  moreover have "keeps (on_db ?I) (audit_as s c k action type i outcome reason operation)"
    for s c k action type i outcome reason operation
    by (rule keeps_audit_as) simp
  ultimately have "keeps (on_db ?I) (calls_end env subject callId key correlationId)"
    unfolding calls_end_def cancel_call_def clean_up_call_def fail_call_def Let_def transitionCall_def
      findCallAggregate_def findTenantCall_def listOpenAnalysisSessions_def call_transition_def may_do_def
    by (intro hoare keeps_stop_sessions) simp_all
  from keeps_sndD [OF this, of w] show ?thesis by (simp add: on_db_def)
qed

end
