(* ===== verification/Risk_Decision.thy ===== *)
theory Risk_Decision
  imports Risk_Pipeline Risk_Repository
begin

text \<open>
  \<open>modules/risk/risk-decision.service.ts\<close>: the older of the two risk services. It decides over the
  same evidence with the same engine and the same gates as the pipeline, but stores only the
  assessment, in a transaction of its own. The theorem says that on evidence that has not been
  assessed the two services reach the same verdict.
\<close>

section \<open>The service\<close>

record assessment_summary =
  sm_status :: assessment_status
  sm_riskAssessmentId :: "uuid option"
  sm_outcome :: "RiskAssessmentOutcome option"
  sm_effectiveState :: "RiskState option"
  sm_decisionMode :: "RiskDecisionMode option"
  sm_productionEligible :: bool
  sm_activationSuppressed :: "bool option"
  sm_reasonCode :: string

definition suppressed_summary :: "string \<Rightarrow> assessment_summary" where
  "suppressed_summary reasonCode =
     \<lparr>sm_status = SUPPRESSED_ASSESSMENT, sm_riskAssessmentId = None, sm_outcome = None,
      sm_effectiveState = None, sm_decisionMode = None, sm_productionEligible = False,
      sm_activationSuppressed = None, sm_reasonCode = reasonCode\<rparr>"

definition assessment_response :: "assessment_row \<Rightarrow> assessment_summary" where
  "assessment_response a =
     \<lparr>sm_status = RECORDED, sm_riskAssessmentId = Some (ra_id a), sm_outcome = Some (ra_outcome a),
      sm_effectiveState = Some (ra_effectiveState a), sm_decisionMode = Some (ra_decisionMode a),
      sm_productionEligible = ra_productionEligible a,
      sm_activationSuppressed = Some (ra_activationSuppressed a), sm_reasonCode = ra_reasonCode a\<rparr>"

text \<open>The state before: that of the same evidence set when it is the latest one assessed.\<close>

definition prior_state :: "string \<Rightarrow> assessment_row option \<Rightarrow> RiskState" where
  "prior_state hash previous = (case previous of
     None \<Rightarrow> UNVERIFIED
   | Some p \<Rightarrow> if ra_evidenceHash p = hash then ra_priorState p else ra_effectiveState p)"

definition has_transitioned :: "string \<Rightarrow> assessment_row option \<Rightarrow> RiskState \<Rightarrow> bool" where
  "has_transitioned hash previous effectiveState = (case previous of
     Some p \<Rightarrow> if ra_evidenceHash p = hash then ra_transitioned p
               else prior_state hash previous \<noteq> effectiveState
   | None \<Rightarrow> prior_state hash previous \<noteq> effectiveState)"

definition decision_reason :: "RiskActivationDecision \<Rightarrow> RiskEngineResult \<Rightarrow> string" where
  "decision_reason activation evaluated =
     (if ad_productionEligible activation then rr_reasonCode evaluated
      else case ad_blockerCodes activation of
        [] \<Rightarrow> ''PRODUCTION_ACTIVATION_SUPPRESSED'' | c # _ \<Rightarrow> c)"

definition decision_input ::
  "runtime \<Rightarrow> decision_context \<Rightarrow> policy_doc \<Rightarrow> RiskEngineResult \<Rightarrow> assessment_row option \<Rightarrow> uuid \<Rightarrow>
   RecordRiskAssessmentInput" where
  "decision_input env ctx policy evaluated previous trigger =
     (let session = dc_session ctx;
          activation = activation_evaluate (c_risk (x_config env)) policy
                         (evidence_status_of ctx evaluated);
          hash = evidenceSetHash env (map fst (dc_evidence ctx)) in
      \<lparr>ai_callId = as_call session, ai_sessionId = as_id session, ai_policyId = rp_id (dc_policy ctx),
       ai_idempotencyKey = ''risk-assessment:'' @ as_id session @ '':'' @ hash,
       ai_schemaVersion = ''1.0.0'', ai_evidenceHash = hash,
       ai_evidenceMode = as_evidenceMode session, ai_decisionMode = ad_decisionMode activation,
       ai_outcome = rr_outcome evaluated, ai_priorState = prior_state hash previous,
       ai_effectiveState = rr_effectiveState evaluated,
       ai_transitioned = has_transitioned hash previous (rr_effectiveState evaluated),
       ai_productionEligible = ad_productionEligible activation,
       ai_activationSuppressed = ad_activationSuppressed activation,
       ai_reasonCode = decision_reason activation evaluated,
       ai_policyKey = rp_key (dc_policy ctx), ai_policyVersion = rp_version (dc_policy ctx),
       ai_thresholdVersion = pd_thresholdVersion policy,
       ai_calibrationVersion = pd_calibrationVersion policy,
       ai_proposedInterventions = rr_proposedInterventions evaluated,
       ai_maxWindowSequence = rr_maxWindowSequence evaluated,
       ai_occurredAt = rr_occurredAt evaluated, ai_evidenceIds = rr_evidenceEventIds evaluated,
       ai_auditCorrelationId = trigger,
       ai_auditKey = trigger @ '':risk-assessment-audit''\<rparr>)"

definition record_suppressed :: "uuid \<Rightarrow> uuid \<Rightarrow> assessment_summary op" where
  "record_suppressed organizationId trigger =
     bindM (audit_record
       \<lparr>wa_organizationId = organizationId, wa_actor = None, wa_correlationId = trigger,
        wa_idempotencyKey = Some (trigger @ '':risk-policy-invalid''),
        wa_action = ''risk.assessment.suppressed'', wa_targetType = ''EvidenceEvent'',
        wa_targetId = trigger, wa_outcome = Some AUDIT_FAILED,
        wa_reasonCode = Some ''RISK_POLICY_INVALID'', wa_operation = ''risk-assessment''\<rparr>) (\<lambda>_.
     returnM (suppressed_summary ''RISK_POLICY_INVALID''))"

definition assess_context ::
  "runtime \<Rightarrow> uuid \<Rightarrow> uuid \<Rightarrow> decision_context \<Rightarrow> assessment_summary op" where
  "assess_context env organizationId trigger ctx =
     (case parseRiskPolicyDocument (Some (rp_document (dc_policy ctx))) of
        Inl RiskPolicyValidationError \<Rightarrow> record_suppressed organizationId trigger
      | Inl e \<Rightarrow> throwM e
      | Inr policy \<Rightarrow>
          thenM (guardM (ca_policyId (dc_call ctx) = rp_id (dc_policy ctx) \<and>
                         ca_policyVersion (dc_call ctx) = rp_version (dc_policy ctx))
                   (Error ''The call risk-policy snapshot is inconsistent.''))
          (bindM (liftE (evaluateRiskEvidence (map engineEvidence (dc_evidence ctx)) policy))
             (\<lambda>evaluated.
           bindM (findLatestAssessment organizationId (as_id (dc_session ctx))) (\<lambda>previous.
           bindM (recordAssessment organizationId
                    (decision_input env ctx policy evaluated previous trigger)) (\<lambda>assessment.
           returnM (assessment_response (fst assessment)))))))"

definition assessAcceptedEvidence ::
  "runtime \<Rightarrow> uuid \<Rightarrow> uuid \<Rightarrow> uuid \<Rightarrow> assessment_summary op" where
  "assessAcceptedEvidence env organizationId analysisSessionId triggerEvidenceEventId =
     bindM (loadDecisionContext organizationId analysisSessionId) (\<lambda>ctx.
     assess_context env organizationId triggerEvidenceEventId ctx)"

section \<open>What is stored is what was decided\<close>

definition carries :: "RecordRiskAssessmentInput \<Rightarrow> assessment_row \<Rightarrow> bool" where
  "carries input a \<longleftrightarrow> ra_outcome a = ai_outcome input \<and>
     ra_effectiveState a = ai_effectiveState input \<and> ra_priorState a = ai_priorState input \<and>
     ra_decisionMode a = ai_decisionMode input \<and>
     ra_productionEligible a = ai_productionEligible input \<and>
     ra_activationSuppressed a = ai_activationSuppressed input"

lemma new_assessment_row_carries:
  assumes "new_assessment_row organizationId input key session policy i t = Inr row"
  shows "carries input row" "ra_id row = i"
  using assms unfolding new_assessment_row_def carries_def
  by - ((drule bindE_cont, erule exE)+, drule iffD1 [OF sum.inject(2)], hypsubst,
    simp only: assessment_row.simps)+

lemma replay_assessment_carries:
  "replay_assessment input existing w = (Inr agg, w') \<Longrightarrow> carries input (fst agg)"
  by (cases existing) (auto simp: replay_assessment_def run_simps assessment_equivalent_def carries_def)

text \<open>The row that is read back after the insert is the one that was inserted.\<close>

lemma insert_assessment_carries:
  assumes "insert_assessment organizationId input key session policy ids w = (Inr agg, w')"
  shows "carries input (fst agg)"
proof -
  obtain v w1 x row where link: "link_assessment organizationId (ra_id row) ids v = (Inr (), w1)"
    and audit: "audit_appendWithClient organizationId (assessment_audit input (ra_id row)) w1 = (Inr x, w')"
    and found: "find (\<lambda>a. ra_id a = ra_id row) (d_assessments (w_db w')) = Some (fst agg)"
    and row: "carries input row"
    and free: "\<not> list_ex (\<lambda>x. assessment_clash x row) (d_assessments (w_db w))"
    and v: "d_assessments (w_db v) = d_assessments (w_db w) @ [row]"
    using assms unfolding insert_assessment_def with_links_def assessment_links_def
    apply (clarsimp simp: run_simps assessments_table_def)
    apply (drule new_assessment_row_carries(1))
    apply (rule that, assumption+, simp, assumption+, simp)
    done
  have "keeps (on_db (\<lambda>d. d_assessments d = as)) (link_assessment organizationId (ra_id row) ids)"
    for as unfolding link_assessment_def
    by (intro hoare keeps_create) (simp_all add: assessmentEvidence_table_def)
  from keepsD [OF this _ link] have "d_assessments (w_db w1) = d_assessments (w_db v)"
    by (simp add: on_db_def)
  moreover have "keeps (on_db (\<lambda>d. d_assessments d = as))
      (audit_appendWithClient organizationId (assessment_audit input (ra_id row)))" for as
    by (rule keeps_audit_appendWithClient) simp
  from keepsD [OF this _ audit] have "d_assessments (w_db w') = d_assessments (w_db w1)"
    by (simp add: on_db_def)
  moreover have "find (\<lambda>a. ra_id a = ra_id row) (d_assessments (w_db w)) = None"
    using free by (auto simp: find_None_iff list_ex_iff assessment_clash_def)
  ultimately have "fst agg = row" using found by (simp add: find_append_None v)
  with row show ?thesis by simp
qed

lemma recordAssessment_carries:
  assumes "recordAssessment context input w = (Inr agg, w')"
  shows "carries input (fst agg)"
proof -
  have store: "carries input (fst agg)"
    if run: "serializable (store_assessment organizationId input key) v = (Inr agg, v')"
    for organizationId key v v'
  proof -
    obtain v0 where "store_assessment organizationId input key v0 = (Inr agg, v')"
      using serializable_run [OF run] .
    then show ?thesis
      unfolding store_assessment_def
      by (auto simp: run_simps dest: insert_assessment_carries)
  qed
  from assms show ?thesis
    unfolding recordAssessment_def
    by (auto simp: run_simps catchM_eq_Inr_iff split: option.splits if_splits
        dest: replay_assessment_carries store)
qed

section \<open>Agreement with the pipeline\<close>

text \<open>No stored assessment of the session is about the evidence that the session has now.\<close>

definition undecided :: "runtime \<Rightarrow> uuid \<Rightarrow> uuid \<Rightarrow> db \<Rightarrow> bool" where
  "undecided env organizationId sessionId d \<longleftrightarrow>
     list_all (\<lambda>s. session_by organizationId sessionId s \<longrightarrow>
       list_all (\<lambda>a. ra_org a = organizationId \<and> ra_session a = sessionId \<longrightarrow>
           ra_evidenceHash a \<noteq> evidenceSetHash env (map fst (session_evidence s d)))
         (d_assessments d)) (d_sessions d)"

lemma load_context_run:
  assumes "load_context organizationId sessionId e w = (Inr ctx, w')"
  shows "w' = w" "dc_session ctx \<in> set (d_sessions (w_db w)) \<and>
      session_by organizationId sessionId (dc_session ctx)"
    "dc_evidence ctx = session_evidence (dc_session ctx) (w_db w)"
proof -
  have "w' = w \<and> find (session_by organizationId sessionId) (d_sessions (w_db w)) = Some (dc_session ctx) \<and>
      dc_evidence ctx = session_evidence (dc_session ctx) (w_db w)"
    using assms unfolding load_context_def by (auto simp: run_simps sessions_table_def)
  then show "w' = w" "dc_session ctx \<in> set (d_sessions (w_db w)) \<and>
      session_by organizationId sessionId (dc_session ctx)"
    "dc_evidence ctx = session_evidence (dc_session ctx) (w_db w)"
    by (auto dest: find_SomeD)
qed

lemma load_context_error_irrelevant:
  "load_context organizationId sessionId e w = (Inr ctx, w') \<Longrightarrow>
     load_context organizationId sessionId e' w = (Inr ctx', w'') \<Longrightarrow> ctx' = ctx"
  unfolding load_context_def by (auto simp: run_simps)

lemma undecided_context:
  assumes "undecided env organizationId sessionId (w_db w)"
    and "load_context organizationId sessionId e w = (Inr ctx, w')"
    and "a \<in> set (d_assessments (w_db w))" "ra_org a = organizationId" "ra_session a = sessionId"
  shows "ra_evidenceHash a \<noteq> evidenceSetHash env (map fst (dc_evidence ctx))"
  using assms load_context_run(2,3) [OF assms(2)] by (auto simp: undecided_def list_all_iff)

text \<open>The verdict of the service is that of its input, the verdict of the pipeline that of its decision.\<close>

definition verdict_of ::
  "RiskEngineResult \<Rightarrow> RiskActivationDecision \<Rightarrow>
   assessment_status \<times> RiskAssessmentOutcome option \<times> RiskState option \<times> RiskDecisionMode option \<times>
   bool \<times> bool option" where
  "verdict_of evaluated activation = (RECORDED, Some (rr_outcome evaluated),
     Some (rr_effectiveState evaluated), Some (ad_decisionMode activation),
     ad_productionEligible activation, Some (ad_activationSuppressed activation))"

definition summary_verdict ::
  "assessment_summary \<Rightarrow> assessment_status \<times> RiskAssessmentOutcome option \<times> RiskState option \<times>
   RiskDecisionMode option \<times> bool \<times> bool option" where
  "summary_verdict s = (sm_status s, sm_outcome s, sm_effectiveState s, sm_decisionMode s,
     sm_productionEligible s, sm_activationSuppressed s)"

definition pipeline_verdict ::
  "pipeline_result \<Rightarrow> assessment_status \<times> RiskAssessmentOutcome option \<times> RiskState option \<times>
   RiskDecisionMode option \<times> bool \<times> bool option" where
  "pipeline_verdict r = (pr_assessmentStatus r, pr_outcome r, pr_effectiveState r, pr_decisionMode r,
     pr_productionEligible r, pr_activationSuppressed r)"

definition expected_verdict ::
  "runtime \<Rightarrow> decision_context \<Rightarrow> (assessment_status \<times> RiskAssessmentOutcome option \<times>
   RiskState option \<times> RiskDecisionMode option \<times> bool \<times> bool option) option" where
  "expected_verdict env ctx =
     (case parseRiskPolicyDocument (Some (rp_document (dc_policy ctx))) of
        Inl RiskPolicyValidationError \<Rightarrow> Some (SUPPRESSED_ASSESSMENT, None, None, None, False, None)
      | Inl e \<Rightarrow> None
      | Inr policy \<Rightarrow> (case evaluateRiskEvidence (map engineEvidence (dc_evidence ctx)) policy of
            Inl e \<Rightarrow> None
          | Inr evaluated \<Rightarrow> Some (verdict_of evaluated
              (activation_evaluate (c_risk (x_config env)) policy (evidence_status_of ctx evaluated)))))"

lemma assess_context_verdict:
  assumes "assess_context env organizationId trigger ctx w = (Inr s, w')"
  shows "Some (summary_verdict s) = expected_verdict env ctx"
proof (cases "parseRiskPolicyDocument (Some (rp_document (dc_policy ctx)))")
  case (Inl e)
  with assms show ?thesis
    unfolding assess_context_def expected_verdict_def record_suppressed_def
    by (cases e) (auto simp: run_simps summary_verdict_def suppressed_summary_def)
next
  case (Inr policy)
  with assms obtain evaluated previous agg v where ev:
      "evaluateRiskEvidence (map engineEvidence (dc_evidence ctx)) policy = Inr evaluated"
    and a: "recordAssessment organizationId
        (decision_input env ctx policy evaluated previous trigger) v = (Inr agg, w')"
    and s: "s = assessment_response (fst agg)"
    unfolding assess_context_def by (auto simp: run_simps)
  from recordAssessment_carries [OF a] Inr ev show ?thesis
    by (simp add: s expected_verdict_def carries_def decision_input_def Let_def summary_verdict_def
        assessment_response_def verdict_of_def)
qed

lemma recordDecision_verdict:
  assumes "recordDecision env ctx trigger w = (Inr r, w')"
    and "\<And>a. a \<in> set (d_assessments (w_db w)) \<Longrightarrow> ra_org a = as_org (dc_session ctx) \<Longrightarrow>
        ra_session a = as_id (dc_session ctx) \<Longrightarrow>
        ra_evidenceHash a \<noteq> evidenceSetHash env (map fst (dc_evidence ctx))"
  shows "Some (pipeline_verdict r) = expected_verdict env ctx"
proof (cases "parseRiskPolicyDocument (Some (rp_document (dc_policy ctx)))")
  case (Inl e)
  with assms(1) show ?thesis
    unfolding recordDecision_def expected_verdict_def suppress_invalid_policy_def
    by (cases e) (auto simp: run_simps pipeline_verdict_def suppressed_result_def)
next
  case (Inr policy)
  have none: "find (\<lambda>a. ra_org a = as_org (dc_session ctx) \<and> ra_session a = as_id (dc_session ctx) \<and>
      ra_evidenceHash a = evidenceSetHash env (map fst (dc_evidence ctx))) (d_assessments (w_db w)) = None"
    using assms(2) by (auto simp: find_None_iff)
  with Inr assms(1) obtain evaluated previous v where ev:
      "evaluateRiskEvidence (map engineEvidence (dc_evidence ctx)) policy = Inr evaluated"
    and n: "record_new_decision env (decide env ctx trigger policy evaluated previous) v = (Inr r, w')"
    unfolding recordDecision_def by (auto simp: run_simps Let_def assessments_table_def)
  let ?n = "decide env ctx trigger policy evaluated previous"
  obtain a v1 v2 where a: "write_assessment ?n v1 = (Inr a, v2)"
    and r: "\<exists>e. r = pipeline_response (dn_trigger ?n) a e"
    using n unfolding record_new_decision_def by (auto simp: run_simps split: if_splits)
  have "ra_outcome a = rr_outcome (dn_result ?n) \<and> ra_effectiveState a = rr_effectiveState (dn_result ?n) \<and>
      ra_decisionMode a = ad_decisionMode (dn_activation ?n) \<and>
      ra_productionEligible a = ad_productionEligible (dn_activation ?n) \<and>
      ra_activationSuppressed a = ad_activationSuppressed (dn_activation ?n)"
    by (subst (1 2 3 4 5) write_assessment_row(2) [OF a]) (simp add: assessment_row_of_def Let_def)
  with Inr ev r show ?thesis
    by (auto simp: expected_verdict_def pipeline_verdict_def pipeline_response_def verdict_of_def
        decide_def Let_def)
qed


definition voiced_world :: world where
  "voiced_world = snd (evidence_record org1 (voice_input ''v'' 0 0) demo_world)"

definition hashed_env :: runtime where
  "hashed_env = sample_env\<lparr>x_sha256 := (\<lambda>_. replicate 64 CHR ''0'')\<rparr>"

definition both_services :: "((err + assessment_summary) \<times> (err + pipeline_result))" where
  "both_services =
     (fst (assessAcceptedEvidence hashed_env org1 session1 (sample_uuid 0) voiced_world),
      fst (bindM (load_context org1 session1 P2025_RecordNotFound)
        (\<lambda>ctx. recordDecision hashed_env ctx (fst (hd (dc_evidence ctx)))) voiced_world))"

lemma both_services_return: "\<not> isl (fst both_services) \<and> \<not> isl (snd both_services)"
  by code_simp

lemma voiced_undecided: "undecided hashed_env org1 session1 (w_db voiced_world)"
  by code_simp


text \<open>
  The two services share the idempotency key of an evidence set but not the schema version, so
  what the pipeline has assessed the service refuses as a conflict.
\<close>

lemma pipeline_assessment_refused:
  assumes "is_uuid organizationId" and "sha256_pattern (ai_evidenceHash input)"
    and "requireText (ai_idempotencyKey input) ''idempotencyKey'' 128 = Inr key"
    and "find (\<lambda>a. ra_org a = organizationId \<and> ra_idemKey a = key) (d_assessments (w_db w)) = Some a"
    and "ra_schemaVersion a = ''1.1.0''" and "ai_schemaVersion input = ''1.0.0''"
  shows "recordAssessment organizationId input w = (Inl IdempotencyConflictError, w)"
proof -
  have r: "requireTenant organizationId = Inr organizationId" using assms(1) by simp
  show ?thesis
    unfolding recordAssessment_def findAssessmentByIdempotency_def with_links_def assessment_links_def
      find_unique_row_def replay_assessment_def
    using assms(2,4-6)
    by (simp add: r assms(3) monad_simps assessments_table_def assessment_equivalent_def
        del: requireText_Inr)
qed

end
