(* ===== verification/Security_Outbox.thy ===== *)
theory Security_Outbox
  imports Risk_Repository
begin

text \<open>
  \<open>modules/security-events/security-event-outbox.repository.ts\<close> and
  \<open>security-event-outbox.service.ts\<close>: the alerts that a risk transition stores are claimed in batches
  with a lease, published, and marked as delivered; a failed one is tried again with a growing delay
  until its attempts are used up. A client may ask for the delivered events of its calls and
  acknowledge them. The publisher, which the service gets injected, is an argument.
  \<open>security-events.service.ts\<close> publishes one event directly.
\<close>

section \<open>Events\<close>

fun event_type_name :: "SecurityEventType \<Rightarrow> string" where
  "event_type_name RISK_STATE_CHANGED = ''risk.state.changed''"
| "event_type_name INTERVENTION_REQUIRED = ''intervention.required''"
| "event_type_name CALL_ENDED_EVENT = ''call.ended''"
| "event_type_name DASHBOARD_RISK_EVENT_CREATED = ''dashboard.risk-event.created''"

definition securityEventTypes :: "(string \<times> SecurityEventType) list" where
  "securityEventTypes = map (\<lambda>t. (event_type_name t, t))
     [RISK_STATE_CHANGED, INTERVENTION_REQUIRED, CALL_ENDED_EVENT, DASHBOARD_RISK_EVENT_CREATED]"

definition isSecurityEventId :: "string \<Rightarrow> bool" where
  "isSecurityEventId s \<longleftrightarrow> take 4 s = ''evt_'' \<and> sha256_pattern (drop 4 s)"

text \<open>An alert with the risk event and the intervention it belongs to.\<close>

record OutboxRecord =
  ox_alert :: alert_row
  ox_riskEvent :: risk_event_row
  ox_intervention :: "intervention_row option"

text \<open>The relation to the risk event is not optional: Prisma throws when the row is missing.\<close>

definition outbox_record :: "alert_row \<Rightarrow> OutboxRecord op" where
  "outbox_record a =
     bindM (find_or_throw riskEvents_table (\<lambda>e. re_org e = al_org a \<and> re_id e = al_riskEvent a)
              (Error ''Field riskEvent is required to return data.'')) (\<lambda>event.
     bindM (getM (\<lambda>w. find (\<lambda>i. iv_org i = al_org a \<and> Some (iv_id i) = al_intervention a)
              (d_interventions (w_db w)))) (\<lambda>intervention.
     returnM \<lparr>ox_alert = a, ox_riskEvent = event, ox_intervention = intervention\<rparr>))"

definition outbox_invalid :: err where
  "outbox_invalid = Error ''Security outbox record is invalid.''"

definition intervention_fits :: "OutboxRecord \<Rightarrow> bool" where
  "intervention_fits r \<longleftrightarrow> (case ox_intervention r of
     None \<Rightarrow> al_eventType (ox_alert r) \<noteq> ''intervention.required''
   | Some i \<Rightarrow> al_eventType (ox_alert r) = ''intervention.required'' \<and>
       iv_org i = al_org (ox_alert r) \<and> iv_call i = al_call (ox_alert r) \<and>
       iv_riskEvent i = al_riskEvent (ox_alert r) \<and> iv_mode i = al_mode (ox_alert r))"

text \<open>What does not depend on the clock; \<open>t\<close> is read only for a pending record with a lease.\<close>

definition record_fits :: "OutboxRecord \<Rightarrow> bool" where
  "record_fits r \<longleftrightarrow> (let a = ox_alert r in
     map_of securityEventTypes (al_eventType a) \<noteq> None \<and>
     List.member [''1.0.0'', ''1.1.0''] (al_schemaVersion a) \<and>
     al_org a = re_org (ox_riskEvent r) \<and> al_call a = re_call (ox_riskEvent r) \<and>
     al_mode a = re_mode (ox_riskEvent r) \<and> intervention_fits r)"

definition lease_live :: "instant \<Rightarrow> alert_row \<Rightarrow> bool" where
  "lease_live t a \<longleftrightarrow> al_leaseId a \<noteq> None \<and>
     (case al_leaseExpiresAt a of None \<Rightarrow> False | Some e \<Rightarrow> t < e)"

definition event_of :: "OutboxRecord \<Rightarrow> string \<Rightarrow> SecurityEventType \<Rightarrow> SecurityEvent" where
  "event_of r evtId eventType =
     (let a = ox_alert r; e = ox_riskEvent r in
      \<lparr>se_outboxId = Some (al_id a), se_eventId = evtId, se_eventType = eventType,
       se_schemaVersion = al_schemaVersion a, se_organizationId = al_org a, se_callId = al_call a,
       se_targetId = (if eventType = CALL_ENDED_EVENT then al_call a
         else case ox_intervention r of None \<Rightarrow> re_id e | Some i \<Rightarrow> iv_id i),
       se_occurredAt = re_occurredAt e,
       se_metadata =
         [(''mode'', JStr (control_mode_name (al_mode a))),
          (''state'', JStr (risk_state_name (re_state e))),
          (''reasonCode'', JStr (re_reasonCode e)),
          (''policyVersion'', JStr (re_policyVersion e))] @
         (case ox_intervention r of None \<Rightarrow> []
          | Some i \<Rightarrow> [(''interventionType'', JStr (intervention_name (iv_type i)))])\<rparr>)"

definition toSecurityEvent :: "OutboxRecord \<Rightarrow> SecurityEvent op" where
  "toSecurityEvent r =
     (let a = ox_alert r;
          leased = al_channel a = SECURITY_WEBSOCKET \<and> al_status a = ALERT_PENDING \<and>
            al_leaseId a \<noteq> None \<and> al_leaseExpiresAt a \<noteq> None in
      case al_externalEventId a of
        None \<Rightarrow> throwM outbox_invalid
      | Some evtId \<Rightarrow>
          thenM (guardM (isSecurityEventId evtId) outbox_invalid)
          (bindM (now_if leased) (\<lambda>t.
           thenM (guardM (al_channel a = SECURITY_WEBSOCKET \<and>
                    List.member [ALERT_PENDING, ALERT_DELIVERED] (al_status a) \<and>
                    (al_status a = ALERT_PENDING \<longrightarrow> lease_live t a) \<and> record_fits r) outbox_invalid)
           (case map_of securityEventTypes (al_eventType a) of
              None \<Rightarrow> throwM outbox_invalid
            | Some eventType \<Rightarrow> returnM (event_of r evtId eventType)))))"

section \<open>Claiming\<close>

definition lease_over :: "instant \<Rightarrow> alert_row \<Rightarrow> bool" where
  "lease_over t a \<longleftrightarrow> al_leaseId a = None \<or>
     (case al_leaseExpiresAt a of None \<Rightarrow> False | Some e \<Rightarrow> e \<le> t)"

definition dispatchable :: "instant \<Rightarrow> int \<Rightarrow> alert_row \<Rightarrow> bool" where
  "dispatchable t maximumAttempts a \<longleftrightarrow>
     al_channel a = SECURITY_WEBSOCKET \<and> al_status a = ALERT_PENDING \<and>
     al_attemptCount a < maximumAttempts \<and>
     (case al_nextAttemptAt a of None \<Rightarrow> True | Some n \<Rightarrow> n \<le> t) \<and> lease_over t a"

text \<open>\<open>orderBy\<close> ascending: PostgreSQL puts the rows without a next attempt last.\<close>

definition dispatch_order :: "alert_row \<Rightarrow> bool \<times> instant \<times> instant \<times> uuid" where
  "dispatch_order a = (al_nextAttemptAt a = None,
     (case al_nextAttemptAt a of None \<Rightarrow> 0 | Some n \<Rightarrow> n), al_createdAt a, al_id a)"

definition dispatch_batch :: "instant \<Rightarrow> int \<Rightarrow> int \<Rightarrow> alert_row list \<Rightarrow> alert_row list" where
  "dispatch_batch t limit maximumAttempts rs =
     take (nat limit) (sort_key dispatch_order (filter (dispatchable t maximumAttempts) rs))"

definition still_claimable :: "instant \<Rightarrow> alert_row \<Rightarrow> alert_row \<Rightarrow> bool" where
  "still_claimable t candidate a \<longleftrightarrow>
     al_id a = al_id candidate \<and> al_org a = al_org candidate \<and> al_status a = ALERT_PENDING \<and>
     al_attemptCount a = al_attemptCount candidate \<and> lease_over t a"

definition claimed_alert :: "uuid \<Rightarrow> instant \<Rightarrow> alert_row \<Rightarrow> alert_row" where
  "claimed_alert leaseId leaseExpiresAt a =
     a\<lparr>al_attemptCount := al_attemptCount a + 1, al_leaseId := Some leaseId,
       al_leaseExpiresAt := Some leaseExpiresAt, al_nextAttemptAt := None, al_failureCode := None\<rparr>"

definition leased_record :: "uuid \<Rightarrow> instant \<Rightarrow> OutboxRecord \<Rightarrow> OutboxRecord" where
  "leased_record leaseId leaseExpiresAt candidate =
     candidate\<lparr>ox_alert := (ox_alert candidate)
       \<lparr>al_attemptCount := al_attemptCount (ox_alert candidate) + 1, al_leaseId := Some leaseId,
        al_leaseExpiresAt := Some leaseExpiresAt\<rparr>\<rparr>"

definition claim_alert :: "instant \<Rightarrow> instant \<Rightarrow> OutboxRecord \<Rightarrow> OutboxRecord list op" where
  "claim_alert t leaseExpiresAt candidate =
     bindM new_id (\<lambda>leaseId.
     bindM (update_rows alerts_table (still_claimable t (ox_alert candidate))
              (claimed_alert leaseId leaseExpiresAt)) (\<lambda>n.
     returnM (if n = 1 then [leased_record leaseId leaseExpiresAt candidate] else [])))"

definition claimDispatchable :: "int \<Rightarrow> int \<Rightarrow> int \<Rightarrow> OutboxRecord list op" where
  "claimDispatchable limit maximumAttempts leaseMs =
     bindM now (\<lambda>t.
     bindM (getM (\<lambda>w. dispatch_batch t limit maximumAttempts (d_alerts (w_db w)))) (\<lambda>batch.
     bindM (mapM outbox_record batch) (\<lambda>candidates.
     bindM (mapM (claim_alert t (t + leaseMs)) candidates) (\<lambda>claimed.
     returnM (concat claimed)))))"

section \<open>Marking\<close>

text \<open>The row as the claim left it.\<close>

definition leased_as :: "alert_row \<Rightarrow> alert_row \<Rightarrow> bool" where
  "leased_as r a \<longleftrightarrow> al_id a = al_id r \<and> al_org a = al_org r \<and> al_status a = ALERT_PENDING \<and>
     al_attemptCount a = al_attemptCount r \<and> al_leaseId a = al_leaseId r"

definition lease_lost :: err where
  "lease_lost = PersistenceConflictError ''Outbox dispatch lease was lost.''"

definition delivered_alert :: "instant \<Rightarrow> alert_row \<Rightarrow> alert_row" where
  "delivered_alert t a = a\<lparr>al_status := ALERT_DELIVERED, al_deliveredAt := Some t,
     al_leaseId := None, al_leaseExpiresAt := None, al_nextAttemptAt := None\<rparr>"

definition markDelivered :: "OutboxRecord \<Rightarrow> unit op" where
  "markDelivered r =
     bindM now (\<lambda>t.
     bindM (update_rows alerts_table (leased_as (ox_alert r)) (delivered_alert t)) (\<lambda>n.
     guardM (n = 1) lease_lost))"

definition failed_alert :: "bool \<Rightarrow> instant \<Rightarrow> alert_row \<Rightarrow> alert_row" where
  "failed_alert exhausted nextAttemptAt a =
     a\<lparr>al_status := (if exhausted then ALERT_FAILED else ALERT_PENDING),
       al_failureCode := Some (if exhausted then ''SECURITY_EVENT_RETRY_EXHAUSTED''
                               else ''SECURITY_EVENT_RETRY_SCHEDULED''),
       al_nextAttemptAt := (if exhausted then None else Some nextAttemptAt),
       al_leaseId := None, al_leaseExpiresAt := None\<rparr>"

definition retry_delay :: "int \<Rightarrow> int \<Rightarrow> int" where
  "retry_delay retryBaseMs attempt = retryBaseMs * 2 ^ nat (max 0 (attempt - 1))"

definition markFailed :: "OutboxRecord \<Rightarrow> int \<Rightarrow> int \<Rightarrow> unit op" where
  "markFailed r maximumAttempts retryBaseMs =
     (let attempt = al_attemptCount (ox_alert r); exhausted = (maximumAttempts \<le> attempt) in
      bindM (now_if (\<not> exhausted)) (\<lambda>t.
      bindM (update_rows alerts_table (leased_as (ox_alert r))
               (failed_alert exhausted (t + retry_delay retryBaseMs attempt))) (\<lambda>n.
      guardM (n = 1) lease_lost)))"

section \<open>Flushing\<close>

definition deliver_record ::
  "api_config \<Rightarrow> (SecurityEvent \<Rightarrow> unit op) \<Rightarrow> OutboxRecord \<Rightarrow> bool op" where
  "deliver_record api publish r =
     catchM
       (bindM (toSecurityEvent r) (\<lambda>event.
        thenM (publish event)
        (thenM (markDelivered r)
         (returnM True))))
       (\<lambda>_. thenM (markFailed r (securityOutboxMaximumAttempts api) (securityOutboxRetryBaseMs api))
              (returnM False))"

definition flush ::
  "api_config \<Rightarrow> (SecurityEvent \<Rightarrow> unit op) \<Rightarrow> bool \<Rightarrow> bool \<Rightarrow> nat op" where
  "flush api publish flushing shuttingDown =
     (if flushing \<or> shuttingDown then returnM 0
      else
        bindM (claimDispatchable (securityOutboxBatchSize api) (securityOutboxMaximumAttempts api)
                 (securityOutboxLeaseMs api)) (\<lambda>records.
        bindM (mapM (deliver_record api publish) records) (\<lambda>outcomes.
        returnM (length (filter (\<lambda>delivered. delivered) outcomes)))))"

section \<open>Replay and acknowledgement\<close>

datatype ReplayStatus = COMPLETE | BOUNDARY_EXCEEDED

record ReplayResult =
  rt_status :: ReplayStatus
  rt_events :: "SecurityEvent list"
  rt_oldest :: "string option"
  rt_latest :: "string option"

definition delivered_for :: "uuid \<Rightarrow> uuid list \<Rightarrow> alert_row \<Rightarrow> bool" where
  "delivered_for organizationId callIds a \<longleftrightarrow>
     al_org a = organizationId \<and> List.member callIds (al_call a) \<and>
     al_channel a = SECURITY_WEBSOCKET \<and> al_status a = ALERT_DELIVERED \<and> al_externalEventId a \<noteq> None"

text \<open>The latest \<open>maximum\<close> delivered alerts, oldest first.\<close>

definition replay_window :: "uuid \<Rightarrow> uuid list \<Rightarrow> int \<Rightarrow> alert_row list \<Rightarrow> alert_row list" where
  "replay_window organizationId callIds maximum rs =
     rev (take (nat maximum) (rev (sort_key (\<lambda>a. (al_createdAt a, al_id a))
       (filter (delivered_for organizationId callIds) rs))))"

definition ends_of :: "OutboxRecord list \<Rightarrow> string option \<times> string option" where
  "ends_of records = (if records = [] then (None, None)
     else (al_externalEventId (ox_alert (hd records)), al_externalEventId (ox_alert (last records))))"

text \<open>What follows the event with the identifier, nothing when it is not there.\<close>

fun after_event :: "string \<Rightarrow> OutboxRecord list \<Rightarrow> OutboxRecord list option" where
  "after_event i [] = None"
| "after_event i (r # rs) =
     (if al_externalEventId (ox_alert r) = Some i then Some rs else after_event i rs)"

definition outbox_replay ::
  "uuid \<Rightarrow> uuid list \<Rightarrow> string option \<Rightarrow> int \<Rightarrow> ReplayResult op" where
  "outbox_replay context callIds afterEventId maximum =
     bindM (liftE (requireTenant context)) (\<lambda>organizationId.
     bindM (mapM (\<lambda>c. liftE (requireUuid c ''callId'')) (dedup callIds)) (\<lambda>scopedCallIds.
     bindM (getM (\<lambda>w. replay_window organizationId scopedCallIds maximum (d_alerts (w_db w)))) (\<lambda>window.
     bindM (mapM outbox_record window) (\<lambda>records.
     let result = (\<lambda>status events. \<lparr>rt_status = status, rt_events = events,
           rt_oldest = fst (ends_of records), rt_latest = snd (ends_of records)\<rparr>) in
     case afterEventId of
       None \<Rightarrow> returnM (result COMPLETE [])
     | Some i \<Rightarrow>
         bindM (liftE (requireText i ''afterEventId'' 68)) (\<lambda>_.
         thenM (guardM (isSecurityEventId i) (Error ''Security event cursor is invalid.''))
         (case after_event i records of
            None \<Rightarrow> if records \<noteq> [] then returnM (result BOUNDARY_EXCEEDED [])
                    else returnM (result COMPLETE [])
          | Some rest \<Rightarrow> bindM (mapM toSecurityEvent rest) (\<lambda>events.
              returnM (result COMPLETE events))))))))"

definition requireEventId :: "string \<Rightarrow> err + string" where
  "requireEventId v =
     bindE (requireText v ''eventId'' 68) (\<lambda>_.
     if isSecurityEventId v then Inr v else Inl (Error ''Security event id is invalid.''))"

text \<open>A record may be acknowledged when it is delivered, or while its delivery is under way.\<close>

definition acknowledgeable :: "instant \<Rightarrow> alert_row \<Rightarrow> bool" where
  "acknowledgeable t a \<longleftrightarrow> al_status a = ALERT_DELIVERED \<or> (al_status a = ALERT_PENDING \<and> lease_live t a)"

definition outbox_acknowledge :: "uuid \<Rightarrow> uuid \<Rightarrow> uuid list \<Rightarrow> string \<Rightarrow> unit op" where
  "outbox_acknowledge context membershipId callIds eventId =
     bindM (liftE (requireTenant context)) (\<lambda>organizationId.
     bindM (mapM (\<lambda>c. liftE (requireUuid c ''callId'')) callIds) (\<lambda>scopedCallIds.
     bindM (liftE (requireEventId eventId)) (\<lambda>i.
     bindM (find_or_throw alerts_table
              (\<lambda>a. al_org a = organizationId \<and> al_externalEventId a = Some i)
              (TenantResourceNotFoundError ''Security event'')) (\<lambda>record.
     bindM (now_if (al_status record = ALERT_PENDING \<and> al_leaseId record \<noteq> None \<and>
              al_leaseExpiresAt record \<noteq> None)) (\<lambda>t.
     thenM (guardM (acknowledgeable t record \<and> List.member scopedCallIds (al_call record))
              (TenantResourceNotFoundError ''Security event''))
     (bindM (now_if (al_acknowledgedAt record = None)) (\<lambda>t2.
      bindM (if al_acknowledgedBy record = None
             then bindM (liftE (requireUuid membershipId ''membershipId'')) (\<lambda>m. returnM (Some m))
             else returnM (al_acknowledgedBy record)) (\<lambda>by_whom.
      bindM (update_one alerts_table (\<lambda>a. al_id a = al_id record)
               (\<lambda>a. a\<lparr>al_acknowledgedAt :=
                   (case al_acknowledgedAt record of None \<Rightarrow> Some t2 | Some x \<Rightarrow> Some x),
                  al_acknowledgedBy := by_whom\<rparr>)) (\<lambda>_.
      returnM ())))))))))"

section \<open>Publishing one event\<close>

record PublishInput =
  pb_organizationId :: uuid
  pb_callId :: uuid
  pb_targetId :: uuid
  pb_eventType :: SecurityEventType
  pb_schemaVersion :: string
  pb_idempotencyKey :: string
  pb_correlationId :: string
  pb_occurredAt :: instant
  pb_metadata :: "(string \<times> json) list option"

definition published_event :: "(string \<Rightarrow> string) \<Rightarrow> PublishInput \<Rightarrow> SecurityEvent" where
  "published_event sha256 input =
     \<lparr>se_outboxId = None,
      se_eventId = ''evt_'' @ sha256 (pb_organizationId input @ '':'' @
        event_type_name (pb_eventType input) @ '':'' @ pb_targetId input @ '':'' @
        pb_idempotencyKey input),
      se_eventType = pb_eventType input, se_schemaVersion = pb_schemaVersion input,
      se_organizationId = pb_organizationId input, se_callId = pb_callId input,
      se_targetId = pb_targetId input, se_occurredAt = pb_occurredAt input,
      se_metadata = (case pb_metadata input of None \<Rightarrow> [] | Some m \<Rightarrow> m)\<rparr>"

definition publish_audit ::
  "PublishInput \<Rightarrow> string \<Rightarrow> string \<Rightarrow> AuditOutcome option \<Rightarrow> string option \<Rightarrow> audit_row op" where
  "publish_audit input suffix action outcome reasonCode = audit_record
     \<lparr>wa_organizationId = pb_organizationId input, wa_actor = None,
      wa_correlationId = pb_correlationId input,
      wa_idempotencyKey = Some (pb_idempotencyKey input @ suffix), wa_action = action,
      wa_targetType = ''SecurityEvent'', wa_targetId = pb_targetId input, wa_outcome = outcome,
      wa_reasonCode = reasonCode, wa_operation = event_type_name (pb_eventType input)\<rparr>"

definition createAndPublish ::
  "(string \<Rightarrow> string) \<Rightarrow> (SecurityEvent \<Rightarrow> unit op) option \<Rightarrow> PublishInput \<Rightarrow> SecurityEvent op" where
  "createAndPublish sha256 publisher input =
     (let event = published_event sha256 input in
      thenM (catchM (case publisher of
                 None \<Rightarrow> throwM (Error ''Security event publisher unavailable'')
               | Some publish \<Rightarrow> publish event)
         (\<lambda>_. bindM (publish_audit input '':publish-failed'' ''security-event.publish.failed''
                   (Some AUDIT_FAILED) (Some ''SECURITY_EVENT_PROVIDER_FAILED'')) (\<lambda>_.
              throwM (DomainProviderError ''SECURITY_EVENT'' ''publish'' ''RETRY_REQUIRED''))))
      (bindM (publish_audit input '':published'' ''security-event.published'' None None) (\<lambda>_.
       returnM event)))"

end
