(* ===== verification/Outbox_Delivery.thy ===== *)
theory Outbox_Delivery
  imports Security_Outbox Store_Rules
begin

text \<open>
  What the outbox promises: an alert that waits for delivery is delivered or given up after at most
  the configured number of flushes. A publisher may fail as it likes; what it may not do is touch the
  database. The locale \<open>event_publisher\<close> is that interface, the gateway interprets it.
\<close>

section \<open>The alerts as a map\<close>

definition alerts_of :: "world \<Rightarrow> uuid \<Rightarrow> alert_row option" where
  "alerts_of w i = find (\<lambda>a. al_id a = i) (d_alerts (w_db w))"

definition referenced :: "db \<Rightarrow> bool" where
  "referenced d \<longleftrightarrow> (\<forall>a \<in> set (d_alerts d).
     \<exists>e \<in> set (d_riskEvents d). re_org e = al_org a \<and> re_id e = al_riskEvent a)"

definition outbox_ok :: "db \<Rightarrow> bool" where
  "outbox_ok d \<longleftrightarrow> alerts_db.consistent d \<and> referenced d"

lemma clash_ids: "pairwise_free alert_clash rs \<Longrightarrow> distinct (map al_id rs)"
  by (induction rs) (auto simp: alert_clash_def list_ex_iff)

lemma outbox_ids: "outbox_ok d \<Longrightarrow> distinct (map al_id (d_alerts d))"
  unfolding outbox_ok_def alerts_db.consistent_def by (simp add: alerts_table_def clash_ids)

lemma find_id_iff:
  "distinct (map al_id rs) \<Longrightarrow> find (\<lambda>a. al_id a = i) rs = Some a \<longleftrightarrow> a \<in> set rs \<and> al_id a = i"
  by (induction rs) auto

lemma alerts_of_iff:
  "outbox_ok (w_db w) \<Longrightarrow> alerts_of w i = Some a \<longleftrightarrow> a \<in> set (d_alerts (w_db w)) \<and> al_id a = i"
  by (simp add: alerts_of_def find_id_iff outbox_ids)

lemma alerts_of_id: "alerts_of w i = Some a \<Longrightarrow> al_id a = i"
  by (auto simp: alerts_of_def find_Some_iff)

lemma alerts_of_frame [simp]:
  "alerts_of (w\<lparr>w_idn := n\<rparr>) = alerts_of w" "alerts_of (w\<lparr>w_ticks := k\<rparr>) = alerts_of w"
  by (simp_all add: alerts_of_def fun_eq_iff)

lemma alerts_of_cong: "w_db w' = w_db w \<Longrightarrow> alerts_of w' = alerts_of w"
  by (simp add: alerts_of_def fun_eq_iff)

text \<open>A change of one row that leaves the keys alone.\<close>

definition same_keys :: "(alert_row \<Rightarrow> alert_row) \<Rightarrow> bool" where
  "same_keys f \<longleftrightarrow> (\<forall>a. al_id (f a) = al_id a \<and> al_org (f a) = al_org a \<and>
     al_idemKey (f a) = al_idemKey a \<and> al_externalEventId (f a) = al_externalEventId a \<and>
     al_riskEvent (f a) = al_riskEvent a)"

lemma same_keys_updates [simp]:
  "same_keys (claimed_alert l e)" "same_keys (delivered_alert t)" "same_keys (failed_alert b n)"
  by (simp_all add: same_keys_def claimed_alert_def delivered_alert_def failed_alert_def)

lemma find_change_rows:
  "(\<And>a. al_id (f a) = al_id a) \<Longrightarrow>
     find (\<lambda>a. al_id a = j) (change_rows P f rs) =
     map_option (\<lambda>a. if P a then f a else a) (find (\<lambda>a. al_id a = j) rs)"
  by (induction rs) (auto simp: change_rows_def)

lemma update_alert:
  assumes ok: "outbox_ok (w_db w)" and r: "alerts_of w i = Some r" and P: "P r"
    and only: "\<And>a. P a \<Longrightarrow> al_id a = i" and f: "same_keys f" and check: "alert_check (f r)"
  shows "\<exists>w'. update_rows alerts_table P f w = (Inr 1, w') \<and> outbox_ok (w_db w') \<and>
    alerts_of w' = (alerts_of w)(i \<mapsto> f r) \<and> w' = w\<lparr>w_db := w_db w'\<rparr>"
proof -
  let ?rs = "d_alerts (w_db w)" and ?w' = "w\<lparr>w_db := d_alerts_update (change_rows P f) (w_db w)\<rparr>"
  have mem: "r \<in> set ?rs" "al_id r = i" using r by (simp_all add: alerts_of_iff [OF ok])
  have con: "pairwise_free alert_clash ?rs" "list_all alert_check ?rs" and ref: "referenced (w_db w)"
    using ok unfolding outbox_ok_def alerts_db.consistent_def by (simp_all add: alerts_table_def)
  have hit: "filter P ?rs = [r]"
    by (rule pairwise_free_filter [of alert_clash ?rs r P, OF con(1) mem(1) P]) (use only mem(2) in \<open>auto simp: alert_clash_def\<close>)
  have free: "pairwise_free alert_clash (change_rows P f ?rs)"
    unfolding change_rows_def
    by (subst pairwise_free_map) (use f con(1) in \<open>auto simp: alert_clash_def same_keys_def\<close>)
  have step: "update_rows alerts_table P f w = (Inr 1, ?w')"
    using hit check free by (simp add: update_rows_def alerts_table_def)
  have "set (filter P ?rs) = {r}" by (simp only: hit list.set)
  then have P_iff: "P a \<longleftrightarrow> a = r" if "a \<in> set ?rs" for a
    using that by auto
  have "list_all alert_check (change_rows P f ?rs)"
    using con(2) check P_iff by (auto simp: change_rows_def list_all_iff)
  moreover have "referenced (w_db ?w')"
  proof -
    have "\<And>a. al_org (f a) = al_org a \<and> al_riskEvent (f a) = al_riskEvent a"
      using f by (simp add: same_keys_def)
    with ref show ?thesis by (auto simp: referenced_def change_rows_def)
  qed
  ultimately have "outbox_ok (w_db ?w')"
    unfolding outbox_ok_def alerts_db.consistent_def using free by (simp add: alerts_table_def)
  moreover have "alerts_of ?w' = (alerts_of w)(i \<mapsto> f r)"
  proof
    fix j
    have "alerts_of ?w' j = map_option (\<lambda>a. if P a then f a else a) (alerts_of w j)"
      unfolding alerts_of_def using f by (simp add: find_change_rows same_keys_def)
    also have "\<dots> = ((alerts_of w)(i \<mapsto> f r)) j"
    proof (cases "j = i")
      case True
      with r P show ?thesis by simp
    next
      case False
      then have "\<not> P a" if "alerts_of w j = Some a" for a
        using only alerts_of_id [OF that] by blast
      with False show ?thesis by (cases "alerts_of w j") simp_all
    qed
    finally show "alerts_of ?w' j = ((alerts_of w)(i \<mapsto> f r)) j" .
  qed
  ultimately show ?thesis using step by (intro exI [of _ ?w']) simp
qed

section \<open>Claiming\<close>

text \<open>What an operation of the outbox leaves alone.\<close>

definition same_rest :: "world \<Rightarrow> world \<Rightarrow> bool" where
  "same_rest w w' \<longleftrightarrow> w_clock w' = w_clock w \<and> outbox_ok (w_db w')"

lemma claim_alert_run:
  assumes ok: "outbox_ok (w_db w)" and a: "alerts_of w i = Some (ox_alert c)"
    and free: "al_status (ox_alert c) = ALERT_PENDING" "lease_over t (ox_alert c)"
  shows "\<exists>l w'. claim_alert t e c w = (Inr [leased_record l e c], w') \<and> same_rest w w' \<and>
    alerts_of w' = (alerts_of w)(i \<mapsto> claimed_alert l e (ox_alert c))"
proof -
  let ?l = "w_ids w (w_idn w)" and ?w = "w\<lparr>w_idn := Suc (w_idn w)\<rparr>"
  have check: "alert_check (claimed_alert ?l e (ox_alert c))"
    using ok a free unfolding alerts_of_iff [OF ok] outbox_ok_def alerts_db.consistent_def
    by (auto simp: alerts_table_def list_all_iff alert_check_def claimed_alert_def)
  have "\<exists>w'. update_rows alerts_table (still_claimable t (ox_alert c)) (claimed_alert ?l e) ?w = (Inr 1, w') \<and>
      outbox_ok (w_db w') \<and> alerts_of w' = (alerts_of ?w)(i \<mapsto> claimed_alert ?l e (ox_alert c)) \<and>
      w' = ?w\<lparr>w_db := w_db w'\<rparr>"
    by (rule update_alert)
      (use ok a free alerts_of_id [OF a] check in \<open>auto simp: still_claimable_def alerts_of_def\<close>)
  then obtain w' where u: "update_rows alerts_table (still_claimable t (ox_alert c)) (claimed_alert ?l e) ?w =
      (Inr 1, w')" "outbox_ok (w_db w')"
    "alerts_of w' = (alerts_of w)(i \<mapsto> claimed_alert ?l e (ox_alert c))" "w' = ?w\<lparr>w_db := w_db w'\<rparr>"
    by auto
  have "w_clock w' = w_clock w" by (subst u(4)) simp
  then show ?thesis
    using u(1-3) by (intro exI [of _ ?l] exI [of _ w']) (simp add: claim_alert_def new_id_def monad_simps same_rest_def)
qed

text \<open>
  A claimed record and its row: the row is leased as the record says, one attempt later than it was.
\<close>

definition claimed_from :: "alert_row \<Rightarrow> OutboxRecord \<Rightarrow> alert_row option \<Rightarrow> bool" where
  "claimed_from a r x \<longleftrightarrow> (\<exists>l e. x = Some (claimed_alert l e a) \<and>
     al_id (ox_alert r) = al_id a \<and> leased_as (ox_alert r) (claimed_alert l e a))"

lemma claimed_fromD:
  assumes "claimed_from a r x"
  shows "al_id (ox_alert r) = al_id a" "al_attemptCount (ox_alert r) = al_attemptCount a + 1"
    "\<exists>a'. x = Some a' \<and> leased_as (ox_alert r) a' \<and> al_channel a' = al_channel a"
proof -
  obtain l e where "x = Some (claimed_alert l e a)" "al_id (ox_alert r) = al_id a"
    "leased_as (ox_alert r) (claimed_alert l e a)" using assms by (auto simp: claimed_from_def)
  then show "al_id (ox_alert r) = al_id a" "al_attemptCount (ox_alert r) = al_attemptCount a + 1"
    "\<exists>a'. x = Some a' \<and> leased_as (ox_alert r) a' \<and> al_channel a' = al_channel a"
    by (simp_all add: leased_as_def claimed_alert_def)
qed

lemma claims_run:
  assumes "outbox_ok (w_db w)" and "distinct (map (\<lambda>c. al_id (ox_alert c)) cs)"
    and "\<And>c. c \<in> set cs \<Longrightarrow> alerts_of w (al_id (ox_alert c)) = Some (ox_alert c) \<and>
        al_status (ox_alert c) = ALERT_PENDING \<and> lease_over t (ox_alert c)"
  shows "\<exists>rss w'. mapM (claim_alert t e) cs w = (Inr rss, w') \<and> same_rest w w' \<and>
    map (\<lambda>r. al_id (ox_alert r)) (concat rss) = map (\<lambda>c. al_id (ox_alert c)) cs \<and>
    list_all2 (\<lambda>c r. claimed_from (ox_alert c) r (alerts_of w' (al_id (ox_alert c)))) cs (concat rss) \<and>
    (\<forall>i. i \<notin> (\<lambda>c. al_id (ox_alert c)) ` set cs \<longrightarrow> alerts_of w' i = alerts_of w i)"
  using assms
proof (induction cs arbitrary: w)
  case Nil
  then show ?case by (simp add: monad_simps same_rest_def)
next
  case (Cons c cs)
  let ?i = "al_id (ox_alert c)"
  obtain l w1 where one: "claim_alert t e c w = (Inr [leased_record l e c], w1)" "same_rest w w1"
    "alerts_of w1 = (alerts_of w)(?i \<mapsto> claimed_alert l e (ox_alert c))"
    using claim_alert_run [OF Cons.prems(1), of ?i c t e] Cons.prems(3) by auto
  have other: "al_id (ox_alert c') \<noteq> ?i" if "c' \<in> set cs" for c'
    using Cons.prems(2) that by simp (metis image_eqI)
  obtain rss w' where rest: "mapM (claim_alert t e) cs w1 = (Inr rss, w')" "same_rest w1 w'"
    "map (\<lambda>r. al_id (ox_alert r)) (concat rss) = map (\<lambda>c. al_id (ox_alert c)) cs"
    "list_all2 (\<lambda>c r. claimed_from (ox_alert c) r (alerts_of w' (al_id (ox_alert c)))) cs (concat rss)"
    "\<forall>i. i \<notin> (\<lambda>c. al_id (ox_alert c)) ` set cs \<longrightarrow> alerts_of w' i = alerts_of w1 i"
    using Cons.IH [of w1] Cons.prems one(2,3) other by (auto simp: same_rest_def)
  have "alerts_of w' ?i = Some (claimed_alert l e (ox_alert c))"
    using rest(5) one(3) other by (metis (no_types, lifting) fun_upd_same imageE)
  then have "claimed_from (ox_alert c) (leased_record l e c) (alerts_of w' ?i)"
    using Cons.prems(3) [of c]
    by (auto simp: claimed_from_def leased_record_def leased_as_def claimed_alert_def)
  moreover have "al_id (ox_alert (leased_record l e c)) = ?i" by (simp add: leased_record_def)
  moreover have "\<forall>i. i \<notin> (\<lambda>c. al_id (ox_alert c)) ` set (c # cs) \<longrightarrow> alerts_of w' i = alerts_of w i"
    using rest(5) one(3) by auto
  ultimately show ?case
    using one(1,2) rest(1-4)
    by (intro exI [of _ "[leased_record l e c] # rss"] exI [of _ w'])
      (simp add: monad_simps same_rest_def)
qed

text \<open>The relations of the alerts of a batch are all there.\<close>

lemma outbox_records_run:
  "referenced (w_db w) \<Longrightarrow> set batch \<subseteq> set (d_alerts (w_db w)) \<Longrightarrow>
     \<exists>rs. mapM outbox_record batch w = (Inr rs, w) \<and> map ox_alert rs = batch"
proof (induction batch)
  case Nil
  then show ?case by (simp add: monad_simps)
next
  case (Cons a batch)
  then obtain rs where rs: "mapM outbox_record batch w = (Inr rs, w)" "map ox_alert rs = batch" by auto
  have "find (\<lambda>e. re_org e = al_org a \<and> re_id e = al_riskEvent a) (d_riskEvents (w_db w)) \<noteq> None"
    using Cons.prems by (auto simp: referenced_def find_None_iff)
  then obtain e where
    "find (\<lambda>e. re_org e = al_org a \<and> re_id e = al_riskEvent a) (d_riskEvents (w_db w)) = Some e" by auto
  then have "\<exists>x. outbox_record a w = (Inr x, w) \<and> ox_alert x = a"
    by (simp add: outbox_record_def find_or_throw_def find_unique_row_def riskEvents_table_def monad_simps)
  then obtain x where "outbox_record a w = (Inr x, w)" "ox_alert x = a" by blast
  with rs show ?case by (intro exI [of _ "x # rs"]) (simp add: monad_simps)
qed

section \<open>Waiting alerts\<close>

definition waiting :: "int \<Rightarrow> alert_row \<Rightarrow> bool" where
  "waiting m a \<longleftrightarrow> al_channel a = SECURITY_WEBSOCKET \<and> al_status a = ALERT_PENDING \<and> al_attemptCount a < m"

lemma dispatchable_waiting: "dispatchable t m a \<Longrightarrow> waiting m a"
  by (simp add: dispatchable_def waiting_def)

text \<open>A batch that is large enough holds every waiting alert that is due.\<close>

lemma full_batch:
  assumes "length (filter (waiting m) rs) \<le> nat limit"
    and "\<And>a. a \<in> set rs \<Longrightarrow> waiting m a \<Longrightarrow> dispatchable t m a"
  shows "set (dispatch_batch t limit m rs) = set (filter (waiting m) rs)"
    "distinct (map al_id rs) \<Longrightarrow> distinct (map al_id (dispatch_batch t limit m rs))"
proof -
  have "filter (dispatchable t m) rs = filter (waiting m) rs"
    by (rule filter_cong) (use assms(2) dispatchable_waiting in auto)
  then have b: "dispatch_batch t limit m rs = sort_key dispatch_order (filter (waiting m) rs)"
    using assms(1) by (simp add: dispatch_batch_def)
  then show "set (dispatch_batch t limit m rs) = set (filter (waiting m) rs)" by simp
  show "distinct (map al_id (dispatch_batch t limit m rs))" if "distinct (map al_id rs)"
    using that unfolding b by (auto simp: distinct_map intro: inj_on_subset)
qed

lemma count_waiting:
  assumes "outbox_ok (w_db w)"
  shows "length (filter P (d_alerts (w_db w))) = card {i. \<exists>a. alerts_of w i = Some a \<and> P a}"
proof -
  have "distinct (map al_id (filter P (d_alerts (w_db w))))"
    using outbox_ids [OF assms] by (simp add: distinct_map inj_on_def)
  then have "length (filter P (d_alerts (w_db w))) = card (set (map al_id (filter P (d_alerts (w_db w)))))"
    by (metis distinct_card length_map)
  also have "set (map al_id (filter P (d_alerts (w_db w)))) = {i. \<exists>a. alerts_of w i = Some a \<and> P a}"
    by (auto simp: alerts_of_iff [OF assms])
  finally show ?thesis .
qed

lemma list_all2_mem:
  "list_all2 P xs ys \<Longrightarrow> (\<forall>x \<in> set xs. \<exists>y \<in> set ys. P x y) \<and> (\<forall>y \<in> set ys. \<exists>x \<in> set xs. P x y)"
  by (induction rule: list_all2_induct) auto

text \<open>Every waiting alert is claimed.\<close>

lemma claimDispatchable_run:
  assumes ok: "outbox_ok (w_db w)"
    and few: "length (filter (waiting m) (d_alerts (w_db w))) \<le> nat limit"
    and due: "\<And>a n. a \<in> set (d_alerts (w_db w)) \<Longrightarrow> waiting m a \<Longrightarrow> dispatchable (w_clock w n) m a"
  shows "\<exists>rs w'. claimDispatchable limit m leaseMs w = (Inr rs, w') \<and> same_rest w w' \<and>
    distinct (map (\<lambda>r. al_id (ox_alert r)) rs) \<and>
    (\<forall>i a. alerts_of w i = Some a \<and> waiting m a \<longrightarrow> (\<exists>r \<in> set rs. al_id (ox_alert r) = i)) \<and>
    (\<forall>r \<in> set rs. \<exists>a a'. alerts_of w (al_id (ox_alert r)) = Some a \<and> waiting m a \<and>
       al_attemptCount (ox_alert r) = al_attemptCount a + 1 \<and>
       alerts_of w' (al_id (ox_alert r)) = Some a' \<and> leased_as (ox_alert r) a' \<and>
       al_channel a' = SECURITY_WEBSOCKET) \<and>
    (\<forall>i. i \<notin> (\<lambda>r. al_id (ox_alert r)) ` set rs \<longrightarrow> alerts_of w' i = alerts_of w i)"
proof -
  let ?t = "w_clock w (w_ticks w)" and ?v = "w\<lparr>w_ticks := Suc (w_ticks w)\<rparr>"
  let ?rs = "d_alerts (w_db w)"
  let ?batch = "dispatch_batch ?t limit m ?rs"
  have batch: "set ?batch = set (filter (waiting m) ?rs)" "distinct (map al_id ?batch)"
    using full_batch [OF few, of ?t] due outbox_ids [OF ok] by auto
  obtain cs where cs: "mapM outbox_record ?batch ?v = (Inr cs, ?v)" "map ox_alert cs = ?batch"
    using outbox_records_run [of ?v ?batch] ok batch(1) by (auto simp: outbox_ok_def)
  have cs_set: "ox_alert ` set cs = set (filter (waiting m) ?rs)"
    using batch(1) by (metis cs(2) list.set_map)
  have cs_ids: "distinct (map (\<lambda>c. al_id (ox_alert c)) cs)"
    using batch(2) by (metis (no_types, lifting) cs(2) list.map_comp comp_apply map_eq_conv)
  have each: "alerts_of w (al_id (ox_alert c)) = Some (ox_alert c) \<and> waiting m (ox_alert c) \<and>
      al_status (ox_alert c) = ALERT_PENDING \<and> lease_over ?t (ox_alert c)" if "c \<in> set cs" for c
  proof -
    have "ox_alert c \<in> set (filter (waiting m) ?rs)" using cs_set that by auto
    with due [of "ox_alert c" "w_ticks w"] show ?thesis
      by (auto simp: alerts_of_iff [OF ok] dispatchable_def)
  qed
  obtain rss w' where claims:
    "mapM (claim_alert ?t (?t + leaseMs)) cs ?v = (Inr rss, w')" "same_rest ?v w'"
    "map (\<lambda>r. al_id (ox_alert r)) (concat rss) = map (\<lambda>c. al_id (ox_alert c)) cs"
    "list_all2 (\<lambda>c r. claimed_from (ox_alert c) r (alerts_of w' (al_id (ox_alert c)))) cs (concat rss)"
    "\<forall>i. i \<notin> (\<lambda>c. al_id (ox_alert c)) ` set cs \<longrightarrow> alerts_of w' i = alerts_of w i"
    using claims_run [of ?v cs ?t "?t + leaseMs"] ok cs_ids each by auto
  have ids: "(\<lambda>r. al_id (ox_alert r)) ` set (concat rss) = (\<lambda>c. al_id (ox_alert c)) ` set cs"
    using arg_cong [OF claims(3), of set] by (simp only: list.set_map)
  have "\<exists>r \<in> set (concat rss). al_id (ox_alert r) = i" if "alerts_of w i = Some a" "waiting m a" for i a
  proof -
    have "a \<in> ox_alert ` set cs" "al_id a = i"
      using that cs_set by (auto simp: alerts_of_iff [OF ok])
    then have "i \<in> (\<lambda>c. al_id (ox_alert c)) ` set cs" by auto
    then show ?thesis unfolding ids [symmetric] by auto
  qed
  moreover have "\<exists>a a'. alerts_of w (al_id (ox_alert r)) = Some a \<and> waiting m a \<and>
      al_attemptCount (ox_alert r) = al_attemptCount a + 1 \<and>
      alerts_of w' (al_id (ox_alert r)) = Some a' \<and> leased_as (ox_alert r) a' \<and>
      al_channel a' = SECURITY_WEBSOCKET" if r: "r \<in> set (concat rss)" for r
  proof -
    obtain c where c: "c \<in> set cs" "claimed_from (ox_alert c) r (alerts_of w' (al_id (ox_alert c)))"
      using bspec [OF conjunct2 [OF list_all2_mem [OF claims(4)]] r] by (elim bexE)
    have id: "al_id (ox_alert r) = al_id (ox_alert c)" using claimed_fromD(1) [OF c(2)] .
    obtain a' where a': "alerts_of w' (al_id (ox_alert c)) = Some a'" "leased_as (ox_alert r) a'"
      "al_channel a' = al_channel (ox_alert c)" using claimed_fromD(3) [OF c(2)] by (elim exE conjE)
    show ?thesis
      unfolding id
      by (rule exI [of _ "ox_alert c"], rule exI [of _ a'])
        (use claimed_fromD(2) [OF c(2)] each [OF c(1)] a' in \<open>simp add: waiting_def\<close>)
  qed
  moreover have "claimDispatchable limit m leaseMs w = (Inr (concat rss), w')"
    using cs(1) claims(1) by (simp add: claimDispatchable_def now_def monad_simps)
  moreover have "same_rest w w'" using claims(2) by (simp add: same_rest_def)
  moreover have "\<forall>i. i \<notin> (\<lambda>r. al_id (ox_alert r)) ` set (concat rss) \<longrightarrow> alerts_of w' i = alerts_of w i"
    using claims(5) unfolding ids .
  moreover have "distinct (map (\<lambda>r. al_id (ox_alert r)) (concat rss))"
    using cs_ids by (simp only: claims(3))
  ultimately show ?thesis by (intro exI [of _ "concat rss"] exI [of _ w'] conjI allI impI ballI; blast)
qed

section \<open>Delivering\<close>

text \<open>What becomes of a claimed alert: delivered, given up, or scheduled for another attempt.\<close>

definition settled :: "int \<Rightarrow> int \<Rightarrow> (nat \<Rightarrow> instant) \<Rightarrow> int \<Rightarrow> alert_row \<Rightarrow> bool" where
  "settled maximumAttempts retryBaseMs clock attempt a \<longleftrightarrow>
     al_status a = ALERT_DELIVERED \<or> al_status a = ALERT_FAILED \<or>
     (al_status a = ALERT_PENDING \<and> al_attemptCount a = attempt \<and> attempt < maximumAttempts \<and>
      al_leaseId a = None \<and>
      (\<exists>n. al_nextAttemptAt a = Some (clock n + retry_delay retryBaseMs attempt)))"

lemma mark_run:
  assumes "outbox_ok (w_db w)" "alerts_of w i = Some a" "leased_as r a" "same_keys f" "alert_check (f a)"
  shows "\<exists>w'. bindM (update_rows alerts_table (leased_as r) f) (\<lambda>n. guardM (n = 1) lease_lost) w = (Inr (), w') \<and>
    same_rest w w' \<and> alerts_of w' = (alerts_of w)(i \<mapsto> f a)"
proof -
  have "\<exists>w'. update_rows alerts_table (leased_as r) f w = (Inr 1, w') \<and> outbox_ok (w_db w') \<and>
      alerts_of w' = (alerts_of w)(i \<mapsto> f a) \<and> w' = w\<lparr>w_db := w_db w'\<rparr>"
    by (rule update_alert) (use assms alerts_of_id [OF assms(2)] in \<open>auto simp: leased_as_def\<close>)
  then obtain w' where u: "update_rows alerts_table (leased_as r) f w = (Inr 1, w')"
    "outbox_ok (w_db w')" "alerts_of w' = (alerts_of w)(i \<mapsto> f a)" "w' = w\<lparr>w_db := w_db w'\<rparr>" by blast
  have "w_clock w' = w_clock w" by (subst u(4)) simp
  with u(1-3) show ?thesis by (intro exI [of _ w']) (simp add: monad_simps same_rest_def)
qed

lemma alert_check_of:
  "outbox_ok (w_db w) \<Longrightarrow> alerts_of w i = Some a \<Longrightarrow> alert_check a"
  unfolding alerts_of_iff outbox_ok_def alerts_db.consistent_def
  by (auto simp: alerts_table_def list_all_iff alerts_of_def find_Some_iff)

lemma markDelivered_run:
  assumes "outbox_ok (w_db w)" "alerts_of w i = Some a" "leased_as (ox_alert r) a"
  shows "\<exists>t w'. markDelivered r w = (Inr (), w') \<and> same_rest w w' \<and>
    alerts_of w' = (alerts_of w)(i \<mapsto> delivered_alert t a)"
proof -
  let ?t = "w_clock w (w_ticks w)" and ?w = "w\<lparr>w_ticks := Suc (w_ticks w)\<rparr>"
  have "alert_check (delivered_alert ?t a)"
    using alert_check_of [OF assms(1,2)] by (simp add: alert_check_def delivered_alert_def)
  then obtain w' where "bindM (update_rows alerts_table (leased_as (ox_alert r)) (delivered_alert ?t))
      (\<lambda>n. guardM (n = 1) lease_lost) ?w = (Inr (), w')" "same_rest ?w w'"
    "alerts_of w' = (alerts_of ?w)(i \<mapsto> delivered_alert ?t a)"
    using mark_run [of ?w i a "ox_alert r" "delivered_alert ?t"] assms by auto
  then show ?thesis
    by (intro exI [of _ ?t] exI [of _ w']) (simp add: markDelivered_def now_def monad_simps same_rest_def)
qed

lemma markFailed_run:
  assumes "outbox_ok (w_db w)" "alerts_of w i = Some a" "leased_as (ox_alert r) a"
  shows "\<exists>a' w'. markFailed r m b w = (Inr (), w') \<and> same_rest w w' \<and>
    alerts_of w' = (alerts_of w)(i \<mapsto> a') \<and>
    settled m b (w_clock w) (al_attemptCount a) a' \<and> al_channel a' = al_channel a"
proof -
  let ?x = "m \<le> al_attemptCount (ox_alert r)"
  obtain t w1 where t: "now_if (\<not> ?x) w = (Inr t, w1)" "w_db w1 = w_db w" "w_clock w1 = w_clock w"
    "\<not> ?x \<Longrightarrow> t = w_clock w (w_ticks w)"
    by (cases ?x) (simp_all add: now_if_def now_def returnM_def)
  let ?f = "failed_alert ?x (t + retry_delay b (al_attemptCount (ox_alert r)))"
  have "alert_check (?f a)"
    using alert_check_of [OF assms(1,2)] by (simp add: alert_check_def failed_alert_def)
  then obtain w' where w': "bindM (update_rows alerts_table (leased_as (ox_alert r)) ?f)
      (\<lambda>n. guardM (n = 1) lease_lost) w1 = (Inr (), w')" "same_rest w1 w'"
    "alerts_of w' = (alerts_of w1)(i \<mapsto> ?f a)"
    using mark_run [of w1 i a "ox_alert r" ?f] assms t(2) alerts_of_cong [OF t(2)] by auto
  have "settled m b (w_clock w) (al_attemptCount a) (?f a)"
    using t(4) assms(3) by (auto simp: settled_def failed_alert_def leased_as_def)
  moreover have "al_channel (?f a) = al_channel a" by (simp add: failed_alert_def)
  ultimately show ?thesis
    using t w' alerts_of_cong [OF t(2)]
    by (intro exI [of _ "?f a"] exI [of _ w']) (simp add: markFailed_def monad_simps same_rest_def Let_def)
qed

lemma toSecurityEvent_frame:
  "w_db (snd (toSecurityEvent r w)) = w_db w \<and> w_clock (snd (toSecurityEvent r w)) = w_clock w"
proof -
  have "keeps (\<lambda>v. w_db v = w_db w \<and> w_clock v = w_clock w) (toSecurityEvent r)"
    unfolding toSecurityEvent_def Let_def now_if_def by (intro hoare) simp_all
  from keeps_sndD [OF this] show ?thesis by simp
qed

text \<open>
  A flush whose readings of the clock are those of \<open>c\<close>; \<open>spaced\<close> says that every reading of a flush
  lies a gap or more after every reading of the one before.
\<close>

definition flush_at ::
  "api_config \<Rightarrow> (SecurityEvent \<Rightarrow> unit op) \<Rightarrow> world \<Rightarrow> (nat \<Rightarrow> instant) \<Rightarrow> world" where
  "flush_at api publish w c = snd (flush api publish False False (w\<lparr>w_clock := c\<rparr>))"

fun spaced :: "instant \<Rightarrow> (nat \<Rightarrow> instant) list \<Rightarrow> bool" where
  "spaced gap (c # c' # cs) \<longleftrightarrow> (\<forall>m n. c m + gap \<le> c' n) \<and> spaced gap (c' # cs)"
| "spaced gap cs \<longleftrightarrow> True"

definition outbox_quiet :: "api_config \<Rightarrow> (nat \<Rightarrow> instant) \<Rightarrow> world \<Rightarrow> bool" where
  "outbox_quiet api c w \<longleftrightarrow> outbox_ok (w_db w) \<and>
     length (filter (waiting (securityOutboxMaximumAttempts api)) (d_alerts (w_db w))) \<le>
       nat (securityOutboxBatchSize api) \<and>
     (\<forall>a \<in> set (d_alerts (w_db w)). waiting (securityOutboxMaximumAttempts api) a \<longrightarrow>
       (\<forall>n. dispatchable (c n) (securityOutboxMaximumAttempts api) a))"

lemma retry_delay_mono: "0 \<le> b \<Longrightarrow> k \<le> m \<Longrightarrow> retry_delay b k \<le> retry_delay b m"
  unfolding retry_delay_def by (intro mult_left_mono power_increasing) auto

lemma settled_due:
  assumes "settled m b c k a" "waiting m a" "0 \<le> b" "\<forall>i n. c i + retry_delay b m \<le> c' n"
  shows "dispatchable (c' n) m a"
proof -
  obtain i where i: "al_nextAttemptAt a = Some (c i + retry_delay b k)" "k < m" "al_leaseId a = None"
    using assms(1,2) by (auto simp: settled_def waiting_def)
  have "c i + retry_delay b k \<le> c i + retry_delay b m" using retry_delay_mono [OF assms(3)] i(2) by simp
  also have "\<dots> \<le> c' n" using assms(4) by blast
  finally show ?thesis using i assms(2) by (simp add: dispatchable_def lease_over_def waiting_def)
qed

locale event_publisher =
  fixes publish :: "SecurityEvent \<Rightarrow> unit op"
  assumes publish_db: "w_db (snd (publish e w)) = w_db w"
    and publish_clock: "w_clock (snd (publish e w)) = w_clock w"
begin

lemma deliver_run:
  assumes "outbox_ok (w_db w)" "alerts_of w i = Some a" "leased_as (ox_alert r) a"
  shows "\<exists>x a' w'. deliver_record api publish r w = (Inr x, w') \<and> same_rest w w' \<and>
    alerts_of w' = (alerts_of w)(i \<mapsto> a') \<and> al_channel a' = al_channel a \<and>
    settled (securityOutboxMaximumAttempts api) (securityOutboxRetryBaseMs api) (w_clock w)
      (al_attemptCount a) a'"
proof -
  let ?m = "securityOutboxMaximumAttempts api" and ?b = "securityOutboxRetryBaseMs api"
  let ?attempt = "bindM (toSecurityEvent r) (\<lambda>event. thenM (publish event) (thenM (markDelivered r) (returnM True)))"
  have failed: ?thesis if run: "?attempt w = (Inl e, w1)" and w1: "w_db w1 = w_db w" "w_clock w1 = w_clock w" for e w1
  proof -
    obtain a' w' where m: "markFailed r ?m ?b w1 = (Inr (), w')" "same_rest w1 w'"
      "alerts_of w' = (alerts_of w1)(i \<mapsto> a')" "settled ?m ?b (w_clock w1) (al_attemptCount a) a'"
      "al_channel a' = al_channel a"
      using markFailed_run [of w1 i a r ?m ?b] assms w1 by (auto simp: alerts_of_cong [OF w1(1)])
    show ?thesis
      using m w1 alerts_of_cong [OF w1(1)] run
      by (intro exI [of _ False] exI [of _ a'] exI [of _ w'])
        (simp add: deliver_record_def catchM_def monad_simps same_rest_def)
  qed
  obtain x1 w1 where s1: "toSecurityEvent r w = (x1, w1)" by fastforce
  have w1: "w_db w1 = w_db w" "w_clock w1 = w_clock w" using toSecurityEvent_frame [of r w] s1 by auto
  show ?thesis
  proof (cases x1)
    case (Inl e)
    with s1 w1 show ?thesis by (intro failed [of e w1]) (simp_all add: monad_simps)
  next
    case (Inr event)
    obtain x2 w2 where s2: "publish event w1 = (x2, w2)" by fastforce
    have w2: "w_db w2 = w_db w" "w_clock w2 = w_clock w"
      using publish_db [of event w1] publish_clock [of event w1] s2 w1 by auto
    show ?thesis
    proof (cases x2)
      case (Inl e)
      with s1 Inr s2 w2 show ?thesis by (intro failed [of e w2]) (simp_all add: monad_simps)
    next
      case u: (Inr u)
      obtain t w' where m: "markDelivered r w2 = (Inr (), w')" "same_rest w2 w'"
        "alerts_of w' = (alerts_of w2)(i \<mapsto> delivered_alert t a)"
        using markDelivered_run [of w2 i a r] assms w2 by (auto simp: alerts_of_cong [OF w2(1)])
      show ?thesis
        using m w2 alerts_of_cong [OF w2(1)] s1 Inr s2 u
        by (intro exI [of _ True] exI [of _ "delivered_alert t a"] exI [of _ w'])
          (simp add: deliver_record_def monad_simps same_rest_def settled_def delivered_alert_def)
    qed
  qed
qed

lemma delivers_run:
  assumes "outbox_ok (w_db w)" and "distinct (map (\<lambda>r. al_id (ox_alert r)) rs)"
    and "\<And>r. r \<in> set rs \<Longrightarrow> \<exists>a. alerts_of w (al_id (ox_alert r)) = Some a \<and>
        leased_as (ox_alert r) a \<and> al_channel a = SECURITY_WEBSOCKET"
  shows "\<exists>xs w'. mapM (deliver_record api publish) rs w = (Inr xs, w') \<and> same_rest w w' \<and>
    (\<forall>r \<in> set rs. \<exists>a'. alerts_of w' (al_id (ox_alert r)) = Some a' \<and>
       al_channel a' = SECURITY_WEBSOCKET \<and>
       settled (securityOutboxMaximumAttempts api) (securityOutboxRetryBaseMs api) (w_clock w)
         (al_attemptCount (ox_alert r)) a') \<and>
    (\<forall>i. i \<notin> (\<lambda>r. al_id (ox_alert r)) ` set rs \<longrightarrow> alerts_of w' i = alerts_of w i)"
  using assms
proof (induction rs arbitrary: w)
  case Nil
  then show ?case by (simp add: monad_simps same_rest_def)
next
  case (Cons r rs)
  let ?i = "al_id (ox_alert r)"
  obtain a where a: "alerts_of w ?i = Some a" "leased_as (ox_alert r) a" "al_channel a = SECURITY_WEBSOCKET"
    using Cons.prems(3) [of r] by auto
  obtain x a' w1 where one: "deliver_record api publish r w = (Inr x, w1)" "same_rest w w1"
    "alerts_of w1 = (alerts_of w)(?i \<mapsto> a')" "al_channel a' = al_channel a"
    "settled (securityOutboxMaximumAttempts api) (securityOutboxRetryBaseMs api) (w_clock w)
      (al_attemptCount a) a'"
    using deliver_run [OF Cons.prems(1) a(1,2)] by blast
  have other: "al_id (ox_alert r') \<noteq> ?i" if "r' \<in> set rs" for r'
    using Cons.prems(2) that by simp (metis image_eqI)
  have "\<exists>a. alerts_of w1 (al_id (ox_alert r')) = Some a \<and> leased_as (ox_alert r') a \<and>
      al_channel a = SECURITY_WEBSOCKET" if "r' \<in> set rs" for r'
    using Cons.prems(3) [of r'] other [OF that] that by (simp add: one(3))
  then obtain xs w' where rest: "mapM (deliver_record api publish) rs w1 = (Inr xs, w')" "same_rest w1 w'"
    "\<forall>r \<in> set rs. \<exists>a'. alerts_of w' (al_id (ox_alert r)) = Some a' \<and>
       al_channel a' = SECURITY_WEBSOCKET \<and>
       settled (securityOutboxMaximumAttempts api) (securityOutboxRetryBaseMs api) (w_clock w1)
         (al_attemptCount (ox_alert r)) a'"
    "\<forall>i. i \<notin> (\<lambda>r. al_id (ox_alert r)) ` set rs \<longrightarrow> alerts_of w' i = alerts_of w1 i"
    using Cons.IH [of w1] Cons.prems(2) one(2) by (auto simp: same_rest_def)
  have "?i \<notin> (\<lambda>r. al_id (ox_alert r)) ` set rs" using Cons.prems(2) by simp
  with rest(4) one(3) have "alerts_of w' ?i = Some a'" by simp
  then have "\<forall>r' \<in> set (r # rs). \<exists>a'. alerts_of w' (al_id (ox_alert r')) = Some a' \<and>
       al_channel a' = SECURITY_WEBSOCKET \<and>
       settled (securityOutboxMaximumAttempts api) (securityOutboxRetryBaseMs api) (w_clock w)
         (al_attemptCount (ox_alert r')) a'"
    using rest(3) one(2,4,5) a(2,3) by (simp add: same_rest_def leased_as_def)
  moreover have "\<forall>i. i \<notin> (\<lambda>r. al_id (ox_alert r)) ` set (r # rs) \<longrightarrow> alerts_of w' i = alerts_of w i"
    using rest(4) one(3) by simp
  moreover have "mapM (deliver_record api publish) (r # rs) w = (Inr (x # xs), w')"
    using one(1) rest(1) by (simp add: monad_simps)
  moreover have "same_rest w w'" using one(2) rest(2) by (simp add: same_rest_def)
  ultimately show ?case by blast
qed

lemma flush_run:
  assumes ok: "outbox_ok (w_db w)"
    and few: "length (filter (waiting (securityOutboxMaximumAttempts api)) (d_alerts (w_db w))) \<le>
      nat (securityOutboxBatchSize api)"
    and due: "\<And>a n. a \<in> set (d_alerts (w_db w)) \<Longrightarrow> waiting (securityOutboxMaximumAttempts api) a \<Longrightarrow>
      dispatchable (w_clock w n) (securityOutboxMaximumAttempts api) a"
  shows "\<exists>k w'. flush api publish False False w = (Inr k, w') \<and> same_rest w w' \<and>
    (\<forall>i a. alerts_of w i = Some a \<and> waiting (securityOutboxMaximumAttempts api) a \<longrightarrow>
       (\<exists>a'. alerts_of w' i = Some a' \<and> al_channel a' = SECURITY_WEBSOCKET \<and>
          settled (securityOutboxMaximumAttempts api) (securityOutboxRetryBaseMs api) (w_clock w)
            (al_attemptCount a + 1) a')) \<and>
    (\<forall>i. (\<forall>a. alerts_of w i = Some a \<longrightarrow> \<not> waiting (securityOutboxMaximumAttempts api) a) \<longrightarrow>
       alerts_of w' i = alerts_of w i)"
proof -
  let ?m = "securityOutboxMaximumAttempts api" and ?b = "securityOutboxRetryBaseMs api"
  obtain rs v where claims:
    "claimDispatchable (securityOutboxBatchSize api) ?m (securityOutboxLeaseMs api) w = (Inr rs, v)"
    "same_rest w v" "distinct (map (\<lambda>r. al_id (ox_alert r)) rs)"
    "\<And>i a. alerts_of w i = Some a \<Longrightarrow> waiting ?m a \<Longrightarrow> \<exists>r \<in> set rs. al_id (ox_alert r) = i"
    "\<And>r. r \<in> set rs \<Longrightarrow> \<exists>a a'. alerts_of w (al_id (ox_alert r)) = Some a \<and> waiting ?m a \<and>
       al_attemptCount (ox_alert r) = al_attemptCount a + 1 \<and>
       alerts_of v (al_id (ox_alert r)) = Some a' \<and> leased_as (ox_alert r) a' \<and>
       al_channel a' = SECURITY_WEBSOCKET"
    "\<And>i. i \<notin> (\<lambda>r. al_id (ox_alert r)) ` set rs \<Longrightarrow> alerts_of v i = alerts_of w i"
    using claimDispatchable_run [OF ok few due, of "securityOutboxLeaseMs api"] by blast
  have leased: "\<And>r. r \<in> set rs \<Longrightarrow> \<exists>a. alerts_of v (al_id (ox_alert r)) = Some a \<and>
      leased_as (ox_alert r) a \<and> al_channel a = SECURITY_WEBSOCKET"
    using claims(5) by blast
  obtain xs w' where fin: "mapM (deliver_record api publish) rs v = (Inr xs, w')" "same_rest v w'"
    "\<forall>r \<in> set rs. \<exists>a'. alerts_of w' (al_id (ox_alert r)) = Some a' \<and>
       al_channel a' = SECURITY_WEBSOCKET \<and>
       settled ?m ?b (w_clock v) (al_attemptCount (ox_alert r)) a'"
    "\<forall>i. i \<notin> (\<lambda>r. al_id (ox_alert r)) ` set rs \<longrightarrow> alerts_of w' i = alerts_of v i"
    using delivers_run [of v rs api] claims(2,3) leased by (auto simp: same_rest_def)
  have run: "flush api publish False False w = (Inr (length (filter (\<lambda>b. b) xs)), w')"
    using claims(1) fin(1) by (simp add: flush_def monad_simps)
  have rest: "same_rest w w'" using claims(2) fin(2) by (simp add: same_rest_def)
  have settled: "\<exists>a'. alerts_of w' i = Some a' \<and> al_channel a' = SECURITY_WEBSOCKET \<and>
      settled ?m ?b (w_clock w) (al_attemptCount a + 1) a'"
    if a: "alerts_of w i = Some a" "waiting ?m a" for i a
  proof -
    obtain r where r: "r \<in> set rs" "al_id (ox_alert r) = i" using claims(4) [OF a] by blast
    then have "al_attemptCount (ox_alert r) = al_attemptCount a + 1"
      using claims(5) [OF r(1)] a(1) by auto
    with bspec [OF fin(3) r(1)] r(2) claims(2) show ?thesis by (simp add: same_rest_def)
  qed
  have alone: "alerts_of w' i = alerts_of w i"
    if none: "\<forall>a. alerts_of w i = Some a \<longrightarrow> \<not> waiting ?m a" for i
  proof -
    have "i \<notin> (\<lambda>r. al_id (ox_alert r)) ` set rs" using claims(5) none by blast
    with fin(4) claims(6) show ?thesis by simp
  qed
  show ?thesis using run rest settled alone by blast
qed

lemma flush_at_run:
  assumes "outbox_quiet api c w" and "0 \<le> securityOutboxRetryBaseMs api"
  shows "outbox_ok (w_db (flush_at api publish w c))"
    and "alerts_of w i = Some a \<Longrightarrow> waiting (securityOutboxMaximumAttempts api) a \<Longrightarrow>
       \<exists>a'. alerts_of (flush_at api publish w c) i = Some a' \<and> al_channel a' = SECURITY_WEBSOCKET \<and>
         settled (securityOutboxMaximumAttempts api) (securityOutboxRetryBaseMs api) c
           (al_attemptCount a + 1) a'"
    and "\<forall>a. alerts_of w i = Some a \<longrightarrow> \<not> waiting (securityOutboxMaximumAttempts api) a \<Longrightarrow>
       alerts_of (flush_at api publish w c) i = alerts_of w i"
proof -
  let ?m = "securityOutboxMaximumAttempts api" and ?w = "w\<lparr>w_clock := c\<rparr>"
  have w: "alerts_of ?w = alerts_of w" by (rule alerts_of_cong) simp
  obtain k w' where f: "flush api publish False False ?w = (Inr k, w')" "same_rest ?w w'"
    "\<forall>i a. alerts_of ?w i = Some a \<and> waiting ?m a \<longrightarrow>
       (\<exists>a'. alerts_of w' i = Some a' \<and> al_channel a' = SECURITY_WEBSOCKET \<and>
          settled ?m (securityOutboxRetryBaseMs api) (w_clock ?w) (al_attemptCount a + 1) a')"
    "\<forall>i. (\<forall>a. alerts_of ?w i = Some a \<longrightarrow> \<not> waiting ?m a) \<longrightarrow> alerts_of w' i = alerts_of ?w i"
    using flush_run [of ?w api] assms(1) unfolding outbox_quiet_def by auto
  have w': "flush_at api publish w c = w'" using f(1) by (simp add: flush_at_def)
  show "outbox_ok (w_db (flush_at api publish w c))" using f(2) by (simp add: w' same_rest_def)
  show "\<exists>a'. alerts_of (flush_at api publish w c) i = Some a' \<and> al_channel a' = SECURITY_WEBSOCKET \<and>
      settled ?m (securityOutboxRetryBaseMs api) c (al_attemptCount a + 1) a'"
    if "alerts_of w i = Some a" "waiting ?m a"
    using f(3) that by (simp add: w w')
  show "alerts_of (flush_at api publish w c) i = alerts_of w i"
    if "\<forall>a. alerts_of w i = Some a \<longrightarrow> \<not> waiting ?m a"
    using f(4) that by (simp add: w w')
qed

text \<open>After a flush the waiting alerts are fewer or as many, and due at the next one.\<close>

lemma flush_at_quiet:
  assumes "outbox_quiet api c w" and b: "0 \<le> securityOutboxRetryBaseMs api"
    and gap: "\<forall>i n. c i + retry_delay (securityOutboxRetryBaseMs api) (securityOutboxMaximumAttempts api) \<le> c' n"
  shows "outbox_quiet api c' (flush_at api publish w c)"
proof -
  let ?m = "securityOutboxMaximumAttempts api" and ?v = "flush_at api publish w c"
  have ok: "outbox_ok (w_db w)" "outbox_ok (w_db ?v)"
    using assms(1) flush_at_run(1) [OF assms(1) b] by (simp_all add: outbox_quiet_def)
  have came: "\<exists>a0. alerts_of w i = Some a0 \<and> waiting ?m a0 \<and>
      settled ?m (securityOutboxRetryBaseMs api) c (al_attemptCount a0 + 1) a"
    if a: "alerts_of ?v i = Some a" "waiting ?m a" for i a
  proof (cases "\<exists>a0. alerts_of w i = Some a0 \<and> waiting ?m a0")
    case True
    then obtain a0 where a0: "alerts_of w i = Some a0" "waiting ?m a0" by blast
    from flush_at_run(2) [OF assms(1) b a0] a(1) a0 show ?thesis by auto
  next
    case False
    then have "alerts_of ?v i = alerts_of w i" using flush_at_run(3) [OF assms(1) b] by blast
    with a False show ?thesis by simp
  qed
  have "card {i. \<exists>a. alerts_of ?v i = Some a \<and> waiting ?m a} \<le> card {i. \<exists>a. alerts_of w i = Some a \<and> waiting ?m a}"
  proof (rule card_mono)
    have "{i. \<exists>a. alerts_of w i = Some a \<and> waiting ?m a} \<subseteq> al_id ` set (d_alerts (w_db w))"
      by (auto simp: alerts_of_iff [OF ok(1)])
    then show "finite {i. \<exists>a. alerts_of w i = Some a \<and> waiting ?m a}" by (rule finite_subset) simp
    show "{i. \<exists>a. alerts_of ?v i = Some a \<and> waiting ?m a} \<subseteq> {i. \<exists>a. alerts_of w i = Some a \<and> waiting ?m a}"
      using came by blast
  qed
  then have "length (filter (waiting ?m) (d_alerts (w_db ?v))) \<le> nat (securityOutboxBatchSize api)"
    using assms(1) unfolding count_waiting [OF ok(2)] outbox_quiet_def count_waiting [OF ok(1)] by linarith
  moreover have "dispatchable (c' n) ?m a" if "a \<in> set (d_alerts (w_db ?v))" "waiting ?m a" for a n
  proof -
    have "alerts_of ?v (al_id a) = Some a" using that(1) by (simp add: alerts_of_iff [OF ok(2)])
    from came [OF this that(2)] obtain k where "settled ?m (securityOutboxRetryBaseMs api) c k a" by blast
    then show ?thesis using that(2) b gap by (rule settled_due)
  qed
  ultimately show ?thesis using ok(2) by (simp add: outbox_quiet_def)
qed

lemma flushes_leave_settled:
  assumes "outbox_quiet api c w" and "0 \<le> securityOutboxRetryBaseMs api"
    and "spaced (retry_delay (securityOutboxRetryBaseMs api) (securityOutboxMaximumAttempts api)) (c # cs)"
    and "alerts_of w i = Some a" and "al_status a \<noteq> ALERT_PENDING"
  shows "alerts_of (foldl (flush_at api publish) w (c # cs)) i = Some a"
  using assms
proof (induction cs arbitrary: c w)
  case Nil
  then show ?case using flush_at_run(3) [OF Nil(1,2), of i] by (simp add: waiting_def)
next
  case (Cons c' cs)
  have "outbox_quiet api c' (flush_at api publish w c)"
    using Cons.prems(3) by (intro flush_at_quiet [OF Cons.prems(1,2)]) simp
  moreover have "alerts_of (flush_at api publish w c) i = Some a"
    using flush_at_run(3) [OF Cons.prems(1,2), of i] Cons.prems(4,5) by (simp add: waiting_def)
  ultimately show ?case
    using Cons.IH [of c' "flush_at api publish w c"] Cons.prems(2,3,5) by simp
qed

text \<open>Every flush uses one attempt of every alert that still waits.\<close>

lemma flushes_use_attempts:
  assumes "outbox_quiet api c w" and "0 \<le> securityOutboxRetryBaseMs api"
    and "spaced (retry_delay (securityOutboxRetryBaseMs api) (securityOutboxMaximumAttempts api)) (c # cs)"
    and "alerts_of w i = Some a" and "waiting (securityOutboxMaximumAttempts api) a"
  shows "\<exists>a'. alerts_of (foldl (flush_at api publish) w (c # cs)) i = Some a' \<and>
    (al_status a' = ALERT_DELIVERED \<or> al_status a' = ALERT_FAILED \<or>
     (waiting (securityOutboxMaximumAttempts api) a' \<and>
      al_attemptCount a' = al_attemptCount a + int (length (c # cs))))"
  using assms
proof (induction cs arbitrary: c w a)
  case Nil
  from flush_at_run(2) [OF Nil(1,2,4,5)] show ?case by (auto simp: settled_def waiting_def)
next
  case (Cons c' cs)
  let ?v = "flush_at api publish w c"
  have gap: "\<forall>i n. c i + retry_delay (securityOutboxRetryBaseMs api) (securityOutboxMaximumAttempts api) \<le> c' n"
    and sp: "spaced (retry_delay (securityOutboxRetryBaseMs api) (securityOutboxMaximumAttempts api)) (c' # cs)"
    using Cons.prems(3) by simp_all
  have quiet: "outbox_quiet api c' ?v" by (rule flush_at_quiet [OF Cons.prems(1,2) gap])
  obtain a1 where a1: "alerts_of ?v i = Some a1" "al_channel a1 = SECURITY_WEBSOCKET"
    "settled (securityOutboxMaximumAttempts api) (securityOutboxRetryBaseMs api) c (al_attemptCount a + 1) a1"
    using flush_at_run(2) [OF Cons.prems(1,2,4,5)] by blast
  show ?case
  proof (cases "al_status a1 = ALERT_PENDING")
    case True
    then have "waiting (securityOutboxMaximumAttempts api) a1" "al_attemptCount a1 = al_attemptCount a + 1"
      using a1(2,3) by (auto simp: settled_def waiting_def)
    with Cons.IH [OF quiet Cons.prems(2) sp a1(1)] show ?thesis by (auto simp: ac_simps)
  next
    case False
    then have stays: "al_status a1 = ALERT_DELIVERED \<or> al_status a1 = ALERT_FAILED"
      using a1(3) by (auto simp: settled_def)
    have "alerts_of (foldl (flush_at api publish) ?v (c' # cs)) i = Some a1"
      by (rule flushes_leave_settled [OF quiet Cons.prems(2) sp a1(1) False])
    with stays show ?thesis by auto
  qed
qed

lemma waiting_alerts_end:
  assumes "outbox_quiet api (hd cs) w" and "0 \<le> securityOutboxRetryBaseMs api"
    and "spaced (retry_delay (securityOutboxRetryBaseMs api) (securityOutboxMaximumAttempts api)) cs"
    and "1 \<le> securityOutboxMaximumAttempts api"
    and "securityOutboxMaximumAttempts api \<le> int (length cs)"
    and a: "a \<in> set (d_alerts (w_db w))" "waiting (securityOutboxMaximumAttempts api) a"
  shows "\<exists>a' \<in> set (d_alerts (w_db (foldl (flush_at api publish) w cs))). al_id a' = al_id a \<and>
    (al_status a' = ALERT_DELIVERED \<or> al_status a' = ALERT_FAILED)"
proof -
  let ?m = "securityOutboxMaximumAttempts api"
  obtain c cs' where cs: "cs = c # cs'" using assms(4,5) by (cases cs) auto
  have ok: "outbox_ok (w_db w)" using assms(1) by (simp add: outbox_quiet_def)
  have a0: "alerts_of w (al_id a) = Some a" using a by (simp add: alerts_of_iff [OF ok])
  have "0 \<le> al_attemptCount a" using alert_check_of [OF ok a0] by (simp add: alert_check_def)
  moreover obtain a' where a': "alerts_of (foldl (flush_at api publish) w cs) (al_id a) = Some a'"
    "al_status a' = ALERT_DELIVERED \<or> al_status a' = ALERT_FAILED \<or>
     (waiting ?m a' \<and> al_attemptCount a' = al_attemptCount a + int (length cs))"
    using flushes_use_attempts [of api c w cs', OF _ assms(2) _ a0 a(2)] assms(1,3) by (auto simp: cs)
  ultimately have "al_status a' = ALERT_DELIVERED \<or> al_status a' = ALERT_FAILED"
    using assms(5) by (auto simp: waiting_def)
  moreover have "a' \<in> set (d_alerts (w_db (foldl (flush_at api publish) w cs)))" "al_id a' = al_id a"
    using a'(1) by (auto simp: alerts_of_def find_Some_iff)
  ultimately show ?thesis by blast
qed

text \<open>
  A worker that dies after the last claim of an alert leaves it pending with its attempts used up: no
  flush touches it again.
\<close>

lemma used_up_alert_stays:
  assumes "outbox_quiet api c w" and "0 \<le> securityOutboxRetryBaseMs api"
    and "alerts_of w i = Some a" and "securityOutboxMaximumAttempts api \<le> al_attemptCount a"
  shows "alerts_of (flush_at api publish w c) i = Some a"
  using flush_at_run(3) [OF assms(1,2), of i] assms(3,4) by (simp add: waiting_def)

end

end
