(* ===== verification/Security_Gateway.thy ===== *)
theory Security_Gateway
  imports Auth_Service Media Outbox_Delivery Risk_Pipeline
begin

text \<open>
  \<open>modules/security-events/security-events.gateway.ts\<close>: the web socket through which a client
  subscribes to the security events of its calls, acknowledges them and is sent new ones. The
  clients, the replay buffer and the fingerprints of the published events are memory of the process.
  A socket is a number; what it answers (its ready state, whether a write throws) is an answer of
  the environment. Every operation authenticates the client's access token again.
\<close>

section \<open>The connection request\<close>

definition token_char :: "char \<Rightarrow> bool" where
  "token_char c \<longleftrightarrow> (CHR ''A'' \<le> c \<and> c \<le> CHR ''Z'') \<or> (CHR ''a'' \<le> c \<and> c \<le> CHR ''z'') \<or>
     (CHR ''0'' \<le> c \<and> c \<le> CHR ''9'') \<or> List.member ''._~-'' c"

definition bearerTokenPattern :: "string \<Rightarrow> bool" where
  "bearerTokenPattern s \<longleftrightarrow> 1 \<le> length s \<and> length s \<le> 4096 \<and> list_all token_char s"

definition swar_bearer :: string where "swar_bearer = ''swar.bearer.''"

definition protocol_tokens :: "string \<Rightarrow> string list" where
  "protocol_tokens protocols =
     map (drop (length swar_bearer))
       (filter (starts_with swar_bearer) (map js_trim (split_on CHR '','' protocols)))"

text \<open>The token of the \<open>Authorization\<close> header: \<open>None\<close> when the connection is refused for it.\<close>

definition authorization_token :: "header option \<Rightarrow> string option option" where
  "authorization_token authorization = (case authorization of
     None \<Rightarrow> Some None
   | Some (HArray vs) \<Rightarrow> None
   | Some (HText value) \<Rightarrow>
       if starts_with bearer value \<and> bearerTokenPattern (drop 7 value)
       then Some (Some (drop 7 value)) else None)"

definition protocol_token :: "header option \<Rightarrow> string option option" where
  "protocol_token protocols = (case protocols of
     None \<Rightarrow> Some None
   | Some (HArray vs) \<Rightarrow> None
   | Some (HText value) \<Rightarrow>
       (let tokens = protocol_tokens value in
        if 1 < length tokens \<or> list_ex (\<lambda>t. \<not> bearerTokenPattern t) tokens then None
        else case tokens of [] \<Rightarrow> Some None | t # ts \<Rightarrow> Some (Some t)))"

definition gateway_bearer :: "header option \<Rightarrow> header option \<Rightarrow> string option" where
  "gateway_bearer authorization protocols =
     (case authorization_token authorization of
        None \<Rightarrow> None
      | Some a \<Rightarrow>
          (case protocol_token protocols of
             None \<Rightarrow> None
           | Some p \<Rightarrow>
               if a \<noteq> None \<and> p \<noteq> None then None
               else case a of None \<Rightarrow> p | Some t \<Rightarrow> Some t))"

section \<open>Messages\<close>

text \<open>
  The data of an event's message. The date is written as an ISO text, of which there is one for every
  instant; an \<open>EventMessage e\<close> of the log stands for the type and \<open>outbound e\<close>.
\<close>

record OutboundEvent =
  ob_eventId :: string
  ob_eventType :: SecurityEventType
  ob_schemaVersion :: string
  ob_callId :: uuid
  ob_targetId :: uuid
  ob_occurredAt :: instant
  ob_metadata :: "(string \<times> json) list"

definition outbound :: "SecurityEvent \<Rightarrow> OutboundEvent" where
  "outbound e = \<lparr>ob_eventId = se_eventId e, ob_eventType = se_eventType e,
     ob_schemaVersion = se_schemaVersion e, ob_callId = se_callId e, ob_targetId = se_targetId e,
     ob_occurredAt = se_occurredAt e, ob_metadata = se_metadata e\<rparr>"

text \<open>
  The configuration, the authenticator's, SHA-256 of the JSON text of a message, and whether the
  optional outbox repository is provided.
\<close>

record gateway_env =
  ge_config :: configuration
  ge_auth :: auth_runtime
  ge_fingerprint :: "OutboundEvent \<Rightarrow> string"
  ge_outbox :: bool

datatype gateway_reply =
    Subscribed "uuid list" ReplayStatus nat "string option" "string option"
  | Acknowledged string
  | Rejected string

section \<open>Clients\<close>

definition socket_error :: err where "socket_error = Error ''WebSocket''"

definition close_socket :: "nat \<Rightarrow> int \<Rightarrow> string \<Rightarrow> unit op" where
  "close_socket client code reason =
     bindM (provider (SocketClose client code reason) socket_error) (\<lambda>_. returnM ())"

definition save_client :: "nat \<Rightarrow> ClientState \<Rightarrow> unit op" where
  "save_client client state =
     modifyM (\<lambda>w. w\<lparr>w_clients := AList.update client state (w_clients w)\<rparr>)"

definition forget_client :: "nat \<Rightarrow> unit op" where
  "forget_client client = modifyM (\<lambda>w. w\<lparr>w_clients := AList.delete client (w_clients w)\<rparr>)"

definition dropClient :: "nat \<Rightarrow> int \<Rightarrow> string \<Rightarrow> unit op" where
  "dropClient client code reason =
     thenM (forget_client client)
     (catchM (close_socket client code reason) (\<lambda>_. returnM ()))"

definition revoke :: "nat \<Rightarrow> unit op" where
  "revoke client = dropClient client 1008 ''AUTHORIZATION_REVOKED''"

definition delivery_failed :: "nat \<Rightarrow> unit op" where
  "delivery_failed client =
     bindM (getM (\<lambda>w. map_of (w_clients w) client)) (\<lambda>found. case found of
       None \<Rightarrow> returnM ()
     | Some state \<Rightarrow> dropClient client 1011 ''DELIVERY_FAILED'')"

definition sendEvent :: "nat \<Rightarrow> SecurityEvent \<Rightarrow> bool op" where
  "sendEvent client event =
     bindM (external_call (SocketReady client)) (\<lambda>readyState.
     if readyState \<noteq> Some 1 then thenM (delivery_failed client) (returnM False)
     else bindM (external_call (SocketSend client (EventMessage event))) (\<lambda>answer.
       if answer = None then thenM (delivery_failed client) (returnM False)
       else returnM True))"

text \<open>The events in order, until one is not delivered.\<close>

fun send_events :: "nat \<Rightarrow> SecurityEvent list \<Rightarrow> bool op" where
  "send_events client [] = returnM True"
| "send_events client (e # es) =
     bindM (sendEvent client e) (\<lambda>sent.
     if sent then send_events client es else returnM False)"

definition requireState :: "nat \<Rightarrow> ClientState op" where
  "requireState client =
     bindM (getM (\<lambda>w. map_of (w_clients w) client)) (\<lambda>found. case found of
       None \<Rightarrow> thenM (close_socket client 1008 ''AUTHENTICATION_REQUIRED'')
                 (throwM (Error ''Unauthenticated WebSocket client.''))
     | Some state \<Rightarrow> returnM state)"

definition next_inbound :: "api_config \<Rightarrow> instant \<Rightarrow> ClientState \<Rightarrow> ClientState" where
  "next_inbound api t state =
     (let s = (if cs_inboundWindowStartedAt state + rateLimitWindowSeconds api * 1000 \<le> t
               then state\<lparr>cs_inboundWindowStartedAt := t, cs_inboundCount := 0\<rparr> else state) in
      s\<lparr>cs_inboundCount := cs_inboundCount s + 1\<rparr>)"

text \<open>The client's next state, or nothing when it sent too much and was dropped.\<close>

definition consumeInbound :: "api_config \<Rightarrow> nat \<Rightarrow> ClientState \<Rightarrow> ClientState option op" where
  "consumeInbound api client state =
     bindM now (\<lambda>t.
     let next = next_inbound api t state in
     thenM (save_client client next)
     (if securityInboundRateLimitMaximum api < int (cs_inboundCount next)
      then thenM (dropClient client 1008 ''INBOUND_RATE_LIMITED'') (returnM None)
      else returnM (Some next)))"

section \<open>Authorization\<close>

definition same_context :: "AuthPrincipal \<Rightarrow> AuthPrincipal \<Rightarrow> bool" where
  "same_context p q \<longleftrightarrow>
     pr_organizationId p = pr_organizationId q \<and> pr_membershipId p = pr_membershipId q \<and>
     pr_userId p = pr_userId q \<and> pr_deviceId p = pr_deviceId q \<and> pr_sessionId p = pr_sessionId q"

definition reauthenticate :: "gateway_env \<Rightarrow> nat \<Rightarrow> ClientState \<Rightarrow> ClientState op" where
  "reauthenticate env client state =
     bindM (authenticate (ge_auth env) (cs_accessToken state)) (\<lambda>p.
     thenM (guardM (same_context p (cs_principal state))
              (Error ''WebSocket authorization context changed.''))
     (thenM (save_client client (state\<lparr>cs_principal := p\<rparr>))
      (returnM (state\<lparr>cs_principal := p\<rparr>))))"

definition reauthorize :: "gateway_env \<Rightarrow> nat \<Rightarrow> ClientState \<Rightarrow> uuid list \<Rightarrow> ClientState op" where
  "reauthorize env client state callIds =
     bindM (reauthenticate env client state) (\<lambda>s.
     thenM (iterM callIds (assertReadable (cs_principal s)))
     (returnM s))"

section \<open>Connections\<close>

definition new_client :: "string \<Rightarrow> AuthPrincipal \<Rightarrow> instant \<Rightarrow> ClientState" where
  "new_client token p t = \<lparr>cs_accessToken = token, cs_principal = p, cs_callIds = [],
     cs_inboundCount = 0, cs_inboundWindowStartedAt = t, cs_lastAcknowledgedEventId = None\<rparr>"

text \<open>\<open>pending\<close> is the number of connections that are being authenticated.\<close>

definition handleConnection ::
  "gateway_env \<Rightarrow> nat \<Rightarrow> nat \<Rightarrow> header option \<Rightarrow> header option \<Rightarrow> unit op" where
  "handleConnection env pending client authorization protocols =
     (case gateway_bearer authorization protocols of
        None \<Rightarrow> close_socket client 1008 ''AUTHENTICATION_REQUIRED''
      | Some token \<Rightarrow>
          bindM (getM (\<lambda>w. length (w_clients w))) (\<lambda>connected.
          if securityConnectionMaximum (c_api (ge_config env)) \<le> int (connected + pending)
          then close_socket client 1013 ''CAPACITY_EXCEEDED''
          else
            bindM (tryM (authenticate (ge_auth env) token)) (\<lambda>found. case found of
              None \<Rightarrow> close_socket client 1008 ''AUTHENTICATION_FAILED''
            | Some p \<Rightarrow>
                bindM now (\<lambda>t.
                thenM (save_client client (new_client token p t))
                (bindM (external_call (SocketSend client (SecurityReady
                   (securityEventReplayMaximum (c_api (ge_config env)))))) (\<lambda>answer.
                 if answer = None then dropClient client 1011 ''DELIVERY_FAILED''
                 else returnM ()))))))"

definition handleDisconnect :: "nat \<Rightarrow> unit op" where
  "handleDisconnect client = forget_client client"

section \<open>Subscription\<close>

record SubscribeInput =
  sb_callIds :: "json option"
  sb_afterEventId :: "json option"

fun json_text :: "json \<Rightarrow> string option" where
  "json_text (JStr s) = Some s"
| "json_text v = None"

definition is_event_id :: "json option \<Rightarrow> bool" where
  "is_event_id v \<longleftrightarrow> (case v of Some (JStr s) \<Rightarrow> isSecurityEventId s | _ \<Rightarrow> False)"

text \<open>The calls and the cursor of an input that is accepted.\<close>

definition subscribe_input :: "api_config \<Rightarrow> SubscribeInput \<Rightarrow> (uuid list \<times> string option) option" where
  "subscribe_input api input = (case sb_callIds input of
     Some (JArr vs) \<Rightarrow>
       if vs = [] \<or> securitySubscriptionMaximumCalls api < int (length vs) \<or>
          list_ex (\<lambda>v. json_text v = None) vs \<or>
          (sb_afterEventId input \<noteq> None \<and> \<not> is_event_id (sb_afterEventId input))
       then None
       else Some (dedup (map (\<lambda>v. case json_text v of None \<Rightarrow> [] | Some s \<Rightarrow> s) vs),
                  case sb_afterEventId input of None \<Rightarrow> None | Some v \<Rightarrow> json_text v)
   | _ \<Rightarrow> None)"

text \<open>The events of the buffer that the client may see, and those after the cursor.\<close>

definition tenant_replay :: "ClientState \<Rightarrow> SecurityEvent list \<Rightarrow> SecurityEvent list" where
  "tenant_replay state =
     filter (\<lambda>e. se_organizationId e = pr_organizationId (cs_principal state) \<and>
                  List.member (cs_callIds state) (se_callId e))"

fun events_after :: "string \<Rightarrow> SecurityEvent list \<Rightarrow> SecurityEvent list option" where
  "events_after i [] = None"
| "events_after i (e # es) = (if se_eventId e = i then Some es else events_after i es)"

definition memory_replay :: "ClientState \<Rightarrow> string option \<Rightarrow> SecurityEvent list \<Rightarrow> ReplayResult" where
  "memory_replay state afterEventId buffer =
     (let visible = tenant_replay state buffer;
          (status, events) = (case afterEventId of
             None \<Rightarrow> (COMPLETE, [])
           | Some i \<Rightarrow> (case events_after i visible of
               None \<Rightarrow> (if visible \<noteq> [] then BOUNDARY_EXCEEDED else COMPLETE, [])
             | Some es \<Rightarrow> (COMPLETE, es))) in
      \<lparr>rt_status = status, rt_events = events,
       rt_oldest = (if visible = [] then None else Some (se_eventId (hd visible))),
       rt_latest = (if visible = [] then None else Some (se_eventId (last visible)))\<rparr>)"

definition replay_for :: "gateway_env \<Rightarrow> ClientState \<Rightarrow> string option \<Rightarrow> ReplayResult op" where
  "replay_for env state afterEventId =
     (if ge_outbox env
      then outbox_replay (pr_organizationId (cs_principal state)) (cs_callIds state) afterEventId
             (securityEventReplayMaximum (c_api (ge_config env)))
      else getM (\<lambda>w. memory_replay state afterEventId (w_replay w)))"

definition subscribe_calls ::
  "gateway_env \<Rightarrow> nat \<Rightarrow> ClientState \<Rightarrow> uuid list \<Rightarrow> string option \<Rightarrow> gateway_reply op" where
  "subscribe_calls env client state callIds afterEventId =
     bindM (tryM (reauthenticate env client state)) (\<lambda>authenticated. case authenticated of
       None \<Rightarrow> thenM (revoke client) (returnM (Rejected ''SUBSCRIPTION_FORBIDDEN''))
     | Some s \<Rightarrow>
         bindM (tryM (iterM callIds (assertReadable (cs_principal s)))) (\<lambda>readable. case readable of
           None \<Rightarrow> returnM (Rejected ''SUBSCRIPTION_FORBIDDEN'')
         | Some _ \<Rightarrow>
             let subscribed = s\<lparr>cs_callIds := callIds\<rparr> in
             thenM (save_client client subscribed)
             (bindM (replay_for env subscribed afterEventId) (\<lambda>replay.
              bindM (send_events client (rt_events replay)) (\<lambda>sent.
              if \<not> sent then returnM (Rejected ''DELIVERY_FAILED'')
              else returnM (Subscribed callIds (rt_status replay) (length (rt_events replay))
                     (rt_oldest replay) (rt_latest replay)))))))"

text \<open>No reply is sent to a client that was dropped for its rate.\<close>

definition subscribe :: "gateway_env \<Rightarrow> nat \<Rightarrow> SubscribeInput \<Rightarrow> gateway_reply option op" where
  "subscribe env client input =
     bindM (requireState client) (\<lambda>found.
     bindM (consumeInbound (c_api (ge_config env)) client found) (\<lambda>consumed. case consumed of
       None \<Rightarrow> returnM None
     | Some state \<Rightarrow>
         (case subscribe_input (c_api (ge_config env)) input of
            None \<Rightarrow> returnM (Some (Rejected ''SUBSCRIPTION_INVALID''))
          | Some (callIds, afterEventId) \<Rightarrow>
              bindM (subscribe_calls env client state callIds afterEventId) (\<lambda>reply.
              returnM (Some reply)))))"

section \<open>Acknowledgement\<close>

definition buffered :: "ClientState \<Rightarrow> string \<Rightarrow> SecurityEvent list \<Rightarrow> bool" where
  "buffered state eventId buffer \<longleftrightarrow>
     list_ex (\<lambda>e. se_eventId e = eventId) (tenant_replay state buffer)"

definition acknowledge_stored :: "gateway_env \<Rightarrow> ClientState \<Rightarrow> string \<Rightarrow> bool op" where
  "acknowledge_stored env state eventId =
     (if ge_outbox env
      then bindM (tryM (outbox_acknowledge (pr_organizationId (cs_principal state))
                    (pr_membershipId (cs_principal state)) (cs_callIds state) eventId)) (\<lambda>outcome.
           returnM (outcome \<noteq> None))
      else getM (\<lambda>w. buffered state eventId (w_replay w)))"

definition acknowledge_event ::
  "gateway_env \<Rightarrow> nat \<Rightarrow> ClientState \<Rightarrow> json option \<Rightarrow> gateway_reply op" where
  "acknowledge_event env client state eventId =
     bindM (tryM (reauthorize env client state (cs_callIds state))) (\<lambda>authorized. case authorized of
       None \<Rightarrow> thenM (revoke client) (returnM (Rejected ''ACK_FORBIDDEN''))
     | Some s \<Rightarrow>
         (case (case eventId of None \<Rightarrow> None | Some v \<Rightarrow> json_text v) of
            None \<Rightarrow> returnM (Rejected ''ACK_INVALID'')
          | Some i \<Rightarrow>
              if \<not> isSecurityEventId i then returnM (Rejected ''ACK_INVALID'')
              else bindM (acknowledge_stored env s i) (\<lambda>stored.
                if \<not> stored then returnM (Rejected ''ACK_INVALID'')
                else thenM (save_client client (s\<lparr>cs_lastAcknowledgedEventId := Some i\<rparr>))
                       (returnM (Acknowledged i)))))"

definition acknowledge_message :: "gateway_env \<Rightarrow> nat \<Rightarrow> json option \<Rightarrow> gateway_reply option op" where
  "acknowledge_message env client eventId =
     bindM (requireState client) (\<lambda>found.
     bindM (consumeInbound (c_api (ge_config env)) client found) (\<lambda>consumed. case consumed of
       None \<Rightarrow> returnM None
     | Some state \<Rightarrow> bindM (acknowledge_event env client state eventId) (\<lambda>reply.
         returnM (Some reply))))"

section \<open>Publishing\<close>

text \<open>The buffer keeps the latest events; the maximum is positive.\<close>

fun trim_replay ::
  "int \<Rightarrow> SecurityEvent list \<Rightarrow> (string \<times> string) list \<Rightarrow>
   SecurityEvent list \<times> (string \<times> string) list" where
  "trim_replay maximum [] fingerprints = ([], fingerprints)"
| "trim_replay maximum (e # es) fingerprints =
     (if maximum < int (length (e # es))
      then trim_replay maximum es (AList.delete (se_eventId e) fingerprints)
      else (e # es, fingerprints))"

definition remember_event :: "int \<Rightarrow> SecurityEvent \<Rightarrow> string \<Rightarrow> world \<Rightarrow> world" where
  "remember_event maximum event fingerprint w =
     (let (buffer, fingerprints) = trim_replay maximum (w_replay w @ [event])
        (AList.update (se_eventId event) fingerprint (w_fingerprints w)) in
      w\<lparr>w_replay := buffer, w_fingerprints := fingerprints\<rparr>)"

definition wants :: "SecurityEvent \<Rightarrow> ClientState \<Rightarrow> bool" where
  "wants event state \<longleftrightarrow> pr_organizationId (cs_principal state) = se_organizationId event \<and>
     List.member (cs_callIds state) (se_callId event)"

definition publish_to :: "gateway_env \<Rightarrow> SecurityEvent \<Rightarrow> nat \<times> ClientState \<Rightarrow> unit op" where
  "publish_to env event entry = (case entry of (client, state) \<Rightarrow>
     if wants event state
     then bindM (tryM (reauthorize env client state [se_callId event])) (\<lambda>authorized.
       if authorized = None then revoke client
       else bindM (sendEvent client event) (\<lambda>_. returnM ()))
     else returnM ())"

definition publish :: "gateway_env \<Rightarrow> SecurityEvent \<Rightarrow> unit op" where
  "publish env event =
     (let fingerprint = ge_fingerprint env (outbound event) in
      bindM (getM (\<lambda>w. map_of (w_fingerprints w) (se_eventId event))) (\<lambda>existing.
      case existing of
        Some known \<Rightarrow>
          guardM (known = fingerprint) (Error ''Security event idempotency conflict.'')
      | None \<Rightarrow>
          thenM (modifyM (remember_event
                   (securityEventReplayMaximum (c_api (ge_config env))) event fingerprint))
          (bindM (getM w_clients) (\<lambda>clients.
           iterM clients (publish_to env event)))))"

section \<open>What the gateway leaves alone\<close>

text \<open>
  The database stays one with \<open>D\<close>, the clock is \<open>c\<close>, and what was logged since \<open>L\<close> satisfies \<open>Q\<close>.
\<close>

definition sends_only ::
  "(db \<Rightarrow> bool) \<Rightarrow> (nat \<Rightarrow> instant) \<Rightarrow> provider_call list \<Rightarrow> (provider_call \<Rightarrow> bool) \<Rightarrow> world \<Rightarrow> bool" where
  "sends_only D c L Q w \<longleftrightarrow> D (w_db w) \<and> w_clock w = c \<and>
     (\<exists>new. w_log w = L @ new \<and> list_all Q new)"

definition no_event :: "provider_call \<Rightarrow> bool" where
  "no_event x \<longleftrightarrow> (\<forall>n e. x \<noteq> SocketSend n (EventMessage e))"

definition allows_silence :: "(provider_call \<Rightarrow> bool) \<Rightarrow> bool" where
  "allows_silence Q \<longleftrightarrow> (\<forall>x. no_event x \<longrightarrow> Q x)"

lemma sends_only_frame [simp]:
  "sends_only D c L Q (w\<lparr>w_ticks := n\<rparr>) = sends_only D c L Q w"
  "sends_only D c L Q (w\<lparr>w_idn := n\<rparr>) = sends_only D c L Q w"
  "sends_only D c L Q (w\<lparr>w_clients := cl\<rparr>) = sends_only D c L Q w"
  "sends_only D c L Q (w\<lparr>w_replay := b\<rparr>) = sends_only D c L Q w"
  "sends_only D c L Q (w\<lparr>w_fingerprints := fs\<rparr>) = sends_only D c L Q w"
  by (simp_all add: sends_only_def)

lemma sends_only_start: "D (w_db w) \<Longrightarrow> sends_only D (w_clock w) (w_log w) Q w"
  by (simp add: sends_only_def)

lemma sends_onlyD:
  assumes "sends_only D c L Q w" "x \<in> set (drop (length L) (w_log w))" shows "Q x"
  using assms by (auto simp: sends_only_def list_all_iff)

lemma keeps_logged: "Q x \<Longrightarrow> keeps (sends_only D c L Q) (external_call x)"
  by (auto simp: keeps_def sends_only_def external_call_def)

lemma keeps_quiet_call:
  assumes "allows_silence Q" "no_event x" shows "keeps (sends_only D c L Q) (external_call x)"
  using assms by (intro keeps_logged) (simp add: allows_silence_def)

lemma no_event_simps [simp]:
  "no_event (SocketReady n)" "no_event (SocketClose n i s)" "no_event (SocketSend n (SecurityReady m))"
  "\<not> no_event (SocketSend n (EventMessage e))"
  by (simp_all add: no_event_def)

lemma keeps_close_socket: "allows_silence Q \<Longrightarrow> keeps (sends_only D c L Q) (close_socket n i s)"
  unfolding close_socket_def provider_def by (intro hoare keeps_quiet_call) simp_all

lemma keeps_save_client: "keeps (sends_only D c L Q) (save_client n s)"
  unfolding save_client_def by (rule keeps_modifyM) simp

lemma keeps_forget_client: "keeps (sends_only D c L Q) (forget_client n)"
  unfolding forget_client_def by (rule keeps_modifyM) simp

lemma keeps_dropClient: "allows_silence Q \<Longrightarrow> keeps (sends_only D c L Q) (dropClient n i s)"
  unfolding dropClient_def by (intro hoare keeps_forget_client keeps_close_socket)

lemma keeps_revoke: "allows_silence Q \<Longrightarrow> keeps (sends_only D c L Q) (revoke n)"
  unfolding revoke_def by (rule keeps_dropClient)

lemma keeps_sendEvent:
  "allows_silence Q \<Longrightarrow> Q (SocketSend n (EventMessage e)) \<Longrightarrow> keeps (sends_only D c L Q) (sendEvent n e)"
  unfolding sendEvent_def delivery_failed_def
  by (intro hoare keeps_dropClient keeps_quiet_call keeps_logged) simp_all

lemma keeps_send_events:
  "allows_silence Q \<Longrightarrow> \<forall>e \<in> set es. Q (SocketSend n (EventMessage e)) \<Longrightarrow>
     keeps (sends_only D c L Q) (send_events n es)"
  by (induction es) (auto intro!: hoare keeps_sendEvent)

lemma keeps_requireState: "allows_silence Q \<Longrightarrow> keeps (sends_only D c L Q) (requireState n)"
  unfolding requireState_def by (intro hoare keeps_close_socket)

lemma keeps_consumeInbound: "allows_silence Q \<Longrightarrow> keeps (sends_only D c L Q) (consumeInbound api n s)"
  unfolding consumeInbound_def by (intro hoare keeps_save_client keeps_dropClient) simp_all

lemma keeps_authenticate: "keeps (sends_only D c L Q) (authenticate env token)"
  unfolding authenticate_def verifyAccess_def findPrincipal_def get_membership_def get_roles_def
  by (intro hoare) simp_all

lemma keeps_assertReadable: "keeps (sends_only D c L Q) (assertReadable p i)"
  unfolding assertReadable_def may_do_def findCallAggregate_def findTenantCall_def by (intro hoare)

lemma keeps_reauthenticate: "keeps (sends_only D c L Q) (reauthenticate env n s)"
  unfolding reauthenticate_def by (intro hoare keeps_authenticate keeps_save_client)

lemma keeps_reauthorize: "keeps (sends_only D c L Q) (reauthorize env n s is)"
  unfolding reauthorize_def by (intro hoare keeps_reauthenticate keeps_assertReadable)

lemma keeps_readable: "keeps (sends_only D c L Q) (tryM (iterM is (assertReadable p)))"
  by (intro keeps_tryM hoare keeps_assertReadable)

section \<open>Who is sent an event\<close>

text \<open>
  A session that is active and unexpired lets its principal, whose membership, device and user are
  active, read the call of the event.
\<close>

definition live_access :: "world \<Rightarrow> AuthPrincipal \<Rightarrow> bool" where
  "live_access w p \<longleftrightarrow> pr_roles p = roles_of (w_db w) (pr_organizationId p) (pr_membershipId p) \<and>
     (\<exists>r \<in> set (d_refreshSessions (w_db w)). rs_id r = pr_sessionId p \<and>
        rs_org r = pr_organizationId p \<and> rs_membership r = pr_membershipId p \<and>
        rs_status r = REFRESH_ACTIVE \<and> (\<exists>n. w_clock w n < rs_expiresAt r) \<and>
        membership_active (w_db w) (rs_org r) (rs_membership r) (\<lambda>m u. ms_user m = pr_userId p))"

definition readable_by :: "db \<Rightarrow> AuthPrincipal \<Rightarrow> uuid \<Rightarrow> bool" where
  "readable_by d p i \<longleftrightarrow> hasPermission (pr_roles p) P_call_read \<and>
     (\<exists>c \<in> set (d_calls d). ca_org c = pr_organizationId p \<and> ca_id c = i)"

definition may_receive :: "world \<Rightarrow> nat \<Rightarrow> SecurityEvent \<Rightarrow> bool" where
  "may_receive w n e \<longleftrightarrow> (\<exists>state p. (n, state) \<in> set (w_clients w) \<and>
     same_context p (cs_principal state) \<and> pr_organizationId p = se_organizationId e \<and>
     live_access w p \<and> readable_by (w_db w) p (se_callId e))"

definition permitted :: "world \<Rightarrow> provider_call \<Rightarrow> bool" where
  "permitted w x \<longleftrightarrow> (case x of SocketSend n (EventMessage e) \<Rightarrow> may_receive w n e | _ \<Rightarrow> True)"

lemma permitted_silence: "allows_silence (permitted w)"
  by (auto simp: allows_silence_def no_event_def permitted_def split: provider_call.split socket_message.split)

lemma permitted_event [simp]: "permitted w (SocketSend n (EventMessage e)) = may_receive w n e"
  by (simp add: permitted_def)

abbreviation sends_from :: "world \<Rightarrow> world \<Rightarrow> bool" where
  "sends_from w \<equiv> sends_only (\<lambda>d. d = w_db w) (w_clock w) (w_log w) (permitted w)"

lemma may_receiveI:
  assumes "(n, state) \<in> set (w_clients w)" "same_context p (cs_principal state)" "live_access w p"
    and "pr_organizationId p = se_organizationId e" "readable_by (w_db w) p (se_callId e)"
  shows "may_receive w n e"
  using assms unfolding may_receive_def by blast

lemma reauthenticate_yields:
  "yields (sends_from w) (reauthenticate env n state)
     (\<lambda>s. same_context (cs_principal s) (cs_principal state) \<and> live_access w (cs_principal s))"
proof (rule yieldsI [OF keeps_reauthenticate])
  fix v s v' assume v: "sends_from w v" and run: "reauthenticate env n state v = (Inr s, v')"
  obtain p v1 where p: "authenticate (ge_auth env) (cs_accessToken state) v = (Inr p, v1)"
    "same_context p (cs_principal state)" "s = state\<lparr>cs_principal := p\<rparr>"
    using run by (auto simp: reauthenticate_def run_simps)
  have eq: "w_db v = w_db w" "w_clock v = w_clock w" using v by (simp_all add: sends_only_def)
  have "live_access w p" using authenticate_run [OF p(1)] unfolding live_access_def eq by blast
  with p show "same_context (cs_principal s) (cs_principal state) \<and> live_access w (cs_principal s)"
    by simp
qed

lemma assertReadable_yields:
  "yields (sends_from w) (assertReadable p i) (\<lambda>_. readable_by (w_db w) p i)"
proof (rule yieldsI [OF keeps_assertReadable])
  fix v u v' assume v: "sends_from w v" and run: "assertReadable p i v = (Inr u, v')"
  obtain c where "find (call_at (pr_organizationId p) i) (d_calls (w_db v)) = Some c"
    and perm: "hasPermission (pr_roles p) P_call_read"
    using run by (auto simp: assertReadable_def may_do_def authorization_assert_def findCallAggregate_def
        findTenantCall_def run_simps calls_table_def split: if_splits)
  then have "c \<in> set (d_calls (w_db v)) \<and> call_at (pr_organizationId p) i c" by (auto dest: find_SomeD)
  with perm v show "readable_by (w_db w) p i" by (auto simp: readable_by_def call_at_def sends_only_def)
qed

lemma readable_yields:
  "yields (sends_from w) (iterM is (assertReadable p)) (\<lambda>_. \<forall>i \<in> set is. readable_by (w_db w) p i)"
  by (rule yields_iterM) (rule assertReadable_yields)

lemma reauthorize_yields:
  "yields (sends_from w) (reauthorize env n state is)
     (\<lambda>s. same_context (cs_principal s) (cs_principal state) \<and> live_access w (cs_principal s) \<and>
          (\<forall>i \<in> set is. readable_by (w_db w) (cs_principal s) i))"
  unfolding reauthorize_def
  by (rule yields_bind [OF reauthenticate_yields], rule yields_then [OF readable_yields])
    (auto intro: yields_returnM)

subsection \<open>Publishing\<close>

lemma keeps_publish_to:
  assumes "(n, state) \<in> set (w_clients w)"
  shows "keeps (sends_from w) (publish_to env e (n, state))"
proof -
  have "keeps (sends_from w) (if a = None then revoke n else bindM (sendEvent n e) (\<lambda>_. returnM ()))"
    if wants: "wants e state"
      and a: "case a of None \<Rightarrow> True | Some s \<Rightarrow>
        same_context (cs_principal s) (cs_principal state) \<and> live_access w (cs_principal s) \<and>
        (\<forall>i \<in> set [se_callId e]. readable_by (w_db w) (cs_principal s) i)" for a
  proof (cases a)
    case (Some s)
    with a wants have "may_receive w n e"
      by (intro may_receiveI [OF assms, of "cs_principal s"]) (auto simp: same_context_def wants_def)
    with Some show ?thesis by (auto intro!: hoare keeps_sendEvent permitted_silence)
  qed (simp add: keeps_revoke permitted_silence)
  note step = this
  show ?thesis
    unfolding publish_to_def prod.case
    by (rule keeps_if, rule keeps_yields [OF yields_tryM [OF reauthorize_yields]], rule step,
        assumption+, rule keeps_returnM)
qed

lemma publish_sends: "sends_from w (snd (publish env e w))"
proof -
  let ?r = "\<lambda>v. remember_event (securityEventReplayMaximum (c_api (ge_config env))) e
      (ge_fingerprint env (outbound e)) v"
  have clients: "w_clients (?r v) = w_clients v" for v
    by (simp add: remember_event_def split: prod.split)
  have start: "sends_from w (?r w)"
    by (simp add: remember_event_def sends_only_def split: prod.split)
  have loop: "keeps (sends_from w) (iterM (w_clients w) (publish_to env e))"
    by (intro hoare) (auto intro: keeps_publish_to)
  show ?thesis
    using keeps_sndD [OF loop start] sends_only_start [of "\<lambda>d. d = w_db w" w "permitted w"]
    by (auto simp: publish_def Let_def monad_simps clients split: option.split)
qed

subsection \<open>Subscribing\<close>

definition event_in :: "uuid \<Rightarrow> uuid list \<Rightarrow> SecurityEvent \<Rightarrow> bool" where
  "event_in organizationId callIds e \<longleftrightarrow> se_organizationId e = organizationId \<and> se_callId e \<in> set callIds"

lemma after_event_mem: "after_event i rs = Some rest \<Longrightarrow> set rest \<subseteq> set rs"
  by (induction rs) (auto split: if_splits)

lemma events_after_mem: "events_after i es = Some rest \<Longrightarrow> set rest \<subseteq> set es"
  by (induction es) (auto split: if_splits)

lemma replay_window_mem:
  "a \<in> set (replay_window organizationId callIds maximum rs) \<Longrightarrow> delivered_for organizationId callIds a"
  unfolding replay_window_def by (auto dest!: in_set_takeD)

lemma keeps_outbox_record: "keeps (sends_only D c L Q) (outbox_record a)"
  unfolding outbox_record_def by (intro hoare)

lemma keeps_toSecurityEvent: "keeps (sends_only D c L Q) (toSecurityEvent r)"
  unfolding toSecurityEvent_def Let_def now_if_def by (intro hoare) simp_all

lemma toSecurityEvent_yields:
  "delivered_for organizationId callIds (ox_alert r) \<Longrightarrow>
     yields (sends_only D c L Q) (toSecurityEvent r) (event_in organizationId callIds)"
  by (rule yieldsI [OF keeps_toSecurityEvent])
    (auto simp: toSecurityEvent_def Let_def run_simps event_of_def event_in_def delivered_for_def
      split: option.splits)

lemma outbox_record_yields:
  "P a \<Longrightarrow> yields (sends_only D c L Q) (outbox_record a) (\<lambda>r. P (ox_alert r))"
  by (rule yieldsI [OF keeps_outbox_record]) (auto simp: outbox_record_def run_simps)

lemma uuids_yield: "yields I (mapM (\<lambda>c. liftE (requireUuid c f)) xs) (\<lambda>ys. ys = xs)"
proof (induction xs)
  case (Cons x xs)
  then show ?case by (auto intro!: yields_bind [where Q = "\<lambda>y. y = x"] yields_liftE
      yields_bind [where Q = "\<lambda>ys. ys = xs"] yields_returnM)
qed (simp add: yields_returnM)

lemma outbox_replay_yields:
  "yields (sends_only D c L Q) (outbox_replay organizationId callIds i maximum)
     (\<lambda>r. \<forall>e \<in> set (rt_events r). event_in organizationId callIds e)"
proof -
  let ?in = "delivered_for organizationId (dedup callIds)"
  let ?P = "\<lambda>r. \<forall>e \<in> set (rt_events r). event_in organizationId callIds e"
  have tenant: "yields (sends_only D c L Q) (liftE (requireTenant organizationId)) (\<lambda>o'. o' = organizationId)"
    by (rule yields_liftE) simp
  have window: "yields (sends_only D c L Q)
      (getM (\<lambda>w. replay_window organizationId (dedup callIds) maximum (d_alerts (w_db w))))
      (\<lambda>as. \<forall>a \<in> set as. ?in a)"
    by (rule yields_getM) (use replay_window_mem in blast)
  have records: "yields (sends_only D c L Q) (mapM outbox_record as) (\<lambda>rs. \<forall>r \<in> set rs. ?in (ox_alert r))"
    if "\<forall>a \<in> set as. ?in a" for as
    by (rule yields_mapM) (use that in \<open>auto intro: outbox_record_yields\<close>)
  have events: "yields (sends_only D c L Q) (mapM toSecurityEvent rest)
      (\<lambda>es. \<forall>e \<in> set es. event_in organizationId (dedup callIds) e)"
    if "\<forall>r \<in> set rs. ?in (ox_alert r)" "after_event k rs = Some rest" for rs rest k
    by (rule yields_mapM) (use that after_event_mem in \<open>blast intro: toSecurityEvent_yields\<close>)
  have any: "yields (sends_only D c L Q) (liftE r) (\<lambda>_. True)" for r :: "err + 'a"
    by (rule yields_liftE) simp
  have in_calls: "event_in organizationId (dedup callIds) e = event_in organizationId callIds e" for e
    by (simp add: event_in_def)
  show ?thesis
    unfolding outbox_replay_def Let_def
    apply (rule yields_bind [OF tenant], hypsubst)
    apply (rule yields_bind [OF uuids_yield], hypsubst)
    apply (rule yields_bind [OF window])
    apply (rule yields_bind [OF records], assumption)
    apply (split option.split, intro conjI impI allI)
     apply (rule yields_returnM, simp)
    apply (rule yields_bind [OF any])
    apply (rule yields_then [OF yields_guardM])
    apply (split option.split, intro conjI impI allI)
     apply (simp add: yields_returnM)
    apply (rule yields_bind [OF events], assumption, assumption)
    apply (rule yields_returnM, simp add: in_calls)
    done
qed

lemma replay_for_yields:
  "yields (sends_only D c L Q) (replay_for env s i)
     (\<lambda>r. \<forall>e \<in> set (rt_events r). event_in (pr_organizationId (cs_principal s)) (cs_callIds s) e)"
proof (cases "ge_outbox env")
  case True
  then show ?thesis by (simp add: replay_for_def outbox_replay_yields)
next
  case False
  have "event_in (pr_organizationId (cs_principal s)) (cs_callIds s) e"
    if "e \<in> set (rt_events (memory_replay s i buffer))" for e buffer
  proof -
    have "e \<in> set (tenant_replay s buffer)"
      using that by (auto simp: memory_replay_def Let_def split: option.splits dest: events_after_mem)
    then show ?thesis by (auto simp: tenant_replay_def event_in_def)
  qed
  then show ?thesis using False by (auto simp: replay_for_def intro!: yields_getM)
qed

lemma keeps_subscribe_calls:
  assumes state: "(n, state0) \<in> set (w_clients w)" "cs_principal state = cs_principal state0"
  shows "keeps (sends_from w) (subscribe_calls env n state callIds i)"
proof -
  have deliver: "keeps (sends_from w) (thenM (save_client n (s\<lparr>cs_callIds := callIds\<rparr>))
      (bindM (replay_for env (s\<lparr>cs_callIds := callIds\<rparr>) i) (\<lambda>replay.
        bindM (send_events n (rt_events replay)) (\<lambda>sent. f sent replay))))"
    if s: "same_context (cs_principal s) (cs_principal state) \<and> live_access w (cs_principal s)"
      and rd: "\<forall>j \<in> set callIds. readable_by (w_db w) (cs_principal s) j"
      and f: "\<And>b r. keeps (sends_from w) (f b r)" for s and f :: "bool \<Rightarrow> ReplayResult \<Rightarrow> gateway_reply op"
  proof (intro keeps_thenM keeps_save_client keeps_yields [OF replay_for_yields] keeps_bindM
      keeps_send_events permitted_silence f ballI)
    fix r e assume "\<forall>e \<in> set (rt_events r). event_in (pr_organizationId (cs_principal (s\<lparr>cs_callIds := callIds\<rparr>)))
        (cs_callIds (s\<lparr>cs_callIds := callIds\<rparr>)) e" "e \<in> set (rt_events r)"
    then have e: "event_in (pr_organizationId (cs_principal s)) callIds e" by simp
    show "permitted w (SocketSend n (EventMessage e))"
      unfolding permitted_event
      by (rule may_receiveI [OF state(1), of "cs_principal s"])
        (use e s rd state(2) in \<open>auto simp: event_in_def\<close>)
  qed
  show ?thesis
    unfolding subscribe_calls_def Let_def
    apply (rule keeps_yields [OF yields_tryM [OF reauthenticate_yields]])
    apply (split option.split, intro conjI impI allI)
     apply (intro keeps_thenM keeps_revoke permitted_silence keeps_returnM)
    apply (rule keeps_yields [OF yields_tryM [OF readable_yields]])
    apply (split option.split, intro conjI impI allI)
     apply (rule keeps_returnM)
    apply (rule deliver, simp, simp, intro keeps_if keeps_returnM)
    done
qed

section \<open>Requests\<close>

datatype gateway_request =
    Connect nat nat "header option" "header option"
  | Disconnect nat
  | Subscribe nat SubscribeInput
  | AcknowledgeEvent nat "json option"
  | PublishEvent SecurityEvent

fun gateway_step :: "gateway_env \<Rightarrow> world \<Rightarrow> gateway_request \<Rightarrow> world" where
  "gateway_step env w (Connect pending n authorization protocols) =
     snd (handleConnection env pending n authorization protocols w)"
| "gateway_step env w (Disconnect n) = snd (handleDisconnect n w)"
| "gateway_step env w (Subscribe n input) = snd (subscribe env n input w)"
| "gateway_step env w (AcknowledgeEvent n eventId) = snd (acknowledge_message env n eventId w)"
| "gateway_step env w (PublishEvent e) = snd (publish env e w)"

lemma consumeInbound_yields:
  assumes "allows_silence Q"
  shows "yields (sends_only D c L Q) (consumeInbound api n state)
    (\<lambda>r. case r of None \<Rightarrow> True | Some s \<Rightarrow> cs_principal s = cs_principal state)"
  by (rule yieldsI [OF keeps_consumeInbound [OF assms]])
    (auto simp: consumeInbound_def run_simps Let_def next_inbound_def split: if_splits)

lemma subscribe_sends: "sends_from w (snd (subscribe env n input w))"
proof (cases "map_of (w_clients w) n")
  case None
  have "keeps (sends_from w) (thenM (close_socket n 1008 ''AUTHENTICATION_REQUIRED'')
      (throwM (Error ''Unauthenticated WebSocket client.'')))"
    by (intro hoare keeps_close_socket permitted_silence)
  from keeps_sndD [OF keeps_bindM [OF this keeps_throwM], of w "\<lambda>_. Error []"]
    keeps_sndD [OF this, of w] None show ?thesis
    by (auto simp: subscribe_def requireState_def sends_only_start bindM_def getM_def thenM_def throwM_def
        split: prod.splits sum.splits)
next
  case (Some state)
  have "keeps (sends_from w) (bindM (consumeInbound (c_api (ge_config env)) n state) (\<lambda>consumed.
      case consumed of
        None \<Rightarrow> returnM None
      | Some state \<Rightarrow>
          (case subscribe_input (c_api (ge_config env)) input of
             None \<Rightarrow> returnM (Some (Rejected ''SUBSCRIPTION_INVALID''))
           | Some (callIds, afterEventId) \<Rightarrow>
               bindM (subscribe_calls env n state callIds afterEventId) (\<lambda>reply.
               returnM (Some reply)))))"
    using map_of_SomeD [OF Some]
    by (intro keeps_yields [OF consumeInbound_yields [OF permitted_silence]] keeps_case_option
        keeps_case_prod_fun keeps_bindM keeps_returnM keeps_subscribe_calls) auto
  from keeps_sndD [OF this, of w] Some show ?thesis
    by (simp add: subscribe_def requireState_def monad_simps sends_only_start)
qed

lemma keeps_acknowledge_message:
  "allows_silence Q \<Longrightarrow> keeps (sends_only (\<lambda>_. True) c L Q) (acknowledge_message env n eventId)"
proof -
  assume Q: "allows_silence Q"
  have update: "keeps (sends_only (\<lambda>_. True) c L Q) (update_one tb P f)" for tb :: "'r table" and P f
    by (auto simp: keeps_def sends_only_def update_one_def find_unique_row_def update_rows_def
        bindM_def getM_def throwM_def returnM_def Let_def split: option.splits)
  have "keeps (sends_only (\<lambda>_. True) c L Q) (outbox_acknowledge organizationId m is i)"
    for organizationId m "is" i
    unfolding outbox_acknowledge_def now_if_def by (intro hoare update) simp_all
  then show ?thesis
    unfolding acknowledge_message_def acknowledge_event_def acknowledge_stored_def
    by (intro hoare keeps_requireState keeps_consumeInbound keeps_tryM keeps_reauthorize keeps_revoke
        keeps_save_client Q)
qed

lemma keeps_handleConnection:
  "allows_silence Q \<Longrightarrow> keeps (sends_only D c L Q) (handleConnection env pending n authorization protocols)"
  unfolding handleConnection_def
  by (intro hoare keeps_close_socket keeps_tryM keeps_authenticate keeps_save_client keeps_quiet_call
      keeps_dropClient) simp_all

lemma step_sends:
  "sends_only (\<lambda>_. True) (w_clock w) (w_log w) (permitted w) (gateway_step env w req)"
proof -
  have weaker: "sends_only (\<lambda>_. True) c L Q v" if "sends_only D c L Q v" for D c L Q v
    using that by (simp add: sends_only_def)
  have start: "sends_only (\<lambda>_. True) (w_clock w) (w_log w) (permitted w) w" by (rule sends_only_start) simp
  show ?thesis
    by (cases req)
      (auto simp: handleDisconnect_def intro: weaker [OF publish_sends] weaker [OF subscribe_sends]
        keeps_sndD [OF keeps_handleConnection [OF permitted_silence] start]
        keeps_sndD [OF keeps_acknowledge_message [OF permitted_silence] start]
        keeps_sndD [OF keeps_forget_client start])
qed

section \<open>Properties\<close>

interpretation gateway: event_publisher "publish env" for env
  by unfold_locales (use publish_sends in \<open>auto simp: sends_only_def\<close>)


text \<open>A client that has subscribed to a call, one alert about that call, and its event.\<close>

definition gateway_event_id :: string where
  "gateway_event_id = ''evt_'' @ replicate 64 CHR ''a''"

definition sample_alert :: alert_row where
  "sample_alert = \<lparr>al_id = account1, al_org = auth_org, al_call = call1, al_riskEvent = account1,
     al_intervention = None, al_acknowledgedBy = None, al_idemKey = ''alert'',
     al_externalEventId = Some gateway_event_id, al_channel = SECURITY_WEBSOCKET,
     al_status = ALERT_PENDING, al_mode = SHADOW, al_eventType = ''risk.state.changed'',
     al_schemaVersion = ''1.0.0'', al_recipient = None, al_attemptCount = 0, al_nextAttemptAt = None,
     al_leaseId = None, al_leaseExpiresAt = None, al_deliveredAt = None, al_acknowledgedAt = None,
     al_failureCode = None, al_createdAt = 0\<rparr>"

definition sample_risk_event :: risk_event_row where
  "sample_risk_event = \<lparr>re_id = account1, re_org = auth_org, re_call = call1, re_session = None,
     re_policyId = account1, re_assessment = None, re_idemKey = ''event'', re_schemaVersion = ''1.0.0'',
     re_eventSequence = 1, re_mode = SHADOW, re_priorState = VERIFIED, re_state = HIGH_RISK,
     re_reasonCode = ''R'', re_policyKey = ''P'', re_policyVersion = ''1'', re_thresholdVersion = ''1'',
     re_occurredAt = 0\<rparr>"

definition sample_client :: ClientState where
  "sample_client = \<lparr>cs_accessToken = account1,
     cs_principal = \<lparr>pr_userId = account1, pr_organizationId = auth_org, pr_membershipId = account1,
       pr_deviceId = account1, pr_sessionId = account1, pr_roles = [MEMBER]\<rparr>,
     cs_callIds = [call1], cs_inboundCount = 0, cs_inboundWindowStartedAt = 0,
     cs_lastAcknowledgedEventId = None\<rparr>"

definition gateway_world :: world where
  "gateway_world = (auth_world [sample_refresh REFRESH_ACTIVE])\<lparr>
     w_db := (auth_db [sample_refresh REFRESH_ACTIVE])\<lparr>d_calls := [sample_call_row\<lparr>ca_org := auth_org\<rparr>],
       d_riskEvents := [sample_risk_event], d_alerts := [sample_alert]\<rparr>,
     w_answers := (\<lambda>_. Some 1), w_clients := [(7, sample_client)]\<rparr>"

definition sample_gateway :: gateway_env where
  "sample_gateway = \<lparr>ge_config = engineering_configuration, ge_auth = sample_auth,
     ge_fingerprint = ob_eventId, ge_outbox = True\<rparr>"


text \<open>
  C7: whatever the gateway is asked to do, a client that is sent an event was connected before, and
  its principal, of the event's organization, has a live session of active rows and the permission to
  read the call of the event, which is a call of that organization.
\<close>

theorem events_reach_readers:
  assumes "SocketSend n (EventMessage e) \<in>
    set (drop (length (w_log w)) (w_log (gateway_step env w req)))"
  shows "\<exists>state p. (n, state) \<in> set (w_clients w) \<and> same_context p (cs_principal state) \<and>
    pr_organizationId p = se_organizationId e \<and> live_access w p \<and>
    hasPermission (pr_roles p) P_call_read \<and>
    (\<exists>c \<in> set (d_calls (w_db w)). ca_org c = se_organizationId e \<and> ca_id c = se_callId e)"
proof -
  have "may_receive w n e" using sends_onlyD [OF step_sends assms] by simp
  then show ?thesis unfolding may_receive_def readable_by_def by metis
qed

definition sample_event :: SecurityEvent where
  "sample_event = \<lparr>se_outboxId = None, se_eventId = gateway_event_id, se_eventType = RISK_STATE_CHANGED,
     se_schemaVersion = ''1.0.0'', se_organizationId = auth_org, se_callId = call1,
     se_targetId = account1, se_occurredAt = 0, se_metadata = []\<rparr>"

theorem events_reach_readers_witness:
  "\<exists>state p. (7, state) \<in> set (w_clients gateway_world) \<and> same_context p (cs_principal state) \<and>
    pr_organizationId p = auth_org \<and> live_access gateway_world p"
proof -
  have "w_log (gateway_step sample_gateway gateway_world (PublishEvent sample_event)) =
      [SocketReady 7, SocketSend 7 (EventMessage sample_event)]"
    by code_simp
  then have "SocketSend 7 (EventMessage sample_event) \<in> set (drop (length (w_log gateway_world))
      (w_log (gateway_step sample_gateway gateway_world (PublishEvent sample_event))))"
    by (simp add: gateway_world_def auth_world_def)
  from events_reach_readers [OF this] show ?thesis by (auto simp: sample_event_def)
qed

end
