(* ===== verification/Idempotency.thy ===== *)
theory Idempotency
  imports Configuration "HOL-Library.AList" "HOL-Library.Multiset"
begin

text \<open>
  \<open>common/api/request-contracts.ts\<close> and \<open>common/idempotency/idempotency.service.ts\<close>: requests with the
  same scope and key share one operation. \<open>execute\<close> suspends while the operation runs, so it is two
  steps here: \<open>arrive\<close>, up to the operation's start, and \<open>finish\<close>, when it ends; other requests may
  come between them. The order of \<open>localeCompare\<close> and the hash of the payload's JSON text are
  fields of \<open>idem_env\<close>.
\<close>

section \<open>Request contracts\<close>

definition key_char :: "char \<Rightarrow> bool" where
  "key_char c \<longleftrightarrow> (CHR ''A'' \<le> c \<and> c \<le> CHR ''Z'') \<or> (CHR ''a'' \<le> c \<and> c \<le> CHR ''z'') \<or>
     decimal_digit c"

definition idempotencyKeyPattern :: "string \<Rightarrow> bool" where
  "idempotencyKeyPattern s \<longleftrightarrow> 8 \<le> length s \<and> length s \<le> 128 \<and> key_char (hd s) \<and>
     list_all (\<lambda>c. key_char c \<or> List.member ''._:-'' c) (tl s)"

definition requireIdempotencyKey :: "string option \<Rightarrow> err + string" where
  "requireIdempotencyKey value = (case value of
     Some key \<Rightarrow> if idempotencyKeyPattern key then Inr key
                 else Inl (ApiError ''IDEMPOTENCY_KEY_REQUIRED'' 400 [''idempotency-key''])
   | None \<Rightarrow> Inl (ApiError ''IDEMPOTENCY_KEY_REQUIRED'' 400 [''idempotency-key'']))"

section \<open>Fingerprints\<close>

text \<open>The fields of an object are put into the order of their names, everywhere in the payload.\<close>

fun normalize_json :: "(string \<Rightarrow> string) \<Rightarrow> json \<Rightarrow> json"
  and normalize_list :: "(string \<Rightarrow> string) \<Rightarrow> json list \<Rightarrow> json list"
  and normalize_fields :: "(string \<Rightarrow> string) \<Rightarrow> (string \<times> json) list \<Rightarrow> (string \<times> json) list"
where
  "normalize_json collate JNull = JNull"
| "normalize_json collate (JBool b) = JBool b"
| "normalize_json collate (JNum x) = JNum x"
| "normalize_json collate (JStr s) = JStr s"
| "normalize_json collate (JArr vs) = JArr (normalize_list collate vs)"
| "normalize_json collate (JObj fs) =
     JObj (sort_key (\<lambda>f. collate (fst f)) (normalize_fields collate fs))"
| "normalize_list collate [] = []"
| "normalize_list collate (v # vs) = normalize_json collate v # normalize_list collate vs"
| "normalize_fields collate [] = []"
| "normalize_fields collate ((k, v) # fs) = (k, normalize_json collate v) # normalize_fields collate fs"

section \<open>Responses\<close>

definition contains_word :: "string \<Rightarrow> string \<Rightarrow> bool" where
  "contains_word word s \<longleftrightarrow>
     list_ex (\<lambda>n. take (length word) (drop n s) = word) [0..<Suc (length s)]"

definition sensitive_words :: "string list" where
  "sensitive_words = [''password'', ''token'', ''secret'', ''authorization'', ''cookie'', ''embedding'',
     ''audio'', ''waveform'', ''pcm'', ''voiceprint'', ''ciphertext'']"

definition sensitiveResponseField :: "string \<Rightarrow> bool" where
  "sensitiveResponseField name \<longleftrightarrow>
     list_ex (\<lambda>word. contains_word word (map ascii_lower name)) sensitive_words"

fun assertSafeResponse :: "json \<Rightarrow> bool"
  and safe_list :: "json list \<Rightarrow> bool"
  and safe_fields :: "(string \<times> json) list \<Rightarrow> bool"
where
  "assertSafeResponse JNull \<longleftrightarrow> True"
| "assertSafeResponse (JBool b) \<longleftrightarrow> True"
| "assertSafeResponse (JNum x) \<longleftrightarrow> True"
| "assertSafeResponse (JStr s) \<longleftrightarrow> True"
| "assertSafeResponse (JArr vs) \<longleftrightarrow> safe_list vs"
| "assertSafeResponse (JObj fs) \<longleftrightarrow> safe_fields fs"
| "safe_list [] \<longleftrightarrow> True"
| "safe_list (v # vs) \<longleftrightarrow> assertSafeResponse v \<and> safe_list vs"
| "safe_fields [] \<longleftrightarrow> True"
| "safe_fields ((k, v) # fs) \<longleftrightarrow>
     \<not> sensitiveResponseField k \<and> assertSafeResponse v \<and> safe_fields fs"

section \<open>Entries\<close>

datatype entry_state = Pending | Complete json

record idem_entry =
  en_fingerprint :: string
  en_expiresAt :: instant
  en_state :: entry_state

record idem_env =
  id_config :: idempotency_config
  id_collate :: "string \<Rightarrow> string"
  id_hash :: "json \<Rightarrow> string"

definition fingerprintPayload :: "idem_env \<Rightarrow> json \<Rightarrow> string" where
  "fingerprintPayload env payload = id_hash env (normalize_json (id_collate env) payload)"

definition purgeExpired :: "instant \<Rightarrow> (string \<times> idem_entry) list \<Rightarrow> (string \<times> idem_entry) list" where
  "purgeExpired t entries = filter (\<lambda>(key, entry).
     \<not> (en_expiresAt entry \<le> t \<and> en_state entry \<noteq> Pending)) entries"

record IdempotentRequest =
  iq_scope :: string
  iq_key :: string
  iq_payload :: json

text \<open>
  What happens to a request when it arrives: it is refused, gets the stored value, waits for the
  operation of an earlier request, or starts its own.
\<close>

datatype arrival = Refused err | Replayed json | Waiting | Started string idem_entry

definition map_key :: "IdempotentRequest \<Rightarrow> string" where
  "map_key request = iq_scope request @ '':'' @ iq_key request"

definition request_valid :: "IdempotentRequest \<Rightarrow> bool" where
  "request_valid request \<longleftrightarrow> idempotencyKeyPattern (iq_key request) \<and>
     length (iq_scope request) \<noteq> 0 \<and> length (iq_scope request) \<le> 120"

text \<open>\<open>t\<close> is the time of the purge, \<open>t2\<close> the later one that the entry's end is counted from.\<close>

definition arrive ::
  "idem_env \<Rightarrow> instant \<Rightarrow> instant \<Rightarrow> IdempotentRequest \<Rightarrow> (string \<times> idem_entry) list \<Rightarrow>
   arrival \<times> (string \<times> idem_entry) list" where
  "arrive env t t2 request entries =
     (if \<not> request_valid request
      then (Refused (Error ''Idempotency scope or key is invalid.''), entries)
      else
        let kept = purgeExpired t entries; key = map_key request;
            fingerprint = fingerprintPayload env (iq_payload request) in
        case map_of kept key of
          Some existing \<Rightarrow>
            (if en_fingerprint existing \<noteq> fingerprint then Refused IdempotencyConflictError
             else case en_state existing of Complete v \<Rightarrow> Replayed v | Pending \<Rightarrow> Waiting, kept)
        | None \<Rightarrow>
            if maximumEntries (id_config env) \<le> int (length kept)
            then (Refused (ApiError ''DEPENDENCY_UNAVAILABLE'' 503 []), kept)
            else
              let entry = \<lparr>en_fingerprint = fingerprint,
                    en_expiresAt = t2 + idempotencyTtlSeconds (id_config env) * 1000,
                    en_state = Pending\<rparr> in
              (Started key entry, AList.update key entry kept))"

definition unsafe_response :: err where
  "unsafe_response = Error ''Idempotency response contains a sensitive field.''"

text \<open>The end of the operation that \<open>entry\<close> was started for.\<close>

definition finish ::
  "string \<Rightarrow> idem_entry \<Rightarrow> err + json \<Rightarrow> (string \<times> idem_entry) list \<Rightarrow>
   (err + json) \<times> (string \<times> idem_entry) list" where
  "finish key entry outcome entries = (case outcome of
     Inl e \<Rightarrow> (Inl e, AList.delete key entries)
   | Inr v \<Rightarrow>
       if assertSafeResponse v
       then (Inr v, AList.update key (entry\<lparr>en_state := Complete v\<rparr>) entries)
       else (Inl unsafe_response, AList.delete key entries))"

section \<open>Interleaved requests\<close>

text \<open>
  The entries and the operations that are under way, by the number of the request that started them.
\<close>

record idem_world =
  id_entries :: "(string \<times> idem_entry) list"
  id_running :: "(nat \<times> string \<times> idem_entry) list"

datatype idem_event =
    Arrives nat instant instant IdempotentRequest
  | Ends nat "err + json"

definition idem_start :: idem_world where
  "idem_start = \<lparr>id_entries = [], id_running = []\<rparr>"

fun idem_step :: "idem_env \<Rightarrow> idem_world \<Rightarrow> idem_event \<Rightarrow> idem_world" where
  "idem_step env w (Arrives n t t2 request) =
     (case arrive env t t2 request (id_entries w) of
        (Started key entry, entries) \<Rightarrow>
          \<lparr>id_entries = entries, id_running = (n, key, entry) # id_running w\<rparr>
      | (_, entries) \<Rightarrow> w\<lparr>id_entries := entries\<rparr>)"
| "idem_step env w (Ends n outcome) =
     (case map_of (id_running w) n of
        None \<Rightarrow> w
      | Some (key, entry) \<Rightarrow>
          \<lparr>id_entries = snd (finish key entry outcome (id_entries w)),
           id_running = AList.delete n (id_running w)\<rparr>)"

section \<open>Lemmas\<close>

text \<open>An operation that runs has a pending entry, and no two have the same key.\<close>

definition idem_ok :: "idem_world \<Rightarrow> bool" where
  "idem_ok w \<longleftrightarrow> distinct (map fst (id_entries w)) \<and> distinct (map fst (id_running w)) \<and>
     distinct (map (\<lambda>(n, key, entry). key) (id_running w)) \<and>
     (\<forall>(n, key, entry) \<in> set (id_running w).
        map_of (id_entries w) key = Some entry \<and> en_state entry = Pending)"

lemma idem_ok_start: "idem_ok idem_start"
  by (simp add: idem_ok_def idem_start_def)

lemma map_of_purge:
  "distinct (map fst entries) \<Longrightarrow> map_of (purgeExpired t entries) k =
     (case map_of entries k of
        None \<Rightarrow> None
      | Some e \<Rightarrow> if en_expiresAt e \<le> t \<and> en_state e \<noteq> Pending then None else Some e)"
  by (induction entries) (auto simp: purgeExpired_def map_of_eq_None_iff split: option.splits)

lemma distinct_purge: "distinct (map fst entries) \<Longrightarrow> distinct (map fst (purgeExpired t entries))"
  unfolding purgeExpired_def by (rule distinct_map_filter)

text \<open>A fresh number for every request.\<close>

fun numbered :: "nat set \<Rightarrow> idem_event list \<Rightarrow> bool" where
  "numbered used [] \<longleftrightarrow> True"
| "numbered used (Arrives n t t2 request # es) \<longleftrightarrow> n \<notin> used \<and> numbered (insert n used) es"
| "numbered used (Ends n outcome # es) \<longleftrightarrow> numbered used es"

lemma arrive_cases:
  assumes "arrive env t t2 request entries = (a, entries')"
  obtains (stays) "entries' = entries" "\<forall>k e. a \<noteq> Started k e"
  | (purged) "entries' = purgeExpired t entries" "\<forall>k e. a \<noteq> Started k e"
  | (started) e where "a = Started (map_key request) e" "en_state e = Pending"
      "map_of (purgeExpired t entries) (map_key request) = None"
      "entries' = AList.update (map_key request) e (purgeExpired t entries)"
proof (cases "request_valid request")
  case False
  with assms stays show thesis by (auto simp: arrive_def)
next
  case True
  note valid = True
  show thesis
  proof (cases "map_of (purgeExpired t entries) (map_key request)")
    case (Some existing)
    with assms valid have "entries' = purgeExpired t entries" "\<forall>k e. a \<noteq> Started k e"
      by (auto simp: arrive_def Let_def split: entry_state.splits if_splits)
    then show thesis by (rule purged)
  next
    case None
    show thesis
    proof (cases "maximumEntries (id_config env) \<le> int (length (purgeExpired t entries))")
      case True
      with assms valid None purged show thesis by (auto simp: arrive_def Let_def)
    next
      case False
      with assms valid None started show thesis by (auto simp: arrive_def Let_def)
    qed
  qed
qed

lemma idem_ok_arrives:
  assumes ok: "idem_ok w" and n: "n \<notin> fst ` set (id_running w)"
  shows "idem_ok (idem_step env w (Arrives n t t2 request))"
proof -
  obtain a entries' where a: "arrive env t t2 request (id_entries w) = (a, entries')" by fastforce
  have d: "distinct (map fst (id_entries w))" using ok by (simp add: idem_ok_def)
  have pending: "map_of (purgeExpired t (id_entries w)) key = Some entry"
    if "(m, key, entry) \<in> set (id_running w)" for m key entry
    using ok that by (auto simp: idem_ok_def map_of_purge [OF d])
  have kept: "idem_ok (w\<lparr>id_entries := purgeExpired t (id_entries w)\<rparr>)"
    using ok pending by (auto simp: idem_ok_def distinct_purge)
  from a show ?thesis
  proof (cases rule: arrive_cases)
    case stays
    with a ok show ?thesis by (cases a) simp_all
  next
    case purged
    with a kept show ?thesis by (cases a) simp_all
  next
    case (started e)
    have new: "key \<noteq> map_key request" if "(m, key, entry) \<in> set (id_running w)" for m key entry
      using pending [OF that] started(3) by auto
    have "idem_ok \<lparr>id_entries = AList.update (map_key request) e (purgeExpired t (id_entries w)),
        id_running = (n, map_key request, e) # id_running w\<rparr>"
      using kept new n started(2) by (auto simp: idem_ok_def update_conv' distinct_update)
    with a started show ?thesis by simp
  qed
qed

lemma idem_ok_ends:
  assumes "idem_ok w" shows "idem_ok (idem_step env w (Ends n outcome))"
proof (cases "map_of (id_running w) n")
  case (Some op)
  obtain key entry where op: "op = (key, entry)" by fastforce
  let ?r = "AList.delete n (id_running w)"
  have run: "(n, key, entry) \<in> set (id_running w)" using map_of_SomeD [OF Some] op by simp
  have d: "distinct (map fst (id_running w))" "distinct (map (\<lambda>(n, key, entry). key) (id_running w))"
    using assms by (simp_all add: idem_ok_def)
  have other: "key' \<noteq> key" if "(m, key', entry') \<in> set ?r" for m key' entry'
  proof
    assume "key' = key"
    have m: "(m, key', entry') \<in> set (id_running w)" "m \<noteq> n"
      using that by (auto simp: AList.delete_eq)
    have "inj_on (\<lambda>(n, key, entry). key) (set (id_running w))" using d(2) by (simp add: distinct_map)
    from inj_onD [OF this _ m(1) run] \<open>key' = key\<close> m(2) show False by simp
  qed
  have rest: "distinct (map fst ?r)" "distinct (map (\<lambda>(n, key, entry). key) ?r)" "set ?r \<subseteq> set (id_running w)"
    using d by (auto simp: AList.delete_eq distinct_map inj_on_def)
  have fin: "distinct (map fst (snd (finish key entry outcome (id_entries w))))"
    "\<And>k. k \<noteq> key \<Longrightarrow> map_of (snd (finish key entry outcome (id_entries w))) k = map_of (id_entries w) k"
    using assms by (auto simp: finish_def idem_ok_def update_conv' distinct_update delete_conv' distinct_delete
        split: sum.splits)
  have pending: "map_of (snd (finish key entry outcome (id_entries w))) key' = Some entry' \<and>
      en_state entry' = Pending" if m: "(m, key', entry') \<in> set ?r" for m key' entry'
  proof -
    have "(m, key', entry') \<in> set (id_running w)" using rest(3) m by (rule subsetD)
    then have "map_of (id_entries w) key' = Some entry' \<and> en_state entry' = Pending"
      using assms unfolding idem_ok_def by blast
    with fin(2) [OF other [OF m]] show ?thesis by simp
  qed
  have "idem_step env w (Ends n outcome) =
      \<lparr>id_entries = snd (finish key entry outcome (id_entries w)), id_running = ?r\<rparr>"
    using Some op by simp
  with fin(1) rest(1,2) pending show ?thesis unfolding idem_ok_def by auto
qed (use assms in simp)

lemma running_numbers:
  "fst ` set (id_running (idem_step env w (Ends n outcome))) \<subseteq> fst ` set (id_running w)"
  "fst ` set (id_running (idem_step env w (Arrives n t t2 request))) \<subseteq> insert n (fst ` set (id_running w))"
  by (auto simp: AList.delete_eq image_iff split: option.splits prod.splits arrival.splits)

lemma idem_ok_run:
  "idem_ok w \<Longrightarrow> fst ` set (id_running w) \<subseteq> used \<Longrightarrow> numbered used events \<Longrightarrow>
     idem_ok (foldl (idem_step env) w events)"
proof (induction events arbitrary: w used)
  case (Cons ev events)
  show ?case
  proof (cases ev)
    case (Arrives n t t2 request)
    with Cons.prems have n: "n \<notin> used" "numbered (insert n used) events" by simp_all
    have "n \<notin> fst ` set (id_running w)" using Cons.prems(2) n(1) by blast
    then have "idem_ok (idem_step env w ev)" unfolding Arrives by (rule idem_ok_arrives [OF Cons.prems(1)])
    moreover have "fst ` set (id_running (idem_step env w ev)) \<subseteq> insert n used"
      using running_numbers(2) [of env w n t t2 request] Cons.prems(2) unfolding Arrives by blast
    ultimately have "idem_ok (foldl (idem_step env) (idem_step env w ev) events)"
      by (rule Cons.IH [OF _ _ n(2)])
    then show ?thesis by simp
  next
    case (Ends n outcome)
    have "idem_ok (idem_step env w ev)" unfolding Ends by (rule idem_ok_ends [OF Cons.prems(1)])
    moreover have "fst ` set (id_running (idem_step env w ev)) \<subseteq> used"
      using running_numbers(1) [of env w n outcome] Cons.prems(2) unfolding Ends by blast
    ultimately have "idem_ok (foldl (idem_step env) (idem_step env w ev) events)"
      using Cons.prems(3) Ends by (intro Cons.IH [of _ used]) simp_all
    then show ?thesis by simp
  qed
qed simp

text \<open>The numbers that a sequence of events has used.\<close>

fun numbers_of :: "idem_event list \<Rightarrow> nat set" where
  "numbers_of [] = {}"
| "numbers_of (Arrives n t t2 request # es) = insert n (numbers_of es)"
| "numbers_of (Ends n outcome # es) = numbers_of es"

lemma numbered_append:
  "numbered used (es @ fs) \<longleftrightarrow> numbered used es \<and> numbered (used \<union> numbers_of es) fs"
  by (induction used es rule: numbered.induct) (simp_all add: Un_insert_left)

lemma idem_numbers:
  "fst ` set (id_running (foldl (idem_step env) w es)) \<subseteq> fst ` set (id_running w) \<union> numbers_of es"
proof (induction es arbitrary: w)
  case (Cons ev es)
  have "fst ` set (id_running (idem_step env w ev)) \<subseteq> fst ` set (id_running w) \<union> numbers_of [ev]"
    using running_numbers [of env w] by (cases ev) auto
  moreover have "numbers_of (ev # es) = numbers_of [ev] \<union> numbers_of es" by (cases ev) simp_all
  ultimately show ?case using Cons.IH [of "idem_step env w ev"] unfolding foldl_Cons by blast
qed simp

text \<open>A stored value stays until its time is over.\<close>

fun arrives_before :: "instant \<Rightarrow> idem_event \<Rightarrow> bool" where
  "arrives_before e (Arrives n t t2 request) \<longleftrightarrow> t < e"
| "arrives_before e (Ends n outcome) \<longleftrightarrow> True"

lemma step_keeps_complete:
  assumes ok: "idem_ok w" and e: "map_of (id_entries w) k = Some e" "en_state e = Complete v"
    and time: "arrives_before (en_expiresAt e) ev"
  shows "map_of (id_entries (idem_step env w ev)) k = Some e"
proof (cases ev)
  case (Arrives n t t2 request)
  obtain a entries' where a: "arrive env t t2 request (id_entries w) = (a, entries')" by fastforce
  have "map_of (purgeExpired t (id_entries w)) k = Some e"
    using ok e time Arrives by (simp add: idem_ok_def map_of_purge)
  with a e show ?thesis
    by (cases rule: arrive_cases; cases a) (auto simp: Arrives update_conv')
next
  case (Ends n outcome)
  show ?thesis
  proof (cases "map_of (id_running w) n")
    case (Some op)
    obtain key entry where op: "op = (key, entry)" by fastforce
    have "map_of (id_entries w) key = Some entry" "en_state entry = Pending"
      using ok map_of_SomeD [OF Some] op by (auto simp: idem_ok_def)
    with e have "k \<noteq> key" by auto
    with Ends Some op e show ?thesis
      by (auto simp: finish_def update_conv' delete_conv' split: sum.splits)
  qed (use Ends e in simp)
qed

lemma run_keeps_complete:
  "idem_ok w \<Longrightarrow> fst ` set (id_running w) \<subseteq> used \<Longrightarrow> numbered used events \<Longrightarrow>
     map_of (id_entries w) k = Some e \<Longrightarrow> en_state e = Complete v \<Longrightarrow>
     list_all (arrives_before (en_expiresAt e)) events \<Longrightarrow>
     map_of (id_entries (foldl (idem_step env) w events)) k = Some e"
proof (induction events rule: rev_induct)
  case (snoc ev events)
  have "numbered used es" if "numbered used (es @ [ev])" for es used
    using that by (induction used es rule: numbered.induct) simp_all
  with snoc.prems(3) have n: "numbered used events" by blast
  have "idem_ok (foldl (idem_step env) w events)" by (rule idem_ok_run [OF snoc.prems(1,2) n])
  moreover have "map_of (id_entries (foldl (idem_step env) w events)) k = Some e"
    using snoc n by simp
  ultimately show ?case using snoc.prems by (simp add: step_keeps_complete del: idem_step.simps)
qed simp

text \<open>Two payloads that differ in the order of an object's fields have the same fingerprint.\<close>

lemma normalize_fields_map:
  "normalize_fields collate fs = map (\<lambda>(k, v). (k, normalize_json collate v)) fs"
  by (induction fs) auto

lemma normalize_permuted:
  assumes "mset fs = mset gs" "distinct (map fst fs)" "inj collate"
  shows "normalize_json collate (JObj fs) = normalize_json collate (JObj gs)"
proof -
  let ?n = "\<lambda>fs. map (\<lambda>(k, v). (k, normalize_json collate v)) fs"
  have fst: "map fst (?n hs) = map fst hs" for hs by (induction hs) auto
  have "distinct (map (\<lambda>f. collate (fst f)) (?n fs))"
    using assms(2,3) fst [of fs] by (auto simp: distinct_map inj_on_def dest: injD)
  then have inj: "inj_on (\<lambda>f. collate (fst f)) (set (?n fs))" by (rule conjunct2 [OF iffD1 [OF distinct_map]])
  have "mset (?n fs) = mset (?n gs)" using assms(1) by simp
  then have "sort_key (\<lambda>f. collate (fst f)) (?n fs) = sort_key (\<lambda>f. collate (fst f)) (?n gs)"
    by (intro sort_key_inj_key_eq inj) simp_all
  then show ?thesis by (simp add: normalize_fields_map)
qed

section \<open>Properties\<close>

text \<open>
  C13: however requests with the same scope and key come while operations run, at most one operation
  of theirs runs at a time, and once one has succeeded none is started again before the stored
  result expires: every later request is given that result or refused.
\<close>

theorem operation_runs_once:
  assumes "numbered {} (before @ later)"
    and "map_of (id_entries (foldl (idem_step env) idem_start before)) (map_key request) = Some e"
    and "en_state e = Complete v"
    and "list_all (arrives_before (en_expiresAt e)) later" "t < en_expiresAt e"
  shows "distinct (map (\<lambda>(n, key, entry). key)
      (id_running (foldl (idem_step env) idem_start (before @ later)))) \<and>
    fst (arrive env t t2 request (id_entries (foldl (idem_step env) idem_start (before @ later)))) \<in>
      {Replayed v, Refused IdempotencyConflictError,
       Refused (Error ''Idempotency scope or key is invalid.'')}"
proof -
  let ?w = "foldl (idem_step env) idem_start before" and ?v = "foldl (idem_step env) idem_start (before @ later)"
  have n: "numbered {} before" "numbered (numbers_of before) later"
    "fst ` set (id_running ?w) \<subseteq> numbers_of before"
    using assms(1) idem_numbers [of env idem_start before] by (auto simp: numbered_append idem_start_def)
  have ok: "idem_ok ?w" "idem_ok ?v"
    by (rule idem_ok_run [OF idem_ok_start _ n(1)] idem_ok_run [OF idem_ok_start _ assms(1)],
        simp add: idem_start_def)+
  have "map_of (id_entries ?v) (map_key request) = Some e"
    using run_keeps_complete [OF ok(1) n(3,2) assms(2,3,4)] by simp
  then have "map_of (purgeExpired t (id_entries ?v)) (map_key request) = Some e"
    using ok(2) assms(5) by (simp add: idem_ok_def map_of_purge)
  then have "fst (arrive env t t2 request (id_entries ?v)) \<in> {Replayed v, Refused IdempotencyConflictError,
       Refused (Error ''Idempotency scope or key is invalid.'')}"
    using assms(3) by (auto simp: arrive_def Let_def)
  moreover have "distinct (map (\<lambda>(n, key, entry). key) (id_running ?v))"
    using ok(2) by (simp add: idem_ok_def)
  ultimately show ?thesis by blast
qed

text \<open>A request, the same again while the first runs, and once more after it has ended.\<close>

definition sample_idem :: idem_env where
  "sample_idem = \<lparr>id_config = \<lparr>idempotencyTtlSeconds = 60, maximumEntries = 10\<rparr>,
     id_collate = (\<lambda>s. s), id_hash = (\<lambda>v. ''h'')\<rparr>"

definition sample_request :: IdempotentRequest where
  "sample_request = \<lparr>iq_scope = ''org:risk-policy'', iq_key = ''key-00001'', iq_payload = JNull\<rparr>"

theorem operation_runs_once_witness:
  "fst (arrive sample_idem 500 500 sample_request (id_entries (foldl (idem_step sample_idem) idem_start
      [Arrives 0 0 0 sample_request, Arrives 1 5 5 sample_request, Ends 0 (Inr (JNum 7)),
       Arrives 2 100 100 sample_request]))) \<in>
    {Replayed (JNum 7), Refused IdempotencyConflictError,
     Refused (Error ''Idempotency scope or key is invalid.'')}"
proof -
  let ?before = "[Arrives 0 0 0 sample_request, Arrives 1 5 5 sample_request, Ends 0 (Inr (JNum 7))]"
  have "id_entries (foldl (idem_step sample_idem) idem_start ?before) =
      [(''org:risk-policy:key-00001'', \<lparr>en_fingerprint = ''h'', en_expiresAt = 60000, en_state = Complete (JNum 7)\<rparr>)]"
    by code_simp
  then show ?thesis
    using operation_runs_once [of ?before "[Arrives 2 100 100 sample_request]" sample_idem sample_request
        "\<lparr>en_fingerprint = ''h'', en_expiresAt = 60000, en_state = Complete (JNum 7)\<rparr>" "JNum 7" 500 500]
    by (simp add: map_key_def sample_request_def del: idem_step.simps)
qed

end
