(* ===== verification/Evidence_Ingestion.thy ===== *)
theory Evidence_Ingestion
  imports Call_Repository Risk_Decision Interventions Outbox_Delivery Idempotency
begin

text \<open>
  \<open>modules/evidence/evidence-ingestion.service.ts\<close> and \<open>internal-evidence.controller.ts\<close>: the
  machine-learning service posts an event; it is checked against the contract and against the grant
  of its analysis session, stored, and assessed when it is accepted. The event is as the validation
  of \<open>evidence.contracts.ts\<close> leaves it: its fields have their types, its numerals are digits, and its
  dates stand for the instants they denote. A field that is given as \<open>null\<close> is not represented.
\<close>

datatype MlEvidenceEventType = EV_FAST | EV_DEEP | EV_INSUFFICIENT | EV_ERROR

record MlEvidenceDto =
  dto_eventType :: MlEvidenceEventType
  dto_eventId :: uuid
  dto_schemaVersion :: string
  dto_evidenceMode :: "EvidenceMode option"
  dto_organizationId :: uuid
  dto_callId :: uuid
  dto_analysisSessionId :: uuid
  dto_trackBindingId :: uuid
  dto_participantIdentity :: "string option"
  dto_trackSid :: "string option"
  dto_windowId :: "string option"
  dto_correlationId :: "string option"
  dto_eventSequence :: string
  dto_windowSequence :: string
  dto_revision :: int
  dto_evidenceType :: EvidenceType
  dto_windowStartMs :: string
  dto_windowEndMs :: string
  dto_observedAt :: instant
  dto_capturedAt :: "instant option"
  dto_inferenceStartedAt :: "instant option"
  dto_inferenceCompletedAt :: "instant option"
  dto_processingLatencyMs :: "int option"
  dto_speechDurationMs :: "int option"
  dto_qualityScore :: "rat option"
  dto_reasonCodes :: "string list option"
  dto_modelVersionId :: "uuid option"
  dto_modelName :: "string option"
  dto_modelVersion :: "string option"
  dto_checkpointHash :: "string option"
  dto_scoreName :: "string option"
  dto_scoreDirection :: "ScoreDirection option"
  dto_rawScore :: "rat option"
  dto_calibratedScore :: "rat option"
  dto_calibrationVersion :: "string option"
  dto_errorCode :: "string option"

section \<open>The contract\<close>

definition contract_invalid :: "string list \<Rightarrow> err" where
  "contract_invalid names = ApiError ''EVIDENCE_CONTRACT_INVALID'' 400 names"

definition missing_text :: "string option \<Rightarrow> bool" where
  "missing_text v \<longleftrightarrow> v = None \<or> v = Some []"

text \<open>A date that was given is not empty.\<close>

definition identity_missing :: "MlEvidenceDto \<Rightarrow> bool" where
  "identity_missing i \<longleftrightarrow> missing_text (dto_participantIdentity i) \<or> missing_text (dto_trackSid i) \<or>
     missing_text (dto_windowId i) \<or> missing_text (dto_correlationId i) \<or> dto_capturedAt i = None"

fun ready_event :: "MlEvidenceEventType \<Rightarrow> bool" where
  "ready_event EV_FAST = True"
| "ready_event EV_DEEP = True"
| "ready_event EV_INSUFFICIENT = False"
| "ready_event EV_ERROR = False"

definition expected_types :: "MlEvidenceEventType \<Rightarrow> EvidenceType list" where
  "expected_types t = (if t = EV_FAST then [IDENTITY, SPOOF_FAST] else [SPOOF_DEEP])"

definition model_missing :: "MlEvidenceDto \<Rightarrow> bool" where
  "model_missing i \<longleftrightarrow> dto_modelName i = None \<or> dto_modelVersion i = None \<or>
     dto_checkpointHash i = None \<or> dto_scoreName i = None \<or> dto_scoreDirection i = None \<or>
     dto_scoreDirection i = Some NOT_APPLICABLE \<or> dto_rawScore i = None \<or>
     dto_processingLatencyMs i = None"

definition score_present :: "MlEvidenceDto \<Rightarrow> bool" where
  "score_present i \<longleftrightarrow> dto_modelName i \<noteq> None \<or> dto_modelVersion i \<noteq> None \<or>
     dto_checkpointHash i \<noteq> None \<or> dto_scoreName i \<noteq> None \<or> dto_scoreDirection i \<noteq> None \<or>
     dto_rawScore i \<noteq> None \<or> dto_calibratedScore i \<noteq> None \<or> dto_calibrationVersion i \<noteq> None"

definition ready_semantics :: "MlEvidenceDto \<Rightarrow> err + unit" where
  "ready_semantics i =
     bindE (guardE (\<not> (dto_schemaVersion i = ''2.0.0'' \<and>
              (dto_inferenceStartedAt i = None \<or> dto_inferenceCompletedAt i = None)))
              (contract_invalid [''inferenceStartedAt'', ''inferenceCompletedAt''])) (\<lambda>_.
     bindE (guardE (List.member (expected_types (dto_eventType i)) (dto_evidenceType i))
              (contract_invalid [''eventType'', ''evidenceType''])) (\<lambda>_.
     guardE (\<not> model_missing i)
       (contract_invalid [''modelName'', ''modelVersion'', ''checkpointHashSha256'', ''scoreName'',
          ''scoreDirection'', ''rawScore'', ''processingLatencyMs''])))"

definition other_semantics :: "MlEvidenceDto \<Rightarrow> err + unit" where
  "other_semantics i =
     bindE (guardE (\<not> score_present i) (contract_invalid [''modelEvidence''])) (\<lambda>_.
     if dto_eventType i = EV_INSUFFICIENT
     then guardE (dto_evidenceType i = INSUFFICIENT_EVIDENCE \<and>
                  or_default (dto_reasonCodes i) [] \<noteq> [])
            (contract_invalid [''evidenceType'', ''reasonCodes''])
     else guardE (dto_evidenceType i = PIPELINE_ERROR \<and> dto_errorCode i \<noteq> None)
            (contract_invalid [''evidenceType'', ''errorCode'']))"

definition assertSemantics :: "MlEvidenceDto \<Rightarrow> err + unit" where
  "assertSemantics i =
     bindE (guardE (List.member [''1.0.0'', ''1.1.0'', ''2.0.0''] (dto_schemaVersion i))
              (contract_invalid [''schemaVersion''])) (\<lambda>_.
     bindE (guardE (\<not> (dto_schemaVersion i = ''1.1.0'' \<and> dto_evidenceMode i = None))
              (contract_invalid [''evidenceMode''])) (\<lambda>_.
     bindE (guardE (\<not> (dto_schemaVersion i = ''2.0.0'' \<and> identity_missing i))
              (contract_invalid [''participantIdentity'', ''trackSid'', ''windowId'',
                 ''correlationId'', ''capturedAt''])) (\<lambda>_.
     bindE (guardE (\<not> digits_value (dto_windowEndMs i) < digits_value (dto_windowStartMs i))
              (contract_invalid [''windowEndMs''])) (\<lambda>_.
     bindE (guardE (\<not> (dto_calibratedScore i \<noteq> None \<and> dto_calibrationVersion i = None))
              (contract_invalid [''calibrationVersion''])) (\<lambda>_.
     if ready_event (dto_eventType i) then ready_semantics i else other_semantics i)))))"

section \<open>The grant\<close>

definition terminalCalls :: "CallStatus list" where
  "terminalCalls = [CALL_ENDED, CALL_CANCELLED, CALL_FAILED]"

definition terminalSessions :: "AnalysisSessionStatus list" where
  "terminalSessions = [SESS_STOPPED, SESS_FAILED, SESS_EXPIRED, SESS_REVOKED]"

definition binding_conflict :: err where
  "binding_conflict = ApiError ''ANALYSIS_BINDING_CONFLICT'' 409 []"

definition after :: "instant option \<Rightarrow> instant option \<Rightarrow> bool" where
  "after x y \<longleftrightarrow> (case (x, y) of (Some s, Some t) \<Rightarrow> t < s | _ \<Rightarrow> False)"

text \<open>Checked for schema 2.0.0 only: captured, started, completed and observed in this order.\<close>

definition times_disordered :: "MlEvidenceDto \<Rightarrow> bool" where
  "times_disordered i \<longleftrightarrow>
     after (dto_capturedAt i) (dto_inferenceStartedAt i) \<or>
     after (dto_inferenceStartedAt i) (dto_inferenceCompletedAt i) \<or>
     after (dto_inferenceCompletedAt i) (Some (dto_observedAt i))"

definition check_grant :: "MlEvidenceDto \<Rightarrow> AnalysisGrantContext \<Rightarrow> err + unit" where
  "check_grant i g =
     bindE (guardE (ca_id (gr_call g) = dto_callId i \<and> tb_id (gr_binding g) = dto_trackBindingId i)
              binding_conflict) (\<lambda>_.
     bindE (guardE (\<not> (dto_schemaVersion i = ''2.0.0'' \<and>
              (Some (cp_livekitIdentity (gr_participant g)) \<noteq> dto_participantIdentity i \<or>
               Some (mt_trackSid (gr_mediaTrack g)) \<noteq> dto_trackSid i))) binding_conflict) (\<lambda>_.
     bindE (guardE (\<not> (dto_schemaVersion i = ''2.0.0'' \<and> times_disordered i))
              (contract_invalid [''capturedAt'', ''inferenceStartedAt'', ''inferenceCompletedAt'',
                 ''observedAt''])) (\<lambda>_.
     guardE (\<not> (dto_evidenceMode i \<noteq> None \<and> dto_evidenceMode i \<noteq> Some (as_evidenceMode (gr_session g))))
       (ApiError ''EVIDENCE_MODE_CONFLICT'' 409 []))))"

definition acceptance_of :: "AnalysisGrantContext \<Rightarrow> EvidenceAcceptanceStatus" where
  "acceptance_of g =
     (if List.member terminalCalls (ca_status (gr_call g)) \<or>
         List.member terminalSessions (as_status (gr_session g)) then STALE else ACCEPTED)"

fun readiness_of :: "MlEvidenceEventType \<Rightarrow> EvidenceReadiness" where
  "readiness_of EV_INSUFFICIENT = INSUFFICIENT"
| "readiness_of EV_ERROR = ERROR"
| "readiness_of EV_FAST = READY"
| "readiness_of EV_DEEP = READY"

definition record_input :: "MlEvidenceDto \<Rightarrow> AnalysisGrantContext \<Rightarrow> RecordEvidenceInput" where
  "record_input i g =
     \<lparr>ri_callId = dto_callId i, ri_analysisSessionId = dto_analysisSessionId i,
      ri_trackBindingId = dto_trackBindingId i,
      ri_participantIdentity = dto_participantIdentity i, ri_trackSid = dto_trackSid i,
      ri_windowId = dto_windowId i, ri_correlationId = dto_correlationId i,
      ri_modelVersionId = dto_modelVersionId i, ri_supersedesEvidenceId = None,
      ri_idempotencyKey = dto_eventId i, ri_schemaVersion = dto_schemaVersion i,
      ri_evidenceMode = as_evidenceMode (gr_session g),
      ri_eventSequence = digits_value (dto_eventSequence i),
      ri_windowSequence = digits_value (dto_windowSequence i), ri_revision = dto_revision i,
      ri_evidenceType = dto_evidenceType i, ri_readiness = readiness_of (dto_eventType i),
      ri_acceptanceStatus = Some (acceptance_of g),
      ri_windowStartMs = digits_value (dto_windowStartMs i),
      ri_windowEndMs = digits_value (dto_windowEndMs i), ri_observedAt = dto_observedAt i,
      ri_capturedAt = dto_capturedAt i, ri_inferenceStartedAt = dto_inferenceStartedAt i,
      ri_inferenceCompletedAt = dto_inferenceCompletedAt i,
      ri_processingLatencyMs = dto_processingLatencyMs i,
      ri_speechDurationMs = dto_speechDurationMs i, ri_qualityScore = dto_qualityScore i,
      ri_reasonCodes = dto_reasonCodes i, ri_modelName = dto_modelName i,
      ri_modelVersion = dto_modelVersion i, ri_checkpointHash = dto_checkpointHash i,
      ri_scoreName = dto_scoreName i, ri_scoreDirection = dto_scoreDirection i,
      ri_rawScore = dto_rawScore i, ri_calibratedScore = dto_calibratedScore i,
      ri_calibrationVersion = dto_calibrationVersion i, ri_errorCode = dto_errorCode i\<rparr>"

section \<open>Ingestion\<close>

text \<open>
  The service's optional collaborators: whether the pipeline is provided, the publisher of the outbox
  service with its two flags, and the flags of the executor.
\<close>

record ingestion_env =
  ie_runtime :: runtime
  ie_pipeline :: bool
  ie_outbox :: "(SecurityEvent \<Rightarrow> unit op) option"
  ie_flushing :: bool
  ie_executor :: bool
  ie_executing :: bool
  ie_shuttingDown :: bool

datatype ingestion_assessment =
  Processed pipeline_result | Decided assessment_summary | NotAccepted string

record IngestionResponse =
  ir_evidenceEventId :: uuid
  ir_eventId :: uuid
  ir_acceptanceStatus :: EvidenceAcceptanceStatus
  ir_riskAssessment :: ingestion_assessment

text \<open>\<open>Promise.allSettled\<close>: what the two services throw is dropped.\<close>

definition settle :: "nat op \<Rightarrow> unit op" where
  "settle m = catchM (bindM m (\<lambda>_. returnM ())) (\<lambda>_. returnM ())"

definition dispatch_after :: "ingestion_env \<Rightarrow> unit op" where
  "dispatch_after env =
     (let config = x_config (ie_runtime env) in
      thenM (case ie_outbox env of
               None \<Rightarrow> returnM ()
             | Some publish \<Rightarrow>
                 settle (flush (c_api config) publish (ie_flushing env) (ie_shuttingDown env)))
      (if ie_executor env
       then settle (executePending config (ie_executing env) (ie_shuttingDown env))
       else returnM ()))"

definition ingest_processed ::
  "ingestion_env \<Rightarrow> MlEvidenceDto \<Rightarrow> RecordEvidenceInput \<Rightarrow> IngestionResponse op" where
  "ingest_processed env i input =
     bindM (ingestAcceptedEvidence (ie_runtime env) (dto_organizationId i) input) (\<lambda>processed.
     thenM (dispatch_after env)
     (returnM \<lparr>ir_evidenceEventId = pr_evidenceEventId processed, ir_eventId = dto_eventId i,
        ir_acceptanceStatus = pr_acceptanceStatus processed,
        ir_riskAssessment = Processed processed\<rparr>))"

definition ingest_recorded ::
  "ingestion_env \<Rightarrow> MlEvidenceDto \<Rightarrow> RecordEvidenceInput \<Rightarrow> IngestionResponse op" where
  "ingest_recorded env i input =
     bindM (evidence_record (dto_organizationId i) input) (\<lambda>event.
     bindM (if ev_status event = ACCEPTED
            then bindM (assessAcceptedEvidence (ie_runtime env) (dto_organizationId i)
                   (dto_analysisSessionId i) (ev_id event)) (\<lambda>s. returnM (Decided s))
            else returnM (NotAccepted ''EVIDENCE_NOT_ACCEPTED_FOR_RISK'')) (\<lambda>riskAssessment.
     returnM \<lparr>ir_evidenceEventId = ev_id event, ir_eventId = dto_eventId i,
       ir_acceptanceStatus = ev_status event, ir_riskAssessment = riskAssessment\<rparr>))"

definition ingest :: "ingestion_env \<Rightarrow> MlEvidenceDto \<Rightarrow> IngestionResponse op" where
  "ingest env i =
     bindM (liftE (assertSemantics i)) (\<lambda>_.
     bindM (findAnalysisGrantContext (dto_organizationId i) (dto_analysisSessionId i)) (\<lambda>g.
     bindM (liftE (check_grant i g)) (\<lambda>_.
     if acceptance_of g = ACCEPTED \<and> ie_pipeline env
     then ingest_processed env i (record_input i g)
     else ingest_recorded env i (record_input i g))))"

section \<open>The route\<close>

definition ingest_route ::
  "ingestion_env \<Rightarrow> string option \<Rightarrow> MlEvidenceDto \<Rightarrow> IngestionResponse op" where
  "ingest_route env header body =
     bindM (liftE (requireIdempotencyKey header)) (\<lambda>key.
     thenM (guardM (key = dto_eventId body) (ApiError ''IDEMPOTENCY_EVENT_MISMATCH'' 409 []))
     (ingest env body))"

section \<open>Late evidence\<close>

text \<open>What recording an event leaves alone.\<close>

definition risk_rows ::
  "db \<Rightarrow> assessment_row list \<times> risk_event_row list \<times> intervention_row list \<times> alert_row list" where
  "risk_rows d = (d_assessments d, d_riskEvents d, d_interventions d, d_alerts d)"

lemma keeps_evidence_record: "keeps (on_db (\<lambda>d. risk_rows d = x)) (evidence_record context input)"
proof -
  have put: "risk_rows (d_evidence_update f d) = risk_rows d" for f d by (simp add: risk_rows_def)
  show ?thesis
    unfolding evidence_record_def recordWithClient_def store_new_evidence_def insert_evidence_def
      resolve_revision_def Let_def
    by (intro hoare keeps_create keeps_update_one keeps_update_rows) (simp_all add: evidence_table_def put)
qed

lemma evidence_record_stale:
  assumes "evidence_record context input w = (Inr e, w')" and "ri_acceptanceStatus input = Some STALE"
  shows "ev_status e = STALE"
proof -
  have same: "ev_status x = STALE" if "isEquivalent x input" for x
    using that assms(2) by (simp add: isEquivalent_def or_default_def)
  have new: "ev_status x = STALE" if "store_new_evidence organizationId input key v = (Inr x, v')"
    for x organizationId key v v'
    using that assms(2)
    by (auto simp: store_new_evidence_def resolve_revision_def or_default_def insert_evidence_def run_simps
        dest: evidence_row_of_fields)
  from assms(1) show ?thesis
    unfolding evidence_record_def recordWithClient_def
    by (auto simp: catchM_eq_Inr_iff run_simps split: option.splits if_splits dest: same new)
qed

lemma grant_run:
  assumes "findAnalysisGrantContext organizationId i w = (Inr g, w')"
  shows "w' = w" "find (session_at organizationId i) (d_sessions (w_db w)) = Some (gr_session g)"
    "find (call_at organizationId (as_call (gr_session g))) (d_calls (w_db w)) = Some (gr_call g)"
  using assms unfolding findAnalysisGrantContext_def
  by (auto simp: run_simps sessions_table_def calls_table_def)

lemma findAnalysisGrantContext_pure: "snd (findAnalysisGrantContext organizationId i w) = w"
  unfolding findAnalysisGrantContext_def find_or_throw_def find_unique_row_def
  by (auto simp: bindM_def liftE_def getM_def throwM_def returnM_def split: sum.splits option.splits)

lemma ingest_cases:
  assumes "ingest env i w = (r, w')"
  obtains e where "r = Inl e" "w' = w"
  | g where "findAnalysisGrantContext (dto_organizationId i) (dto_analysisSessionId i) w = (Inr g, w)"
      "(if acceptance_of g = ACCEPTED \<and> ie_pipeline env
        then ingest_processed env i (record_input i g)
        else ingest_recorded env i (record_input i g)) w = (r, w')"
proof -
  obtain q v where q: "findAnalysisGrantContext (dto_organizationId i) (dto_analysisSessionId i) w = (q, v)"
    by fastforce
  then have v: "v = w"
    using findAnalysisGrantContext_pure [of "dto_organizationId i" "dto_analysisSessionId i" w] by simp
  show thesis
  proof (cases "assertSemantics i")
    case (Inl e)
    with assms that(1) [of e] show thesis by (simp add: ingest_def monad_simps)
  next
    case (Inr u)
    note sem = Inr
    show thesis
    proof (cases q)
      case (Inl e)
      with sem q v assms that(1) [of e] show thesis by (simp add: ingest_def monad_simps)
    next
      case (Inr g)
      show thesis
      proof (cases "check_grant i g")
        case (Inl e)
        with \<open>q = Inr g\<close> sem q v assms that(1) [of e] show thesis by (simp add: ingest_def monad_simps)
      next
        case (Inr u')
        with \<open>q = Inr g\<close> sem q v assms that(2) [of g] show thesis by (simp add: ingest_def monad_simps)
      qed
    qed
  qed
qed

lemma ingest_recorded_stale:
  assumes "ingest_recorded env i input w = (r, w')" and "ri_acceptanceStatus input = Some STALE"
  shows "risk_rows (w_db w') = risk_rows (w_db w) \<and>
    (\<forall>answer. r = Inr answer \<longrightarrow> ir_acceptanceStatus answer = STALE \<and>
       ir_riskAssessment answer = NotAccepted ''EVIDENCE_NOT_ACCEPTED_FOR_RISK'')"
proof -
  obtain q v where q: "evidence_record (dto_organizationId i) input w = (q, v)" by fastforce
  have rows: "risk_rows (w_db v) = risk_rows (w_db w)"
    using keepsD [OF keeps_evidence_record _ q, of "risk_rows (w_db w)"] by (simp add: on_db_def)
  show ?thesis
  proof (cases q)
    case (Inl e)
    with q assms(1) rows show ?thesis by (auto simp: ingest_recorded_def)
  next
    case (Inr e)
    have "ev_status e = STALE" by (rule evidence_record_stale [OF q [unfolded Inr] assms(2)])
    with q assms(1) rows Inr show ?thesis by (auto simp: ingest_recorded_def monad_simps)
  qed
qed

text \<open>
  The time of the first delivery decides what a later one gets: an event that was accepted while the
  call was active is refused as a conflict when it is delivered again after the end.
\<close>

lemma late_redelivery_conflicts:
  assumes "recordWithClient organizationId input w = (r, w')"
    and "is_uuid organizationId" "is_uuid (ri_callId input)" "is_uuid (ri_analysisSessionId input)"
    and "is_uuid (ri_trackBindingId input)" "evidence_input_ok input"
    and "requireText (ri_idempotencyKey input) ''idempotencyKey'' 128 = Inr key"
    and "find (\<lambda>e. ev_org e = organizationId \<and> ev_idemKey e = key) (d_evidence (w_db w)) = Some e"
    and "ev_status e = ACCEPTED" "ri_acceptanceStatus input = Some STALE"
  shows "r = Inl IdempotencyConflictError"
proof -
  have "\<not> isEquivalent e input" using assms(9,10) by (simp add: isEquivalent_def or_default_def)
  with assms(1-8) show ?thesis
    unfolding recordWithClient_def
    by (simp add: monad_simps requireTenant_def requireUuid_def find_unique_row_def evidence_table_def)
qed

section \<open>Properties\<close>

text \<open>
  C18: evidence that arrives after its call has ended or its analysis session has finished is never
  accepted: it leaves assessments, risk events, interventions and alerts as they are, and the answer
  says that it was not assessed.
\<close>

theorem late_evidence_unassessed:
  assumes "find (session_at (dto_organizationId i) (dto_analysisSessionId i)) (d_sessions (w_db w)) = Some s"
    and "find (call_at (dto_organizationId i) (as_call s)) (d_calls (w_db w)) = Some c"
    and "ca_status c \<in> {CALL_ENDED, CALL_CANCELLED, CALL_FAILED} \<or>
      as_status s \<in> {SESS_STOPPED, SESS_FAILED, SESS_EXPIRED, SESS_REVOKED}"
    and "ingest env i w = (r, w')"
  shows "risk_rows (w_db w') = risk_rows (w_db w) \<and>
    (\<forall>answer. r = Inr answer \<longrightarrow> ir_acceptanceStatus answer = STALE \<and>
       ir_riskAssessment answer = NotAccepted ''EVIDENCE_NOT_ACCEPTED_FOR_RISK'')"
  using assms(4)
proof (cases rule: ingest_cases)
  case (2 g)
  have stale: "acceptance_of g = STALE"
    using grant_run(2,3) [OF 2(1)] assms(1-3)
    by (auto simp: acceptance_of_def terminalCalls_def terminalSessions_def)
  then show ?thesis
    using ingest_recorded_stale [of env i "record_input i g" w r w'] 2(2) by (simp add: record_input_def)
qed simp

text \<open>An insufficient event for a session whose call has ended.\<close>

definition late_world :: world where
  "late_world = demo_world\<lparr>w_db := sample_db\<lparr>d_calls := [sample_call_row\<lparr>ca_status := CALL_ENDED\<rparr>],
     d_bindings := [\<lparr>tb_id = binding1, tb_org = org1, tb_call = call1, tb_participant = org1,
       tb_track = org1, tb_revision = 0, tb_status = BIND_ACTIVE, tb_authorizedAt = 0,
       tb_activatedAt = Some 0, tb_endedAt = None, tb_rejectionCode = None, tb_createdAt = 0\<rparr>],
     d_participants := [\<lparr>cp_id = org1, cp_org = org1, cp_call = call1, cp_membership = None,
       cp_speaker = None, cp_livekitIdentity = ''p'', cp_authorizedIdentity = ''p'',
       cp_displayName = None, cp_role = CALLER, cp_status = PART_JOINED, cp_authorizedAt = 0,
       cp_joinedAt = Some 0, cp_disconnectedAt = None, cp_leftAt = None\<rparr>],
     d_tracks := [\<lparr>mt_id = org1, mt_org = org1, mt_call = call1, mt_participant = org1,
       mt_trackSid = ''TR'', mt_trackSource = ''microphone'', mt_mimeType = None,
       mt_status = TRACK_PUBLISHED, mt_publishedAt = 0, mt_endedAt = None\<rparr>]\<rparr>\<rparr>"

definition late_event :: MlEvidenceDto where
  "late_event = \<lparr>dto_eventType = EV_INSUFFICIENT, dto_eventId = policy1,
     dto_schemaVersion = ''1.0.0'', dto_evidenceMode = None, dto_organizationId = org1,
     dto_callId = call1, dto_analysisSessionId = session1, dto_trackBindingId = binding1,
     dto_participantIdentity = None, dto_trackSid = None, dto_windowId = None,
     dto_correlationId = None, dto_eventSequence = ''1'', dto_windowSequence = ''1'',
     dto_revision = 0, dto_evidenceType = INSUFFICIENT_EVIDENCE, dto_windowStartMs = ''0'',
     dto_windowEndMs = ''1000'', dto_observedAt = 1000, dto_capturedAt = None,
     dto_inferenceStartedAt = None, dto_inferenceCompletedAt = None, dto_processingLatencyMs = None,
     dto_speechDurationMs = None, dto_qualityScore = None, dto_reasonCodes = Some [''SILENCE''],
     dto_modelVersionId = None, dto_modelName = None, dto_modelVersion = None,
     dto_checkpointHash = None, dto_scoreName = None, dto_scoreDirection = None,
     dto_rawScore = None, dto_calibratedScore = None, dto_calibrationVersion = None,
     dto_errorCode = None\<rparr>"

definition late_env :: ingestion_env where
  "late_env = \<lparr>ie_runtime = sample_env, ie_pipeline = True, ie_outbox = None, ie_flushing = False,
     ie_executor = False, ie_executing = False, ie_shuttingDown = False\<rparr>"

theorem late_evidence_unassessed_witness:
  "\<exists>answer w'. ingest late_env late_event late_world = (Inr answer, w') \<and>
     risk_rows (w_db w') = risk_rows (w_db late_world) \<and> ir_acceptanceStatus answer = STALE"
proof -
  have "(case ingest late_env late_event late_world of (Inr answer, w') \<Rightarrow> True | _ \<Rightarrow> False)" by code_simp
  then obtain answer w' where run: "ingest late_env late_event late_world = (Inr answer, w')"
    by (auto split: prod.splits sum.splits)
  have "find (session_at (dto_organizationId late_event) (dto_analysisSessionId late_event))
      (d_sessions (w_db late_world)) = Some sample_session_row"
    by (simp add: late_event_def late_world_def sample_db_def session_at_def sample_session_row_def)
  moreover have "find (call_at (dto_organizationId late_event) (as_call sample_session_row))
      (d_calls (w_db late_world)) = Some (sample_call_row\<lparr>ca_status := CALL_ENDED\<rparr>)"
    by (simp add: late_event_def late_world_def call_at_def sample_session_row_def sample_call_row_def)
  ultimately show ?thesis
    using late_evidence_unassessed [OF _ _ _ run] run by auto
qed

end
