(* ===== verification/Request_Handling.thy ===== *)
theory Request_Handling
  imports Idempotency Authorization
begin

text \<open>
  What every request meets around its handler: the request identifier
  (\<open>common/logging/request-context.service.ts\<close>), the content type
  (\<open>common/validation/validation.config.ts\<close>), the rate limit (\<open>common/rate-limit\<close>), the mapping of an
  exception to a response (\<open>common/errors/global-exception.filter.ts\<close>), and what is written to the
  logs and metrics (\<open>common/logging\<close>); and the readiness of the service (\<open>modules/health\<close>).
\<close>

section \<open>Request identifiers and content types\<close>

definition requestIdPattern :: "string \<Rightarrow> bool" where
  "requestIdPattern s \<longleftrightarrow> s \<noteq> [] \<and> length s \<le> 128 \<and> key_char (hd s) \<and>
     list_all (\<lambda>c. key_char c \<or> List.member ''._:-'' c) (tl s)"

definition resolveRequestId :: "header option \<Rightarrow> string \<Rightarrow> string" where
  "resolveRequestId value generated = (case single_header value of
     Some s \<Rightarrow> if requestIdPattern s then s else generated
   | None \<Rightarrow> generated)"

definition requireSingleHeader :: "header option \<Rightarrow> string \<Rightarrow> err + string" where
  "requireSingleHeader value name = (case single_header value of
     Some s \<Rightarrow> if s = [] then Inl (ApiError ''VALIDATION_FAILED'' 400 [name]) else Inr s
   | None \<Rightarrow> Inl (ApiError ''VALIDATION_FAILED'' 400 [name]))"

text \<open>A media type is followed by nothing or by white space and a semicolon.\<close>

definition parameters_follow :: "string \<Rightarrow> bool" where
  "parameters_follow s \<longleftrightarrow> s = [] \<or> starts_with '';'' (dropWhile js_space s)"

definition media_type :: "string \<Rightarrow> string \<Rightarrow> bool" where
  "media_type name s \<longleftrightarrow> starts_with name (map ascii_lower s) \<and> parameters_follow (drop (length name) s)"

definition subtype_char :: "char \<Rightarrow> bool" where
  "subtype_char c \<longleftrightarrow> (CHR ''a'' \<le> c \<and> c \<le> CHR ''z'') \<or> decimal_digit c \<or> List.member ''.+-'' c"

text \<open>\<open>application/json\<close>, or \<open>application/\<close> and a name that ends in \<open>+json\<close>.\<close>

definition json_type :: "string \<Rightarrow> bool" where
  "json_type s \<longleftrightarrow>
     (let lower = map ascii_lower s; rest = drop 12 lower; name = takeWhile subtype_char rest;
          base = take (length name - 5) name in
      starts_with ''application/'' lower \<and>
      (name = ''json'' \<or> (base \<noteq> [] \<and> name = base @ ''+json'')) \<and>
      parameters_follow (dropWhile subtype_char rest))"

definition without_slash :: "string \<Rightarrow> string" where
  "without_slash path = (if path \<noteq> [] \<and> last path = CHR ''/'' then butlast path else path)"

definition content_type_allowed :: "string \<Rightarrow> string \<Rightarrow> string option \<Rightarrow> bool" where
  "content_type_allowed request_method request_path contentType \<longleftrightarrow>
     \<not> List.member [''POST'', ''PUT'', ''PATCH''] request_method \<or>
     (case contentType of
        None \<Rightarrow> False
      | Some t \<Rightarrow>
          (without_slash request_path = ''/api/v1/voice-enrollments'' \<and> media_type ''multipart/form-data'' t) \<or>
          (without_slash request_path = ''/api/v1/media/livekit/webhook'' \<and>
             (media_type ''application/json'' t \<or> media_type ''application/webhook+json'' t)) \<or>
          json_type t)"

section \<open>Rate limits\<close>

datatype ApiRateLimitCategory = CAT_SENSITIVE | CAT_MUTATION | CAT_QUERY

fun category_name :: "ApiRateLimitCategory \<Rightarrow> string" where
  "category_name CAT_SENSITIVE = ''SENSITIVE''"
| "category_name CAT_MUTATION = ''MUTATION''"
| "category_name CAT_QUERY = ''QUERY''"

record RateBucket =
  rb_count :: nat
  rb_resetsAt :: instant

fun category_limit :: "api_config \<Rightarrow> ApiRateLimitCategory \<Rightarrow> int" where
  "category_limit api CAT_SENSITIVE = sensitiveRateLimitMaximum api"
| "category_limit api CAT_MUTATION = mutationRateLimitMaximum api"
| "category_limit api CAT_QUERY = queryRateLimitMaximum api"

text \<open>The subject is the member, or else the address, or else a fixed text.\<close>

definition rate_key ::
  "ApiRateLimitCategory \<Rightarrow> string option \<Rightarrow> string option \<Rightarrow> string \<Rightarrow> string \<Rightarrow> string" where
  "rate_key category membershipId ip request_method request_path =
     category_name category @ '':'' @
     (case membershipId of Some m \<Rightarrow> m | None \<Rightarrow> (case ip of Some a \<Rightarrow> a | None \<Rightarrow> ''unauthenticated'')) @
     '':'' @ request_method @ '':'' @ request_path"

text \<open>What the guard answers, with the values of the headers it sets.\<close>

datatype rate_answer = Unlimited | Granted int int instant | Limited int

definition purge_buckets :: "instant \<Rightarrow> (string \<times> RateBucket) list \<Rightarrow> (string \<times> RateBucket) list" where
  "purge_buckets t buckets = filter (\<lambda>(key, bucket). \<not> rb_resetsAt bucket \<le> t) buckets"

definition current_bucket :: "api_config \<Rightarrow> instant \<Rightarrow> RateBucket option \<Rightarrow> RateBucket" where
  "current_bucket api t current = (case current of
     Some b \<Rightarrow> if rb_resetsAt b \<le> t
                then \<lparr>rb_count = 0, rb_resetsAt = t + rateLimitWindowSeconds api * 1000\<rparr> else b
   | None \<Rightarrow> \<lparr>rb_count = 0, rb_resetsAt = t + rateLimitWindowSeconds api * 1000\<rparr>)"

definition rate_guard ::
  "api_config \<Rightarrow> instant \<Rightarrow> ApiRateLimitCategory option \<Rightarrow> string \<Rightarrow> (string \<times> RateBucket) list \<Rightarrow>
   rate_answer \<times> (string \<times> RateBucket) list" where
  "rate_guard api t category key buckets = (case category of
     None \<Rightarrow> (Unlimited, buckets)
   | Some c \<Rightarrow>
       let kept = purge_buckets t buckets; limit = category_limit api c;
           bucket = current_bucket api t (map_of kept key) in
       if limit \<le> int (rb_count bucket)
       then (Limited (max 1 (- ((t - rb_resetsAt bucket) div 1000))), kept)
       else
         let counted = bucket\<lparr>rb_count := rb_count bucket + 1\<rparr> in
         (Granted limit (max 0 (limit - int (rb_count counted))) (rb_resetsAt counted),
          AList.update key counted kept))"

section \<open>Exceptions\<close>

text \<open>
  The exceptions of the framework that the filter knows, an object that carries a status of its own
  (as the body parser throws), and everything else; \<open>Thrown\<close> are those of the backend. The texts of
  the messages are left out.
\<close>

datatype http_exception =
    ConflictException | NotFoundException | ServiceUnavailableException | RequestTimeoutException
  | GatewayTimeoutException | PayloadTooLargeException | UnsupportedMediaTypeException
  | BadRequestException | UnauthorizedException | ForbiddenException | HttpException nat

datatype exception = Thrown err | Http http_exception | Foreign "nat option"

record MappedError =
  mp_status :: nat
  mp_code :: string
  mp_details :: "string list option"

definition mapped :: "nat \<Rightarrow> string \<Rightarrow> MappedError" where
  "mapped status code = \<lparr>mp_status = status, mp_code = code, mp_details = None\<rparr>"

fun auth_status :: "auth_code \<Rightarrow> nat" where
  "auth_status AUTHENTICATION_FAILED = 401"
| "auth_status AUTH_RATE_LIMITED = 429"
| "auth_status TOKEN_INVALID = 401"
| "auth_status REFRESH_REUSE_DETECTED = 401"
| "auth_status FORBIDDEN = 403"

fun auth_code_name :: "auth_code \<Rightarrow> string" where
  "auth_code_name AUTHENTICATION_FAILED = ''AUTHENTICATION_FAILED''"
| "auth_code_name AUTH_RATE_LIMITED = ''AUTH_RATE_LIMITED''"
| "auth_code_name TOKEN_INVALID = ''TOKEN_INVALID''"
| "auth_code_name REFRESH_REUSE_DETECTED = ''REFRESH_REUSE_DETECTED''"
| "auth_code_name FORBIDDEN = ''FORBIDDEN''"

definition payload_too_large :: MappedError where
  "payload_too_large = mapped 413 ''PAYLOAD_TOO_LARGE''"

definition internal_error :: MappedError where
  "internal_error = mapped 500 ''INTERNAL_ERROR''"

fun map_thrown :: "err \<Rightarrow> MappedError" where
  "map_thrown (ApiError code status names) =
     (if status = 413 then payload_too_large
      else \<lparr>mp_status = status, mp_code = code,
             mp_details = (if names = [] then None else Some names)\<rparr>)"
| "map_thrown (AuthError code) = mapped (auth_status code) (auth_code_name code)"
| "map_thrown IdempotencyConflictError = mapped 409 ''IDEMPOTENCY_KEY_CONFLICT''"
| "map_thrown InvalidPaginationCursorError = mapped 400 ''PAGINATION_CURSOR_INVALID''"
| "map_thrown (DomainInputError m) = mapped 400 ''DOMAIN_INPUT_INVALID''"
| "map_thrown (IllegalDomainTransitionError a f t) = mapped 409 ''ILLEGAL_DOMAIN_TRANSITION''"
| "map_thrown (DomainProviderError p oper s) = mapped 503 ''DOMAIN_PROVIDER_FAILED''"
| "map_thrown (PersistenceConflictError m) = mapped 409 ''CONFLICT''"
| "map_thrown (TenantResourceNotFoundError r) = mapped 404 ''NOT_FOUND''"
| "map_thrown DatabaseUnavailableError = mapped 503 ''DEPENDENCY_UNAVAILABLE''"
| "map_thrown e = internal_error"

fun map_http :: "http_exception \<Rightarrow> MappedError" where
  "map_http ConflictException = mapped 409 ''CONFLICT''"
| "map_http NotFoundException = mapped 404 ''NOT_FOUND''"
| "map_http ServiceUnavailableException = mapped 503 ''DEPENDENCY_UNAVAILABLE''"
| "map_http RequestTimeoutException = mapped 504 ''DEPENDENCY_TIMEOUT''"
| "map_http GatewayTimeoutException = mapped 504 ''DEPENDENCY_TIMEOUT''"
| "map_http PayloadTooLargeException = payload_too_large"
| "map_http UnsupportedMediaTypeException = mapped 415 ''UNSUPPORTED_MEDIA_TYPE''"
| "map_http BadRequestException = mapped 400 ''VALIDATION_FAILED''"
| "map_http UnauthorizedException = mapped 401 ''AUTHENTICATION_FAILED''"
| "map_http ForbiddenException = mapped 403 ''FORBIDDEN''"
| "map_http (HttpException status) =
     (if status = 413 then payload_too_large
      else if status = 429 then mapped 429 ''RATE_LIMITED''
      else mapped status ''REQUEST_FAILED'')"

fun map_exception :: "exception \<Rightarrow> MappedError" where
  "map_exception (Thrown e) = map_thrown e"
| "map_exception (Http e) = map_http e"
| "map_exception (Foreign status) = (if status = Some 413 then payload_too_large else internal_error)"

section \<open>Logs\<close>

text \<open>A sensitive word at the start of the text, with its length.\<close>

definition word_length :: "string \<Rightarrow> nat option" where
  "word_length s = map_option length (find (\<lambda>w. starts_with w (map ascii_lower s)) sensitive_words)"

definition value_char :: "char \<Rightarrow> bool" where
  "value_char c \<longleftrightarrow> \<not> js_space c \<and> c \<noteq> CHR '','' \<and> c \<noteq> CHR '';''"

text \<open>The word of an assignment that the text starts with, and what follows its value.\<close>

definition secret_pair :: "string \<Rightarrow> (string \<times> string) option" where
  "secret_pair s = (case word_length s of
     None \<Rightarrow> None
   | Some n \<Rightarrow>
       (case dropWhile js_space (drop n s) of
          [] \<Rightarrow> None
        | c # cs \<Rightarrow>
            (let rest = dropWhile js_space cs in
             if (c = CHR '':'' \<or> c = CHR ''='') \<and> takeWhile value_char rest \<noteq> []
             then Some (take n s, dropWhile value_char rest) else None)))"

definition url_scheme :: "string \<Rightarrow> nat option" where
  "url_scheme s = (let lower = map ascii_lower s in
     if starts_with ''postgresql://'' lower then Some 13
     else if starts_with ''postgres://'' lower then Some 11 else None)"

text \<open>The scheme, user and colon of a database address, and what follows its password and \<open>@\<close>.\<close>

definition url_password :: "string \<Rightarrow> (string \<times> string) option" where
  "url_password s = (case url_scheme s of
     None \<Rightarrow> None
   | Some n \<Rightarrow>
       (let user = takeWhile (\<lambda>c. c \<noteq> CHR '':'' \<and> \<not> js_space c \<and> c \<noteq> CHR ''/'') (drop n s);
            rest = drop (n + length user) s;
            password = takeWhile (\<lambda>c. c \<noteq> CHR ''@'' \<and> \<not> js_space c \<and> c \<noteq> CHR ''/'') (tl rest) in
        if user \<noteq> [] \<and> starts_with '':'' rest \<and> password \<noteq> [] \<and>
           starts_with ''@'' (drop (length password) (tl rest))
        then Some (take (n + length user + 1) s, drop (length password + 1) (tl rest)) else None))"

text \<open>
  The replacement of every match, from left to right. A match is never empty: the fuel, the length of
  the text, is used up by the characters.
\<close>

fun replace_all ::
  "nat \<Rightarrow> (string \<Rightarrow> (string \<times> string) option) \<Rightarrow> string \<Rightarrow> string \<Rightarrow> string" where
  "replace_all 0 match replacement s = s"
| "replace_all (Suc fuel) match replacement [] = []"
| "replace_all (Suc fuel) match replacement (c # cs) =
     (case match (c # cs) of
        Some (kept, rest) \<Rightarrow> kept @ replacement @ replace_all fuel match replacement rest
      | None \<Rightarrow> c # replace_all fuel match replacement cs)"

definition redactText :: "string \<Rightarrow> string" where
  "redactText value =
     (let pairs = replace_all (length value) secret_pair ''=[REDACTED]'' value in
      take 2048 (replace_all (length pairs) url_password ''[REDACTED]@'' pairs))"

definition allowedField :: "string list" where
  "allowedField = [''event'', ''code'', ''requestId'', ''method'', ''path'', ''statusCode'',
     ''durationMs'', ''service'', ''dependency'', ''attempt'', ''operation'', ''reason'', ''context'',
     ''message'', ''organizationId'', ''callId'', ''analysisSessionId'', ''riskAssessmentId'',
     ''riskEventId'', ''interventionId'', ''outboxId'', ''mode'', ''state'', ''outcome'',
     ''queueDepth'', ''latencyMs'', ''attemptCount'', ''deliveryStatus'', ''readinessFailure'']"

text \<open>Fields whose value is no scalar are dropped.\<close>

fun safe_scalar :: "json \<Rightarrow> json option" where
  "safe_scalar (JStr s) = Some (JStr (redactText s))"
| "safe_scalar (JNum x) = Some (JNum x)"
| "safe_scalar (JBool b) = Some (JBool b)"
| "safe_scalar JNull = Some JNull"
| "safe_scalar (JArr vs) = None"
| "safe_scalar (JObj fs) = None"

definition sanitize_field :: "string \<times> json \<Rightarrow> (string \<times> json) list" where
  "sanitize_field f = (case f of (key, value) \<Rightarrow>
     if \<not> List.member allowedField key then []
     else if sensitiveResponseField key then [(key, JStr ''[REDACTED]'')]
     else case safe_scalar value of None \<Rightarrow> [] | Some v \<Rightarrow> [(key, v)])"

definition sanitizeLogFields :: "(string \<times> json) list \<Rightarrow> (string \<times> json) list" where
  "sanitizeLogFields entries = concat (map sanitize_field entries)"

section \<open>Readiness\<close>

record ReadinessResponse =
  rd_status :: bool
  rd_database :: bool
  rd_ml :: bool
  rd_livekit :: bool
  rd_productionActivation :: bool

definition productionActivationReady :: "configuration \<Rightarrow> bool" where
  "productionActivationReady config \<longleftrightarrow>
     mlEvidenceMode (c_dependencies config) = ML_CALIBRATED \<and>
     interventionMode (c_risk config) = RIM_PRODUCTION \<and>
     phaseOScientificStatus (c_risk config) = PHASE_O_PROMOTED \<and>
     phasePProductionStatus (c_risk config) = PHASE_P_PROMOTED \<and>
     phaseQProductionStatus (c_risk config) = PHASE_Q_PROMOTED"

text \<open>The three probes answer whether the database, the ML service and LiveKit can be reached.\<close>

definition readiness_check :: "configuration \<Rightarrow> bool \<Rightarrow> bool \<Rightarrow> bool \<Rightarrow> ReadinessResponse" where
  "readiness_check config database ml livekit =
     \<lparr>rd_status = (database \<and> ml \<and> livekit \<and> productionActivationReady config),
      rd_database = database, rd_ml = ml, rd_livekit = livekit,
      rd_productionActivation = productionActivationReady config\<rparr>"

section \<open>Lemmas\<close>

text \<open>The fuel of a replacement is enough when every match is shorter than the text.\<close>

lemma replace_all_enough:
  assumes "\<And>s kept rest. match s = Some (kept, rest) \<Longrightarrow> length rest < length s"
  shows "length s \<le> n \<Longrightarrow> replace_all n match r s = replace_all (length s) match r s"
proof (induction n arbitrary: s rule: less_induct)
  case (less n)
  show ?case
  proof (cases s)
    case (Cons c cs)
    then obtain m where n: "n = Suc m" using less.prems by (cases n) auto
    have shorter: "replace_all m match r t = replace_all (length cs) match r t" if "length t \<le> length cs" for t
      using less.IH [of m t] less.IH [of "length cs" t] less.prems that n Cons by simp
    show ?thesis
    proof (cases "match s")
      case None
      with Cons n shorter [of cs] show ?thesis by simp
    next
      case (Some p)
      obtain kept rest where p: "p = (kept, rest)" by fastforce
      then have "length rest \<le> length cs" using assms [of s kept rest] Some Cons by simp
      with Cons n Some p shorter [of rest] show ?thesis by simp
    qed
  qed (cases n, auto)
qed

lemma secret_pair_shorter: "secret_pair s = Some (kept, rest) \<Longrightarrow> length rest < length s"
proof -
  assume s: "secret_pair s = Some (kept, rest)"
  then obtain n c cs where d: "dropWhile js_space (drop n s) = c # cs"
    and rest: "rest = dropWhile value_char (dropWhile js_space cs)"
    by (auto simp: secret_pair_def Let_def split: option.splits list.splits if_splits)
  have "length rest \<le> length cs"
    unfolding rest using length_dropWhile_le [of value_char] length_dropWhile_le [of js_space cs] le_trans by blast
  moreover have "length (c # cs) \<le> length s"
    unfolding d [symmetric] using length_dropWhile_le [of js_space "drop n s"] by simp
  ultimately show ?thesis by simp
qed

lemma url_password_shorter: "url_password s = Some (kept, rest) \<Longrightarrow> length rest < length s"
proof -
  assume "url_password s = Some (kept, rest)"
  then obtain n k where n: "starts_with '':'' (drop n s)" and rest: "rest = drop (k + 1) (tl (drop n s))"
    by (auto simp: url_password_def Let_def split: option.splits if_splits)
  have "drop n s \<noteq> []" using n by (auto simp: starts_with_def)
  then show ?thesis by (simp add: rest)
qed

text \<open>Only the named fields reach the log.\<close>

lemma sanitized_fields_allowed: "fst ` set (sanitizeLogFields fs) \<subseteq> set allowedField"
  by (auto simp: sanitizeLogFields_def sanitize_field_def split: if_splits option.splits)

text \<open>
  The value of an assignment ends at the first space: of an authorization header with a scheme, the
  scheme is hidden and the token is written.
\<close>

lemma bearer_token_logged:
  "redactText ''Authorization: Bearer abc.def'' = ''Authorization=[REDACTED] abc.def''"
  by code_simp

lemma url_password_hidden:
  "redactText ''postgresql://swar:pw@db/swar'' = ''postgresql://swar:[REDACTED]@db/swar''"
  by code_simp

text \<open>Malformed identifiers and overlong texts are errors of the server, not of the client.\<close>

lemma malformed_identifier_is_internal:
  "\<not> is_uuid i \<Longrightarrow> requireUuid i name = Inl e \<Longrightarrow> map_exception (Thrown e) = internal_error"
  by (auto simp: requireUuid_def)

section \<open>The rate limit\<close>

fun rate_answers ::
  "api_config \<Rightarrow> ApiRateLimitCategory \<Rightarrow> string \<Rightarrow> instant list \<Rightarrow> (string \<times> RateBucket) list \<Rightarrow>
   rate_answer list" where
  "rate_answers api c key [] buckets = []"
| "rate_answers api c key (t # ts) buckets =
     (case rate_guard api t (Some c) key buckets of
        (answer, rest) \<Rightarrow> answer # rate_answers api c key ts rest)"

fun granted :: "rate_answer \<Rightarrow> bool" where
  "granted (Granted l r t) = True"
| "granted a = False"

lemma map_of_purge_buckets:
  "distinct (map fst bs) \<Longrightarrow> map_of (purge_buckets t bs) k =
     (case map_of bs k of None \<Rightarrow> None | Some b \<Rightarrow> if rb_resetsAt b \<le> t then None else Some b)"
  by (induction bs) (auto simp: purge_buckets_def map_of_eq_None_iff split: option.splits)

lemma grants_from_bucket:
  assumes "map_of bs key = Some b" and "distinct (map fst bs)"
    and "\<forall>t \<in> set ts. t < rb_resetsAt b" and "int (rb_count b) \<le> category_limit api c"
  shows "int (length (filter granted (rate_answers api c key ts bs))) + int (rb_count b) \<le> category_limit api c"
  using assms
proof (induction ts arbitrary: bs b)
  case (Cons t ts)
  have d: "distinct (map fst (purge_buckets t bs))"
    unfolding purge_buckets_def by (rule distinct_map_filter [OF Cons.prems(2)])
  have kept: "map_of (purge_buckets t bs) key = Some b"
    using Cons.prems by (simp add: map_of_purge_buckets)
  then have cur: "current_bucket api t (map_of (purge_buckets t bs) key) = b"
    using Cons.prems(3) by (simp add: current_bucket_def)
  show ?case
  proof (cases "category_limit api c \<le> int (rb_count b)")
    case True
    then have "rate_guard api t (Some c) key bs =
        (Limited (max 1 (- ((t - rb_resetsAt b) div 1000))), purge_buckets t bs)"
      by (simp add: rate_guard_def cur)
    then show ?thesis using Cons.IH [OF kept d] Cons.prems(3,4) by simp
  next
    case False
    let ?b = "b\<lparr>rb_count := rb_count b + 1\<rparr>"
    have guard: "rate_guard api t (Some c) key bs =
        (Granted (category_limit api c) (max 0 (category_limit api c - int (rb_count ?b))) (rb_resetsAt ?b),
         AList.update key ?b (purge_buckets t bs))"
      using False by (simp add: rate_guard_def cur Let_def)
    have "int (length (filter granted (rate_answers api c key ts (AList.update key ?b (purge_buckets t bs))))) +
        int (rb_count ?b) \<le> category_limit api c"
      by (rule Cons.IH) (use Cons.prems(3) False d in \<open>simp_all add: update_conv' distinct_update\<close>)
    then show ?thesis by (simp add: guard)
  qed
qed simp

text \<open>
  In one window after its first request, at most the limit of its category is granted to a key.
\<close>

lemma grants_within_window:
  assumes "distinct (map fst bs)" and "map_of bs key = None" and "1 \<le> category_limit api c"
    and "\<forall>t' \<in> set ts. t' < t + rateLimitWindowSeconds api * 1000"
  shows "int (length (filter granted (rate_answers api c key (t # ts) bs))) \<le> category_limit api c"
proof -
  let ?c = "\<lparr>rb_count = 1, rb_resetsAt = t + rateLimitWindowSeconds api * 1000\<rparr>"
  have d: "distinct (map fst (purge_buckets t bs))"
    unfolding purge_buckets_def by (rule distinct_map_filter [OF assms(1)])
  have none: "map_of (purge_buckets t bs) key = None"
    using assms(1,2) by (simp add: map_of_purge_buckets)
  have guard: "rate_guard api t (Some c) key bs =
      (Granted (category_limit api c) (max 0 (category_limit api c - 1)) (rb_resetsAt ?c),
       AList.update key ?c (purge_buckets t bs))"
    using assms(3) by (simp add: rate_guard_def none current_bucket_def Let_def)
  have "int (length (filter granted (rate_answers api c key ts (AList.update key ?c (purge_buckets t bs))))) +
      int (rb_count ?c) \<le> category_limit api c"
    by (rule grants_from_bucket) (use assms(3,4) d in \<open>simp_all add: update_conv' distinct_update\<close>)
  then show ?thesis by (simp add: guard)
qed

end
