(* ===== verification/Governance.thy ===== *)
theory Governance
  imports Risk_Context Enrollment_Service Pagination Refresh_Sessions Risk_Pipeline
begin

text \<open>
  \<open>modules/governance/governance.repository.ts\<close> and \<open>risk-policy.service.ts\<close>: model versions are
  registered, and risk policies are stored as versions that never change, of which one per key is
  active. \<open>modules/security-operations\<close>: the analysts' views of alerts and risk events and the
  acknowledgement of an alert. \<open>modules/identity/identity.repository.ts\<close>: organizations, users,
  memberships, devices and refresh sessions as an operator's tooling creates them.
\<close>

section \<open>Model versions\<close>

record RegisterModelVersionInput =
  rm_modelName :: string
  rm_version :: string
  rm_capability :: ModelCapability
  rm_checkpointHash :: string
  rm_checkpointSource :: string
  rm_checkpointLicense :: string
  rm_inputSampleRateHz :: rat
  rm_inputChannelCount :: rat
  rm_scoreName :: string
  rm_scoreDirection :: ScoreDirection
  rm_scoreTarget :: ScoreTarget
  rm_calibrationVersion :: "string option"
  rm_status :: "ModelLifecycleStatus option"

definition positive_integer :: "rat \<Rightarrow> bool" where
  "positive_integer x \<longleftrightarrow> of_int \<lfloor>x\<rfloor> = x \<and> 0 < x"

definition model_row_of :: "RegisterModelVersionInput \<Rightarrow> uuid \<Rightarrow> err + model_row" where
  "model_row_of input newId =
     bindE (requireText (rm_modelName input) ''modelName'' 120) (\<lambda>name.
     bindE (requireText (rm_version input) ''version'' 80) (\<lambda>version.
     bindE (requireText (rm_checkpointSource input) ''checkpointSource'' 2000) (\<lambda>source.
     bindE (requireText (rm_checkpointLicense input) ''checkpointLicense'' 160) (\<lambda>license.
     bindE (requireText (rm_scoreName input) ''scoreName'' 120) (\<lambda>scoreName.
     bindE (optional (\<lambda>v. requireText v ''calibrationVersion'' 80) (rm_calibrationVersion input))
       (\<lambda>calibrationVersion.
     Inr \<lparr>mv_id = newId, mv_name = name, mv_version = version, mv_capability = rm_capability input,
          mv_checkpointHash = map ascii_lower (rm_checkpointHash input),
          mv_checkpointSource = source, mv_checkpointLicense = license,
          mv_inputSampleRateHz = \<lfloor>rm_inputSampleRateHz input\<rfloor>,
          mv_inputChannelCount = \<lfloor>rm_inputChannelCount input\<rfloor>, mv_scoreName = scoreName,
          mv_scoreDirection = rm_scoreDirection input,
          mv_scoreTarget = Some (rm_scoreTarget input), mv_calibrationVersion = calibrationVersion,
          mv_status = (case rm_status input of None \<Rightarrow> MODEL_REGISTERED | Some s \<Rightarrow> s)\<rparr>))))))"

definition registerModelVersion :: "RegisterModelVersionInput \<Rightarrow> model_row op" where
  "registerModelVersion input =
     thenM (guardM (hex_digest (map ascii_lower (rm_checkpointHash input)))
              (TenantResourceNotFoundError ''Valid checkpoint hash''))
     (thenM (guardM (positive_integer (rm_inputSampleRateHz input) \<and>
                     positive_integer (rm_inputChannelCount input))
               (TenantResourceNotFoundError ''Valid model input format''))
      (bindM new_id (\<lambda>newId.
       bindM (liftE (model_row_of input newId)) (\<lambda>row. create models_table row))))"

section \<open>Risk policies\<close>

record CreatePolicyInput =
  cy_policyKey :: string
  cy_version :: string
  cy_schemaVersion :: string
  cy_document :: json
  cy_createdBy :: uuid

definition policy_row_of :: "uuid \<Rightarrow> CreatePolicyInput \<Rightarrow> uuid \<Rightarrow> instant \<Rightarrow> err + policy_row" where
  "policy_row_of organizationId input newId createdAt =
     bindE (requireText (cy_policyKey input) ''policyKey'' 80) (\<lambda>key.
     bindE (requireText (cy_version input) ''version'' 40) (\<lambda>version.
     bindE (requireText (cy_schemaVersion input) ''schemaVersion'' 40) (\<lambda>schemaVersion.
     bindE (requireUuid (cy_createdBy input) ''createdByMembershipId'') (\<lambda>createdBy.
     Inr \<lparr>rp_id = newId, rp_org = organizationId, rp_key = key, rp_version = version,
          rp_schemaVersion = schemaVersion, rp_document = cy_document input,
          rp_status = POLICY_DRAFT, rp_createdBy = createdBy, rp_effectiveAt = None,
          rp_retiredAt = None, rp_createdAt = createdAt\<rparr>))))"

definition createRiskPolicy :: "uuid \<Rightarrow> CreatePolicyInput \<Rightarrow> policy_row op" where
  "createRiskPolicy context input =
     bindM (liftE (requireTenant context)) (\<lambda>organizationId.
     bindM new_id (\<lambda>newId.
     bindM now (\<lambda>t.
     bindM (liftE (policy_row_of organizationId input newId t)) (\<lambda>row.
     create policies_table row))))"

definition other_active :: "uuid \<Rightarrow> policy_row \<Rightarrow> policy_row \<Rightarrow> bool" where
  "other_active organizationId target p \<longleftrightarrow> rp_org p = organizationId \<and> rp_key p = rp_key target \<and>
     rp_status p = POLICY_ACTIVE \<and> rp_id p \<noteq> rp_id target"

definition retired_policy :: "instant \<Rightarrow> policy_row \<Rightarrow> policy_row" where
  "retired_policy t p = p\<lparr>rp_status := POLICY_RETIRED, rp_retiredAt := Some t\<rparr>"

definition activated_policy :: "instant \<Rightarrow> policy_row \<Rightarrow> policy_row" where
  "activated_policy t p =
     p\<lparr>rp_status := POLICY_ACTIVE, rp_effectiveAt := Some t, rp_retiredAt := None\<rparr>"

definition activate_policy :: "uuid \<Rightarrow> uuid \<Rightarrow> policy_row op" where
  "activate_policy organizationId i =
     bindM (find_or_throw policies_table (policy_by organizationId i)
              (TenantResourceNotFoundError ''Risk policy'')) (\<lambda>target.
     bindM now (\<lambda>t.
     bindM (update_rows policies_table (other_active organizationId target) (retired_policy t)) (\<lambda>_.
     bindM now (\<lambda>t2.
     update_one policies_table (policy_by organizationId i) (activated_policy t2)))))"

definition activateRiskPolicy :: "uuid \<Rightarrow> uuid \<Rightarrow> policy_row op" where
  "activateRiskPolicy context policyId =
     bindM (liftE (requireTenant context)) (\<lambda>organizationId.
     bindM (liftE (requireUuid policyId ''policyId'')) (\<lambda>i.
     serializable (activate_policy organizationId i)))"

text \<open>\<open>orderBy\<close> descending: PostgreSQL puts the rows without a date first.\<close>

definition findActiveRiskPolicy :: "uuid \<Rightarrow> string \<Rightarrow> policy_row op" where
  "findActiveRiskPolicy context policyKey =
     bindM (liftE (requireTenant context)) (\<lambda>organizationId.
     bindM (liftE (requireText policyKey ''policyKey'' 80)) (\<lambda>key.
     bindM (find_latest policies_table
              (\<lambda>p. rp_org p = organizationId \<and> rp_key p = key \<and> rp_status p = POLICY_ACTIVE)
              (\<lambda>p. (rp_effectiveAt p = None, or_default (rp_effectiveAt p) 0))) (\<lambda>found.
     case found of
       None \<Rightarrow> throwM (TenantResourceNotFoundError ''Active risk policy'')
     | Some policy \<Rightarrow> returnM policy)))"

section \<open>The policy service\<close>

record PutPolicyInput =
  pp_policyKey :: string
  pp_version :: string
  pp_schemaVersion :: string
  pp_policyDocument :: json
  pp_activate :: bool

definition policies_active :: "AuthPrincipal \<Rightarrow> string \<Rightarrow> policy_row op" where
  "policies_active subject policyKey =
     thenM (may_do subject P_risk_policy_read)
     (findActiveRiskPolicy (pr_organizationId subject) policyKey)"

definition promotion_gates_open :: "risk_config \<Rightarrow> bool" where
  "promotion_gates_open risk \<longleftrightarrow> interventionMode risk = RIM_PRODUCTION \<and>
     phaseOScientificStatus risk = PHASE_O_PROMOTED \<and>
     phasePProductionStatus risk = PHASE_P_PROMOTED \<and>
     phaseQProductionStatus risk = PHASE_Q_PROMOTED"

definition put_input :: "AuthPrincipal \<Rightarrow> PutPolicyInput \<Rightarrow> policy_doc \<Rightarrow> CreatePolicyInput" where
  "put_input subject input policy =
     \<lparr>cy_policyKey = pp_policyKey input, cy_version = pp_version input,
      cy_schemaVersion = pp_schemaVersion input, cy_document = policy_json policy,
      cy_createdBy = pr_membershipId subject\<rparr>"

definition policies_put :: "risk_config \<Rightarrow> AuthPrincipal \<Rightarrow> PutPolicyInput \<Rightarrow> policy_row op" where
  "policies_put risk subject input =
     thenM (may_do subject P_risk_policy_manage)
     (case parseRiskPolicyDocument (Some (pp_policyDocument input)) of
        Inl RiskPolicyValidationError \<Rightarrow> throwM (ApiError ''RISK_POLICY_INVALID'' 400 [])
      | Inl e \<Rightarrow> throwM e
      | Inr policy \<Rightarrow>
          thenM (guardM (\<not> (pd_activationMode policy = JStr ''PRODUCTION'' \<and>
                             \<not> promotion_gates_open risk))
                   (ApiError ''RISK_PRODUCTION_ACTIVATION_BLOCKED'' 409 []))
          (bindM (createRiskPolicy (pr_organizationId subject) (put_input subject input policy))
             (\<lambda>created.
           if pp_activate input
           then activateRiskPolicy (pr_organizationId subject) (rp_id created)
           else returnM created)))"

section \<open>Security operations\<close>

definition alert_listed :: "uuid \<Rightarrow> alert_row \<Rightarrow> bool" where
  "alert_listed organizationId a \<longleftrightarrow> al_org a = organizationId \<and>
     List.member [ALERT_PENDING, ALERT_DELIVERED] (al_status a) \<and> al_acknowledgedAt a = None"

definition listActiveAlerts ::
  "cursor_codec \<Rightarrow> uuid \<Rightarrow> PageRequest \<Rightarrow> alert_row PageResult op" where
  "listActiveAlerts codec context request =
     bindM (liftE (requireTenant context)) (\<lambda>organizationId.
     bindM (find_many alerts_table (alert_listed organizationId)) (\<lambda>rs.
     liftE (keyset_page codec (\<lambda>a. (al_createdAt a, al_id a)) request rs)))"

definition repository_acknowledgeAlert :: "uuid \<Rightarrow> uuid \<Rightarrow> uuid \<Rightarrow> alert_row op" where
  "repository_acknowledgeAlert context alertId membershipId =
     bindM (liftE (requireTenant context)) (\<lambda>organizationId.
     bindM (liftE (requireUuid alertId ''alertId'')) (\<lambda>i.
     bindM now (\<lambda>t.
     bindM (liftE (requireUuid membershipId ''membershipId'')) (\<lambda>m.
     bindM (update_rows alerts_table
              (\<lambda>a. al_org a = organizationId \<and> al_id a = i \<and> al_acknowledgedAt a = None)
              (\<lambda>a. a\<lparr>al_acknowledgedAt := Some t, al_acknowledgedBy := Some m\<rparr>)) (\<lambda>_.
     find_or_throw alerts_table (\<lambda>a. al_org a = organizationId \<and> al_id a = i)
       (TenantResourceNotFoundError ''Alert''))))))"

text \<open>The page's limit and cursor are checked before the call's identifier.\<close>

definition listSecurityEvents ::
  "cursor_codec \<Rightarrow> uuid \<Rightarrow> PageRequest \<Rightarrow> uuid option \<Rightarrow> risk_event_row PageResult op" where
  "listSecurityEvents codec context request callId =
     bindM (liftE (requireTenant context)) (\<lambda>organizationId.
     bindM (liftE (keyset_page codec (\<lambda>e. (re_occurredAt e, re_id e)) request
              ([] :: risk_event_row list))) (\<lambda>_.
     bindM (liftE (optional (\<lambda>v. requireUuid v ''callId'') callId)) (\<lambda>call.
     bindM (find_many riskEvents_table (\<lambda>e. re_org e = organizationId \<and>
              (case call of None \<Rightarrow> True | Some c \<Rightarrow> re_call e = c))) (\<lambda>rs.
     liftE (keyset_page codec (\<lambda>e. (re_occurredAt e, re_id e)) request rs)))))"

record DashboardSummary =
  ds_activeCalls :: nat
  ds_unacknowledgedAlerts :: nat
  ds_activeInterventions :: nat
  ds_riskEventsByState :: "(RiskState \<times> nat) list"

text \<open>\<open>groupBy\<close> gives an entry for every state that occurs.\<close>

definition events_by_state :: "uuid \<Rightarrow> risk_event_row list \<Rightarrow> (RiskState \<times> nat) list" where
  "events_by_state organizationId es =
     (let own = filter (\<lambda>e. re_org e = organizationId) es in
      map (\<lambda>s. (s, length (filter (\<lambda>e. re_state e = s) own)))
        (filter (\<lambda>s. list_ex (\<lambda>e. re_state e = s) own) [VERIFIED, UNVERIFIED, HIGH_RISK, CRITICAL]))"

definition repository_dashboardSummary :: "uuid \<Rightarrow> DashboardSummary op" where
  "repository_dashboardSummary context =
     bindM (liftE (requireTenant context)) (\<lambda>organizationId.
     bindM (count_rows calls_table (\<lambda>c. ca_org c = organizationId \<and>
              List.member [CALL_AUTHORIZED, CALL_ACTIVE, CALL_ENDING] (ca_status c))) (\<lambda>calls.
     bindM (count_rows alerts_table (alert_listed organizationId)) (\<lambda>alerts.
     bindM (count_rows interventions_table (\<lambda>i. iv_org i = organizationId \<and>
              List.member [IV_REQUIRED, IV_ACKNOWLEDGED, IV_IN_PROGRESS] (iv_status i))) (\<lambda>interventions.
     bindM (rows riskEvents_table) (\<lambda>es.
     returnM \<lparr>ds_activeCalls = calls, ds_unacknowledgedAlerts = alerts,
       ds_activeInterventions = interventions,
       ds_riskEventsByState = events_by_state organizationId es\<rparr>)))))"

definition operations_activeAlerts ::
  "cursor_codec \<Rightarrow> AuthPrincipal \<Rightarrow> PageRequest \<Rightarrow> alert_row PageResult op" where
  "operations_activeAlerts codec subject request =
     thenM (may_do subject P_risk_event_read)
     (listActiveAlerts codec (pr_organizationId subject) request)"

definition operations_securityEvents ::
  "cursor_codec \<Rightarrow> AuthPrincipal \<Rightarrow> PageRequest \<Rightarrow> uuid option \<Rightarrow> risk_event_row PageResult op" where
  "operations_securityEvents codec subject request callId =
     thenM (may_do subject P_risk_event_read)
     (listSecurityEvents codec (pr_organizationId subject) request callId)"

definition operations_dashboardSummary :: "AuthPrincipal \<Rightarrow> DashboardSummary op" where
  "operations_dashboardSummary subject =
     thenM (may_do subject P_risk_event_read)
     (repository_dashboardSummary (pr_organizationId subject))"

definition operations_acknowledgeAlert ::
  "AuthPrincipal \<Rightarrow> uuid \<Rightarrow> string \<Rightarrow> string \<Rightarrow> alert_row op" where
  "operations_acknowledgeAlert subject alertId idempotencyKey correlationId =
     thenM (may_do subject P_intervention_resolve)
     (bindM (repository_acknowledgeAlert (pr_organizationId subject) alertId
               (pr_membershipId subject)) (\<lambda>alert.
      bindM (audit_record
        \<lparr>wa_organizationId = pr_organizationId subject, wa_actor = Some (pr_membershipId subject),
         wa_correlationId = correlationId, wa_idempotencyKey = Some idempotencyKey,
         wa_action = ''alert.acknowledged'', wa_targetType = ''Alert'', wa_targetId = al_id alert,
         wa_outcome = None, wa_reasonCode = None, wa_operation = ''alert-acknowledge''\<rparr>) (\<lambda>_.
      returnM alert)))"

section \<open>Identity\<close>

definition createOrganization :: "string \<Rightarrow> string \<Rightarrow> string option \<Rightarrow> organization_row op" where
  "createOrganization slug displayName status =
     bindM new_id (\<lambda>newId.
     bindM (liftE (requireText slug ''slug'' 80)) (\<lambda>slug.
     bindM (liftE (requireText displayName ''displayName'' 160)) (\<lambda>displayName.
     bindM (liftE (requireText (or_default status ''ACTIVE'') ''status'' 32)) (\<lambda>status.
     create organizations_table \<lparr>og_id = newId, og_slug = slug, og_displayName = displayName,
       og_status = status\<rparr>))))"

definition createUser :: "string \<Rightarrow> string \<Rightarrow> UserStatus option \<Rightarrow> user_row op" where
  "createUser emailCanonical passwordHash status =
     bindM new_id (\<lambda>newId.
     bindM (liftE (requireText (map ascii_lower emailCanonical) ''emailCanonical'' 320)) (\<lambda>email.
     bindM (liftE (requireText passwordHash ''passwordHash'' 255)) (\<lambda>hash.
     create users_table \<lparr>us_id = newId, us_email = email, us_passwordHash = hash,
       us_status = or_default status USER_ACTIVE, us_deletedAt = None\<rparr>)))"

definition create_membership ::
  "uuid \<Rightarrow> uuid \<Rightarrow> OrganizationRole list \<Rightarrow> MembershipStatus option \<Rightarrow> membership_row op" where
  "create_membership organizationId userId roles status =
     bindM (find_unique_row organizations_table (\<lambda>g. og_id g = organizationId)) (\<lambda>organization.
     bindM (find_unique_row users_table (\<lambda>u. us_id u = userId)) (\<lambda>user.
     thenM (guardM (organization \<noteq> None \<and> user \<noteq> None)
              (TenantResourceNotFoundError ''Organization membership parent''))
     (bindM new_id (\<lambda>newId.
      bindM (if status = Some MEM_INVITED then returnM None else bindM now (\<lambda>t. returnM (Some t)))
        (\<lambda>joinedAt.
      bindM (create memberships_table \<lparr>ms_id = newId, ms_org = organizationId, ms_user = userId,
               ms_status = or_default status MEM_ACTIVE, ms_joinedAt = joinedAt,
               ms_revokedAt = None\<rparr>) (\<lambda>membership.
      thenM (iterM roles (\<lambda>role. bindM (create roles_table \<lparr>mr_org = organizationId,
               mr_membership = ms_id membership, mr_role = role\<rparr>) (\<lambda>_. returnM ())))
      (returnM membership)))))))"

definition createMembershipWithRoles ::
  "uuid \<Rightarrow> uuid \<Rightarrow> OrganizationRole list \<Rightarrow> MembershipStatus option \<Rightarrow> membership_row op" where
  "createMembershipWithRoles context userId roles status =
     bindM (liftE (requireTenant context)) (\<lambda>organizationId.
     bindM (liftE (requireUuid userId ''userId'')) (\<lambda>user.
     thenM (guardM (dedup roles \<noteq> []) (TenantResourceNotFoundError ''Organization role''))
     (serializable (create_membership organizationId user (dedup roles) status))))"

definition findMembership :: "uuid \<Rightarrow> uuid \<Rightarrow> membership_row op" where
  "findMembership context membershipId =
     bindM (liftE (requireTenant context)) (\<lambda>organizationId.
     bindM (liftE (requireUuid membershipId ''membershipId'')) (\<lambda>i.
     find_or_throw memberships_table (\<lambda>m. ms_org m = organizationId \<and> ms_id m = i)
       (TenantResourceNotFoundError ''Organization membership'')))"

definition registerDevice :: "uuid \<Rightarrow> uuid \<Rightarrow> string \<Rightarrow> string option \<Rightarrow> device_row op" where
  "registerDevice context membershipId devicePublicId label =
     bindM (liftE (requireTenant context)) (\<lambda>organizationId.
     bindM (findMembership context membershipId) (\<lambda>_.
     bindM new_id (\<lambda>newId.
     bindM (liftE (requireText devicePublicId ''devicePublicId'' 128)) (\<lambda>publicId.
     bindM (liftE (optional (\<lambda>v. requireText v ''label'' 120) label)) (\<lambda>label.
     create devices_table \<lparr>dv_id = newId, dv_org = organizationId, dv_membership = membershipId,
       dv_publicId = publicId, dv_label = label, dv_status = DEVICE_ACTIVE\<rparr>)))))"

definition createRefreshSession ::
  "uuid \<Rightarrow> uuid \<Rightarrow> uuid \<Rightarrow> string \<Rightarrow> uuid \<Rightarrow> instant \<Rightarrow> refresh_row op" where
  "createRefreshSession context membershipId deviceId tokenHash familyId expiresAt =
     bindM (liftE (requireTenant context)) (\<lambda>organizationId.
     bindM (liftE (requireUuid membershipId ''membershipId'')) (\<lambda>_.
     bindM (liftE (requireUuid deviceId ''deviceId'')) (\<lambda>_.
     bindM (liftE (requireUuid familyId ''familyId'')) (\<lambda>_.
     bindM now (\<lambda>t.
     thenM (guardM (t < expiresAt) (TenantResourceNotFoundError ''Future refresh-session expiry''))
     (bindM (find_unique_row devices_table (\<lambda>v. dv_org v = organizationId \<and> dv_id v = deviceId))
        (\<lambda>device.
      thenM (guardM (case device of None \<Rightarrow> False
                     | Some v \<Rightarrow> dv_membership v = membershipId \<and> dv_status v = DEVICE_ACTIVE)
               (TenantResourceNotFoundError ''Active device''))
      (bindM new_id (\<lambda>newId.
       bindM (liftE (requireText tokenHash ''tokenHash'' 255)) (\<lambda>hash.
       bindM now (\<lambda>issuedAt.
       create refreshes_table (new_refresh_row organizationId membershipId deviceId hash familyId
         expiresAt newId issuedAt))))))))))))"

definition revokeRefreshSession :: "uuid \<Rightarrow> uuid \<Rightarrow> refresh_row op" where
  "revokeRefreshSession context sessionId =
     bindM (liftE (requireTenant context)) (\<lambda>organizationId.
     bindM (liftE (requireUuid sessionId ''sessionId'')) (\<lambda>i.
     bindM now (\<lambda>t.
     bindM (update_rows refreshes_table
              (\<lambda>r. rs_org r = organizationId \<and> rs_id r = i \<and> rs_status r = REFRESH_ACTIVE)
              (\<lambda>r. r\<lparr>rs_status := REFRESH_REVOKED, rs_revokedAt := Some t\<rparr>)) (\<lambda>n.
     thenM (guardM (n = 1) (TenantResourceNotFoundError ''Active refresh session''))
     (find_or_throw refreshes_table (\<lambda>r. rs_id r = i)
        (TenantResourceNotFoundError ''Refresh session''))))))"

section \<open>Activation\<close>

text \<open>A change of the lifecycle: the version itself stays.\<close>

definition same_version :: "(policy_row \<Rightarrow> policy_row) \<Rightarrow> bool" where
  "same_version f \<longleftrightarrow> (\<forall>p. rp_id (f p) = rp_id p \<and> rp_org (f p) = rp_org p \<and>
     rp_key (f p) = rp_key p \<and> rp_version (f p) = rp_version p \<and>
     rp_schemaVersion (f p) = rp_schemaVersion p \<and> rp_document (f p) = rp_document p)"

definition policy_version :: "policy_row \<Rightarrow> uuid \<times> uuid \<times> string \<times> string \<times> string \<times> json" where
  "policy_version p = (rp_id p, rp_org p, rp_key p, rp_version p, rp_schemaVersion p, rp_document p)"

lemma same_version_changes [simp]: "same_version (retired_policy t)" "same_version (activated_policy t)"
  by (simp_all add: same_version_def retired_policy_def activated_policy_def)

lemma versions_change: "same_version f \<Longrightarrow> map policy_version (change_rows P f ps) = map policy_version ps"
  by (simp add: change_rows_def same_version_def policy_version_def)

lemma pairwise_free_changed:
  assumes "pairwise_free clash rs"
    and "\<And>a b. \<lbrakk>a \<in> set rs; b \<in> set rs; \<not> clash a b\<rbrakk> \<Longrightarrow> \<not> clash (g a) (g b)"
  shows "pairwise_free clash (map g rs)"
  using assms by (induction rs) (auto simp: list_ex_iff)

lemma retiring_free:
  "pairwise_free policy_clash ps \<Longrightarrow> pairwise_free policy_clash (change_rows P (retired_policy t) ps)"
  unfolding change_rows_def
  by (rule pairwise_free_changed) (auto simp: policy_clash_def retired_policy_def)

text \<open>The activation of a policy clashes with nothing once the others of its key are retired.\<close>

lemma activating_free:
  assumes free: "pairwise_free policy_clash ps"
    and alone: "\<And>p. \<lbrakk>p \<in> set ps; other_active organizationId target p\<rbrakk> \<Longrightarrow> False"
    and P: "\<And>p. p \<in> set ps \<Longrightarrow> P p \<longleftrightarrow> rp_id p = rp_id target \<and> rp_org p = organizationId \<and>
      rp_key p = rp_key target"
  shows "pairwise_free policy_clash (change_rows P (activated_policy t) ps)"
  unfolding change_rows_def
proof (rule pairwise_free_changed [OF free])
  fix a b assume ab: "a \<in> set ps" "b \<in> set ps" "\<not> policy_clash a b"
  show "\<not> policy_clash (if P a then activated_policy t a else a) (if P b then activated_policy t b else b)"
    using ab(3) alone [OF ab(1)] alone [OF ab(2)]
    by (auto simp: P [OF ab(1)] P [OF ab(2)] policy_clash_def activated_policy_def other_active_def)
qed

text \<open>
  The retries: an operation that succeeds on the database as it is, whatever the clock shows,
  succeeds within \<open>serializable\<close> when fewer commits are refused than there are attempts.
\<close>

definition succeeds_on :: "db \<Rightarrow> ('a \<Rightarrow> db \<Rightarrow> bool) \<Rightarrow> 'a op \<Rightarrow> bool" where
  "succeeds_on d Q operation \<longleftrightarrow> (\<forall>w. w_db w = d \<longrightarrow>
     (\<exists>x w'. operation w = (Inr x, w') \<and> Q x (w_db w') \<and> w_conflicts w' = w_conflicts w))"

lemma succeeds_onD:
  "succeeds_on d Q operation \<Longrightarrow> w_db w = d \<Longrightarrow>
     \<exists>x w'. operation w = (Inr x, w') \<and> Q x (w_db w') \<and> w_conflicts w' = w_conflicts w"
  by (simp add: succeeds_on_def)

lemma serializable_attempts_succeeds:
  assumes "succeeds_on d Q operation"
  shows "w_db w = d \<Longrightarrow> length (takeWhile id (w_conflicts w)) \<le> n \<Longrightarrow>
    \<exists>x w'. serializable_attempts n operation w = (Inr x, w') \<and> Q x (w_db w')"
proof (induction n arbitrary: w)
  case (0 w)
  let ?w = "w\<lparr>w_conflicts := tl (w_conflicts w)\<rparr>"
  obtain x w' where "operation ?w = (Inr x, w')" "Q x (w_db w')"
    using succeeds_onD [OF assms, of ?w] 0 by auto
  then show ?case
    using 0 by (cases "w_conflicts w"; subst serializable_attempts.simps)
      (auto simp: transaction_def split: if_splits)
next
  case (Suc n w)
  let ?w = "w\<lparr>w_conflicts := tl (w_conflicts w)\<rparr>"
  obtain x w' where run: "operation ?w = (Inr x, w')" "Q x (w_db w')"
      "w_conflicts w' = tl (w_conflicts w)"
    using succeeds_onD [OF assms, of ?w] Suc.prems by auto
  show ?case
  proof (cases "w_conflicts w \<noteq> [] \<and> hd (w_conflicts w)")
    case True
    then obtain cs where cs: "w_conflicts w = True # cs" by (cases "w_conflicts w") auto
    have "\<exists>x w''. serializable_attempts n operation (rollback w w') = (Inr x, w'') \<and> Q x (w_db w'')"
      by (rule Suc.IH) (use cs run Suc.prems in \<open>auto simp: rollback_def\<close>)
    with cs run show ?thesis
      by (subst serializable_attempts.simps) (simp add: transaction_def)
  next
    case False
    with run show ?thesis
      by (cases "w_conflicts w"; subst serializable_attempts.simps)
        (auto simp: transaction_def)
  qed
qed

lemma serializable_succeeds:
  "succeeds_on (w_db w) Q operation \<Longrightarrow>
   length (takeWhile id (w_conflicts w)) < MAX_TRANSACTION_ATTEMPTS \<Longrightarrow>
     \<exists>x w'. serializable operation w = (Inr x, w') \<and> Q x (w_db w')"
  unfolding serializable_def by (rule serializable_attempts_succeeds) auto

section \<open>A stored version is activated\<close>

definition the_active :: "uuid \<Rightarrow> policy_row \<Rightarrow> policy_row list \<Rightarrow> policy_row \<Rightarrow> policy_row list \<Rightarrow> bool" where
  "the_active organizationId p before q after \<longleftrightarrow> policy_version q = policy_version p \<and>
     filter (\<lambda>r. rp_org r = organizationId \<and> rp_key r = rp_key p \<and> rp_status r = POLICY_ACTIVE) after = [q] \<and>
     map policy_version after = map policy_version before \<and>
     pairwise_free policy_clash after"

lemma policies_clash_ids:
  "pairwise_free policy_clash ps \<Longrightarrow> a \<in> set ps \<Longrightarrow> b \<in> set ps \<Longrightarrow> rp_id a = rp_id b \<Longrightarrow> a = b"
  by (induction ps) (auto simp: policy_clash_def list_ex_iff)

lemma find_policy:
  assumes "pairwise_free policy_clash ps" "p \<in> set ps"
  shows "find (policy_by (rp_org p) (rp_id p)) ps = Some p"
proof -
  obtain q where "find (policy_by (rp_org p) (rp_id p)) ps = Some q"
    using assms(2) by (cases "find (policy_by (rp_org p) (rp_id p)) ps") (auto simp: find_None_iff policy_by_def)
  then show ?thesis
    using find_SomeD [of "policy_by (rp_org p) (rp_id p)" ps q] policies_clash_ids [OF assms(1) _ assms(2)]
    by (simp add: policy_by_def)
qed

lemma activate_policy_succeeds:
  assumes free: "pairwise_free policy_clash (d_policies d)" and p: "p \<in> set (d_policies d)"
  shows "succeeds_on d (\<lambda>q d'. the_active (rp_org p) p (d_policies d) q (d_policies d'))
    (activate_policy (rp_org p) (rp_id p))"
  unfolding succeeds_on_def
proof (intro allI impI)
  fix w :: world assume w: "w_db w = d"
  let ?O = "rp_org p" and ?i = "rp_id p" and ?ps = "d_policies d"
  define t where "t = w_clock w (w_ticks w)"
  define t2 where "t2 = w_clock w (Suc (w_ticks w))"
  define ps1 where "ps1 = change_rows (other_active ?O p) (retired_policy t) ?ps"
  define ps2 where "ps2 = change_rows (policy_by ?O ?i) (activated_policy t2) ps1"
  have free1: "pairwise_free policy_clash ps1"
    unfolding ps1_def by (rule retiring_free [OF free])
  have p1: "p \<in> set ps1"
    using p by (auto simp: ps1_def change_rows_def other_active_def intro: rev_image_eqI)
  have alone: "\<not> other_active ?O p r" if "r \<in> set ps1" for r
    using that by (auto simp: ps1_def change_rows_def other_active_def retired_policy_def)
  have same: "policy_by ?O ?i r \<longleftrightarrow> rp_id r = ?i \<and> rp_org r = ?O \<and> rp_key r = rp_key p"
    if "r \<in> set ps1" for r
    using policies_clash_ids [OF free1 that p1] by (auto simp: policy_by_def)
  have free2: "pairwise_free policy_clash ps2"
    unfolding ps2_def by (rule activating_free [OF free1]) (auto simp: same dest: alone)
  have hits: "filter (policy_by ?O ?i) ps1 = [p]"
    by (rule pairwise_free_filter [OF free1 p1]) (auto simp: policy_by_def policy_clash_def)
  have active: "filter (\<lambda>r. rp_org r = ?O \<and> rp_key r = rp_key p \<and> rp_status r = POLICY_ACTIVE) ps2 =
      [activated_policy t2 p]"
  proof -
    let ?A = "\<lambda>r. rp_org r = ?O \<and> rp_key r = rp_key p \<and> rp_status r = POLICY_ACTIVE"
    let ?f = "\<lambda>r. if policy_by ?O ?i r then activated_policy t2 r else r"
    have "filter (?A \<circ> ?f) ps1 = filter (policy_by ?O ?i) ps1"
      by (rule filter_cong [OF refl])
        (use alone same in \<open>auto simp: activated_policy_def other_active_def policy_by_def\<close>)
    then have "filter ?A (map ?f ps1) = map ?f [p]" by (simp only: filter_map hits)
    then show ?thesis by (simp add: ps2_def change_rows_def policy_by_def)
  qed
  have versions: "map policy_version ps2 = map policy_version ?ps"
    by (simp add: ps2_def ps1_def versions_change)
  let ?w' = "w\<lparr>w_ticks := Suc (Suc (w_ticks w)), w_db := d\<lparr>d_policies := ps2\<rparr>\<rparr>"
  have put: "update_rows policies_table (other_active ?O p) (retired_policy t) (w\<lparr>w_ticks := Suc (w_ticks w)\<rparr>) =
      (Inr (length (filter (other_active ?O p) ?ps)),
       w\<lparr>w_ticks := Suc (w_ticks w), w_db := d\<lparr>d_policies := ps1\<rparr>\<rparr>)"
    using free1 w by (auto simp: update_rows_run policies_table_def ps1_def list_all_iff)
  have act: "update_rows policies_table (policy_by ?O ?i) (activated_policy t2)
      (w\<lparr>w_db := d\<lparr>d_policies := ps1\<rparr>, w_ticks := Suc (Suc (w_ticks w))\<rparr>) = (Inr 1, ?w')"
    using free2 hits by (auto simp: update_rows_run policies_table_def ps2_def list_all_iff)
  have "activate_policy ?O ?i w = (Inr (activated_policy t2 p), ?w')"
    unfolding activate_policy_def
    using find_policy [OF free p] find_policy [OF free1 p1] put act w
    by (simp add: bindM_eq_Inr_iff find_or_throw_run now_run update_one_run policies_table_def
        t_def [symmetric] t2_def [symmetric])
  moreover have "the_active ?O p ?ps (activated_policy t2 p) ps2"
    using active versions free2 by (simp add: the_active_def policy_version_def activated_policy_def)
  ultimately show "\<exists>x w'. activate_policy ?O ?i w = (Inr x, w') \<and>
      the_active ?O p ?ps x (d_policies (w_db w')) \<and> w_conflicts w' = w_conflicts w"
    by auto
qed

text \<open>
  Storing a version and activating it are two writes: when the second is refused, the version stays
  a draft, and the request cannot be sent again, its version is taken. No error of it changes
  anything.
\<close>

lemma refuses_createRiskPolicy:
  assumes "r \<in> set (d_policies d)" "rp_org r = organizationId"
    and "rp_key r = js_trim (cy_policyKey input)" "rp_version r = js_trim (cy_version input)"
  shows "refuses d (createRiskPolicy organizationId input)"
  unfolding createRiskPolicy_def
proof (rule refuses_bindM_run)
  fix w o1 w' assume "liftE (requireTenant organizationId) w = (Inr o1, w')"
  then have o1: "o1 = organizationId" by simp
  show "refuses d (bindM new_id (\<lambda>newId. bindM now (\<lambda>t.
      bindM (liftE (policy_row_of o1 input newId t)) (create policies_table))))"
  proof (rule refuses_bindM, goal_cases)
    case 1 show ?case by (intro hoare) (simp add: on_db_def)
  next
    case (2 newId)
    show ?case
    proof (rule refuses_bindM, goal_cases)
      case 1 show ?case by (intro hoare) (simp add: on_db_def)
    next
      case (2 t)
      show ?case
      proof (rule refuses_bindM_run, goal_cases)
        case 1 show ?case by (intro hoare)
      next
        case (2 w row w')
        then have "policy_clash r row"
          using assms by (auto simp: o1 policy_row_of_def policy_clash_def)
        then show ?case by (intro refuses_create [of r]) (simp_all add: policies_table_def assms(1))
      qed
    qed
  qed
qed (intro hoare)

lemma put_version_taken:
  assumes "r \<in> set (d_policies (w_db w))" "rp_org r = pr_organizationId subject"
    and "rp_key r = js_trim (pp_policyKey input)" "rp_version r = js_trim (pp_version input)"
  shows "\<exists>e w'. policies_put risk subject input w = (Inl e, w') \<and> w_db w' = w_db w"
proof -
  have "refuses (w_db w) (policies_put risk subject input)"
    unfolding policies_put_def
    by (intro refuses_thenM refuses_bindM1 refuses_createRiskPolicy [of r])
      (auto simp: assms put_input_def may_do_def intro!: hoare refuses_thenM refuses_bindM1
        refuses_createRiskPolicy [of r] split: sum.split err.split)
  then show ?thesis by (simp add: refuses_def)
qed

text \<open>
  C22: the activation of a stored policy version succeeds as long as fewer commits are refused than
  there are attempts: the version becomes the one active version of its key in its organization,
  every version's key, number and document stay what they were, and no key or version is doubled.
\<close>

theorem activation_succeeds:
  assumes "policies_db.consistent (w_db w)" and "p \<in> set (d_policies (w_db w))"
    and "is_uuid (rp_org p)" "is_uuid (rp_id p)"
    and "length (takeWhile id (w_conflicts w)) < MAX_TRANSACTION_ATTEMPTS"
  shows "\<exists>q w'. activateRiskPolicy (rp_org p) (rp_id p) w = (Inr q, w') \<and>
    policy_version q = policy_version p \<and> rp_status q = POLICY_ACTIVE \<and>
    filter (\<lambda>r. rp_org r = rp_org p \<and> rp_key r = rp_key p \<and> rp_status r = POLICY_ACTIVE)
      (d_policies (w_db w')) = [q] \<and>
    map policy_version (d_policies (w_db w')) = map policy_version (d_policies (w_db w)) \<and>
    policies_db.consistent (w_db w')"
proof -
  have free: "pairwise_free policy_clash (d_policies (w_db w))"
    using assms(1) unfolding policies_db.consistent_def by (simp add: policies_table_def)
  obtain q w' where "serializable (activate_policy (rp_org p) (rp_id p)) w = (Inr q, w')"
      and q: "the_active (rp_org p) p (d_policies (w_db w)) q (d_policies (w_db w'))"
    using serializable_succeeds [OF activate_policy_succeeds [OF free assms(2)] assms(5)] by blast
  then have "activateRiskPolicy (rp_org p) (rp_id p) w = (Inr q, w')"
    using assms(3,4) by (simp add: activateRiskPolicy_def bindM_eq_Inr_iff)
  moreover have "rp_status q = POLICY_ACTIVE"
    using q by (auto simp: the_active_def dest!: arg_cong [where f = set])
  ultimately show ?thesis
    using q unfolding the_active_def policies_db.consistent_def
    by (auto simp: policies_table_def list_all_iff)
qed

text \<open>An active version, a draft of the next one, and a first commit that is refused.\<close>

definition draft_policy_row :: policy_row where
  "draft_policy_row = sample_policy_row\<lparr>rp_id := model1, rp_version := ''2'', rp_status := POLICY_DRAFT\<rparr>"

definition policies_world :: world where
  "policies_world = demo_world\<lparr>w_conflicts := [True],
     w_db := sample_db\<lparr>d_policies := [sample_policy_row, draft_policy_row]\<rparr>\<rparr>"

theorem activation_succeeds_witness:
  "\<exists>q w'. activateRiskPolicy org1 model1 policies_world = (Inr q, w') \<and>
    policy_version q = policy_version draft_policy_row \<and> rp_status q = POLICY_ACTIVE \<and>
    length (d_policies (w_db w')) = 2"
proof -
  have ids: "is_uuid org1" "is_uuid model1" by code_simp+
  have row: "rp_org draft_policy_row = org1" "rp_id draft_policy_row = model1"
    by (simp_all add: draft_policy_row_def sample_policy_row_def)
  have ps: "d_policies (w_db policies_world) = [sample_policy_row, draft_policy_row]"
    by (simp add: policies_world_def)
  have free: "policies_db.consistent (w_db policies_world)"
    unfolding policies_db.consistent_def
    by (simp add: ps policies_table_def policy_clash_def draft_policy_row_def sample_policy_row_def
        policy1_def model1_def)
  obtain q w' where "activateRiskPolicy org1 model1 policies_world = (Inr q, w')"
      "policy_version q = policy_version draft_policy_row" "rp_status q = POLICY_ACTIVE"
      and versions: "map policy_version (d_policies (w_db w')) =
        map policy_version (d_policies (w_db policies_world))"
    using activation_succeeds [of policies_world draft_policy_row] free
    by (auto simp: ps row ids policies_world_def MAX_TRANSACTION_ATTEMPTS_def)
  moreover have "length (d_policies (w_db w')) = 2"
    using arg_cong [OF versions, of length] by (simp add: ps)
  ultimately show ?thesis by blast
qed

end
