(* ===== verification/Routes.thy ===== *)
theory Routes
  imports Security_Gateway Evidence_Ingestion Request_Handling Governance Call_Invariants
begin

text \<open>
  The controllers of \<open>modules\<close>: what a request of a member, of an internal service or of LiveKit goes
  through. A member's request passes the access token guard, the permission guard and the rate limit
  and then reaches its handler, which may go through the idempotency service and shows the result as
  JSON. Requests are handled one after another here, so none waits for the operation of another one.
  Bodies and query parameters are as the validation of the contracts leaves them; a malformed path
  identifier is refused by the framework's pipe, whose test is a field of \<open>api_env\<close>.
\<close>

section \<open>Requests\<close>

text \<open>The world and the memory of the two guards' services.\<close>

record server =
  sv_world :: world
  sv_buckets :: "(string \<times> RateBucket) list"
  sv_entries :: "(string \<times> idem_entry) list"
  sv_uploads :: "string list"

type_synonym 'a sop = "(server, 'a) m"

definition in_world :: "'a op \<Rightarrow> 'a sop" where
  "in_world m = (\<lambda>s. case m (sv_world s) of (r, w) \<Rightarrow> (r, s\<lparr>sv_world := w\<rparr>))"

record api_env =
  ap_config :: configuration
  ap_auth :: auth_runtime
  ap_providers :: provider_env
  ap_ingestion :: ingestion_env
  ap_codec :: cursor_codec
  ap_idem :: idem_env
  ap_sha256 :: "string \<Rightarrow> string"
  ap_iso :: "instant \<Rightarrow> string"
  ap_isUuid :: "string \<Rightarrow> bool"
  ap_parseJson :: "string \<Rightarrow> json option"
  ap_parseDate :: "string \<Rightarrow> instant"
  ap_upper :: "string \<Rightarrow> string"
  ap_receive :: "string \<Rightarrow> string \<Rightarrow> raw_webhook option"

record api_request =
  rq_method :: string
  rq_path :: string
  rq_ip :: "string option"
  rq_authorization :: "header option"
  rq_service :: "header option"
  rq_idempotencyKey :: "string option"
  rq_requestId :: string

section \<open>Guards\<close>

definition rate_limited ::
  "api_env \<Rightarrow> api_request \<Rightarrow> string option \<Rightarrow> ApiRateLimitCategory \<Rightarrow> unit sop" where
  "rate_limited env request membershipId category =
     bindM (in_world now) (\<lambda>t s.
     case rate_guard (c_api (ap_config env)) t (Some category)
            (rate_key category membershipId (rq_ip request) (rq_method request) (rq_path request))
            (sv_buckets s) of
       (Limited retryAfter, buckets) \<Rightarrow>
         (Inl (ApiError ''RATE_LIMITED'' 429 []), s\<lparr>sv_buckets := buckets\<rparr>)
     | (_, buckets) \<Rightarrow> (Inr (), s\<lparr>sv_buckets := buckets\<rparr>))"

definition member_guards ::
  "api_env \<Rightarrow> api_request \<Rightarrow> Permission \<Rightarrow> ApiRateLimitCategory \<Rightarrow> AuthPrincipal sop" where
  "member_guards env request permission category =
     bindM (in_world (access_token_guard (ap_auth env) (rq_authorization request))) (\<lambda>subject.
     bindM (liftE (roles_guard (Some [permission]) None (Some subject))) (\<lambda>_.
     thenM (rate_limited env request (Some (pr_membershipId subject)) category)
     (returnM subject)))"

definition service_guards ::
  "api_env \<Rightarrow> api_request \<Rightarrow> InternalServiceName \<Rightarrow> ApiRateLimitCategory \<Rightarrow> unit sop" where
  "service_guards env request service category =
     bindM (liftE (internal_service_guard (ap_config env) (ap_sha256 env) (rq_authorization request)
              (rq_service request) (Some service))) (\<lambda>_.
     rate_limited env request None category)"

text \<open>\<open>ParseUUIDPipe\<close> throws a \<open>BadRequestException\<close>, which the filter answers as this error.\<close>

definition uuid_pipe :: "api_env \<Rightarrow> string \<Rightarrow> unit sop" where
  "uuid_pipe env value = guardM (ap_isUuid env value) (ApiError ''VALIDATION_FAILED'' 400 [])"

definition idempotency_key :: "api_request \<Rightarrow> string sop" where
  "idempotency_key request = liftE (requireIdempotencyKey (rq_idempotencyKey request))"

text \<open>
  \<open>IdempotencyService.execute\<close> with the operation run at once. No entry is pending between requests
  that are handled one after another.
\<close>

definition idempotently :: "api_env \<Rightarrow> IdempotentRequest \<Rightarrow> json sop \<Rightarrow> json sop" where
  "idempotently env request operation =
     bindM (in_world (now_if (request_valid request))) (\<lambda>t.
     bindM (getM sv_entries) (\<lambda>entries.
     bindM (in_world (now_if (case arrive (ap_idem env) t t request entries of
         (Started key entry, _) \<Rightarrow> True | _ \<Rightarrow> False))) (\<lambda>t2.
     case arrive (ap_idem env) t t2 request entries of
       (arrived, kept) \<Rightarrow>
         thenM (modifyM (\<lambda>s. s\<lparr>sv_entries := kept\<rparr>))
         (case arrived of
            Refused e \<Rightarrow> throwM e
          | Replayed v \<Rightarrow> returnM v
          | Waiting \<Rightarrow> throwM (Error ''The operation of another request runs.'')
          | Started key entry \<Rightarrow> (\<lambda>s.
              case operation s of (outcome, s1) \<Rightarrow>
                (case finish key entry outcome (sv_entries s1) of
                   (answer, entries1) \<Rightarrow> (answer, s1\<lparr>sv_entries := entries1\<rparr>)))))))"

section \<open>Views\<close>

definition json_date :: "api_env \<Rightarrow> instant \<Rightarrow> json" where
  "json_date env t = JStr (ap_iso env t)"

definition json_option :: "('a \<Rightarrow> json) \<Rightarrow> 'a option \<Rightarrow> json" where
  "json_option f v = (case v of None \<Rightarrow> JNull | Some a \<Rightarrow> f a)"

definition json_page :: "('r \<Rightarrow> json) \<Rightarrow> 'r PageResult \<Rightarrow> json" where
  "json_page view page = JObj [(''items'', JArr (map view (pg_items page))),
     (''nextCursor'', json_option JStr (pg_nextCursor page))]"

fun outcome_name :: "RiskAssessmentOutcome \<Rightarrow> string" where
  "outcome_name (STATE s) = risk_state_name s"
| "outcome_name OUTCOME_INSUFFICIENT_EVIDENCE = ''INSUFFICIENT_EVIDENCE''"

fun alert_status_name :: "AlertStatus \<Rightarrow> string" where
  "alert_status_name ALERT_PENDING = ''PENDING''"
| "alert_status_name ALERT_DELIVERED = ''DELIVERED''"
| "alert_status_name ALERT_FAILED = ''FAILED''"
| "alert_status_name ALERT_CANCELLED = ''CANCELLED''"

fun verification_status_name :: "VerificationStatus \<Rightarrow> string" where
  "verification_status_name VC_PENDING = ''PENDING''"
| "verification_status_name VC_PASSED = ''PASSED''"
| "verification_status_name VC_FAILED = ''FAILED''"
| "verification_status_name VC_EXPIRED = ''EXPIRED''"
| "verification_status_name VC_CANCELLED = ''CANCELLED''"

fun policy_status_name :: "RiskPolicyStatus \<Rightarrow> string" where
  "policy_status_name POLICY_DRAFT = ''DRAFT''"
| "policy_status_name POLICY_ACTIVE = ''ACTIVE''"
| "policy_status_name POLICY_RETIRED = ''RETIRED''"

fun speaker_status_name :: "TrustedSpeakerStatus \<Rightarrow> string" where
  "speaker_status_name SPEAKER_PENDING_ENROLLMENT = ''PENDING_ENROLLMENT''"
| "speaker_status_name SPEAKER_ACTIVE = ''ACTIVE''"
| "speaker_status_name SPEAKER_SUSPENDED = ''SUSPENDED''"
| "speaker_status_name SPEAKER_REVOKED = ''REVOKED''"
| "speaker_status_name SPEAKER_DELETED = ''DELETED''"

definition call_fields :: "api_env \<Rightarrow> call_row \<Rightarrow> (string \<times> json) list" where
  "call_fields env c =
     [(''callId'', JStr (ca_id c)), (''status'', JStr (call_status_name (ca_status c))),
      (''riskPolicyVersion'', JStr (ca_policyVersion c)),
      (''createdAt'', json_date env (ca_createdAt c)),
      (''startedAt'', json_option (json_date env) (ca_startedAt c)),
      (''endedAt'', json_option (json_date env) (ca_endedAt c))]"

definition callView :: "api_env \<Rightarrow> call_row \<Rightarrow> json" where
  "callView env c = JObj (call_fields env c)"

definition grant_fields :: "api_env \<Rightarrow> LiveKitParticipantGrant \<Rightarrow> (string \<times> json) list" where
  "grant_fields env g =
     [(''roomName'', JStr (lg_roomName g)), (''participantIdentity'', JStr (lg_participantIdentity g)),
      (''joinToken'', JStr (lg_token g)), (''expiresAt'', json_date env (lg_expiresAt g))]"

definition call_event_view :: "api_env \<Rightarrow> risk_event_row \<Rightarrow> json" where
  "call_event_view env e = JObj
     [(''riskEventId'', JStr (re_id e)), (''callId'', JStr (re_call e)),
      (''eventSequence'', JStr (int_string (re_eventSequence e))),
      (''mode'', JStr (control_mode_name (re_mode e))),
      (''priorState'', JStr (risk_state_name (re_priorState e))),
      (''state'', JStr (risk_state_name (re_state e))), (''reasonCode'', JStr (re_reasonCode e)),
      (''policyVersion'', JStr (re_policyVersion e)),
      (''thresholdVersion'', JStr (re_thresholdVersion e)),
      (''occurredAt'', json_date env (re_occurredAt e))]"

definition assessment_view :: "api_env \<Rightarrow> assessment_row \<Rightarrow> json" where
  "assessment_view env a = JObj
     [(''riskAssessmentId'', JStr (ra_id a)), (''callId'', JStr (ra_call a)),
      (''outcome'', JStr (outcome_name (ra_outcome a))),
      (''effectiveState'', JStr (risk_state_name (ra_effectiveState a))),
      (''decisionMode'', JStr (decision_mode_name (ra_decisionMode a))),
      (''evidenceMode'', JStr (evidence_mode_name (ra_evidenceMode a))),
      (''productionEligible'', JBool (ra_productionEligible a)),
      (''activationSuppressed'', JBool (ra_activationSuppressed a)),
      (''activationBlockerCodes'', JArr (map JStr (ra_blockerCodes a))),
      (''reasonCode'', JStr (ra_reasonCode a)), (''policyVersion'', JStr (ra_policyVersion a)),
      (''thresholdVersion'', JStr (ra_thresholdVersion a)),
      (''calibrationVersion'', json_option JStr (ra_calibrationVersion a)),
      (''proposedInterventions'', JArr (map (\<lambda>i. JStr (intervention_name i)) (ra_proposedInterventions a))),
      (''maxWindowSequence'', JStr (int_string (ra_maxWindowSequence a))),
      (''occurredAt'', json_date env (ra_occurredAt a))]"

definition participant_view :: "participant_row \<Rightarrow> json" where
  "participant_view p = JObj [(''participantId'', JStr (cp_id p)), (''role'', JStr (role_name (cp_role p))),
     (''status'', JStr (participant_status_name (cp_status p)))]"

definition current_risk_view :: "api_env \<Rightarrow> assessment_row \<Rightarrow> json" where
  "current_risk_view env a = JObj
     [(''assessmentId'', JStr (ra_id a)), (''state'', JStr (risk_state_name (ra_effectiveState a))),
      (''mode'', JStr (decision_mode_name (ra_decisionMode a))),
      (''productionEligible'', JBool (ra_productionEligible a)),
      (''activationSuppressed'', JBool (ra_activationSuppressed a)),
      (''reasonCode'', JStr (ra_reasonCode a)), (''occurredAt'', json_date env (ra_occurredAt a))]"

definition latest_transition_view :: "api_env \<Rightarrow> risk_event_row \<Rightarrow> json" where
  "latest_transition_view env e = JObj
     [(''riskEventId'', JStr (re_id e)), (''state'', JStr (risk_state_name (re_state e))),
      (''eventSequence'', JStr (int_string (re_eventSequence e))),
      (''mode'', JStr (control_mode_name (re_mode e))), (''occurredAt'', json_date env (re_occurredAt e))]"

definition active_intervention_view :: "api_env \<Rightarrow> intervention_row \<Rightarrow> json" where
  "active_intervention_view env i = JObj
     [(''interventionId'', JStr (iv_id i)), (''type'', JStr (intervention_name (iv_type i))),
      (''status'', JStr (intervention_status_name (iv_status i))),
      (''mode'', JStr (control_mode_name (iv_mode i))), (''reasonCode'', JStr (iv_reasonCode i)),
      (''requiredAt'', json_date env (iv_requiredAt i))]"

definition current_view :: "api_env \<Rightarrow> CurrentCall \<Rightarrow> json" where
  "current_view env r = JObj (call_fields env (cg_call (cu_aggregate r)) @
     [(''participants'', JArr (map participant_view (cg_participants (cu_aggregate r)))),
      (''risk'', json_option (current_risk_view env) (cu_assessment r)),
      (''latestTransition'', json_option (latest_transition_view env) (cu_riskEvent r)),
      (''activeInterventions'', JArr (map (active_intervention_view env) (cu_interventions r)))])"

definition intervention_view :: "intervention_row \<Rightarrow> json" where
  "intervention_view i = JObj [(''interventionId'', JStr (iv_id i)),
     (''status'', JStr (intervention_status_name (iv_status i)))]"

definition challenge_view :: "api_env \<Rightarrow> challenge_row \<Rightarrow> json" where
  "challenge_view env c = JObj [(''challengeId'', JStr (vc_id c)),
     (''interventionId'', JStr (vc_intervention c)),
     (''status'', JStr (verification_status_name (vc_status c))), (''method'', JStr (vc_method c)),
     (''expiresAt'', json_date env (vc_expiresAt c))]"

definition challenge_result_view :: "challenge_row \<Rightarrow> json" where
  "challenge_result_view c = JObj [(''challengeId'', JStr (vc_id c)),
     (''status'', JStr (verification_status_name (vc_status c))),
     (''resultCode'', json_option JStr (vc_resultCode c))]"

definition policyView :: "api_env \<Rightarrow> policy_row \<Rightarrow> json" where
  "policyView env p = JObj [(''riskPolicyId'', JStr (rp_id p)), (''policyKey'', JStr (rp_key p)),
     (''version'', JStr (rp_version p)), (''schemaVersion'', JStr (rp_schemaVersion p)),
     (''policyDocument'', rp_document p), (''status'', JStr (policy_status_name (rp_status p))),
     (''effectiveAt'', json_option (json_date env) (rp_effectiveAt p))]"

definition alert_view :: "api_env \<Rightarrow> db \<Rightarrow> alert_row \<Rightarrow> json" where
  "alert_view env d a = JObj
     [(''alertId'', JStr (al_id a)), (''callId'', JStr (al_call a)),
      (''riskEventId'', JStr (al_riskEvent a)),
      (''interventionId'', json_option JStr (al_intervention a)),
      (''eventType'', JStr (al_eventType a)),
      (''state'', json_option (\<lambda>e. JStr (risk_state_name (re_state e)))
         (find (\<lambda>e. re_org e = al_org a \<and> re_id e = al_riskEvent a) (d_riskEvents d))),
      (''mode'', JStr (control_mode_name (al_mode a))),
      (''status'', JStr (alert_status_name (al_status a))),
      (''createdAt'', json_date env (al_createdAt a))]"

definition acknowledged_view :: "api_env \<Rightarrow> alert_row \<Rightarrow> json" where
  "acknowledged_view env a = JObj [(''alertId'', JStr (al_id a)),
     (''status'', JStr (alert_status_name (al_status a))),
     (''acknowledgedAt'', json_option (json_date env) (al_acknowledgedAt a))]"

definition event_intervention_view :: "intervention_row \<Rightarrow> json" where
  "event_intervention_view i = JObj
     [(''interventionId'', JStr (iv_id i)), (''type'', JStr (intervention_name (iv_type i))),
      (''status'', JStr (intervention_status_name (iv_status i))),
      (''mode'', JStr (control_mode_name (iv_mode i)))]"

definition security_event_view :: "api_env \<Rightarrow> db \<Rightarrow> risk_event_row \<Rightarrow> json" where
  "security_event_view env d e = JObj
     [(''riskEventId'', JStr (re_id e)), (''callId'', JStr (re_call e)),
      (''eventSequence'', JStr (int_string (re_eventSequence e))),
      (''priorState'', JStr (risk_state_name (re_priorState e))),
      (''state'', JStr (risk_state_name (re_state e))),
      (''mode'', JStr (control_mode_name (re_mode e))), (''reasonCode'', JStr (re_reasonCode e)),
      (''policyVersion'', JStr (re_policyVersion e)), (''occurredAt'', json_date env (re_occurredAt e)),
      (''interventions'', JArr (map event_intervention_view
         (filter (\<lambda>i. iv_org i = re_org e \<and> iv_riskEvent i = re_id e) (d_interventions d))))]"

definition summary_view :: "DashboardSummary \<Rightarrow> json" where
  "summary_view r = JObj
     [(''activeCalls'', JNum (of_nat (ds_activeCalls r))),
      (''unacknowledgedAlerts'', JNum (of_nat (ds_unacknowledgedAlerts r))),
      (''activeInterventions'', JNum (of_nat (ds_activeInterventions r))),
      (''riskEventsByState'', JObj (map (\<lambda>(state, n). (risk_state_name state, JNum (of_nat n)))
         (ds_riskEventsByState r)))]"

section \<open>Calls\<close>

record CreateCallDto =
  cd_riskPolicyId :: uuid
  cd_riskPolicyVersion :: string
  cd_expectedTrustedSpeakerId :: "uuid option"
  cd_protectedActionReference :: "string option"
  cd_maximumParticipants :: rat

record InviteParticipantDto =
  id_role :: ParticipantRole
  id_membershipId :: "uuid option"
  id_trustedSpeakerId :: "uuid option"
  id_displayName :: "string option"

definition calls_create_route ::
  "api_env \<Rightarrow> api_request \<Rightarrow> CreateCallDto \<Rightarrow> AuthPrincipal \<Rightarrow> json sop" where
  "calls_create_route env request body subject =
     bindM (idempotency_key request) (\<lambda>key.
     bindM (in_world (calls_create (ap_providers env) subject
       \<lparr>cc_riskPolicyId = cd_riskPolicyId body, cc_riskPolicyVersion = cd_riskPolicyVersion body,
        cc_expectedTrustedSpeakerId = cd_expectedTrustedSpeakerId body,
        cc_protectedActionReference = cd_protectedActionReference body,
        cc_idempotencyKey = key, cc_maximumParticipants = cd_maximumParticipants body,
        cc_correlationId = rq_requestId request\<rparr>)) (\<lambda>call.
     returnM (callView env call)))"

definition calls_invite_route ::
  "api_env \<Rightarrow> api_request \<Rightarrow> uuid \<Rightarrow> InviteParticipantDto \<Rightarrow> AuthPrincipal \<Rightarrow> json sop" where
  "calls_invite_route env request callId body subject =
     thenM (uuid_pipe env callId)
     (bindM (idempotency_key request) (\<lambda>key.
      bindM (in_world (calls_invite (ap_providers env) subject
        \<lparr>ip_callId = callId, ip_role = id_role body, ip_membershipId = id_membershipId body,
         ip_trustedSpeakerId = id_trustedSpeakerId body, ip_displayName = id_displayName body,
         ip_idempotencyKey = key, ip_correlationId = rq_requestId request\<rparr>)) (\<lambda>(participant, grant).
      returnM (JObj ([(''participantId'', JStr (cp_id participant)),
        (''role'', JStr (role_name (cp_role participant)))] @ grant_fields env grant)))))"

definition calls_join_route ::
  "api_env \<Rightarrow> api_request \<Rightarrow> uuid \<Rightarrow> uuid \<Rightarrow> AuthPrincipal \<Rightarrow> json sop" where
  "calls_join_route env request callId participantId subject =
     thenM (uuid_pipe env callId)
     (bindM (in_world (calls_answer (ap_providers env) subject callId participantId
               (rq_requestId request))) (\<lambda>grant.
      returnM (JObj (grant_fields env grant))))"

definition calls_end_route ::
  "api_env \<Rightarrow> api_request \<Rightarrow> uuid \<Rightarrow> AuthPrincipal \<Rightarrow> json sop" where
  "calls_end_route env request callId subject =
     thenM (uuid_pipe env callId)
     (bindM (idempotency_key request) (\<lambda>key.
      bindM (in_world (calls_end (ap_providers env) subject callId key (rq_requestId request)))
        (\<lambda>call. returnM (callView env call))))"

definition calls_active_route :: "api_env \<Rightarrow> PageRequest \<Rightarrow> AuthPrincipal \<Rightarrow> json sop" where
  "calls_active_route env page subject =
     bindM (in_world (queries_active (ap_codec env) subject page)) (\<lambda>found.
     returnM (json_page (callView env) found))"

definition calls_events_route :: "api_env \<Rightarrow> uuid \<Rightarrow> PageRequest \<Rightarrow> AuthPrincipal \<Rightarrow> json sop" where
  "calls_events_route env callId page subject =
     thenM (uuid_pipe env callId)
     (bindM (in_world (queries_riskEvents (ap_codec env) subject callId page)) (\<lambda>found.
      returnM (json_page (call_event_view env) found)))"

definition calls_assessments_route ::
  "api_env \<Rightarrow> uuid \<Rightarrow> PageRequest \<Rightarrow> AuthPrincipal \<Rightarrow> json sop" where
  "calls_assessments_route env callId page subject =
     thenM (uuid_pipe env callId)
     (bindM (in_world (queries_riskAssessments (ap_codec env) subject callId page)) (\<lambda>found.
      returnM (json_page (assessment_view env) found)))"

definition calls_current_route :: "api_env \<Rightarrow> uuid \<Rightarrow> AuthPrincipal \<Rightarrow> json sop" where
  "calls_current_route env callId subject =
     thenM (uuid_pipe env callId)
     (bindM (in_world (queries_current subject callId)) (\<lambda>found.
      returnM (current_view env found)))"

section \<open>Interventions\<close>

definition resolve_of :: "api_request \<Rightarrow> uuid \<Rightarrow> string \<Rightarrow> ResolveInput" where
  "resolve_of request interventionId key =
     \<lparr>rv_interventionId = interventionId, rv_idempotencyKey = key,
      rv_correlationId = rq_requestId request\<rparr>"

definition intervention_route ::
  "api_env \<Rightarrow> api_request \<Rightarrow> uuid \<Rightarrow> (ResolveInput \<Rightarrow> intervention_row op) \<Rightarrow> json sop" where
  "intervention_route env request interventionId operation =
     thenM (uuid_pipe env interventionId)
     (bindM (idempotency_key request) (\<lambda>key.
      bindM (in_world (operation (resolve_of request interventionId key))) (\<lambda>intervention.
      returnM (intervention_view intervention))))"

definition acknowledge_route :: "api_env \<Rightarrow> api_request \<Rightarrow> uuid \<Rightarrow> AuthPrincipal \<Rightarrow> json sop" where
  "acknowledge_route env request interventionId subject =
     intervention_route env request interventionId (acknowledge subject)"

definition hold_route :: "api_env \<Rightarrow> api_request \<Rightarrow> uuid \<Rightarrow> AuthPrincipal \<Rightarrow> json sop" where
  "hold_route env request interventionId subject =
     intervention_route env request interventionId (hold subject)"

definition cancel_route ::
  "api_env \<Rightarrow> api_request \<Rightarrow> uuid \<Rightarrow> string \<Rightarrow> AuthPrincipal \<Rightarrow> json sop" where
  "cancel_route env request interventionId reasonCode subject =
     intervention_route env request interventionId (\<lambda>input. cancel subject input reasonCode)"

definition release_route ::
  "api_env \<Rightarrow> api_request \<Rightarrow> uuid \<Rightarrow> uuid \<Rightarrow> AuthPrincipal \<Rightarrow> json sop" where
  "release_route env request interventionId verificationChallengeId subject =
     intervention_route env request interventionId
       (\<lambda>input. releaseAfterIndependentVerification subject input verificationChallengeId)"

definition challenge_route ::
  "api_env \<Rightarrow> api_request \<Rightarrow> uuid \<Rightarrow> string \<Rightarrow> AuthPrincipal \<Rightarrow> json sop" where
  "challenge_route env request interventionId body_method subject =
     thenM (uuid_pipe env interventionId)
     (bindM (idempotency_key request) (\<lambda>key.
      bindM (in_world (stepup_request (ap_config env) subject interventionId body_method key))
        (\<lambda>challenge. returnM (challenge_view env challenge))))"

definition verification_route ::
  "api_env \<Rightarrow> api_request \<Rightarrow> uuid \<Rightarrow> uuid \<Rightarrow> VerificationStatus \<Rightarrow> string \<Rightarrow> json sop" where
  "verification_route env request challengeId organizationId result resultCode =
     thenM (service_guards env request SWAR_VERIFIER CAT_SENSITIVE)
     (thenM (uuid_pipe env challengeId)
      (bindM (in_world (stepup_complete organizationId challengeId result resultCode))
        (\<lambda>challenge. returnM (challenge_result_view challenge))))"

section \<open>Speakers, consent and voiceprints\<close>

text \<open>
  A declared field of a contract's class is a property of its instances even when the request does not
  give it: it is \<open>undefined\<close>, which has no place in a fingerprint.
\<close>

definition payload_of :: "(string \<times> json option) list \<Rightarrow> err + json" where
  "payload_of entries =
     (if list_ex (\<lambda>(name, value). value = None) entries
      then Inl (Error ''Idempotency payload contains an unsupported value.'')
      else Inr (JObj (map (\<lambda>(name, value). (name, or_default value JNull)) entries)))"

definition idempotent_route ::
  "api_env \<Rightarrow> AuthPrincipal \<Rightarrow> string \<Rightarrow> string \<Rightarrow> err + json \<Rightarrow> json sop \<Rightarrow> json sop" where
  "idempotent_route env subject scope key payload operation =
     (let request = \<lparr>iq_scope = pr_organizationId subject @ scope, iq_key = key,
            iq_payload = (case payload of Inl e \<Rightarrow> JNull | Inr p \<Rightarrow> p)\<rparr> in
      case payload of
        Inl e \<Rightarrow>
          thenM (guardM (request_valid request) (Error ''Idempotency scope or key is invalid.''))
          (bindM (in_world now) (\<lambda>t.
           thenM (modifyM (\<lambda>s. s\<lparr>sv_entries := purgeExpired t (sv_entries s)\<rparr>)) (throwM e)))
      | Inr p \<Rightarrow> idempotently env request operation)"

definition speaker_payload :: "NewTrustedSpeaker \<Rightarrow> err + json" where
  "speaker_payload body = payload_of [(''label'', Some (JStr (ns_label body))),
     (''userId'', map_option JStr (ns_userId body)),
     (''externalReference'', map_option JStr (ns_externalReference body))]"

definition speaker_view :: "speaker_row \<Rightarrow> json" where
  "speaker_view s = JObj [(''trustedSpeakerId'', JStr (ts_id s)),
     (''status'', JStr (speaker_status_name (ts_status s))), (''label'', JStr (ts_label s))]"

definition speaker_route ::
  "api_env \<Rightarrow> api_request \<Rightarrow> NewTrustedSpeaker \<Rightarrow> AuthPrincipal \<Rightarrow> json sop" where
  "speaker_route env request body subject =
     bindM (idempotency_key request) (\<lambda>key.
     idempotent_route env subject '':trusted-speaker'' key (speaker_payload body)
       (bindM (in_world (speakers_create subject body (rq_requestId request) (Some key))) (\<lambda>speaker.
        returnM (speaker_view speaker))))"

record GrantConsentDto =
  gd_purposeCode :: string
  gd_noticeVersion :: string
  gd_consentAffirmed :: bool
  gd_expiresAt :: "string option"

definition consent_payload :: "uuid \<Rightarrow> GrantConsentDto \<Rightarrow> err + json" where
  "consent_payload trustedSpeakerId body = payload_of
     [(''trustedSpeakerId'', Some (JStr trustedSpeakerId)),
      (''purposeCode'', Some (JStr (gd_purposeCode body))),
      (''noticeVersion'', Some (JStr (gd_noticeVersion body))),
      (''consentAffirmed'', Some (JBool (gd_consentAffirmed body))),
      (''expiresAt'', map_option JStr (gd_expiresAt body))]"

definition consent_view :: "api_env \<Rightarrow> consent_row \<Rightarrow> json" where
  "consent_view env c = JObj [(''consentId'', JStr (co_id c)),
     (''trustedSpeakerId'', JStr (co_speaker c)),
     (''status'', JStr (consent_status_name (co_status c))),
     (''expiresAt'', json_option (json_date env) (co_expiresAt c))]"

definition consent_route ::
  "api_env \<Rightarrow> api_request \<Rightarrow> uuid \<Rightarrow> GrantConsentDto \<Rightarrow> AuthPrincipal \<Rightarrow> json sop" where
  "consent_route env request trustedSpeakerId body subject =
     thenM (uuid_pipe env trustedSpeakerId)
     (bindM (idempotency_key request) (\<lambda>key.
      idempotent_route env subject '':enrollment-consent'' key (consent_payload trustedSpeakerId body)
        (bindM (in_world (speakers_grantConsent subject
          \<lparr>gc_trustedSpeakerId = trustedSpeakerId, gc_purposeCode = gd_purposeCode body,
           gc_noticeVersion = gd_noticeVersion body, gc_consentAffirmed = gd_consentAffirmed body,
           gc_expiresAt = map_option (ap_parseDate env) (gd_expiresAt body),
           gc_correlationId = rq_requestId request\<rparr>)) (\<lambda>consent.
         returnM (consent_view env consent)))))"

definition revoke_consent_route ::
  "api_env \<Rightarrow> api_request \<Rightarrow> uuid \<Rightarrow> string \<Rightarrow> AuthPrincipal \<Rightarrow> json sop" where
  "revoke_consent_route env request consentId reasonCode subject =
     thenM (uuid_pipe env consentId)
     (bindM (idempotency_key request) (\<lambda>key.
      bindM (in_world (speakers_revokeConsent (ap_providers env) subject consentId reasonCode key
               (rq_requestId request))) (\<lambda>consent.
      returnM (JObj [(''consentId'', JStr (co_id consent)),
        (''status'', JStr (consent_status_name (co_status consent)))]))))"

definition delete_voiceprint_route ::
  "api_env \<Rightarrow> api_request \<Rightarrow> uuid \<Rightarrow> AuthPrincipal \<Rightarrow> json sop" where
  "delete_voiceprint_route env request voiceprintId subject =
     thenM (uuid_pipe env voiceprintId)
     (bindM (idempotency_key request) (\<lambda>key.
      bindM (in_world (speakers_deleteVoiceprint (ap_providers env) subject voiceprintId key
               (rq_requestId request))) (\<lambda>voiceprint.
      returnM (JObj [(''voiceprintId'', JStr (vp_id voiceprint)),
        (''status'', JStr (voiceprint_status_name (vp_status voiceprint)))]))))"

section \<open>Voice enrollment\<close>

record UploadedAudioFile =
  uf_mimetype :: string
  uf_size :: int
  uf_buffer :: string

record VoiceEnrollmentDto =
  vd_trustedSpeakerId :: uuid
  vd_consentId :: uuid
  vd_expectedModelVersionId :: uuid
  vd_declaredDurationsMs :: string

text \<open>The buffers that the framework keeps the uploaded files in, and their overwriting with zeros.\<close>

definition wipe_uploads :: "unit sop" where
  "wipe_uploads =
     modifyM (\<lambda>s. s\<lparr>sv_uploads := map (\<lambda>b. replicate (length b) (CHR 0x00)) (sv_uploads s)\<rparr>)"

definition upload_refused :: "api_config \<Rightarrow> UploadedAudioFile list option \<Rightarrow> bool" where
  "upload_refused limits files = (case files of
     None \<Rightarrow> True
   | Some fs \<Rightarrow> fs = [] \<or> enrollmentMaximumSamples limits < int (length fs) \<or>
       list_ex (\<lambda>f. \<not> starts_with ''audio/'' (map ascii_lower (uf_mimetype f)) \<or>
         enrollmentMaximumSampleBytes limits < uf_size f) fs \<or>
       enrollmentMaximumTotalBytes limits < sum_list (map uf_size fs))"

fun duration_allowed :: "int \<Rightarrow> json \<Rightarrow> bool" where
  "duration_allowed maximum (JNum x) \<longleftrightarrow> of_int \<lfloor>x\<rfloor> = x \<and> 250 \<le> x \<and> x \<le> of_int maximum"
| "duration_allowed maximum v \<longleftrightarrow> False"

definition declaredDurations :: "api_env \<Rightarrow> string \<Rightarrow> nat \<Rightarrow> int \<Rightarrow> err + json list" where
  "declaredDurations env raw expected maximum = (case ap_parseJson env raw of
     Some (JArr vs) \<Rightarrow>
       if length vs \<noteq> expected \<or> list_ex (\<lambda>v. \<not> duration_allowed maximum v) vs
       then Inl (ApiError ''VALIDATION_FAILED'' 400 []) else Inr vs
   | _ \<Rightarrow> Inl (ApiError ''VALIDATION_FAILED'' 400 []))"

definition enroll_uploads ::
  "api_env \<Rightarrow> api_request \<Rightarrow> VoiceEnrollmentDto \<Rightarrow> string \<Rightarrow> AuthPrincipal \<Rightarrow> json sop" where
  "enroll_uploads env request body key subject = (\<lambda>s.
     case in_world (enroll (ap_providers env) subject
            \<lparr>ei_operationId = key, ei_trustedSpeakerId = vd_trustedSpeakerId body,
             ei_consentId = vd_consentId body,
             ei_expectedModelVersionId = vd_expectedModelVersionId body,
             ei_idempotencyKey = key, ei_correlationId = rq_requestId request\<rparr>) s of
       (Inl e, s1) \<Rightarrow> (Inl e, snd (wipe_uploads s1))
     | (Inr voiceprint, s1) \<Rightarrow>
         (Inr (JObj [(''voiceprintId'', JStr (vp_id voiceprint)),
            (''trustedSpeakerId'', JStr (vp_speaker voiceprint)),
            (''modelVersionId'', JStr (vp_model voiceprint)),
            (''status'', JStr (voiceprint_status_name (vp_status voiceprint)))]),
          snd (wipe_uploads s1)))"

definition enroll_route ::
  "api_env \<Rightarrow> api_request \<Rightarrow> VoiceEnrollmentDto \<Rightarrow> UploadedAudioFile list option \<Rightarrow>
   AuthPrincipal \<Rightarrow> json sop" where
  "enroll_route env request body files subject =
     (let limits = c_api (ap_config env); uploaded = or_default files [] in
      if upload_refused limits files
      then thenM wipe_uploads (throwM (ApiError ''VALIDATION_FAILED'' 400 []))
      else
        bindM (liftE (declaredDurations env (vd_declaredDurationsMs body) (length uploaded)
                 (enrollmentMaximumDeclaredDurationMs limits))) (\<lambda>_.
        bindM (idempotency_key request) (\<lambda>key.
        thenM (in_world (ephemeral_audio (map uf_buffer uploaded)))
        (enroll_uploads env request body key subject))))"

section \<open>Security operations and policies\<close>

definition alerts_route :: "api_env \<Rightarrow> PageRequest \<Rightarrow> AuthPrincipal \<Rightarrow> json sop" where
  "alerts_route env page subject =
     bindM (in_world (operations_activeAlerts (ap_codec env) subject page)) (\<lambda>found.
     bindM (getM (\<lambda>s. w_db (sv_world s))) (\<lambda>d.
     returnM (json_page (alert_view env d) found)))"

definition alert_acknowledge_route ::
  "api_env \<Rightarrow> api_request \<Rightarrow> uuid \<Rightarrow> AuthPrincipal \<Rightarrow> json sop" where
  "alert_acknowledge_route env request alertId subject =
     thenM (uuid_pipe env alertId)
     (bindM (idempotency_key request) (\<lambda>key.
      bindM (in_world (operations_acknowledgeAlert subject alertId key (rq_requestId request)))
        (\<lambda>alert. returnM (acknowledged_view env alert))))"

definition security_events_route ::
  "api_env \<Rightarrow> PageRequest \<Rightarrow> uuid option \<Rightarrow> AuthPrincipal \<Rightarrow> json sop" where
  "security_events_route env page callId subject =
     thenM (case callId of None \<Rightarrow> returnM () | Some c \<Rightarrow> uuid_pipe env c)
     (bindM (in_world (operations_securityEvents (ap_codec env) subject page callId)) (\<lambda>found.
      bindM (getM (\<lambda>s. w_db (sv_world s))) (\<lambda>d.
      returnM (json_page (security_event_view env d) found))))"

definition summary_route :: "AuthPrincipal \<Rightarrow> json sop" where
  "summary_route subject =
     bindM (in_world (operations_dashboardSummary subject)) (\<lambda>found. returnM (summary_view found))"

definition policy_active_route :: "api_env \<Rightarrow> string \<Rightarrow> AuthPrincipal \<Rightarrow> json sop" where
  "policy_active_route env policyKey subject =
     bindM (in_world (policies_active subject policyKey)) (\<lambda>policy. returnM (policyView env policy))"

definition policy_payload :: "PutPolicyInput \<Rightarrow> json" where
  "policy_payload input = JObj [(''policyKey'', JStr (pp_policyKey input)),
     (''version'', JStr (pp_version input)), (''schemaVersion'', JStr (pp_schemaVersion input)),
     (''policyDocument'', pp_policyDocument input), (''activate'', JBool (pp_activate input))]"

definition policy_put_route ::
  "api_env \<Rightarrow> api_request \<Rightarrow> PutPolicyInput \<Rightarrow> AuthPrincipal \<Rightarrow> json sop" where
  "policy_put_route env request input subject =
     bindM (idempotency_key request) (\<lambda>key.
     idempotently env
       \<lparr>iq_scope = pr_organizationId subject @ '':risk-policy'', iq_key = key,
        iq_payload = policy_payload input\<rparr>
       (bindM (in_world (policies_put (c_risk (ap_config env)) subject input)) (\<lambda>policy.
        returnM (policyView env policy))))"

section \<open>Members' requests\<close>

text \<open>For each controller its routes, what their decorators ask for, and their handlers.\<close>

datatype calls_route =
    CreateCall CreateCallDto
  | InviteParticipant uuid InviteParticipantDto
  | JoinCall uuid uuid
  | EndCall uuid
  | ActiveCalls PageRequest
  | CallRiskEvents uuid PageRequest
  | CallRiskAssessments uuid PageRequest
  | CurrentCallState uuid

fun calls_permission :: "calls_route \<Rightarrow> Permission" where
  "calls_permission (CreateCall body) = P_call_create"
| "calls_permission (InviteParticipant callId body) = P_call_create"
| "calls_permission (JoinCall callId participantId) = P_call_read"
| "calls_permission (EndCall callId) = P_call_end"
| "calls_permission (ActiveCalls page) = P_call_read"
| "calls_permission (CallRiskEvents callId page) = P_risk_event_read"
| "calls_permission (CallRiskAssessments callId page) = P_risk_event_read"
| "calls_permission (CurrentCallState callId) = P_call_read"

fun calls_category :: "calls_route \<Rightarrow> ApiRateLimitCategory" where
  "calls_category (CreateCall body) = CAT_MUTATION"
| "calls_category (InviteParticipant callId body) = CAT_MUTATION"
| "calls_category (JoinCall callId participantId) = CAT_SENSITIVE"
| "calls_category (EndCall callId) = CAT_MUTATION"
| "calls_category (ActiveCalls page) = CAT_QUERY"
| "calls_category (CallRiskEvents callId page) = CAT_QUERY"
| "calls_category (CallRiskAssessments callId page) = CAT_QUERY"
| "calls_category (CurrentCallState callId) = CAT_QUERY"

fun calls_handler ::
  "api_env \<Rightarrow> api_request \<Rightarrow> calls_route \<Rightarrow> AuthPrincipal \<Rightarrow> json sop" where
  "calls_handler env request (CreateCall body) =
     calls_create_route env request body"
| "calls_handler env request (InviteParticipant callId body) =
     calls_invite_route env request callId body"
| "calls_handler env request (JoinCall callId participantId) =
     calls_join_route env request callId participantId"
| "calls_handler env request (EndCall callId) =
     calls_end_route env request callId"
| "calls_handler env request (ActiveCalls page) =
     calls_active_route env page"
| "calls_handler env request (CallRiskEvents callId page) =
     calls_events_route env callId page"
| "calls_handler env request (CallRiskAssessments callId page) =
     calls_assessments_route env callId page"
| "calls_handler env request (CurrentCallState callId) =
     calls_current_route env callId"

datatype interventions_route =
    AcknowledgeIntervention uuid
  | HoldIntervention uuid
  | CancelIntervention uuid string
  | RequestChallenge uuid string
  | ReleaseIntervention uuid uuid

fun interventions_permission :: "interventions_route \<Rightarrow> Permission" where
  "interventions_permission (AcknowledgeIntervention i) = P_intervention_resolve"
| "interventions_permission (HoldIntervention i) = P_intervention_resolve"
| "interventions_permission (CancelIntervention i reason) = P_intervention_resolve"
| "interventions_permission (RequestChallenge i m) = P_intervention_resolve"
| "interventions_permission (ReleaseIntervention i c) = P_intervention_resolve"

fun interventions_category :: "interventions_route \<Rightarrow> ApiRateLimitCategory" where
  "interventions_category (AcknowledgeIntervention i) = CAT_MUTATION"
| "interventions_category (HoldIntervention i) = CAT_SENSITIVE"
| "interventions_category (CancelIntervention i reason) = CAT_SENSITIVE"
| "interventions_category (RequestChallenge i m) = CAT_SENSITIVE"
| "interventions_category (ReleaseIntervention i c) = CAT_SENSITIVE"

fun interventions_handler ::
  "api_env \<Rightarrow> api_request \<Rightarrow> interventions_route \<Rightarrow> AuthPrincipal \<Rightarrow> json sop" where
  "interventions_handler env request (AcknowledgeIntervention i) =
     acknowledge_route env request i"
| "interventions_handler env request (HoldIntervention i) =
     hold_route env request i"
| "interventions_handler env request (CancelIntervention i reason) =
     cancel_route env request i reason"
| "interventions_handler env request (RequestChallenge i m) =
     challenge_route env request i m"
| "interventions_handler env request (ReleaseIntervention i c) =
     release_route env request i c"

datatype speakers_route =
    CreateSpeaker NewTrustedSpeaker
  | GrantConsent uuid GrantConsentDto
  | RevokeConsent uuid string
  | DeleteVoiceprint uuid

fun speakers_permission :: "speakers_route \<Rightarrow> Permission" where
  "speakers_permission (CreateSpeaker body) = P_enrollment_manage"
| "speakers_permission (GrantConsent speaker body) = P_enrollment_manage"
| "speakers_permission (RevokeConsent consentId reason) = P_enrollment_manage"
| "speakers_permission (DeleteVoiceprint voiceprintId) = P_voiceprint_delete"

fun speakers_category :: "speakers_route \<Rightarrow> ApiRateLimitCategory" where
  "speakers_category (CreateSpeaker body) = CAT_SENSITIVE"
| "speakers_category (GrantConsent speaker body) = CAT_SENSITIVE"
| "speakers_category (RevokeConsent consentId reason) = CAT_SENSITIVE"
| "speakers_category (DeleteVoiceprint voiceprintId) = CAT_SENSITIVE"

fun speakers_handler ::
  "api_env \<Rightarrow> api_request \<Rightarrow> speakers_route \<Rightarrow> AuthPrincipal \<Rightarrow> json sop" where
  "speakers_handler env request (CreateSpeaker body) =
     speaker_route env request body"
| "speakers_handler env request (GrantConsent speaker body) =
     consent_route env request speaker body"
| "speakers_handler env request (RevokeConsent consentId reason) =
     revoke_consent_route env request consentId reason"
| "speakers_handler env request (DeleteVoiceprint voiceprintId) =
     delete_voiceprint_route env request voiceprintId"

datatype enrollment_route =
    EnrollVoice VoiceEnrollmentDto "UploadedAudioFile list option"

fun enrollment_permission :: "enrollment_route \<Rightarrow> Permission" where
  "enrollment_permission (EnrollVoice body files) = P_enrollment_manage"

fun enrollment_category :: "enrollment_route \<Rightarrow> ApiRateLimitCategory" where
  "enrollment_category (EnrollVoice body files) = CAT_SENSITIVE"

fun enrollment_handler ::
  "api_env \<Rightarrow> api_request \<Rightarrow> enrollment_route \<Rightarrow> AuthPrincipal \<Rightarrow> json sop" where
  "enrollment_handler env request (EnrollVoice body files) =
     enroll_route env request body files"

datatype operations_route =
    ActiveAlerts PageRequest
  | AcknowledgeAlert uuid
  | SecurityEvents PageRequest "uuid option"
  | DashboardSummaryOf

fun operations_permission :: "operations_route \<Rightarrow> Permission" where
  "operations_permission (ActiveAlerts page) = P_risk_event_read"
| "operations_permission (AcknowledgeAlert alertId) = P_intervention_resolve"
| "operations_permission (SecurityEvents page callId) = P_risk_event_read"
| "operations_permission DashboardSummaryOf = P_risk_event_read"

fun operations_category :: "operations_route \<Rightarrow> ApiRateLimitCategory" where
  "operations_category (ActiveAlerts page) = CAT_QUERY"
| "operations_category (AcknowledgeAlert alertId) = CAT_MUTATION"
| "operations_category (SecurityEvents page callId) = CAT_QUERY"
| "operations_category DashboardSummaryOf = CAT_QUERY"

fun operations_handler ::
  "api_env \<Rightarrow> api_request \<Rightarrow> operations_route \<Rightarrow> AuthPrincipal \<Rightarrow> json sop" where
  "operations_handler env request (ActiveAlerts page) =
     alerts_route env page"
| "operations_handler env request (AcknowledgeAlert alertId) =
     alert_acknowledge_route env request alertId"
| "operations_handler env request (SecurityEvents page callId) =
     security_events_route env page callId"
| "operations_handler env request DashboardSummaryOf =
     summary_route"

datatype policy_route =
    ActivePolicy string
  | PutPolicy PutPolicyInput

fun policy_permission :: "policy_route \<Rightarrow> Permission" where
  "policy_permission (ActivePolicy key) = P_risk_policy_read"
| "policy_permission (PutPolicy input) = P_risk_policy_manage"

fun policy_category :: "policy_route \<Rightarrow> ApiRateLimitCategory" where
  "policy_category (ActivePolicy key) = CAT_QUERY"
| "policy_category (PutPolicy input) = CAT_SENSITIVE"

fun policy_handler ::
  "api_env \<Rightarrow> api_request \<Rightarrow> policy_route \<Rightarrow> AuthPrincipal \<Rightarrow> json sop" where
  "policy_handler env request (ActivePolicy key) =
     policy_active_route env key"
| "policy_handler env request (PutPolicy input) =
     policy_put_route env request input"

datatype member_route =
    CallsRoute calls_route
  | InterventionsRoute interventions_route
  | SpeakersRoute speakers_route
  | EnrollmentRoute enrollment_route
  | OperationsRoute operations_route
  | PolicyRoute policy_route

fun route_permission :: "member_route \<Rightarrow> Permission" where
  "route_permission (CallsRoute r) = calls_permission r"
| "route_permission (InterventionsRoute r) = interventions_permission r"
| "route_permission (SpeakersRoute r) = speakers_permission r"
| "route_permission (EnrollmentRoute r) = enrollment_permission r"
| "route_permission (OperationsRoute r) = operations_permission r"
| "route_permission (PolicyRoute r) = policy_permission r"

fun route_category :: "member_route \<Rightarrow> ApiRateLimitCategory" where
  "route_category (CallsRoute r) = calls_category r"
| "route_category (InterventionsRoute r) = interventions_category r"
| "route_category (SpeakersRoute r) = speakers_category r"
| "route_category (EnrollmentRoute r) = enrollment_category r"
| "route_category (OperationsRoute r) = operations_category r"
| "route_category (PolicyRoute r) = policy_category r"

fun route_handler :: "api_env \<Rightarrow> api_request \<Rightarrow> member_route \<Rightarrow> AuthPrincipal \<Rightarrow> json sop" where
  "route_handler env request (CallsRoute r) = calls_handler env request r"
| "route_handler env request (InterventionsRoute r) = interventions_handler env request r"
| "route_handler env request (SpeakersRoute r) = speakers_handler env request r"
| "route_handler env request (EnrollmentRoute r) = enrollment_handler env request r"
| "route_handler env request (OperationsRoute r) = operations_handler env request r"
| "route_handler env request (PolicyRoute r) = policy_handler env request r"

definition member_request :: "api_env \<Rightarrow> api_request \<Rightarrow> member_route \<Rightarrow> json sop" where
  "member_request env request route =
     bindM (member_guards env request (route_permission route) (route_category route)) (\<lambda>subject.
     route_handler env request route subject)"

section \<open>Services' requests\<close>

definition evidence_route :: "api_env \<Rightarrow> api_request \<Rightarrow> MlEvidenceDto \<Rightarrow> IngestionResponse sop" where
  "evidence_route env request body =
     thenM (service_guards env request SWAR_ML CAT_MUTATION)
     (in_world (ingest_route (ap_ingestion env) (rq_idempotencyKey request) body))"

definition webhook_request ::
  "api_env \<Rightarrow> string \<Rightarrow> VerifiedLiveKitLifecycleEvent \<Rightarrow> IdempotentRequest" where
  "webhook_request env rawBody verified =
     \<lparr>iq_scope = ''livekit-webhook'', iq_key = ''lk_'' @ ap_sha256 env (lk_eventId verified),
      iq_payload = JObj [(''eventId'', JStr (lk_eventId verified)),
        (''bodyHash'', JStr (ap_sha256 env rawBody))]\<rparr>"

definition webhook_route :: "api_env \<Rightarrow> api_request \<Rightarrow> string option \<Rightarrow> unit sop" where
  "webhook_route env request body = (case body of
     None \<Rightarrow> throwM (Error ''Verified webhook raw body is unavailable.'')
   | Some rawBody \<Rightarrow>
       bindM (liftE (requireSingleHeader (rq_authorization request) ''authorization'')) (\<lambda>authorization.
       bindM (liftE (verifyWebhook (ap_upper env) (ap_receive env rawBody authorization))) (\<lambda>verified.
       bindM (idempotently env (webhook_request env rawBody verified)
         (bindM (in_world (handleVerifiedLifecycle (ap_providers env) verified)) (\<lambda>_.
          returnM (JObj [(''accepted'', JBool True)])))) (\<lambda>_. returnM ()))))"

section \<open>Lemmas\<close>

text \<open>
  A speaker needs both of its optional fields, and a consent its end: without them the request has no
  fingerprint and fails, although the contract and the service accept it.
\<close>

lemma idempotent_route_without_fingerprint:
  "\<exists>e' s'. idempotent_route env subject scope key (Inl e) operation s = (Inl e', s') \<and>
     w_db (sv_world s') = w_db (sv_world s)"
  by (auto simp: idempotent_route_def Let_def thenM_def guardM_def bindM_def returnM_def throwM_def
      modifyM_def in_world_def now_def)

lemma speaker_without_optional_field_refused:
  assumes "ns_userId body = None \<or> ns_externalReference body = None"
  shows "\<exists>e s'. speaker_route env request body subject s = (Inl e, s') \<and>
    w_db (sv_world s') = w_db (sv_world s)"
proof -
  obtain e where e: "speaker_payload body = Inl e"
    using assms unfolding speaker_payload_def by (auto simp: payload_of_def)
  show ?thesis
    using idempotent_route_without_fingerprint
    by (cases "requireIdempotencyKey (rq_idempotencyKey request)")
      (simp_all add: speaker_route_def idempotency_key_def liftE_def bindM_def e)
qed

lemma consent_without_end_refused:
  assumes "gd_expiresAt body = None"
  shows "\<exists>e s'. consent_route env request speaker body subject s = (Inl e, s') \<and>
    w_db (sv_world s') = w_db (sv_world s)"
proof -
  obtain e where e: "consent_payload speaker body = Inl e"
    using assms unfolding consent_payload_def by (auto simp: payload_of_def)
  show ?thesis
    using idempotent_route_without_fingerprint
    by (cases "ap_isUuid env speaker"; cases "requireIdempotencyKey (rq_idempotencyKey request)")
      (simp_all add: consent_route_def uuid_pipe_def guardM_def thenM_def returnM_def throwM_def
        idempotency_key_def liftE_def bindM_def e)
qed

text \<open>An enrollment with declared durations that are refused leaves the uploaded samples as they are.\<close>

lemma samples_kept_on_bad_durations:
  assumes "\<not> upload_refused (c_api (ap_config env)) (Some fs)"
    and "declaredDurations env (vd_declaredDurationsMs body) (length fs)
           (enrollmentMaximumDeclaredDurationMs (c_api (ap_config env))) = Inl e"
  shows "enroll_route env request body (Some fs) subject s = (Inl e, s)"
  using assms by (simp add: enroll_route_def or_default_def Let_def liftE_def bindM_def)

lemma wipe_uploads_run:
  "wipe_uploads s = (Inr (), s\<lparr>sv_uploads := map (\<lambda>b. replicate (length b) (CHR 0x00)) (sv_uploads s)\<rparr>)"
  by (simp add: wipe_uploads_def modifyM_def)

lemma refused_samples_wiped:
  "upload_refused (c_api (ap_config env)) files \<Longrightarrow>
     enroll_route env request body files subject s =
       (Inl (ApiError ''VALIDATION_FAILED'' 400 []),
        s\<lparr>sv_uploads := map (\<lambda>b. replicate (length b) (CHR 0x00)) (sv_uploads s)\<rparr>)"
  by (simp add: enroll_route_def Let_def thenM_def bindM_def wipe_uploads_run throwM_def)

lemma enrolled_samples_wiped:
  "b \<in> set (sv_uploads (snd (enroll_uploads env request body key subject s))) \<Longrightarrow>
     \<exists>n. b = replicate n (CHR 0x00)"
  by (auto simp: enroll_uploads_def wipe_uploads_run split: prod.splits sum.splits)

section \<open>Repeated webhooks\<close>

lemma now_if_in_world:
  "in_world (now_if b) s = (let w = sv_world s in
     if b then (Inr (w_clock w (w_ticks w)), s\<lparr>sv_world := w\<lparr>w_ticks := Suc (w_ticks w)\<rparr>\<rparr>)
     else (Inr 0, s))"
  by (simp add: in_world_def now_if_def now_def returnM_def Let_def)

text \<open>What a request that goes through the service finds and leaves.\<close>

lemma idempotently_first:
  assumes run: "idempotently env q operation s = (Inr v, s')"
    and fresh: "map_of (sv_entries s) (map_key q) = None"
  shows "request_valid q \<and> map_of (sv_entries s') (map_key q) = Some
    \<lparr>en_fingerprint = fingerprintPayload (ap_idem env) (iq_payload q),
     en_expiresAt = w_clock (sv_world s) (Suc (w_ticks (sv_world s))) +
       idempotencyTtlSeconds (id_config (ap_idem env)) * 1000,
     en_state = Complete v\<rparr>"
proof -
  have kept: "map_of (purgeExpired t (sv_entries s)) (map_key q) = None" for t
    using fresh by (auto simp: purgeExpired_def map_of_eq_None_iff)
  show ?thesis
  proof (cases "request_valid q")
    case False
    with run show ?thesis
      by (simp add: idempotently_def bindM_def now_if_in_world getM_def arrive_def thenM_def modifyM_def
          throwM_def)
  next
    case True
    with run kept show ?thesis
      by (auto simp: idempotently_def bindM_def now_if_in_world getM_def arrive_def thenM_def modifyM_def
          throwM_def Let_def finish_def update_conv' split: if_splits prod.splits sum.splits)
  qed
qed

lemma map_of_filter_kept:
  "map_of entries key = Some entry \<Longrightarrow> P (key, entry) \<Longrightarrow> map_of (filter P entries) key = Some entry"
  by (induction entries) (auto split: if_splits)

lemma idempotently_again:
  assumes "request_valid q" "map_of (sv_entries s) (map_key q) = Some entry"
    and "en_state entry = Complete v" "w_clock (sv_world s) (w_ticks (sv_world s)) < en_expiresAt entry"
  shows "\<exists>s'. idempotently env q operation s =
      (if en_fingerprint entry = fingerprintPayload (ap_idem env) (iq_payload q) then Inr v
       else Inl IdempotencyConflictError, s') \<and>
    sv_world s' = (sv_world s)\<lparr>w_ticks := Suc (w_ticks (sv_world s))\<rparr>"
proof -
  have kept: "map_of (purgeExpired (w_clock (sv_world s) (w_ticks (sv_world s))) (sv_entries s))
      (map_key q) = Some entry"
    unfolding purgeExpired_def using assms(2,4) by (intro map_of_filter_kept) simp_all
  then show ?thesis
    using assms(1,3)
    by (simp add: idempotently_def bindM_def now_if_in_world getM_def arrive_def thenM_def modifyM_def
        throwM_def returnM_def Let_def)
qed

text \<open>
  C14: a LiveKit event that was handled once is not handled again while its result is stored: the same
  delivery is acknowledged without effect, and one with another body for the same event is refused, and
  neither touches the database or a provider. That two bodies have one fingerprint is decided by the
  hash.
\<close>

theorem webhook_handled_once:
  assumes first: "webhook_route env request (Some body) s = (Inr (), s1)"
    and verified: "requireSingleHeader (rq_authorization request) ''authorization'' = Inr a"
      "verifyWebhook (ap_upper env) (ap_receive env body a) = Inr event"
    and fresh: "map_of (sv_entries s) (map_key (webhook_request env body event)) = None"
    and again: "requireSingleHeader (rq_authorization request') ''authorization'' = Inr a'"
      "verifyWebhook (ap_upper env) (ap_receive env body' a') = Inr event'" "lk_eventId event' = lk_eventId event"
    and soon: "w_clock (sv_world s1) (w_ticks (sv_world s1)) < w_clock (sv_world s) (Suc (w_ticks (sv_world s))) +
      idempotencyTtlSeconds (id_config (ap_idem env)) * 1000"
  shows "\<exists>s2. webhook_route env request' (Some body') s1 =
      (if fingerprintPayload (ap_idem env) (iq_payload (webhook_request env body event)) =
          fingerprintPayload (ap_idem env) (iq_payload (webhook_request env body' event))
       then Inr () else Inl IdempotencyConflictError, s2) \<and>
    sv_world s2 = (sv_world s1)\<lparr>w_ticks := Suc (w_ticks (sv_world s1))\<rparr>"
proof -
  let ?q = "webhook_request env body event" and ?q' = "webhook_request env body' event'"
  from first verified obtain v where
    run: "idempotently env ?q (bindM (in_world (handleVerifiedLifecycle (ap_providers env) event)) (\<lambda>_.
          returnM (JObj [(''accepted'', JBool True)]))) s = (Inr v, s1)"
    by (auto simp: webhook_route_def liftE_def bindM_eq_Inr_iff returnM_def)
  from idempotently_first [OF run fresh] have stored: "request_valid ?q"
    "map_of (sv_entries s1) (map_key ?q) = Some \<lparr>en_fingerprint = fingerprintPayload (ap_idem env) (iq_payload ?q),
     en_expiresAt = w_clock (sv_world s) (Suc (w_ticks (sv_world s))) +
       idempotencyTtlSeconds (id_config (ap_idem env)) * 1000, en_state = Complete v\<rparr>"
    by simp_all
  have same: "map_key ?q' = map_key ?q" "request_valid ?q' = request_valid ?q"
    "iq_payload ?q' = iq_payload (webhook_request env body' event)"
    by (simp_all add: webhook_request_def map_key_def request_valid_def again(3))
  obtain s2 where s2: "idempotently env ?q' (bindM (in_world (handleVerifiedLifecycle (ap_providers env) event')) (\<lambda>_.
          returnM (JObj [(''accepted'', JBool True)]))) s1 =
      (if fingerprintPayload (ap_idem env) (iq_payload ?q) = fingerprintPayload (ap_idem env) (iq_payload ?q')
       then Inr v else Inl IdempotencyConflictError, s2)"
      "sv_world s2 = (sv_world s1)\<lparr>w_ticks := Suc (w_ticks (sv_world s1))\<rparr>"
    using idempotently_again [of ?q' s1 _ v env] stored soon unfolding same by fastforce
  with again(1,2) same(3) show ?thesis
    by (auto simp: webhook_route_def liftE_def bindM_def returnM_def)
qed

definition sample_api :: api_env where
  "sample_api = \<lparr>ap_config = engineering_configuration, ap_auth = sample_auth,
     ap_providers = media_env, ap_ingestion = late_env, ap_codec = sample_codec, ap_idem = sample_idem,
     ap_sha256 = (\<lambda>s. take 64 (s @ replicate 64 (CHR ''0''))), ap_iso = int_string, ap_isUuid = is_uuid,
     ap_parseJson = (\<lambda>s. None), ap_parseDate = (\<lambda>s. 0), ap_upper = (\<lambda>s. ''MICROPHONE''),
     ap_receive = (\<lambda>body authorization. Some \<lparr>rw_event = ''track_published'', rw_id = ''TR1'',
       rw_roomName = Some ''room'', rw_identity = Some ''caller'',
       rw_track = Some (''TR1'', ''microphone'', ''audio/opus''), rw_createdAt = 1\<rparr>)\<rparr>"

definition sample_http :: api_request where
  "sample_http = \<lparr>rq_method = ''POST'', rq_path = ''/api/v1'', rq_ip = None,
     rq_authorization = Some (HText (bearer @ account1)), rq_service = None,
     rq_idempotencyKey = Some ''request-00001'', rq_requestId = ''request''\<rparr>"

definition sample_server :: "world \<Rightarrow> server" where
  "sample_server w = \<lparr>sv_world = w, sv_buckets = [], sv_entries = [], sv_uploads = []\<rparr>"

theorem webhook_handled_once_witness:
  "let s1 = snd (webhook_route sample_api sample_http (Some ''a'') (sample_server (media_world media_db))) in
   \<exists>s2. webhook_route sample_api sample_http (Some ''a'') s1 = (Inr (), s2) \<and>
     w_db (sv_world s2) = w_db (sv_world s1)"
proof -
  let ?s = "sample_server (media_world media_db)"
  let ?s1 = "snd (webhook_route sample_api sample_http (Some ''a'') ?s)"
  let ?event = "\<lparr>lk_eventId = ''TR1'', lk_eventType = Track_published, lk_roomName = ''room'',
     lk_participantIdentity = Some ''caller'', lk_trackSid = Some ''TR1'',
     lk_trackSource = Some ''MICROPHONE'', lk_mimeType = Some ''audio/opus'', lk_occurredAt = 1000\<rparr>"
  have "(case webhook_route sample_api sample_http (Some ''a'') ?s of (r, s1) \<Rightarrow> r = Inr () \<and>
      w_clock (sv_world s1) (w_ticks (sv_world s1)) < w_clock (sv_world ?s) (Suc (w_ticks (sv_world ?s))) +
        idempotencyTtlSeconds (id_config (ap_idem sample_api)) * 1000)"
    by code_simp
  then have first: "webhook_route sample_api sample_http (Some ''a'') ?s = (Inr (), ?s1)"
    and soon: "w_clock (sv_world ?s1) (w_ticks (sv_world ?s1)) <
      w_clock (sv_world ?s) (Suc (w_ticks (sv_world ?s))) +
      idempotencyTtlSeconds (id_config (ap_idem sample_api)) * 1000"
    by (simp_all add: split_beta prod_eq_iff)
  have header: "requireSingleHeader (rq_authorization sample_http) ''authorization'' = Inr (bearer @ account1)"
    "verifyWebhook (ap_upper sample_api) (ap_receive sample_api ''a'' (bearer @ account1)) = Inr ?event"
    by code_simp+
  have fresh: "map_of (sv_entries ?s) (map_key (webhook_request sample_api ''a'' ?event)) = None"
    by (simp add: sample_server_def)
  obtain s2 where "webhook_route sample_api sample_http (Some ''a'') ?s1 = (Inr (), s2)"
      "sv_world s2 = (sv_world ?s1)\<lparr>w_ticks := Suc (w_ticks (sv_world ?s1))\<rparr>"
    using webhook_handled_once [OF first header fresh header refl soon] by auto
  then show ?thesis by (auto simp: Let_def)
qed

end
