(* ===== verification/Member_Routes.thy ===== *)
theory Member_Routes
  imports Routes
begin

text \<open>
  What a member's request relies on. The locale \<open>member_repositories\<close> fixes an invariant of the database
  and an organization and assumes that every repository keeps the invariant when it works for that
  organization; then every service and every route of a member of it keeps the invariant.
\<close>

named_theorems own \<open>operations on the rows of one organization\<close>

section \<open>What needs no assumption\<close>

lemma own_reads [own]:
  "keeps I (findTenantCall q i)" "keeps I (findCallAggregate q i)" "keeps I (listOpenAnalysisSessions q i)"
  "keeps I (listActiveCalls codec q page)" "keeps I (findTrustedSpeaker q i)" "keeps I (findConsent q i)"
  "keeps I (findActiveRiskPolicy q key)" "keeps I (listActiveAlerts codec q page)"
  "keeps I (listSecurityEvents codec q page c)" "keeps I (repository_dashboardSummary q)"
  "keeps I (may_do subject p)" "keeps I (call_transition a b)" "keeps I audio_view"
  unfolding findTenantCall_def findCallAggregate_def listOpenAnalysisSessions_def listActiveCalls_def
    findTrustedSpeaker_def findConsent_def findActiveRiskPolicy_def listActiveAlerts_def
    listSecurityEvents_def repository_dashboardSummary_def may_do_def call_transition_def audio_view_def
  by (rule hoare | simp)+

lemmas own_frames [own] = keeps_stop_sessions keeps_finallyM keeps_audio keeps_adapters_db

lemma own_queries [own]:
  "keeps I (queries_current subject i)" "keeps I (queries_active codec subject page)"
  "keeps I (queries_riskEvents codec subject i page)"
  "keeps I (queries_riskAssessments codec subject i page)"
  "keeps I (operations_activeAlerts codec subject page)"
  "keeps I (operations_securityEvents codec subject page c)"
  "keeps I (operations_dashboardSummary subject)" "keeps I (policies_active subject key)"
  unfolding queries_current_def queries_active_def queries_riskEvents_def queries_riskAssessments_def
    operations_activeAlerts_def operations_securityEvents_def operations_dashboardSummary_def
    policies_active_def listRiskEvents_def listRiskAssessments_def
  by (rule own hoare)+

section \<open>The routes\<close>

definition on_world :: "(world \<Rightarrow> bool) \<Rightarrow> server \<Rightarrow> bool" where
  "on_world I s = I (sv_world s)"

lemma on_world_frame [simp]:
  "on_world I (s\<lparr>sv_buckets := b\<rparr>) = on_world I s" "on_world I (s\<lparr>sv_entries := e\<rparr>) = on_world I s"
  "on_world I (s\<lparr>sv_uploads := u\<rparr>) = on_world I s"
  by (simp_all add: on_world_def)

lemma keeps_in_world [own]: "keeps I m \<Longrightarrow> keeps (on_world I) (in_world m)"
  by (auto simp: keeps_def on_world_def in_world_def split: prod.split)

lemma keeps_route_helpers [own]:
  "keeps (on_world I) (idempotency_key request)" "keeps (on_world I) (uuid_pipe env v)"
  "keeps (on_world I) wipe_uploads"
  unfolding idempotency_key_def uuid_pipe_def wipe_uploads_def
  by (auto intro!: hoare keeps_modifyM)

lemma keeps_now_if: "keeps (on_db I) (now_if b)"
  by (auto simp: now_if_def intro!: hoare)

lemma keeps_case_arrival:
  assumes "\<And>e. keeps I (f1 e)" "\<And>v. keeps I (f2 v)" "keeps I f3" "\<And>k e. keeps I (f4 k e)"
  shows "keeps I (case a of Refused e \<Rightarrow> f1 e | Replayed v \<Rightarrow> f2 v | Waiting \<Rightarrow> f3 | Started k e \<Rightarrow> f4 k e)"
  using assms by (cases a) simp_all

lemma keeps_idempotently [own]:
  assumes "keeps (on_world (on_db I)) operation"
  shows "keeps (on_world (on_db I)) (idempotently env q operation)"
proof -
  have "keeps (on_world (on_db I)) (\<lambda>s. case operation s of (outcome, s1) \<Rightarrow>
      (case finish key entry outcome (sv_entries s1) of
         (answer, entries1) \<Rightarrow> (answer, s1\<lparr>sv_entries := entries1\<rparr>)))" for key entry
    using assms by (auto simp: keeps_def split: prod.split)
  note started = this
  show ?thesis
    unfolding idempotently_def
    by (rule hoare own keeps_now_if keeps_modifyM started keeps_case_arrival | simp)+
qed

lemma keeps_idempotent_route [own]:
  assumes "keeps (on_world (on_db I)) operation"
  shows "keeps (on_world (on_db I)) (idempotent_route env subject scope k payload operation)"
  unfolding idempotent_route_def
  by (rule hoare own keeps_modifyM assms | simp)+

lemma keeps_ephemeral_audio [own]: "keeps (on_db I) (ephemeral_audio samples)"
  unfolding ephemeral_audio_def by (rule hoare keeps_modifyM | simp)+

lemmas route_defs = calls_create_route_def calls_invite_route_def calls_join_route_def
  calls_end_route_def calls_active_route_def calls_events_route_def calls_assessments_route_def
  calls_current_route_def acknowledge_route_def hold_route_def cancel_route_def release_route_def
  challenge_route_def intervention_route_def speaker_route_def consent_route_def
  revoke_consent_route_def delete_voiceprint_route_def enroll_route_def alerts_route_def
  alert_acknowledge_route_def security_events_route_def summary_route_def policy_active_route_def
  policy_put_route_def

section \<open>The guards\<close>

lemma keeps_access_guard: "keeps (on_db I) (access_token_guard env authorization)"
  unfolding access_token_guard_def authenticate_def verifyAccess_def findPrincipal_def
    get_membership_def get_roles_def
  by (rule hoare | simp)+

lemma keeps_rate_limited: "keeps (on_world (on_db I)) (rate_limited env request m category)"
  unfolding rate_limited_def
proof (rule keeps_bindM)
  show "keeps (on_world (on_db I)) (in_world now)" by (rule own hoare | simp)+
  show "keeps (on_world (on_db I)) (\<lambda>s. case rate_guard (c_api (ap_config env)) t (Some category)
            (rate_key category m (rq_ip request) (rq_method request) (rq_path request)) (sv_buckets s) of
       (Limited retryAfter, buckets) \<Rightarrow>
         (Inl (ApiError ''RATE_LIMITED'' 429 []), s\<lparr>sv_buckets := buckets\<rparr>)
     | (_, buckets) \<Rightarrow> (Inr (), s\<lparr>sv_buckets := buckets\<rparr>))" for t
    by (auto simp: keeps_def split: prod.split rate_answer.split)
qed

lemma keeps_member_guards: "keeps (on_world (on_db I)) (member_guards env request permission category)"
  unfolding member_guards_def
  by (rule hoare own keeps_access_guard keeps_rate_limited)+

section \<open>The interface\<close>

text \<open>A policy document that was parsed is an object, and no call is stored as requested.\<close>

fun is_object :: "json \<Rightarrow> bool" where
  "is_object (JObj kvs) \<longleftrightarrow> True"
| "is_object v \<longleftrightarrow> False"

locale member_repositories =
  fixes I :: "db \<Rightarrow> bool" and q :: uuid
  assumes audit [own]: "wa_organizationId entry = q \<Longrightarrow> keeps (on_db I) (audit_record entry)"
    and create_call [own]: "keeps (on_db I) (createCallWithParticipants q call)"
    and add_participant [own]: "keeps (on_db I) (addParticipant q i participant)"
    and transition_call: "to' \<noteq> CALL_REQUESTED \<Longrightarrow> keeps (on_db I) (transitionCall q i from to' t)"
    and update_intervention [own]: "keeps (on_db I) (updateInterventionStatus q i a b m)"
    and create_challenge [own]: "keeps (on_db I) (createVerificationChallenge q challenge)"
    and create_speaker [own]: "keeps (on_db I) (createTrustedSpeaker q speaker)"
    and grant_consent [own]: "keeps (on_db I) (enrollment_grantConsent q consent)"
    and revoke_consent [own]: "keeps (on_db I) (enrollment_revokeConsent q i reason)"
    and delete_voiceprint [own]: "keeps (on_db I) (enrollment_deleteVoiceprint q i)"
    and activate_voiceprint [own]: "keeps (on_db I) (activateVoiceprint q voiceprint)"
    and create_policy: "is_object (cy_document policy) \<Longrightarrow> keeps (on_db I) (createRiskPolicy q policy)"
    and activate_policy [own]: "keeps (on_db I) (activateRiskPolicy q i)"
    and acknowledge_alert [own]: "keeps (on_db I) (repository_acknowledgeAlert q i member)"
begin

text \<open>The services.\<close>

lemma own_audit_as [own]:
  "pr_organizationId subject = q \<Longrightarrow>
     keeps (on_db I) (audit_as subject c k action ty i outcome reason operation)"
  unfolding audit_as_def by (rule own hoare | simp)+

lemma own_transitions [own]:
  "keeps (on_db I) (transitionCall q i from CALL_FAILED t)"
  "keeps (on_db I) (transitionCall q i from CALL_CANCELLED t)"
  "keeps (on_db I) (transitionCall q i from CALL_ENDING t)"
  "keeps (on_db I) (transitionCall q i from CALL_ENDED t)"
  by (rule transition_call, simp)+

lemma own_put_policy [own]:
  "keeps (on_db I) (createRiskPolicy q (put_input subject input policy))"
  by (rule create_policy) (simp add: put_input_def policy_json_def)

lemma own_calls [own]:
  assumes "pr_organizationId subject = q"
  shows "keeps (on_db I) (calls_create env subject command)"
    "keeps (on_db I) (calls_invite env subject invitation)"
    "keeps (on_db I) (calls_answer env subject i j c)"
    "keeps (on_db I) (calls_end env subject i k c)"
  unfolding calls_create_def calls_invite_def calls_answer_def calls_end_def cancel_call_def
    clean_up_call_def fail_call_def Let_def assms
  by (rule own hoare | simp add: assms)+

lemma own_interventions [own]:
  assumes "pr_organizationId subject = q"
  shows "keeps (on_db I) (acknowledge subject input)"
    "keeps (on_db I) (hold subject input)"
    "keeps (on_db I) (cancel subject input reason)"
    "keeps (on_db I) (releaseAfterIndependentVerification subject input c)"
    "keeps (on_db I) (stepup_request config subject i kind k)"
  unfolding acknowledge_def hold_def cancel_def releaseAfterIndependentVerification_def
    stepup_request_def apply_hold_def apply_release_def intervention_audit_def
    intervention_transition_def adapter_hold_def adapter_release_def assms
  by (rule own hoare | simp add: assms)+

lemma own_enrollment [own]:
  assumes "pr_organizationId subject = q"
  shows "keeps (on_db I) (speakers_create subject speaker c k)"
    "keeps (on_db I) (speakers_grantConsent subject grant)"
    "keeps (on_db I) (speakers_revokeConsent env subject i reason k' c)"
    "keeps (on_db I) (speakers_deleteVoiceprint env subject i k' c)"
    "keeps (on_db I) (enroll env subject e)"
  unfolding speakers_create_def speakers_grantConsent_def speakers_revokeConsent_def
    speakers_deleteVoiceprint_def enroll_def enroll_voice_def enroll_failed_def assms
  by (rule own hoare | simp add: assms)+

lemma own_governance [own]:
  assumes "pr_organizationId subject = q"
  shows "keeps (on_db I) (policies_put risk subject input)"
    "keeps (on_db I) (operations_acknowledgeAlert subject i k' c)"
  unfolding policies_put_def operations_acknowledgeAlert_def assms
  by (auto split: sum.split err.split intro!: own hoare)

text \<open>The routes.\<close>

lemma keeps_enroll_uploads [own]:
  assumes "pr_organizationId subject = q"
  shows "keeps (on_world (on_db I)) (enroll_uploads env request body k subject)"
proof (rule keepsI)
  fix s assume s: "on_world (on_db I) s"
  let ?e = "\<lparr>ei_operationId = k, ei_trustedSpeakerId = vd_trustedSpeakerId body,
    ei_consentId = vd_consentId body, ei_expectedModelVersionId = vd_expectedModelVersionId body,
    ei_idempotencyKey = k, ei_correlationId = rq_requestId request\<rparr>"
  obtain r s1 where r: "in_world (enroll (ap_providers env) subject ?e) s = (r, s1)" by fastforce
  have "keeps (on_world (on_db I)) (in_world (enroll (ap_providers env) subject ?e))"
    by (rule own assms)+
  from keepsD [OF this s r] have "on_world (on_db I) (snd (wipe_uploads s1))"
    by (rule keeps_sndD [OF keeps_route_helpers(3)])
  then show "on_world (on_db I) (snd (enroll_uploads env request body k subject s))"
    by (cases r) (simp_all add: enroll_uploads_def r)
qed

lemma keeps_route:
  assumes "pr_organizationId subject = q"
  shows "keeps (on_world (on_db I)) (route_handler env request route subject)"
  by (cases route; rename_tac r; case_tac r; simp add: route_defs Let_def)
    (rule conjI impI hoare own assms | simp)+

end

end
