(* ===== verification/Public_Api.thy ===== *)
theory Public_Api
  imports Member_Routes
begin

text \<open>
  \<open>contracts/public-openapi.ts\<close>: the schemas of the answers, and what the document says of every
  operation: who calls it, its permissions, its rate limit, its idempotency and its errors. The
  framework's part of the document, which it derives from the controllers, is not here. The annotations
  \<open>format\<close>, \<open>readOnly\<close> and \<open>x-swar-sensitive\<close> constrain no value.
\<close>

section \<open>Schemas\<close>

record string_schema =
  ss_format :: "string option"
  ss_enum :: "string list option"
  ss_digits :: bool
  ss_maxLength :: "nat option"
  ss_nullable :: bool
  ss_readOnly :: bool
  ss_sensitive :: bool

definition text_schema :: string_schema where
  "text_schema = \<lparr>ss_format = None, ss_enum = None, ss_digits = False, ss_maxLength = None,
     ss_nullable = False, ss_readOnly = False, ss_sensitive = False\<rparr>"

definition uuid_schema :: string_schema where
  "uuid_schema = text_schema\<lparr>ss_format := Some ''uuid''\<rparr>"

definition date_schema :: string_schema where
  "date_schema = text_schema\<lparr>ss_format := Some ''date-time''\<rparr>"

text \<open>An object has the rest of its members, whether it may be null, what it requires and its properties.\<close>

datatype schema =
    StringSchema string_schema
  | EnumSchema "string list"
  | BooleanSchema
  | IntegerSchema "int option"
  | ArraySchema schema
  | ObjectSchema extra bool "string list" "(string \<times> schema) list"
  | RefSchema string
  | AllOf "schema list"
and extra = Open | Closed | Each schema

definition string_fits :: "string_schema \<Rightarrow> string \<Rightarrow> bool" where
  "string_fits t s \<longleftrightarrow>
     (case ss_enum t of None \<Rightarrow> True | Some xs \<Rightarrow> List.member xs s) \<and>
     (ss_digits t \<longrightarrow> s \<noteq> [] \<and> list_all (char_in ''0123456789'') s) \<and>
     (case ss_maxLength t of None \<Rightarrow> True | Some n \<Rightarrow> length s \<le> n)"

lemma size_property:
  "(k, s) \<in> set props \<Longrightarrow> size s < Suc (size_list (size_prod (\<lambda>_. 0) size) props + m)"
  by (induction props) auto

text \<open>\<open>n\<close> bounds the references that are followed one inside the other.\<close>

function conforms :: "nat \<Rightarrow> (string \<times> schema) list \<Rightarrow> schema \<Rightarrow> json \<Rightarrow> bool" where
  "conforms n cs (StringSchema t) v \<longleftrightarrow>
     (case v of JStr s \<Rightarrow> string_fits t s | JNull \<Rightarrow> ss_nullable t | _ \<Rightarrow> False)"
| "conforms n cs (EnumSchema xs) v \<longleftrightarrow> (case v of JStr s \<Rightarrow> List.member xs s | _ \<Rightarrow> False)"
| "conforms n cs BooleanSchema v \<longleftrightarrow> (case v of JBool b \<Rightarrow> True | _ \<Rightarrow> False)"
| "conforms n cs (IntegerSchema minimum) v \<longleftrightarrow> (case v of
     JNum x \<Rightarrow> of_int \<lfloor>x\<rfloor> = x \<and> (case minimum of None \<Rightarrow> True | Some k \<Rightarrow> of_int k \<le> x)
   | _ \<Rightarrow> False)"
| "conforms n cs (ArraySchema s) v \<longleftrightarrow> (case v of
     JArr vs \<Rightarrow> list_all (conforms n cs s) vs
   | _ \<Rightarrow> False)"
| "conforms n cs (ObjectSchema e nullable required props) v \<longleftrightarrow> (case v of
     JNull \<Rightarrow> nullable
   | JObj kvs \<Rightarrow> list_all (\<lambda>k. map_of kvs k \<noteq> None) required \<and>
       list_all (\<lambda>(k, s). case map_of kvs k of None \<Rightarrow> True | Some x \<Rightarrow> conforms n cs s x) props \<and>
       list_all (\<lambda>(k, x). List.member (map fst props) k \<or>
         (case e of Open \<Rightarrow> True | Closed \<Rightarrow> False | Each s \<Rightarrow> conforms n cs s x)) kvs
   | _ \<Rightarrow> False)"
| "conforms n cs (RefSchema name) v \<longleftrightarrow> (case n of
     0 \<Rightarrow> False
   | Suc m \<Rightarrow> (case map_of cs name of None \<Rightarrow> False | Some s \<Rightarrow> conforms m cs s v))"
| "conforms n cs (AllOf ss) v \<longleftrightarrow> list_all (\<lambda>s. conforms n cs s v) ss"
  by pat_completeness auto

termination conforms
  by (relation "measures [\<lambda>(n, cs, s, v). n, \<lambda>(n, cs, s, v). size s]")
    (auto simp: size_property intro: le_imp_less_Suc trans_le_add2 dest: size_list_estimation' split: nat.splits)

text \<open>Objects are only taken apart when their members are known.\<close>

lemma conforms_object [simp]:
  "conforms n cs (ObjectSchema e nullable required props) (JObj kvs) \<longleftrightarrow>
     list_all (\<lambda>k. map_of kvs k \<noteq> None) required \<and>
     list_all (\<lambda>(k, s). case map_of kvs k of None \<Rightarrow> True | Some x \<Rightarrow> conforms n cs s x) props \<and>
     list_all (\<lambda>(k, x). List.member (map fst props) k \<or>
       (case e of Open \<Rightarrow> True | Closed \<Rightarrow> False | Each s \<Rightarrow> conforms n cs s x)) kvs"
  "conforms n cs (ObjectSchema e nullable required props) JNull \<longleftrightarrow> nullable"
  by simp_all

declare conforms.simps(6) [simp del]

lemma open_object:
  "is_object v \<Longrightarrow> conforms n cs (ObjectSchema Open nullable [] []) v"
  by (cases v) (simp_all add: list_all_iff)

section \<open>The components\<close>

definition errorEnvelope_schema :: schema where
  "errorEnvelope_schema =
   ObjectSchema Closed False
      [''code'', ''message'', ''requestId'']
      [(''code'', StringSchema text_schema),
       (''message'', StringSchema text_schema),
       (''requestId'', StringSchema text_schema),
       (''details'', ObjectSchema Open False
          []
          [])]"

definition authSession_schema :: schema where
  "authSession_schema =
   ObjectSchema Closed False
      [''accessToken'', ''refreshToken'', ''tokenType'', ''expiresIn'', ''principal'']
      [(''accessToken'', StringSchema (text_schema\<lparr>ss_readOnly := True,
       ss_sensitive := True\<rparr>)),
       (''refreshToken'', StringSchema (text_schema\<lparr>ss_readOnly := True,
         ss_sensitive := True\<rparr>)),
       (''tokenType'', StringSchema (text_schema\<lparr>ss_enum := Some [''Bearer'']\<rparr>)),
       (''expiresIn'', IntegerSchema (Some 1)),
       (''principal'', ObjectSchema Closed False
          [''userId'', ''membershipId'', ''organizationId'', ''deviceId'', ''roles'']
          [(''userId'', StringSchema uuid_schema),
           (''membershipId'', StringSchema uuid_schema),
           (''organizationId'', StringSchema uuid_schema),
           (''deviceId'', StringSchema uuid_schema),
           (''roles'', ArraySchema (StringSchema text_schema))])]"

definition call_schema :: schema where
  "call_schema =
   ObjectSchema Closed False
      [''callId'', ''status'', ''riskPolicyVersion'', ''createdAt'', ''startedAt'', ''endedAt'']
      [(''callId'', StringSchema uuid_schema),
       (''status'', EnumSchema [''AUTHORIZED'', ''ACTIVE'', ''ENDING'', ''ENDED'', ''CANCELLED'',
                                ''FAILED'']),
       (''riskPolicyVersion'', StringSchema text_schema),
       (''createdAt'', StringSchema date_schema),
       (''startedAt'', StringSchema (text_schema\<lparr>ss_format := Some ''date-time'',
         ss_nullable := True\<rparr>)),
       (''endedAt'', StringSchema (text_schema\<lparr>ss_format := Some ''date-time'',
         ss_nullable := True\<rparr>))]"

definition joinGrant_schema :: schema where
  "joinGrant_schema =
   ObjectSchema Closed False
      [''roomName'', ''participantIdentity'', ''joinToken'', ''expiresAt'']
      [(''roomName'', StringSchema text_schema),
       (''participantIdentity'', StringSchema text_schema),
       (''joinToken'', StringSchema (text_schema\<lparr>ss_readOnly := True,
         ss_sensitive := True\<rparr>)),
       (''expiresAt'', StringSchema date_schema)]"

definition participantGrant_schema :: schema where
  "participantGrant_schema =
   AllOf [RefSchema ''JoinGrant'', ObjectSchema Open False
        [''participantId'', ''role'']
        [(''participantId'', StringSchema uuid_schema),
         (''role'', EnumSchema [''CALLER'', ''CUSTOMER'', ''OBSERVER''])]]"

definition riskEvent_schema :: schema where
  "riskEvent_schema =
   ObjectSchema Closed False
      [''riskEventId'', ''callId'', ''eventSequence'', ''mode'', ''priorState'', ''state'',
       ''reasonCode'', ''policyVersion'', ''thresholdVersion'', ''occurredAt'']
      [(''riskEventId'', StringSchema uuid_schema),
       (''callId'', StringSchema uuid_schema),
       (''eventSequence'', StringSchema (text_schema\<lparr>ss_digits := True\<rparr>)),
       (''mode'', EnumSchema [''DEMO'', ''SHADOW'', ''PRODUCTION'']),
       (''priorState'', EnumSchema [''VERIFIED'', ''UNVERIFIED'', ''HIGH_RISK'', ''CRITICAL'']),
       (''state'', EnumSchema [''VERIFIED'', ''UNVERIFIED'', ''HIGH_RISK'', ''CRITICAL'']),
       (''reasonCode'', StringSchema text_schema),
       (''policyVersion'', StringSchema text_schema),
       (''thresholdVersion'', StringSchema text_schema),
       (''occurredAt'', StringSchema date_schema)]"

definition riskAssessment_schema :: schema where
  "riskAssessment_schema =
   ObjectSchema Closed False
      [''riskAssessmentId'', ''callId'', ''outcome'', ''effectiveState'', ''decisionMode'',
       ''evidenceMode'', ''productionEligible'', ''activationSuppressed'', ''activationBlockerCodes'',
         ''reasonCode'', ''policyVersion'', ''thresholdVersion'', ''calibrationVersion'',
           ''proposedInterventions'', ''maxWindowSequence'', ''occurredAt'']
      [(''riskAssessmentId'', StringSchema uuid_schema),
       (''callId'', StringSchema uuid_schema),
       (''outcome'', EnumSchema [''VERIFIED'', ''UNVERIFIED'', ''HIGH_RISK'', ''CRITICAL'',
                                 ''INSUFFICIENT_EVIDENCE'']),
       (''effectiveState'', EnumSchema [''VERIFIED'', ''UNVERIFIED'', ''HIGH_RISK'', ''CRITICAL'']),
       (''decisionMode'', EnumSchema [''ENGINEERING_TEST'', ''SHADOW'', ''CALIBRATED_BLOCKED'',
                                      ''PRODUCTION_ELIGIBLE'']),
       (''evidenceMode'', EnumSchema [''SIMULATED'', ''SHADOW'', ''CALIBRATED'']),
       (''productionEligible'', BooleanSchema),
       (''activationSuppressed'', BooleanSchema),
       (''activationBlockerCodes'',
         ArraySchema (StringSchema (text_schema\<lparr>ss_maxLength := Some 80\<rparr>))),
       (''reasonCode'', StringSchema (text_schema\<lparr>ss_maxLength := Some 80\<rparr>)),
       (''policyVersion'', StringSchema (text_schema\<lparr>ss_maxLength := Some 40\<rparr>)),
       (''thresholdVersion'', StringSchema (text_schema\<lparr>ss_maxLength := Some 80\<rparr>)),
       (''calibrationVersion'', StringSchema (text_schema\<lparr>ss_maxLength := Some 80,
         ss_nullable := True\<rparr>)),
       (''proposedInterventions'', ArraySchema (EnumSchema [''WARN'', ''HOLD_PROTECTED_ACTION'',
         ''REQUIRE_STEP_UP'', ''REQUIRE_CALLBACK'', ''END_CALL''])),
       (''maxWindowSequence'', StringSchema (text_schema\<lparr>ss_digits := True\<rparr>)),
       (''occurredAt'', StringSchema date_schema)]"

definition activeCallsPage_schema :: schema where
  "activeCallsPage_schema =
   ObjectSchema Closed False
      [''items'', ''nextCursor'']
      [(''items'', ArraySchema (RefSchema ''Call'')),
       (''nextCursor'', StringSchema (text_schema\<lparr>ss_nullable := True\<rparr>))]"

definition riskEventsPage_schema :: schema where
  "riskEventsPage_schema =
   ObjectSchema Closed False
      [''items'', ''nextCursor'']
      [(''items'', ArraySchema (RefSchema ''RiskEvent'')),
       (''nextCursor'', StringSchema (text_schema\<lparr>ss_nullable := True\<rparr>))]"

definition riskAssessmentsPage_schema :: schema where
  "riskAssessmentsPage_schema =
   ObjectSchema Closed False
      [''items'', ''nextCursor'']
      [(''items'', ArraySchema (RefSchema ''RiskAssessment'')),
       (''nextCursor'', StringSchema (text_schema\<lparr>ss_nullable := True\<rparr>))]"

definition trustedSpeaker_schema :: schema where
  "trustedSpeaker_schema =
   ObjectSchema Closed False
      [''trustedSpeakerId'', ''status'', ''label'']
      [(''trustedSpeakerId'', StringSchema uuid_schema),
       (''status'', StringSchema text_schema),
       (''label'', StringSchema text_schema)]"

definition consent_schema :: schema where
  "consent_schema =
   ObjectSchema Closed False
      [''consentId'', ''trustedSpeakerId'', ''status'', ''expiresAt'']
      [(''consentId'', StringSchema uuid_schema),
       (''trustedSpeakerId'', StringSchema uuid_schema),
       (''status'', StringSchema text_schema),
       (''expiresAt'', StringSchema (text_schema\<lparr>ss_format := Some ''date-time'',
         ss_nullable := True\<rparr>))]"

definition statusResult_schema :: schema where
  "statusResult_schema =
   ObjectSchema Closed False
      [''status'']
      [(''consentId'', StringSchema uuid_schema),
       (''voiceprintId'', StringSchema uuid_schema),
       (''interventionId'', StringSchema uuid_schema),
       (''status'', StringSchema text_schema)]"

definition voiceprint_schema :: schema where
  "voiceprint_schema =
   ObjectSchema Closed False
      [''voiceprintId'', ''trustedSpeakerId'', ''modelVersionId'', ''status'']
      [(''voiceprintId'', StringSchema uuid_schema),
       (''trustedSpeakerId'', StringSchema uuid_schema),
       (''modelVersionId'', StringSchema uuid_schema),
       (''status'', StringSchema text_schema)]"

definition evidenceAccepted_schema :: schema where
  "evidenceAccepted_schema =
   ObjectSchema Closed False
      [''evidenceEventId'', ''eventId'', ''acceptanceStatus'', ''riskAssessment'']
      [(''evidenceEventId'', StringSchema uuid_schema),
       (''eventId'', StringSchema uuid_schema),
       (''acceptanceStatus'', EnumSchema [''ACCEPTED'', ''STALE'']),
       (''riskAssessment'', ObjectSchema Open False
          [''assessmentStatus'', ''productionEligible'', ''reasonCode'']
          [(''assessmentStatus'', EnumSchema [''RECORDED'', ''SUPPRESSED'']),
           (''productionEligible'', BooleanSchema),
           (''reasonCode'', StringSchema (text_schema\<lparr>ss_maxLength := Some 80\<rparr>))])]"

definition riskPolicy_schema :: schema where
  "riskPolicy_schema =
   ObjectSchema Closed False
      [''riskPolicyId'', ''policyKey'', ''version'', ''schemaVersion'', ''policyDocument'',
       ''status'', ''effectiveAt'']
      [(''riskPolicyId'', StringSchema uuid_schema),
       (''policyKey'', StringSchema text_schema),
       (''version'', StringSchema text_schema),
       (''schemaVersion'', StringSchema text_schema),
       (''policyDocument'', ObjectSchema Open False
          []
          []),
       (''status'', EnumSchema [''DRAFT'', ''ACTIVE'', ''RETIRED'']),
       (''effectiveAt'', StringSchema (text_schema\<lparr>ss_format := Some ''date-time'',
         ss_nullable := True\<rparr>))]"

definition verificationChallenge_schema :: schema where
  "verificationChallenge_schema =
   ObjectSchema Closed False
      [''challengeId'', ''interventionId'', ''status'', ''method'', ''expiresAt'']
      [(''challengeId'', StringSchema uuid_schema),
       (''interventionId'', StringSchema uuid_schema),
       (''status'', EnumSchema [''PENDING'', ''PASSED'', ''FAILED'', ''EXPIRED'', ''CANCELLED'']),
       (''method'', StringSchema text_schema),
       (''expiresAt'', StringSchema date_schema),
       (''resultCode'', StringSchema (text_schema\<lparr>ss_nullable := True\<rparr>))]"

definition verificationResult_schema :: schema where
  "verificationResult_schema =
   ObjectSchema Closed False
      [''challengeId'', ''status'', ''resultCode'']
      [(''challengeId'', StringSchema uuid_schema),
       (''status'', EnumSchema [''PASSED'', ''FAILED'']),
       (''resultCode'', StringSchema text_schema)]"

definition currentCallSecurity_schema :: schema where
  "currentCallSecurity_schema =
   ObjectSchema Closed False
      [''callId'', ''status'', ''riskPolicyVersion'', ''createdAt'', ''participants'', ''risk'',
       ''latestTransition'', ''activeInterventions'']
      [(''callId'', StringSchema uuid_schema),
       (''status'', StringSchema text_schema),
       (''riskPolicyVersion'', StringSchema text_schema),
       (''createdAt'', StringSchema date_schema),
       (''startedAt'', StringSchema (text_schema\<lparr>ss_format := Some ''date-time'',
         ss_nullable := True\<rparr>)),
       (''endedAt'', StringSchema (text_schema\<lparr>ss_format := Some ''date-time'',
         ss_nullable := True\<rparr>)),
       (''participants'', ArraySchema (ObjectSchema Open False
            []
            [])),
       (''risk'', ObjectSchema Open True
          []
          []),
       (''latestTransition'', ObjectSchema Open True
          []
          []),
       (''activeInterventions'', ArraySchema (ObjectSchema Open False
            []
            []))]"

definition securityOperationsPage_schema :: schema where
  "securityOperationsPage_schema =
   ObjectSchema Closed False
      [''items'', ''nextCursor'']
      [(''items'', ArraySchema (ObjectSchema Open False
            []
            [])),
       (''nextCursor'', StringSchema (text_schema\<lparr>ss_nullable := True\<rparr>))]"

definition dashboardSummary_schema :: schema where
  "dashboardSummary_schema =
   ObjectSchema Closed False
      [''activeCalls'', ''unacknowledgedAlerts'', ''activeInterventions'', ''riskEventsByState'']
      [(''activeCalls'', IntegerSchema (Some 0)),
       (''unacknowledgedAlerts'', IntegerSchema (Some 0)),
       (''activeInterventions'', IntegerSchema (Some 0)),
       (''riskEventsByState'', ObjectSchema (Each (IntegerSchema None)) False
          []
          [])]"

definition alertAcknowledgement_schema :: schema where
  "alertAcknowledgement_schema =
   ObjectSchema Closed False
      [''alertId'', ''status'', ''acknowledgedAt'']
      [(''alertId'', StringSchema uuid_schema),
       (''status'', StringSchema text_schema),
       (''acknowledgedAt'', StringSchema date_schema)]"

definition components :: "(string \<times> schema) list" where
  "components =
   [(''ErrorEnvelope'', errorEnvelope_schema),
    (''AuthSession'', authSession_schema),
    (''Call'', call_schema),
    (''JoinGrant'', joinGrant_schema),
    (''ParticipantGrant'', participantGrant_schema),
    (''RiskEvent'', riskEvent_schema),
    (''RiskAssessment'', riskAssessment_schema),
    (''ActiveCallsPage'', activeCallsPage_schema),
    (''RiskEventsPage'', riskEventsPage_schema),
    (''RiskAssessmentsPage'', riskAssessmentsPage_schema),
    (''TrustedSpeaker'', trustedSpeaker_schema),
    (''Consent'', consent_schema),
    (''StatusResult'', statusResult_schema),
    (''Voiceprint'', voiceprint_schema),
    (''EvidenceAccepted'', evidenceAccepted_schema),
    (''RiskPolicy'', riskPolicy_schema),
    (''VerificationChallenge'', verificationChallenge_schema),
    (''VerificationResult'', verificationResult_schema),
    (''CurrentCallSecurity'', currentCallSecurity_schema),
    (''SecurityOperationsPage'', securityOperationsPage_schema),
    (''DashboardSummary'', dashboardSummary_schema),
    (''AlertAcknowledgement'', alertAcknowledgement_schema)]"

section \<open>The tables of operations\<close>

definition responseSchemas :: "(string \<times> string) list" where
  "responseSchemas =
   [(''Auth.login'', ''AuthSession''),
    (''Auth.refresh'', ''AuthSession''),
    (''Calls.create'', ''Call''),
    (''Calls.invite'', ''ParticipantGrant''),
    (''Calls.join'', ''JoinGrant''),
    (''Calls.end'', ''Call''),
    (''Calls.active'', ''ActiveCallsPage''),
    (''Calls.riskEvents'', ''RiskEventsPage''),
    (''Calls.riskAssessments'', ''RiskAssessmentsPage''),
    (''Calls.current'', ''CurrentCallSecurity''),
    (''TrustedSpeakers.create'', ''TrustedSpeaker''),
    (''TrustedSpeakers.consent'', ''Consent''),
    (''TrustedSpeakers.revoke'', ''StatusResult''),
    (''TrustedSpeakers.deleteVoiceprint'', ''StatusResult''),
    (''VoiceEnrollment.enroll'', ''Voiceprint''),
    (''InternalEvidence.ingest'', ''EvidenceAccepted''),
    (''RiskPolicy.active'', ''RiskPolicy''),
    (''RiskPolicy.put'', ''RiskPolicy''),
    (''Interventions.request'', ''VerificationChallenge''),
    (''Interventions.complete'', ''VerificationResult''),
    (''Interventions.release'', ''StatusResult''),
    (''Interventions.acknowledge'', ''StatusResult''),
    (''Interventions.hold'', ''StatusResult''),
    (''Interventions.cancel'', ''StatusResult''),
    (''SecurityOperations.alerts'', ''SecurityOperationsPage''),
    (''SecurityOperations.acknowledge'', ''AlertAcknowledgement''),
    (''SecurityOperations.securityEvents'', ''SecurityOperationsPage''),
    (''SecurityOperations.summary'', ''DashboardSummary'')]"

definition documented_permissions :: "(string \<times> string list) list" where
  "documented_permissions =
   [(''Calls.create'', [''call.create'']),
    (''Calls.invite'', [''call.create'']),
    (''Calls.join'', [''call.read'']),
    (''Calls.end'', [''call.end'']),
    (''Calls.active'', [''call.read'']),
    (''Calls.riskEvents'', [''risk-event.read'']),
    (''Calls.riskAssessments'', [''risk-event.read'']),
    (''Calls.current'', [''call.read'']),
    (''TrustedSpeakers.create'', [''enrollment.manage'']),
    (''TrustedSpeakers.consent'', [''enrollment.manage'']),
    (''TrustedSpeakers.revoke'', [''enrollment.manage'']),
    (''TrustedSpeakers.deleteVoiceprint'', [''voiceprint.delete'']),
    (''VoiceEnrollment.enroll'', [''enrollment.manage'']),
    (''RiskPolicy.active'', [''risk-policy.read'']),
    (''RiskPolicy.put'', [''risk-policy.manage'']),
    (''Interventions.request'', [''intervention.resolve'']),
    (''Interventions.release'', [''intervention.resolve'']),
    (''Interventions.acknowledge'', [''intervention.resolve'']),
    (''Interventions.hold'', [''intervention.resolve'']),
    (''Interventions.cancel'', [''intervention.resolve'']),
    (''SecurityOperations.alerts'', [''risk-event.read'']),
    (''SecurityOperations.acknowledge'', [''intervention.resolve'']),
    (''SecurityOperations.securityEvents'', [''risk-event.read'']),
    (''SecurityOperations.summary'', [''risk-event.read''])]"

definition sensitive_operations :: "string list" where
  "sensitive_operations =
   [''Auth.login'',
    ''Auth.refresh'',
    ''Auth.revoke'',
    ''Calls.join'',
    ''TrustedSpeakers.create'',
    ''TrustedSpeakers.consent'',
    ''TrustedSpeakers.revoke'',
    ''TrustedSpeakers.deleteVoiceprint'',
    ''VoiceEnrollment.enroll'',
    ''RiskPolicy.put'',
    ''Interventions.request'',
    ''Interventions.complete'',
    ''Interventions.release'',
    ''Interventions.hold'',
    ''Interventions.cancel'',
    ''SecurityOperations.acknowledge'']"

definition query_operations :: "string list" where
  "query_operations =
   [''Calls.active'',
    ''Calls.riskEvents'',
    ''Calls.riskAssessments'',
    ''Calls.current'',
    ''RiskPolicy.active'',
    ''SecurityOperations.alerts'',
    ''SecurityOperations.securityEvents'',
    ''SecurityOperations.summary'']"

definition idempotent_operations :: "string list" where
  "idempotent_operations =
   [''Calls.create'',
    ''Calls.invite'',
    ''Calls.end'',
    ''TrustedSpeakers.create'',
    ''TrustedSpeakers.consent'',
    ''TrustedSpeakers.revoke'',
    ''TrustedSpeakers.deleteVoiceprint'',
    ''VoiceEnrollment.enroll'',
    ''InternalEvidence.ingest'',
    ''RiskPolicy.put'',
    ''Interventions.request'',
    ''Interventions.release'',
    ''Interventions.acknowledge'',
    ''Interventions.hold'',
    ''Interventions.cancel'',
    ''SecurityOperations.acknowledge'',
    ''LiveKitWebhook.receive'']"

definition operationErrorCodes :: "(string \<times> string list) list" where
  "operationErrorCodes =
   [(''Auth.login'', [''AUTHENTICATION_FAILED'', ''AUTH_RATE_LIMITED'', ''DEPENDENCY_UNAVAILABLE'']),
    (''Auth.refresh'', [''TOKEN_INVALID'', ''REFRESH_REUSE_DETECTED'', ''DEPENDENCY_UNAVAILABLE'']),
    (''Auth.revoke'', [''TOKEN_INVALID'', ''DEPENDENCY_UNAVAILABLE'']),
    (''Calls.create'', [''NOT_FOUND'', ''CONFLICT'', ''DOMAIN_PROVIDER_FAILED'']),
    (''Calls.invite'', [''NOT_FOUND'', ''CONFLICT'', ''DOMAIN_PROVIDER_FAILED'']),
    (''Calls.join'', [''NOT_FOUND'', ''CONFLICT'', ''DOMAIN_PROVIDER_FAILED'']),
    (''Calls.end'', [''NOT_FOUND'', ''CONFLICT'', ''ILLEGAL_DOMAIN_TRANSITION'',
                     ''DOMAIN_PROVIDER_FAILED'']),
    (''Calls.active'', [''PAGINATION_CURSOR_INVALID'', ''DEPENDENCY_UNAVAILABLE'']),
    (''Calls.riskEvents'', [''NOT_FOUND'', ''PAGINATION_CURSOR_INVALID'', ''DEPENDENCY_UNAVAILABLE'']),
    (''Calls.riskAssessments'', [''NOT_FOUND'', ''PAGINATION_CURSOR_INVALID'',
                                 ''DEPENDENCY_UNAVAILABLE'']),
    (''TrustedSpeakers.create'', [''NOT_FOUND'', ''CONFLICT'', ''DEPENDENCY_UNAVAILABLE'']),
    (''TrustedSpeakers.consent'', [''NOT_FOUND'', ''CONFLICT'', ''DEPENDENCY_UNAVAILABLE'']),
    (''TrustedSpeakers.revoke'', [''NOT_FOUND'', ''CONFLICT'', ''DOMAIN_PROVIDER_FAILED'']),
    (''TrustedSpeakers.deleteVoiceprint'', [''NOT_FOUND'', ''CONFLICT'', ''DOMAIN_PROVIDER_FAILED'']),
    (''VoiceEnrollment.enroll'', [''NOT_FOUND'', ''CONFLICT'', ''DOMAIN_INPUT_INVALID'',
                                  ''DOMAIN_PROVIDER_FAILED'']),
    (''InternalEvidence.ingest'', [''IDEMPOTENCY_EVENT_MISMATCH'', ''EVIDENCE_CONTRACT_INVALID'',
                                   ''ANALYSIS_BINDING_CONFLICT'', ''NOT_FOUND'', ''CONFLICT'']),
    (''RiskPolicy.active'', [''NOT_FOUND'', ''DEPENDENCY_UNAVAILABLE'']),
    (''RiskPolicy.put'', [''NOT_FOUND'', ''CONFLICT'', ''RISK_POLICY_INVALID'',
                          ''RISK_PRODUCTION_ACTIVATION_BLOCKED'', ''DEPENDENCY_UNAVAILABLE'']),
    (''LiveKitWebhook.receive'', [''WEBHOOK_AUTHENTICATION_FAILED'', ''WEBHOOK_EVENT_INVALID'',
                                  ''CONFLICT'']),
    (''Interventions.request'', [''NOT_FOUND'', ''CONFLICT'', ''STEP_UP_NOT_REQUIRED'']),
    (''Interventions.complete'', [''NOT_FOUND'', ''CONFLICT'']),
    (''Interventions.release'', [''NOT_FOUND'', ''CONFLICT'', ''DOMAIN_PROVIDER_FAILED'']),
    (''Interventions.acknowledge'', [''NOT_FOUND'', ''CONFLICT'']),
    (''Interventions.hold'', [''NOT_FOUND'', ''CONFLICT'', ''DOMAIN_PROVIDER_FAILED'']),
    (''Interventions.cancel'', [''NOT_FOUND'', ''CONFLICT'']),
    (''Calls.current'', [''NOT_FOUND'', ''DEPENDENCY_UNAVAILABLE'']),
    (''SecurityOperations.alerts'', [''PAGINATION_CURSOR_INVALID'', ''DEPENDENCY_UNAVAILABLE'']),
    (''SecurityOperations.acknowledge'', [''NOT_FOUND'', ''CONFLICT'']),
    (''SecurityOperations.securityEvents'', [''NOT_FOUND'', ''PAGINATION_CURSOR_INVALID'',
                                             ''DEPENDENCY_UNAVAILABLE'']),
    (''SecurityOperations.summary'', [''DEPENDENCY_UNAVAILABLE''])]"

section \<open>What the document says of an operation\<close>

definition auth_kind :: "string \<Rightarrow> string" where
  "auth_kind operation =
     (if operation = ''InternalEvidence.ingest'' then ''ML_SERVICE''
      else if operation = ''Interventions.complete'' then ''VERIFIER_SERVICE''
      else if operation = ''LiveKitWebhook.receive'' then ''SIGNED_WEBHOOK''
      else if starts_with ''Auth.'' operation \<or> starts_with ''Health.'' operation then ''PUBLIC''
      else ''USER_ACCESS_JWT'')"

definition required_permissions :: "string \<Rightarrow> string list" where
  "required_permissions operation = or_default (map_of documented_permissions operation) []"

definition rate_limit_category :: "string \<Rightarrow> string" where
  "rate_limit_category operation =
     (if List.member sensitive_operations operation then ''SENSITIVE''
      else if List.member query_operations operation then ''QUERY''
      else if starts_with ''Health.'' operation \<or> operation = ''LiveKitWebhook.receive'' then ''NONE''
      else ''MUTATION'')"

definition idempotency_kind :: "string \<Rightarrow> string" where
  "idempotency_kind operation =
     (if List.member idempotent_operations operation
      then if operation = ''LiveKitWebhook.receive'' then ''VERIFIED_EVENT_ID_AND_BODY_HASH''
        else if operation = ''InternalEvidence.ingest'' then ''IDEMPOTENCY_KEY_EQUALS_EVENT_ID''
        else ''IDEMPOTENCY_KEY_REQUIRED''
      else ''NOT_APPLICABLE'')"

definition documented_errors :: "string \<Rightarrow> string list" where
  "documented_errors operation = sort (remdups (
     [''VALIDATION_FAILED'', ''INTERNAL_ERROR''] @
     (if rate_limit_category operation \<noteq> ''NONE'' then [''RATE_LIMITED''] else []) @
     (if auth_kind operation = ''USER_ACCESS_JWT'' then [''TOKEN_INVALID'', ''FORBIDDEN'']
      else if auth_kind operation = ''ML_SERVICE'' \<or> auth_kind operation = ''VERIFIER_SERVICE''
      then [''TOKEN_INVALID''] else []) @
     (if List.member idempotent_operations operation \<and> operation \<noteq> ''LiveKitWebhook.receive''
      then [''IDEMPOTENCY_KEY_REQUIRED'', ''IDEMPOTENCY_KEY_CONFLICT''] else []) @
     or_default (map_of operationErrorCodes operation) []))"

text \<open>The schema of the answer of an operation, and the answers that it describes.\<close>

definition described :: "string \<Rightarrow> json \<Rightarrow> bool" where
  "described operation v \<longleftrightarrow> (case map_of responseSchemas operation of
     None \<Rightarrow> True
   | Some name \<Rightarrow> conforms 3 components (RefSchema name) v)"

section \<open>The operations of the controllers\<close>

fun permission_text :: "Permission \<Rightarrow> string" where
  "permission_text P_organization_read = ''organization.read''"
| "permission_text P_organization_manage = ''organization.manage''"
| "permission_text P_membership_manage = ''membership.manage''"
| "permission_text P_device_manage_self = ''device.manage.self''"
| "permission_text P_call_create = ''call.create''"
| "permission_text P_call_read = ''call.read''"
| "permission_text P_call_end = ''call.end''"
| "permission_text P_enrollment_manage = ''enrollment.manage''"
| "permission_text P_voiceprint_delete = ''voiceprint.delete''"
| "permission_text P_risk_event_read = ''risk-event.read''"
| "permission_text P_intervention_resolve = ''intervention.resolve''"
| "permission_text P_risk_policy_read = ''risk-policy.read''"
| "permission_text P_risk_policy_manage = ''risk-policy.manage''"
| "permission_text P_audit_read = ''audit.read''"

text \<open>\<open>operationIdFactory\<close>: the name of the controller and of its method.\<close>

fun calls_operation :: "calls_route \<Rightarrow> string" where
  "calls_operation (CreateCall body) = ''Calls.create''"
| "calls_operation (InviteParticipant callId body) = ''Calls.invite''"
| "calls_operation (JoinCall callId participantId) = ''Calls.join''"
| "calls_operation (EndCall callId) = ''Calls.end''"
| "calls_operation (ActiveCalls page) = ''Calls.active''"
| "calls_operation (CallRiskEvents callId page) = ''Calls.riskEvents''"
| "calls_operation (CallRiskAssessments callId page) = ''Calls.riskAssessments''"
| "calls_operation (CurrentCallState callId) = ''Calls.current''"

fun interventions_operation :: "interventions_route \<Rightarrow> string" where
  "interventions_operation (AcknowledgeIntervention i) = ''Interventions.acknowledge''"
| "interventions_operation (HoldIntervention i) = ''Interventions.hold''"
| "interventions_operation (CancelIntervention i reason) = ''Interventions.cancel''"
| "interventions_operation (RequestChallenge i m) = ''Interventions.request''"
| "interventions_operation (ReleaseIntervention i c) = ''Interventions.release''"

fun speakers_operation :: "speakers_route \<Rightarrow> string" where
  "speakers_operation (CreateSpeaker body) = ''TrustedSpeakers.create''"
| "speakers_operation (GrantConsent speaker body) = ''TrustedSpeakers.consent''"
| "speakers_operation (RevokeConsent consentId reason) = ''TrustedSpeakers.revoke''"
| "speakers_operation (DeleteVoiceprint voiceprintId) = ''TrustedSpeakers.deleteVoiceprint''"

fun operations_operation :: "operations_route \<Rightarrow> string" where
  "operations_operation (ActiveAlerts page) = ''SecurityOperations.alerts''"
| "operations_operation (AcknowledgeAlert alertId) = ''SecurityOperations.acknowledge''"
| "operations_operation (SecurityEvents page callId) = ''SecurityOperations.securityEvents''"
| "operations_operation DashboardSummaryOf = ''SecurityOperations.summary''"

fun policy_operation :: "policy_route \<Rightarrow> string" where
  "policy_operation (ActivePolicy policyKey) = ''RiskPolicy.active''"
| "policy_operation (PutPolicy input) = ''RiskPolicy.put''"

fun operation_of :: "member_route \<Rightarrow> string" where
  "operation_of (CallsRoute r) = calls_operation r"
| "operation_of (InterventionsRoute r) = interventions_operation r"
| "operation_of (SpeakersRoute r) = speakers_operation r"
| "operation_of (EnrollmentRoute r) = ''VoiceEnrollment.enroll''"
| "operation_of (OperationsRoute r) = operations_operation r"
| "operation_of (PolicyRoute r) = policy_operation r"

section \<open>The guards\<close>

text \<open>The document and the decorators agree, but for the rate limit of one operation.\<close>

lemma permission_table:
  "list_all (\<lambda>(operation, p). required_permissions operation = [permission_text p])
    [(''Calls.create'', P_call_create), (''Calls.invite'', P_call_create), (''Calls.join'', P_call_read),
     (''Calls.end'', P_call_end), (''Calls.active'', P_call_read), (''Calls.riskEvents'', P_risk_event_read),
     (''Calls.riskAssessments'', P_risk_event_read), (''Calls.current'', P_call_read),
     (''TrustedSpeakers.create'', P_enrollment_manage), (''TrustedSpeakers.consent'', P_enrollment_manage),
     (''TrustedSpeakers.revoke'', P_enrollment_manage),
     (''TrustedSpeakers.deleteVoiceprint'', P_voiceprint_delete),
     (''VoiceEnrollment.enroll'', P_enrollment_manage), (''RiskPolicy.active'', P_risk_policy_read),
     (''RiskPolicy.put'', P_risk_policy_manage), (''Interventions.request'', P_intervention_resolve),
     (''Interventions.release'', P_intervention_resolve), (''Interventions.acknowledge'', P_intervention_resolve),
     (''Interventions.hold'', P_intervention_resolve), (''Interventions.cancel'', P_intervention_resolve),
     (''SecurityOperations.alerts'', P_risk_event_read),
     (''SecurityOperations.acknowledge'', P_intervention_resolve),
     (''SecurityOperations.securityEvents'', P_risk_event_read),
     (''SecurityOperations.summary'', P_risk_event_read)]"
  by code_simp

lemma documented_permission:
  "required_permissions (operation_of route) = [permission_text (route_permission route)]"
  using permission_table unfolding list.pred_inject prod.case
  by (cases route; rename_tac r; case_tac r)
    (simp_all only: operation_of.simps route_permission.simps calls_operation.simps calls_permission.simps
      interventions_operation.simps interventions_permission.simps speakers_operation.simps
      speakers_permission.simps operations_operation.simps operations_permission.simps
      policy_operation.simps policy_permission.simps enrollment_permission.simps)

lemma documented_user: "auth_kind (operation_of route) = ''USER_ACCESS_JWT''"
  by (cases route; rename_tac r; case_tac r) (simp_all add: auth_kind_def starts_with_def)

lemma documented_category:
  "operation_of route \<noteq> ''SecurityOperations.acknowledge'' \<Longrightarrow>
     rate_limit_category (operation_of route) = category_name (route_category route)"
  by (cases route; rename_tac r; case_tac r)
    (simp_all add: rate_limit_category_def sensitive_operations_def query_operations_def starts_with_def)

lemma alert_category_differs:
  "rate_limit_category (operation_of (OperationsRoute (AcknowledgeAlert i))) = ''SENSITIVE'' \<and>
   category_name (route_category (OperationsRoute (AcknowledgeAlert i))) = ''MUTATION''"
  by (simp add: rate_limit_category_def sensitive_operations_def)

section \<open>The answers\<close>

lemma component_lookup [simp]:
  "map_of components ''ErrorEnvelope'' = Some errorEnvelope_schema"
  "map_of components ''AuthSession'' = Some authSession_schema"
  "map_of components ''Call'' = Some call_schema"
  "map_of components ''JoinGrant'' = Some joinGrant_schema"
  "map_of components ''ParticipantGrant'' = Some participantGrant_schema"
  "map_of components ''RiskEvent'' = Some riskEvent_schema"
  "map_of components ''RiskAssessment'' = Some riskAssessment_schema"
  "map_of components ''ActiveCallsPage'' = Some activeCallsPage_schema"
  "map_of components ''RiskEventsPage'' = Some riskEventsPage_schema"
  "map_of components ''RiskAssessmentsPage'' = Some riskAssessmentsPage_schema"
  "map_of components ''TrustedSpeaker'' = Some trustedSpeaker_schema"
  "map_of components ''Consent'' = Some consent_schema"
  "map_of components ''StatusResult'' = Some statusResult_schema"
  "map_of components ''Voiceprint'' = Some voiceprint_schema"
  "map_of components ''EvidenceAccepted'' = Some evidenceAccepted_schema"
  "map_of components ''RiskPolicy'' = Some riskPolicy_schema"
  "map_of components ''VerificationChallenge'' = Some verificationChallenge_schema"
  "map_of components ''VerificationResult'' = Some verificationResult_schema"
  "map_of components ''CurrentCallSecurity'' = Some currentCallSecurity_schema"
  "map_of components ''SecurityOperationsPage'' = Some securityOperationsPage_schema"
  "map_of components ''DashboardSummary'' = Some dashboardSummary_schema"
  "map_of components ''AlertAcknowledgement'' = Some alertAcknowledgement_schema"
  by (simp_all add: components_def)

lemma int_string_digits: "0 \<le> i \<Longrightarrow> int_string i \<noteq> [] \<and> list_all (char_in ''0123456789'') (int_string i)"
proof -
  have "nat_string n \<noteq> [] \<and> list_all (char_in ''0123456789'') (nat_string n)" for n
  proof (induction n rule: nat_string.induct)
    case (1 n)
    have digit: "char_in ''0123456789'' (digit_char d)" if "d < 10" for d
    proof -
      from that have "d \<in> {0, 1, 2, 3, 4, 5, 6, 7, 8, 9}" by auto
      then show ?thesis by (auto simp: digit_char_def char_in_def)
    qed
    show ?case
    proof (cases "n < 10")
      case True
      then show ?thesis by (subst (1 2) nat_string.simps) (simp add: digit)
    next
      case False
      with 1 show ?thesis by (subst (1 2) nat_string.simps) (simp add: digit)
    qed
  qed
  then show "0 \<le> i \<Longrightarrow> ?thesis" by (simp add: int_string_def)
qed

lemmas string_defs = string_fits_def text_schema_def uuid_schema_def date_schema_def

lemma nullable_text:
  "(case json_option f v of JStr a \<Rightarrow> g a | JNull \<Rightarrow> b | _ \<Rightarrow> False) =
     (case v of None \<Rightarrow> b | Some x \<Rightarrow> (case f x of JStr a \<Rightarrow> g a | JNull \<Rightarrow> b | _ \<Rightarrow> False))"
  by (cases v) (simp_all add: json_option_def)

lemma nullable_object:
  "(\<And>a. is_object (f a)) \<Longrightarrow> conforms n cs (ObjectSchema Open True [] []) (json_option f v)"
  by (cases v) (simp_all add: json_option_def open_object)

lemma call_names:
  "s \<noteq> CALL_REQUESTED \<Longrightarrow> call_status_name s = ''AUTHORIZED'' \<or> call_status_name s = ''ACTIVE'' \<or>
     call_status_name s = ''ENDING'' \<or> call_status_name s = ''ENDED'' \<or>
     call_status_name s = ''CANCELLED'' \<or> call_status_name s = ''FAILED''"
  by (cases s) simp_all

lemma policy_names:
  "policy_status_name p = ''DRAFT'' \<or> policy_status_name p = ''ACTIVE'' \<or> policy_status_name p = ''RETIRED''"
  by (cases p) simp_all

lemma challenge_names:
  "verification_status_name v = ''PENDING'' \<or> verification_status_name v = ''PASSED'' \<or>
     verification_status_name v = ''FAILED'' \<or> verification_status_name v = ''EXPIRED'' \<or>
     verification_status_name v = ''CANCELLED''"
  by (cases v) simp_all

lemma described_call:
  "ca_status c \<noteq> CALL_REQUESTED \<Longrightarrow> conforms n cs call_schema (callView env c)"
  by (simp add: call_schema_def callView_def call_fields_def json_date_def string_defs nullable_text call_names
      split: option.split)

lemma described_grant: "conforms n cs joinGrant_schema (JObj (grant_fields env g))"
  by (simp add: joinGrant_schema_def grant_fields_def json_date_def string_defs)

definition assessment_fits :: "assessment_row \<Rightarrow> bool" where
  "assessment_fits a \<longleftrightarrow> 0 \<le> ra_maxWindowSequence a \<and>
     length (ra_reasonCode a) \<le> 80 \<and> length (ra_policyVersion a) \<le> 40 \<and>
     length (ra_thresholdVersion a) \<le> 80 \<and>
     (case ra_calibrationVersion a of None \<Rightarrow> True | Some v \<Rightarrow> length v \<le> 80) \<and>
     list_all (\<lambda>code. length code \<le> 80) (ra_blockerCodes a) \<and>
     list_all (\<lambda>i. i \<noteq> SUPERVISOR_ESCALATION) (ra_proposedInterventions a)"

lemma enum_names:
  "risk_state_name s = ''VERIFIED'' \<or> risk_state_name s = ''UNVERIFIED'' \<or>
     risk_state_name s = ''HIGH_RISK'' \<or> risk_state_name s = ''CRITICAL''"
  "evidence_mode_name e = ''SIMULATED'' \<or> evidence_mode_name e = ''SHADOW'' \<or>
     evidence_mode_name e = ''CALIBRATED''"
  "decision_mode_name m = ''ENGINEERING_TEST'' \<or> decision_mode_name m = ''SHADOW'' \<or>
     decision_mode_name m = ''CALIBRATED_BLOCKED'' \<or> decision_mode_name m = ''PRODUCTION_ELIGIBLE''"
  "i \<noteq> SUPERVISOR_ESCALATION \<Longrightarrow> intervention_name i = ''WARN'' \<or>
     intervention_name i = ''HOLD_PROTECTED_ACTION'' \<or> intervention_name i = ''REQUIRE_STEP_UP'' \<or>
     intervention_name i = ''REQUIRE_CALLBACK'' \<or> intervention_name i = ''END_CALL''"
  "control_mode_name c = ''DEMO'' \<or> control_mode_name c = ''SHADOW'' \<or>
     control_mode_name c = ''PRODUCTION''"
     apply (cases s; simp)
    apply (cases e; simp)
   apply (cases m; simp)
  apply (cases i; simp)
  by (cases c; simp)

lemma outcome_names:
  "outcome_name r = ''VERIFIED'' \<or> outcome_name r = ''UNVERIFIED'' \<or>
     outcome_name r = ''HIGH_RISK'' \<or> outcome_name r = ''CRITICAL'' \<or>
     outcome_name r = ''INSUFFICIENT_EVIDENCE''"
proof (cases r)
  case (STATE s)
  then show ?thesis by (cases s) simp_all
qed simp

lemma described_assessment:
  assumes "assessment_fits a"
  shows "conforms n cs riskAssessment_schema (assessment_view env a)"
proof -
  have interventions: "list_all (\<lambda>i. intervention_name i = ''WARN'' \<or>
     intervention_name i = ''HOLD_PROTECTED_ACTION'' \<or> intervention_name i = ''REQUIRE_STEP_UP'' \<or>
     intervention_name i = ''REQUIRE_CALLBACK'' \<or> intervention_name i = ''END_CALL'')
     (ra_proposedInterventions a)"
    using assms unfolding assessment_fits_def list_all_iff by (blast dest: enum_names(4))
  then show ?thesis
    using assms
    by (simp add: riskAssessment_schema_def assessment_view_def json_date_def nullable_text
        string_defs int_string_digits assessment_fits_def enum_names(1-3) outcome_names list.pred_map
        comp_def split: option.splits)
qed

lemma described_event:
  "0 \<le> re_eventSequence e \<Longrightarrow> conforms n cs riskEvent_schema (call_event_view env e)"
  by (simp add: riskEvent_schema_def call_event_view_def json_date_def string_defs int_string_digits
      enum_names(1,5))

lemma described_page:
  assumes "\<And>r. r \<in> set (pg_items page) \<Longrightarrow> conforms n components s (view r)"
    and "map_of components item = Some s"
  shows "conforms (Suc n) components (ObjectSchema Closed False [''items'', ''nextCursor'']
     [(''items'', ArraySchema (RefSchema item)),
      (''nextCursor'', StringSchema (text_schema\<lparr>ss_nullable := True\<rparr>))]) (json_page view page)"
  using assms by (cases "pg_nextCursor page")
    (simp_all add: json_page_def json_option_def string_defs list_all_iff)

lemma described_policy:
  "is_object (rp_document p) \<Longrightarrow> conforms n cs riskPolicy_schema (policyView env p)"
  by (simp add: riskPolicy_schema_def policyView_def json_date_def string_defs nullable_text policy_names
      open_object split: option.split)

lemma described_status:
  "conforms n cs statusResult_schema (JObj [(''consentId'', JStr a), (''status'', JStr b)])"
  "conforms n cs statusResult_schema (JObj [(''voiceprintId'', JStr a), (''status'', JStr b)])"
  "conforms n cs statusResult_schema (intervention_view i)"
  by (simp_all add: statusResult_schema_def intervention_view_def string_defs)

lemma described_challenge: "conforms n cs verificationChallenge_schema (challenge_view env c)"
  by (simp add: verificationChallenge_schema_def challenge_view_def json_date_def string_defs challenge_names)

lemma described_speaker: "conforms n cs trustedSpeaker_schema (speaker_view r)"
  by (simp add: trustedSpeaker_schema_def speaker_view_def string_defs)

lemma described_consent: "conforms n cs consent_schema (consent_view env c)"
  by (cases "co_expiresAt c")
    (simp_all add: consent_schema_def consent_view_def json_option_def json_date_def string_defs)

lemma described_voiceprint:
  "conforms n cs voiceprint_schema (JObj [(''voiceprintId'', JStr a), (''trustedSpeakerId'', JStr b),
     (''modelVersionId'', JStr c), (''status'', JStr d)])"
  by (simp add: voiceprint_schema_def string_defs)

lemma described_current: "conforms n cs currentCallSecurity_schema (current_view env r)"
  by (simp add: currentCallSecurity_schema_def current_view_def call_fields_def nullable_text nullable_object
      json_date_def string_defs participant_view_def current_risk_view_def latest_transition_view_def
      active_intervention_view_def list.pred_map comp_def list.pred_True string_defs split: option.split)

lemma described_operations_page:
  "(\<And>r. is_object (view r)) \<Longrightarrow> conforms n cs securityOperationsPage_schema (json_page view page)"
  by (cases "pg_nextCursor page")
    (simp_all add: securityOperationsPage_schema_def json_page_def json_option_def string_defs
      list.pred_map comp_def list_all_iff open_object)

lemma described_summary: "conforms n cs dashboardSummary_schema (summary_view r)"
proof -
  have "\<exists>k. (of_nat m :: rat) = of_int k" for m by (rule exI [of _ "int m"]) simp
  then show ?thesis
    by (simp add: dashboardSummary_schema_def summary_view_def list_all_iff split_beta)
qed

lemma described_acknowledgement:
  "al_acknowledgedAt a \<noteq> None \<Longrightarrow> conforms n cs alertAcknowledgement_schema (acknowledged_view env a)"
  by (auto simp: alertAcknowledgement_schema_def acknowledged_view_def json_option_def json_date_def
      string_defs)

text \<open>
  No answer is a grant for a participant as the document describes it: one part of the schema allows
  nothing but the members of the other part, which requires two more.
\<close>

lemma participant_grant_unsatisfiable: "\<not> described ''Calls.invite'' v"
proof
  assume "described ''Calls.invite'' v"
  then have grant: "conforms 2 components participantGrant_schema v"
    by (simp add: described_def responseSchemas_def numeral_3_eq_3 numeral_2_eq_2)
  then have join: "conforms 1 components joinGrant_schema v"
    by (simp add: participantGrant_schema_def numeral_2_eq_2)
  then obtain kvs where v: "v = JObj kvs"
    by (cases v) (simp_all add: joinGrant_schema_def conforms.simps(6))
  with grant obtain x where "map_of kvs ''participantId'' = Some x"
    by (auto simp: participantGrant_schema_def)
  then have "(''participantId'', x) \<in> set kvs" by (rule map_of_SomeD)
  with join v show False by (auto simp: joinGrant_schema_def list_all_iff)
qed

lemma escalation_not_described:
  assumes "SUPERVISOR_ESCALATION \<in> set (ra_proposedInterventions a)"
  shows "\<not> conforms n cs riskAssessment_schema (assessment_view env a)"
proof -
  have "\<not> list_all (\<lambda>i. intervention_name i = ''WARN'' \<or>
     intervention_name i = ''HOLD_PROTECTED_ACTION'' \<or> intervention_name i = ''REQUIRE_STEP_UP'' \<or>
     intervention_name i = ''REQUIRE_CALLBACK'' \<or> intervention_name i = ''END_CALL'')
     (ra_proposedInterventions a)"
    using assms by (force simp: list_all_iff)
  then show ?thesis
    by (simp add: riskAssessment_schema_def assessment_view_def list.pred_map comp_def)
qed

end
