(* ===== verification/Tenant_Isolation.thy ===== *)
theory Tenant_Isolation
  imports Member_Routes
begin

text \<open>
  What a member's request may touch. Every repository filters by the organization of the principal, so
  a request leaves the rows of every other organization as they are, whatever its handler does and
  wherever it stops.
\<close>

section \<open>The rows of the other organizations\<close>

definition other_tenants :: "uuid \<Rightarrow> db \<Rightarrow> db" where
  "other_tenants q d = d\<lparr>
     d_calls := filter (\<lambda>r. ca_org r \<noteq> q) (d_calls d),
     d_participants := filter (\<lambda>r. cp_org r \<noteq> q) (d_participants d),
     d_tracks := filter (\<lambda>r. mt_org r \<noteq> q) (d_tracks d),
     d_bindings := filter (\<lambda>r. tb_org r \<noteq> q) (d_bindings d),
     d_sessions := filter (\<lambda>r. as_org r \<noteq> q) (d_sessions d),
     d_policies := filter (\<lambda>r. rp_org r \<noteq> q) (d_policies d),
     d_evidence := filter (\<lambda>r. ev_org r \<noteq> q) (d_evidence d),
     d_assessments := filter (\<lambda>r. ra_org r \<noteq> q) (d_assessments d),
     d_assessmentEvidence := filter (\<lambda>r. el_org r \<noteq> q) (d_assessmentEvidence d),
     d_riskEvents := filter (\<lambda>r. re_org r \<noteq> q) (d_riskEvents d),
     d_riskEventEvidence := filter (\<lambda>r. el_org r \<noteq> q) (d_riskEventEvidence d),
     d_interventions := filter (\<lambda>r. iv_org r \<noteq> q) (d_interventions d),
     d_challenges := filter (\<lambda>r. vc_org r \<noteq> q) (d_challenges d),
     d_alerts := filter (\<lambda>r. al_org r \<noteq> q) (d_alerts d),
     d_audit := filter (\<lambda>r. au_org r \<noteq> q) (d_audit d),
     d_memberships := filter (\<lambda>r. ms_org r \<noteq> q) (d_memberships d),
     d_roles := filter (\<lambda>r. mr_org r \<noteq> q) (d_roles d),
     d_devices := filter (\<lambda>r. dv_org r \<noteq> q) (d_devices d),
     d_refreshSessions := filter (\<lambda>r. rs_org r \<noteq> q) (d_refreshSessions d),
     d_speakers := filter (\<lambda>r. ts_org r \<noteq> q) (d_speakers d),
     d_consents := filter (\<lambda>r. co_org r \<noteq> q) (d_consents d),
     d_voiceprints := filter (\<lambda>r. vp_org r \<noteq> q) (d_voiceprints d)\<rparr>"

text \<open>
  The invariant of a request: the other organizations have the rows of \<open>d0\<close>. Sessions and voiceprints
  are also updated by their identifiers alone, which are unique.
\<close>

definition isolated :: "uuid \<Rightarrow> db \<Rightarrow> db \<Rightarrow> bool" where
  "isolated q d0 d \<longleftrightarrow> other_tenants q d = other_tenants q d0 \<and>
     sessions_db.consistent d \<and> voiceprints_db.consistent d"

locale tenant_table =
  fixes tb :: "'r table" and owner :: "'r \<Rightarrow> uuid"
  assumes put_own: "filter (\<lambda>r. owner r \<noteq> q) (f (t_get tb d)) = filter (\<lambda>r. owner r \<noteq> q) (t_get tb d) \<Longrightarrow>
      other_tenants q (t_put tb f d) = other_tenants q d"
begin

lemma create_own:
  "owner r = q \<Longrightarrow> keeps (on_db (\<lambda>d. other_tenants q d = x)) (create tb r)"
  by (rule keeps_create) (simp add: put_own)

lemma change_own:
  "(\<And>r. r \<in> set rs \<Longrightarrow> P r \<Longrightarrow> owner r = q \<and> owner (f r) = q) \<Longrightarrow>
     filter (\<lambda>r. owner r \<noteq> q) (change_rows P f rs) = filter (\<lambda>r. owner r \<noteq> q) rs"
  by (induction rs) (auto simp: change_rows_def)

lemma update_own:
  assumes "\<And>d r. I d \<Longrightarrow> r \<in> set (t_get tb d) \<Longrightarrow> P r \<Longrightarrow> owner r = q \<and> owner (f r) = q"
    and "\<And>d. I d \<Longrightarrow> other_tenants q d = x"
    and "on_db I w"
  shows "on_db (\<lambda>d. other_tenants q d = x) (snd (update_rows tb P f w))"
  using assms by (auto simp: update_rows_def on_db_def Let_def put_own change_own)

end

locale plain_tenant_table = tenant_table tb owner for tb :: "'r table" and owner :: "'r \<Rightarrow> uuid" +
  assumes put_sessions: "d_sessions (t_put tb f d) = d_sessions d"
    and put_voiceprints: "d_voiceprints (t_put tb f d) = d_voiceprints d"
begin

lemma consistent_put:
  "sessions_db.consistent (t_put tb f d) = sessions_db.consistent d"
  "voiceprints_db.consistent (t_put tb f d) = voiceprints_db.consistent d"
  unfolding sessions_db.consistent_def voiceprints_db.consistent_def
  by (simp_all add: sessions_table_def voiceprints_table_def put_sessions put_voiceprints)

lemma keeps_create_own:
  "owner r = q \<Longrightarrow> keeps (on_db (isolated q d0)) (create tb r)"
  by (rule keeps_create) (simp add: put_own isolated_def consistent_put)

lemma keeps_update_own:
  "(\<And>r. P r \<Longrightarrow> owner r = q \<and> owner (f r) = q) \<Longrightarrow>
     keeps (on_db (isolated q d0)) (update_rows tb P f)"
  by (rule keeps_update_rows) (simp add: put_own change_own isolated_def consistent_put)

lemma keeps_update_one_own:
  "(\<And>r. P r \<Longrightarrow> owner r = q \<and> owner (f r) = q) \<Longrightarrow>
     keeps (on_db (isolated q d0)) (update_one tb P f)"
  by (rule keeps_update_one) (rule keeps_update_own)

end

locale keyed_tenant_table = tenant_table tb owner + db_table tb
  for tb :: "'r table" and owner :: "'r \<Rightarrow> uuid" +
  fixes key :: "'r \<Rightarrow> uuid"
  assumes key_clash: "key a = key b \<Longrightarrow> t_clash tb a b"
    and get_other: "t_get tb (other_tenants q d) = filter (\<lambda>r. owner r \<noteq> q) (t_get tb d)"
begin

text \<open>Keys that no row of another organization has.\<close>

definition own_keys :: "uuid \<Rightarrow> db \<Rightarrow> uuid list \<Rightarrow> bool" where
  "own_keys q d0 ids \<longleftrightarrow> (\<forall>r \<in> set (t_get tb d0). owner r \<noteq> q \<longrightarrow> key r \<notin> set ids)"

lemma same_others:
  "other_tenants q d = other_tenants q d0 \<Longrightarrow> owner r \<noteq> q \<Longrightarrow>
     r \<in> set (t_get tb d) \<longleftrightarrow> r \<in> set (t_get tb d0)"
  using arg_cong [OF get_other [of q d], of set] get_other [of q d0] by auto

lemma own_keys_found:
  assumes "other_tenants q d = other_tenants q d0" "consistent d"
    and "\<And>r. r \<in> set rs \<Longrightarrow> r \<in> set (t_get tb d) \<and> owner r = q"
  shows "own_keys q d0 (map key rs)"
  unfolding own_keys_def
proof (intro ballI impI notI)
  fix r assume r: "r \<in> set (t_get tb d0)" "owner r \<noteq> q" "key r \<in> set (map key rs)"
  then obtain x where x: "x \<in> set rs" "key r = key x" by auto
  with assms r same_others [of q d d0 r] have "r = x"
    by (metis consistent_unique key_clash)
  with x assms(3) r(2) show False by blast
qed

lemma own_keys_owner:
  "own_keys q d0 ids \<Longrightarrow> other_tenants q d = other_tenants q d0 \<Longrightarrow> r \<in> set (t_get tb d) \<Longrightarrow>
     key r \<in> set ids \<Longrightarrow> owner r = q"
  using same_others [of q d d0 r] unfolding own_keys_def by blast

end

interpretation calls_own: plain_tenant_table calls_table ca_org
  by unfold_locales (auto simp: calls_table_def other_tenants_def)

interpretation participants_own: plain_tenant_table participants_table cp_org
  by unfold_locales (auto simp: participants_table_def other_tenants_def)

interpretation policies_own: plain_tenant_table policies_table rp_org
  by unfold_locales (auto simp: policies_table_def other_tenants_def)

interpretation interventions_own: plain_tenant_table interventions_table iv_org
  by unfold_locales (auto simp: interventions_table_def other_tenants_def)

interpretation challenges_own: plain_tenant_table challenges_table vc_org
  by unfold_locales (auto simp: challenges_table_def other_tenants_def)

interpretation alerts_own: plain_tenant_table alerts_table al_org
  by unfold_locales (auto simp: alerts_table_def other_tenants_def)

interpretation audits_own: plain_tenant_table audits_table au_org
  by unfold_locales (auto simp: audits_table_def other_tenants_def)

interpretation speakers_own: plain_tenant_table speakers_table ts_org
  by unfold_locales (auto simp: speakers_table_def other_tenants_def)

interpretation consents_own: plain_tenant_table consents_table co_org
  by unfold_locales (auto simp: consents_table_def other_tenants_def)

interpretation sessions_own: keyed_tenant_table sessions_table as_org as_id
  by unfold_locales (auto simp: sessions_table_def other_tenants_def clash_defs)

interpretation voiceprints_own: keyed_tenant_table voiceprints_table vp_org vp_id
  by unfold_locales (auto simp: voiceprints_table_def other_tenants_def clash_defs)


section \<open>The repositories\<close>

lemmas own_tables [own] =
  calls_own.keeps_create_own calls_own.keeps_update_own calls_own.keeps_update_one_own
  participants_own.keeps_create_own participants_own.keeps_update_own
  policies_own.keeps_create_own policies_own.keeps_update_own policies_own.keeps_update_one_own
  interventions_own.keeps_update_own challenges_own.keeps_create_own challenges_own.keeps_update_own
  alerts_own.keeps_update_own audits_own.keeps_create_own speakers_own.keeps_create_own
  speakers_own.keeps_update_one_own consents_own.keeps_create_own consents_own.keeps_update_one_own

lemmas at_defs = call_at_def participant_at_def consent_at_def voiceprint_at_def policy_by_def
  intervention_in_def

text \<open>A row that is built by checks and then stored.\<close>

lemma keeps_lift_row:
  "(\<And>a. r = Inr a \<Longrightarrow> keeps I (f a)) \<Longrightarrow> keeps I (bindM (liftE r) f)"
  by (cases r) (auto simp: keeps_def bindM_def liftE_def)

lemma audit_row_org: "audit_row_of q input i t = Inr row \<Longrightarrow> au_org row = q"
  by (auto simp: audit_row_of_def)

lemma participant_row_org: "participant_row_of q c t input i = Inr row \<Longrightarrow> cp_org row = q"
  by (auto simp: participant_row_of_def)

lemma call_row_org: "call_row_of q input policy t i = Inr row \<Longrightarrow> ca_org row = q"
  by (auto simp: call_row_of_def)

lemma challenge_row_org: "new_challenge_row q input k i t = Inr row \<Longrightarrow> vc_org row = q"
  by (auto simp: new_challenge_row_def)

lemma policy_row_org: "policy_row_of q input i t = Inr row \<Longrightarrow> rp_org row = q"
  by (auto simp: policy_row_of_def)

lemma own_audit_append [own]: "keeps (on_db (isolated q d0)) (audit_appendWithClient q input)"
  unfolding audit_appendWithClient_def
  by (rule keeps_bind_tenant keeps_lift_row own hoare audit_row_org | simp)+

lemma own_audit_record [own]:
  "wa_organizationId input = q \<Longrightarrow> keeps (on_db (isolated q d0)) (audit_record input)"
  unfolding audit_record_def audit_append_def
  by (simp only:) (rule keeps_bind_tenant own hoare | simp)+

lemma own_create_participant [own]:
  "keeps (on_db (isolated q d0)) (create_participant q c t input)"
  unfolding create_participant_def
  by (rule keeps_lift_row own hoare participant_row_org | simp)+

lemma own_insert_call [own]: "keeps (on_db (isolated q d0)) (insert_call q input)"
  unfolding insert_call_def
  by (rule keeps_lift_row own hoare call_row_org | simp)+

lemma own_create_call [own]:
  "keeps (on_db (isolated q d0)) (createCallWithParticipants q input)"
  unfolding createCallWithParticipants_def
  by (rule keeps_bind_tenant own hoare | simp)+

lemma own_add_participant [own]: "keeps (on_db (isolated q d0)) (addParticipant q i input)"
  unfolding addParticipant_def by (rule keeps_bind_tenant keeps_bind_uuid own hoare | simp)+

lemma own_transition_call [own]: "keeps (on_db (isolated q d0)) (transitionCall q i a b t)"
  unfolding transitionCall_def
  by (rule keeps_bind_tenant keeps_bind_uuid own hoare | simp add: at_defs call_after_def Let_def)+

lemma own_update_intervention [own]:
  "keeps (on_db (isolated q d0)) (updateInterventionStatus q i a b m)"
  unfolding updateInterventionStatus_def now_if_def
  by (rule keeps_bind_tenant keeps_bind_uuid own hoare |
      simp add: now_if_def at_defs intervention_after_def Let_def split: option.split)+

lemma own_create_challenge [own]:
  "keeps (on_db (isolated q d0)) (createVerificationChallenge q input)"
  unfolding createVerificationChallenge_def challenge_by_key_def
  by (rule keeps_bind_tenant keeps_lift_row own hoare challenge_row_org | simp)+

lemma own_create_speaker [own]: "keeps (on_db (isolated q d0)) (createTrustedSpeaker q input)"
  unfolding createTrustedSpeaker_def by (rule keeps_bind_tenant own hoare | simp)+

lemma own_grant_consent [own]: "keeps (on_db (isolated q d0)) (enrollment_grantConsent q input)"
  unfolding enrollment_grantConsent_def by (rule keeps_bind_tenant own hoare | simp)+

lemma own_create_policy [own]: "keeps (on_db (isolated q d0)) (createRiskPolicy q input)"
  unfolding createRiskPolicy_def
  by (rule keeps_bind_tenant keeps_lift_row own hoare policy_row_org | simp)+

lemma own_activate_policy [own]: "keeps (on_db (isolated q d0)) (activateRiskPolicy q i)"
  unfolding activateRiskPolicy_def activate_policy_def
  by (rule keeps_bind_tenant own hoare |
      simp add: at_defs other_active_def retired_policy_def activated_policy_def)+

lemma own_acknowledge_alert [own]:
  "keeps (on_db (isolated q d0)) (repository_acknowledgeAlert q i m)"
  unfolding repository_acknowledgeAlert_def by (rule keeps_bind_tenant own hoare | simp)+

text \<open>The tables of sessions and voiceprints.\<close>

lemma isolatedD:
  "isolated q d0 d \<Longrightarrow> other_tenants q d = other_tenants q d0"
  "isolated q d0 d \<Longrightarrow> sessions_db.consistent d" "isolated q d0 d \<Longrightarrow> voiceprints_db.consistent d"
  by (simp_all add: isolated_def)

lemma isolated_on_db:
  "on_db (isolated q d0) w \<longleftrightarrow> on_db (\<lambda>d. other_tenants q d = other_tenants q d0) w \<and>
     on_db sessions_db.consistent w \<and> on_db voiceprints_db.consistent w"
  by (simp add: on_db_def isolated_def)

lemma session_writes_frame:
  "keeps (on_db voiceprints_db.consistent) (update_rows sessions_table P f)"
  by (rule keeps_update_rows)
    (unfold voiceprints_db.consistent_def, simp add: voiceprints_table_def sessions_table_def)

lemma voiceprint_writes_frame:
  "keeps (on_db sessions_db.consistent) (update_rows voiceprints_table P f)"
  "keeps (on_db sessions_db.consistent) (create voiceprints_table v)"
  unfolding sessions_db.consistent_def
  by (rule keeps_update_rows keeps_create, simp add: voiceprints_table_def sessions_table_def)+

lemma own_sessions_update:
  assumes "\<And>d r. isolated q d0 d \<Longrightarrow> r \<in> set (t_get sessions_table d) \<Longrightarrow> P r \<Longrightarrow>
      as_org r = q \<and> as_org (f r) = q"
  shows "keeps (on_db (isolated q d0)) (update_rows sessions_table P f)"
proof (rule keepsI)
  fix w assume w: "on_db (isolated q d0) w"
  from sessions_own.update_own [OF assms isolatedD(1) w] w
  show "on_db (isolated q d0) (snd (update_rows sessions_table P f w))"
    by (auto simp: isolated_on_db intro: keeps_sndD sessions_db.update_consistent session_writes_frame)
qed

lemma own_voiceprints_update:
  assumes "\<And>d r. isolated q d0 d \<Longrightarrow> r \<in> set (t_get voiceprints_table d) \<Longrightarrow> P r \<Longrightarrow>
      vp_org r = q \<and> vp_org (f r) = q"
  shows "keeps (on_db (isolated q d0)) (update_rows voiceprints_table P f)"
proof (rule keepsI)
  fix w assume w: "on_db (isolated q d0) w"
  from voiceprints_own.update_own [OF assms isolatedD(1) w] w
  show "on_db (isolated q d0) (snd (update_rows voiceprints_table P f w))"
    by (auto simp: isolated_on_db
        intro: keeps_sndD voiceprints_db.update_consistent voiceprint_writes_frame)
qed

lemma own_voiceprints_create [own]:
  assumes "vp_org v = q" shows "keeps (on_db (isolated q d0)) (create voiceprints_table v)"
proof (rule keepsI)
  fix w assume w: "on_db (isolated q d0) w"
  have "keeps (on_db (\<lambda>d. other_tenants q d = other_tenants q d0)) (create voiceprints_table v)"
    by (rule voiceprints_own.create_own) (rule assms)
  with w show "on_db (isolated q d0) (snd (create voiceprints_table v w))"
    by (auto simp: isolated_on_db
        intro: keeps_sndD voiceprints_db.create_consistent voiceprint_writes_frame)
qed

text \<open>Rows that were found by the organization have keys of its own.\<close>

lemma found_sessions:
  assumes "\<And>s. P s \<Longrightarrow> as_org s = q"
  shows "yields (on_db (isolated q d0)) (find_many sessions_table P)
     (\<lambda>ss. sessions_own.own_keys q d0 (map as_id ss))"
  by (rule yieldsI, rule hoare)
    (auto simp: find_many_def getM_def on_db_def isolated_def assms intro!: sessions_own.own_keys_found)

lemma found_voiceprints:
  assumes "\<And>v. P v \<Longrightarrow> vp_org v = q"
  shows "yields (on_db (isolated q d0)) (find_many voiceprints_table P)
     (\<lambda>vs. voiceprints_own.own_keys q d0 (map vp_id vs))"
  by (rule yieldsI, rule hoare)
    (auto simp: find_many_def getM_def on_db_def isolated_def assms intro!: voiceprints_own.own_keys_found)

lemma own_revoke_sessions:
  "sessions_own.own_keys q d0 ids \<Longrightarrow> keeps (on_db (isolated q d0)) (revoke_sessions ids t)"
  unfolding revoke_sessions_def end_sessions_def
  by (rule own_sessions_update) (auto dest: sessions_own.own_keys_owner isolatedD(1))

lemma own_revoke_consent [own]:
  "keeps (on_db (isolated q d0)) (enrollment_revokeConsent q i reason)"
proof -
  have voiceprints: "keeps (on_db (isolated q d0)) (update_rows voiceprints_table
      (\<lambda>v. List.member ids (vp_id v)) (\<lambda>v. v\<lparr>vp_status := VP_REVOKED, vp_revokedAt := Some t\<rparr>))"
    if "voiceprints_own.own_keys q d0 ids" for ids t
    using that by (intro own_voiceprints_update)
      (auto dest: voiceprints_own.own_keys_owner isolatedD(1))
  have revoked: "keeps (on_db (isolated q d0)) (revoke_granted q c reason t)" for c t
    unfolding revoke_granted_def
    by (rule keeps_yields [OF found_voiceprints] keeps_yields [OF found_sessions] voiceprints
        own_revoke_sessions own hoare | simp add: active_under_def at_defs)+
  show ?thesis
    unfolding enrollment_revokeConsent_def
    by (rule keeps_bind_tenant keeps_bind_uuid revoked hoare | simp)+
qed

lemma own_delete_voiceprint [own]:
  "keeps (on_db (isolated q d0)) (enrollment_deleteVoiceprint q i)"
  unfolding enrollment_deleteVoiceprint_def
  by (rule keeps_bind_tenant keeps_bind_uuid keeps_yields [OF found_sessions] own_revoke_sessions
      keeps_update_one own_voiceprints_update hoare | simp add: at_defs erased_def)+

lemma own_activate_voiceprint [own]:
  "keeps (on_db (isolated q d0)) (activateVoiceprint q input)"
  unfolding activateVoiceprint_def require_active_consent_def store_voiceprint_def
  by (rule keeps_bind_tenant keeps_bind_uuid own own_voiceprints_update hoare | simp add: at_defs)+

section \<open>The interface of the routes\<close>

interpretation isolation: member_repositories "isolated q d0" q for q d0
  by unfold_locales (rule own, assumption?)+

section \<open>The theorem\<close>

lemma member_guards_run:
  assumes "member_guards env request permission category s = (Inr p, s')"
  shows "live_access (sv_world s) p \<and> hasPermission (pr_roles p) permission \<and>
    w_db (sv_world s') = w_db (sv_world s)"
proof -
  from assms obtain s1 b where
    g1: "in_world (access_token_guard (ap_auth env) (rq_authorization request)) s = (Inr p, s1)"
    and roles: "roles_guard (Some [permission]) None (Some p) = Inr b"
    unfolding member_guards_def bindM_eq_Inr_iff thenM_eq_Inr_iff
    by (force simp: liftE_def returnM_def)
  from g1 obtain w' where
    g: "access_token_guard (ap_auth env) (rq_authorization request) (sv_world s) = (Inr p, w')"
    by (auto simp: in_world_def split: prod.splits)
  from g obtain token where "authenticate (ap_auth env) token (sv_world s) = (Inr p, w')"
    by (auto simp: access_token_guard_def throwM_def guardM_def thenM_def returnM_def
        split: option.splits if_splits)
  from authenticate_run [OF this] have "live_access (sv_world s) p" unfolding live_access_def by blast
  moreover from roles have "hasPermission (pr_roles p) permission"
    by (auto simp: roles_guard_def Let_def split: if_splits)
  moreover have "on_world (on_db (\<lambda>d. d = w_db (sv_world s))) s'"
    by (rule keepsD [OF keeps_member_guards _ assms]) (simp add: on_world_def on_db_def)
  ultimately show ?thesis by (simp add: on_world_def on_db_def)
qed

text \<open>
  C1: A member's request whose guards refuse it fails and changes nothing in the database. Otherwise it
  was made by the principal of a live session that has the route's permission, and whatever the route
  does and wherever it fails, every row of every other organization, and every row that belongs to no
  organization, is afterwards what it was. The hypotheses are the unique and check constraints that
  the database enforces on the two tables that are also updated by identifier.
\<close>

theorem tenant_isolation:
  assumes run: "member_request env request route s = (r, s')"
    and sessions: "sessions_db.consistent (w_db (sv_world s))"
    and voiceprints: "voiceprints_db.consistent (w_db (sv_world s))"
  shows "((\<exists>e. r = Inl e) \<and> w_db (sv_world s') = w_db (sv_world s)) \<or>
    (\<exists>p. live_access (sv_world s) p \<and> hasPermission (pr_roles p) (route_permission route) \<and>
       other_tenants (pr_organizationId p) (w_db (sv_world s')) =
       other_tenants (pr_organizationId p) (w_db (sv_world s)))"
proof -
  let ?d = "w_db (sv_world s)"
  obtain g s1 where g: "member_guards env request (route_permission route) (route_category route) s = (g, s1)"
    by fastforce
  show ?thesis
  proof (cases g)
    case (Inl e)
    with run g have "r = Inl e" "s' = s1" by (simp_all add: member_request_def)
    moreover have "on_world (on_db (\<lambda>d. d = ?d)) s1"
      by (rule keepsD [OF keeps_member_guards _ g]) (simp add: on_world_def on_db_def)
    ultimately show ?thesis by (simp add: on_world_def on_db_def)
  next
    case (Inr p)
    from member_guards_run [OF g [unfolded Inr]] have p: "live_access (sv_world s) p"
      "hasPermission (pr_roles p) (route_permission route)" "w_db (sv_world s1) = ?d" by simp_all
    from run g Inr have h: "route_handler env request route p s1 = (r, s')"
      by (simp add: member_request_def)
    have "on_world (on_db (isolated (pr_organizationId p) ?d)) s'"
      by (rule keepsD [OF isolation.keeps_route [OF refl] _ h])
        (simp add: on_world_def on_db_def isolated_def p(3) sessions voiceprints)
    with p(1,2) show ?thesis by (auto simp: on_world_def on_db_def isolated_def)
  qed
qed

text \<open>An analyst acknowledges an alert; the alert of another organization is not touched.\<close>

definition tenants_world :: world where
  "tenants_world = gateway_world\<lparr>w_db := (w_db gateway_world)\<lparr>
     d_roles := [\<lparr>mr_org = auth_org, mr_membership = account1, mr_role = SECURITY_ANALYST\<rparr>],
     d_alerts := [sample_alert, sample_alert\<lparr>al_id := call1, al_org := org1, al_idemKey := ''other'',
       al_externalEventId := None\<rparr>]\<rparr>\<rparr>"

lemma acknowledge_alert_request:
  "member_request env request (OperationsRoute (AcknowledgeAlert i)) =
     bindM (member_guards env request P_intervention_resolve CAT_MUTATION)
       (alert_acknowledge_route env request i)"
  by (simp add: member_request_def)

lemma alert_acknowledged:
  "\<exists>v. fst (member_request sample_api sample_http (OperationsRoute (AcknowledgeAlert account1))
     (sample_server tenants_world)) = Inr v"
proof -
  have "(case fst (bindM (member_guards sample_api sample_http P_intervention_resolve CAT_MUTATION)
      (alert_acknowledge_route sample_api sample_http account1) (sample_server tenants_world)) of
      Inl e \<Rightarrow> False | Inr v \<Rightarrow> True)"
    by code_simp
  then show ?thesis unfolding acknowledge_alert_request by (auto split: sum.splits)
qed

theorem tenant_isolation_witness:
  "\<exists>p. live_access tenants_world p \<and> hasPermission (pr_roles p) P_intervention_resolve \<and>
     other_tenants (pr_organizationId p) (w_db (sv_world (snd (member_request sample_api sample_http
       (OperationsRoute (AcknowledgeAlert account1)) (sample_server tenants_world))))) =
     other_tenants (pr_organizationId p) (w_db tenants_world)"
proof -
  have sessions: "sessions_db.consistent (w_db (sv_world (sample_server tenants_world)))"
    unfolding sessions_db.consistent_def
    by (simp add: sample_server_def tenants_world_def gateway_world_def auth_db_def empty_db_def
        sessions_table_def)
  have voiceprints: "voiceprints_db.consistent (w_db (sv_world (sample_server tenants_world)))"
    unfolding voiceprints_db.consistent_def
    by (simp add: sample_server_def tenants_world_def gateway_world_def auth_db_def empty_db_def
        voiceprints_table_def)
  from tenant_isolation [OF prod.collapse [symmetric] sessions voiceprints, of sample_api sample_http
      "OperationsRoute (AcknowledgeAlert account1)"] alert_acknowledged
  show ?thesis by (auto simp: sample_server_def)
qed

end
