(* ===== verification/Api_Answers.thy ===== *)
theory Api_Answers
  imports Public_Api Tenant_Isolation
begin

text \<open>
  The types of the API: what the routes of members answer is what the document describes. The answers
  show stored rows, so the invariant says what the document's schemas need of them, and stored answers of
  the idempotency service are described as well. Every request keeps the invariant.
\<close>

section \<open>The stored rows\<close>

text \<open>
  No call is stored as requested, numbers of events are not negative, the texts of assessments fit their
  columns, policy documents are objects, and organizations are identified by UUIDs. No assessment
  proposes an escalation to a supervisor, which the document does not know.
\<close>

definition answerable :: "db \<Rightarrow> bool" where
  "answerable d \<longleftrightarrow> (\<forall>c \<in> set (d_calls d). ca_status c \<noteq> CALL_REQUESTED) \<and>
     (\<forall>e \<in> set (d_riskEvents d). 0 \<le> re_eventSequence e) \<and>
     (\<forall>a \<in> set (d_assessments d). assessment_fits a) \<and>
     (\<forall>p \<in> set (d_policies d). is_object (rp_document p)) \<and>
     (\<forall>r \<in> set (d_refreshSessions d). length (rs_org r) = 36)"

text \<open>Tables that the invariant does not read.\<close>

locale unread_table =
  fixes tb :: "'r table"
  assumes answerable_put: "answerable (t_put tb f d) = answerable d"
begin

lemma keeps_create_unread: "keeps (on_db answerable) (create tb r)"
  by (rule keeps_create) (simp add: answerable_put)

lemma keeps_update_unread: "keeps (on_db answerable) (update_rows tb P f)"
  by (rule keeps_update_rows) (simp add: answerable_put)

end

interpretation participants_unread: unread_table participants_table
  by unfold_locales (simp add: participants_table_def answerable_def)

interpretation interventions_unread: unread_table interventions_table
  by unfold_locales (simp add: interventions_table_def answerable_def)

interpretation challenges_unread: unread_table challenges_table
  by unfold_locales (simp add: challenges_table_def answerable_def)

interpretation alerts_unread: unread_table alerts_table
  by unfold_locales (simp add: alerts_table_def answerable_def)

interpretation audits_unread: unread_table audits_table
  by unfold_locales (simp add: audits_table_def answerable_def)

interpretation speakers_unread: unread_table speakers_table
  by unfold_locales (simp add: speakers_table_def answerable_def)

interpretation consents_unread: unread_table consents_table
  by unfold_locales (simp add: consents_table_def answerable_def)

interpretation voiceprints_unread: unread_table voiceprints_table
  by unfold_locales (simp add: voiceprints_table_def answerable_def)

interpretation sessions_unread: unread_table sessions_table
  by unfold_locales (simp add: sessions_table_def answerable_def)

lemma keeps_create_call_row:
  "ca_status c \<noteq> CALL_REQUESTED \<Longrightarrow> keeps (on_db answerable) (create calls_table c)"
  by (rule keeps_create) (auto simp: calls_table_def answerable_def)

lemma keeps_update_call_rows:
  "(\<And>c. ca_status (f c) \<noteq> CALL_REQUESTED) \<Longrightarrow> keeps (on_db answerable) (update_rows calls_table P f)"
  by (rule keeps_update_rows) (auto simp: calls_table_def answerable_def change_rows_def)

lemma keeps_create_policy_row:
  "is_object (rp_document p) \<Longrightarrow> keeps (on_db answerable) (create policies_table p)"
  by (rule keeps_create) (auto simp: policies_table_def answerable_def)

lemma keeps_update_policy_rows:
  "(\<And>p. rp_document (f p) = rp_document p) \<Longrightarrow> keeps (on_db answerable) (update_rows policies_table P f)"
  by (rule keeps_update_rows) (auto simp: policies_table_def answerable_def change_rows_def)

lemmas unread_writes = participants_unread.keeps_create_unread participants_unread.keeps_update_unread
  interventions_unread.keeps_update_unread challenges_unread.keeps_create_unread
  challenges_unread.keeps_update_unread alerts_unread.keeps_update_unread
  audits_unread.keeps_create_unread speakers_unread.keeps_create_unread
  speakers_unread.keeps_update_unread consents_unread.keeps_create_unread
  consents_unread.keeps_update_unread voiceprints_unread.keeps_create_unread
  voiceprints_unread.keeps_update_unread sessions_unread.keeps_update_unread keeps_update_one

lemma call_row_status: "call_row_of q input policy t i = Inr row \<Longrightarrow> ca_status row = CALL_AUTHORIZED"
  by (auto simp: call_row_of_def)

lemma policy_row_document: "policy_row_of q input i t = Inr row \<Longrightarrow> rp_document row = cy_document input"
  by (auto simp: policy_row_of_def)

lemma answerable_create_call: "keeps (on_db answerable) (createCallWithParticipants q input)"
  unfolding createCallWithParticipants_def insert_call_def create_participant_def
  by (rule keeps_lift_row keeps_create_call_row unread_writes hoare | simp add: call_row_status)+

lemma answerable_transition:
  "to' \<noteq> CALL_REQUESTED \<Longrightarrow> keeps (on_db answerable) (transitionCall q i from to' t)"
  unfolding transitionCall_def
  by (rule keeps_update_call_rows own hoare | simp add: call_after_def Let_def)+

lemma answerable_create_policy:
  "is_object (cy_document input) \<Longrightarrow> keeps (on_db answerable) (createRiskPolicy q input)"
  unfolding createRiskPolicy_def
  by (rule keeps_lift_row keeps_create_policy_row hoare | simp add: policy_row_document)+

lemma answerable_activate_policy: "keeps (on_db answerable) (activateRiskPolicy q i)"
  unfolding activateRiskPolicy_def activate_policy_def
  by (rule keeps_update_policy_rows keeps_update_one hoare |
      simp add: retired_policy_def activated_policy_def)+

interpretation answers: member_repositories answerable q for q
proof
  show "keeps (on_db answerable) (audit_record entry)" for entry
    unfolding audit_record_def audit_append_def audit_appendWithClient_def
    by (rule unread_writes hoare | simp)+
  show "keeps (on_db answerable) (addParticipant q i participant)" for i participant
    unfolding addParticipant_def create_participant_def by (rule unread_writes hoare | simp)+
  show "keeps (on_db answerable) (updateInterventionStatus q i a b m)" for i a b m
    unfolding updateInterventionStatus_def now_if_def by (rule unread_writes hoare | simp)+
  show "keeps (on_db answerable) (createVerificationChallenge q challenge)" for challenge
    unfolding createVerificationChallenge_def challenge_by_key_def by (rule unread_writes hoare | simp)+
  show "keeps (on_db answerable) (createTrustedSpeaker q speaker)" for speaker
    unfolding createTrustedSpeaker_def by (rule unread_writes hoare | simp)+
  show "keeps (on_db answerable) (enrollment_grantConsent q consent)" for consent
    unfolding enrollment_grantConsent_def by (rule unread_writes hoare | simp)+
  show "keeps (on_db answerable) (enrollment_revokeConsent q i reason)" for i reason
    unfolding enrollment_revokeConsent_def revoke_granted_def revoke_sessions_def end_sessions_def
    by (rule unread_writes hoare | simp)+
  show "keeps (on_db answerable) (enrollment_deleteVoiceprint q i)" for i
    unfolding enrollment_deleteVoiceprint_def revoke_sessions_def end_sessions_def
    by (rule unread_writes hoare | simp)+
  show "keeps (on_db answerable) (activateVoiceprint q voiceprint)" for voiceprint
    unfolding activateVoiceprint_def require_active_consent_def store_voiceprint_def
    by (rule unread_writes hoare | simp)+
  show "keeps (on_db answerable) (repository_acknowledgeAlert q i member)" for i member
    unfolding repository_acknowledgeAlert_def by (rule unread_writes hoare | simp)+
qed (fact answerable_create_call answerable_transition answerable_create_policy
    answerable_activate_policy)+

section \<open>What operations return\<close>

lemma yields_keep_bind: "keeps I m \<Longrightarrow> (\<And>a. yields I (f a) P) \<Longrightarrow> yields I (bindM m f) P"
  by (rule yields_bind [OF yields_keeps])

lemma yields_keep_then: "keeps I m \<Longrightarrow> yields I k P \<Longrightarrow> yields I (thenM m k) P"
  unfolding thenM_def by (rule yields_keep_bind)

lemma yields_if: "(b \<Longrightarrow> yields I m P) \<Longrightarrow> (\<not> b \<Longrightarrow> yields I k P) \<Longrightarrow> yields I (if b then m else k) P"
  by simp

lemma yields_case_option:
  "(x = None \<Longrightarrow> yields I m P) \<Longrightarrow> (\<And>a. x = Some a \<Longrightarrow> yields I (f a) P) \<Longrightarrow>
     yields I (case x of None \<Rightarrow> m | Some a \<Rightarrow> f a) P"
  by (cases x) auto

lemma yields_catchM: "yields I m P \<Longrightarrow> (\<And>e. yields I (h e) P) \<Longrightarrow> yields I (catchM m h) P"
  by (rule yieldsI) (auto simp: catchM_eq_Inr_iff yields_def intro!: keeps_catchM, meson keepsD)

lemma yields_always: "keeps I m \<Longrightarrow> (\<And>a. P a) \<Longrightarrow> yields I m P"
  by (auto intro: yieldsI)

lemma yields_serializable:
  "yields (on_db I) operation P \<Longrightarrow> yields (on_db I) (serializable operation) P"
  unfolding yields_def on_db_def
  by (auto simp: on_db_def [symmetric] intro: keeps_serializable elim!: serializable_run)
    (metis on_db_def)

lemma yields_create: "keeps I (create tb r) \<Longrightarrow> P r \<Longrightarrow> yields I (create tb r) P"
  by (auto simp: yields_def create_def split: if_splits)

lemma yields_lift_row:
  "(\<And>row. r = Inr row \<Longrightarrow> yields I (k row) P) \<Longrightarrow> yields I (bindM (liftE r) k) P"
  by (cases r) (simp_all add: liftE_def bindM_def yields_def keeps_def)

text \<open>What a table with rows that all satisfy \<open>Q\<close> gives.\<close>

locale described_table =
  fixes tb :: "'r table" and Q :: "'r \<Rightarrow> bool"
  assumes described: "answerable d \<Longrightarrow> r \<in> set (t_get tb d) \<Longrightarrow> Q r"
begin

lemma yields_find: "yields (on_db answerable) (find_or_throw tb P e) Q"
proof (rule yieldsI)
  show "keeps (on_db answerable) (find_or_throw tb P e)" by (rule hoare)
  show "Q r" if "on_db answerable w" "find_or_throw tb P e w = (Inr r, w')" for w r w'
    using that described
    by (auto simp: find_or_throw_def find_unique_row_def bindM_eq_Inr_iff on_db_def
        split: option.splits dest: find_SomeD)
qed

lemma yields_unique:
  "(\<And>found. (case found of None \<Rightarrow> True | Some r \<Rightarrow> Q r) \<Longrightarrow> yields (on_db answerable) (k found) P') \<Longrightarrow>
     yields (on_db answerable) (bindM (find_unique_row tb P) k) P'"
  unfolding find_unique_row_def
  by (rule yields_bind [OF yields_getM [where P = "\<lambda>found. case found of None \<Rightarrow> True | Some r \<Rightarrow> Q r"]])
    (auto simp: on_db_def described split: option.split dest: find_SomeD)

lemma yields_latest:
  "(\<And>found. (case found of None \<Rightarrow> True | Some r \<Rightarrow> Q r) \<Longrightarrow> yields (on_db answerable) (k found) P') \<Longrightarrow>
     yields (on_db answerable) (bindM (find_latest tb P key) k) P'"
  unfolding find_latest_def
  by (rule yields_bind [OF yields_getM [where P = "\<lambda>found. case found of None \<Rightarrow> True | Some r \<Rightarrow> Q r"]])
    (auto simp: on_db_def described split: option.split dest!: latest_by_mem)

lemma yields_page:
  "yields (on_db answerable) (bindM (find_many tb P) (\<lambda>rs. liftE (keyset_page codec key request rs)))
     (\<lambda>page. \<forall>r \<in> set (pg_items page). Q r)"
proof (rule yields_bind)
  show "yields (on_db answerable) (find_many tb P) (\<lambda>rs. \<forall>r \<in> set rs. Q r)"
    unfolding find_many_def by (rule yields_getM) (auto simp: on_db_def described)
  show "yields (on_db answerable) (liftE (keyset_page codec key request rs))
      (\<lambda>page. \<forall>r \<in> set (pg_items page). Q r)" if "\<forall>r \<in> set rs. Q r" for rs
    using that
    by (intro yields_liftE) (auto simp: keyset_page_def page_of_def keyset_query_def Let_def
        split: if_splits dest!: in_set_takeD)
qed

end

abbreviation shown :: "call_row \<Rightarrow> bool" where
  "shown c \<equiv> ca_status c \<noteq> CALL_REQUESTED"

interpretation described_calls: described_table calls_table shown
  by unfold_locales (simp add: calls_table_def answerable_def)

interpretation described_events: described_table riskEvents_table "\<lambda>e. 0 \<le> re_eventSequence e"
  by unfold_locales (simp add: riskEvents_table_def answerable_def)

interpretation described_assessments: described_table assessments_table assessment_fits
  by unfold_locales (simp add: assessments_table_def answerable_def)

interpretation described_policies: described_table policies_table "\<lambda>p. is_object (rp_document p)"
  by unfold_locales (simp add: policies_table_def answerable_def)

lemmas answer_rules = yields_keep_then yields_if yields_case_option yields_throwM yields_returnM

section \<open>The services\<close>

lemma yields_tenant_call: "yields (on_db answerable) (findTenantCall q i) shown"
  unfolding findTenantCall_def by (rule yields_keep_bind described_calls.yields_find hoare)+

lemma yields_aggregate: "yields (on_db answerable) (findCallAggregate q i) (\<lambda>a. shown (cg_call a))"
  unfolding findCallAggregate_def
  by (rule yields_bind [OF yields_tenant_call] yields_keep_bind yields_returnM hoare | simp)+

lemma yields_transition:
  assumes "to' \<noteq> CALL_REQUESTED"
  shows "yields (on_db answerable) (transitionCall q i from to' t) shown"
  unfolding transitionCall_def
  by (rule yields_bind [OF yields_tenant_call] yields_tenant_call keeps_update_call_rows yields_keep_bind
      answer_rules hoare | simp add: call_after_def Let_def assms)+

lemma yields_create_call: "yields (on_db answerable) (createCallWithParticipants q input) shown"
proof -
  have insert: "yields (on_db answerable) (insert_call q input) shown" for q
    unfolding insert_call_def create_participant_def
    by (rule yields_lift_row yields_bind [OF yields_create [where P = shown]] keeps_create_call_row
        yields_keep_bind answer_rules keeps_lift_row unread_writes hoare | simp add: call_row_status)+
  show ?thesis
    unfolding createCallWithParticipants_def
    by (rule yields_serializable described_calls.yields_unique insert yields_keep_bind
        answer_rules hoare | simp split: if_split)+
qed

lemma yields_calls:
  "yields (on_db answerable) (calls_create env subject command) shown"
  "yields (on_db answerable) (calls_end env subject i k c) shown"
proof -
  note own_rules = answers.own_audit_as [OF refl] answers.own_transitions own hoare
  show "yields (on_db answerable) (calls_create env subject command) shown"
    unfolding calls_create_def
    by (rule yields_bind [OF yields_create_call] yields_keep_bind answer_rules own_rules | simp)+
  have cancel: "yields (on_db answerable) (cancel_call subject c k' c' t) shown" for c k' c' t
    unfolding cancel_call_def
    by (rule yields_bind [OF yields_transition] yields_keep_bind answer_rules own_rules | simp)+
  have clean: "yields (on_db answerable) (clean_up_call env subject a k' c') shown" for a k' c'
    unfolding clean_up_call_def Let_def
    by (rule yields_bind [OF yields_transition] yields_keep_bind answer_rules own_rules | simp)+
  have fail: "yields (on_db answerable) (fail_call subject c k' c') shown" for c k' c'
    unfolding fail_call_def
    by (rule yields_keep_bind answer_rules own_rules | simp)+
  show "yields (on_db answerable) (calls_end env subject i k c) shown"
    unfolding calls_end_def Let_def
    by (rule yields_bind [OF yields_aggregate] cancel clean fail yields_catchM yields_keep_bind
        answer_rules own_rules | simp)+
qed

lemma yields_queries:
  "yields (on_db answerable) (queries_active codec subject page) (\<lambda>found. \<forall>c \<in> set (pg_items found). shown c)"
  "yields (on_db answerable) (queries_riskEvents codec subject i page)
     (\<lambda>found. \<forall>e \<in> set (pg_items found). 0 \<le> re_eventSequence e)"
  "yields (on_db answerable) (queries_riskAssessments codec subject i page)
     (\<lambda>found. \<forall>a \<in> set (pg_items found). assessment_fits a)"
  unfolding queries_active_def listActiveCalls_def queries_riskEvents_def listRiskEvents_def
    queries_riskAssessments_def listRiskAssessments_def
  by (rule described_calls.yields_page described_events.yields_page described_assessments.yields_page
      yields_keep_bind answer_rules own hoare)+

lemma yields_policies:
  "yields (on_db answerable) (policies_active subject key) (\<lambda>p. is_object (rp_document p))"
  "yields (on_db answerable) (policies_put risk subject input) (\<lambda>p. is_object (rp_document p))"
proof -
  show "yields (on_db answerable) (policies_active subject key) (\<lambda>p. is_object (rp_document p))"
    unfolding policies_active_def findActiveRiskPolicy_def
    by (rule described_policies.yields_latest yields_keep_bind answer_rules own hoare | simp)+
  have create: "yields (on_db answerable) (createRiskPolicy q (put_input subject input policy))
      (\<lambda>p. is_object (rp_document p))" for q policy
    unfolding createRiskPolicy_def
    by (rule yields_lift_row yields_create keeps_create_policy_row yields_keep_bind hoare
        | simp add: policy_row_document put_input_def policy_json_def)+
  have activate: "yields (on_db answerable) (activateRiskPolicy q i) (\<lambda>p. is_object (rp_document p))" for q i
    unfolding activateRiskPolicy_def activate_policy_def update_one_def
    by (rule yields_serializable described_policies.yields_unique keeps_update_policy_rows
        yields_keep_bind answer_rules hoare | simp add: retired_policy_def activated_policy_def)+
  show "yields (on_db answerable) (policies_put risk subject input) (\<lambda>p. is_object (rp_document p))"
    unfolding policies_put_def
    by (auto split: sum.split err.split intro!: yields_keep_then yields_throwM yields_if own hoare
        yields_bind [OF create] activate yields_returnM)
qed

text \<open>Once alerts are acknowledged none of them is found that is not.\<close>

lemma acknowledged_found:
  assumes "find P (change_rows Q f rs) = Some r" "\<And>x. P x \<Longrightarrow> Q x \<or> R x" "\<And>x. R (f x)"
    and "\<And>x. P (f x) \<Longrightarrow> P x"
  shows "R r"
proof -
  from assms(1) obtain x where "x \<in> set rs" "r = (if Q x then f x else x)" "P r"
    by (auto simp: change_rows_def dest!: find_SomeD)
  with assms(2-4) show ?thesis by (cases "Q x") auto
qed

lemma yields_acknowledge:
  "yields (on_db answerable) (operations_acknowledgeAlert subject i k c) (\<lambda>a. al_acknowledgedAt a \<noteq> None)"
proof -
  have "yields (on_db answerable) (repository_acknowledgeAlert q i m) (\<lambda>a. al_acknowledgedAt a \<noteq> None)" for q m
  proof (rule yieldsI)
    show "keeps (on_db answerable) (repository_acknowledgeAlert q i m)" by (rule answers.acknowledge_alert)
    show "al_acknowledgedAt a \<noteq> None" if "repository_acknowledgeAlert q i m w = (Inr a, w')" for w a w'
      using that
      by (auto simp: repository_acknowledgeAlert_def bindM_eq_Inr_iff find_or_throw_run update_rows_run
          alerts_table_def elim!: acknowledged_found)
  qed
  note repository = this
  show ?thesis
    unfolding operations_acknowledgeAlert_def
    by (rule yields_bind [OF repository] yields_keep_bind answer_rules answers.audit own hoare | simp)+
qed

section \<open>Stored answers\<close>

text \<open>
  The key of a stored answer starts with the organization's identifier and the scope, which tells the
  operation that the answer is of.
\<close>

definition idempotent_scopes :: "(string \<times> string) list" where
  "idempotent_scopes = [('':trusted-speaker:'', ''TrustedSpeakers.create''),
     ('':enrollment-consent:'', ''TrustedSpeakers.consent''), ('':risk-policy:'', ''RiskPolicy.put'')]"

definition answer_described :: "string \<Rightarrow> json \<Rightarrow> bool" where
  "answer_described key v \<longleftrightarrow> list_all (\<lambda>(scope, operation).
     starts_with scope (drop 36 key) \<longrightarrow> described operation v) idempotent_scopes"

definition entry_described :: "string \<times> idem_entry \<Rightarrow> bool" where
  "entry_described = (\<lambda>(key, entry). case en_state entry of
     Pending \<Rightarrow> True
   | Complete v \<Rightarrow> answer_described key v)"

lemma entry_described_iff [simp]:
  "entry_described (key, entry) \<longleftrightarrow> (case en_state entry of Pending \<Rightarrow> True | Complete v \<Rightarrow> answer_described key v)"
  by (simp add: entry_described_def)

definition well_typed :: "server \<Rightarrow> bool" where
  "well_typed s \<longleftrightarrow> answerable (w_db (sv_world s)) \<and> list_all entry_described (sv_entries s)"

lemma well_typed_frame [simp]:
  "well_typed (s\<lparr>sv_buckets := b\<rparr>) = well_typed s" "well_typed (s\<lparr>sv_uploads := u\<rparr>) = well_typed s"
  by (simp_all add: well_typed_def)

lemma entries_kept:
  "list_all entry_described entries \<Longrightarrow> list_all entry_described (purgeExpired t entries)"
  "list_all entry_described entries \<Longrightarrow> list_all entry_described (AList.delete key entries)"
  "list_all entry_described entries \<Longrightarrow> entry_described (key, entry) \<Longrightarrow>
     list_all entry_described (AList.update key entry entries)"
proof -
  show "list_all entry_described entries \<Longrightarrow> entry_described (key, entry) \<Longrightarrow>
     list_all entry_described (AList.update key entry entries)"
    by (induction entries) auto
qed (auto simp: purgeExpired_def AList.delete_eq list_all_iff)

lemma keeps_typed_world: "keeps (on_db answerable) m \<Longrightarrow> keeps well_typed (in_world m)"
  by (auto simp: keeps_def well_typed_def in_world_def on_db_def split: prod.split)

lemma yields_in_world: "yields (on_db answerable) m P \<Longrightarrow> yields well_typed (in_world m) P"
  by (rule yieldsI [OF keeps_typed_world])
    (auto simp: yields_def in_world_def well_typed_def on_db_def split: prod.splits)

lemma keeps_typed_helpers:
  "keeps well_typed (idempotency_key request)" "keeps well_typed (uuid_pipe env v)"
  "keeps well_typed wipe_uploads"
  unfolding idempotency_key_def uuid_pipe_def wipe_uploads_def
  by (auto intro!: hoare keeps_modifyM)

lemma arrival_typed:
  assumes "arrive env t t2 request entries = (arrived, kept)" "list_all entry_described entries"
  shows "list_all entry_described kept"
    and "arrived = Replayed v \<Longrightarrow> answer_described (map_key request) v"
    and "arrived = Started key entry \<Longrightarrow> key = map_key request"
proof -
  have purged: "list_all entry_described (purgeExpired t entries)" by (rule entries_kept(1) [OF assms(2)])
  have found: "answer_described key v"
    if "map_of (purgeExpired t entries) key = Some entry" "en_state entry = Complete v" for key entry v
    using purged that by (force simp: list_all_iff dest: map_of_SomeD)
  show "list_all entry_described kept" "arrived = Replayed v \<Longrightarrow> answer_described (map_key request) v"
    "arrived = Started key entry \<Longrightarrow> key = map_key request"
    using assms purged found
    by (auto simp: arrive_def Let_def intro!: entries_kept(3)
        split: if_splits option.splits entry_state.splits)
qed

lemma finish_typed:
  assumes "finish key entry outcome entries = (answer, entries')" "list_all entry_described entries"
    and "\<And>v. outcome = Inr v \<Longrightarrow> answer_described key v"
  shows "list_all entry_described entries'" "answer = Inr v \<Longrightarrow> answer_described key v"
  using assms
  by (auto simp: finish_def intro!: entries_kept split: sum.splits if_splits)

lemma yields_idempotently:
  assumes operation: "yields well_typed operation (answer_described (map_key q))"
  shows "yields well_typed (idempotently env q operation) (answer_described (map_key q))"
proof -
  have started: "yields well_typed (\<lambda>s. case operation s of (outcome, s1) \<Rightarrow>
      (case finish (map_key q) entry outcome (sv_entries s1) of
         (answer, entries1) \<Rightarrow> (answer, s1\<lparr>sv_entries := entries1\<rparr>))) (answer_described (map_key q))"
    (is "yields _ ?run _") for entry
  proof -
    have each: "well_typed s' \<and> (\<forall>v. r = Inr v \<longrightarrow> answer_described (map_key q) v)"
      if s: "well_typed s" and run: "?run s = (r, s')" for s r s'
    proof -
      obtain outcome s1 where o: "operation s = (outcome, s1)" by fastforce
      with operation s have s1: "well_typed s1" "\<And>v. outcome = Inr v \<Longrightarrow> answer_described (map_key q) v"
        by (auto simp: yields_def dest: keepsD)
      obtain answer entries1 where f: "finish (map_key q) entry outcome (sv_entries s1) = (answer, entries1)"
        by fastforce
      from finish_typed [OF f] s1 run o f show ?thesis by (auto simp: well_typed_def)
    qed
    show ?thesis
    proof (rule yieldsI, rule keepsI)
      show "well_typed (snd (?run s))" if "well_typed s" for s
        using each [OF that, of "fst (?run s)" "snd (?run s)"] by simp
    qed (use each in blast)
  qed
  have stored: "keeps well_typed (modifyM (\<lambda>s. s\<lparr>sv_entries := kept\<rparr>))"
    if "list_all entry_described kept" for kept
    by (rule keeps_modifyM) (simp add: well_typed_def that)
  have arrived: "yields well_typed (thenM (modifyM (\<lambda>s. s\<lparr>sv_entries := kept\<rparr>))
      (case arrived of
         Refused e \<Rightarrow> throwM e
       | Replayed v \<Rightarrow> returnM v
       | Waiting \<Rightarrow> throwM (Error ''The operation of another request runs.'')
       | Started key entry \<Rightarrow> (\<lambda>s. case operation s of (outcome, s1) \<Rightarrow>
           (case finish key entry outcome (sv_entries s1) of
              (answer, entries1) \<Rightarrow> (answer, s1\<lparr>sv_entries := entries1\<rparr>)))))
      (answer_described (map_key q))"
    if a: "arrive (ap_idem env) t t2 q entries = (arrived, kept)" and e: "list_all entry_described entries"
    for t t2 entries arrived kept
    using arrival_typed [OF a e] started
    by (cases arrived) (auto intro!: yields_keep_then stored yields_throwM yields_returnM)
  show ?thesis
    unfolding idempotently_def
    by (rule yields_bind [OF yields_getM [where P = "list_all entry_described"]] yields_keep_bind
        keeps_typed_world keeps_now_if | simp add: well_typed_def arrived split: prod.split)+
qed

lemma yields_idempotent_route:
  assumes "yields well_typed operation (described operation_name)" "length (pr_organizationId subject) = 36"
    and "\<And>key v. answer_described (pr_organizationId subject @ scope @ '':'' @ key) v = described operation_name v"
  shows "yields well_typed (idempotent_route env subject scope k payload operation) (described operation_name)"
proof -
  have purge: "keeps well_typed (modifyM (\<lambda>s. s\<lparr>sv_entries := purgeExpired t (sv_entries s)\<rparr>))" for t
    by (rule keeps_modifyM) (simp add: well_typed_def entries_kept)
  have key: "answer_described (map_key \<lparr>iq_scope = pr_organizationId subject @ scope, iq_key = k, iq_payload = p\<rparr>)
      = described operation_name" for p
    using assms(3) [where key = k] by (auto simp: map_key_def)
  show ?thesis
  proof (cases payload)
    case (Inl e)
    then show ?thesis
      by (simp add: idempotent_route_def)
        (intro yields_keep_then yields_keep_bind yields_throwM purge keeps_typed_world hoare, simp add: on_db_def)
  next
    case (Inr p)
    with yields_idempotently [OF assms(1) [folded key [of p]], of env] show ?thesis
      by (simp add: idempotent_route_def key)
  qed
qed

section \<open>The routes\<close>

lemma response_table:
  "list_all (\<lambda>(operation, name). map_of responseSchemas operation = Some name)
    [(''Calls.create'', ''Call''), (''Calls.join'', ''JoinGrant''), (''Calls.end'', ''Call''),
     (''Calls.active'', ''ActiveCallsPage''), (''Calls.riskEvents'', ''RiskEventsPage''),
     (''Calls.riskAssessments'', ''RiskAssessmentsPage''),
     (''Calls.current'', ''CurrentCallSecurity''),
     (''TrustedSpeakers.create'', ''TrustedSpeaker''),
     (''TrustedSpeakers.consent'', ''Consent''), (''TrustedSpeakers.revoke'', ''StatusResult''),
     (''TrustedSpeakers.deleteVoiceprint'', ''StatusResult''),
     (''VoiceEnrollment.enroll'', ''Voiceprint''), (''RiskPolicy.active'', ''RiskPolicy''),
     (''RiskPolicy.put'', ''RiskPolicy''),
     (''Interventions.request'', ''VerificationChallenge''),
     (''Interventions.release'', ''StatusResult''),
     (''Interventions.acknowledge'', ''StatusResult''),
     (''Interventions.hold'', ''StatusResult''), (''Interventions.cancel'', ''StatusResult''),
     (''SecurityOperations.alerts'', ''SecurityOperationsPage''),
     (''SecurityOperations.acknowledge'', ''AlertAcknowledgement''),
     (''SecurityOperations.securityEvents'', ''SecurityOperationsPage''),
     (''SecurityOperations.summary'', ''DashboardSummary'')]"
  by code_simp

lemmas response_lookup = response_table [unfolded list.pred_inject prod.case]

lemma described_as:
  "described ''Calls.create'' v = conforms 2 components call_schema v"
  "described ''Calls.join'' v = conforms 2 components joinGrant_schema v"
  "described ''Calls.end'' v = conforms 2 components call_schema v"
  "described ''Calls.active'' v = conforms 2 components activeCallsPage_schema v"
  "described ''Calls.riskEvents'' v = conforms 2 components riskEventsPage_schema v"
  "described ''Calls.riskAssessments'' v = conforms 2 components riskAssessmentsPage_schema v"
  "described ''Calls.current'' v = conforms 2 components currentCallSecurity_schema v"
  "described ''TrustedSpeakers.create'' v = conforms 2 components trustedSpeaker_schema v"
  "described ''TrustedSpeakers.consent'' v = conforms 2 components consent_schema v"
  "described ''TrustedSpeakers.revoke'' v = conforms 2 components statusResult_schema v"
  "described ''TrustedSpeakers.deleteVoiceprint'' v = conforms 2 components statusResult_schema v"
  "described ''VoiceEnrollment.enroll'' v = conforms 2 components voiceprint_schema v"
  "described ''RiskPolicy.active'' v = conforms 2 components riskPolicy_schema v"
  "described ''RiskPolicy.put'' v = conforms 2 components riskPolicy_schema v"
  "described ''Interventions.request'' v = conforms 2 components verificationChallenge_schema v"
  "described ''Interventions.release'' v = conforms 2 components statusResult_schema v"
  "described ''Interventions.acknowledge'' v = conforms 2 components statusResult_schema v"
  "described ''Interventions.hold'' v = conforms 2 components statusResult_schema v"
  "described ''Interventions.cancel'' v = conforms 2 components statusResult_schema v"
  "described ''SecurityOperations.alerts'' v = conforms 2 components securityOperationsPage_schema v"
  "described ''SecurityOperations.acknowledge'' v = conforms 2 components alertAcknowledgement_schema v"
  "described ''SecurityOperations.securityEvents'' v = conforms 2 components securityOperationsPage_schema v"
  "described ''SecurityOperations.summary'' v = conforms 2 components dashboardSummary_schema v"
  by (simp_all add: described_def response_lookup numeral_3_eq_3 numeral_2_eq_2)

lemma described_pages:
  assumes "\<And>r. r \<in> set (pg_items page) \<Longrightarrow> shown r"
  shows "described ''Calls.active'' (json_page (callView env) page)"
  using assms unfolding described_as activeCallsPage_schema_def numeral_2_eq_2
  by (intro described_page [where s = call_schema]) (simp_all add: described_call)

lemma described_event_pages:
  assumes "\<And>e. e \<in> set (pg_items page) \<Longrightarrow> 0 \<le> re_eventSequence e"
  shows "described ''Calls.riskEvents'' (json_page (call_event_view env) page)"
  using assms unfolding described_as riskEventsPage_schema_def numeral_2_eq_2
  by (intro described_page [where s = riskEvent_schema]) (simp_all add: described_event)

lemma described_assessment_pages:
  assumes "\<And>a. a \<in> set (pg_items page) \<Longrightarrow> assessment_fits a"
  shows "described ''Calls.riskAssessments'' (json_page (assessment_view env) page)"
  using assms unfolding described_as riskAssessmentsPage_schema_def numeral_2_eq_2
  by (intro described_page [where s = riskAssessment_schema]) (simp_all add: described_assessment)

lemma stored_answers:
  assumes "length q = 36"
  shows "answer_described (q @ '':trusted-speaker'' @ '':'' @ k) v = described ''TrustedSpeakers.create'' v"
    "answer_described (q @ '':enrollment-consent'' @ '':'' @ k) v = described ''TrustedSpeakers.consent'' v"
    "answer_described (q @ '':risk-policy'' @ '':'' @ k) v = described ''RiskPolicy.put'' v"
  using assms by (simp_all add: answer_described_def idempotent_scopes_def starts_with_def)

lemma yields_view:
  "yields (on_db answerable) m Q \<Longrightarrow> (\<And>a. Q a \<Longrightarrow> P (view a)) \<Longrightarrow>
     yields well_typed (bindM (in_world m) (\<lambda>a. returnM (view a))) P"
  by (rule yields_bind [OF yields_in_world]) (assumption, simp add: yields_returnM)

lemma yields_any_view:
  "keeps (on_db answerable) m \<Longrightarrow> (\<And>a. P (view a)) \<Longrightarrow>
     yields well_typed (bindM (in_world m) (\<lambda>a. returnM (view a))) P"
  by (rule yields_keep_bind [OF keeps_typed_world]) (auto intro: yields_returnM)

lemmas typed_frames = yields_keep_then yields_keep_bind keeps_typed_helpers keeps_typed_world

lemma calls_answers:
  assumes "operation_of (CallsRoute r) \<noteq> ''Calls.invite''"
  shows "yields well_typed (calls_handler env request r subject) (described (calls_operation r))"
proof (cases r)
  case (CreateCall body)
  show ?thesis
    unfolding CreateCall calls_handler.simps calls_operation.simps calls_create_route_def
    by (intro yields_keep_bind keeps_typed_helpers yields_view [OF yields_calls(1)])
      (simp add: described_as described_call)
next
  case (InviteParticipant callId body)
  with assms show ?thesis by simp
next
  case (JoinCall callId participantId)
  show ?thesis
    unfolding JoinCall calls_handler.simps calls_operation.simps calls_join_route_def
    by (intro yields_keep_then keeps_typed_helpers yields_any_view answers.own_calls [OF refl])
      (simp add: described_as described_grant)
next
  case (EndCall callId)
  show ?thesis
    unfolding EndCall calls_handler.simps calls_operation.simps calls_end_route_def
    by (intro yields_keep_then yields_keep_bind keeps_typed_helpers yields_view [OF yields_calls(2)])
      (simp add: described_as described_call)
next
  case (ActiveCalls page)
  show ?thesis
    unfolding ActiveCalls calls_handler.simps calls_operation.simps calls_active_route_def
    by (intro yields_view [OF yields_queries(1)] described_pages) simp
next
  case (CallRiskEvents callId page)
  show ?thesis
    unfolding CallRiskEvents calls_handler.simps calls_operation.simps calls_events_route_def
    by (intro yields_keep_then keeps_typed_helpers yields_view [OF yields_queries(2)] described_event_pages) simp
next
  case (CallRiskAssessments callId page)
  show ?thesis
    unfolding CallRiskAssessments calls_handler.simps calls_operation.simps calls_assessments_route_def
    by (intro yields_keep_then keeps_typed_helpers yields_view [OF yields_queries(3)]
        described_assessment_pages) simp
next
  case (CurrentCallState callId)
  show ?thesis
    unfolding CurrentCallState calls_handler.simps calls_operation.simps calls_current_route_def
    by (intro yields_keep_then keeps_typed_helpers yields_any_view own_queries)
      (simp add: described_as described_current)
qed

lemma interventions_answers:
  "yields well_typed (interventions_handler env request r subject) (described (interventions_operation r))"
  by (cases r)
    (auto simp: acknowledge_route_def hold_route_def cancel_route_def release_route_def
      challenge_route_def intervention_route_def described_as described_status described_challenge
      intro!: typed_frames yields_any_view answers.own_interventions)

lemma speakers_answers:
  assumes "length (pr_organizationId subject) = 36"
  shows "yields well_typed (speakers_handler env request r subject) (described (speakers_operation r))"
proof (cases r)
  case (CreateSpeaker body)
  show ?thesis
    unfolding CreateSpeaker speakers_handler.simps speakers_operation.simps speaker_route_def
    by (intro yields_keep_bind keeps_typed_helpers yields_idempotent_route yields_any_view
        answers.own_enrollment [OF refl] assms)
      (simp_all only: stored_answers [OF assms] described_as described_speaker)
next
  case (GrantConsent speaker body)
  show ?thesis
    unfolding GrantConsent speakers_handler.simps speakers_operation.simps consent_route_def
    by (intro yields_keep_then yields_keep_bind keeps_typed_helpers yields_idempotent_route
        yields_any_view answers.own_enrollment [OF refl] assms)
      (simp_all only: stored_answers [OF assms] described_as described_consent)
next
  case (RevokeConsent consentId reason)
  show ?thesis
    unfolding RevokeConsent speakers_handler.simps speakers_operation.simps revoke_consent_route_def
    by (intro yields_keep_then yields_keep_bind keeps_typed_helpers yields_any_view
        answers.own_enrollment [OF refl])
      (simp_all only: described_as described_status)
next
  case (DeleteVoiceprint voiceprintId)
  show ?thesis
    unfolding DeleteVoiceprint speakers_handler.simps speakers_operation.simps delete_voiceprint_route_def
    by (intro yields_keep_then yields_keep_bind keeps_typed_helpers yields_any_view
        answers.own_enrollment [OF refl])
      (simp_all only: described_as described_status)
qed

lemma typed_ephemeral_audio: "keeps (on_db answerable) (ephemeral_audio samples)"
  by (rule keeps_ephemeral_audio)

lemma enrollment_answers:
  "yields well_typed (enrollment_handler env request r subject) (described ''VoiceEnrollment.enroll'')"
proof -
  have uploads: "yields well_typed (enroll_uploads env request body k subject) (described ''VoiceEnrollment.enroll'')"
    for body k
  proof (rule yieldsI, rule keepsI)
    fix s assume s: "well_typed s"
    let ?e = "\<lparr>ei_operationId = k, ei_trustedSpeakerId = vd_trustedSpeakerId body,
      ei_consentId = vd_consentId body, ei_expectedModelVersionId = vd_expectedModelVersionId body,
      ei_idempotencyKey = k, ei_correlationId = rq_requestId request\<rparr>"
    obtain r s1 where r: "in_world (enroll (ap_providers env) subject ?e) s = (r, s1)" by fastforce
    have "well_typed s1"
      by (rule keepsD [OF keeps_typed_world [OF answers.own_enrollment(5) [OF refl]] s r])
    then have "well_typed (snd (wipe_uploads s1))" by (rule keeps_sndD [OF keeps_typed_helpers(3)])
    then show "well_typed (snd (enroll_uploads env request body k subject s))"
      by (cases r) (simp_all add: enroll_uploads_def r)
  next
    fix s v s' assume "enroll_uploads env request body k subject s = (Inr v, s')"
    then show "described ''VoiceEnrollment.enroll'' v"
      by (auto simp: enroll_uploads_def described_as described_voiceprint split: prod.splits sum.splits)
  qed
  show ?thesis
    by (cases r) (auto simp: enroll_route_def Let_def intro!: yields_if typed_frames uploads
        keeps_ephemeral_audio yields_throwM hoare)
qed

lemma operations_answers:
  "yields well_typed (operations_handler env request r subject) (described (operations_operation r))"
proof (cases r)
  case (ActiveAlerts page)
  show ?thesis
    unfolding ActiveAlerts operations_handler.simps operations_operation.simps alerts_route_def
    by (intro yields_keep_bind keeps_typed_world own_queries hoare yields_returnM)
      (simp add: described_as described_operations_page alert_view_def)
next
  case (AcknowledgeAlert alertId)
  show ?thesis
    unfolding AcknowledgeAlert operations_handler.simps operations_operation.simps alert_acknowledge_route_def
    by (intro yields_keep_then yields_keep_bind keeps_typed_helpers yields_view [OF yields_acknowledge])
      (simp add: described_as described_acknowledgement)
next
  case (SecurityEvents page callId)
  show ?thesis
    unfolding SecurityEvents operations_handler.simps operations_operation.simps security_events_route_def
    by (intro yields_keep_then keeps_case_option keeps_typed_helpers yields_keep_bind keeps_typed_world
        own_queries hoare yields_returnM)
      (simp add: described_as described_operations_page security_event_view_def)
next
  case DashboardSummaryOf
  show ?thesis
    unfolding DashboardSummaryOf operations_handler.simps operations_operation.simps summary_route_def
    by (intro yields_any_view own_queries) (simp add: described_as described_summary)
qed

lemma policy_answers:
  assumes "length (pr_organizationId subject) = 36"
  shows "yields well_typed (policy_handler env request r subject) (described (policy_operation r))"
proof (cases r)
  case (ActivePolicy policyKey)
  show ?thesis
    unfolding ActivePolicy policy_handler.simps policy_operation.simps policy_active_route_def
    by (intro yields_view [OF yields_policies(1)]) (simp add: described_as described_policy)
next
  case (PutPolicy input)
  have key: "answer_described (map_key \<lparr>iq_scope = pr_organizationId subject @ '':risk-policy'', iq_key = k,
      iq_payload = payload\<rparr>) = described ''RiskPolicy.put''" for k payload
    using stored_answers(3) [OF assms, of k] by (auto simp: map_key_def)
  have put: "yields well_typed (bindM (in_world (policies_put (c_risk (ap_config env)) subject input)) (\<lambda>policy.
        returnM (policyView env policy))) (described ''RiskPolicy.put'')"
    by (intro yields_view [OF yields_policies(2)]) (simp add: described_as described_policy)
  show ?thesis
    unfolding PutPolicy policy_handler.simps policy_operation.simps policy_put_route_def
    by (intro yields_keep_bind keeps_typed_helpers
        yields_idempotently [of _ "\<lparr>iq_scope = pr_organizationId subject @ '':risk-policy'', iq_key = k,
          iq_payload = policy_payload input\<rparr>" for k, unfolded key, OF put])
qed

lemma route_answers:
  assumes "length (pr_organizationId subject) = 36" "operation_of route \<noteq> ''Calls.invite''"
  shows "yields well_typed (route_handler env request route subject) (described (operation_of route))"
  using assms calls_answers interventions_answers speakers_answers enrollment_answers operations_answers
    policy_answers
  by (cases route) simp_all

lemma invite_keeps_typed:
  "keeps well_typed (route_handler env request (CallsRoute (InviteParticipant i body)) subject)"
  unfolding route_handler.simps calls_handler.simps calls_invite_route_def
  by (rule hoare keeps_typed_helpers keeps_typed_world answers.own_calls [OF refl] | simp)+

lemma only_invite:
  "operation_of route = ''Calls.invite'' \<Longrightarrow> \<exists>i body. route = CallsRoute (InviteParticipant i body)"
  by (cases route; rename_tac r; case_tac r) simp_all

lemma keeps_typed_guards: "keeps well_typed (member_guards env request permission category)"
proof -
  have limit: "keeps well_typed (rate_limited env request m category)" for m
    unfolding rate_limited_def
    by (intro keeps_bindM keeps_typed_world hoare)
      (auto simp: keeps_def on_db_def split: prod.split rate_answer.split)
  show ?thesis
    unfolding member_guards_def
    by (rule hoare keeps_typed_world keeps_access_guard limit)+
qed

section \<open>Every answer is described\<close>

lemma guarded_organization:
  assumes "member_guards env request permission category s = (Inr p, s1)" "well_typed s"
  shows "length (pr_organizationId p) = 36"
  using member_guards_run [OF assms(1)] assms(2)
  by (auto simp: live_access_def well_typed_def answerable_def)



end
