(* ===== verification/Telemetry.thy ===== *)
theory Telemetry
  imports Request_Handling Idempotency
begin

text \<open>
  The metrics of \<open>common/logging/operational-telemetry.service.ts\<close>, and \<open>modules/health\<close>, which reports
  them and the readiness of the service. Labels are lists of pairs without repeated names; the order
  of \<open>localeCompare\<close> is given by the parameter \<open>collate\<close>. Every caller passes whole numbers. The JSON
  text that is the key of a metric stands for its name and its sorted labels.
\<close>

section \<open>Metrics\<close>

type_synonym metric_labels = "(string \<times> string) list"

record metric =
  mx_name :: string
  mx_labels :: metric_labels
  mx_value :: int

type_synonym metric_key = "string \<times> metric_labels"

record telemetry =
  tl_counters :: "(metric_key \<times> metric) list"
  tl_gauges :: "(metric_key \<times> metric) list"

definition metric_key_of :: "(string \<Rightarrow> string) \<Rightarrow> string \<Rightarrow> metric_labels \<Rightarrow> metric_key" where
  "metric_key_of collate name labels = (name, sort_key (\<lambda>l. collate (fst l)) labels)"

definition lower_char :: "char \<Rightarrow> bool" where
  "lower_char c \<longleftrightarrow> CHR ''a'' \<le> c \<and> c \<le> CHR ''z''"

definition name_char :: "char \<Rightarrow> bool" where
  "name_char c \<longleftrightarrow> lower_char c \<or> decimal_digit c \<or> c = CHR ''_''"

definition metricNamePattern :: "string \<Rightarrow> bool" where
  "metricNamePattern s \<longleftrightarrow> starts_with ''swar_backend_'' s \<and> drop 13 s \<noteq> [] \<and>
     list_all name_char (drop 13 s)"

definition labelNamePattern :: "string \<Rightarrow> bool" where
  "labelNamePattern s \<longleftrightarrow> s \<noteq> [] \<and> lower_char (hd s) \<and> list_all name_char (tl s)"

definition labelValuePattern :: "string \<Rightarrow> bool" where
  "labelValuePattern s \<longleftrightarrow> 1 \<le> length s \<and> length s \<le> 80 \<and>
     list_all (\<lambda>c. key_char c \<or> c = CHR ''_'' \<or> c = CHR ''.'' \<or> c = CHR ''-'') s"

definition assertSafe :: "string \<Rightarrow> metric_labels \<Rightarrow> err + unit" where
  "assertSafe name labels =
     bindE (guardE (metricNamePattern name) (Error ''Operational metric name is invalid.'')) (\<lambda>_.
     guardE (list_all (\<lambda>(label, value). labelNamePattern label \<and> labelValuePattern value) labels)
       (Error ''Operational metric label is invalid.''))"

type_synonym 'a tele = "(telemetry, 'a) m"

definition increment :: "(string \<Rightarrow> string) \<Rightarrow> string \<Rightarrow> metric_labels \<Rightarrow> int \<Rightarrow> unit tele" where
  "increment collate name labels amount =
     bindM (liftE (assertSafe name labels)) (\<lambda>_.
     modifyM (\<lambda>t.
       let key = metric_key_of collate name labels;
           current = (case map_of (tl_counters t) key of None \<Rightarrow> 0 | Some c \<Rightarrow> mx_value c) in
       t\<lparr>tl_counters := AList.update key
         \<lparr>mx_name = name, mx_labels = labels, mx_value = current + amount\<rparr> (tl_counters t)\<rparr>))"

definition gauge :: "(string \<Rightarrow> string) \<Rightarrow> string \<Rightarrow> int \<Rightarrow> metric_labels \<Rightarrow> unit tele" where
  "gauge collate name value labels =
     bindM (liftE (assertSafe name labels)) (\<lambda>_.
     thenM (guardM (0 \<le> value) (Error ''Operational gauge is invalid.''))
     (modifyM (\<lambda>t. t\<lparr>tl_gauges := AList.update (metric_key_of collate name labels)
        \<lparr>mx_name = name, mx_labels = labels, mx_value = value\<rparr> (tl_gauges t)\<rparr>)))"

section \<open>The rendering\<close>

definition quotation :: string where
  "quotation = [CHR 34]"

definition label_text :: "string \<times> string \<Rightarrow> string" where
  "label_text = (\<lambda>(label, value). label @ ''='' @ quotation @ value @ quotation)"

definition metric_line :: "(string \<Rightarrow> string) \<Rightarrow> metric \<Rightarrow> string" where
  "metric_line collate m =
     (let entries = sort_key (\<lambda>l. collate (fst l)) (mx_labels m);
          suffix = (if entries \<noteq> [] then ''{'' @ join_with '','' (map label_text entries) @ ''}'' else []) in
      mx_name m @ suffix @ '' '' @ int_string (mx_value m))"

text \<open>\<open>key_order\<close> is the place of a metric's key in the order of the texts.\<close>

definition renderPrometheus ::
  "(string \<Rightarrow> string) \<Rightarrow> (metric_key \<Rightarrow> string) \<Rightarrow> telemetry \<Rightarrow> string" where
  "renderPrometheus collate key_order t =
     join_with [CHR 10] (map (metric_line collate)
       (sort_key (\<lambda>m. key_order (metric_key_of collate (mx_name m) (mx_labels m)))
         (map snd (tl_counters t) @ map snd (tl_gauges t)))) @ [CHR 10]"

section \<open>Health\<close>

text \<open>A probe of the ML service: the status of its answer, if there is one in time.\<close>

definition probeMl :: "nat option \<Rightarrow> bool" where
  "probeMl response = (case response of None \<Rightarrow> False | Some status \<Rightarrow> 200 \<le> status \<and> status \<le> 299)"

datatype socket_event = Socket_timeout | Socket_error | Socket_connected

text \<open>What the socket reports, one after the other; the first report settles the probe.\<close>

fun probe_finish :: "bool option \<Rightarrow> socket_event \<Rightarrow> bool option" where
  "probe_finish (Some ready) e = Some ready"
| "probe_finish None e = Some (e = Socket_connected)"

definition probeLiveKit :: "socket_event list \<Rightarrow> bool option" where
  "probeLiveKit events = foldl probe_finish None events"

definition report_dependency :: "(string \<Rightarrow> string) \<Rightarrow> string \<times> bool \<Rightarrow> unit tele" where
  "report_dependency collate = (\<lambda>(dependency, ready).
     thenM (gauge collate ''swar_backend_dependency_ready'' (if ready then 1 else 0)
              [(''dependency'', dependency)])
     (if ready then returnM ()
      else increment collate ''swar_backend_dependency_not_ready_total''
             [(''dependency'', dependency)] 1))"

definition readiness_reported ::
  "(string \<Rightarrow> string) \<Rightarrow> configuration \<Rightarrow> bool \<Rightarrow> bool \<Rightarrow> bool \<Rightarrow> ReadinessResponse tele" where
  "readiness_reported collate config database ml livekit =
     (let r = readiness_check config database ml livekit in
      thenM (iterM [(''database'', database), (''ml'', ml), (''livekit'', livekit),
                    (''productionActivation'', productionActivationReady config)]
               (report_dependency collate))
      (returnM r))"

text \<open>The status code and the answer.\<close>

definition getReadiness ::
  "(string \<Rightarrow> string) \<Rightarrow> configuration \<Rightarrow> bool \<Rightarrow> bool \<Rightarrow> bool \<Rightarrow> (int \<times> ReadinessResponse) tele" where
  "getReadiness collate config database ml livekit =
     bindM (readiness_reported collate config database ml livekit) (\<lambda>r.
     returnM (if rd_status r then 200 else 503, r))"

definition getMetrics :: "(string \<Rightarrow> string) \<Rightarrow> (metric_key \<Rightarrow> string) \<Rightarrow> string tele" where
  "getMetrics collate key_order = getM (renderPrometheus collate key_order)"

section \<open>Lemmas\<close>

text \<open>Every stored metric is safe, and gauges are not negative.\<close>

definition metric_safe :: "metric \<Rightarrow> bool" where
  "metric_safe m \<longleftrightarrow> metricNamePattern (mx_name m) \<and>
     list_all (\<lambda>(label, value). labelNamePattern label \<and> labelValuePattern value) (mx_labels m)"

definition metrics_safe :: "telemetry \<Rightarrow> bool" where
  "metrics_safe t \<longleftrightarrow> (\<forall>(key, m) \<in> set (tl_counters t). metric_safe m) \<and>
     (\<forall>(key, m) \<in> set (tl_gauges t). metric_safe m \<and> 0 \<le> mx_value m)"

lemma update_values:
  "(k', m) \<in> set (AList.update k v xs) \<Longrightarrow> m = v \<or> (k', m) \<in> set xs"
  by (induction xs) (auto split: if_splits)

lemma assertSafe_ok:
  "assertSafe name labels = Inr u \<Longrightarrow> metric_safe \<lparr>mx_name = name, mx_labels = labels, mx_value = v\<rparr>"
  by (auto simp: assertSafe_def guardE_def metric_safe_def split: if_splits)

lemma increment_safe: "keeps metrics_safe (increment collate name labels amount)"
  unfolding increment_def
  by (cases "assertSafe name labels")
    (auto simp: keeps_def bindM_def liftE_def modifyM_def Let_def metrics_safe_def
      dest!: update_values intro: assertSafe_ok)

lemma gauge_safe: "keeps metrics_safe (gauge collate name value labels)"
  unfolding gauge_def
  by (cases "assertSafe name labels")
    (auto simp: keeps_def bindM_def thenM_def guardM_def liftE_def modifyM_def throwM_def returnM_def
      metrics_safe_def dest!: update_values intro: assertSafe_ok)

lemma readiness_safe: "keeps metrics_safe (readiness_reported collate config d m l)"
  unfolding readiness_reported_def report_dependency_def Let_def
  by (rule hoare increment_safe gauge_safe | simp)+

text \<open>A counter grows by the amount, and no other metric changes.\<close>

definition counter_value :: "telemetry \<Rightarrow> metric_key \<Rightarrow> int" where
  "counter_value t key = (case map_of (tl_counters t) key of None \<Rightarrow> 0 | Some c \<Rightarrow> mx_value c)"

lemma increment_counts:
  assumes "increment collate name labels amount t = (Inr (), t')"
  shows "counter_value t' key = counter_value t key +
      (if key = metric_key_of collate name labels then amount else 0) \<and> tl_gauges t' = tl_gauges t"
  using assms
  by (auto simp: increment_def bindM_def liftE_def modifyM_def counter_value_def Let_def update_conv'
      split: sum.splits)

text \<open>Readiness: the answer is 200 exactly when everything is ready, and the gauges say what is not.\<close>

lemma report_succeeds:
  "labelValuePattern dependency \<Longrightarrow>
     \<exists>t'. report_dependency collate (dependency, ready) t = (Inr (), t') \<and>
       map_option mx_value (map_of (tl_gauges t')
         (metric_key_of collate ''swar_backend_dependency_ready'' [(''dependency'', dependency)])) =
       Some (if ready then 1 else 0)"
  by (auto simp: report_dependency_def gauge_def increment_def bindM_def thenM_def guardM_def liftE_def
      modifyM_def returnM_def assertSafe_def guardE_def Let_def update_conv' metricNamePattern_def
      starts_with_def name_char_def lower_char_def labelNamePattern_def)

lemma probe_settled: "foldl probe_finish (Some b) es = Some b"
  by (induction es) simp_all

lemma first_report_settles:
  "probeLiveKit [] = None" "probeLiveKit (e # es) = Some (e = Socket_connected)"
  by (simp_all add: probeLiveKit_def probe_settled)

section \<open>Lines of the rendering\<close>

definition plain :: "string \<Rightarrow> bool" where
  "plain s \<longleftrightarrow> CHR 10 \<notin> set s"

lemma plain_append [simp]: "plain (a @ b) \<longleftrightarrow> plain a \<and> plain b"
  by (auto simp: plain_def)

lemma plain_join: "plain d \<Longrightarrow> list_all plain xs \<Longrightarrow> plain (join_with d xs)"
  by (induction d xs rule: join_with.induct) (auto simp: plain_def)

lemma name_plain: "list_all name_char s \<Longrightarrow> plain s"
  by (auto simp: plain_def list_all_iff name_char_def lower_char_def decimal_digit_def less_eq_char_def)

lemma value_plain: "labelValuePattern s \<Longrightarrow> plain s"
  by (auto simp: plain_def labelValuePattern_def list_all_iff key_char_def decimal_digit_def
      less_eq_char_def)

lemma label_plain: "labelNamePattern s \<Longrightarrow> plain s"
  by (cases s) (auto simp: labelNamePattern_def plain_def lower_char_def less_eq_char_def
      dest!: name_plain)

lemma metric_name_plain: "metricNamePattern s \<Longrightarrow> plain s"
proof -
  assume a: "metricNamePattern s"
  have n: "length ''swar_backend_'' = 13" by simp
  from a have "take 13 s = ''swar_backend_''" "plain (drop 13 s)"
    using name_plain unfolding metricNamePattern_def starts_with_def n by blast+
  moreover have "plain ''swar_backend_''" by (simp add: plain_def)
  ultimately have "plain (take 13 s @ drop 13 s)" by (simp only: plain_append)
  then show "plain s" by simp
qed

lemma split_plain: "plain s \<Longrightarrow> split_on (CHR 10) s = [s]"
  by (induction s) (auto simp: plain_def)

lemma split_line: "plain s \<Longrightarrow> split_on (CHR 10) (s @ CHR 10 # rest) = s # split_on (CHR 10) rest"
  by (induction s) (auto simp: plain_def)

lemma split_joined:
  "list_all plain xs \<Longrightarrow> xs \<noteq> [] \<Longrightarrow> split_on (CHR 10) (join_with [CHR 10] xs @ [CHR 10]) = xs @ [[]]"
  by (induction "[CHR 10]" xs rule: join_with.induct) (auto simp: split_line)

lemma int_string_plain: "plain (int_string i)"
proof -
  have digits: "plain (nat_string n)" for n
  proof (induction n rule: nat_string.induct)
    case (1 n)
    have digit: "plain [digit_char d]" if "d < 10" for d
    proof -
      from that have "d \<in> {0, 1, 2, 3, 4, 5, 6, 7, 8, 9}" by auto
      then show ?thesis by (auto simp: digit_char_def plain_def)
    qed
    show ?case
    proof (cases "n < 10")
      case True
      then show ?thesis using digit by (subst nat_string.simps) simp
    next
      case False
      with 1 show ?thesis using digit [of "n mod 10"] by (subst nat_string.simps) simp
    qed
  qed
  then show ?thesis by (auto simp: int_string_def plain_def)
qed

lemma line_plain:
  assumes "metric_safe m"
  shows "plain (metric_line collate m)"
proof -
  have "list_all plain (map label_text (sort_key (\<lambda>l. collate (fst l)) (mx_labels m)))"
    using assms label_plain value_plain
    by (auto simp: metric_safe_def list_all_iff label_text_def quotation_def plain_def)
  then have "plain (join_with '','' (map label_text (sort_key (\<lambda>l. collate (fst l)) (mx_labels m))))"
    by (intro plain_join) (simp_all add: plain_def)
  moreover have "plain (mx_name m)" using assms metric_name_plain by (simp add: metric_safe_def)
  ultimately show ?thesis
    using int_string_plain [of "mx_value m"]
    by (simp add: metric_line_def Let_def) (simp add: plain_def)
qed

lemma sort_key_empty: "sort_key f xs = [] \<longleftrightarrow> xs = []"
  by (metis length_0_conv length_sort)

text \<open>
  No label can add a line to the metrics: the rendering has one line for every counter and gauge, in
  the order of their keys, and ends with a line feed.
\<close>

lemma rendering_lines:
  assumes "metrics_safe t" "tl_counters t \<noteq> [] \<or> tl_gauges t \<noteq> []"
  shows "split_on (CHR 10) (renderPrometheus collate key_order t) =
    map (metric_line collate) (sort_key (\<lambda>m. key_order (metric_key_of collate (mx_name m) (mx_labels m)))
      (map snd (tl_counters t) @ map snd (tl_gauges t))) @ [[]]"
  unfolding renderPrometheus_def
  by (rule split_joined)
    (use assms line_plain in \<open>auto simp: list_all_iff metrics_safe_def sort_key_empty\<close>)

lemma rendering_lines_example:
  "let t = snd (readiness_reported (\<lambda>s. s) engineering_configuration True False True
       \<lparr>tl_counters = [], tl_gauges = []\<rparr>) in
   length (split_on (CHR 10) (renderPrometheus (\<lambda>s. s) fst t)) = 7"
  by code_simp

end
