(* ===== verification/Connection.thy ===== *)
theory Connection
  imports Configuration Js_Number
begin

text \<open>
  \<open>database/prisma-client.factory.ts\<close>: the database client reads its own settings from the
  environment. Its result here is the settings that it gives to the library. \<open>Number\<close> is modelled for
  the texts it accepts but \<open>Infinity\<close>, which is not a safe integer.
\<close>

section \<open>Numbers\<close>

definition hex_value :: "char \<Rightarrow> int" where
  "hex_value c = (if decimal_digit c then of_char c - 48 else of_char (ascii_lower c) - 87)"

definition hex_digit :: "char \<Rightarrow> bool" where
  "hex_digit c \<longleftrightarrow> decimal_digit c \<or> (CHR ''a'' \<le> ascii_lower c \<and> ascii_lower c \<le> CHR ''f'')"

definition radix_literal :: "int \<Rightarrow> string \<Rightarrow> rat option" where
  "radix_literal radix ds =
     (if ds \<noteq> [] \<and> list_all (\<lambda>c. hex_digit c \<and> hex_value c < radix) ds
      then Some (of_int (fold (\<lambda>c n. n * radix + hex_value c) ds 0)) else None)"

definition scaled :: "string \<Rightarrow> string \<Rightarrow> int \<Rightarrow> rat" where
  "scaled whole fraction e =
     of_int (digits_value (whole @ fraction)) * 10 powi (e - int (length fraction))"

definition signed_digits :: "string \<Rightarrow> int option" where
  "signed_digits s =
     (let (sign, ds) = (case s of c # cs \<Rightarrow>
              if c = CHR ''-'' then (-1, cs) else if c = CHR ''+'' then (1, cs) else (1, s)
            | [] \<Rightarrow> (1, [])) in
      if ds \<noteq> [] \<and> list_all decimal_digit ds then Some (sign * digits_value ds) else None)"

definition unsigned_literal :: "string \<Rightarrow> rat option" where
  "unsigned_literal s =
     (let whole = takeWhile decimal_digit s; rest = dropWhile decimal_digit s;
          (fraction, rest2) = (case rest of c # cs \<Rightarrow>
              if c = CHR ''.'' then (takeWhile decimal_digit cs, dropWhile decimal_digit cs) else ([], rest)
            | [] \<Rightarrow> ([], [])) in
      if whole = [] \<and> fraction = [] then None
      else case rest2 of
        [] \<Rightarrow> Some (scaled whole fraction 0)
      | c # cs \<Rightarrow> if ascii_lower c = CHR ''e''
          then map_option (scaled whole fraction) (signed_digits cs) else None)"

text \<open>\<open>Number\<close> of a text that was trimmed and is not empty.\<close>

definition to_number :: "string \<Rightarrow> rat option" where
  "to_number s = map_option fl
     (let prefix = map ascii_lower (take 2 s) in
      if prefix = ''0x'' then radix_literal 16 (drop 2 s)
      else if prefix = ''0o'' then radix_literal 8 (drop 2 s)
      else if prefix = ''0b'' then radix_literal 2 (drop 2 s)
      else case s of
        c # cs \<Rightarrow>
          if c = CHR ''-'' then map_option uminus (unsigned_literal cs)
          else if c = CHR ''+'' then unsigned_literal cs
          else unsigned_literal s
      | [] \<Rightarrow> Some 0)"

definition safe_integer :: "rat \<Rightarrow> bool" where
  "safe_integer x \<longleftrightarrow> of_int \<lfloor>x\<rfloor> = x \<and> \<bar>x\<bar> \<le> 2 ^ 53 - 1"

section \<open>The settings\<close>

definition out_of_bounds :: "string \<Rightarrow> int \<Rightarrow> int \<Rightarrow> err" where
  "out_of_bounds name minimum maximum = DatabaseConfigurationError
     (name @ '' must be an integer between '' @ int_string minimum @ '' and '' @ int_string maximum @ ''.'')"

definition readBoundedInteger ::
  "process_env \<Rightarrow> string \<Rightarrow> int \<Rightarrow> int \<Rightarrow> int \<Rightarrow> err + int" where
  "readBoundedInteger source name fallback minimum maximum =
     (case map_option js_trim (source name) of
        None \<Rightarrow> Inr fallback
      | Some raw \<Rightarrow>
          if length raw = 0 then Inr fallback
          else case to_number raw of
            None \<Rightarrow> Inl (out_of_bounds name minimum maximum)
          | Some value \<Rightarrow>
              if \<not> safe_integer value \<or> value < of_int minimum \<or> of_int maximum < value
              then Inl (out_of_bounds name minimum maximum) else Inr \<lfloor>value\<rfloor>)"

definition readDatabaseUrl :: "url_parser \<Rightarrow> process_env \<Rightarrow> err + string" where
  "readDatabaseUrl parse source =
     (case map_option js_trim (source ''DATABASE_URL'') of
        None \<Rightarrow> Inl (DatabaseConfigurationError ''DATABASE_URL is required.'')
      | Some value \<Rightarrow>
          if length value = 0 then Inl (DatabaseConfigurationError ''DATABASE_URL is required.'')
          else case parse value of
            None \<Rightarrow> Inl (DatabaseConfigurationError ''DATABASE_URL must be a valid PostgreSQL URL.'')
          | Some parsed \<Rightarrow>
              if \<not> List.member [''postgres:'', ''postgresql:''] (u_protocol parsed)
              then Inl (DatabaseConfigurationError ''DATABASE_URL must use PostgreSQL.'')
              else if length (u_hostname parsed) = 0 \<or> length (u_pathname parsed) \<le> 1
              then Inl (DatabaseConfigurationError ''DATABASE_URL must identify a PostgreSQL host and database.'')
              else if source ''SWAR_ENV'' = Some ''production'' \<and> length (u_password parsed) = 0
              then Inl (DatabaseConfigurationError ''Production DATABASE_URL must include a non-empty credential.'')
              else Inr value)"

definition createPrismaClient :: "url_parser \<Rightarrow> process_env \<Rightarrow> err + database_config" where
  "createPrismaClient parse source =
     bindE (readDatabaseUrl parse source) (\<lambda>connectionString.
     bindE (readBoundedInteger source ''POSTGRES_POOL_MAX'' 10 1 100) (\<lambda>maxConnections.
     bindE (readBoundedInteger source ''POSTGRES_IDLE_TIMEOUT_MS'' 10000 1000 300000) (\<lambda>idle.
     bindE (readBoundedInteger source ''POSTGRES_CONNECTION_TIMEOUT_MS'' 5000 100 60000) (\<lambda>connection.
     Inr \<lparr>databaseUrl = connectionString, poolMax = maxConnections, idleTimeoutMs = idle,
       connectionTimeoutMs = connection\<rparr>))))"

section \<open>Lemmas\<close>

text \<open>An integer below 2 to the 53 is a double.\<close>

lemma fl_of_int:
  assumes "0 \<le> n" "n < 2 ^ 53"
  shows "fl (of_int n) = of_int n"
proof (cases "n = 0")
  case False
  let ?e = "fl_exponent (of_int n)" and ?k = "nat (- fl_exponent (of_int n))"
  have n: "0 < (of_int n :: rat)" using assms False by simp
  have "(2 :: rat) powi ilog2 (of_int n) \<le> of_int n" by (rule ilog2_bounds(1) [OF n])
  also have "(of_int n :: rat) < of_int (2 ^ 53)" using assms(2) by (simp only: of_int_less_iff)
  also have "of_int (2 ^ 53) = (2 :: rat) powi 53" by (simp add: power_int_def)
  finally have "ilog2 (of_int n) < 53"
    using two_powi_mono [of 53 "ilog2 (of_int n)"] by linarith
  then have e: "?e \<le> 0" using assms(1) by (simp add: fl_exponent_def)
  then have p: "(2 :: rat) powi ?e = inverse (2 ^ ?k)"
    by (simp add: power_int_def power_inverse field_simps)
  have "(of_int n :: rat) / 2 powi ?e = of_int (n * 2 ^ ?k)" by (simp add: p divide_inverse)
  then show ?thesis using False by (simp only: fl_def Let_def round_half_even_of_int) (simp add: p)
qed simp

lemma digits_whole:
  assumes "list_all decimal_digit s"
  shows "takeWhile decimal_digit s = s" "dropWhile decimal_digit s = []"
  using assms by (auto simp: list_all_iff)

lemma digits_value_nonneg: "list_all decimal_digit s \<Longrightarrow> 0 \<le> digits_value s"
proof -
  have "0 \<le> fold (\<lambda>c n. n * 10 + (of_char c - 48)) s n" if "list_all decimal_digit s" "0 \<le> n" for n :: int
    using that
  proof (induction s arbitrary: n)
    case (Cons c cs)
    then have "CHR ''0'' \<le> c" by (simp add: decimal_digit_def)
    then have "(48 :: nat) \<le> of_char c" by (simp add: less_eq_char_def)
    then have "(48 :: int) \<le> of_char c" by (metis of_nat_of_char of_nat_le_iff of_nat_numeral)
    with Cons show ?case by simp
  qed simp
  then show "list_all decimal_digit s \<Longrightarrow> ?thesis" by (simp add: digits_value_def)
qed

lemma to_number_digits:
  assumes "s \<noteq> []" "list_all decimal_digit s" "digits_value s < 2 ^ 53"
  shows "to_number s = Some (of_int (digits_value s))"
proof -
  obtain c cs where s: "s = c # cs" using assms(1) by (cases s) auto
  have c: "c \<noteq> CHR ''-''" "c \<noteq> CHR ''+''" using assms(2) s by (auto simp: decimal_digit_def)
  have digit: "ascii_lower d = d" if "decimal_digit d" for d
    using that by (auto simp: ascii_lower_def decimal_digit_def less_eq_char_def)
  have "map ascii_lower (take 2 s) = take 2 s"
    using assms(2) digit by (auto simp: list_all_iff dest: in_set_takeD intro: map_idI)
  moreover have "take 2 s \<noteq> ''0x''" "take 2 s \<noteq> ''0o''" "take 2 s \<noteq> ''0b''"
    using assms(2) s by (cases cs; auto simp: decimal_digit_def less_eq_char_def)+
  ultimately have "to_number s = map_option fl (unsigned_literal s)"
    using c by (auto simp: to_number_def Let_def s)
  also have "unsigned_literal s = Some (of_int (digits_value s))"
    using assms(1) by (simp add: unsigned_literal_def digits_whole [OF assms(2)] scaled_def)
  finally show ?thesis
    using fl_of_int [OF digits_value_nonneg [OF assms(2)] assms(3)] by simp
qed

lemma quiet_text:
  "quiet (read_text source name n) v \<longleftrightarrow>
     map_option js_trim (source name) = Some v \<and> v \<noteq> [] \<and> length v \<le> n"
  by (auto simp: read_text_def reader_simps split: option.split)

lemma bounded_integer_agrees:
  assumes "quiet (read_integer source name a b) v" "0 \<le> a"
  shows "readBoundedInteger source name fallback a b = Inr v"
proof -
  from assms(1) obtain raw where raw: "map_option js_trim (source name) = Some raw" "raw \<noteq> []"
    and digits: "list_all decimal_digit raw" "digits_value raw \<le> 2 ^ 53 - 1"
    and v: "v = digits_value raw" "a \<le> v" "v \<le> b"
    by (auto simp: read_integer_def reader_simps quiet_text not_less split: if_splits)
  have "to_number raw = Some (of_int v)" using to_number_digits raw(2) digits v(1) by simp
  moreover have "\<bar>of_int v :: rat\<bar> \<le> of_int (2 ^ 53 - 1)"
    using digits(2) v assms(2) by (simp only: of_int_abs [symmetric] of_int_le_iff)
  then have "safe_integer (of_int v)" by (simp add: safe_integer_def)
  ultimately show ?thesis using raw v by (auto simp: readBoundedInteger_def)
qed

lemma environment_name_exact:
  assumes "quiet (parseEnvironmentName source) env" "env \<noteq> ENV_PRODUCTION"
  shows "source ''SWAR_ENV'' \<noteq> Some ''production''"
  using assms environment_name_production by blast

text \<open>
  The two readers of the environment agree: when startup accepts the configuration, the database
  client is made, with the settings of the configuration.
\<close>

lemma connection_agrees:
  assumes "parseEnvironment parse source = Inr c"
  shows "createPrismaClient parse source = Inr (c_database c)"
proof -
  from parseEnvironment_quiet [OF assms] obtain env url where
    env: "quiet (parseEnvironmentName source) env"
    and url: "quiet (read_text source ''DATABASE_URL'' 4096) url"
      "\<not> database_url_refused env (parse url)"
    and db: "quiet (parse_database source url) (c_database c)"
    by (auto simp: read_configuration_def reader_simps Let_def)
  have "readDatabaseUrl parse source = Inr url"
    using url environment_name_exact [OF env]
    by (auto simp: readDatabaseUrl_def quiet_text database_url_refused_def split: option.splits)
  with db show ?thesis
    by (auto simp: createPrismaClient_def parse_database_def reader_simps bounded_integer_agrees)
qed

text \<open>
  The client by itself is more lenient than the configuration: it takes defaults, and numbers that
  are not written as digits.
\<close>

lemma client_alone_takes_more:
  "readBoundedInteger (map_of []) ''POSTGRES_POOL_MAX'' 10 1 100 = Inr 10 \<and>
   readBoundedInteger (map_of [(''POSTGRES_POOL_MAX'', ''0x10'')]) ''POSTGRES_POOL_MAX'' 10 1 100 = Inr 16 \<and>
   readBoundedInteger (map_of [(''POSTGRES_POOL_MAX'', ''2.5e1'')]) ''POSTGRES_POOL_MAX'' 10 1 100 = Inr 25"
  by code_simp

lemma connection_agrees_example:
  "\<exists>c. parseEnvironment sample_url (map_of production_environment) = Inr c \<and>
     createPrismaClient sample_url (map_of production_environment) = Inr (c_database c)"
  using production_accepted connection_agrees by metis

end
