(* ===== verification/Seed.thy ===== *)
theory Seed
  imports Calls
begin

text \<open>
  \<open>prisma/seed.ts\<close>, which puts one fictional tenant with a row in every table into a database for
  development or tests. Every row is upserted by its identifier with an empty update. The rows that
  have no identifier here (roles and the links of evidence) are looked for by their columns. Fields
  that the program does not give have the defaults of \<open>schema.prisma\<close>.
\<close>

section \<open>The rows\<close>

definition fixture_id :: "string \<Rightarrow> uuid" where
  "fixture_id suffix = ''018f0000-0000-7000-8000-0000000000'' @ suffix"

record seed_ids =
  sid_organization :: uuid
  sid_user :: uuid
  sid_membership :: uuid
  sid_membershipRole :: uuid
  sid_device :: uuid
  sid_refreshSession :: uuid
  sid_trustedSpeaker :: uuid
  sid_consent :: uuid
  sid_modelVersion :: uuid
  sid_voiceprint :: uuid
  sid_riskPolicy :: uuid
  sid_call :: uuid
  sid_participant :: uuid
  sid_mediaTrack :: uuid
  sid_trackBinding :: uuid
  sid_analysisSession :: uuid
  sid_evidenceEvent :: uuid
  sid_riskEvent :: uuid
  sid_riskEventEvidence :: uuid
  sid_intervention :: uuid
  sid_verificationChallenge :: uuid
  sid_alert :: uuid
  sid_auditLog :: uuid
  sid_riskAssessment :: uuid
  sid_riskAssessmentEvidence :: uuid

definition ids :: seed_ids where
  "ids = \<lparr>sid_organization = fixture_id ''01'',
     sid_user = fixture_id ''02'',
     sid_membership = fixture_id ''03'',
     sid_membershipRole = fixture_id ''04'',
     sid_device = fixture_id ''05'',
     sid_refreshSession = fixture_id ''06'',
     sid_trustedSpeaker = fixture_id ''07'',
     sid_consent = fixture_id ''08'',
     sid_modelVersion = fixture_id ''09'',
     sid_voiceprint = fixture_id ''10'',
     sid_riskPolicy = fixture_id ''11'',
     sid_call = fixture_id ''12'',
     sid_participant = fixture_id ''13'',
     sid_mediaTrack = fixture_id ''14'',
     sid_trackBinding = fixture_id ''15'',
     sid_analysisSession = fixture_id ''16'',
     sid_evidenceEvent = fixture_id ''17'',
     sid_riskEvent = fixture_id ''18'',
     sid_riskEventEvidence = fixture_id ''19'',
     sid_intervention = fixture_id ''20'',
     sid_verificationChallenge = fixture_id ''21'',
     sid_alert = fixture_id ''22'',
     sid_auditLog = fixture_id ''23'',
     sid_riskAssessment = fixture_id ''24'',
     sid_riskAssessmentEvidence = fixture_id ''25''\<rparr>"

text \<open>The dates of the fixture, 2026-01-15 at 10:00, 10:05 and 11:00 UTC, in milliseconds.\<close>

definition seed_issuedAt :: instant where
  "seed_issuedAt = 1768471200000"

definition seed_endedAt :: instant where
  "seed_endedAt = 1768471500000"

definition seed_expiresAt :: instant where
  "seed_expiresAt = 1768474800000"

definition seed_organization :: "organization_row" where
  "seed_organization =
     \<lparr>og_id = sid_organization ids, og_slug = ''phase-f-fixture'',
      og_displayName = ''Fictional Phase F Tenant'',
      og_status = ''INACTIVE_TEST_FIXTURE''\<rparr>"

definition seed_user :: "user_row" where
  "seed_user =
     \<lparr>us_id = sid_user ids, us_email = ''disabled-fixture@example.invalid'',
      us_passwordHash = ''DISABLED_TEST_ACCOUNT_NO_LOGIN'', us_status = USER_DISABLED,
      us_deletedAt = None\<rparr>"

definition seed_membership :: "membership_row" where
  "seed_membership =
     \<lparr>ms_id = sid_membership ids, ms_org = sid_organization ids, ms_user = sid_user ids,
      ms_status = MEM_ACTIVE, ms_joinedAt = Some seed_issuedAt, ms_revokedAt = None\<rparr>"

definition seed_role :: "role_row" where
  "seed_role =
     \<lparr>mr_org = sid_organization ids, mr_membership = sid_membership ids,
      mr_role = SECURITY_ANALYST\<rparr>"

definition seed_device :: "device_row" where
  "seed_device =
     \<lparr>dv_id = sid_device ids, dv_org = sid_organization ids, dv_membership = sid_membership ids,
      dv_publicId = ''phase-f-disabled-device'',
      dv_label = Some ''Non-production fixture device'', dv_status = DEVICE_REVOKED\<rparr>"

definition seed_refresh :: "refresh_row" where
  "seed_refresh =
     \<lparr>rs_id = sid_refreshSession ids, rs_org = sid_organization ids,
      rs_membership = sid_membership ids, rs_device = sid_device ids,
      rs_tokenHash = ''NON_SECRET_IRREVERSIBLE_TEST_FIXTURE_HASH'',
      rs_family = fixture_id ''24'', rs_status = REFRESH_EXPIRED, rs_issuedAt = seed_issuedAt,
      rs_expiresAt = seed_expiresAt, rs_rotatedAt = None, rs_revokedAt = None\<rparr>"

definition seed_speaker :: "speaker_row" where
  "seed_speaker =
     \<lparr>ts_id = sid_trustedSpeaker ids, ts_org = sid_organization ids, ts_user = None,
      ts_externalReference = Some ''deleted-fictional-speaker'',
      ts_label = ''Deleted fictional speaker fixture'', ts_status = SPEAKER_DELETED,
      ts_revokedAt = None, ts_deletedAt = Some seed_endedAt\<rparr>"

definition seed_consent :: "consent_row" where
  "seed_consent =
     \<lparr>co_id = sid_consent ids, co_org = sid_organization ids,
      co_speaker = sid_trustedSpeaker ids, co_grantedBy = sid_membership ids,
      co_purposeCode = ''PHASE_F_SCHEMA_TEST'', co_noticeVersion = ''fixture-v1'',
      co_status = CONSENT_REVOKED, co_grantedAt = seed_issuedAt, co_expiresAt = None,
      co_revokedAt = Some seed_endedAt,
      co_revocationReasonCode = Some ''FIXTURE_CLEANUP''\<rparr>"

definition seed_model :: "model_row" where
  "seed_model =
     \<lparr>mv_id = sid_modelVersion ids, mv_name = ''fixture-model-no-checkpoint'',
      mv_version = ''0-test-only'', mv_capability = CAP_AUDIO_QUALITY,
      mv_checkpointHash = replicate 64 (CHR ''0''),
      mv_checkpointSource = ''test-fixture://no-checkpoint'',
      mv_checkpointLicense = ''TEST-FIXTURE-NO-CHECKPOINT'', mv_inputSampleRateHz = 16000,
      mv_inputChannelCount = 1, mv_scoreName = ''not-applicable'',
      mv_scoreDirection = NOT_APPLICABLE, mv_scoreTarget = Some TARGET_AUDIO_QUALITY,
      mv_calibrationVersion = None, mv_status = MODEL_REJECTED\<rparr>"

definition seed_voiceprint :: "voiceprint_row" where
  "seed_voiceprint =
     \<lparr>vp_id = sid_voiceprint ids, vp_org = sid_organization ids,
      vp_speaker = sid_trustedSpeaker ids, vp_consent = sid_consent ids,
      vp_model = sid_modelVersion ids, vp_createdBy = sid_membership ids, vp_ciphertext = None,
      vp_encryptionAlgorithm = ''NOT_APPLICABLE_DELETED_FIXTURE'',
      vp_encryptionKeyVersion = ''none-fixture'', vp_embeddingFormat = ''none-fixture'',
      vp_sampleCount = 0, vp_status = VP_DELETED, vp_activatedAt = None,
      vp_revokedAt = Some seed_endedAt, vp_deletedAt = Some seed_endedAt\<rparr>"

definition seed_policy :: "instant \<Rightarrow> policy_row" where
  "seed_policy t =
     \<lparr>rp_id = sid_riskPolicy ids, rp_org = sid_organization ids, rp_key = ''phase-f-fixture'',
      rp_version = ''0-test-only'', rp_schemaVersion = ''fixture-v1'',
      rp_document = JObj [(''fixture'', JBool True), (''productionEligible'', JBool False)],
      rp_status = POLICY_RETIRED, rp_createdBy = sid_membership ids, rp_effectiveAt = None,
      rp_retiredAt = Some seed_endedAt, rp_createdAt = t\<rparr>"

definition seed_call :: "instant \<Rightarrow> call_row" where
  "seed_call t =
     \<lparr>ca_id = sid_call ids, ca_org = sid_organization ids,
      ca_roomName = ''phase-f-ended-fixture-room'',
      ca_expectedSpeaker = Some (sid_trustedSpeaker ids), ca_policyId = sid_riskPolicy ids,
      ca_policyVersion = ''0-test-only'', ca_createdBy = sid_membership ids,
      ca_idemKey = ''phase-f-fixture-call'', ca_protectedAction = None, ca_status = CALL_ENDED,
      ca_authorizedAt = Some seed_issuedAt, ca_startedAt = Some seed_issuedAt,
      ca_endedAt = Some seed_endedAt, ca_createdAt = t\<rparr>"

definition seed_participant :: "participant_row" where
  "seed_participant =
     \<lparr>cp_id = sid_participant ids, cp_org = sid_organization ids, cp_call = sid_call ids,
      cp_membership = None, cp_speaker = Some (sid_trustedSpeaker ids),
      cp_livekitIdentity = ''fixture-caller'',
      cp_authorizedIdentity = ''fixture-caller-authorized'', cp_displayName = None,
      cp_role = CALLER, cp_status = PART_LEFT, cp_authorizedAt = seed_issuedAt,
      cp_joinedAt = Some seed_issuedAt, cp_disconnectedAt = None,
      cp_leftAt = Some seed_endedAt\<rparr>"

definition seed_track :: "track_row" where
  "seed_track =
     \<lparr>mt_id = sid_mediaTrack ids, mt_org = sid_organization ids, mt_call = sid_call ids,
      mt_participant = sid_participant ids, mt_trackSid = ''TR_FIXTURE_ENDED'',
      mt_trackSource = ''MICROPHONE'', mt_mimeType = Some ''audio/opus'',
      mt_status = TRACK_ENDED, mt_publishedAt = seed_issuedAt,
      mt_endedAt = Some seed_endedAt\<rparr>"

definition seed_binding :: "instant \<Rightarrow> binding_row" where
  "seed_binding t =
     \<lparr>tb_id = sid_trackBinding ids, tb_org = sid_organization ids, tb_call = sid_call ids,
      tb_participant = sid_participant ids, tb_track = sid_mediaTrack ids, tb_revision = 1,
      tb_status = BIND_REVOKED, tb_authorizedAt = seed_issuedAt,
      tb_activatedAt = Some seed_issuedAt, tb_endedAt = Some seed_endedAt,
      tb_rejectionCode = None, tb_createdAt = t\<rparr>"

definition seed_session :: "instant \<Rightarrow> session_row" where
  "seed_session t =
     \<lparr>as_id = sid_analysisSession ids, as_org = sid_organization ids, as_call = sid_call ids,
      as_binding = sid_trackBinding ids, as_voiceprint = Some (sid_voiceprint ids),
      as_idemKey = ''phase-f-fixture-analysis'', as_bindingRevision = 1,
      as_evidenceMode = MODE_SHADOW, as_status = SESS_STOPPED, as_authorizedAt = seed_issuedAt,
      as_startedAt = Some seed_issuedAt, as_stoppedAt = Some seed_endedAt,
      as_expiresAt = seed_expiresAt, as_failureCode = None, as_createdAt = t\<rparr>"

definition seed_evidence :: "evidence_row" where
  "seed_evidence =
     \<lparr>ev_id = sid_evidenceEvent ids, ev_org = sid_organization ids, ev_call = sid_call ids,
      ev_session = sid_analysisSession ids, ev_binding = sid_trackBinding ids,
      ev_participantIdentity = None, ev_trackSid = None, ev_windowId = None,
      ev_correlationId = None, ev_modelVersionId = None, ev_supersedes = None,
      ev_idemKey = ''phase-f-fixture-evidence'', ev_schemaVersion = ''fixture-v1'',
      ev_mode = MODE_SHADOW, ev_eventSequence = 1, ev_windowSequence = 1, ev_revision = 0,
      ev_type = PIPELINE_ERROR, ev_readiness = ERROR, ev_status = ACCEPTED, ev_windowStartMs = 0,
      ev_windowEndMs = 0, ev_observedAt = seed_issuedAt, ev_capturedAt = None,
      ev_inferenceStartedAt = None, ev_inferenceCompletedAt = None,
      ev_processingLatencyMs = None, ev_speechDurationMs = None, ev_qualityScore = None,
      ev_reasonCodes = [''NON_PRODUCTION_FIXTURE''], ev_modelName = None, ev_modelVersion = None,
      ev_checkpointHash = None, ev_scoreName = None, ev_scoreDirection = NOT_APPLICABLE,
      ev_rawScore = None, ev_calibratedScore = None, ev_calibrationVersion = None,
      ev_errorCode = Some ''FIXTURE_PIPELINE_NOT_RUN''\<rparr>"

definition seed_riskEvent :: "risk_event_row" where
  "seed_riskEvent =
     \<lparr>re_id = sid_riskEvent ids, re_org = sid_organization ids, re_call = sid_call ids,
      re_session = Some (sid_analysisSession ids), re_policyId = sid_riskPolicy ids,
      re_assessment = None, re_idemKey = ''phase-f-fixture-risk-event'',
      re_schemaVersion = ''fixture-v1'', re_eventSequence = 1, re_mode = SHADOW,
      re_priorState = UNVERIFIED, re_state = HIGH_RISK,
      re_reasonCode = ''FIXTURE_ORCHESTRATION_ONLY'', re_policyKey = ''phase-f-fixture'',
      re_policyVersion = ''0-test-only'', re_thresholdVersion = ''none-fixture'',
      re_occurredAt = seed_issuedAt\<rparr>"

definition seed_assessment :: "instant \<Rightarrow> assessment_row" where
  "seed_assessment t =
     \<lparr>ra_id = sid_riskAssessment ids, ra_org = sid_organization ids, ra_call = sid_call ids,
      ra_session = sid_analysisSession ids, ra_policyId = sid_riskPolicy ids,
      ra_idemKey = ''phase-q-engineering-fixture-assessment'', ra_schemaVersion = ''1.0.0'',
      ra_evidenceHash = replicate 64 (CHR ''b''), ra_evidenceMode = MODE_SHADOW,
      ra_decisionMode = DECISION_SHADOW, ra_outcome = OUTCOME_INSUFFICIENT_EVIDENCE,
      ra_priorState = UNVERIFIED, ra_effectiveState = UNVERIFIED, ra_transitioned = False,
      ra_productionEligible = False, ra_activationSuppressed = True, ra_blockerCodes = [],
      ra_reasonCode = ''PHASE_O_SCIENTIFIC_CALIBRATION_BLOCKED'',
      ra_policyKey = ''phase-f-fixture'', ra_policyVersion = ''0-test-only'',
      ra_thresholdVersion = ''none-fixture'', ra_calibrationVersion = None,
      ra_proposedInterventions = [], ra_maxWindowSequence = 1, ra_occurredAt = seed_issuedAt,
      ra_createdAt = t\<rparr>"

definition seed_assessmentEvidence :: "evidence_link_row" where
  "seed_assessmentEvidence =
     \<lparr>el_org = sid_organization ids, el_owner = sid_riskAssessment ids,
      el_evidence = sid_evidenceEvent ids\<rparr>"

definition seed_riskEventEvidence :: "evidence_link_row" where
  "seed_riskEventEvidence =
     \<lparr>el_org = sid_organization ids, el_owner = sid_riskEvent ids,
      el_evidence = sid_evidenceEvent ids\<rparr>"

definition seed_intervention :: "intervention_row" where
  "seed_intervention =
     \<lparr>iv_id = sid_intervention ids, iv_org = sid_organization ids, iv_call = sid_call ids,
      iv_riskEvent = sid_riskEvent ids, iv_resolvedBy = None,
      iv_idemKey = ''phase-f-fixture-intervention'', iv_type = WARN, iv_status = IV_CANCELLED,
      iv_mode = SHADOW, iv_policyVersion = ''0-test-only'', iv_reasonCode = ''FIXTURE_CLEANUP'',
      iv_protectedAction = None, iv_requiredAt = seed_issuedAt, iv_acknowledgedAt = None,
      iv_resolvedAt = Some seed_endedAt, iv_expiresAt = None, iv_attemptCount = 0,
      iv_nextAttemptAt = None, iv_leaseId = None, iv_leaseExpiresAt = None,
      iv_deadLetteredAt = None, iv_failureCode = None\<rparr>"

definition seed_challenge :: "challenge_row" where
  "seed_challenge =
     \<lparr>vc_id = sid_verificationChallenge ids, vc_org = sid_organization ids,
      vc_call = sid_call ids, vc_intervention = sid_intervention ids, vc_performedBy = None,
      vc_idemKey = ''phase-f-fixture-verification'', vc_method = ''NON_PRODUCTION_FIXTURE'',
      vc_status = VC_CANCELLED, vc_attemptNumber = 1, vc_resultCode = Some ''FIXTURE_CLEANUP'',
      vc_requestedAt = seed_issuedAt, vc_expiresAt = seed_expiresAt,
      vc_completedAt = Some seed_endedAt\<rparr>"

definition seed_alert :: "instant \<Rightarrow> alert_row" where
  "seed_alert t =
     \<lparr>al_id = sid_alert ids, al_org = sid_organization ids, al_call = sid_call ids,
      al_riskEvent = sid_riskEvent ids, al_intervention = Some (sid_intervention ids),
      al_acknowledgedBy = None, al_idemKey = ''phase-f-fixture-alert'',
      al_externalEventId = None, al_channel = AUDIT_QUEUE, al_status = ALERT_CANCELLED,
      al_mode = SHADOW, al_eventType = ''fixture.cancelled'', al_schemaVersion = ''fixture-v1'',
      al_recipient = None, al_attemptCount = 0, al_nextAttemptAt = None, al_leaseId = None,
      al_leaseExpiresAt = None, al_deliveredAt = None, al_acknowledgedAt = None,
      al_failureCode = None, al_createdAt = t\<rparr>"

definition seed_audit :: "audit_row" where
  "seed_audit =
     \<lparr>au_id = sid_auditLog ids, au_org = sid_organization ids,
      au_actor = Some (sid_membership ids), au_correlationId = ''phase-f-fixture-correlation'',
      au_idemKey = Some ''phase-f-fixture-audit'', au_action = ''phase-f.fixture.seeded'',
      au_targetType = ''Organization'', au_targetId = sid_organization ids,
      au_outcome = AUDIT_SUCCEEDED, au_reasonCode = None, au_sourceIpHash = None,
      au_metadata = Some [(''fixture'', JBool True), (''containsBiometricMaterial'', JBool False)],
      au_occurredAt = seed_endedAt\<rparr>"

section \<open>The program\<close>

text \<open>An upsert with an empty update leaves the row that it finds.\<close>

definition upsert :: "'r table \<Rightarrow> ('r \<Rightarrow> bool) \<Rightarrow> (instant \<Rightarrow> 'r) \<Rightarrow> unit op" where
  "upsert tb P row =
     bindM (find_unique_row tb P) (\<lambda>found. case found of
       Some r \<Rightarrow> returnM ()
     | None \<Rightarrow> bindM now (\<lambda>t. bindM (create tb (row t)) (\<lambda>_. returnM ())))"

definition seed_upserts :: "unit op list" where
  "seed_upserts =
    [upsert organizations_table (\<lambda>r. og_id r = sid_organization ids) (\<lambda>_. seed_organization),
     upsert users_table (\<lambda>r. us_id r = sid_user ids) (\<lambda>_. seed_user),
     upsert memberships_table (\<lambda>r. ms_id r = sid_membership ids) (\<lambda>_. seed_membership),
     upsert roles_table (\<lambda>r. r = seed_role) (\<lambda>_. seed_role),
     upsert devices_table (\<lambda>r. dv_id r = sid_device ids) (\<lambda>_. seed_device),
     upsert refreshes_table (\<lambda>r. rs_id r = sid_refreshSession ids) (\<lambda>_. seed_refresh),
     upsert speakers_table (\<lambda>r. ts_id r = sid_trustedSpeaker ids) (\<lambda>_. seed_speaker),
     upsert consents_table (\<lambda>r. co_id r = sid_consent ids) (\<lambda>_. seed_consent),
     upsert models_table (\<lambda>r. mv_id r = sid_modelVersion ids) (\<lambda>_. seed_model),
     upsert voiceprints_table (\<lambda>r. vp_id r = sid_voiceprint ids) (\<lambda>_. seed_voiceprint),
     upsert policies_table (\<lambda>r. rp_id r = sid_riskPolicy ids) seed_policy,
     upsert calls_table (\<lambda>r. ca_id r = sid_call ids) seed_call,
     upsert participants_table (\<lambda>r. cp_id r = sid_participant ids) (\<lambda>_. seed_participant),
     upsert tracks_table (\<lambda>r. mt_id r = sid_mediaTrack ids) (\<lambda>_. seed_track),
     upsert bindings_table (\<lambda>r. tb_id r = sid_trackBinding ids) seed_binding,
     upsert sessions_table (\<lambda>r. as_id r = sid_analysisSession ids) seed_session,
     upsert evidence_table (\<lambda>r. ev_id r = sid_evidenceEvent ids) (\<lambda>_. seed_evidence),
     upsert riskEvents_table (\<lambda>r. re_id r = sid_riskEvent ids) (\<lambda>_. seed_riskEvent),
     upsert assessments_table (\<lambda>r. ra_id r = sid_riskAssessment ids) seed_assessment,
     upsert assessmentEvidence_table (\<lambda>r. r = seed_assessmentEvidence) (\<lambda>_. seed_assessmentEvidence),
     upsert riskEventEvidence_table (\<lambda>r. r = seed_riskEventEvidence) (\<lambda>_. seed_riskEventEvidence),
     upsert interventions_table (\<lambda>r. iv_id r = sid_intervention ids) (\<lambda>_. seed_intervention),
     upsert challenges_table (\<lambda>r. vc_id r = sid_verificationChallenge ids) (\<lambda>_. seed_challenge),
     upsert alerts_table (\<lambda>r. al_id r = sid_alert ids) seed_alert,
     upsert audits_table (\<lambda>r. au_id r = sid_auditLog ids) (\<lambda>_. seed_audit)]"

definition seed_allowed :: "string option \<Rightarrow> bool" where
  "seed_allowed value = (case map_option (\<lambda>v. map ascii_lower (js_trim v)) value of
     None \<Rightarrow> False
   | Some mode \<Rightarrow> List.member [''development'', ''test''] mode)"

definition seed :: "string option \<Rightarrow> unit op" where
  "seed value =
     thenM (guardM (seed_allowed value) (Error ''Seed refused: SWAR_ENV must be development or test.''))
     (iterM seed_upserts (\<lambda>m. m))"

section \<open>Lemmas\<close>

text \<open>A refused program touches nothing.\<close>

lemma seed_refused: "\<not> seed_allowed value \<Longrightarrow> \<exists>e. seed value w = (Inl e, w)"
  by (simp add: seed_def thenM_def guardM_def throwM_def)

lemma production_not_seeded:
  "\<not> seed_allowed None" "\<not> seed_allowed (Some ''production'')" "\<not> seed_allowed (Some ''staging'')"
  by code_simp+

lemma seed_allowed_mode: "seed_allowed (Some '' Development '')"
  by code_simp

text \<open>
  Seeding adds nothing that lives: neither sessions that grant access nor users that may log in, no
  call or analysis under way, no consent, voiceprint or policy in force, and nothing that waits to be
  sent or resolved.
\<close>

definition live_part where
  "live_part d =
    (filter (\<lambda>r. rs_status r = REFRESH_ACTIVE) (d_refreshSessions d),
     filter (\<lambda>u. us_status u = USER_ACTIVE) (d_users d),
     filter (\<lambda>c. \<not> call_final (ca_status c)) (d_calls d),
     filter (\<lambda>b. tb_status b = BIND_ACTIVE) (d_bindings d),
     filter (\<lambda>s. open_status (as_status s)) (d_sessions d),
     filter (\<lambda>c. co_status c = CONSENT_GRANTED) (d_consents d),
     filter (\<lambda>v. vp_status v = VP_ACTIVE) (d_voiceprints d),
     filter (\<lambda>p. rp_status p = POLICY_ACTIVE) (d_policies d),
     filter (\<lambda>a. al_status a = ALERT_PENDING) (d_alerts d),
     filter (\<lambda>i. iv_status i \<in> {IV_REQUIRED, IV_ACKNOWLEDGED, IV_IN_PROGRESS}) (d_interventions d),
     filter (\<lambda>c. vc_status c = VC_PENDING) (d_challenges d))"

lemma keeps_upsert:
  assumes "\<And>d t. I d \<Longrightarrow> I (t_put tb (\<lambda>rs. rs @ [row t]) d)"
  shows "keeps (on_db I) (upsert tb P row)"
  unfolding upsert_def by (rule hoare keeps_create assms | simp)+

lemmas seed_rows = seed_organization_def seed_user_def seed_membership_def seed_role_def seed_device_def
  seed_refresh_def seed_speaker_def seed_consent_def seed_model_def seed_voiceprint_def seed_policy_def
  seed_call_def seed_participant_def seed_track_def seed_binding_def seed_session_def seed_evidence_def
  seed_riskEvent_def seed_assessment_def seed_assessmentEvidence_def seed_riskEventEvidence_def
  seed_intervention_def seed_challenge_def seed_alert_def seed_audit_def

lemma seed_finished:
  "rs_status seed_refresh = REFRESH_EXPIRED" "us_status seed_user = USER_DISABLED"
  "ca_status (seed_call t) = CALL_ENDED" "tb_status (seed_binding t) = BIND_REVOKED"
  "as_status (seed_session t) = SESS_STOPPED" "co_status seed_consent = CONSENT_REVOKED"
  "vp_status seed_voiceprint = VP_DELETED" "rp_status (seed_policy t) = POLICY_RETIRED"
  "al_status (seed_alert t) = ALERT_CANCELLED" "iv_status seed_intervention = IV_CANCELLED"
  "vc_status seed_challenge = VC_CANCELLED" "call_final CALL_ENDED" "\<not> open_status SESS_STOPPED"
  by (simp_all add: seed_rows call_final_def open_status_def)

lemma keeps_seed:
  "(\<And>m. m \<in> set seed_upserts \<Longrightarrow> keeps I m) \<Longrightarrow> keeps I (seed value)"
  unfolding seed_def by (rule keeps_thenM keeps_guardM keeps_iterM)+

lemma seed_adds_nothing_live: "live_part (w_db (snd (seed value w))) = live_part (w_db w)"
proof -
  have "keeps (on_db (\<lambda>d. live_part d = live_part (w_db w))) (seed value)"
  proof (rule keeps_seed)
    have "list_all (keeps (on_db (\<lambda>d. live_part d = live_part (w_db w)))) seed_upserts"
      unfolding seed_upserts_def list.pred_inject
      by (intro conjI keeps_upsert TrueI) (simp_all add: table_defs live_part_def seed_finished)
    then show "keeps (on_db (\<lambda>d. live_part d = live_part (w_db w))) m" if "m \<in> set seed_upserts" for m
      using that by (simp add: list_all_iff)
  qed
  from keeps_sndD [OF this, of w] show ?thesis by (simp add: on_db_def)
qed

text \<open>What a database has more than another one.\<close>

definition extends :: "db \<Rightarrow> db \<Rightarrow> bool" where
  "extends d d' \<longleftrightarrow>
     set (d_calls d) \<subseteq> set (d_calls d') \<and>
     set (d_participants d) \<subseteq> set (d_participants d') \<and>
     set (d_tracks d) \<subseteq> set (d_tracks d') \<and>
     set (d_bindings d) \<subseteq> set (d_bindings d') \<and>
     set (d_sessions d) \<subseteq> set (d_sessions d') \<and>
     set (d_models d) \<subseteq> set (d_models d') \<and>
     set (d_policies d) \<subseteq> set (d_policies d') \<and>
     set (d_evidence d) \<subseteq> set (d_evidence d') \<and>
     set (d_assessments d) \<subseteq> set (d_assessments d') \<and>
     set (d_assessmentEvidence d) \<subseteq> set (d_assessmentEvidence d') \<and>
     set (d_riskEvents d) \<subseteq> set (d_riskEvents d') \<and>
     set (d_riskEventEvidence d) \<subseteq> set (d_riskEventEvidence d') \<and>
     set (d_interventions d) \<subseteq> set (d_interventions d') \<and>
     set (d_challenges d) \<subseteq> set (d_challenges d') \<and>
     set (d_alerts d) \<subseteq> set (d_alerts d') \<and>
     set (d_audit d) \<subseteq> set (d_audit d') \<and>
     set (d_organizations d) \<subseteq> set (d_organizations d') \<and>
     set (d_users d) \<subseteq> set (d_users d') \<and>
     set (d_memberships d) \<subseteq> set (d_memberships d') \<and>
     set (d_roles d) \<subseteq> set (d_roles d') \<and>
     set (d_devices d) \<subseteq> set (d_devices d') \<and>
     set (d_refreshSessions d) \<subseteq> set (d_refreshSessions d') \<and>
     set (d_speakers d) \<subseteq> set (d_speakers d') \<and>
     set (d_consents d) \<subseteq> set (d_consents d') \<and>
     set (d_voiceprints d) \<subseteq> set (d_voiceprints d')"

lemma extends_refl: "extends d d"
  by (simp add: extends_def)

lemma extends_trans: "extends d d1 \<Longrightarrow> extends d1 d2 \<Longrightarrow> extends d d2"
  unfolding extends_def by (elim conjE) (intro conjI; erule (1) subset_trans)

text \<open>An upsert that has run finds its row from then on.\<close>

definition settles :: "unit op \<Rightarrow> bool" where
  "settles m \<longleftrightarrow> (\<forall>w w'. m w = (Inr (), w') \<longrightarrow>
     extends (w_db w) (w_db w') \<and>
     (\<forall>w2. extends (w_db w') (w_db w2) \<longrightarrow> m w2 = (Inr (), w2)))"

lemma settles_upsert:
  assumes "\<And>t. P (row t)"
    and grown: "\<And>d r. extends d (t_put tb (\<lambda>rs. rs @ [r]) d)"
    and rows: "\<And>d d'. extends d d' \<Longrightarrow> set (t_get tb d) \<subseteq> set (t_get tb d')"
    and get: "\<And>d f. t_get tb (t_put tb f d) = f (t_get tb d)"
  shows "settles (upsert tb P row)"
proof -
  have found: "upsert tb P row w2 = (Inr (), w2)"
    if "x \<in> set (t_get tb d)" "P x" "extends d (w_db w2)" for x d w2
  proof -
    have "find P (t_get tb (w_db w2)) \<noteq> None"
      using that rows by (auto simp: find_None_iff)
    then show ?thesis
      by (auto simp: upsert_def find_unique_row_def getM_def bindM_def returnM_def split: option.split)
  qed
  show ?thesis
    unfolding settles_def
  proof (intro allI impI)
    fix w w' assume run: "upsert tb P row w = (Inr (), w')"
    show "extends (w_db w) (w_db w') \<and> (\<forall>w2. extends (w_db w') (w_db w2) \<longrightarrow> upsert tb P row w2 = (Inr (), w2))"
    proof (cases "find P (t_get tb (w_db w))")
      case (Some x)
      with run have "w' = w" by (simp add: upsert_def find_unique_row_def bindM_def getM_def returnM_def)
      with found find_SomeD [OF Some] show ?thesis by (auto intro: extends_refl)
    next
      case None
      with run obtain t where w': "w_db w' = t_put tb (\<lambda>rs. rs @ [row t]) (w_db w)"
        by (auto simp: upsert_def find_unique_row_def bindM_def getM_def now_def create_def returnM_def
            split: if_splits)
      have "row t \<in> set (t_get tb (w_db w'))" by (simp add: w' get)
      with found [OF _ assms(1)] grown show ?thesis by (auto simp: w')
    qed
  qed
qed

lemma settled_twice:
  assumes "\<forall>m \<in> set ms. settles m" "iterM ms (\<lambda>m. m) w = (Inr (), w')"
  shows "extends (w_db w) (w_db w') \<and> (\<forall>w2. extends (w_db w') (w_db w2) \<longrightarrow> iterM ms (\<lambda>m. m) w2 = (Inr (), w2))"
  using assms
proof (induction ms arbitrary: w)
  case (Cons m ms)
  from Cons.prems obtain w1 where m: "m w = (Inr (), w1)" and ms: "iterM ms (\<lambda>m. m) w1 = (Inr (), w')"
    by (auto simp: thenM_eq_Inr_iff)
  from Cons.prems(1) have "settles m" "\<forall>m \<in> set ms. settles m" by simp_all
  note first = \<open>settles m\<close> [unfolded settles_def, rule_format, OF m]
    and rest = Cons.IH [OF \<open>\<forall>m \<in> set ms. settles m\<close> ms]
  show ?case
  proof (intro conjI allI impI)
    show "extends (w_db w) (w_db w')" using first rest by (blast intro: extends_trans)
    show "iterM (m # ms) (\<lambda>m. m) w2 = (Inr (), w2)" if "extends (w_db w') (w_db w2)" for w2
    proof -
      have "m w2 = (Inr (), w2)" "iterM ms (\<lambda>m. m) w2 = (Inr (), w2)"
        using first rest that by (blast intro: extends_trans)+
      then show ?thesis by (simp add: thenM_def bindM_def)
    qed
  qed
qed (simp add: extends_refl returnM_def)

lemma seed_upserts_settle: "m \<in> set seed_upserts \<Longrightarrow> settles m"
proof -
  have "list_all settles seed_upserts"
    unfolding seed_upserts_def list.pred_inject
    by (intro conjI settles_upsert TrueI) (simp_all add: table_defs extends_def seed_rows subset_insertI)
  then show "m \<in> set seed_upserts \<Longrightarrow> settles m" by (simp add: list_all_iff)
qed

lemma seed_twice:
  assumes "seed value w = (Inr (), w')" "seed_allowed value'"
  shows "seed value' w' = (Inr (), w')"
  using assms settled_twice [of seed_upserts w w'] seed_upserts_settle extends_refl
  by (auto simp: seed_def thenM_def guardM_def bindM_def returnM_def throwM_def split: if_splits)

lemma seed_fills_empty:
  assumes "seed_allowed value" "w_db w = empty_db"
  shows "fst (seed value w) = Inr ()"
  using assms
  by (simp add: seed_def seed_upserts_def thenM_def guardM_def bindM_def returnM_def upsert_def
      find_unique_row_def getM_def now_def create_def table_defs empty_db_def seed_rows
      user_check_def membership_check_def refresh_check_def speaker_check_def consent_check_def
      model_check_def voiceprint_check_def call_check_def track_check_def binding_check_def
      session_check_def evidence_check_def evidence_readiness_check_def risk_event_check_def
      assessment_check_def intervention_check_def challenge_check_def alert_check_def
      nonneg_option_def option_le_def blank_def hex_digest_def seed_issuedAt_def seed_endedAt_def
      seed_expiresAt_def list_all_iff)

end
