(* ===== verification/Spec2Isabelle.thy ===== *)
theory Spec2Isabelle
  imports Configuration Domain_State_Machines Risk_Pipeline Risk_Repository Auth_Service Interventions Call_Invariants
    Risk_Decision Security_Gateway Evidence_Ingestion Request_Handling Governance
    Api_Answers Telemetry Connection Seed
begin

text \<open>
  SWAR is a backend that watches phone calls for voice fraud. A call is held in a LiveKit room; an
  audio track that a verified webhook reports is bound to its participant, and an analysis session
  is opened for the binding. The machine-learning service sends evidence about the session; the risk
  engine turns the accepted evidence into a risk state; a change of state is stored as a risk event
  with its interventions and alerts, an outbox delivers the alerts to the web sockets of the security
  dashboards, and operators acknowledge, hold and release the interventions. This development models
  the backend, \<open>src/backend/src\<close>; file names below are relative to it.

  How the model reads. A handler is an asynchronous method that reads and writes state and may throw.
  Here it is a function from the world to a result, \<open>Inl\<close> of an error or \<open>Inr\<close> of a value, and the
  next world; what was written before an error stays written unless a transaction rolls it back. The
  world (\<open>Store\<close>) holds the database, a clock whose readings are a sequence, the streams of generated
  identifiers and random texts, the log of the calls to external providers with their answers, which
  are given in advance, the write conflicts that the database will report, and the memory of the
  process: limiter windows, holds, receipts, audio buffers, web socket clients and the replay buffer.

  \<^bold>\<open>Foundations\<close>

  \<^item> \<open>Prelude\<close>: the errors, the monad, and its rules: \<open>keeps I m\<close>, an invariant survives \<open>m\<close> on either
    exit; \<open>gives\<close> and \<open>yields\<close>, what a run that returns gives. The rules are collected in \<open>hoare\<close>.
  \<^item> \<open>Js_Number\<close>: the doubles of JavaScript as rationals with rounding to nearest, ties to even; the
    locale \<open>unit_rounding\<close> is what the risk engine's lemmas use of them.
  \<^item> \<open>Schema\<close>, \<open>Tables\<close>: the models of \<open>prisma/schema.prisma\<close> as records and their unique keys and the
    check constraints of the migrations. The locale \<open>db_table\<close> is the interface of a table and is
    interpreted for every table.
  \<^item> \<open>Store\<close>, \<open>Store_Rules\<close>: the Prisma operations, \<open>$transaction\<close>, the retry loop of
    \<open>database/transaction.service.ts\<close>, and the rules for frames, refusals and atomicity.
  \<^item> \<open>Database_Types\<close>, \<open>Pagination\<close>: \<open>database/database.types.ts\<close>, \<open>database/pagination.ts\<close>.
  \<^item> \<open>Configuration\<close>: \<open>config/env.schema.ts\<close>, the parser of the environment.
  \<^item> \<open>Audit_Log\<close>: \<open>modules/audit\<close>. \<open>Domain_State_Machines\<close>: \<open>modules/domain\<close>, with the locale
    \<open>lifecycle\<close> interpreted for seven of the eight tables.

  \<^bold>\<open>Risk\<close>

  \<^item> \<open>Risk_Policy\<close>, \<open>Risk_Engine\<close>, \<open>Risk_Activation\<close>: the pure core, \<open>risk-policy.ts\<close>,
    \<open>risk-engine.ts\<close> and \<open>risk-activation-gate.service.ts\<close> of \<open>modules/risk\<close>.
  \<^item> \<open>Evidence\<close>: \<open>modules/evidence/evidence.repository.ts\<close>. \<open>Risk_Repository\<close>: \<open>risk.repository.ts\<close>.
  \<^item> \<open>Risk_Context\<close>, \<open>Risk_Pipeline\<close>: \<open>headless-risk-pipeline.service.ts\<close>, the transaction that
    records evidence, decides and writes the consequences. The locale \<open>pipeline_invariant\<close> is what an
    invariant must satisfy to survive the pipeline; it is interpreted for three.
  \<^item> \<open>Risk_Decision\<close>: \<open>risk-decision.service.ts\<close>, the older service, and its agreement with the
    pipeline.
  \<^item> \<open>Evidence_Ingestion\<close>: \<open>evidence-ingestion.service.ts\<close> and its route, which call both services,
    the outbox and the executor.

  \<^bold>\<open>Identity\<close>

  \<^item> \<open>Authorization\<close>, \<open>Refresh_Sessions\<close>, \<open>Auth_Service\<close>: \<open>modules/auth\<close>: permissions and guards,
    the refresh families, login, refresh, logout and the authentication of an access token.

  \<^bold>\<open>Calls\<close>

  \<^item> \<open>Providers\<close>: \<open>integrations/livekit\<close> and \<open>integrations/ml\<close>.
  \<^item> \<open>Enrollment\<close>, \<open>Enrollment_Service\<close>: \<open>modules/enrollment\<close>, \<open>modules/trusted-speakers\<close> and
    \<open>modules/voice-enrollment\<close>.
  \<^item> \<open>Call_Repository\<close>, \<open>Calls\<close>, \<open>Media\<close>: \<open>modules/calls\<close>, \<open>modules/analysis\<close>, \<open>modules/media\<close> and
    \<open>modules/maintenance\<close>. The locale \<open>repositories\<close> (\<open>Media\<close>) is what the services rely on: that
    every operation of the repositories keeps an invariant; then every sequence of requests and
    webhooks keeps it. \<open>Call_Invariants\<close> interprets it for three invariants.

  \<^bold>\<open>Consequences\<close>

  \<^item> \<open>Interventions\<close>: \<open>modules/interventions\<close>: the service, step-up verification, the demo adapters and
    the executor.
  \<^item> \<open>Security_Outbox\<close>, \<open>Outbox_Delivery\<close>: the outbox of \<open>modules/security-events\<close> and its promise.
    The locale \<open>event_publisher\<close> is what the outbox relies on.
  \<^item> \<open>Security_Gateway\<close>: \<open>security-events.gateway.ts\<close>, which is that publisher.
  \<^item> \<open>Governance\<close>: \<open>modules/governance\<close>, \<open>modules/security-operations\<close>, \<open>modules/identity\<close>.

  \<^bold>\<open>Requests\<close>

  \<^item> \<open>Idempotency\<close>: \<open>common/idempotency\<close> and \<open>common/api/request-contracts.ts\<close>, as interleaved steps.
  \<^item> \<open>Routes\<close>: the controllers of \<open>modules\<close>: the guards, the rate limit and the handler of every
    route, the use of the idempotency service and the answers. \<open>Member_Routes\<close>: the locale
    \<open>member_repositories\<close>, what the routes of members rely on. \<open>Tenant_Isolation\<close> interprets it: a
    request touches no row of another organization; the locales \<open>tenant_table\<close>,
    \<open>plain_tenant_table\<close> and \<open>keyed_tenant_table\<close> are the tables it writes.
  \<^item> \<open>Public_Api\<close>: \<open>contracts/public-openapi.ts\<close>: the schemas, what a value that fits one is, and the
    document's tables of operations, compared with the decorators and the answers of \<open>Routes\<close>.
    \<open>Api_Answers\<close> interprets \<open>member_repositories\<close> again: every answer fits its schema; the locales
    \<open>unread_table\<close> and \<open>described_table\<close> are the tables that a request writes and shows.
  \<^item> \<open>Telemetry\<close>: the metrics (\<open>common/logging\<close>) and the probes and routes of \<open>modules/health\<close>: no
    label adds a line to the metrics. \<open>Connection\<close>: \<open>database/prisma-client.factory.ts\<close>, which reads the
    environment once more: it accepts what the configuration accepts, with the same settings.
    \<open>Seed\<close>: \<open>prisma/seed.ts\<close>: refused outside development and test, adds nothing that lives, and does
    nothing when it runs again.
  \<^item> \<open>Request_Handling\<close>: request identifiers, content types, rate limits, the exception filter and the
    redaction of logs (\<open>common\<close>), and the readiness check (\<open>modules/health\<close>).

  \<^bold>\<open>What the lemmas show\<close>

  Separation: no request of a member changes a row of another organization. Types: what a member is
  answered fits the schema that the public document gives for the operation. Safety of the controls:
  with a promotion gate closed nothing is stored or done in production mode; shadow decisions only
  alert; an effective state needs its streak; a hold is released only after a passed challenge; the executor stays in demo mode. Integrity: one accepted event per slot, dense
  event numbers, atomic ingestion, replay and conflict of repeated requests, late evidence without
  effect. Sessions: one active refresh session per family, reuse and logout end access, guesses are
  bounded, what a token stands for. Calls: one live session per call, bound to an active track; calls
  follow the abstract lifecycle (a refinement); active voiceprints are consented. Delivery: every
  waiting alert is settled after finitely many flushes (liveness), and an event is sent only to a
  client that may read its call at that moment. Equivalences and round trips: the order of evidence
  is irrelevant, the two risk services agree, the two readers of the environment agree, policies and page cursors survive their round trips.
  Some lemmas show what the code does wrong; their texts say so.

  \<^bold>\<open>Bounds and fuel\<close>

  \<^item> \<open>serializable\<close> makes at most \<open>MAX_TRANSACTION_ATTEMPTS\<close> = 5 attempts and \<open>ingest_attempts\<close> at most
    3, the numbers of the source; the recursion is on the attempts that are left, and
    \<open>serializable_succeeds\<close> shows that fewer refused commits do no harm.
  \<^item> \<open>ml_attempts\<close> recurses on the attempts the configuration allows.
  \<^item> \<open>replace_all\<close> has the length of the text as fuel: every match consumes a character, and
    \<open>replace_all_enough\<close> shows that more fuel gives the same result.
  \<^item> \<open>conforms\<close> follows at most 3 references, one inside the other; in the document they nest twice.
    Its recursion is on the references left and the size of the schema.
  \<^item> All other recursion is structural. Integers are unbounded where the source has \<open>bigint\<close>; a
    \<open>number\<close> that is a count, a size or a time is an integer far below 2 to the 53.

  \<^bold>\<open>Not modelled\<close>

  \<^item> Libraries are parameters: Argon2, JWT, HMAC and SHA-256, AES, base64, the WHATWG URL parser, the
    LiveKit SDK, and JSON texts where only their equality or hash matters. The headers that sign a
    request to the ML service are left out.
  \<^item> Foreign keys: a statement that breaks one throws and writes nothing, as any error does.
    Identifiers are compared as texts; PostgreSQL ignores the case of a UUID.
  \<^item> Two requests interleave between handlers, and within \<open>execute\<close> of the idempotency service, whose
    point that is; inside the other handlers the statements of one request are not interleaved with
    those of another. What a compare-and-set or a serializable transaction guards is stated for the
    statement itself.
  \<^item> A field of a request that is \<open>null\<close> where the contract says optional.
  \<^item> Timers, the metrics that services report, log lines, the wiring of modules (\<open>bootstrap.ts\<close>,
    \<open>main.ts\<close>, \<open>*.module.ts\<close>), the validation that the decorators of the contracts ask the framework
    for, and the network connections of the database client and of the probes.
  \<^item> The frontend and the Python machine-learning service.
\<close>

end
